(* ===== verification/Prelude.thy ===== *)
theory Prelude
  imports Main "HOL-Library.Signed_Division" "HOL-Library.Product_Lexorder"
begin

text \<open>
  Shared vocabulary of the development: identifiers and instants, Go's 64-bit
  arithmetic, the string helpers of Go's standard library that the code uses, and
  the SQL statements of the repositories as operations on lists of rows.

  \<^item> \<open>uuid\<close> stands for \<open>uuid.UUID\<close>; \<open>uuid_nil\<close> is \<open>uuid.Nil\<close>. Fresh identifiers
    (\<open>uuid.New()\<close>) are arguments of the operations that draw them.
  \<^item> \<open>time\<close> is an instant in nanoseconds since the zero \<open>time.Time\<close> (1 January of
    year 1, UTC), so that \<open>IsZero\<close> is \<open>t = 0\<close>. Clocks are arguments.
  \<^item> A table is the list of its rows. \<open>update_where\<close>, \<open>delete_where\<close>,
    \<open>count_where\<close> and \<open>first_by\<close> are UPDATE, DELETE, COUNT and ORDER BY .. LIMIT 1.
\<close>

named_theorems tbl \<open>facts about table operations\<close>
named_theorems go_arith \<open>facts about Go's machine integers\<close>

type_synonym uuid = nat
type_synonym time = int

abbreviation (input) uuid_nil :: uuid where
  "uuid_nil \<equiv> 0"

abbreviation (input) is_zero_time :: "time \<Rightarrow> bool" where
  "is_zero_time t \<equiv> t = 0"

definition second :: time where "second = 1000000000"
definition hour :: time where "hour = 3600 * second"
definition day :: time where "day = 24 * hour"

lemma day_pos [simp]: "0 < day"
  by (simp add: day_def hour_def second_def)

text \<open>Optional values: \<open>COALESCE\<close> and the pointer fields of Go structs.\<close>

fun coalesce :: "'a option \<Rightarrow> 'a \<Rightarrow> 'a" where
  "coalesce (Some x) _ = x"
| "coalesce None d = d"

section \<open>Signed 64-bit integers\<close>

text \<open>An \<open>int64\<close> is an integer; \<open>i64\<close> is the wrap-around of an overflowing operation.\<close>

definition i64 :: "int \<Rightarrow> int" where
  "i64 x = (x + 2 ^ 63) mod 2 ^ 64 - 2 ^ 63"

definition in_i64 :: "int \<Rightarrow> bool" where
  "in_i64 x \<longleftrightarrow> - (2 ^ 63) \<le> x \<and> x < 2 ^ 63"

lemma i64_id [go_arith]: "in_i64 x \<Longrightarrow> i64 x = x"
  by (simp add: i64_def in_i64_def)

lemma i64_in_i64 [go_arith, simp]: "in_i64 (i64 x)"
  unfolding i64_def in_i64_def
  using pos_mod_bound [of "2 ^ 64" "x + 2 ^ 63"] pos_mod_sign [of "2 ^ 64" "x + 2 ^ 63"]
  by simp

lemma i64_small [go_arith]: "0 \<le> x \<Longrightarrow> x < 2 ^ 63 \<Longrightarrow> i64 x = x"
  by (rule i64_id) (simp add: in_i64_def)

section \<open>Strings\<close>

text \<open>Go strings are byte strings; \<open>strings.HasPrefix\<close>, \<open>strings.HasSuffix\<close>.\<close>

definition has_prefix :: "string \<Rightarrow> string \<Rightarrow> bool" where
  "has_prefix s p \<longleftrightarrow> take (length p) s = p"

definition has_suffix :: "string \<Rightarrow> string \<Rightarrow> bool" where
  "has_suffix s p \<longleftrightarrow> has_prefix (rev s) (rev p)"

text \<open>Letters in ASCII: what \<open>strings.ToLower\<close> does to one that is in the range A to Z.\<close>

definition ascii_lower :: "char \<Rightarrow> char" where
  "ascii_lower c = (if 65 \<le> (of_char c :: nat) \<and> (of_char c :: nat) \<le> 90
     then char_of (of_char c + 32 :: nat) else c)"

text \<open>
  What PostgreSQL accepts as text: no zero byte, and UTF-8 without overlong forms,
  surrogates or code points past the last.
\<close>

definition utf8_tail :: "nat \<Rightarrow> bool" where
  "utf8_tail b \<longleftrightarrow> 128 \<le> b \<and> b \<le> 191"

fun utf8_bytes :: "nat list \<Rightarrow> bool" where
  "utf8_bytes [] = True"
| "utf8_bytes [a] = (0 < a \<and> a < 128)"
| "utf8_bytes [a, b] =
     (if a < 128 then 0 < a \<and> utf8_bytes [b] else 194 \<le> a \<and> a \<le> 223 \<and> utf8_tail b)"
| "utf8_bytes [a, b, c] =
     (if a < 128 then 0 < a \<and> utf8_bytes [b, c]
      else if a < 224 then 194 \<le> a \<and> utf8_tail b \<and> utf8_bytes [c]
      else a \<le> 239 \<and> utf8_tail b \<and> utf8_tail c \<and> (a = 224 \<longrightarrow> 160 \<le> b) \<and> (a = 237 \<longrightarrow> b \<le> 159))"
| "utf8_bytes (a # b # c # d # r) =
     (if a < 128 then 0 < a \<and> utf8_bytes (b # c # d # r)
      else if a < 224 then 194 \<le> a \<and> utf8_tail b \<and> utf8_bytes (c # d # r)
      else if a < 240 then utf8_tail b \<and> utf8_tail c \<and> (a = 224 \<longrightarrow> 160 \<le> b) \<and>
        (a = 237 \<longrightarrow> b \<le> 159) \<and> utf8_bytes (d # r)
      else a \<le> 244 \<and> utf8_tail b \<and> utf8_tail c \<and> utf8_tail d \<and> (a = 240 \<longrightarrow> 144 \<le> b) \<and>
        (a = 244 \<longrightarrow> b \<le> 143) \<and> utf8_bytes r)"

definition text_ok :: "string \<Rightarrow> bool" where
  "text_ok s = utf8_bytes (map of_char s)"

text \<open>
  The characters \<open>strings.TrimSpace\<close> removes: Unicode white space, each as its UTF-8
  bytes.
\<close>

definition utf8_spaces :: "string list" where
  "utf8_spaces =
     [[CHR 0x09], [CHR 0x0A], [CHR 0x0B], [CHR 0x0C], [CHR 0x0D], [CHR 0x20],
      [CHR 0xC2, CHR 0x85], [CHR 0xC2, CHR 0xA0], [CHR 0xE1, CHR 0x9A, CHR 0x80],
      [CHR 0xE2, CHR 0x80, CHR 0x80], [CHR 0xE2, CHR 0x80, CHR 0x81],
      [CHR 0xE2, CHR 0x80, CHR 0x82], [CHR 0xE2, CHR 0x80, CHR 0x83],
      [CHR 0xE2, CHR 0x80, CHR 0x84], [CHR 0xE2, CHR 0x80, CHR 0x85],
      [CHR 0xE2, CHR 0x80, CHR 0x86], [CHR 0xE2, CHR 0x80, CHR 0x87],
      [CHR 0xE2, CHR 0x80, CHR 0x88], [CHR 0xE2, CHR 0x80, CHR 0x89],
      [CHR 0xE2, CHR 0x80, CHR 0x8A], [CHR 0xE2, CHR 0x80, CHR 0xA8],
      [CHR 0xE2, CHR 0x80, CHR 0xA9], [CHR 0xE2, CHR 0x80, CHR 0xAF],
      [CHR 0xE2, CHR 0x81, CHR 0x9F], [CHR 0xE3, CHR 0x80, CHR 0x80]]"

text \<open>\<open>trim_left ps s\<close> drops members of \<open>ps\<close> from the front of \<open>s\<close> while there is one.\<close>

fun trim_left_fuel :: "nat \<Rightarrow> string list \<Rightarrow> string \<Rightarrow> string" where
  "trim_left_fuel 0 ps s = s"
| "trim_left_fuel (Suc n) ps s =
     (case find (\<lambda>p. has_prefix s p) ps of
        None \<Rightarrow> s
      | Some p \<Rightarrow> trim_left_fuel n ps (drop (length p) s))"

definition trim_left :: "string list \<Rightarrow> string \<Rightarrow> string" where
  "trim_left ps s = trim_left_fuel (length s) ps s"

definition trim_space :: "string \<Rightarrow> string" where
  "trim_space s = rev (trim_left (map rev utf8_spaces) (rev (trim_left utf8_spaces s)))"

text \<open>One unit of fuel per byte is enough: every dropped prefix has at least one.\<close>

lemma trim_left_fuel_enough:
  assumes "\<forall>p \<in> set ps. p \<noteq> []" "length s \<le> n"
  shows "find (\<lambda>p. has_prefix (trim_left_fuel n ps s) p) ps = None"
  using assms
proof (induction n arbitrary: s)
  case 0
  then have "s = []" by simp
  moreover have "\<not> has_prefix [] p" if "p \<in> set ps" for p
    using 0 that by (auto simp: has_prefix_def)
  ultimately show ?case by (simp add: find_None_iff)
next
  case (Suc n)
  show ?case
  proof (cases "find (\<lambda>p. has_prefix s p) ps")
    case (Some p)
    then have "p \<in> set ps" "has_prefix s p"
      by (auto simp: find_Some_iff)
    with Suc.prems have "length (drop (length p) s) \<le> n"
      by (cases p) auto
    with Suc.IH [OF Suc.prems(1)] Some show ?thesis by simp
  qed simp
qed

lemma has_prefix_Nil [simp]: "has_prefix s []"
  by (simp add: has_prefix_def)

lemma has_prefix_append [simp]: "has_prefix (p @ s) p"
  by (simp add: has_prefix_def)

section \<open>Tables\<close>

definition update_where :: "('r \<Rightarrow> bool) \<Rightarrow> ('r \<Rightarrow> 'r) \<Rightarrow> 'r list \<Rightarrow> 'r list" where
  "update_where p f t = map (\<lambda>r. if p r then f r else r) t"

definition delete_where :: "('r \<Rightarrow> bool) \<Rightarrow> 'r list \<Rightarrow> 'r list" where
  "delete_where p t = filter (\<lambda>r. \<not> p r) t"

definition count_where :: "('r \<Rightarrow> bool) \<Rightarrow> 'r list \<Rightarrow> nat" where
  "count_where p t = length (filter p t)"

text \<open>\<open>sum_where\<close> is \<open>COALESCE(SUM(f), 0)\<close> over the rows that satisfy \<open>p\<close>.\<close>

definition sum_where :: "('r \<Rightarrow> bool) \<Rightarrow> ('r \<Rightarrow> int) \<Rightarrow> 'r list \<Rightarrow> int" where
  "sum_where p f t = sum_list (map f (filter p t))"

definition first_by :: "('r \<Rightarrow> 'k::linorder) \<Rightarrow> ('r \<Rightarrow> bool) \<Rightarrow> 'r list \<Rightarrow> 'r option" where
  "first_by k p t = (case sort_key k (filter p t) of [] \<Rightarrow> None | r # _ \<Rightarrow> Some r)"

lemma count_where_Nil [tbl, simp]: "count_where p [] = 0"
  by (simp add: count_where_def)

lemma count_where_Cons [tbl, simp]:
  "count_where p (r # t) = (if p r then Suc (count_where p t) else count_where p t)"
  by (simp add: count_where_def)

lemma count_where_append [tbl, simp]: "count_where p (t @ u) = count_where p t + count_where p u"
  by (simp add: count_where_def)

lemma count_where_0_iff [tbl]: "count_where p t = 0 \<longleftrightarrow> (\<forall>r \<in> set t. \<not> p r)"
  by (auto simp: count_where_def filter_empty_conv)

lemma count_where_pos_iff [tbl]: "0 < count_where p t \<longleftrightarrow> (\<exists>r \<in> set t. p r)"
  using count_where_0_iff [of p t] by auto

lemma sum_where_Nil [tbl, simp]: "sum_where p f [] = 0"
  by (simp add: sum_where_def)

lemma sum_where_Cons [tbl, simp]:
  "sum_where p f (r # t) = (if p r then f r else 0) + sum_where p f t"
  by (simp add: sum_where_def)

lemma sum_where_append [tbl, simp]: "sum_where p f (t @ u) = sum_where p f t + sum_where p f u"
  by (simp add: sum_where_def)

lemma sum_where_nonneg [tbl]: "\<forall>r \<in> set t. p r \<longrightarrow> 0 \<le> f r \<Longrightarrow> 0 \<le> sum_where p f t"
  by (induction t) auto

lemma update_where_Nil [tbl, simp]: "update_where p f [] = []"
  by (simp add: update_where_def)

lemma update_where_Cons [tbl, simp]:
  "update_where p f (r # t) = (if p r then f r else r) # update_where p f t"
  by (simp add: update_where_def)

lemma length_update_where [tbl, simp]: "length (update_where p f t) = length t"
  by (simp add: update_where_def)

lemma set_update_where [tbl]: "set (update_where p f t) = (\<lambda>r. if p r then f r else r) ` set t"
  by (simp add: update_where_def)

lemma in_update_whereE:
  assumes "r \<in> set (update_where p f t)"
  obtains x where "x \<in> set t" "r = (if p x then f x else x)"
  using assms by (auto simp: set_update_where)

lemma update_where_none [tbl]: "\<forall>r \<in> set t. \<not> p r \<Longrightarrow> update_where p f t = t"
  by (induction t) auto

lemma map_update_where_same [tbl]:
  "(\<And>r. p r \<Longrightarrow> k (f r) = k r) \<Longrightarrow> map k (update_where p f t) = map k t"
  by (induction t) auto

lemma delete_where_Nil [tbl, simp]: "delete_where p [] = []"
  by (simp add: delete_where_def)

lemma set_delete_where [tbl, simp]: "set (delete_where p t) = {r \<in> set t. \<not> p r}"
  by (simp add: delete_where_def)

lemma first_by_None [tbl]: "first_by k p t = None \<longleftrightarrow> (\<forall>r \<in> set t. \<not> p r)"
proof -
  have "sort_key k (filter p t) = [] \<longleftrightarrow> filter p t = []"
    by (metis length_0_conv length_sort)
  then show ?thesis
    by (auto simp: first_by_def filter_empty_conv split: list.splits)
qed

lemma first_by_Some [tbl]: "first_by k p t = Some r \<Longrightarrow> r \<in> set t \<and> p r"
proof -
  assume a: "first_by k p t = Some r"
  then obtain u where "sort_key k (filter p t) = r # u"
    by (auto simp: first_by_def split: list.splits)
  then have "r \<in> set (sort_key k (filter p t))" by simp
  then show ?thesis by (simp only: set_sort) simp
qed

lemma first_by_least [tbl]:
  assumes "first_by k p t = Some r" "x \<in> set t" "p x"
  shows "k r \<le> k x"
proof -
  from assms(1) obtain u where u: "sort_key k (filter p t) = r # u"
    by (auto simp: first_by_def split: list.splits)
  have "sorted (map k (r # u))"
    using sorted_sort_key [of k "filter p t"] u by simp
  moreover have "x \<in> set (r # u)"
    using assms(2,3) by (simp flip: u)
  ultimately show ?thesis by auto
qed

text \<open>
  Rows are addressed by a key. \<open>keyed\<close> is the primary-key constraint; under it a
  lookup after an update finds the updated row.
\<close>

definition lookup_row :: "('r \<Rightarrow> uuid) \<Rightarrow> uuid \<Rightarrow> 'r list \<Rightarrow> 'r option" where
  "lookup_row k i t = find (\<lambda>r. k r = i) t"

definition keyed :: "('r \<Rightarrow> uuid) \<Rightarrow> 'r list \<Rightarrow> bool" where
  "keyed k t \<longleftrightarrow> distinct (map k t)"

lemma lookup_row_Nil [tbl, simp]: "lookup_row k i [] = None"
  by (simp add: lookup_row_def)

lemma lookup_row_Cons [tbl, simp]:
  "lookup_row k i (r # t) = (if k r = i then Some r else lookup_row k i t)"
  by (simp add: lookup_row_def)

lemma lookup_row_Some [tbl]: "lookup_row k i t = Some r \<Longrightarrow> r \<in> set t \<and> k r = i"
  by (auto simp: lookup_row_def find_Some_iff)

lemma lookup_row_None [tbl]: "lookup_row k i t = None \<longleftrightarrow> (\<forall>r \<in> set t. k r \<noteq> i)"
  by (auto simp: lookup_row_def find_None_iff)

lemma lookup_row_append [tbl]:
  "lookup_row k i (t @ u) = (case lookup_row k i t of None \<Rightarrow> lookup_row k i u | Some r \<Rightarrow> Some r)"
  by (induction t) auto

lemma lookup_row_update [tbl]:
  assumes "\<And>r. p r \<Longrightarrow> k (f r) = k r"
  shows "lookup_row k i (update_where p f t) =
    map_option (\<lambda>r. if p r then f r else r) (lookup_row k i t)"
  using assms by (induction t) auto

lemma keyed_lookup [tbl]: "keyed k t \<Longrightarrow> r \<in> set t \<Longrightarrow> lookup_row k (k r) t = Some r"
  by (induction t) (auto simp: keyed_def rev_image_eqI)

lemma keyed_update [tbl]: "(\<And>r. p r \<Longrightarrow> k (f r) = k r) \<Longrightarrow> keyed k (update_where p f t) = keyed k t"
  by (simp add: keyed_def map_update_where_same)

lemma keyed_append_new [tbl]:
  "keyed k t \<Longrightarrow> lookup_row k (k r) t = None \<Longrightarrow> keyed k (t @ [r])"
  by (auto simp: keyed_def lookup_row_None)

text \<open>An update of one key leaves every other row as it was.\<close>

lemma lookup_row_update_other [tbl]:
  assumes "\<And>r. p r \<Longrightarrow> k r = j" "\<And>r. p r \<Longrightarrow> k (f r) = k r" "i \<noteq> j"
  shows "lookup_row k i (update_where p f t) = lookup_row k i t"
  using assms by (induction t) auto

end
