(* ===== verification/Schema.thy ===== *)
theory Schema
  imports Prelude
begin

text \<open>
  The data model: the structs the feature packages persist, the enumerations and
  sentinel errors they use, and the database that holds one table per struct.

  A struct is a record whose fields are the Go fields behind a prefix that keeps the
  records apart (\<open>pu_\<close> for \<open>billing.Purchase\<close>, \<open>ev_\<close> for \<open>event.Event\<close>, \<open>md_\<close> for
  \<open>media.Media\<close>, and so on). A pointer field is an \<open>option\<close>. Columns that only SQL
  statements touch (the item counters of \<open>events\<close>) are fields named like the column.
  A string enumeration is a datatype of its constants; one whose value can arrive from
  a request has a constructor for the remaining strings.
\<close>

section \<open>Plan catalog (internal/catalog)\<close>

type_synonym plan_code = string

definition PlanFree :: plan_code where "PlanFree = ''free''"
definition PlanExperience :: plan_code where "PlanExperience = ''experience''"
definition PlanSignature :: plan_code where "PlanSignature = ''signature''"

lemma plan_codes_distinct [simp]:
  "PlanFree \<noteq> PlanExperience" "PlanExperience \<noteq> PlanFree"
  "PlanFree \<noteq> PlanSignature" "PlanSignature \<noteq> PlanFree"
  "PlanExperience \<noteq> PlanSignature" "PlanSignature \<noteq> PlanExperience"
  by (simp_all add: PlanFree_def PlanExperience_def PlanSignature_def)

datatype feature =
    FeatureZIPExport
  | FeatureFeatureMedia
  | FeatureBulkModeration
  | FeatureFullCustomization
  | FeatureRemoveBranding
  | FeatureFullLiveWall
  | FeatureThroughTheMoment
  | FeatureQRSourceAnalytics
  | FeatureOther string

record limits =
  MaxGuests :: int
  MaxMediaItems :: int
  MaxPhotoItems :: int
  MaxVideoItems :: int
  MaxMediaBytes :: int
  MaxLiveWallItems :: int
  RetentionDays :: int

record entitlements =
  Features :: "feature list"
  FairUse :: bool
  Limits :: limits

datatype version_status = VersionDraft | VersionActive | VersionRetired

record version =
  pv_ID :: uuid
  pv_Code :: plan_code
  pv_Version :: int
  pv_DisplayName :: string
  pv_Status :: version_status
  pv_Entitlements :: entitlements
  pv_CreatedAt :: time
  pv_ActivatedAt :: "time option"
  pv_RetiredAt :: "time option"

record price =
  pp_ID :: uuid
  pp_PlanVersionID :: uuid
  pp_Currency :: string
  pp_AmountMinor :: int
  pp_CompareAtMinor :: "int option"
  pp_ReturningAmountMinor :: "int option"
  pp_ValidFrom :: time
  pp_ValidUntil :: "time option"
  pp_CreatedAt :: time

record plan_definition =
  pd_Code :: plan_code
  pd_TierRank :: int
  pd_Sellable :: bool
  pd_RetiredAt :: "string option"

section \<open>Events (internal/event)\<close>

datatype event_status = EventDraft | EventActive | EventClosed | EventDeleted

datatype event_billing_status = EventBillingOK | EventBillingPaymentReview | EventBillingRefunded

record event =
  ev_ID :: uuid
  ev_HostID :: uuid
  ev_ClientRequestID :: "uuid option"
  ev_Name :: string
  ev_Slug :: string
  ev_EventDate :: "time option"
  ev_EventType :: string
  ev_ExpectedGuestCount :: int
  ev_Status :: event_status
  ev_GalleryEnabled :: bool
  ev_LifecyclePhase :: "string option"
  ev_SetupChecklist :: string
  ev_CandidCameraEnabled :: bool
  ev_GuestTheme :: "string option"
  ev_QRConfig :: "string option"
  ev_MaxMediaBytes :: int
  ev_UsedMediaBytes :: int
  ev_ReservedMediaBytes :: int
  ev_TrialStartedAt :: "time option"
  ev_TrialEndedAt :: "time option"
  ev_BillingStatus :: event_billing_status
  ev_CreatedAt :: time
  ev_UpdatedAt :: time
  max_media_items :: int
  uploaded_media_items :: int
  reserved_media_items :: int
  max_photo_items :: int
  uploaded_photo_items :: int
  reserved_photo_items :: int
  max_video_items :: int
  uploaded_video_items :: int
  reserved_video_items :: int
  media_purged_at :: "time option"

section \<open>Media (internal/media, internal/mediajob, internal/archive)\<close>

datatype media_status =
    MediaPending
  | MediaUploading
  | MediaUploaded
  | MediaProcessing
  | MediaReady
  | MediaFeatured
  | MediaHidden
  | MediaFailed
  | MediaDeleted
  | MediaStatusOther string

text \<open>
  \<open>DurationSeconds\<close> and \<open>TransitionCueSeconds\<close> are \<open>float64\<close> in the code; the code
  only stores and copies them here, so they are kept as opaque numbers.
\<close>

record media =
  md_ID :: uuid
  md_EventID :: uuid
  md_GuestSessionID :: uuid
  md_ObjectKey :: string
  md_OriginalFilename :: string
  md_MIMEType :: string
  md_GuestName :: "string option"
  md_Caption :: "string option"
  md_ExpectedSize :: int
  md_ActualSize :: "int option"
  md_ChecksumSHA256 :: string
  md_ClientUploadID :: "uuid option"
  md_Status :: media_status
  md_CreatedAt :: time
  md_LastActivityAt :: time
  md_UploadedAt :: "time option"
  md_FailedAt :: "time option"
  md_ThumbnailReady :: bool
  md_Width :: "int option"
  md_Height :: "int option"
  md_DurationSeconds :: "int option"
  md_TransitionCueSeconds :: "int option"
  md_SourceDeletedAt :: "time option"

datatype job_status = JobQueued | JobProcessing | JobDone | JobFailed

datatype job_kind = KindThumbnail | KindOther string

record media_job =
  mj_ID :: uuid
  mj_MediaID :: uuid
  mj_Kind :: job_kind
  mj_Status :: job_status
  mj_Attempts :: int
  mj_RunAfter :: time
  mj_LastError :: "string option"
  mj_CreatedAt :: time
  mj_UpdatedAt :: time

text \<open>Guest sessions (internal/guest); a token hash is the byte string the digest is.\<close>

record guest_session =
  gs_ID :: uuid
  gs_EventID :: uuid
  gs_QRSourceCode :: "string option"
  gs_TokenHash :: string
  gs_ExpiresAt :: time
  gs_CreatedAt :: time

datatype export_status = ExportQueued | ExportProcessing | ExportReady | ExportFailed

record export_job =
  ex_ID :: uuid
  ex_EventID :: uuid
  ex_Status :: export_status
  ex_ObjectKey :: "string option"
  ex_ErrorMessage :: "string option"
  ex_CreatedAt :: time
  ex_CompletedAt :: "time option"

datatype replica_provider = ProviderGoogleDrive | ProviderR2

datatype replica_state = ReplicaCopying | ReplicaVerified | ReplicaDeleted | ReplicaFailed

record storage_replica =
  sr_media_id :: uuid
  sr_provider :: replica_provider
  sr_location_reference :: string
  sr_state :: replica_state
  sr_size :: "int option"
  sr_checksum_sha256 :: "string option"
  sr_verified_at :: "time option"
  sr_deleted_at :: "time option"

text \<open>Live wall sessions (internal/livewall).\<close>

datatype wall_status = WallLive | WallEnded | WallRevoked

datatype content_policy = ContentPolicyFeaturedOnly | ContentPolicyAutoApproved | PolicyOther string

datatype layout_mode = LayoutModeSpotlight | LayoutModeMosaic | LayoutModeFeatured | LayoutOther string

datatype qr_strategy =
    QRStrategyInterval
  | QRStrategyAlways
  | QRStrategyEmptyOnly
  | QRStrategyHidden
  | QROther string

datatype arrival_behavior = ArrivalBehaviorQueue | ArrivalBehaviorNext | ArrivalOther string

datatype transition_mode =
    TransitionModeClassic
  | TransitionModeCinematic
  | TransitionModeFloat3D
  | TransitionModeFlash
  | TransitionModeLivingMosaic
  | TransitionOther string

record wall_session =
  lw_ID :: uuid
  lw_EventID :: uuid
  lw_EventName :: string
  lw_EventSlug :: string
  lw_TokenHash :: string
  lw_Status :: wall_status
  lw_ContentPolicy :: content_policy
  lw_IsPlaying :: bool
  lw_ShowCTA :: bool
  lw_IsBlackout :: bool
  lw_CTAEveryMedia :: int
  lw_LayoutMode :: layout_mode
  lw_SlideDuration :: int
  lw_QRStrategy :: qr_strategy
  lw_ArrivalBehavior :: arrival_behavior
  lw_TransitionMode :: transition_mode
  lw_Revision :: int
  lw_ExpiresAt :: time
  lw_CreatedAt :: time
  lw_EndedAt :: "time option"

section \<open>Plans of an event (internal/entitlement)\<close>

datatype grant_status = GrantActive | GrantRevoked | GrantSuperseded

datatype grant_source =
    SourceSystem
  | SourceManual
  | SourceMigration
  | SourcePromotion
  | SourceExternal
  | SourcePurchase
  | SourceReferral
  | SourceAdmin
  | SourceBusiness
  | SourceOther string

record grant =
  gr_ID :: uuid
  gr_EventID :: uuid
  gr_PlanVersionID :: uuid
  gr_EventLicenseID :: "uuid option"
  gr_Status :: grant_status
  gr_Source :: grant_source
  gr_SourceReference :: "string option"
  gr_ActorID :: "uuid option"
  gr_EntitlementSnapshot :: entitlements
  gr_ActivatedAt :: time
  gr_UploadExpiresAt :: time
  gr_RetentionExpiresAt :: time
  gr_CreatedAt :: time

record audit =
  au_ID :: uuid
  au_EventID :: uuid
  au_GrantID :: uuid
  au_PreviousPlan :: "plan_code option"
  au_TargetPlan :: plan_code
  au_Source :: grant_source
  au_SourceReference :: "string option"
  au_ActorID :: "uuid option"
  au_Reason :: "string option"
  au_CreatedAt :: time

datatype license_status =
  LicenseAvailable | LicenseReserved | LicenseConsumed | LicenseRevoked | LicenseExpired

datatype license_source =
  LicensePurchase | LicensePromotion | LicenseReferral | LicenseAdmin | LicenseBusiness

record event_license =
  li_ID :: uuid
  li_AccountID :: uuid
  li_PlanVersionID :: uuid
  li_Status :: license_status
  li_Source :: license_source
  li_PurchaseID :: "uuid option"
  li_PaymentProvider :: "string option"
  li_ProviderTransactionID :: "string option"
  li_PurchaseAmountMinor :: "int option"
  li_PurchaseCurrency :: "string option"
  li_ReservedEventID :: "uuid option"
  li_ConsumedEventID :: "uuid option"
  li_CreatedAt :: time
  li_ReservedAt :: "time option"
  li_ConsumedAt :: "time option"
  li_RevokedAt :: "time option"
  li_ExpiresAt :: "time option"

section \<open>Purchases (internal/billing)\<close>

type_synonym provider = string

datatype purchase_status =
    StatusPending
  | StatusCheckoutCreated
  | StatusSettled
  | StatusFailed
  | StatusCanceled
  | StatusPartiallyRefunded
  | StatusRefunded
  | StatusDisputed

datatype pricing_reason =
  PricingFirstPurchase | PricingReturning | PricingUpgrade | PricingPromotion

datatype pricing_context = ContextFirst | ContextReturning

record purchase =
  pu_ID :: uuid
  pu_EventID :: uuid
  pu_HostID :: uuid
  pu_PlanCode :: plan_code
  pu_PlanVersionID :: uuid
  pu_QuotedAmountMinor :: int
  pu_BaseAmountMinor :: int
  pu_DiscountAmountMinor :: int
  pu_UpgradeCreditMinor :: int
  pu_PricingReason :: pricing_reason
  pu_PricingContext :: pricing_context
  pu_PricingVersion :: string
  pu_QuotedCurrency :: string
  pu_RefundedAmountMinor :: int
  pu_SettledSubtotalMinor :: "int option"
  pu_SettledTaxMinor :: "int option"
  pu_SettledTotalMinor :: "int option"
  pu_SettledCurrency :: "string option"
  pu_Status :: purchase_status
  pu_Provider :: provider
  pu_ProviderPriceID :: string
  pu_ProviderCheckoutID :: "string option"
  pu_ProviderTransactionID :: "string option"
  pu_IdempotencyKey :: string
  pu_CheckoutURL :: "string option"
  pu_FailureCode :: "string option"
  pu_CreatedAt :: time
  pu_UpdatedAt :: time
  pu_SettledAt :: "time option"
  pu_EntitlementAppliedAt :: "time option"

record provider_product =
  px_ID :: uuid
  px_Provider :: provider
  px_PlanCode :: plan_code
  px_ProviderProductID :: string
  px_Active :: bool
  px_CreatedAt :: time
  px_RetiredAt :: "time option"

record provider_price =
  pc_ID :: uuid
  pc_Provider :: provider
  pc_PlanVersionID :: uuid
  pc_Currency :: string
  pc_ProviderPriceID :: string
  pc_AmountMinor :: int
  pc_Active :: bool
  pc_CreatedAt :: time
  pc_RetiredAt :: "time option"

datatype provider_event_type =
    EventPaymentSettled
  | EventPaymentFailed
  | EventPaymentCanceled
  | EventPaymentRefunded
  | EventPaymentDisputed
  | EventPaymentDisputeReversed
  | EventIgnored
  | EventTypeOther string

datatype delivery_status = DeliveryReceived | DeliveryProcessed | DeliveryFailed

section \<open>Accounts (internal/user, internal/profile) and QR sources (internal/insights)\<close>

record user =
  ur_ID :: uuid
  ur_BetterAuthUserID :: string
  ur_Email :: string
  ur_DisplayName :: string
  ur_EmailVerifiedAt :: "time option"
  ur_LastAuthenticatedAt :: "time option"
  ur_CreatedAt :: time
  ur_UpdatedAt :: time

datatype document_type = DocumentTerms | DocumentPrivacy

record consent =
  cn_UserID :: uuid
  cn_DocumentType :: document_type
  cn_DocumentVersion :: string
  cn_AcceptedAt :: time

record qr_source =
  qs_ID :: uuid
  qs_EventID :: uuid
  qs_Code :: string
  qs_Name :: string
  qs_CreatedAt :: time

section \<open>Errors\<close>

text \<open>
  Go returns errors of one interface type and compares sentinels with \<open>errors.Is\<close>,
  which sees through wrapping. The sentinels of a package are a datatype; \<open>error\<close> is
  their union. An error built by \<open>fmt.Errorf\<close> without a sentinel is \<open>Fmt\<close> with its
  text; wrapping (\<open>%w\<close>) keeps the wrapped error.
\<close>

datatype db_error =
    ErrRecordNotFound
  | ErrDuplicatedKey
  | ErrCheckViolated
  | ErrForeignKeyViolated
  | ErrOutOfRange
  | ErrInvalidText
  | ErrConnection

datatype billing_error =
    ErrBillingDisabled
  | ErrInvalidPlanTransition
  | ErrPriceNotAvailable
  | ErrProviderPriceNotFound
  | ErrProviderProductNotFound
  | ErrPurchaseConflict
  | ErrIdempotencyConflict
  | ErrPurchaseNotFound
  | ErrPurchaseAlreadySettled
  | ErrPaymentIntegrityMismatch
  | ErrUnsupportedCurrency

datatype entitlement_error =
    ErrNoActiveGrant
  | ErrEventNotFound
  | ErrDuplicateSourceReference
  | ErrSourceReferenceRequired
  | ErrInvalidSource
  | ErrUnknownPlan
  | ErrInvalidTransition
  | ErrNothingToRestore

datatype license_error = ErrLicenseUnavailable | ErrLicenseOwnership

datatype quota_resource = ResourceBytes | ResourceMedia | ResourcePhoto | ResourceVideo

datatype media_error =
    ErrMediaNotFound
  | ErrDuplicate
  | ErrUploadClosed
  | QuotaError quota_resource int int

datatype event_error =
  ErrEvtNotFound | ErrDuplicateRequest | ErrActiveEventLimitReached | ErrTrialWindowLimitReached

datatype guest_error = ErrGuestLimitReached

datatype mediajob_error = ErrNoQueuedJob

datatype export_error = ErrExportNotFound | ErrExportNoQueuedJob

datatype retention_error = ErrArchiveUnavailable

datatype wall_error =
    ErrWallNotFound
  | ErrInvalidCommand
  | ErrInvalidContentPolicy
  | ErrInvalidCTAEveryMedia
  | ErrInvalidPresentation
  | ErrRevisionConflict

datatype profile_error = ErrEmailUnverified | ErrConsentRequired | ErrInvalidConsent

datatype error =
    DB db_error
  | Fmt string
  | Billing billing_error
  | Entitlement entitlement_error
  | License license_error
  | Media media_error
  | Event event_error
  | Guest guest_error
  | MediaJob mediajob_error
  | Export export_error
  | Retention retention_error
  | Wall wall_error
  | CatalogNotFound
  | Profile profile_error
  | InsightsNotFound
  | FeatureError feature plan_code

record provider_event_record =
  pe_ID :: uuid
  pe_Provider :: provider
  pe_ExternalEventID :: string
  pe_EventType :: provider_event_type
  pe_PurchaseID :: "uuid option"
  pe_PayloadHash :: string
  pe_Status :: delivery_status
  pe_AttemptCount :: int
  pe_LastError :: "error option"
  pe_ReceivedAt :: time
  pe_ProcessedAt :: "time option"

section \<open>The database\<close>

record db =
  t_events :: "event list"
  t_media :: "media list"
  t_media_jobs :: "media_job list"
  t_guest_sessions :: "guest_session list"
  t_exports :: "export_job list"
  t_replicas :: "storage_replica list"
  t_walls :: "wall_session list"
  t_plan_versions :: "version list"
  t_plan_prices :: "price list"
  t_grants :: "grant list"
  t_audits :: "audit list"
  t_licenses :: "event_license list"
  t_purchases :: "purchase list"
  t_provider_events :: "provider_event_record list"
  t_provider_prices :: "provider_price list"
  t_provider_products :: "provider_product list"
  t_users :: "user list"
  t_consents :: "consent list"
  t_qr_sources :: "qr_source list"

text \<open>
  A Go \<open>(T, error)\<close> result is \<open>error + 'a\<close>. A transaction that returns an error
  leaves the database as it was: \<open>transaction f s\<close> runs \<open>f\<close> and keeps its state only
  when it succeeds.
\<close>

definition transaction :: "('s \<Rightarrow> error + ('a \<times> 's)) \<Rightarrow> 's \<Rightarrow> (error + 'a) \<times> 's" where
  "transaction f s = (case f s of Inl e \<Rightarrow> (Inl e, s) | Inr (x, s') \<Rightarrow> (Inr x, s'))"

lemma transaction_error [simp]: "f s = Inl e \<Longrightarrow> transaction f s = (Inl e, s)"
  by (simp add: transaction_def)

lemma transaction_ok [simp]: "f s = Inr (x, s') \<Longrightarrow> transaction f s = (Inr x, s')"
  by (simp add: transaction_def)

lemma transaction_atomic: "fst (transaction f s) = Inl e \<Longrightarrow> snd (transaction f s) = s"
  by (auto simp: transaction_def split: sum.splits prod.splits)

end
