(* ===== verification/Customization.thy ===== *)
theory Customization
  imports Schema
begin

text \<open>
  What a plan without full customization may save (internal/event/customization.go) and
  the check of QR settings (internal/event/qr_config.go). A JSON document is the value
  \<open>encoding/json\<close> decodes; the decoder is an argument of the functions that take bytes.
\<close>

datatype json =
    JNull
  | JBool bool
  | JNum int
  | JStr string
  | JArr "json list"
  | JObj "(string \<times> json) list"

text \<open>Decoding into a map keeps the last value of a key; an absent key reads as nil.\<close>

definition obj_get :: "(string \<times> json) list \<Rightarrow> string \<Rightarrow> json" where
  "obj_get kvs k = (case map_of (rev kvs) k of None \<Rightarrow> JNull | Some v \<Rightarrow> v)"

section \<open>Presets\<close>

record guest_theme_preset =
  PrimaryColor :: string
  BgColor :: string
  SurfaceColor :: string
  FontHeading :: string
  FontBody :: string
  HeroStyle :: string
  GalleryLayout :: string
  CameraFrame :: string
  SampleCoverURL :: string

definition unsplash :: string where
  "unsplash = ''https://images.unsplash.com/photo-''"

definition cover :: "string \<Rightarrow> string" where
  "cover i = unsplash @ i @ ''?auto=format&fit=crop&w=1200&q=80''"

definition guestThemePresets :: "(string \<times> guest_theme_preset) list" where
  "guestThemePresets =
     [(''editorial'', \<lparr>PrimaryColor = ''#181e17'', BgColor = ''#fdfbf7'', SurfaceColor = ''#ffffff'',
        FontHeading = ''serif'', FontBody = ''sans'', HeroStyle = ''banner'', GalleryLayout = ''masonry'',
        CameraFrame = ''minimal'', SampleCoverURL = cover ''1519741497674-611481863552''\<rparr>),
      (''minimal'', \<lparr>PrimaryColor = ''#0f172a'', BgColor = ''#ffffff'', SurfaceColor = ''#f8fafc'',
        FontHeading = ''sans'', FontBody = ''sans'', HeroStyle = ''monogram'', GalleryLayout = ''grid'',
        CameraFrame = ''minimal'', SampleCoverURL = cover ''1511285560929-80b456fea0bc''\<rparr>),
      (''romantic'', \<lparr>PrimaryColor = ''#881337'', BgColor = ''#fff1f2'', SurfaceColor = ''#ffffff'',
        FontHeading = ''serif'', FontBody = ''serif'', HeroStyle = ''avatar'', GalleryLayout = ''masonry'',
        CameraFrame = ''polaroid'', SampleCoverURL = cover ''1583939003579-730e3918a45a''\<rparr>),
      (''botanical'', \<lparr>PrimaryColor = ''#2d4a3e'', BgColor = ''#f4f6f0'', SurfaceColor = ''#ffffff'',
        FontHeading = ''serif'', FontBody = ''sans'', HeroStyle = ''banner'', GalleryLayout = ''masonry'',
        CameraFrame = ''minimal'', SampleCoverURL = cover ''1465495976277-4387d4b0b4c6''\<rparr>),
      (''film'', \<lparr>PrimaryColor = ''#c2410c'', BgColor = ''#faf6ee'', SurfaceColor = ''#fffdf8'',
        FontHeading = ''mono'', FontBody = ''sans'', HeroStyle = ''banner'', GalleryLayout = ''masonry'',
        CameraFrame = ''35mm'', SampleCoverURL = cover ''1532712938310-34cb3982ef74''\<rparr>),
      (''vintage'', \<lparr>PrimaryColor = ''#3f2b1d'', BgColor = ''#f7f4ea'', SurfaceColor = ''#ffffff'',
        FontHeading = ''classic'', FontBody = ''classic'', HeroStyle = ''monogram'', GalleryLayout = ''masonry'',
        CameraFrame = ''polaroid'', SampleCoverURL = cover ''1520854221256-17451cc331bf''\<rparr>),
      (''modern'', \<lparr>PrimaryColor = ''#312e81'', BgColor = ''#f8fafc'', SurfaceColor = ''#ffffff'',
        FontHeading = ''sans'', FontBody = ''sans'', HeroStyle = ''banner'', GalleryLayout = ''grid'',
        CameraFrame = ''minimal'', SampleCoverURL = cover ''1492684223066-81342ee5ff30''\<rparr>),
      (''luxury'', \<lparr>PrimaryColor = ''#d4af37'', BgColor = ''#09090b'', SurfaceColor = ''#18181b'',
        FontHeading = ''serif'', FontBody = ''sans'', HeroStyle = ''avatar'', GalleryLayout = ''masonry'',
        CameraFrame = ''gold'', SampleCoverURL = cover ''1511795409834-ef04bbd61622''\<rparr>)]"

definition qrColorPresets :: "(string \<times> string \<times> string) list" where
  "qrColorPresets =
     [(''#181e17'', ''#ffffff'', ''#ffffff''), (''#46533a'', ''#fffefa'', ''#f8f7f2''),
      (''#1e3a5f'', ''#ffffff'', ''#f8fafc''), (''#1a472a'', ''#f0faf0'', ''#f5faf5''),
      (''#722f37'', ''#fff8f0'', ''#fdf6f0''), (''#e8e8e8'', ''#1a1a2e'', ''#1a1a2e''),
      (''#0077b6'', ''#f0f8ff'', ''#f0f8ff''), (''#c1440e'', ''#fff5eb'', ''#fff5eb'')]"

definition qrBasicStyle :: "(string \<times> string) list" where
  "qrBasicStyle = [(''dotType'', ''rounded''), (''cornerSquareType'', ''extra-rounded''),
     (''cornerDotType'', ''dot''), (''frameColor'', ''#dcded2'')]"

section \<open>Matching\<close>

text \<open>
  \<open>strings.EqualFold\<close> of UTF-8 bytes with an ASCII text: letters fold, and so do the two
  characters outside ASCII whose simple folding is an ASCII letter, the long s (U+017F)
  and the Kelvin sign (U+212A).
\<close>

fun equal_fold :: "string \<Rightarrow> string \<Rightarrow> bool" where
  "equal_fold s [] = (s = [])"
| "equal_fold [] (w # ws) = False"
| "equal_fold (c # cs) (w # ws) =
     (if ascii_lower c = ascii_lower w then equal_fold cs ws
      else if ascii_lower w = CHR ''s'' \<and> c = CHR 0xC5 \<and> take 1 cs = [CHR 0xBF]
      then equal_fold (drop 1 cs) ws
      else if ascii_lower w = CHR ''k'' \<and> c = CHR 0xE2 \<and> take 2 cs = [CHR 0x84, CHR 0xAA]
      then equal_fold (drop 2 cs) ws
      else False)"

definition present :: "json \<Rightarrow> bool" where
  "present v = (case v of JNull \<Rightarrow> False | JStr s \<Rightarrow> trim_space s \<noteq> '''' | _ \<Rightarrow> True)"

definition matchesOrAbsent :: "json \<Rightarrow> string \<Rightarrow> bool" where
  "matchesOrAbsent v want =
     (if \<not> present v then True
      else case v of JStr s \<Rightarrow> equal_fold (trim_space s) want | _ \<Rightarrow> False)"

section \<open>Basic themes and QR codes\<close>

type_synonym json_decoder = "string \<Rightarrow> json option"

definition themeStylingFields :: "string list" where
  "themeStylingFields = [''primaryColor'', ''bgColor'', ''surfaceColor'', ''fontHeading'', ''fontBody'',
     ''heroStyle'', ''galleryLayout'', ''cameraFrame'', ''coverUrl'']"

definition preset_expected :: "guest_theme_preset \<Rightarrow> (string \<times> string) list" where
  "preset_expected p = [(''primaryColor'', PrimaryColor p), (''bgColor'', BgColor p),
     (''surfaceColor'', SurfaceColor p), (''fontHeading'', FontHeading p), (''fontBody'', FontBody p),
     (''heroStyle'', HeroStyle p), (''galleryLayout'', GalleryLayout p), (''cameraFrame'', CameraFrame p)]"

definition isBasicGuestTheme :: "json_decoder \<Rightarrow> string \<Rightarrow> bool" where
  "isBasicGuestTheme decode theme =
     (case decode theme of
        Some (JObj config) \<Rightarrow>
          (let presetID = (case obj_get config ''presetId'' of JStr i \<Rightarrow> i | _ \<Rightarrow> '''')
           in case map_of guestThemePresets presetID of
                None \<Rightarrow> list_all (\<lambda>f. \<not> present (obj_get config f)) themeStylingFields
              | Some preset \<Rightarrow>
                  list_all (\<lambda>(f, want). matchesOrAbsent (obj_get config f) want) (preset_expected preset) \<and>
                  matchesOrAbsent (obj_get config ''coverUrl'') (SampleCoverURL preset))
      | _ \<Rightarrow> True)"

definition isBasicQRConfig :: "json_decoder \<Rightarrow> string \<Rightarrow> bool" where
  "isBasicQRConfig decode qr =
     (case decode qr of
        Some (JObj config) \<Rightarrow>
          (if present (obj_get config ''logoUrl'') then False
           else if \<not> list_all (\<lambda>(f, want). matchesOrAbsent (obj_get config f) want) qrBasicStyle then False
           else (let fg = obj_get config ''fgColor''; bg = obj_get config ''bgColor'';
                     card = obj_get config ''cardBgColor''
                 in if \<not> present fg \<and> \<not> present bg \<and> \<not> present card then True
                    else list_ex (\<lambda>(f, b, c). matchesOrAbsent fg f \<and> matchesOrAbsent bg b \<and>
                           matchesOrAbsent card c) qrColorPresets))
      | _ \<Rightarrow> True)"

section \<open>QR settings (qr\_config.go)\<close>

definition maxQRConfigBytes :: nat where "maxQRConfigBytes = 400000"

definition is_hex_digit :: "char \<Rightarrow> bool" where
  "is_hex_digit c \<longleftrightarrow> (let n = (of_char c :: nat)
     in (48 \<le> n \<and> n \<le> 57) \<or> (97 \<le> n \<and> n \<le> 102) \<or> (65 \<le> n \<and> n \<le> 70))"

definition hexColorPattern :: "string \<Rightarrow> bool" where
  "hexColorPattern s \<longleftrightarrow>
     length s = 7 \<and> take 1 s = ''#'' \<and> list_all is_hex_digit (drop 1 s)"

definition validateQRColor :: "(string \<times> json) list \<Rightarrow> string \<Rightarrow> error option" where
  "validateQRColor config field =
     (case obj_get config field of
        JNull \<Rightarrow> None
      | JStr color \<Rightarrow> if hexColorPattern color then None
                     else Some (Fmt (''QR configuration '' @ field @ '' must be a hex color''))
      | _ \<Rightarrow> Some (Fmt (''QR configuration '' @ field @ '' must be a hex color'')))"

definition qrColorFields :: "string list" where
  "qrColorFields = [''fgColor'', ''bgColor'', ''cardBgColor'', ''frameColor'']"

fun first_error :: "('a \<Rightarrow> error option) \<Rightarrow> 'a list \<Rightarrow> error option" where
  "first_error f [] = None"
| "first_error f (x # xs) = (case f x of Some e \<Rightarrow> Some e | None \<Rightarrow> first_error f xs)"

definition validateQRConfig :: "json_decoder \<Rightarrow> string \<Rightarrow> error option" where
  "validateQRConfig decode config =
     (if maxQRConfigBytes < length config then Some (Fmt ''QR configuration is too large'')
      else case decode config of
        Some (JObj value) \<Rightarrow> first_error (validateQRColor value) qrColorFields
      | Some JNull \<Rightarrow> Some (Fmt ''QR configuration must be an object'')
      | _ \<Rightarrow> Some (Fmt ''invalid QR configuration''))"

lemma first_error_None: "first_error f xs = None \<longleftrightarrow> (\<forall>x \<in> set xs. f x = None)"
  by (induction xs) (auto split: option.splits)

lemma obj_get_in: "obj_get kvs k \<noteq> JNull \<Longrightarrow> (k, obj_get kvs k) \<in> set kvs"
  by (auto simp: obj_get_def split: option.splits dest: map_of_SomeD)

end
