(* ===== verification/Catalog.thy ===== *)
theory Catalog
  imports Schema
begin

text \<open>
  The plan catalog (internal/catalog): the process-wide registry of plans, which fixes
  the upgrade order, and the service that reads plan versions and prices. The registry
  is an argument of the functions that read the \<open>atomic.Pointer\<close>.
\<close>

section \<open>Registry (registry.go)\<close>

record plan_registry =
  byCode :: "plan_code \<rightharpoonup> plan_definition"
  ordered :: "plan_definition list"

definition SetRegistry :: "plan_definition list \<Rightarrow> plan_registry" where
  "SetRegistry defs =
     (let live = filter (\<lambda>d. pd_RetiredAt d = None) defs
      in \<lparr>byCode = foldl (\<lambda>m d. m(pd_Code d \<mapsto> d)) Map.empty live,
          ordered = sort_key pd_TierRank live\<rparr>)"

definition default_registry :: plan_registry where
  "default_registry = SetRegistry
     [\<lparr>pd_Code = PlanFree, pd_TierRank = 0, pd_Sellable = False, pd_RetiredAt = None\<rparr>,
      \<lparr>pd_Code = PlanExperience, pd_TierRank = 1, pd_Sellable = True, pd_RetiredAt = None\<rparr>,
      \<lparr>pd_Code = PlanSignature, pd_TierRank = 2, pd_Sellable = True, pd_RetiredAt = None\<rparr>]"

text \<open>
  \<open>LoadRegistry\<close>: a failed or empty read reports an error and keeps the registry in use.
  The rows of the \<open>plans\<close> table are the argument.
\<close>

definition LoadRegistry ::
  "plan_registry \<Rightarrow> error + plan_definition list \<Rightarrow> error option \<times> plan_registry" where
  "LoadRegistry reg rows =
     (case rows of
        Inl e \<Rightarrow> (Some e, reg)
      | Inr table \<Rightarrow>
          (let defs = filter (\<lambda>d. pd_RetiredAt d = None) table
           in if defs = [] then (Some (Fmt ''catalog: plan registry is empty''), reg)
              else (None, SetRegistry defs)))"

definition Plans :: "plan_registry \<Rightarrow> plan_definition list" where
  "Plans reg = ordered reg"

definition SellablePlans :: "plan_registry \<Rightarrow> plan_code list" where
  "SellablePlans reg = map pd_Code (filter pd_Sellable (ordered reg))"

definition Sellable :: "plan_registry \<Rightarrow> plan_code \<Rightarrow> bool" where
  "Sellable reg c = (case byCode reg c of None \<Rightarrow> False | Some d \<Rightarrow> pd_Sellable d)"

definition Valid :: "plan_registry \<Rightarrow> plan_code \<Rightarrow> bool" where
  "Valid reg c \<longleftrightarrow> byCode reg c \<noteq> None"

definition Rank :: "plan_registry \<Rightarrow> plan_code \<Rightarrow> int" where
  "Rank reg c = (case byCode reg c of None \<Rightarrow> -1 | Some d \<Rightarrow> pd_TierRank d)"

section \<open>Repository (repository.go)\<close>

record 's catalog_repo =
  cr_ActiveVersions :: "'s \<Rightarrow> error + version list"
  cr_ActiveVersion :: "plan_code \<Rightarrow> 's \<Rightarrow> error + version"
  cr_CurrentPrices :: "uuid list \<Rightarrow> string \<Rightarrow> time \<Rightarrow> 's \<Rightarrow> error + price list"

definition db_ActiveVersions :: "db \<Rightarrow> error + version list" where
  "db_ActiveVersions s = Inr (filter (\<lambda>v. pv_Status v = VersionActive) (t_plan_versions s))"

definition db_ActiveVersion :: "plan_code \<Rightarrow> db \<Rightarrow> error + version" where
  "db_ActiveVersion code s =
     (case first_by pv_ID (\<lambda>v. pv_Code v = code \<and> pv_Status v = VersionActive) (t_plan_versions s) of
        None \<Rightarrow> Inl CatalogNotFound
      | Some v \<Rightarrow> Inr v)"

text \<open>Whether a price is valid at an instant, and the newest such price of one version.\<close>

definition price_valid_at :: "uuid \<Rightarrow> string \<Rightarrow> time \<Rightarrow> price \<Rightarrow> bool" where
  "price_valid_at vid currency at p \<longleftrightarrow>
     pp_PlanVersionID p = vid \<and> pp_Currency p = currency \<and> pp_ValidFrom p \<le> at \<and>
     (case pp_ValidUntil p of None \<Rightarrow> True | Some u \<Rightarrow> at < u)"

text \<open>
  \<open>DISTINCT ON (plan_version_id) .. ORDER BY plan_version_id, valid_from DESC\<close>: one row
  per version, in the order of the versions.
\<close>

definition db_CurrentPrices :: "uuid list \<Rightarrow> string \<Rightarrow> time \<Rightarrow> db \<Rightarrow> error + price list" where
  "db_CurrentPrices vids currency at s =
     Inr (List.map_filter
       (\<lambda>vid. first_by (\<lambda>p. - pp_ValidFrom p) (price_valid_at vid currency at) (t_plan_prices s))
       (sort (remdups vids)))"

definition gorm_catalog :: "db catalog_repo" where
  "gorm_catalog = \<lparr>cr_ActiveVersions = db_ActiveVersions, cr_ActiveVersion = db_ActiveVersion,
     cr_CurrentPrices = db_CurrentPrices\<rparr>"

section \<open>Service (service.go)\<close>

record public_price =
  pr_Currency :: string
  pr_AmountMinor :: int
  pr_CompareAtMinor :: "int option"

record public_limits =
  pl_MaxPhotoItems :: "int option"
  pl_MaxVideoItems :: "int option"
  pl_MaxMediaBytes :: int
  pl_RetentionDays :: int

record public_plan =
  pb_Code :: plan_code
  pb_Name :: string
  pb_Version :: int
  pb_Price :: "public_price option"
  pb_Features :: "feature list"
  pb_FairUse :: bool
  pb_Limits :: public_limits

definition Has :: "entitlements \<Rightarrow> feature \<Rightarrow> bool" where
  "Has e f \<longleftrightarrow> f \<in> set (Features e)"

definition ActiveVersions :: "plan_registry \<Rightarrow> 's catalog_repo \<Rightarrow> 's \<Rightarrow> error + version list" where
  "ActiveVersions reg repo s =
     (case cr_ActiveVersions repo s of
        Inl e \<Rightarrow> Inl e
      | Inr vs \<Rightarrow> Inr (sort_key (\<lambda>v. Rank reg (pv_Code v)) vs))"

definition ActiveVersion ::
  "plan_registry \<Rightarrow> 's catalog_repo \<Rightarrow> plan_code \<Rightarrow> 's \<Rightarrow> error + version" where
  "ActiveVersion reg repo code s =
     (if \<not> Valid reg code then Inl CatalogNotFound else cr_ActiveVersion repo code s)"

definition LowestPlanWith ::
  "plan_registry \<Rightarrow> 's catalog_repo \<Rightarrow> feature \<Rightarrow> 's \<Rightarrow> error + plan_code" where
  "LowestPlanWith reg repo f s =
     (case ActiveVersions reg repo s of
        Inl e \<Rightarrow> Inl e
      | Inr vs \<Rightarrow> (case find (\<lambda>v. Has (pv_Entitlements v) f) vs of
                     None \<Rightarrow> Inr '''' | Some v \<Rightarrow> Inr (pv_Code v)))"

definition public_plan_of :: "(uuid \<rightharpoonup> price) \<Rightarrow> version \<Rightarrow> public_plan" where
  "public_plan_of byVersion v =
     (let ent = pv_Entitlements v
      in \<lparr>pb_Code = pv_Code v, pb_Name = pv_DisplayName v, pb_Version = pv_Version v,
          pb_Price = map_option (\<lambda>p. \<lparr>pr_Currency = pp_Currency p, pr_AmountMinor = pp_AmountMinor p,
             pr_CompareAtMinor = pp_CompareAtMinor p\<rparr>) (byVersion (pv_ID v)),
          pb_Features = Features ent, pb_FairUse = FairUse ent,
          pb_Limits =
            \<lparr>pl_MaxPhotoItems = (if FairUse ent then None else Some (MaxPhotoItems (Limits ent))),
             pl_MaxVideoItems = (if FairUse ent then None else Some (MaxVideoItems (Limits ent))),
             pl_MaxMediaBytes = MaxMediaBytes (Limits ent),
             pl_RetentionDays = RetentionDays (Limits ent)\<rparr>\<rparr>)"

definition CatalogList ::
  "plan_registry \<Rightarrow> 's catalog_repo \<Rightarrow> string \<Rightarrow> time \<Rightarrow> 's \<Rightarrow> error + public_plan list" where
  "CatalogList reg repo currency now s =
     (case ActiveVersions reg repo s of
        Inl e \<Rightarrow> Inl e
      | Inr vs \<Rightarrow>
          (case cr_CurrentPrices repo (map pv_ID vs) currency now s of
             Inl e \<Rightarrow> Inl e
           | Inr ps \<Rightarrow>
               (let byVersion = foldl (\<lambda>m p. m(pp_PlanVersionID p \<mapsto> p)) Map.empty ps
                in Inr (map (public_plan_of byVersion) vs))))"

section \<open>Lemmas\<close>

lemma foldl_upd_Some:
  "foldl (\<lambda>m d. m(k d \<mapsto> d)) m ds c = Some d \<Longrightarrow> d \<in> set ds \<and> k d = c \<or> m c = Some d"
  by (induction ds arbitrary: m) (fastforce split: if_splits)+

lemma foldl_upd_None:
  "foldl (\<lambda>m d. m(k d \<mapsto> d)) m ds c = None \<longleftrightarrow> m c = None \<and> c \<notin> k ` set ds"
  by (induction ds arbitrary: m) auto

lemma SetRegistry_byCode:
  "byCode (SetRegistry defs) c = Some d \<Longrightarrow> d \<in> set defs \<and> pd_RetiredAt d = None \<and> pd_Code d = c"
  by (auto simp: SetRegistry_def Let_def dest!: foldl_upd_Some)

lemma Valid_SetRegistry:
  "Valid (SetRegistry defs) c \<longleftrightarrow> (\<exists>d \<in> set defs. pd_RetiredAt d = None \<and> pd_Code d = c)"
  by (auto simp: Valid_def SetRegistry_def Let_def foldl_upd_None)

lemma Sellable_Valid: "Sellable reg c \<Longrightarrow> Valid reg c"
  by (simp add: Sellable_def Valid_def split: option.splits)

lemma set_Plans: "set (Plans (SetRegistry defs)) = {d \<in> set defs. pd_RetiredAt d = None}"
  by (auto simp: Plans_def SetRegistry_def Let_def)

lemma sorted_Plans: "sorted (map pd_TierRank (Plans (SetRegistry defs)))"
  by (simp add: Plans_def SetRegistry_def Let_def)

text \<open>A plan version found by \<open>find\<close> in rank order has the lowest rank of those that match.\<close>

lemma find_sorted_least:
  assumes "sorted (map k xs)" "find p xs = Some x" "y \<in> set xs" "p y"
  shows "k x \<le> k y"
  using assms by (induction xs) (auto split: if_splits)

lemma ActiveVersions_sorted:
  "ActiveVersions reg repo s = Inr vs \<Longrightarrow> sorted (map (\<lambda>v. Rank reg (pv_Code v)) vs)"
  by (auto simp: ActiveVersions_def split: sum.splits)

lemma ActiveVersions_set:
  "cr_ActiveVersions repo s = Inr us \<Longrightarrow> ActiveVersions reg repo s = Inr vs \<Longrightarrow> set vs = set us"
  by (auto simp: ActiveVersions_def)

lemma default_ranks [simp]:
  "Rank default_registry PlanFree = 0" "Rank default_registry PlanExperience = 1"
  "Rank default_registry PlanSignature = 2"
  by (simp_all add: default_registry_def SetRegistry_def Rank_def Let_def)

lemma default_valid [simp]:
  "Valid default_registry PlanFree" "Valid default_registry PlanExperience"
  "Valid default_registry PlanSignature"
  by (simp_all add: default_registry_def SetRegistry_def Valid_def Let_def)

lemma default_sellable [simp]:
  "\<not> Sellable default_registry PlanFree" "Sellable default_registry PlanExperience"
  "Sellable default_registry PlanSignature"
  by (simp_all add: default_registry_def SetRegistry_def Sellable_def Let_def)

end
