(* ===== verification/Entitlement.thy ===== *)
theory Entitlement
  imports Catalog
begin

text \<open>
  The plan of an event (internal/entitlement): the transition and expiry rules, the
  transactions that write grants (\<open>db_Activate\<close>, \<open>db_Revoke\<close>), and the services that
  read and change them. The unique indexes and CHECKs of the migrations that guard
  \<open>event_plan_grants\<close> are part of \<open>create_grant\<close>.

  Row locks (\<open>FOR UPDATE\<close> on the event row) make the transactions of one event run one
  after the other, so each is a function from database to database.
\<close>

section \<open>Rules (entitlement.go)\<close>

definition Source_Valid :: "grant_source \<Rightarrow> bool" where
  "Source_Valid src \<longleftrightarrow> (case src of SourceOther _ \<Rightarrow> False | _ \<Rightarrow> True)"

definition CheckTransition :: "plan_registry \<Rightarrow> plan_code option \<Rightarrow> plan_code \<Rightarrow> error option" where
  "CheckTransition reg from to =
     (if \<not> Valid reg to then Some (Entitlement ErrUnknownPlan)
      else case from of
        None \<Rightarrow> None
      | Some f \<Rightarrow>
          (if Rank reg to \<le> Rank reg f then Some (Entitlement ErrInvalidTransition) else None))"

text \<open>
  \<open>Expiry\<close>: event dates are UTC dates, so the start of the day after is a whole number of
  days since the zero time, and \<open>AddDate(0, 0, n)\<close> in UTC adds \<open>n\<close> days.
\<close>

definition Expiry :: "time option \<Rightarrow> time \<Rightarrow> int \<Rightarrow> time \<times> time" where
  "Expiry eventDate activatedAt retentionDays =
     (let anchor = (case eventDate of
            None \<Rightarrow> activatedAt
          | Some d \<Rightarrow> (let dayAfter = (d div day + 1) * day
                       in if activatedAt < dayAfter then dayAfter else activatedAt));
          retentionExpiresAt = anchor + retentionDays * day
      in (retentionExpiresAt, retentionExpiresAt))"

definition later :: "time \<Rightarrow> time \<Rightarrow> time" where
  "later a b = (if a < b then b else a)"

record active_grant =
  ag_Grant :: grant
  ag_PlanCode :: plan_code
  ag_PlanName :: string
  ag_PlanVersion :: int

record event_entitlement =
  ee_EventID :: uuid
  ee_GrantID :: uuid
  ee_PlanCode :: plan_code
  ee_PlanName :: string
  ee_PlanVersion :: int
  ee_Source :: grant_source
  ee_Entitlements :: entitlements
  ee_ActivatedAt :: time
  ee_UploadExpiresAt :: time
  ee_RetentionExpiresAt :: time

definition fromActiveGrant :: "active_grant \<Rightarrow> event_entitlement" where
  "fromActiveGrant g = \<lparr>ee_EventID = gr_EventID (ag_Grant g), ee_GrantID = gr_ID (ag_Grant g),
     ee_PlanCode = ag_PlanCode g, ee_PlanName = ag_PlanName g, ee_PlanVersion = ag_PlanVersion g,
     ee_Source = gr_Source (ag_Grant g), ee_Entitlements = gr_EntitlementSnapshot (ag_Grant g),
     ee_ActivatedAt = gr_ActivatedAt (ag_Grant g),
     ee_UploadExpiresAt = gr_UploadExpiresAt (ag_Grant g),
     ee_RetentionExpiresAt = gr_RetentionExpiresAt (ag_Grant g)\<rparr>"

definition UploadClosed :: "event_entitlement \<Rightarrow> time \<Rightarrow> bool" where
  "UploadClosed e now \<longleftrightarrow> \<not> (now < ee_UploadExpiresAt e)"

definition RetentionExpired :: "event_entitlement \<Rightarrow> time \<Rightarrow> bool" where
  "RetentionExpired e now \<longleftrightarrow> \<not> (now < ee_RetentionExpiresAt e)"

definition UpgradeOptions :: "plan_registry \<Rightarrow> event_entitlement \<Rightarrow> plan_code list" where
  "UpgradeOptions reg e =
     map pd_Code (filter (\<lambda>p. Rank reg (ee_PlanCode e) < pd_TierRank p) (Plans reg))"

section \<open>Grant transactions (repository.go)\<close>

record activation_request =
  rq_EventID :: uuid
  rq_Source :: grant_source
  rq_SourceRef :: string
  rq_ActorID :: "uuid option"
  rq_Reason :: string

record event_facts =
  ef_EventDate :: "time option"

type_synonym build_func = "event_facts \<Rightarrow> active_grant option \<Rightarrow> error + grant \<times> plan_code"

text \<open>A grant joined with the plan version it was issued from.\<close>

definition join_grant :: "db \<Rightarrow> grant \<Rightarrow> active_grant option" where
  "join_grant s g = map_option
     (\<lambda>v. \<lparr>ag_Grant = g, ag_PlanCode = pv_Code v, ag_PlanName = pv_DisplayName v,
           ag_PlanVersion = pv_Version v\<rparr>)
     (lookup_row pv_ID (gr_PlanVersionID g) (t_plan_versions s))"

definition activeGrant :: "uuid \<Rightarrow> db \<Rightarrow> active_grant option" where
  "activeGrant eventID s =
     (case List.map_filter (join_grant s)
        (filter (\<lambda>g. gr_EventID g = eventID \<and> gr_Status g = GrantActive) (t_grants s)) of
        [] \<Rightarrow> None | g # _ \<Rightarrow> Some g)"

definition db_ActiveGrant :: "uuid \<Rightarrow> db \<Rightarrow> error + active_grant" where
  "db_ActiveGrant eventID s =
     (case activeGrant eventID s of
        None \<Rightarrow> Inl (Entitlement ErrNoActiveGrant) | Some g \<Rightarrow> Inr g)"

text \<open>
  The unique indexes on \<open>event_plan_grants\<close>: the primary key, one active grant per event,
  one grant per source reference, one grant per license.
\<close>

definition grant_conflict :: "grant \<Rightarrow> grant \<Rightarrow> bool" where
  "grant_conflict g h \<longleftrightarrow>
     gr_ID h = gr_ID g \<or>
     (gr_EventID h = gr_EventID g \<and> gr_Status h = GrantActive \<and> gr_Status g = GrantActive) \<or>
     (gr_SourceReference g \<noteq> None \<and> gr_Source h = gr_Source g \<and>
        gr_SourceReference h = gr_SourceReference g) \<or>
     (gr_EventLicenseID g \<noteq> None \<and> gr_EventLicenseID h = gr_EventLicenseID g)"

definition create_grant :: "grant \<Rightarrow> db \<Rightarrow> error + db" where
  "create_grant g s =
     (if \<exists>h \<in> set (t_grants s). grant_conflict g h then Inl (DB ErrDuplicatedKey)
      else if gr_RetentionExpiresAt g < gr_UploadExpiresAt g then Inl (DB ErrCheckViolated)
      else Inr (s\<lparr>t_grants := t_grants s @ [g]\<rparr>))"

definition applyHotLimits :: "uuid \<Rightarrow> limits \<Rightarrow> db \<Rightarrow> db" where
  "applyHotLimits eventID l s = s\<lparr>t_events := update_where (\<lambda>e. ev_ID e = eventID)
     (\<lambda>e. e\<lparr>ev_MaxMediaBytes := (if 0 < MaxMediaBytes l then MaxMediaBytes l else ev_MaxMediaBytes e),
            max_media_items := MaxMediaItems l,
            max_photo_items := MaxPhotoItems l,
            max_video_items := MaxVideoItems l\<rparr>) (t_events s)\<rparr>"

definition writeAudit ::
  "uuid \<Rightarrow> grant \<Rightarrow> plan_code option \<Rightarrow> plan_code \<Rightarrow> string \<Rightarrow> db \<Rightarrow> db" where
  "writeAudit auditID g previousPlan target reason s = s\<lparr>t_audits := t_audits s @
     [\<lparr>au_ID = auditID, au_EventID = gr_EventID g, au_GrantID = gr_ID g,
       au_PreviousPlan = previousPlan, au_TargetPlan = target, au_Source = gr_Source g,
       au_SourceReference = gr_SourceReference g, au_ActorID = gr_ActorID g,
       au_Reason = (if reason = '''' then None else Some reason),
       au_CreatedAt = gr_ActivatedAt g\<rparr>]\<rparr>"

definition set_grant_status :: "(grant \<Rightarrow> bool) \<Rightarrow> grant_status \<Rightarrow> db \<Rightarrow> db" where
  "set_grant_status p st s =
     s\<lparr>t_grants := update_where p (\<lambda>g. g\<lparr>gr_Status := st\<rparr>) (t_grants s)\<rparr>"

definition writeGrant ::
  "uuid \<Rightarrow> grant \<Rightarrow> active_grant option \<Rightarrow> plan_code \<Rightarrow> string \<Rightarrow> db \<Rightarrow> error + db" where
  "writeGrant auditID g previous target reason s =
     (let s1 = (case previous of
            None \<Rightarrow> s
          | Some p \<Rightarrow> set_grant_status
              (\<lambda>h. gr_ID h = gr_ID (ag_Grant p) \<and> gr_Status h = GrantActive) GrantSuperseded s)
      in case create_grant g s1 of
           Inl e \<Rightarrow> Inl e
         | Inr s2 \<Rightarrow>
             Inr (writeAudit auditID g (map_option ag_PlanCode previous) target reason
               (applyHotLimits (gr_EventID g) (Limits (gr_EntitlementSnapshot g)) s2)))"

definition activate_tx :: "uuid \<Rightarrow> activation_request \<Rightarrow> build_func \<Rightarrow> db \<Rightarrow> error + grant \<times> db" where
  "activate_tx auditID req build s =
     (case lookup_row ev_ID (rq_EventID req) (t_events s) of
        None \<Rightarrow> Inl (Entitlement ErrEventNotFound)
      | Some e \<Rightarrow>
          if rq_SourceRef req \<noteq> '''' \<and>
             0 < count_where (\<lambda>g. gr_Source g = rq_Source req \<and>
                   gr_SourceReference g = Some (rq_SourceRef req)) (t_grants s)
          then Inl (Entitlement ErrDuplicateSourceReference)
          else
            (let current = activeGrant (rq_EventID req) s
             in case build \<lparr>ef_EventDate = ev_EventDate e\<rparr> current of
                  Inl err \<Rightarrow> Inl err
                | Inr (g, target) \<Rightarrow>
                    (case writeGrant auditID g current target (rq_Reason req) s of
                       Inl err \<Rightarrow> Inl err
                     | Inr s' \<Rightarrow> Inr (g, s'))))"

definition db_Activate ::
  "uuid \<Rightarrow> activation_request \<Rightarrow> build_func \<Rightarrow> db \<Rightarrow> (error + grant) \<times> db" where
  "db_Activate auditID req build s =
     (case transaction (activate_tx auditID req build) s of
        (Inl (DB ErrDuplicatedKey), s') \<Rightarrow> (Inl (Entitlement ErrDuplicateSourceReference), s')
      | r \<Rightarrow> r)"

definition revoke_tx ::
  "uuid \<Rightarrow> uuid \<Rightarrow> string \<Rightarrow> time \<Rightarrow> db \<Rightarrow> error + (active_grant \<times> active_grant) \<times> db" where
  "revoke_tx auditID eventID reason at s =
     (case lookup_row ev_ID eventID (t_events s) of
        None \<Rightarrow> Inl (Entitlement ErrEventNotFound)
      | Some _ \<Rightarrow>
     (case activeGrant eventID s of
        None \<Rightarrow> Inl (Entitlement ErrNoActiveGrant)
      | Some current \<Rightarrow>
     (case sort_key (\<lambda>a. (- gr_ActivatedAt (ag_Grant a), - gr_CreatedAt (ag_Grant a)))
             (List.map_filter (join_grant s)
               (filter (\<lambda>g. gr_EventID g = eventID \<and> gr_Status g = GrantSuperseded) (t_grants s))) of
        [] \<Rightarrow> Inl (Entitlement ErrNothingToRestore)
      | previous # _ \<Rightarrow>
          (let s1 = set_grant_status (\<lambda>h. gr_ID h = gr_ID (ag_Grant current)) GrantRevoked s;
               s2 = set_grant_status (\<lambda>h. gr_ID h = gr_ID (ag_Grant previous)) GrantActive s1;
               s3 = applyHotLimits eventID (Limits (gr_EntitlementSnapshot (ag_Grant previous))) s2;
               reinstated = (ag_Grant previous)\<lparr>gr_Status := GrantActive, gr_Source := SourceManual,
                 gr_SourceReference := None, gr_ActivatedAt := at\<rparr>;
               s4 = writeAudit auditID reinstated (Some (ag_PlanCode current))
                 (ag_PlanCode previous) (''revoked: '' @ reason) s3
           in Inr ((current, previous\<lparr>ag_Grant := (ag_Grant previous)\<lparr>gr_Status := GrantActive\<rparr>\<rparr>), s4)))))"

definition db_Revoke ::
  "uuid \<Rightarrow> uuid \<Rightarrow> string \<Rightarrow> time \<Rightarrow> db \<Rightarrow> (error + active_grant \<times> active_grant) \<times> db" where
  "db_Revoke auditID eventID reason at = transaction (revoke_tx auditID eventID reason at)"

record usage =
  us_MediaItems :: int
  us_PhotoItems :: int
  us_VideoItems :: int
  us_MediaBytes :: int

definition db_Usage :: "uuid list \<Rightarrow> db \<Rightarrow> error + (uuid \<rightharpoonup> usage)" where
  "db_Usage ids s = Inr (\<lambda>i. if i \<in> set ids then map_option
     (\<lambda>e. \<lparr>us_MediaItems = uploaded_media_items e, us_PhotoItems = uploaded_photo_items e,
           us_VideoItems = uploaded_video_items e, us_MediaBytes = ev_UsedMediaBytes e\<rparr>)
     (lookup_row ev_ID i (t_events s)) else None)"

text \<open>Events created before the cutoff with no active grant, or a Free one, by id.\<close>

definition backfill_candidate :: "db \<Rightarrow> time \<Rightarrow> uuid \<Rightarrow> event \<Rightarrow> bool" where
  "backfill_candidate s cutoff after e \<longleftrightarrow>
     ev_CreatedAt e < cutoff \<and> after < ev_ID e \<and>
     (let gs = filter (\<lambda>g. gr_EventID g = ev_ID e \<and> gr_Status g = GrantActive) (t_grants s)
      in gs = [] \<or> (\<exists>g \<in> set gs. \<exists>v \<in> set (t_plan_versions s).
           pv_ID v = gr_PlanVersionID g \<and> pv_Code v = PlanFree))"

definition db_BackfillCandidates :: "time \<Rightarrow> uuid \<Rightarrow> nat \<Rightarrow> db \<Rightarrow> error + uuid list" where
  "db_BackfillCandidates cutoff after lim s =
     Inr (take lim (sort (map ev_ID (filter (backfill_candidate s cutoff after) (t_events s)))))"

definition db_AuditTrail :: "uuid \<Rightarrow> nat \<Rightarrow> db \<Rightarrow> error + audit list" where
  "db_AuditTrail eventID lim s =
     Inr (take lim (sort_key (\<lambda>a. - au_CreatedAt a)
       (filter (\<lambda>a. au_EventID a = eventID) (t_audits s))))"

record 's grant_repo =
  er_ActiveGrant :: "uuid \<Rightarrow> 's \<Rightarrow> error + active_grant"
  er_Activate :: "uuid \<Rightarrow> activation_request \<Rightarrow> build_func \<Rightarrow> 's \<Rightarrow> (error + grant) \<times> 's"
  er_Usage :: "uuid list \<Rightarrow> 's \<Rightarrow> error + (uuid \<rightharpoonup> usage)"
  er_BackfillCandidates :: "time \<Rightarrow> uuid \<Rightarrow> nat \<Rightarrow> 's \<Rightarrow> error + uuid list"
  er_AuditTrail :: "uuid \<Rightarrow> nat \<Rightarrow> 's \<Rightarrow> error + audit list"
  er_Revoke :: "uuid \<Rightarrow> uuid \<Rightarrow> string \<Rightarrow> time \<Rightarrow> 's \<Rightarrow> (error + active_grant \<times> active_grant) \<times> 's"

definition gorm_grants :: "db grant_repo" where
  "gorm_grants = \<lparr>er_ActiveGrant = db_ActiveGrant, er_Activate = db_Activate, er_Usage = db_Usage,
     er_BackfillCandidates = db_BackfillCandidates, er_AuditTrail = db_AuditTrail,
     er_Revoke = db_Revoke\<rparr>"

section \<open>Reading service (service.go)\<close>

definition Resolve :: "'s grant_repo \<Rightarrow> uuid \<Rightarrow> 's \<Rightarrow> error + event_entitlement" where
  "Resolve repo eventID s =
     (case er_ActiveGrant repo eventID s of Inl e \<Rightarrow> Inl e | Inr g \<Rightarrow> Inr (fromActiveGrant g))"

definition Check ::
  "plan_registry \<Rightarrow> 's catalog_repo \<Rightarrow> bool \<Rightarrow> event_entitlement \<Rightarrow> feature \<Rightarrow> 's \<Rightarrow> error option" where
  "Check reg cat enforce ent f s =
     (if Has (ee_Entitlements ent) f then None
      else case LowestPlanWith reg cat f s of
        Inl e \<Rightarrow> Some e
      | Inr required \<Rightarrow> if \<not> enforce then None else Some (FeatureError f required))"

text \<open>The entitlement of an event without a grant: the zero value with its id.\<close>

definition no_entitlement :: "uuid \<Rightarrow> event_entitlement" where
  "no_entitlement eventID = \<lparr>ee_EventID = eventID, ee_GrantID = uuid_nil, ee_PlanCode = '''',
     ee_PlanName = '''', ee_PlanVersion = 0, ee_Source = SourceOther '''',
     ee_Entitlements = \<lparr>Features = [], FairUse = False,
        Limits = \<lparr>MaxGuests = 0, MaxMediaItems = 0, MaxPhotoItems = 0, MaxVideoItems = 0,
          MaxMediaBytes = 0, MaxLiveWallItems = 0, RetentionDays = 0\<rparr>\<rparr>,
     ee_ActivatedAt = 0, ee_UploadExpiresAt = 0, ee_RetentionExpiresAt = 0\<rparr>"

definition Require ::
  "plan_registry \<Rightarrow> 's catalog_repo \<Rightarrow> 's grant_repo \<Rightarrow> bool \<Rightarrow> uuid \<Rightarrow> feature \<Rightarrow> 's \<Rightarrow> error option" where
  "Require reg cat repo enforce eventID f s =
     (case Resolve repo eventID s of
        Inl (Entitlement ErrNoActiveGrant) \<Rightarrow> Check reg cat enforce (no_entitlement eventID) f s
      | Inl e \<Rightarrow> Some e
      | Inr ent \<Rightarrow> Check reg cat enforce ent f s)"

definition UploadsClosed :: "'s grant_repo \<Rightarrow> bool \<Rightarrow> time \<Rightarrow> uuid \<Rightarrow> 's \<Rightarrow> bool" where
  "UploadsClosed repo enforce now eventID s =
     (case Resolve repo eventID s of
        Inl _ \<Rightarrow> False
      | Inr ent \<Rightarrow> if \<not> UploadClosed ent now then False else enforce)"

definition AuditTrail :: "'s grant_repo \<Rightarrow> uuid \<Rightarrow> int \<Rightarrow> 's \<Rightarrow> error + audit list" where
  "AuditTrail repo eventID lim s =
     er_AuditTrail repo eventID (nat (if lim < 1 \<or> 100 < lim then 20 else lim)) s"

section \<open>Granting service (grant_service.go)\<close>

record activate_input =
  ai_EventID :: uuid
  ai_TargetPlanCode :: plan_code
  ai_Source :: grant_source
  ai_SourceRef :: string
  ai_ActorID :: "uuid option"
  ai_Reason :: string
  ai_ActivatedAt :: time

record plan_change =
  ch_EventID :: uuid
  ch_PlanCode :: plan_code
  ch_GrantID :: uuid

text \<open>
  The grant \<open>Activate\<close> builds under the event lock, from the event's date and current
  grant.
\<close>

definition build_grant ::
  "plan_registry \<Rightarrow> uuid \<Rightarrow> activate_input \<Rightarrow> string \<Rightarrow> version \<Rightarrow> time \<Rightarrow> build_func" where
  "build_grant reg grantID inp ref v activatedAt facts current =
     (case CheckTransition reg (map_option ag_PlanCode current) (pv_Code v) of
        Some e \<Rightarrow> Inl e
      | None \<Rightarrow>
          (let (upload0, retention0) =
                 Expiry (ef_EventDate facts) activatedAt (RetentionDays (Limits (pv_Entitlements v)));
               (upload, retention) = (case current of
                   None \<Rightarrow> (upload0, retention0)
                 | Some c \<Rightarrow> (later upload0 (gr_UploadExpiresAt (ag_Grant c)),
                              later retention0 (gr_RetentionExpiresAt (ag_Grant c))))
           in Inr (\<lparr>gr_ID = grantID, gr_EventID = ai_EventID inp, gr_PlanVersionID = pv_ID v,
                gr_EventLicenseID = None, gr_Status = GrantActive, gr_Source = ai_Source inp,
                gr_SourceReference = Some ref, gr_ActorID = ai_ActorID inp,
                gr_EntitlementSnapshot = pv_Entitlements v, gr_ActivatedAt = activatedAt,
                gr_UploadExpiresAt = upload, gr_RetentionExpiresAt = retention,
                gr_CreatedAt = activatedAt\<rparr>, pv_Code v)))"

text \<open>
  \<open>Activate\<close> returns the outcome, what the notifier was told, and the new state. The fresh
  grant and audit ids and the clock are arguments; \<open>notify\<close> says whether a notifier is
  wired.
\<close>

definition GrantActivate ::
  "plan_registry \<Rightarrow> 's catalog_repo \<Rightarrow> 's grant_repo \<Rightarrow> bool \<Rightarrow> uuid \<Rightarrow> uuid \<Rightarrow> time \<Rightarrow>
     activate_input \<Rightarrow> 's \<Rightarrow> (error + grant) \<times> plan_change list \<times> 's" where
  "GrantActivate reg cat repo notify grantID auditID now inp s =
     (if \<not> Source_Valid (ai_Source inp) \<or> ai_Source inp = SourceSystem
      then (Inl (Entitlement ErrInvalidSource), [], s)
      else
        (let ref = trim_space (ai_SourceRef inp)
         in if ref = '''' then (Inl (Entitlement ErrSourceReferenceRequired), [], s)
            else case ActiveVersion reg cat (ai_TargetPlanCode inp) s of
              Inl CatalogNotFound \<Rightarrow> (Inl (Entitlement ErrUnknownPlan), [], s)
            | Inl e \<Rightarrow> (Inl e, [], s)
            | Inr v \<Rightarrow>
                (let activatedAt = (if is_zero_time (ai_ActivatedAt inp) then now else ai_ActivatedAt inp);
                     req = \<lparr>rq_EventID = ai_EventID inp, rq_Source = ai_Source inp, rq_SourceRef = ref,
                       rq_ActorID = ai_ActorID inp, rq_Reason = ai_Reason inp\<rparr>
                 in case er_Activate repo auditID req (build_grant reg grantID inp ref v activatedAt) s of
                      (Inl e, s') \<Rightarrow> (Inl e, [], s')
                    | (Inr g, s') \<Rightarrow>
                        (Inr g,
                         if notify then [\<lparr>ch_EventID = gr_EventID g, ch_PlanCode = pv_Code v,
                            ch_GrantID = gr_ID g\<rparr>] else [], s'))))"

definition GrantRevoke ::
  "'s grant_repo \<Rightarrow> bool \<Rightarrow> uuid \<Rightarrow> time \<Rightarrow> uuid \<Rightarrow> string \<Rightarrow> 's \<Rightarrow>
     (error + active_grant \<times> active_grant) \<times> plan_change list \<times> 's" where
  "GrantRevoke repo notify auditID now eventID reason s =
     (if trim_space reason = ''''
      then (Inl (Fmt ''entitlement: a reason is required to revoke a grant''), [], s)
      else case er_Revoke repo auditID eventID (trim_space reason) now s of
        (Inl e, s') \<Rightarrow> (Inl e, [], s')
      | (Inr (revoked, restored), s') \<Rightarrow>
          (Inr (revoked, restored),
           if notify then [\<lparr>ch_EventID = eventID, ch_PlanCode = ag_PlanCode restored,
              ch_GrantID = gr_ID (ag_Grant restored)\<rparr>] else [], s'))"

text \<open>
  The backfill: \<open>LegacyBackfillRef\<close> is a prefix and the id's text, for which the uuid
  package's \<open>String\<close> is the argument \<open>uuid_string\<close>. \<open>fresh\<close> gives the grant and audit id
  of each event, so that the loop over ids is a recursion over the list.
\<close>

definition LegacyBackfillRef :: "(uuid \<Rightarrow> string) \<Rightarrow> uuid \<Rightarrow> string" where
  "LegacyBackfillRef uuid_string eventID = ''legacy-backfill:'' @ uuid_string eventID"

record backfill_report =
  bf_Upgraded :: nat
  bf_Skipped :: nat
  bf_Failed :: "(uuid \<times> error) list"

record 's backfill_env =
  be_registry :: plan_registry
  be_catalog :: "'s catalog_repo"
  be_repo :: "'s grant_repo"
  be_uuid_string :: "uuid \<Rightarrow> string"
  be_fresh :: "uuid \<Rightarrow> uuid \<times> uuid"
  be_now :: time
  be_dryRun :: bool

definition backfill_one ::
  "'s backfill_env \<Rightarrow> uuid \<Rightarrow> backfill_report \<times> 's \<Rightarrow> backfill_report \<times> 's" where
  "backfill_one E i rs =
     (let (r, s) = rs in
      if be_dryRun E then (r\<lparr>bf_Upgraded := bf_Upgraded r + 1\<rparr>, s)
      else case GrantActivate (be_registry E) (be_catalog E) (be_repo E) False
             (fst (be_fresh E i)) (snd (be_fresh E i)) (be_now E)
             \<lparr>ai_EventID = i, ai_TargetPlanCode = PlanExperience, ai_Source = SourceMigration,
              ai_SourceRef = LegacyBackfillRef (be_uuid_string E) i, ai_ActorID = None,
              ai_Reason = ''existing event moved to Experience before plan enforcement'',
              ai_ActivatedAt = 0\<rparr> s of
        (Inr _, _, s') \<Rightarrow> (r\<lparr>bf_Upgraded := bf_Upgraded r + 1\<rparr>, s')
      | (Inl (Entitlement ErrDuplicateSourceReference), _, s') \<Rightarrow> (r\<lparr>bf_Skipped := bf_Skipped r + 1\<rparr>, s')
      | (Inl (Entitlement ErrEventNotFound), _, s') \<Rightarrow> (r\<lparr>bf_Skipped := bf_Skipped r + 1\<rparr>, s')
      | (Inl e, _, s') \<Rightarrow> (r\<lparr>bf_Failed := bf_Failed r @ [(i, e)]\<rparr>, s'))"

fun backfill_loop ::
  "nat \<Rightarrow> 's backfill_env \<Rightarrow> time \<Rightarrow> nat \<Rightarrow> uuid \<Rightarrow> backfill_report \<times> 's \<Rightarrow>
     (error option \<times> backfill_report \<times> 's) option" where
  "backfill_loop 0 E cutoff batch after rs = None"
| "backfill_loop (Suc n) E cutoff batch after rs =
     (case er_BackfillCandidates (be_repo E) cutoff after batch (snd rs) of
        Inl e \<Rightarrow> Some (Some e, rs)
      | Inr ids \<Rightarrow>
          if ids = [] then Some (None, rs)
          else backfill_loop n E cutoff batch (last ids) (fold (backfill_one E) ids rs))"

definition BackfillLegacy ::
  "nat \<Rightarrow> 's backfill_env \<Rightarrow> time \<Rightarrow> int \<Rightarrow> 's \<Rightarrow> (error option \<times> backfill_report \<times> 's) option" where
  "BackfillLegacy fuel E cutoff batch s =
     backfill_loop fuel E cutoff (nat (if batch < 1 then 200 else batch)) uuid_nil
       (\<lparr>bf_Upgraded = 0, bf_Skipped = 0, bf_Failed = []\<rparr>, s)"

section \<open>Provisioning (provision.go)\<close>

text \<open>
  \<open>Provision\<close> runs inside the event's insert transaction: it writes the Free grant and
  returns the event with the plan's byte limit, as the code sets it on the struct.
\<close>

definition Provision ::
  "plan_registry \<Rightarrow> db catalog_repo \<Rightarrow> uuid \<Rightarrow> uuid \<Rightarrow> time \<Rightarrow> event \<Rightarrow> db \<Rightarrow> error + event \<times> db" where
  "Provision reg cat grantID auditID now evt s =
     (case ActiveVersion reg cat PlanFree s of
        Inl e \<Rightarrow> Inl e
      | Inr v \<Rightarrow>
          (let lim = Limits (pv_Entitlements v);
               (upload, retention) = Expiry (ev_EventDate evt) now (RetentionDays lim);
               g = \<lparr>gr_ID = grantID, gr_EventID = ev_ID evt, gr_PlanVersionID = pv_ID v,
                 gr_EventLicenseID = None, gr_Status = GrantActive, gr_Source = SourceSystem,
                 gr_SourceReference = None, gr_ActorID = None,
                 gr_EntitlementSnapshot = pv_Entitlements v, gr_ActivatedAt = now,
                 gr_UploadExpiresAt = upload, gr_RetentionExpiresAt = retention,
                 gr_CreatedAt = now\<rparr>
           in case writeGrant auditID g None PlanFree ''event created'' s of
                Inl e \<Rightarrow> Inl e
              | Inr s' \<Rightarrow>
                  Inr (if 0 < MaxMediaBytes lim then evt\<lparr>ev_MaxMediaBytes := MaxMediaBytes lim\<rparr> else evt,
                       s')))"
end
