(* ===== verification/Event.thy ===== *)
theory Event
  imports Customization Entitlement
begin

text \<open>
  Events (internal/event/service.go, repository.go): creation with its limits and the
  provisioning transaction, reads, updates, closing and deletion. The list of a host with its metrics is in EventList;
  the metrics a single read attaches are left out.
\<close>

section \<open>The table\<close>

definition open_trial :: "event \<Rightarrow> bool" where
  "open_trial e \<longleftrightarrow> ev_Status e = EventActive \<and> ev_TrialStartedAt e \<noteq> None \<and> ev_TrialEndedAt e = None"

definition events_keys_ok :: "event list \<Rightarrow> bool" where
  "events_keys_ok t \<longleftrightarrow>
     distinct (map ev_ID t) \<and> distinct (map ev_Slug t) \<and>
     distinct (map (\<lambda>e. (ev_HostID e, ev_ClientRequestID e)) (filter (\<lambda>e. ev_ClientRequestID e \<noteq> None) t)) \<and>
     distinct (map ev_HostID (filter open_trial t))"

definition write_events :: "event list \<Rightarrow> db \<Rightarrow> error + db" where
  "write_events t s =
     (if \<not> events_keys_ok t then Inl (DB ErrDuplicatedKey)
      else if \<not> list_all (\<lambda>e. 0 \<le> ev_ExpectedGuestCount e) t then Inl (DB ErrCheckViolated)
      else Inr (s\<lparr>t_events := t\<rparr>))"

definition update_events :: "(event \<Rightarrow> bool) \<Rightarrow> (event \<Rightarrow> event) \<Rightarrow> db \<Rightarrow> (error + nat) \<times> db" where
  "update_events p f s =
     (case write_events (update_where p f (t_events s)) s of
        Inl e \<Rightarrow> (Inl e, s)
      | Inr s' \<Rightarrow> (Inr (count_where p (t_events s)), s'))"

section \<open>Repository (repository.go)\<close>

type_synonym provisioner = "event \<Rightarrow> db \<Rightarrow> error + event \<times> db"

fun run_provisioners :: "provisioner list \<Rightarrow> event \<times> db \<Rightarrow> error + event \<times> db" where
  "run_provisioners [] es = Inr es"
| "run_provisioners (p # ps) es =
     (case p (fst es) (snd es) of Inl e \<Rightarrow> Inl e | Inr es' \<Rightarrow> run_provisioners ps es')"

definition create_event_tx :: "provisioner list \<Rightarrow> event \<Rightarrow> db \<Rightarrow> error + event \<times> db" where
  "create_event_tx provs evt s =
     (case write_events (t_events s @ [evt]) s of
        Inl e \<Rightarrow> Inl e
      | Inr s1 \<Rightarrow> run_provisioners provs (evt, s1))"

definition db_CreateEvent :: "provisioner list \<Rightarrow> event \<Rightarrow> db \<Rightarrow> (error + event) \<times> db" where
  "db_CreateEvent provs evt s =
     (case transaction (create_event_tx provs evt) s of
        (Inl (DB ErrDuplicatedKey), s') \<Rightarrow>
          (Inl (Event (if ev_ClientRequestID evt \<noteq> None then ErrDuplicateRequest
                       else ErrActiveEventLimitReached)), s')
      | r \<Rightarrow> r)"

definition db_GetByClientRequest :: "uuid \<Rightarrow> uuid \<Rightarrow> db \<Rightarrow> error + event" where
  "db_GetByClientRequest hostID requestID s =
     (case first_by ev_ID (\<lambda>e. ev_HostID e = hostID \<and> ev_ClientRequestID e = Some requestID) (t_events s) of
        None \<Rightarrow> Inl (Event ErrEvtNotFound) | Some e \<Rightarrow> Inr e)"

definition owned :: "uuid \<Rightarrow> uuid \<Rightarrow> event \<Rightarrow> bool" where
  "owned i hostID e \<longleftrightarrow> ev_ID e = i \<and> ev_HostID e = hostID \<and> ev_Status e \<noteq> EventDeleted"

definition db_GetOwned :: "uuid \<Rightarrow> uuid \<Rightarrow> db \<Rightarrow> error + event" where
  "db_GetOwned i hostID s =
     (case first_by ev_ID (owned i hostID) (t_events s) of
        None \<Rightarrow> Inl (Event ErrEvtNotFound) | Some e \<Rightarrow> Inr e)"

definition db_GetPublic :: "string \<Rightarrow> db \<Rightarrow> error + event" where
  "db_GetPublic slug s =
     (case first_by ev_ID (\<lambda>e. ev_Slug e = slug \<and> ev_Status e = EventActive) (t_events s) of
        None \<Rightarrow> Inl (Event ErrEvtNotFound) | Some e \<Rightarrow> Inr e)"

text \<open>\<open>None\<close> for an empty set of updates.\<close>

definition db_UpdateOwned ::
  "uuid \<Rightarrow> uuid \<Rightarrow> (event \<Rightarrow> event) option \<Rightarrow> db \<Rightarrow> (error + event) \<times> db" where
  "db_UpdateOwned i hostID upd s =
     (case upd of
        None \<Rightarrow> (db_GetOwned i hostID s, s)
      | Some f \<Rightarrow>
          (case update_events (owned i hostID) f s of
             (Inl e, s') \<Rightarrow> (Inl e, s')
           | (Inr n, s') \<Rightarrow>
               if n = 0 then (Inl (Event ErrEvtNotFound), s')
               else (case find (owned i hostID) (t_events s) of
                       None \<Rightarrow> (Inl (Event ErrEvtNotFound), s')
                     | Some e \<Rightarrow> (Inr (f e), s'))))"

definition one_row :: "(error + nat) \<times> db \<Rightarrow> error option \<times> db" where
  "one_row r = (case r of
     (Inl e, s) \<Rightarrow> (Some e, s)
   | (Inr n, s) \<Rightarrow> (if n \<noteq> 1 then Some (Event ErrEvtNotFound) else None, s))"

definition db_DeleteOwned :: "uuid \<Rightarrow> uuid \<Rightarrow> db \<Rightarrow> error option \<times> db" where
  "db_DeleteOwned i hostID s = one_row (update_events (owned i hostID)
     (\<lambda>e. e\<lparr>ev_Status := EventDeleted, ev_GalleryEnabled := False\<rparr>) s)"

definition db_CloseOwned :: "time \<Rightarrow> uuid \<Rightarrow> uuid \<Rightarrow> db \<Rightarrow> error option \<times> db" where
  "db_CloseOwned now i hostID s = one_row (update_events
     (\<lambda>e. ev_ID e = i \<and> ev_HostID e = hostID \<and> ev_Status e = EventActive)
     (\<lambda>e. e\<lparr>ev_Status := EventClosed, ev_UpdatedAt := now\<rparr>) s)"

definition db_CountActiveTrialsByHost :: "uuid \<Rightarrow> db \<Rightarrow> error + nat" where
  "db_CountActiveTrialsByHost hostID s =
     Inr (count_where (\<lambda>e. ev_HostID e = hostID \<and> open_trial e) (t_events s))"

definition db_CountTrialsSince :: "uuid \<Rightarrow> time \<Rightarrow> db \<Rightarrow> error + nat" where
  "db_CountTrialsSince hostID since s =
     Inr (count_where (\<lambda>e. ev_HostID e = hostID \<and>
        (case ev_TrialStartedAt e of None \<Rightarrow> False | Some t \<Rightarrow> since \<le> t)) (t_events s))"

section \<open>Service (service.go)\<close>

record event_change =
  ec_EventID :: uuid
  ec_GalleryEnabled :: bool
  ec_Status :: event_status

record event_service =
  vs_provisioners :: "provisioner list"
  vs_eventMaxBytes :: int
  vs_notifier :: bool
  vs_plans :: "(uuid \<Rightarrow> feature \<Rightarrow> db \<Rightarrow> error option) option"
  vs_maxActiveEvents :: int
  vs_maxTrialEvents :: int
  vs_trialWindow :: time
  vs_limitsEnabled :: bool
  vs_now :: time
  vs_decode :: json_decoder

definition WithLimits :: "int \<Rightarrow> int \<Rightarrow> bool \<Rightarrow> event_service \<Rightarrow> event_service" where
  "WithLimits maxActive maxRolling enabled S = S\<lparr>vs_maxActiveEvents := maxActive,
     vs_maxTrialEvents := maxRolling, vs_trialWindow := 30 * day, vs_limitsEnabled := enabled\<rparr>"

record create_input =
  in_Name :: string
  in_EventType :: string
  in_EventDate :: "time option"
  in_ExpectedGuestCount :: int
  in_ClientRequestID :: "uuid option"

record update_input =
  up_Name :: "string option"
  up_EventType :: "string option"
  up_EventDate :: "time option"
  up_ClearEventDate :: bool
  up_ExpectedGuestCount :: "int option"
  up_GalleryEnabled :: "bool option"
  up_LifecyclePhase :: "string option"
  up_SetupChecklist :: "string option"
  up_CandidCameraEnabled :: "bool option"
  up_GuestTheme :: "string option"
  up_QRConfig :: "string option"

definition defaultType :: "string \<Rightarrow> string" where
  "defaultType t = (if trim_space t = '''' then ''other'' else trim_space t)"

definition requireFullCustomization ::
  "event_service \<Rightarrow> uuid \<Rightarrow> uuid \<Rightarrow> update_input \<Rightarrow> db \<Rightarrow> error option" where
  "requireFullCustomization S i hostID inp s =
     (case vs_plans S of
        None \<Rightarrow> None
      | Some gate \<Rightarrow>
          (let full = (case up_GuestTheme inp of None \<Rightarrow> False
                         | Some t \<Rightarrow> \<not> isBasicGuestTheme (vs_decode S) t) \<or>
                      (case up_QRConfig inp of None \<Rightarrow> False
                         | Some q \<Rightarrow> \<not> isBasicQRConfig (vs_decode S) q)
           in if \<not> full then None
              else case db_GetOwned i hostID s of
                Inl e \<Rightarrow> Some e
              | Inr _ \<Rightarrow> gate i FeatureFullCustomization s))"

text \<open>The limits a host meets before a new trial event, in the order they are checked.\<close>

definition creation_limit :: "event_service \<Rightarrow> uuid \<Rightarrow> db \<Rightarrow> error option" where
  "creation_limit S hostID s =
     (if \<not> vs_limitsEnabled S then None
      else
        (let rolling = (if vs_maxTrialEvents S \<le> 0 then None
               else case db_CountTrialsSince hostID (vs_now S - vs_trialWindow S) s of
                 Inl e \<Rightarrow> Some e
               | Inr n \<Rightarrow> if vs_maxTrialEvents S \<le> int n then Some (Event ErrTrialWindowLimitReached) else None)
         in case rolling of
              Some e \<Rightarrow> Some e
            | None \<Rightarrow>
                if vs_maxActiveEvents S \<le> 0 then None
                else (case db_CountActiveTrialsByHost hostID s of
                        Inl e \<Rightarrow> Some e
                      | Inr n \<Rightarrow> if vs_maxActiveEvents S \<le> int n
                                then Some (Event ErrActiveEventLimitReached) else None)))"

definition new_event ::
  "event_service \<Rightarrow> uuid \<Rightarrow> string \<Rightarrow> uuid \<Rightarrow> create_input \<Rightarrow> event" where
  "new_event S freshID slug hostID inp = \<lparr>ev_ID = freshID, ev_HostID = hostID,
     ev_ClientRequestID = in_ClientRequestID inp, ev_Name = trim_space (in_Name inp), ev_Slug = slug,
     ev_EventDate = in_EventDate inp, ev_EventType = defaultType (in_EventType inp),
     ev_ExpectedGuestCount = in_ExpectedGuestCount inp, ev_Status = EventActive,
     ev_GalleryEnabled = True, ev_LifecyclePhase = None, ev_SetupChecklist = ''{}'',
     ev_CandidCameraEnabled = True, ev_GuestTheme = None, ev_QRConfig = None,
     ev_MaxMediaBytes = vs_eventMaxBytes S, ev_UsedMediaBytes = 0, ev_ReservedMediaBytes = 0,
     ev_TrialStartedAt = Some (vs_now S), ev_TrialEndedAt = None, ev_BillingStatus = EventBillingOK,
     ev_CreatedAt = vs_now S, ev_UpdatedAt = vs_now S, max_media_items = 0, uploaded_media_items = 0,
     reserved_media_items = 0, max_photo_items = 0, uploaded_photo_items = 0,
     reserved_photo_items = 0, max_video_items = 0, uploaded_video_items = 0,
     reserved_video_items = 0, media_purged_at = None\<rparr>"

text \<open>\<open>freshID\<close> and \<open>slug\<close> are what the database and \<open>slug()\<close> draw.\<close>

definition CreateEvent ::
  "event_service \<Rightarrow> uuid \<Rightarrow> string \<Rightarrow> uuid \<Rightarrow> create_input \<Rightarrow> db \<Rightarrow> (error + event) \<times> db" where
  "CreateEvent S freshID slug hostID inp s =
     (if trim_space (in_Name inp) = '''' then (Inl (Fmt ''event name is required''), s)
      else if in_ExpectedGuestCount inp < 0
      then (Inl (Fmt ''expected guest count cannot be negative''), s)
      else case creation_limit S hostID s of
        Some e \<Rightarrow> (Inl e, s)
      | None \<Rightarrow>
          (case db_CreateEvent (vs_provisioners S) (new_event S freshID slug hostID inp) s of
             (Inl (Event ErrDuplicateRequest), s') \<Rightarrow>
               (case in_ClientRequestID inp of
                  None \<Rightarrow> (Inl (Event ErrDuplicateRequest), s')
                | Some req \<Rightarrow>
                    (case db_GetByClientRequest hostID req s' of
                       Inr existing \<Rightarrow> (Inr existing, s')
                     | Inl _ \<Rightarrow> (Inl (Event ErrDuplicateRequest), s')))
           | r \<Rightarrow> r))"

definition CloseEvent :: "event_service \<Rightarrow> uuid \<Rightarrow> uuid \<Rightarrow> db \<Rightarrow> error option \<times> event_change list \<times> db" where
  "CloseEvent S i hostID s =
     (case db_CloseOwned (vs_now S) i hostID s of
        (Some e, s') \<Rightarrow> (Some e, [], s')
      | (None, s') \<Rightarrow>
          (None, if vs_notifier S then [\<lparr>ec_EventID = i, ec_GalleryEnabled = False,
             ec_Status = EventClosed\<rparr>] else [], s'))"

definition DeleteEvent :: "uuid \<Rightarrow> uuid \<Rightarrow> db \<Rightarrow> error option \<times> db" where
  "DeleteEvent i hostID s = db_DeleteOwned i hostID s"

text \<open>The column updates of a request, or the first field that is refused.\<close>

definition has_updates :: "update_input \<Rightarrow> bool" where
  "has_updates inp \<longleftrightarrow> up_Name inp \<noteq> None \<or> up_EventType inp \<noteq> None \<or> up_ClearEventDate inp \<or>
     up_EventDate inp \<noteq> None \<or> up_ExpectedGuestCount inp \<noteq> None \<or> up_GalleryEnabled inp \<noteq> None \<or>
     up_LifecyclePhase inp \<noteq> None \<or> up_SetupChecklist inp \<noteq> None \<or>
     up_CandidCameraEnabled inp \<noteq> None \<or> up_GuestTheme inp \<noteq> None \<or> up_QRConfig inp \<noteq> None"

definition set_columns :: "time \<Rightarrow> update_input \<Rightarrow> event \<Rightarrow> event" where
  "set_columns now inp e = e\<lparr>
     ev_Name := (case up_Name inp of None \<Rightarrow> ev_Name e | Some n \<Rightarrow> trim_space n),
     ev_EventType := (case up_EventType inp of None \<Rightarrow> ev_EventType e | Some t \<Rightarrow> defaultType t),
     ev_EventDate := (if up_ClearEventDate inp then None
        else case up_EventDate inp of None \<Rightarrow> ev_EventDate e | Some d \<Rightarrow> Some d),
     ev_ExpectedGuestCount := coalesce (up_ExpectedGuestCount inp) (ev_ExpectedGuestCount e),
     ev_GalleryEnabled := coalesce (up_GalleryEnabled inp) (ev_GalleryEnabled e),
     ev_LifecyclePhase := (case up_LifecyclePhase inp of None \<Rightarrow> ev_LifecyclePhase e
        | Some l \<Rightarrow> Some (trim_space l)),
     ev_SetupChecklist := coalesce (up_SetupChecklist inp) (ev_SetupChecklist e),
     ev_CandidCameraEnabled := coalesce (up_CandidCameraEnabled inp) (ev_CandidCameraEnabled e),
     ev_GuestTheme := (case up_GuestTheme inp of None \<Rightarrow> ev_GuestTheme e | Some t \<Rightarrow> Some t),
     ev_QRConfig := (case up_QRConfig inp of None \<Rightarrow> ev_QRConfig e | Some q \<Rightarrow> Some q),
     ev_UpdatedAt := now\<rparr>"

definition event_updates :: "event_service \<Rightarrow> update_input \<Rightarrow> error + (event \<Rightarrow> event) option" where
  "event_updates S inp =
     (if (case up_Name inp of None \<Rightarrow> False | Some n \<Rightarrow> trim_space n = '''')
      then Inl (Fmt ''event name cannot be empty'')
      else if (case up_ExpectedGuestCount inp of None \<Rightarrow> False | Some n \<Rightarrow> n < 0)
      then Inl (Fmt ''expected guest count cannot be negative'')
      else case (case up_QRConfig inp of None \<Rightarrow> None | Some q \<Rightarrow> validateQRConfig (vs_decode S) q) of
        Some e \<Rightarrow> Inl e
      | None \<Rightarrow> Inr (if has_updates inp then Some (set_columns (vs_now S) inp) else None))"

definition UpdateEvent ::
  "event_service \<Rightarrow> uuid \<Rightarrow> uuid \<Rightarrow> update_input \<Rightarrow> db \<Rightarrow> (error + event) \<times> event_change list \<times> db" where
  "UpdateEvent S i hostID inp s =
     (case requireFullCustomization S i hostID inp s of
        Some e \<Rightarrow> (Inl e, [], s)
      | None \<Rightarrow>
     (case event_updates S inp of
        Inl e \<Rightarrow> (Inl e, [], s)
      | Inr upd \<Rightarrow>
     (case db_UpdateOwned i hostID upd s of
        (Inl e, s') \<Rightarrow> (Inl e, [], s')
      | (Inr e, s') \<Rightarrow>
          (Inr e,
           if vs_notifier S \<and> up_GalleryEnabled inp \<noteq> None
           then [\<lparr>ec_EventID = ev_ID e, ec_GalleryEnabled = ev_GalleryEnabled e,
             ec_Status = ev_Status e\<rparr>] else [], s'))))"

text \<open>
  The page arithmetic of \<open>List\<close>. The quotient is taken in \<open>float64\<close>, which is exact for
  totals below \<open>2 ^ 53\<close>, and rounded up.
\<close>

record pagination =
  pg_Page :: int
  pg_PerPage :: int
  pg_Total :: int
  pg_TotalPages :: int
  pg_HasNext :: bool
  pg_HasPrev :: bool

definition list_pagination :: "int \<Rightarrow> int \<Rightarrow> int \<Rightarrow> pagination" where
  "list_pagination page0 perPage0 n =
     (let page = (if page0 < 1 then 1 else page0);
          perPage = (if perPage0 < 1 then 12 else if 100 < perPage0 then 100 else perPage0);
          totalPages = (if 0 < n then (n + perPage - 1) div perPage else 1)
      in \<lparr>pg_Page = page, pg_PerPage = perPage, pg_Total = n, pg_TotalPages = totalPages,
          pg_HasNext = (page < totalPages), pg_HasPrev = (1 < page)\<rparr>)"

end
