(* ===== verification/EntitlementFacts.thy ===== *)
theory EntitlementFacts
  imports Entitlement
begin

text \<open>
  The laws of the grant transactions: the invariant of the grants table, what an
  activation and a revocation do to the active grant and the event's limits, and the
  interface \<open>grant_ledger\<close> the granting service relies on, interpreted on the database.
\<close>

section \<open>Invariant\<close>

definition active_rows :: "grant list \<Rightarrow> grant list" where
  "active_rows t = filter (\<lambda>g. gr_Status g = GrantActive) t"

definition one_active :: "grant list \<Rightarrow> bool" where
  "one_active t \<longleftrightarrow> distinct (map gr_EventID (active_rows t))"

definition refs_unique :: "grant list \<Rightarrow> bool" where
  "refs_unique t \<longleftrightarrow>
     distinct (map (\<lambda>g. (gr_Source g, gr_SourceReference g)) (filter (\<lambda>g. gr_SourceReference g \<noteq> None) t))"

definition grants_inv :: "db \<Rightarrow> bool" where
  "grants_inv s \<longleftrightarrow>
     keyed gr_ID (t_grants s) \<and> one_active (t_grants s) \<and> refs_unique (t_grants s) \<and>
     (\<forall>g \<in> set (t_grants s). gr_UploadExpiresAt g \<le> gr_RetentionExpiresAt g \<and>
        lookup_row pv_ID (gr_PlanVersionID g) (t_plan_versions s) \<noteq> None)"

text \<open>
  \<open>limits_match\<close> is the \<open>LimitMismatch\<close> check of \<open>Reconcile\<close>: an event's hot limits are
  those of its active grant.
\<close>

definition limits_of :: "grant \<Rightarrow> limits" where
  "limits_of g = Limits (gr_EntitlementSnapshot g)"

definition event_has_limits :: "event \<Rightarrow> limits \<Rightarrow> bool" where
  "event_has_limits e l \<longleftrightarrow>
     max_media_items e = MaxMediaItems l \<and> max_photo_items e = MaxPhotoItems l \<and>
     max_video_items e = MaxVideoItems l \<and>
     (0 < MaxMediaBytes l \<longrightarrow> ev_MaxMediaBytes e = MaxMediaBytes l)"

definition limits_match :: "db \<Rightarrow> bool" where
  "limits_match s \<longleftrightarrow> (\<forall>e \<in> set (t_events s). \<forall>g \<in> set (t_grants s).
     gr_EventID g = ev_ID e \<and> gr_Status g = GrantActive \<longrightarrow> event_has_limits e (limits_of g))"

section \<open>The active grant\<close>

lemma filter_update_off [tbl]:
  "(\<And>r. p r \<Longrightarrow> \<not> q (f r)) \<Longrightarrow> filter q (update_where p f t) = filter (\<lambda>r. q r \<and> \<not> p r) t"
  by (induction t) auto

lemma join_grant_Some:
  "join_grant s g = Some a \<Longrightarrow> ag_Grant a = g"
  by (auto simp: join_grant_def)

lemma activeGrant_Some:
  assumes "activeGrant i s = Some a"
  shows "ag_Grant a \<in> set (t_grants s)" "gr_EventID (ag_Grant a) = i"
    "gr_Status (ag_Grant a) = GrantActive" "join_grant s (ag_Grant a) = Some a"
proof -
  let ?xs = "List.map_filter (join_grant s)
    (filter (\<lambda>g. gr_EventID g = i \<and> gr_Status g = GrantActive) (t_grants s))"
  from assms obtain u where "?xs = a # u"
    by (auto simp: activeGrant_def split: list.splits)
  then have "a \<in> set ?xs" by simp
  then obtain g where g: "g \<in> set (t_grants s)" "gr_EventID g = i" "gr_Status g = GrantActive"
      "join_grant s g = Some a"
    by (auto simp: List.map_filter_def)
  then have "ag_Grant a = g" by (simp add: join_grant_Some)
  with g show "ag_Grant a \<in> set (t_grants s)" "gr_EventID (ag_Grant a) = i"
    "gr_Status (ag_Grant a) = GrantActive" "join_grant s (ag_Grant a) = Some a"
    by simp_all
qed

lemma activeGrant_None:
  assumes "activeGrant i s = None" "grants_inv s" "g \<in> set (t_grants s)" "gr_EventID g = i"
  shows "gr_Status g \<noteq> GrantActive"
proof
  assume act: "gr_Status g = GrantActive"
  from assms(2,3) have "join_grant s g \<noteq> None"
    by (auto simp: grants_inv_def join_grant_def)
  with assms(3,4) act have
    "the (join_grant s g) \<in> set (List.map_filter (join_grant s)
       (filter (\<lambda>g. gr_EventID g = i \<and> gr_Status g = GrantActive) (t_grants s)))"
    by (auto simp: List.map_filter_def)
  with assms(1) show False
    by (auto simp: activeGrant_def split: list.splits)
qed

lemma one_active_unique:
  assumes "one_active t" "g \<in> set t" "h \<in> set t" "gr_Status g = GrantActive"
    "gr_Status h = GrantActive" "gr_EventID g = gr_EventID h"
  shows "g = h"
proof -
  from assms have "g \<in> set (active_rows t)" "h \<in> set (active_rows t)"
    by (simp_all add: active_rows_def)
  with assms(1,6) show ?thesis
    by (simp add: one_active_def distinct_map inj_on_def)
qed

lemma activeGrant_intro:
  assumes "grants_inv s" "g \<in> set (t_grants s)" "gr_EventID g = i" "gr_Status g = GrantActive"
  shows "activeGrant i s = join_grant s g"
proof (cases "activeGrant i s")
  case None
  with activeGrant_None [OF None assms(1,2,3)] assms(4) show ?thesis by simp
next
  case (Some a)
  note a = activeGrant_Some [OF Some]
  from assms(1) have "one_active (t_grants s)" by (simp add: grants_inv_def)
  from one_active_unique [OF this assms(2) a(1) assms(4) a(3)] assms(3) a(2)
  have "g = ag_Grant a" by simp
  with a(4) Some show ?thesis by simp
qed

section \<open>Writing a grant\<close>

text \<open>What superseding the current grant leaves active for the event: nothing.\<close>

definition after_supersede :: "active_grant option \<Rightarrow> db \<Rightarrow> db" where
  "after_supersede previous s = (case previous of
      None \<Rightarrow> s
    | Some p \<Rightarrow> set_grant_status
        (\<lambda>h. gr_ID h = gr_ID (ag_Grant p) \<and> gr_Status h = GrantActive) GrantSuperseded s)"

lemma set_grant_status_frame [simp]:
  "t_events (set_grant_status p st s) = t_events s"
  "t_plan_versions (set_grant_status p st s) = t_plan_versions s"
  "t_audits (set_grant_status p st s) = t_audits s"
  "t_licenses (set_grant_status p st s) = t_licenses s"
  "t_purchases (set_grant_status p st s) = t_purchases s"
  "t_grants (set_grant_status p st s) = update_where p (\<lambda>g. g\<lparr>gr_Status := st\<rparr>) (t_grants s)"
  by (simp_all add: set_grant_status_def)

lemma after_supersede_frame [simp]:
  "t_events (after_supersede previous s) = t_events s"
  "t_plan_versions (after_supersede previous s) = t_plan_versions s"
  "t_audits (after_supersede previous s) = t_audits s"
  "t_licenses (after_supersede previous s) = t_licenses s"
  "t_purchases (after_supersede previous s) = t_purchases s"
  by (simp_all add: after_supersede_def split: option.splits)

lemma one_active_supersede:
  "one_active t \<Longrightarrow> one_active (update_where (\<lambda>h. gr_ID h = i \<and> gr_Status h = GrantActive)
     (\<lambda>g. g\<lparr>gr_Status := GrantSuperseded\<rparr>) t)"
proof -
  let ?u = "update_where (\<lambda>h. gr_ID h = i \<and> gr_Status h = GrantActive)
     (\<lambda>g. g\<lparr>gr_Status := GrantSuperseded\<rparr>) t"
  have "active_rows ?u = filter (\<lambda>g. gr_ID g \<noteq> i) (active_rows t)"
    by (auto simp: active_rows_def filter_update_off intro: filter_cong)
  then show "one_active t \<Longrightarrow> one_active ?u"
    by (simp add: one_active_def distinct_map_filter)
qed

lemma refs_unique_status [simp]:
  "refs_unique (update_where p (\<lambda>g. g\<lparr>gr_Status := st\<rparr>) t) = refs_unique t"
proof -
  have "map (\<lambda>g. (gr_Source g, gr_SourceReference g))
      (filter (\<lambda>g. gr_SourceReference g \<noteq> None) (update_where p (\<lambda>g. g\<lparr>gr_Status := st\<rparr>) t)) =
    map (\<lambda>g. (gr_Source g, gr_SourceReference g)) (filter (\<lambda>g. gr_SourceReference g \<noteq> None) t)"
    by (induction t) auto
  then show ?thesis by (simp add: refs_unique_def)
qed

lemma keyed_grant_status [simp]:
  "keyed gr_ID (update_where p (\<lambda>g. g\<lparr>gr_Status := st\<rparr>) t) = keyed gr_ID t"
  by (rule keyed_update) simp

lemma supersede_inv:
  assumes "grants_inv s"
  shows "grants_inv (after_supersede previous s)"
  using assms
  by (auto simp: after_supersede_def grants_inv_def one_active_supersede set_update_where
      split: option.splits)

text \<open>After the supersede step no grant of the event is active.\<close>

lemma supersede_none_active:
  assumes inv: "grants_inv s" and cur: "activeGrant i s = previous"
    and h: "h \<in> set (t_grants (after_supersede previous s))" "gr_EventID h = i"
  shows "gr_Status h \<noteq> GrantActive"
proof (cases previous)
  case None
  with activeGrant_None inv cur h show ?thesis
    by (auto simp: after_supersede_def)
next
  case (Some p)
  note p = activeGrant_Some [OF cur [unfolded Some]]
  from h(1) Some obtain g where g: "g \<in> set (t_grants s)"
    "h = (if gr_ID g = gr_ID (ag_Grant p) \<and> gr_Status g = GrantActive
          then g\<lparr>gr_Status := GrantSuperseded\<rparr> else g)"
    by (auto simp: after_supersede_def set_update_where)
  show ?thesis
  proof
    assume act: "gr_Status h = GrantActive"
    with g have hg: "h = g" "gr_ID g \<noteq> gr_ID (ag_Grant p)"
      by (auto split: if_splits)
    from inv have "one_active (t_grants s)" by (simp add: grants_inv_def)
    from one_active_unique [OF this g(1) p(1)] act hg p h(2) have "g = ag_Grant p" by simp
    with hg(2) show False by simp
  qed
qed

text \<open>The state a successful \<open>writeGrant\<close> ends in, table by table.\<close>

lemma writeGrant_Inr:
  assumes "writeGrant auditID g previous target reason s = Inr s'"
  shows "t_grants s' = t_grants (after_supersede previous s) @ [g]"
    and "t_events s' = t_events (applyHotLimits (gr_EventID g) (limits_of g) s)"
    and "t_plan_versions s' = t_plan_versions s"
    and "t_licenses s' = t_licenses s"
    and "t_purchases s' = t_purchases s"
    and "\<forall>h \<in> set (t_grants (after_supersede previous s)). \<not> grant_conflict g h"
    and "gr_UploadExpiresAt g \<le> gr_RetentionExpiresAt g"
    and "\<exists>a. t_audits s' = t_audits s @ [a] \<and> au_GrantID a = gr_ID g \<and> au_TargetPlan a = target \<and>
          au_PreviousPlan a = map_option ag_PlanCode previous"
  using assms
  by (auto simp: writeGrant_def create_grant_def after_supersede_def applyHotLimits_def writeAudit_def
      limits_of_def Let_def split: sum.splits if_splits option.splits)

lemma writeGrant_total:
  assumes inv: "grants_inv s" and cur: "activeGrant (gr_EventID g) s = previous"
    and fresh: "\<forall>h \<in> set (t_grants s). gr_ID h \<noteq> gr_ID g"
    and ref: "\<forall>h \<in> set (t_grants s). gr_SourceReference g \<noteq> None \<longrightarrow> gr_Source h = gr_Source g \<longrightarrow>
       gr_SourceReference h \<noteq> gr_SourceReference g"
    and lic: "\<forall>h \<in> set (t_grants s). gr_EventLicenseID g \<noteq> None \<longrightarrow>
       gr_EventLicenseID h \<noteq> gr_EventLicenseID g"
    and exp: "gr_UploadExpiresAt g \<le> gr_RetentionExpiresAt g"
  shows "\<exists>s'. writeGrant auditID g previous target reason s = Inr s'"
proof -
  have "\<not> grant_conflict g h" if h: "h \<in> set (t_grants (after_supersede previous s))" for h
  proof -
    from h obtain h0 where h0: "h0 \<in> set (t_grants s)" "gr_ID h = gr_ID h0" "gr_Source h = gr_Source h0"
      "gr_SourceReference h = gr_SourceReference h0" "gr_EventLicenseID h = gr_EventLicenseID h0"
      by (auto simp: after_supersede_def set_update_where split: option.splits)
    from supersede_none_active [OF inv cur h] h0 fresh ref lic show ?thesis
      by (auto simp: grant_conflict_def)
  qed
  with exp show ?thesis
    by (auto simp: writeGrant_def create_grant_def after_supersede_def Let_def split: option.splits)
qed

lemma writeGrant_inv:
  assumes inv: "grants_inv s" and w: "writeGrant auditID g previous target reason s = Inr s'"
    and v: "lookup_row pv_ID (gr_PlanVersionID g) (t_plan_versions s) \<noteq> None"
  shows "grants_inv s'"
proof -
  note w = writeGrant_Inr [OF w]
  let ?t = "t_grants (after_supersede previous s)"
  from supersede_inv [OF inv, of previous] have t: "keyed gr_ID ?t" "one_active ?t" "refs_unique ?t"
    "\<forall>h \<in> set ?t. gr_UploadExpiresAt h \<le> gr_RetentionExpiresAt h \<and>
       lookup_row pv_ID (gr_PlanVersionID h) (t_plan_versions s) \<noteq> None"
    by (simp_all add: grants_inv_def)
  have nc: "\<not> grant_conflict g h" if "h \<in> set ?t" for h using w(6) that by blast
  have "keyed gr_ID (?t @ [g])"
    using t(1) nc by (intro keyed_append_new) (auto simp: lookup_row_None grant_conflict_def)
  moreover have "one_active (?t @ [g])"
  proof -
    have "gr_EventID h \<noteq> gr_EventID g"
      if "gr_Status g = GrantActive" "h \<in> set ?t" "gr_Status h = GrantActive" for h
      using nc [OF that(2)] that by (simp add: grant_conflict_def)
    then show ?thesis
      using t(2) by (auto simp: one_active_def active_rows_def) (metis (no_types))
  qed
  moreover have "refs_unique (?t @ [g])"
  proof -
    have "(gr_Source h, gr_SourceReference h) \<noteq> (gr_Source g, gr_SourceReference g)"
      if "gr_SourceReference g \<noteq> None" "h \<in> set ?t" for h
      using nc [OF that(2)] that by (auto simp: grant_conflict_def)
    then show ?thesis
      using t(3) by (auto simp: refs_unique_def)
  qed
  ultimately show ?thesis
    using t(4) w(1,3,7) v by (auto simp: grants_inv_def)
qed

lemma writeGrant_active:
  assumes inv: "grants_inv s" and w: "writeGrant auditID g previous target reason s = Inr s'"
    and v: "lookup_row pv_ID (gr_PlanVersionID g) (t_plan_versions s) = Some v"
    and act: "gr_Status g = GrantActive"
  shows "activeGrant (gr_EventID g) s' =
    Some \<lparr>ag_Grant = g, ag_PlanCode = pv_Code v, ag_PlanName = pv_DisplayName v,
      ag_PlanVersion = pv_Version v\<rparr>"
proof -
  from writeGrant_inv [OF inv w] v have "grants_inv s'" by simp
  moreover have "g \<in> set (t_grants s')" using writeGrant_Inr(1) [OF w] by simp
  ultimately have "activeGrant (gr_EventID g) s' = join_grant s' g"
    using act by (intro activeGrant_intro) simp_all
  with v writeGrant_Inr(3) [OF w] show ?thesis by (simp add: join_grant_def)
qed

section \<open>Activation\<close>

lemma transaction_Inr:
  "transaction f s = (Inr x, s') \<longleftrightarrow> f s = Inr (x, s')"
  by (auto simp: transaction_def split: sum.splits prod.splits)

lemma transaction_Inl:
  "transaction f s = (Inl e, s') \<longleftrightarrow> f s = Inl e \<and> s' = s"
  by (auto simp: transaction_def split: sum.splits prod.splits)

lemma db_Activate_Inr:
  assumes "db_Activate auditID req build s = (Inr g, s')"
  obtains e target where "lookup_row ev_ID (rq_EventID req) (t_events s) = Some e"
    "build \<lparr>ef_EventDate = ev_EventDate e\<rparr> (activeGrant (rq_EventID req) s) = Inr (g, target)"
    "writeGrant auditID g (activeGrant (rq_EventID req) s) target (rq_Reason req) s = Inr s'"
proof -
  from assms have "activate_tx auditID req build s = Inr (g, s')"
    by (auto simp: db_Activate_def transaction_Inr split: prod.splits sum.splits error.splits db_error.splits)
  with that show ?thesis
    by (auto simp: activate_tx_def Let_def split: option.splits if_splits sum.splits prod.splits)
qed

text \<open>Any error leaves the database as it was.\<close>

lemma db_Activate_Inl:
  "db_Activate auditID req build s = (Inl e, s') \<Longrightarrow> s' = s"
  by (auto simp: db_Activate_def transaction_def
      split: prod.splits sum.splits error.splits db_error.splits)

lemma db_Revoke_Inl: "db_Revoke auditID i reason at s = (Inl e, s') \<Longrightarrow> s' = s"
  by (auto simp: db_Revoke_def transaction_Inl)

text \<open>The grants the granting service builds.\<close>

lemma build_grant_Inr:
  assumes "build_grant reg grantID inp ref v at facts current = Inr (g, target)"
  shows "gr_ID g = grantID" "gr_EventID g = ai_EventID inp" "gr_PlanVersionID g = pv_ID v"
    "gr_EventLicenseID g = None" "gr_Status g = GrantActive" "gr_Source g = ai_Source inp"
    "gr_SourceReference g = Some ref" "gr_EntitlementSnapshot g = pv_Entitlements v"
    "gr_ActivatedAt g = at" "gr_CreatedAt g = at" "target = pv_Code v"
    "CheckTransition reg (map_option ag_PlanCode current) (pv_Code v) = None"
    "at + RetentionDays (Limits (pv_Entitlements v)) * day \<le> gr_UploadExpiresAt g"
    "current = Some c \<Longrightarrow> gr_UploadExpiresAt (ag_Grant c) \<le> gr_UploadExpiresAt g"
    "current = Some c \<Longrightarrow> gr_RetentionExpiresAt (ag_Grant c) \<le> gr_RetentionExpiresAt g"
    "(\<forall>c. current = Some c \<longrightarrow> gr_UploadExpiresAt (ag_Grant c) \<le> gr_RetentionExpiresAt (ag_Grant c)) \<Longrightarrow>
       gr_UploadExpiresAt g \<le> gr_RetentionExpiresAt g"
  using assms
  by (auto simp: build_grant_def Expiry_def later_def Let_def
      split: option.splits if_splits prod.splits)

lemma db_ActiveVersion_Inr:
  assumes "db_ActiveVersion code s = Inr v"
  shows "v \<in> set (t_plan_versions s)" "pv_Code v = code" "pv_Status v = VersionActive"
  using assms first_by_Some [of pv_ID "\<lambda>v. pv_Code v = code \<and> pv_Status v = VersionActive"]
  by (auto simp: db_ActiveVersion_def split: option.splits)

text \<open>A successful call of \<open>GrantService.Activate\<close>, unfolded to its transaction.\<close>

definition activate_request :: "activate_input \<Rightarrow> activation_request" where
  "activate_request inp = \<lparr>rq_EventID = ai_EventID inp, rq_Source = ai_Source inp,
     rq_SourceRef = trim_space (ai_SourceRef inp), rq_ActorID = ai_ActorID inp,
     rq_Reason = ai_Reason inp\<rparr>"

lemma GrantActivate_Inr:
  assumes "GrantActivate reg gorm_catalog gorm_grants notify grantID auditID now inp s = (Inr g, ann, s')"
  obtains v at where "pv_Code v = ai_TargetPlanCode inp" "v \<in> set (t_plan_versions s)"
    "Valid reg (ai_TargetPlanCode inp)"
    "at = (if is_zero_time (ai_ActivatedAt inp) then now else ai_ActivatedAt inp)"
    "trim_space (ai_SourceRef inp) \<noteq> ''''" "ai_Source inp \<noteq> SourceSystem"
    "db_Activate auditID (activate_request inp)
       (build_grant reg grantID inp (trim_space (ai_SourceRef inp)) v at) s = (Inr g, s')"
proof -
  from assms obtain v where v: "ActiveVersion reg gorm_catalog (ai_TargetPlanCode inp) s = Inr v"
    by (auto simp: GrantActivate_def Let_def split: if_splits sum.splits error.splits)
  then have dbv: "db_ActiveVersion (ai_TargetPlanCode inp) s = Inr v" "Valid reg (ai_TargetPlanCode inp)"
    by (auto simp: ActiveVersion_def gorm_catalog_def split: if_splits)
  with that [OF db_ActiveVersion_Inr(2,1) [OF dbv(1)] dbv(2) refl] assms v show ?thesis
    by (auto simp: GrantActivate_def Let_def gorm_grants_def activate_request_def
        split: if_splits sum.splits prod.splits)
qed

end
