(* ===== verification/License.thy ===== *)
theory License
  imports EntitlementFacts
begin

text \<open>
  Event licenses (internal/entitlement/license.go): the transaction that turns a settled
  purchase into a consumed license and an active grant, and the withdrawal of a license
  that no event consumed.

  \<open>write_licenses\<close> is the place where a statement on \<open>event_licenses\<close> meets the
  constraints of migration 000037: the primary key, one license per purchase, one
  consumed license per event, and the CHECKs on reserved and consumed rows.
\<close>

section \<open>The table\<close>

definition license_row_ok :: "event_license \<Rightarrow> bool" where
  "license_row_ok l \<longleftrightarrow>
     (case li_PurchaseAmountMinor l of None \<Rightarrow> True | Some a \<Rightarrow> 0 \<le> a) \<and>
     (li_Status l = LicenseReserved \<longrightarrow> li_ReservedEventID l \<noteq> None \<and> li_ReservedAt l \<noteq> None) \<and>
     (li_Status l = LicenseConsumed \<longrightarrow> li_ConsumedEventID l \<noteq> None \<and> li_ConsumedAt l \<noteq> None)"

definition license_keys_ok :: "event_license list \<Rightarrow> bool" where
  "license_keys_ok t \<longleftrightarrow>
     distinct (map li_ID t) \<and>
     distinct (filter (\<lambda>p. p \<noteq> None) (map li_PurchaseID t)) \<and>
     distinct (filter (\<lambda>e. e \<noteq> None) (map li_ConsumedEventID t))"

definition write_licenses :: "event_license list \<Rightarrow> db \<Rightarrow> error + db" where
  "write_licenses t s =
     (if \<not> license_keys_ok t then Inl (DB ErrDuplicatedKey)
      else if \<not> list_all license_row_ok t then Inl (DB ErrCheckViolated)
      else Inr (s\<lparr>t_licenses := t\<rparr>))"

section \<open>Operations\<close>

definition RevokeUnconsumed :: "time \<Rightarrow> uuid \<Rightarrow> db \<Rightarrow> (error + bool) \<times> db" where
  "RevokeUnconsumed now purchaseID s =
     (let open_license = (\<lambda>l. li_PurchaseID l = Some purchaseID \<and>
            li_Status l \<in> {LicenseAvailable, LicenseReserved})
      in case write_licenses
                (update_where open_license
                   (\<lambda>l. l\<lparr>li_Status := LicenseRevoked, li_RevokedAt := Some now\<rparr>) (t_licenses s)) s of
           Inl e \<Rightarrow> (Inl e, s)
         | Inr s' \<Rightarrow> (Inr (0 < count_where open_license (t_licenses s)), s'))"

record purchase_license_input =
  pi_PurchaseID :: uuid
  pi_AccountID :: uuid
  pi_EventID :: uuid
  pi_PlanVersionID :: uuid
  pi_PaymentProvider :: string
  pi_ProviderTransactionID :: string
  pi_PurchaseAmountMinor :: int
  pi_PurchaseCurrency :: string
  pi_ActivatedAt :: time

text \<open>The fresh ids of one call, and the text of a purchase id.\<close>

record license_ids =
  fresh_license :: uuid
  fresh_grant :: uuid
  fresh_audit :: uuid

definition purchase_ref :: "(uuid \<Rightarrow> string) \<Rightarrow> uuid \<Rightarrow> string" where
  "purchase_ref uuid_string purchaseID = ''billing-purchase:'' @ uuid_string purchaseID"

definition candidate_license :: "uuid \<Rightarrow> time \<Rightarrow> purchase_license_input \<Rightarrow> event_license" where
  "candidate_license i at inp = \<lparr>li_ID = i, li_AccountID = pi_AccountID inp,
     li_PlanVersionID = pi_PlanVersionID inp, li_Status = LicenseAvailable,
     li_Source = LicensePurchase, li_PurchaseID = Some (pi_PurchaseID inp),
     li_PaymentProvider = Some (pi_PaymentProvider inp),
     li_ProviderTransactionID = Some (pi_ProviderTransactionID inp),
     li_PurchaseAmountMinor = Some (pi_PurchaseAmountMinor inp),
     li_PurchaseCurrency = Some (pi_PurchaseCurrency inp), li_ReservedEventID = None,
     li_ConsumedEventID = None, li_CreatedAt = at, li_ReservedAt = None, li_ConsumedAt = None,
     li_RevokedAt = None, li_ExpiresAt = None\<rparr>"

text \<open>The insert with \<open>ON CONFLICT (purchase_id) DO NOTHING\<close>.\<close>

definition issue_license :: "uuid \<Rightarrow> time \<Rightarrow> purchase_license_input \<Rightarrow> db \<Rightarrow> error + db" where
  "issue_license i at inp s =
     (if \<exists>l \<in> set (t_licenses s). li_PurchaseID l = Some (pi_PurchaseID inp) then Inr s
      else write_licenses (t_licenses s @ [candidate_license i at inp]) s)"

text \<open>Whether a license that was loaded may be activated: done already, or why not.\<close>

datatype license_gate = GateDone | GateOpen | GateClosed error

definition license_check :: "purchase_license_input \<Rightarrow> event_license \<Rightarrow> license_gate" where
  "license_check inp l =
     (if li_AccountID l \<noteq> pi_AccountID inp \<or> li_PlanVersionID l \<noteq> pi_PlanVersionID inp
      then GateClosed (License ErrLicenseOwnership)
      else if li_Status l = LicenseConsumed then
        (if li_ConsumedEventID l = Some (pi_EventID inp) then GateDone
         else GateClosed (License ErrLicenseUnavailable))
      else if li_Status l \<noteq> LicenseAvailable \<and> li_Status l \<noteq> LicenseReserved
      then GateClosed (License ErrLicenseUnavailable)
      else GateOpen)"

definition license_grant ::
  "(uuid \<Rightarrow> string) \<Rightarrow> license_ids \<Rightarrow> time \<Rightarrow> purchase_license_input \<Rightarrow> version \<Rightarrow> event_license \<Rightarrow>
     event \<Rightarrow> active_grant option \<Rightarrow> grant" where
  "license_grant uuid_string ids at inp v l e current =
     (let (upload0, retention0) =
            Expiry (ev_EventDate e) at (RetentionDays (Limits (pv_Entitlements v)));
          (upload, retention) = (case current of
              None \<Rightarrow> (upload0, retention0)
            | Some c \<Rightarrow> (later upload0 (gr_UploadExpiresAt (ag_Grant c)),
                         later retention0 (gr_RetentionExpiresAt (ag_Grant c))))
      in \<lparr>gr_ID = fresh_grant ids, gr_EventID = pi_EventID inp, gr_PlanVersionID = pv_ID v,
          gr_EventLicenseID = Some (li_ID l), gr_Status = GrantActive, gr_Source = SourcePurchase,
          gr_SourceReference = Some (purchase_ref uuid_string (pi_PurchaseID inp)),
          gr_ActorID = None, gr_EntitlementSnapshot = pv_Entitlements v, gr_ActivatedAt = at,
          gr_UploadExpiresAt = upload, gr_RetentionExpiresAt = retention, gr_CreatedAt = at\<rparr>)"

definition reserve_license :: "uuid \<Rightarrow> uuid \<Rightarrow> time \<Rightarrow> db \<Rightarrow> error + db" where
  "reserve_license licenseID eventID at s = write_licenses
     (update_where (\<lambda>l. li_ID l = licenseID)
        (\<lambda>l. l\<lparr>li_Status := LicenseReserved, li_ReservedEventID := Some eventID,
              li_ReservedAt := Some at\<rparr>) (t_licenses s)) s"

definition consume_license :: "uuid \<Rightarrow> uuid \<Rightarrow> time \<Rightarrow> db \<Rightarrow> error + db" where
  "consume_license licenseID eventID at s = write_licenses
     (update_where (\<lambda>l. li_ID l = licenseID \<and> li_Status l = LicenseReserved)
        (\<lambda>l. l\<lparr>li_Status := LicenseConsumed, li_ConsumedEventID := Some eventID,
              li_ConsumedAt := Some at\<rparr>) (t_licenses s)) s"

definition end_trial :: "uuid \<Rightarrow> time \<Rightarrow> db \<Rightarrow> db" where
  "end_trial eventID at s = s\<lparr>t_events := update_where (\<lambda>e. ev_ID e = eventID)
     (\<lambda>e. e\<lparr>ev_TrialEndedAt := Some (coalesce (ev_TrialEndedAt e) at)\<rparr>) (t_events s)\<rparr>"

text \<open>From the loaded event and grant on: reserve, grant, consume, end the trial.\<close>

definition license_commit ::
  "(uuid \<Rightarrow> string) \<Rightarrow> license_ids \<Rightarrow> time \<Rightarrow> purchase_license_input \<Rightarrow> version \<Rightarrow> event_license \<Rightarrow>
     event \<Rightarrow> active_grant option \<Rightarrow> db \<Rightarrow> error + db" where
  "license_commit uuid_string ids at inp v l e current s =
     (case reserve_license (li_ID l) (pi_EventID inp) at s of
        Inl err \<Rightarrow> Inl err
      | Inr s1 \<Rightarrow>
     (case writeGrant (fresh_audit ids) (license_grant uuid_string ids at inp v l e current)
             current (pv_Code v) ''paid event package purchase'' s1 of
        Inl err \<Rightarrow> Inl err
      | Inr s2 \<Rightarrow>
     (case consume_license (li_ID l) (pi_EventID inp) at s2 of
        Inl err \<Rightarrow> Inl err
      | Inr s3 \<Rightarrow> Inr (end_trial (pi_EventID inp) at s3))))"

text \<open>
  The transaction. Its result tells the notifier what was activated: nothing when the
  license was consumed by this event before.
\<close>

definition license_tx ::
  "plan_registry \<Rightarrow> (uuid \<Rightarrow> string) \<Rightarrow> license_ids \<Rightarrow> time \<Rightarrow> purchase_license_input \<Rightarrow> db \<Rightarrow>
     error + plan_change list \<times> db" where
  "license_tx reg uuid_string ids at inp s =
     (case lookup_row pv_ID (pi_PlanVersionID inp) (t_plan_versions s) of
        None \<Rightarrow> Inl (DB ErrRecordNotFound)
      | Some v \<Rightarrow>
     (case issue_license (fresh_license ids) at inp s of
        Inl e \<Rightarrow> Inl e
      | Inr s1 \<Rightarrow>
     (case find (\<lambda>l. li_PurchaseID l = Some (pi_PurchaseID inp)) (t_licenses s1) of
        None \<Rightarrow> Inl (DB ErrRecordNotFound)
      | Some l \<Rightarrow>
     (case license_check inp l of
        GateClosed e \<Rightarrow> Inl e
      | GateDone \<Rightarrow> Inr ([], s1)
      | GateOpen \<Rightarrow>
     (case find (\<lambda>e. ev_ID e = pi_EventID inp \<and> ev_Status e \<noteq> EventDeleted) (t_events s1) of
        None \<Rightarrow> Inl (Entitlement ErrEventNotFound)
      | Some e \<Rightarrow>
          if ev_HostID e \<noteq> pi_AccountID inp then Inl (License ErrLicenseOwnership)
          else
            (let current = activeGrant (pi_EventID inp) s1
             in case CheckTransition reg (map_option ag_PlanCode current) (pv_Code v) of
                  Some err \<Rightarrow> Inl err
                | None \<Rightarrow>
                    (case license_commit uuid_string ids at inp v l e current s1 of
                       Inl err \<Rightarrow> Inl err
                     | Inr s2 \<Rightarrow> Inr ([\<lparr>ch_EventID = pi_EventID inp, ch_PlanCode = pv_Code v,
                          ch_GrantID = fresh_grant ids\<rparr>], s2))))))))"

definition ActivatePurchase ::
  "plan_registry \<Rightarrow> (uuid \<Rightarrow> string) \<Rightarrow> license_ids \<Rightarrow> time \<Rightarrow> purchase_license_input \<Rightarrow> db \<Rightarrow>
     (error + plan_change list) \<times> db" where
  "ActivatePurchase reg uuid_string ids now inp =
     (let at = (if is_zero_time (pi_ActivatedAt inp) then now else pi_ActivatedAt inp)
      in transaction (license_tx reg uuid_string ids at inp))"

end
