(* ===== verification/BillingRepo.thy ===== *)
theory BillingRepo
  imports Schema
begin

text \<open>
  Purchases and provider events (internal/billing/billing.go, repository.go,
  gorm_repository.go): the status predicates, and one function per repository method.

  \<open>write_purchases\<close> is where a statement on \<open>billing_purchases\<close> meets the constraints of
  migrations 000034, 000035, 000037 and 000038; foreign keys are kept where the code can
  break them (\<open>billing_provider_events.purchase_id\<close>). Methods that stamp \<open>time.Now()\<close>
  take the instant. A method that returns only an error gives \<open>error option\<close>.
\<close>

section \<open>Statuses (billing.go)\<close>

definition Open :: "purchase_status \<Rightarrow> bool" where
  "Open st \<longleftrightarrow> st = StatusPending \<or> st = StatusCheckoutCreated"

definition Paid :: "purchase_status \<Rightarrow> bool" where
  "Paid st \<longleftrightarrow> st = StatusSettled \<or> st = StatusPartiallyRefunded"

definition PostSettlement :: "purchase_status \<Rightarrow> bool" where
  "PostSettlement st \<longleftrightarrow> st = StatusSettled \<or> st = StatusPartiallyRefunded \<or>
     st = StatusRefunded \<or> st = StatusDisputed"

lemma Paid_PostSettlement: "Paid st \<Longrightarrow> PostSettlement st"
  by (auto simp: Paid_def PostSettlement_def)

lemma PostSettlement_not_Open: "PostSettlement st \<Longrightarrow> \<not> Open st"
  by (auto simp: Open_def PostSettlement_def)

lemma PostSettlement_simps [simp]:
  "PostSettlement StatusSettled" "PostSettlement StatusPartiallyRefunded"
  "PostSettlement StatusRefunded" "PostSettlement StatusDisputed"
  "\<not> PostSettlement StatusPending" "\<not> PostSettlement StatusCheckoutCreated"
  "\<not> PostSettlement StatusFailed" "\<not> PostSettlement StatusCanceled"
  by (simp_all add: PostSettlement_def)

lemma Open_simps [simp]:
  "Open StatusPending" "Open StatusCheckoutCreated" "\<not> Open StatusSettled" "\<not> Open StatusFailed"
  "\<not> Open StatusCanceled" "\<not> Open StatusPartiallyRefunded" "\<not> Open StatusRefunded"
  "\<not> Open StatusDisputed"
  by (simp_all add: Open_def)

section \<open>The interface (repository.go)\<close>

record settle_input =
  si_PurchaseID :: uuid
  si_ProviderTransactionID :: string
  si_SettledSubtotalMinor :: int
  si_SettledTaxMinor :: int
  si_SettledTotalMinor :: int
  si_SettledCurrency :: string

record reversal_input =
  ri_PurchaseID :: uuid
  ri_Status :: purchase_status
  ri_RefundedAmountMinor :: int

record 's purchase_repo =
  rp_CreatePurchase :: "time \<Rightarrow> purchase \<Rightarrow> 's \<Rightarrow> (error + purchase) \<times> 's"
  rp_IdempotentPurchase :: "uuid \<Rightarrow> string \<Rightarrow> 's \<Rightarrow> error + purchase option"
  rp_GetPurchase :: "uuid \<Rightarrow> 's \<Rightarrow> error + purchase"
  rp_UpdateCheckout :: "time \<Rightarrow> uuid \<Rightarrow> string \<Rightarrow> string \<Rightarrow> string \<Rightarrow> 's \<Rightarrow> error option \<times> 's"
  rp_SettlePurchase :: "time \<Rightarrow> settle_input \<Rightarrow> 's \<Rightarrow> error option \<times> 's"
  rp_UpdateStatus :: "time \<Rightarrow> uuid \<Rightarrow> purchase_status \<Rightarrow> string option \<Rightarrow> 's \<Rightarrow> error option \<times> 's"
  rp_MarkEntitlementApplied :: "time \<Rightarrow> uuid \<Rightarrow> 's \<Rightarrow> error option \<times> 's"
  rp_OpenPurchaseForEvent :: "uuid \<Rightarrow> 's \<Rightarrow> error + purchase option"
  rp_LatestEventPurchase :: "uuid \<Rightarrow> 's \<Rightarrow> error + purchase option"
  rp_HasEligibleCommercialPurchase :: "uuid \<Rightarrow> uuid \<Rightarrow> 's \<Rightarrow> error + bool"
  rp_RecordReversal :: "time \<Rightarrow> reversal_input \<Rightarrow> 's \<Rightarrow> error option \<times> 's"
  rp_UnappliedSettled :: "int \<Rightarrow> 's \<Rightarrow> error + purchase list"
  rp_InsertProviderEvent :: "provider_event_record \<Rightarrow> 's \<Rightarrow> (error + bool) \<times> 's"
  rp_MarkProviderEventProcessed :: "time \<Rightarrow> uuid \<Rightarrow> 's \<Rightarrow> error option \<times> 's"
  rp_MarkProviderEventFailed :: "uuid \<Rightarrow> error \<Rightarrow> 's \<Rightarrow> error option \<times> 's"
  rp_FindProviderPrice :: "provider \<Rightarrow> uuid \<Rightarrow> string \<Rightarrow> int \<Rightarrow> 's \<Rightarrow> error + provider_price"
  rp_FindProviderProduct :: "provider \<Rightarrow> plan_code \<Rightarrow> 's \<Rightarrow> error + provider_product"
  rp_PurchaseByProviderTransaction :: "provider \<Rightarrow> string \<Rightarrow> 's \<Rightarrow> error + purchase option"

section \<open>The table of purchases\<close>

definition purchase_row_ok :: "purchase \<Rightarrow> bool" where
  "purchase_row_ok p \<longleftrightarrow>
     0 \<le> pu_QuotedAmountMinor p \<and> 0 \<le> pu_BaseAmountMinor p \<and> 0 \<le> pu_DiscountAmountMinor p \<and>
     pu_QuotedAmountMinor p = pu_BaseAmountMinor p - pu_DiscountAmountMinor p \<and>
     0 \<le> pu_UpgradeCreditMinor p \<and> pu_UpgradeCreditMinor p \<le> pu_DiscountAmountMinor p \<and>
     0 \<le> pu_RefundedAmountMinor p \<and>
     0 \<le> coalesce (pu_SettledSubtotalMinor p) 0 \<and> 0 \<le> coalesce (pu_SettledTaxMinor p) 0 \<and>
     0 \<le> coalesce (pu_SettledTotalMinor p) 0"

definition purchase_keys_ok :: "purchase list \<Rightarrow> bool" where
  "purchase_keys_ok t \<longleftrightarrow>
     distinct (map pu_ID t) \<and>
     distinct (map (\<lambda>p. (pu_HostID p, pu_IdempotencyKey p)) t) \<and>
     distinct (map (\<lambda>p. (pu_Provider p, pu_ProviderTransactionID p))
       (filter (\<lambda>p. pu_ProviderTransactionID p \<noteq> None) t)) \<and>
     distinct (map pu_EventID (filter (\<lambda>p. Open (pu_Status p)) t))"

definition write_purchases :: "purchase list \<Rightarrow> db \<Rightarrow> error + db" where
  "write_purchases t s =
     (if \<not> purchase_keys_ok t then Inl (DB ErrDuplicatedKey)
      else if \<not> list_all purchase_row_ok t then Inl (DB ErrCheckViolated)
      else Inr (s\<lparr>t_purchases := t\<rparr>))"

text \<open>\<open>UPDATE .. WHERE\<close> on purchases: the number of rows it matched, or the error.\<close>

definition update_purchases ::
  "(purchase \<Rightarrow> bool) \<Rightarrow> (purchase \<Rightarrow> purchase) \<Rightarrow> db \<Rightarrow> (error + nat) \<times> db" where
  "update_purchases p f s =
     (case write_purchases (update_where p f (t_purchases s)) s of
        Inl e \<Rightarrow> (Inl e, s)
      | Inr s' \<Rightarrow> (Inr (count_where p (t_purchases s)), s'))"

text \<open>The pattern of the update methods: no row matched means \<open>ErrPurchaseNotFound\<close>.\<close>

definition found_or_missing :: "(error + nat) \<times> db \<Rightarrow> error option \<times> db" where
  "found_or_missing r = (case r of
     (Inl e, s) \<Rightarrow> (Some e, s)
   | (Inr n, s) \<Rightarrow> (if n = 0 then Some (Billing ErrPurchaseNotFound) else None, s))"

section \<open>Methods (gorm\_repository.go)\<close>

definition db_CreatePurchase :: "uuid \<Rightarrow> time \<Rightarrow> purchase \<Rightarrow> db \<Rightarrow> (error + purchase) \<times> db" where
  "db_CreatePurchase fresh now p0 s =
     (let p = p0\<lparr>pu_ID := (if pu_ID p0 = uuid_nil then fresh else pu_ID p0),
            pu_CreatedAt := (if is_zero_time (pu_CreatedAt p0) then now else pu_CreatedAt p0),
            pu_UpdatedAt := now\<rparr>
      in case write_purchases (t_purchases s @ [p]) s of
           Inl e \<Rightarrow> (Inl e, s)
         | Inr s' \<Rightarrow> (Inr p, s'))"

definition db_IdempotentPurchase :: "uuid \<Rightarrow> string \<Rightarrow> db \<Rightarrow> error + purchase option" where
  "db_IdempotentPurchase hostID key s =
     Inr (first_by pu_ID (\<lambda>p. pu_HostID p = hostID \<and> pu_IdempotencyKey p = key) (t_purchases s))"

definition db_GetPurchase :: "uuid \<Rightarrow> db \<Rightarrow> error + purchase" where
  "db_GetPurchase i s =
     (case lookup_row pu_ID i (t_purchases s) of
        None \<Rightarrow> Inl (Billing ErrPurchaseNotFound) | Some p \<Rightarrow> Inr p)"

definition db_UpdateCheckout ::
  "time \<Rightarrow> uuid \<Rightarrow> string \<Rightarrow> string \<Rightarrow> string \<Rightarrow> db \<Rightarrow> error option \<times> db" where
  "db_UpdateCheckout now i checkoutID providerPriceID checkoutURL s =
     found_or_missing (update_purchases (\<lambda>p. pu_ID p = i)
       (\<lambda>p. p\<lparr>pu_ProviderCheckoutID := Some checkoutID, pu_ProviderPriceID := providerPriceID,
             pu_CheckoutURL := Some checkoutURL, pu_Status := StatusCheckoutCreated,
             pu_UpdatedAt := now\<rparr>) s)"

definition settled_row :: "time \<Rightarrow> settle_input \<Rightarrow> purchase \<Rightarrow> purchase" where
  "settled_row now inp p = p\<lparr>pu_Status := StatusSettled,
     pu_ProviderTransactionID := Some (si_ProviderTransactionID inp),
     pu_SettledSubtotalMinor := Some (si_SettledSubtotalMinor inp),
     pu_SettledTaxMinor := Some (si_SettledTaxMinor inp),
     pu_SettledTotalMinor := Some (si_SettledTotalMinor inp),
     pu_SettledCurrency := Some (si_SettledCurrency inp),
     pu_SettledAt := Some now, pu_UpdatedAt := now\<rparr>"

definition db_SettlePurchase :: "time \<Rightarrow> settle_input \<Rightarrow> db \<Rightarrow> error option \<times> db" where
  "db_SettlePurchase now inp s =
     (case update_purchases (\<lambda>p. pu_ID p = si_PurchaseID inp \<and> pu_Status p \<noteq> StatusSettled)
             (settled_row now inp) s of
        (Inl e, s') \<Rightarrow> (Some e, s')
      | (Inr n, s') \<Rightarrow>
          if n \<noteq> 0 then (None, s')
          else (case lookup_row pu_ID (si_PurchaseID inp) (t_purchases s') of
                  None \<Rightarrow> (Some (Billing ErrPurchaseNotFound), s')
                | Some p \<Rightarrow>
                    if pu_Status p = StatusSettled then (Some (Billing ErrPurchaseAlreadySettled), s')
                    else (Some (Billing ErrPurchaseNotFound), s')))"

definition db_UpdateStatus ::
  "time \<Rightarrow> uuid \<Rightarrow> purchase_status \<Rightarrow> string option \<Rightarrow> db \<Rightarrow> error option \<times> db" where
  "db_UpdateStatus now i st failureCode s =
     found_or_missing (update_purchases (\<lambda>p. pu_ID p = i)
       (\<lambda>p. p\<lparr>pu_Status := st, pu_UpdatedAt := now,
             pu_FailureCode := (case failureCode of None \<Rightarrow> pu_FailureCode p | Some c \<Rightarrow> Some c)\<rparr>) s)"

definition db_MarkEntitlementApplied :: "time \<Rightarrow> uuid \<Rightarrow> db \<Rightarrow> error option \<times> db" where
  "db_MarkEntitlementApplied now i s =
     (case update_purchases (\<lambda>p. pu_ID p = i)
             (\<lambda>p. p\<lparr>pu_EntitlementAppliedAt := Some now, pu_UpdatedAt := now\<rparr>) s of
        (Inl e, s') \<Rightarrow> (Some e, s')
      | (Inr _, s') \<Rightarrow> (None, s'))"

definition db_OpenPurchaseForEvent :: "uuid \<Rightarrow> db \<Rightarrow> error + purchase option" where
  "db_OpenPurchaseForEvent eventID s =
     Inr (first_by (\<lambda>p. (- pu_CreatedAt p, pu_ID p))
       (\<lambda>p. pu_EventID p = eventID \<and> pu_Status p \<in> {StatusPending, StatusCheckoutCreated})
       (t_purchases s))"

text \<open>\<open>ORDER BY settled_at DESC NULLS LAST\<close>.\<close>

definition desc_nulls_last :: "time option \<Rightarrow> nat \<times> int" where
  "desc_nulls_last t = (case t of Some x \<Rightarrow> (0, - x) | None \<Rightarrow> (1, 0))"

definition db_LatestEventPurchase :: "uuid \<Rightarrow> db \<Rightarrow> error + purchase option" where
  "db_LatestEventPurchase eventID s =
     Inr (first_by (\<lambda>p. (desc_nulls_last (pu_SettledAt p), - pu_CreatedAt p, pu_ID p))
       (\<lambda>p. pu_EventID p = eventID \<and> pu_Status p \<in>
          {StatusSettled, StatusPartiallyRefunded, StatusRefunded, StatusDisputed})
       (t_purchases s))"

definition db_HasEligibleCommercialPurchase :: "uuid \<Rightarrow> uuid \<Rightarrow> db \<Rightarrow> error + bool" where
  "db_HasEligibleCommercialPurchase hostID excludeEventID s =
     Inr (0 < count_where (\<lambda>p. pu_HostID p = hostID \<and> pu_EventID p \<noteq> excludeEventID \<and>
        pu_Status p \<in> {StatusSettled, StatusPartiallyRefunded} \<and>
        0 < coalesce (pu_SettledTotalMinor p) 0) (t_purchases s))"

definition db_RecordReversal :: "time \<Rightarrow> reversal_input \<Rightarrow> db \<Rightarrow> error option \<times> db" where
  "db_RecordReversal now inp s =
     found_or_missing (update_purchases (\<lambda>p. pu_ID p = ri_PurchaseID inp)
       (\<lambda>p. p\<lparr>pu_Status := ri_Status inp, pu_RefundedAmountMinor := ri_RefundedAmountMinor inp,
             pu_UpdatedAt := now\<rparr>) s)"

text \<open>\<open>ORDER BY settled_at ASC\<close>: PostgreSQL puts NULL last.\<close>

definition asc_nulls_last :: "time option \<Rightarrow> nat \<times> int" where
  "asc_nulls_last t = (case t of Some x \<Rightarrow> (0, x) | None \<Rightarrow> (1, 0))"

definition db_UnappliedSettled :: "int \<Rightarrow> db \<Rightarrow> error + purchase list" where
  "db_UnappliedSettled lim s =
     Inr (take (nat (if lim \<le> 0 then 50 else lim)) (sort_key (\<lambda>p. asc_nulls_last (pu_SettledAt p))
       (filter (\<lambda>p. pu_Status p = StatusSettled \<and> pu_EntitlementAppliedAt p = None) (t_purchases s))))"

text \<open>
  The insert with \<open>ON CONFLICT (provider, external_event_id) DO NOTHING\<close>, and the reclaim
  of a delivery that failed. Another conflict (the primary key) is an error, and so is a
  purchase id no row has.
\<close>

definition db_InsertProviderEvent ::
  "uuid \<Rightarrow> time \<Rightarrow> provider_event_record \<Rightarrow> db \<Rightarrow> (error + bool) \<times> db" where
  "db_InsertProviderEvent fresh now rec0 s =
     (let r = rec0\<lparr>pe_ID := (if pe_ID rec0 = uuid_nil then fresh else pe_ID rec0),
            pe_ReceivedAt := (if is_zero_time (pe_ReceivedAt rec0) then now else pe_ReceivedAt rec0)\<rparr>;
          reclaim = (\<lambda>x. pe_ID x = pe_ID r \<and> pe_Status x = DeliveryFailed)
      in if \<exists>x \<in> set (t_provider_events s). pe_Provider x = pe_Provider r \<and>
              pe_ExternalEventID x = pe_ExternalEventID r
         then (if count_where reclaim (t_provider_events s) = 1
               then (Inr False, s\<lparr>t_provider_events := update_where reclaim
                  (\<lambda>x. x\<lparr>pe_Status := DeliveryReceived, pe_LastError := None\<rparr>) (t_provider_events s)\<rparr>)
               else (Inr True, s\<lparr>t_provider_events := update_where reclaim
                  (\<lambda>x. x\<lparr>pe_Status := DeliveryReceived, pe_LastError := None\<rparr>) (t_provider_events s)\<rparr>))
         else if \<exists>x \<in> set (t_provider_events s). pe_ID x = pe_ID r
         then (Inl (DB ErrDuplicatedKey), s)
         else if pe_PurchaseID r \<noteq> None \<and> the (pe_PurchaseID r) \<notin> pu_ID ` set (t_purchases s)
         then (Inl (DB ErrForeignKeyViolated), s)
         else (Inr False, s\<lparr>t_provider_events := t_provider_events s @ [r]\<rparr>))"

definition db_MarkProviderEventProcessed :: "time \<Rightarrow> uuid \<Rightarrow> db \<Rightarrow> error option \<times> db" where
  "db_MarkProviderEventProcessed now i s =
     (None, s\<lparr>t_provider_events := update_where (\<lambda>x. pe_ID x = i)
        (\<lambda>x. x\<lparr>pe_Status := DeliveryProcessed, pe_ProcessedAt := Some now\<rparr>) (t_provider_events s)\<rparr>)"

definition db_MarkProviderEventFailed :: "uuid \<Rightarrow> error \<Rightarrow> db \<Rightarrow> error option \<times> db" where
  "db_MarkProviderEventFailed i err s =
     (None, s\<lparr>t_provider_events := update_where (\<lambda>x. pe_ID x = i)
        (\<lambda>x. x\<lparr>pe_Status := DeliveryFailed, pe_LastError := Some err,
              pe_AttemptCount := pe_AttemptCount x + 1\<rparr>) (t_provider_events s)\<rparr>)"

definition db_FindProviderPrice ::
  "provider \<Rightarrow> uuid \<Rightarrow> string \<Rightarrow> int \<Rightarrow> db \<Rightarrow> error + provider_price" where
  "db_FindProviderPrice prov vid currency amount s =
     (case first_by pc_ID (\<lambda>p. pc_Provider p = prov \<and> pc_PlanVersionID p = vid \<and>
             pc_Currency p = currency \<and> pc_AmountMinor p = amount \<and> pc_Active p)
             (t_provider_prices s) of
        None \<Rightarrow> Inl (Billing ErrProviderPriceNotFound) | Some p \<Rightarrow> Inr p)"

definition db_FindProviderProduct :: "provider \<Rightarrow> plan_code \<Rightarrow> db \<Rightarrow> error + provider_product" where
  "db_FindProviderProduct prov code s =
     (case first_by px_ID (\<lambda>p. px_Provider p = prov \<and> px_PlanCode p = code \<and> px_Active p)
             (t_provider_products s) of
        None \<Rightarrow> Inl (Billing ErrProviderProductNotFound) | Some p \<Rightarrow> Inr p)"

definition db_PurchaseByProviderTransaction ::
  "provider \<Rightarrow> string \<Rightarrow> db \<Rightarrow> error + purchase option" where
  "db_PurchaseByProviderTransaction prov txn s =
     Inr (first_by (\<lambda>p. (- pu_CreatedAt p, pu_ID p))
       (\<lambda>p. pu_Provider p = prov \<and>
          (pu_ProviderTransactionID p = Some txn \<or> pu_ProviderCheckoutID p = Some txn))
       (t_purchases s))"

definition gorm_purchases :: "uuid \<Rightarrow> time \<Rightarrow> db purchase_repo" where
  "gorm_purchases fresh now = \<lparr>rp_CreatePurchase = db_CreatePurchase fresh,
     rp_IdempotentPurchase = db_IdempotentPurchase, rp_GetPurchase = db_GetPurchase,
     rp_UpdateCheckout = db_UpdateCheckout, rp_SettlePurchase = db_SettlePurchase,
     rp_UpdateStatus = db_UpdateStatus, rp_MarkEntitlementApplied = db_MarkEntitlementApplied,
     rp_OpenPurchaseForEvent = db_OpenPurchaseForEvent,
     rp_LatestEventPurchase = db_LatestEventPurchase,
     rp_HasEligibleCommercialPurchase = db_HasEligibleCommercialPurchase,
     rp_RecordReversal = db_RecordReversal, rp_UnappliedSettled = db_UnappliedSettled,
     rp_InsertProviderEvent = db_InsertProviderEvent fresh now,
     rp_MarkProviderEventProcessed = db_MarkProviderEventProcessed,
     rp_MarkProviderEventFailed = db_MarkProviderEventFailed,
     rp_FindProviderPrice = db_FindProviderPrice, rp_FindProviderProduct = db_FindProviderProduct,
     rp_PurchaseByProviderTransaction = db_PurchaseByProviderTransaction\<rparr>"

end
