(* ===== verification/Billing.thy ===== *)
theory Billing
  imports BillingRepo Entitlement
begin

text \<open>
  The billing service (internal/billing/gateway.go, pricing.go, service.go).

  A value of \<open>'s billing_service\<close> is the \<open>Service\<close> struct: the interfaces it was wired with
  as functions over the state \<open>'s\<close>, and its settings. The payment provider is a parameter:
  \<open>bs_checkout\<close> may change the state, because other requests run while the provider call is
  in flight; \<open>bs_decoder\<close> is the webhook decoder, \<open>bs_event_id\<close> and \<open>bs_hash\<close> the library's
  name-based uuid and digest. \<open>bs_now\<close> and \<open>bs_fresh\<close> are the clock and the next
  \<open>uuid.New()\<close> of the call. Log lines are left out.
\<close>

section \<open>Types (gateway.go, pricing.go)\<close>

record money =
  mn_AmountMinor :: int
  mn_Currency :: string

record checkout_input =
  ci_PurchaseID :: uuid
  ci_EventID :: uuid
  ci_PlanCode :: plan_code
  ci_Description :: string
  ci_AmountMinor :: int
  ci_Currency :: string
  ci_ProviderPriceID :: string
  ci_ProviderProductID :: string
  ci_CustomerEmail :: string
  ci_SuccessURL :: string
  ci_CancelURL :: string

record checkout_target =
  ct_ExternalCheckoutID :: string
  ct_ProviderPriceID :: string
  ct_URL :: string

record provider_event =
  xe_ExternalEventID :: string
  xe_DedupeKey :: string
  xe_Type :: provider_event_type
  xe_ExternalTransactionID :: string
  xe_PurchaseID :: uuid
  xe_PriceID :: string
  xe_Subtotal :: money
  xe_Tax :: money
  xe_Total :: money
  xe_Adjustment :: money
  xe_OccurredAt :: time

record catalog_version =
  cv_ID :: uuid
  cv_Code :: plan_code

record catalog_price =
  cp_AmountMinor :: int
  cp_ReturningAmountMinor :: "int option"
  cp_Currency :: string

record grant_input =
  gi_EventID :: uuid
  gi_AccountID :: uuid
  gi_PlanVersionID :: uuid
  gi_PlanCode :: plan_code
  gi_PurchaseID :: uuid
  gi_PaymentProvider :: string
  gi_ProviderTransactionID :: string
  gi_PurchaseAmountMinor :: int
  gi_PurchaseCurrency :: string
  gi_SettledAt :: time

record 's license_revoker =
  lr_RevokeUnconsumedLicense :: "uuid \<Rightarrow> 's \<Rightarrow> (error + bool) \<times> 's"
  lr_SetEventBillingStatus :: "uuid \<Rightarrow> event_billing_status \<Rightarrow> 's \<Rightarrow> error option \<times> 's"

record 's billing_service =
  bs_repo :: "'s purchase_repo"
  bs_checkout :: "checkout_input \<Rightarrow> 's \<Rightarrow> (error + checkout_target) \<times> 's"
  bs_decoder :: "string \<Rightarrow> string \<Rightarrow> error + provider_event"
  bs_grants :: "grant_input \<Rightarrow> 's \<Rightarrow> error option \<times> 's"
  bs_licenses :: "'s license_revoker option"
  bs_ActiveVersion :: "plan_code \<Rightarrow> 's \<Rightarrow> error + catalog_version"
  bs_CurrentPrice :: "uuid \<Rightarrow> string \<Rightarrow> 's \<Rightarrow> error + catalog_price"
  bs_OwnerOf :: "uuid \<Rightarrow> uuid \<Rightarrow> 's \<Rightarrow> error option"
  bs_HostEmail :: "uuid \<Rightarrow> 's \<Rightarrow> error + string"
  bs_Resolve :: "uuid \<Rightarrow> 's \<Rightarrow> error + event_entitlement"
  bs_registry :: plan_registry
  bs_provider :: provider
  bs_currency :: string
  bs_enabled :: bool
  bs_successURL :: string
  bs_cancelURL :: string
  bs_event_id :: "provider \<Rightarrow> string \<Rightarrow> uuid"
  bs_hash :: "string \<Rightarrow> string"
  bs_now :: time
  bs_fresh :: uuid

record quote =
  q_EventID :: uuid
  q_PlanVersionID :: uuid
  q_CurrentPlanCode :: plan_code
  q_PlanCode :: plan_code
  q_BaseAmountMinor :: int
  q_UpgradeCreditMinor :: int
  q_DiscountAmountMinor :: int
  q_FinalAmountMinor :: int
  q_Currency :: string
  q_Context :: pricing_context
  q_Reason :: pricing_reason
  q_PricingVersion :: string

definition consumerPricingVersion :: string where
  "consumerPricingVersion = ''consumer-usd-2026-02''"

section \<open>Pricing (pricing.go)\<close>

definition tierValue :: "pricing_context \<Rightarrow> catalog_price \<Rightarrow> int" where
  "tierValue ctx p =
     (case cp_ReturningAmountMinor p of
        Some r \<Rightarrow> if ctx = ContextReturning then r else cp_AmountMinor p
      | None \<Rightarrow> cp_AmountMinor p)"

definition ApplyPercentagePromotion :: "quote \<Rightarrow> int \<Rightarrow> error + quote" where
  "ApplyPercentagePromotion q percent =
     (if percent < 0 \<or> 100 < percent
      then Inl (Fmt ''billing: promotion percentage must be between 0 and 100'')
      else (let discount = i64 (q_FinalAmountMinor q * percent) sdiv 100
            in Inr (q\<lparr>q_DiscountAmountMinor := i64 (q_DiscountAmountMinor q + discount),
                      q_FinalAmountMinor := i64 (q_FinalAmountMinor q - discount),
                      q_Reason := PricingPromotion\<rparr>)))"

definition quoteNewPurchase ::
  "'s billing_service \<Rightarrow> uuid \<Rightarrow> uuid \<Rightarrow> catalog_price \<Rightarrow> quote \<Rightarrow> 's \<Rightarrow> error + quote" where
  "quoteNewPurchase S hostID eventID price q s =
     (case rp_HasEligibleCommercialPurchase (bs_repo S) hostID eventID s of
        Inl e \<Rightarrow> Inl e
      | Inr returning \<Rightarrow>
          (let (ctx, why) = (if returning then (ContextReturning, PricingReturning)
                             else (ContextFirst, PricingFirstPurchase));
               base = tierValue ctx price
           in Inr (q\<lparr>q_Context := ctx, q_Reason := why, q_BaseAmountMinor := base,
                     q_FinalAmountMinor := base\<rparr>)))"

definition tierPrice :: "'s billing_service \<Rightarrow> plan_code \<Rightarrow> string \<Rightarrow> 's \<Rightarrow> error + catalog_price" where
  "tierPrice S plan currency s =
     (case bs_ActiveVersion S plan s of
        Inl e \<Rightarrow> Inl e
      | Inr v \<Rightarrow> bs_CurrentPrice S (cv_ID v) currency s)"

text \<open>The context an upgrade is priced in and the credit it starts from.\<close>

definition upgrade_terms ::
  "'s billing_service \<Rightarrow> uuid \<Rightarrow> uuid \<Rightarrow> plan_code \<Rightarrow> string \<Rightarrow> 's \<Rightarrow> error + pricing_context \<times> int" where
  "upgrade_terms S hostID eventID current currency s =
     (case rp_LatestEventPurchase (bs_repo S) eventID s of
        Inl e \<Rightarrow> Inl e
      | Inr (Some funding) \<Rightarrow>
          Inr (pu_PricingContext funding, if Paid (pu_Status funding) then pu_BaseAmountMinor funding else 0)
      | Inr None \<Rightarrow>
          (case rp_HasEligibleCommercialPurchase (bs_repo S) hostID eventID s of
             Inl e \<Rightarrow> Inl e
           | Inr returning \<Rightarrow>
               (let ctx = (if returning then ContextReturning else ContextFirst)
                in case tierPrice S current currency s of
                     Inl e \<Rightarrow> Inl e
                   | Inr held \<Rightarrow> Inr (ctx, tierValue ctx held))))"

definition quoteUpgrade ::
  "'s billing_service \<Rightarrow> uuid \<Rightarrow> uuid \<Rightarrow> plan_code \<Rightarrow> string \<Rightarrow> catalog_price \<Rightarrow> quote \<Rightarrow> 's \<Rightarrow>
     error + quote" where
  "quoteUpgrade S hostID eventID current currency price q s =
     (case upgrade_terms S hostID eventID current currency s of
        Inl e \<Rightarrow> Inl e
      | Inr (ctx, credit0) \<Rightarrow>
          (let base = tierValue ctx price;
               credit = (if base < credit0 then base else credit0)
           in Inr (q\<lparr>q_Context := ctx, q_BaseAmountMinor := base, q_UpgradeCreditMinor := credit,
                     q_DiscountAmountMinor := credit, q_FinalAmountMinor := i64 (base - credit),
                     q_Reason := PricingUpgrade\<rparr>)))"

definition QuoteEventPurchase ::
  "'s billing_service \<Rightarrow> uuid \<Rightarrow> uuid \<Rightarrow> plan_code \<Rightarrow> string \<Rightarrow> 's \<Rightarrow> error + quote" where
  "QuoteEventPurchase S eventID hostID target currency s =
     (if currency \<noteq> bs_currency S then Inl (Billing ErrUnsupportedCurrency)
      else if \<not> Sellable (bs_registry S) target then Inl (Billing ErrInvalidPlanTransition)
      else if bs_OwnerOf S eventID hostID s \<noteq> None then Inl (Billing ErrPurchaseNotFound)
      else case bs_Resolve S eventID s of
        Inl e \<Rightarrow> Inl e
      | Inr current \<Rightarrow>
          if CheckTransition (bs_registry S) (Some (ee_PlanCode current)) target \<noteq> None
          then Inl (Billing ErrInvalidPlanTransition)
          else (case bs_ActiveVersion S target s of
             Inl e \<Rightarrow> Inl e
           | Inr v \<Rightarrow> (case bs_CurrentPrice S (cv_ID v) currency s of
                Inl e \<Rightarrow> Inl e
              | Inr price \<Rightarrow>
                  (let q = \<lparr>q_EventID = eventID, q_PlanVersionID = cv_ID v,
                         q_CurrentPlanCode = ee_PlanCode current, q_PlanCode = target,
                         q_BaseAmountMinor = 0, q_UpgradeCreditMinor = 0,
                         q_DiscountAmountMinor = 0, q_FinalAmountMinor = 0,
                         q_Currency = cp_Currency price, q_Context = ContextFirst,
                         q_Reason = PricingFirstPurchase,
                         q_PricingVersion = consumerPricingVersion\<rparr>
                   in if \<not> Sellable (bs_registry S) (ee_PlanCode current)
                      then quoteNewPurchase S hostID eventID price q s
                      else quoteUpgrade S hostID eventID (ee_PlanCode current) currency price q s))))"

section \<open>Checkout (service.go)\<close>

record create_command =
  cc_EventID :: uuid
  cc_HostID :: uuid
  cc_PlanCode :: plan_code
  cc_Currency :: string
  cc_IdempotencyKey :: string

record create_output =
  co_PurchaseID :: uuid
  co_Status :: purchase_status
  co_CheckoutSessionID :: string

definition output_of :: "purchase \<Rightarrow> create_output" where
  "output_of p = \<lparr>co_PurchaseID = pu_ID p, co_Status = pu_Status p,
     co_CheckoutSessionID = coalesce (pu_ProviderCheckoutID p) ''''\<rparr>"

record checkout_execution =
  ex_PriceID :: string
  ex_ProductID :: string
  ex_Description :: string

definition resolveExecution :: "'s billing_service \<Rightarrow> quote \<Rightarrow> 's \<Rightarrow> error + checkout_execution" where
  "resolveExecution S q s =
     (let desc = q_PlanCode q @ '' event package''
      in case rp_FindProviderPrice (bs_repo S) (bs_provider S) (q_PlanVersionID q) (q_Currency q)
                (q_FinalAmountMinor q) s of
           Inr price \<Rightarrow> Inr \<lparr>ex_PriceID = pc_ProviderPriceID price, ex_ProductID = '''',
                            ex_Description = desc\<rparr>
         | Inl e \<Rightarrow>
             if e \<noteq> Billing ErrProviderPriceNotFound then Inl e
             else (case rp_FindProviderProduct (bs_repo S) (bs_provider S) (q_PlanCode q) s of
                     Inl _ \<Rightarrow> Inl (Billing ErrProviderPriceNotFound)
                   | Inr product \<Rightarrow> Inr \<lparr>ex_PriceID = '''', ex_ProductID = px_ProviderProductID product,
                                         ex_Description = desc\<rparr>))"

definition ExecutionGaps :: "'s billing_service \<Rightarrow> 's \<Rightarrow> plan_code list" where
  "ExecutionGaps S s =
     filter (\<lambda>plan. isl (rp_FindProviderProduct (bs_repo S) (bs_provider S) plan s))
       (SellablePlans (bs_registry S))"

definition new_purchase ::
  "'s billing_service \<Rightarrow> create_command \<Rightarrow> quote \<Rightarrow> checkout_execution \<Rightarrow> purchase" where
  "new_purchase S inp q ex = \<lparr>pu_ID = bs_fresh S, pu_EventID = cc_EventID inp,
     pu_HostID = cc_HostID inp, pu_PlanCode = cc_PlanCode inp, pu_PlanVersionID = q_PlanVersionID q,
     pu_QuotedAmountMinor = q_FinalAmountMinor q, pu_BaseAmountMinor = q_BaseAmountMinor q,
     pu_DiscountAmountMinor = q_DiscountAmountMinor q, pu_UpgradeCreditMinor = q_UpgradeCreditMinor q,
     pu_PricingReason = q_Reason q, pu_PricingContext = q_Context q,
     pu_PricingVersion = q_PricingVersion q, pu_QuotedCurrency = q_Currency q,
     pu_RefundedAmountMinor = 0, pu_SettledSubtotalMinor = None, pu_SettledTaxMinor = None,
     pu_SettledTotalMinor = None, pu_SettledCurrency = None, pu_Status = StatusPending,
     pu_Provider = bs_provider S, pu_ProviderPriceID = ex_PriceID ex, pu_ProviderCheckoutID = None,
     pu_ProviderTransactionID = None, pu_IdempotencyKey = cc_IdempotencyKey inp,
     pu_CheckoutURL = None, pu_FailureCode = None, pu_CreatedAt = bs_now S, pu_UpdatedAt = bs_now S,
     pu_SettledAt = None, pu_EntitlementAppliedAt = None\<rparr>"

text \<open>What a failed insert answers: the checkout of the request that won, if it is ready.\<close>

definition after_conflict :: "'s billing_service \<Rightarrow> uuid \<Rightarrow> error \<Rightarrow> 's \<Rightarrow> error + create_output" where
  "after_conflict S eventID err s =
     (case rp_OpenPurchaseForEvent (bs_repo S) eventID s of
        Inr (Some p) \<Rightarrow>
          (case pu_ProviderCheckoutID p of
             Some c \<Rightarrow> Inr (output_of p)
           | None \<Rightarrow> Inl (Billing ErrPurchaseConflict))
      | _ \<Rightarrow> Inl err)"

text \<open>From the stored purchase on: the provider call and the snapshot of its answer.\<close>

definition run_checkout ::
  "'s billing_service \<Rightarrow> create_command \<Rightarrow> quote \<Rightarrow> checkout_execution \<Rightarrow> purchase \<Rightarrow> 's \<Rightarrow>
     (error + create_output) \<times> 's" where
  "run_checkout S inp q ex p s =
     (let email = (case bs_HostEmail S (cc_HostID inp) s of Inl _ \<Rightarrow> '''' | Inr m \<Rightarrow> m)
      in case bs_checkout S \<lparr>ci_PurchaseID = pu_ID p, ci_EventID = cc_EventID inp,
               ci_PlanCode = cc_PlanCode inp, ci_Description = ex_Description ex,
               ci_AmountMinor = q_FinalAmountMinor q, ci_Currency = q_Currency q,
               ci_ProviderPriceID = ex_PriceID ex, ci_ProviderProductID = ex_ProductID ex,
               ci_CustomerEmail = email, ci_SuccessURL = bs_successURL S,
               ci_CancelURL = bs_cancelURL S\<rparr> s of
           (Inl e, s1) \<Rightarrow>
             (Inl e, snd (rp_UpdateStatus (bs_repo S) (bs_now S) (pu_ID p) StatusFailed
                (Some ''provider_error'') s1))
         | (Inr target, s1) \<Rightarrow>
             (let priceID = (if ct_ProviderPriceID target = '''' then ex_PriceID ex
                             else ct_ProviderPriceID target)
              in case rp_UpdateCheckout (bs_repo S) (bs_now S) (pu_ID p)
                        (ct_ExternalCheckoutID target) priceID '''' s1 of
                   (Some e, s2) \<Rightarrow> (Inl e, s2)
                 | (None, s2) \<Rightarrow>
                     (Inr \<lparr>co_PurchaseID = pu_ID p, co_Status = StatusCheckoutCreated,
                           co_CheckoutSessionID = ct_ExternalCheckoutID target\<rparr>, s2)))"

definition CreateCheckout ::
  "'s billing_service \<Rightarrow> create_command \<Rightarrow> 's \<Rightarrow> (error + create_output) \<times> 's" where
  "CreateCheckout S inp s =
     (if \<not> bs_enabled S then (Inl (Billing ErrBillingDisabled), s)
      else if cc_Currency inp \<noteq> bs_currency S then (Inl (Billing ErrUnsupportedCurrency), s)
      else case rp_IdempotentPurchase (bs_repo S) (cc_HostID inp) (cc_IdempotencyKey inp) s of
        Inl e \<Rightarrow> (Inl e, s)
      | Inr (Some existing) \<Rightarrow>
          (if pu_EventID existing \<noteq> cc_EventID inp \<or> pu_PlanCode existing \<noteq> cc_PlanCode inp \<or>
              pu_QuotedCurrency existing \<noteq> cc_Currency inp
           then (Inl (Billing ErrIdempotencyConflict), s)
           else (Inr (output_of existing), s))
      | Inr None \<Rightarrow>
     (case QuoteEventPurchase S (cc_EventID inp) (cc_HostID inp) (cc_PlanCode inp) (cc_Currency inp) s of
        Inl e \<Rightarrow> (Inl e, s)
      | Inr q \<Rightarrow>
     (case resolveExecution S q s of
        Inl e \<Rightarrow> (Inl e, s)
      | Inr ex \<Rightarrow>
     (case rp_OpenPurchaseForEvent (bs_repo S) (cc_EventID inp) s of
        Inl e \<Rightarrow> (Inl e, s)
      | Inr (Some p) \<Rightarrow> (Inr (output_of p), s)
      | Inr None \<Rightarrow>
     (case rp_CreatePurchase (bs_repo S) (bs_now S) (new_purchase S inp q ex) s of
        (Inl e, s1) \<Rightarrow> (after_conflict S (cc_EventID inp) e s1, s1)
      | (Inr p, s1) \<Rightarrow> run_checkout S inp q ex p s1)))))"

section \<open>Settlement and reversal (service.go)\<close>

definition valueOrZero :: "int option \<Rightarrow> int" where
  "valueOrZero v = (case v of None \<Rightarrow> 0 | Some x \<Rightarrow> x)"

definition valueOrEmpty :: "string option \<Rightarrow> string" where
  "valueOrEmpty v = (case v of None \<Rightarrow> '''' | Some x \<Rightarrow> x)"

definition applyEntitlement ::
  "'s billing_service \<Rightarrow> purchase \<Rightarrow> string \<Rightarrow> time \<Rightarrow> 's \<Rightarrow> error option \<times> 's" where
  "applyEntitlement S p txnID0 occurredAt s =
     (if pu_EntitlementAppliedAt p \<noteq> None then (None, s)
      else
        (let settledAt = (if is_zero_time occurredAt then bs_now S else occurredAt);
             txnID = (case pu_ProviderTransactionID p of
                        Some t \<Rightarrow> if txnID0 = '''' then t else txnID0 | None \<Rightarrow> txnID0)
         in case bs_grants S \<lparr>gi_EventID = pu_EventID p, gi_AccountID = pu_HostID p,
                 gi_PlanVersionID = pu_PlanVersionID p, gi_PlanCode = pu_PlanCode p,
                 gi_PurchaseID = pu_ID p, gi_PaymentProvider = pu_Provider p,
                 gi_ProviderTransactionID = txnID,
                 gi_PurchaseAmountMinor = valueOrZero (pu_SettledTotalMinor p),
                 gi_PurchaseCurrency = valueOrEmpty (pu_SettledCurrency p),
                 gi_SettledAt = settledAt\<rparr> s of
              (Some e, s1) \<Rightarrow>
                if e \<noteq> Entitlement ErrDuplicateSourceReference then (Some e, s1)
                else (None, snd (rp_MarkEntitlementApplied (bs_repo S) (bs_now S) (pu_ID p) s1))
            | (None, s1) \<Rightarrow>
                (None, snd (rp_MarkEntitlementApplied (bs_repo S) (bs_now S) (pu_ID p) s1))))"

definition integrity_ok :: "purchase \<Rightarrow> provider_event \<Rightarrow> bool" where
  "integrity_ok p ev \<longleftrightarrow>
     \<not> (pu_ProviderPriceID p \<noteq> '''' \<and> xe_PriceID ev \<noteq> pu_ProviderPriceID p) \<and>
     \<not> (mn_Currency (xe_Subtotal ev) \<noteq> pu_QuotedCurrency p \<or>
        mn_Currency (xe_Total ev) \<noteq> pu_QuotedCurrency p \<or>
        mn_AmountMinor (xe_Subtotal ev) \<noteq> pu_QuotedAmountMinor p)"

definition handleSettlement ::
  "'s billing_service \<Rightarrow> uuid \<Rightarrow> provider_event \<Rightarrow> 's \<Rightarrow> error option \<times> 's" where
  "handleSettlement S purchaseID ev s =
     (case rp_GetPurchase (bs_repo S) purchaseID s of
        Inl e \<Rightarrow> (Some e, s)
      | Inr p \<Rightarrow>
          if pu_Status p = StatusSettled
          then applyEntitlement S p (xe_ExternalTransactionID ev) (xe_OccurredAt ev) s
          else if PostSettlement (pu_Status p) then (None, s)
          else if \<not> integrity_ok p ev then (Some (Billing ErrPaymentIntegrityMismatch), s)
          else
            (case rp_SettlePurchase (bs_repo S) (bs_now S)
                \<lparr>si_PurchaseID = pu_ID p, si_ProviderTransactionID = xe_ExternalTransactionID ev,
                 si_SettledSubtotalMinor = mn_AmountMinor (xe_Subtotal ev),
                 si_SettledTaxMinor = mn_AmountMinor (xe_Tax ev),
                 si_SettledTotalMinor = mn_AmountMinor (xe_Total ev),
                 si_SettledCurrency = mn_Currency (xe_Total ev)\<rparr> s of
               (err, s1) \<Rightarrow>
                 if err \<noteq> None \<and> err \<noteq> Some (Billing ErrPurchaseAlreadySettled) then (err, s1)
                 else applyEntitlement S
                   (p\<lparr>pu_SettledTotalMinor := Some (mn_AmountMinor (xe_Total ev)),
                      pu_SettledCurrency := Some (mn_Currency (xe_Total ev))\<rparr>)
                   (xe_ExternalTransactionID ev) (xe_OccurredAt ev) s1))"

definition handleFailure ::
  "'s billing_service \<Rightarrow> uuid \<Rightarrow> purchase_status \<Rightarrow> 's \<Rightarrow> error option \<times> 's" where
  "handleFailure S purchaseID st s =
     (case rp_GetPurchase (bs_repo S) purchaseID s of
        Inl e \<Rightarrow> (Some e, s)
      | Inr p \<Rightarrow>
          if PostSettlement (pu_Status p) then (None, s)
          else if pu_Status p = st then (None, s)
          else rp_UpdateStatus (bs_repo S) (bs_now S) (pu_ID p) st None s)"

text \<open>The status and running total a reversal of a settled purchase records.\<close>

definition reversal_outcome :: "purchase \<Rightarrow> provider_event \<Rightarrow> bool \<Rightarrow> purchase_status \<times> int" where
  "reversal_outcome p ev dispute =
     (let settledTotal = valueOrZero (pu_SettledTotalMinor p);
          adj = mn_AmountMinor (xe_Adjustment ev);
          returned = (if adj \<le> 0 then settledTotal else adj);
          cumulative0 = i64 (pu_RefundedAmountMinor p + returned);
          cumulative = (if 0 < settledTotal \<and> settledTotal < cumulative0 then settledTotal
                        else cumulative0)
      in (if dispute then StatusDisputed
          else if settledTotal \<le> 0 \<or> settledTotal \<le> cumulative then StatusRefunded
          else StatusPartiallyRefunded,
          cumulative))"

text \<open>The entitlement side of a recorded reversal.\<close>

definition unwind_license ::
  "'s billing_service \<Rightarrow> purchase \<Rightarrow> bool \<Rightarrow> purchase_status \<Rightarrow> 's \<Rightarrow> error option \<times> 's" where
  "unwind_license S p dispute st s =
     (case bs_licenses S of
        None \<Rightarrow> (None, s)
      | Some lic \<Rightarrow>
          (case lr_RevokeUnconsumedLicense lic (pu_ID p) s of
             (Inl e, s1) \<Rightarrow> (Some e, s1)
           | (Inr revoked, s1) \<Rightarrow>
               if revoked then (None, s1)
               else if dispute then lr_SetEventBillingStatus lic (pu_EventID p) EventBillingPaymentReview s1
               else if st = StatusPartiallyRefunded then (None, s1)
               else lr_SetEventBillingStatus lic (pu_EventID p) EventBillingRefunded s1))"

definition handleReversal ::
  "'s billing_service \<Rightarrow> uuid \<Rightarrow> provider_event \<Rightarrow> bool \<Rightarrow> 's \<Rightarrow> error option \<times> 's" where
  "handleReversal S purchaseID ev dispute s =
     (case rp_GetPurchase (bs_repo S) purchaseID s of
        Inl e \<Rightarrow> (Some e, s)
      | Inr p \<Rightarrow>
          if \<not> PostSettlement (pu_Status p)
          then (if Open (pu_Status p)
                then rp_UpdateStatus (bs_repo S) (bs_now S) (pu_ID p) StatusCanceled
                  (Some ''reversed_before_settlement'') s
                else (None, s))
          else
            (let (st, cumulative) = reversal_outcome p ev dispute
             in case rp_RecordReversal (bs_repo S) (bs_now S)
                       \<lparr>ri_PurchaseID = pu_ID p, ri_Status = st, ri_RefundedAmountMinor = cumulative\<rparr> s of
                  (Some e, s1) \<Rightarrow> (Some e, s1)
                | (None, s1) \<Rightarrow> unwind_license S p dispute st s1))"

definition handleDisputeReversed ::
  "'s billing_service \<Rightarrow> uuid \<Rightarrow> provider_event \<Rightarrow> 's \<Rightarrow> error option \<times> 's" where
  "handleDisputeReversed S purchaseID ev s =
     (case rp_GetPurchase (bs_repo S) purchaseID s of
        Inl e \<Rightarrow> (Some e, s)
      | Inr p \<Rightarrow>
          if pu_Status p \<noteq> StatusDisputed then (None, s)
          else
            (let adj = mn_AmountMinor (xe_Adjustment ev);
                 remaining0 = i64 (pu_RefundedAmountMinor p - adj);
                 remaining = (if adj \<le> 0 \<or> remaining0 < 0 then 0 else remaining0)
             in case rp_RecordReversal (bs_repo S) (bs_now S)
                       \<lparr>ri_PurchaseID = pu_ID p, ri_Status = StatusSettled,
                        ri_RefundedAmountMinor = remaining\<rparr> s of
                  (Some e, s1) \<Rightarrow> (Some e, s1)
                | (None, s1) \<Rightarrow>
                    (case bs_licenses S of
                       None \<Rightarrow> (None, s1)
                     | Some lic \<Rightarrow> lr_SetEventBillingStatus lic (pu_EventID p) EventBillingOK s1)))"

section \<open>Webhooks (service.go)\<close>

text \<open>Which purchase a notification is about: the echoed id, or the one of its transaction.\<close>

definition event_purchase :: "'s billing_service \<Rightarrow> provider_event \<Rightarrow> 's \<Rightarrow> error + uuid" where
  "event_purchase S ev s =
     (if xe_PurchaseID ev = uuid_nil \<and> xe_ExternalTransactionID ev \<noteq> ''''
      then (case rp_PurchaseByProviderTransaction (bs_repo S) (bs_provider S)
                   (xe_ExternalTransactionID ev) s of
              Inl e \<Rightarrow> Inl e
            | Inr None \<Rightarrow> Inr (xe_PurchaseID ev)
            | Inr (Some p) \<Rightarrow> Inr (pu_ID p))
      else Inr (xe_PurchaseID ev))"

definition event_record ::
  "'s billing_service \<Rightarrow> string \<Rightarrow> provider_event \<Rightarrow> uuid \<Rightarrow> provider_event_record" where
  "event_record S rawBody ev purchaseID =
     (let dedupeKey = (if xe_DedupeKey ev = '''' then xe_ExternalEventID ev else xe_DedupeKey ev)
      in \<lparr>pe_ID = bs_event_id S (bs_provider S) dedupeKey, pe_Provider = bs_provider S,
          pe_ExternalEventID = dedupeKey, pe_EventType = xe_Type ev,
          pe_PurchaseID = (if purchaseID = uuid_nil then None else Some purchaseID),
          pe_PayloadHash = bs_hash S rawBody, pe_Status = DeliveryReceived, pe_AttemptCount = 0,
          pe_LastError = None, pe_ReceivedAt = bs_now S, pe_ProcessedAt = None\<rparr>)"

text \<open>Routing by type; \<open>None\<close> for a type the switch has no case for.\<close>

definition route_event ::
  "'s billing_service \<Rightarrow> uuid \<Rightarrow> provider_event \<Rightarrow> 's \<Rightarrow> (error option \<times> 's) option" where
  "route_event S purchaseID ev s =
     (case xe_Type ev of
        EventPaymentSettled \<Rightarrow> Some (handleSettlement S purchaseID ev s)
      | EventPaymentFailed \<Rightarrow> Some (handleFailure S purchaseID StatusFailed s)
      | EventPaymentCanceled \<Rightarrow> Some (handleFailure S purchaseID StatusCanceled s)
      | EventPaymentRefunded \<Rightarrow> Some (handleReversal S purchaseID ev False s)
      | EventPaymentDisputed \<Rightarrow> Some (handleReversal S purchaseID ev True s)
      | EventPaymentDisputeReversed \<Rightarrow> Some (handleDisputeReversed S purchaseID ev s)
      | _ \<Rightarrow> None)"

text \<open>A fresh delivery: process it, and record how that went.\<close>

definition process_event ::
  "'s billing_service \<Rightarrow> uuid \<Rightarrow> uuid \<Rightarrow> provider_event \<Rightarrow> 's \<Rightarrow> error option \<times> 's" where
  "process_event S recID purchaseID ev s =
     (let processed = (\<lambda>s. snd (rp_MarkProviderEventProcessed (bs_repo S) (bs_now S) recID s));
          failed = (\<lambda>e s. snd (rp_MarkProviderEventFailed (bs_repo S) recID e s))
      in if xe_Type ev = EventIgnored then (None, processed s)
         else if purchaseID = uuid_nil
         then (let err = Fmt (''billing: no purchase for provider transaction '' @ xe_ExternalTransactionID ev)
               in (Some err, failed err s))
         else (case route_event S purchaseID ev s of
                 None \<Rightarrow> (None, processed s)
               | Some (Some e, s1) \<Rightarrow> (Some e, failed e s1)
               | Some (None, s1) \<Rightarrow> (None, processed s1)))"

definition HandleProviderEvent ::
  "'s billing_service \<Rightarrow> string \<Rightarrow> string \<Rightarrow> 's \<Rightarrow> error option \<times> 's" where
  "HandleProviderEvent S rawBody signature s =
     (case bs_decoder S rawBody signature of
        Inl e \<Rightarrow> (Some e, s)
      | Inr ev \<Rightarrow>
     (case event_purchase S ev s of
        Inl e \<Rightarrow> (Some e, s)
      | Inr purchaseID \<Rightarrow>
     (case rp_InsertProviderEvent (bs_repo S) (event_record S rawBody ev purchaseID) s of
        (Inl e, s1) \<Rightarrow> (Some e, s1)
      | (Inr True, s1) \<Rightarrow> (None, s1)
      | (Inr False, s1) \<Rightarrow>
          process_event S (pe_ID (event_record S rawBody ev purchaseID)) purchaseID ev s1)))"

section \<open>Queries and reconciliation (service.go)\<close>

definition GetPurchase :: "'s billing_service \<Rightarrow> uuid \<Rightarrow> uuid \<Rightarrow> 's \<Rightarrow> error + purchase" where
  "GetPurchase S purchaseID hostID s =
     (case rp_GetPurchase (bs_repo S) purchaseID s of
        Inl _ \<Rightarrow> Inl (Billing ErrPurchaseNotFound)
      | Inr p \<Rightarrow> if pu_HostID p \<noteq> hostID then Inl (Billing ErrPurchaseNotFound) else Inr p)"

fun reconcile_loop ::
  "'s billing_service \<Rightarrow> purchase list \<Rightarrow> nat \<times> error list \<Rightarrow> 's \<Rightarrow> (nat \<times> error list) \<times> 's" where
  "reconcile_loop S [] acc s = (acc, s)"
| "reconcile_loop S (p # ps) (applied, errs) s =
     (case applyEntitlement S p '''' (coalesce (pu_SettledAt p) (bs_now S)) s of
        (Some e, s1) \<Rightarrow> reconcile_loop S ps (applied, errs @ [e]) s1
      | (None, s1) \<Rightarrow> reconcile_loop S ps (applied + 1, errs) s1)"

definition ReconcileUnapplied ::
  "'s billing_service \<Rightarrow> int \<Rightarrow> 's \<Rightarrow> (nat \<times> error list) \<times> 's" where
  "ReconcileUnapplied S lim s =
     (case rp_UnappliedSettled (bs_repo S) lim s of
        Inl e \<Rightarrow> ((0, [e]), s)
      | Inr ps \<Rightarrow> reconcile_loop S ps (0, []) s)"

end
