(* ===== verification/Wiring.thy ===== *)
theory Wiring
  imports License Billing Event
begin

text \<open>
  The composition of the API process (cmd/api/billing_adapters.go, cmd/api/main.go): the
  adapters that give the billing service its view of licenses, catalog, events and
  entitlements, and the billing service they are wired into, over the one database.
\<close>

text \<open>
  What the deployment and the environment of a call supply: the plan registry, the
  settings, the provider adapter, the clock and fresh ids, and the text of a uuid.
  \<open>en_email\<close> is the \<open>users\<close> table.
\<close>

record app_env =
  en_registry :: plan_registry
  en_uuid_string :: "uuid \<Rightarrow> string"
  en_ids :: license_ids
  en_now :: time
  en_fresh :: uuid
  en_email :: "uuid \<Rightarrow> string"
  en_provider :: provider
  en_currency :: string
  en_enabled :: bool
  en_successURL :: string
  en_cancelURL :: string
  en_checkout :: "checkout_input \<Rightarrow> db \<Rightarrow> (error + checkout_target) \<times> db"
  en_decoder :: "string \<Rightarrow> string \<Rightarrow> error + provider_event"
  en_event_id :: "provider \<Rightarrow> string \<Rightarrow> uuid"
  en_hash :: "string \<Rightarrow> string"

definition ActivateForPurchase :: "app_env \<Rightarrow> grant_input \<Rightarrow> db \<Rightarrow> error option \<times> db" where
  "ActivateForPurchase E inp s =
     (case ActivatePurchase (en_registry E) (en_uuid_string E) (en_ids E) (en_now E)
             \<lparr>pi_PurchaseID = gi_PurchaseID inp, pi_AccountID = gi_AccountID inp,
              pi_EventID = gi_EventID inp, pi_PlanVersionID = gi_PlanVersionID inp,
              pi_PaymentProvider = gi_PaymentProvider inp,
              pi_ProviderTransactionID = gi_ProviderTransactionID inp,
              pi_PurchaseAmountMinor = gi_PurchaseAmountMinor inp,
              pi_PurchaseCurrency = gi_PurchaseCurrency inp, pi_ActivatedAt = gi_SettledAt inp\<rparr> s of
        (Inl e, s') \<Rightarrow> (Some e, s')
      | (Inr _, s') \<Rightarrow> (None, s'))"

definition adapter_ActiveVersion :: "plan_registry \<Rightarrow> plan_code \<Rightarrow> db \<Rightarrow> error + catalog_version" where
  "adapter_ActiveVersion reg code s =
     (case ActiveVersion reg gorm_catalog code s of
        Inl e \<Rightarrow> Inl e
      | Inr v \<Rightarrow> Inr \<lparr>cv_ID = pv_ID v, cv_Code = pv_Code v\<rparr>)"

text \<open>\<open>First\<close> without an explicit order reads the valid price with the smallest id.\<close>

definition adapter_CurrentPrice :: "time \<Rightarrow> uuid \<Rightarrow> string \<Rightarrow> db \<Rightarrow> error + catalog_price" where
  "adapter_CurrentPrice now vid currency s =
     (case first_by pp_ID (price_valid_at vid currency now) (t_plan_prices s) of
        None \<Rightarrow> Inl (DB ErrRecordNotFound)
      | Some p \<Rightarrow> Inr \<lparr>cp_AmountMinor = pp_AmountMinor p,
          cp_ReturningAmountMinor = pp_ReturningAmountMinor p, cp_Currency = pp_Currency p\<rparr>)"

definition adapter_OwnerOf :: "uuid \<Rightarrow> uuid \<Rightarrow> db \<Rightarrow> error option" where
  "adapter_OwnerOf eventID hostID s =
     (case db_GetOwned eventID hostID s of Inl e \<Rightarrow> Some e | Inr _ \<Rightarrow> None)"

definition adapter_HostEmail :: "(uuid \<Rightarrow> string) \<Rightarrow> uuid \<Rightarrow> db \<Rightarrow> error + string" where
  "adapter_HostEmail email hostID s = Inr (email hostID)"

definition adapter_RevokeUnconsumed :: "time \<Rightarrow> uuid \<Rightarrow> db \<Rightarrow> (error + bool) \<times> db" where
  "adapter_RevokeUnconsumed now purchaseID s = RevokeUnconsumed now purchaseID s"

definition adapter_SetEventBillingStatus ::
  "uuid \<Rightarrow> event_billing_status \<Rightarrow> db \<Rightarrow> error option \<times> db" where
  "adapter_SetEventBillingStatus eventID st s =
     (None, s\<lparr>t_events := update_where (\<lambda>e. ev_ID e = eventID)
        (\<lambda>e. e\<lparr>ev_BillingStatus := st\<rparr>) (t_events s)\<rparr>)"

definition app_billing :: "app_env \<Rightarrow> db billing_service" where
  "app_billing E = \<lparr>bs_repo = gorm_purchases (en_fresh E) (en_now E), bs_checkout = en_checkout E,
     bs_decoder = en_decoder E, bs_grants = ActivateForPurchase E,
     bs_licenses = Some \<lparr>lr_RevokeUnconsumedLicense = adapter_RevokeUnconsumed (en_now E),
        lr_SetEventBillingStatus = adapter_SetEventBillingStatus\<rparr>,
     bs_ActiveVersion = adapter_ActiveVersion (en_registry E),
     bs_CurrentPrice = adapter_CurrentPrice (en_now E), bs_OwnerOf = adapter_OwnerOf,
     bs_HostEmail = adapter_HostEmail (en_email E), bs_Resolve = Resolve gorm_grants,
     bs_registry = en_registry E, bs_provider = en_provider E, bs_currency = en_currency E,
     bs_enabled = en_enabled E, bs_successURL = en_successURL E, bs_cancelURL = en_cancelURL E,
     bs_event_id = en_event_id E, bs_hash = en_hash E, bs_now = en_now E, bs_fresh = en_fresh E\<rparr>"

text \<open>The fields of the wired service and of its repository, for the proofs.\<close>

lemma app_fields:
  "bs_repo (app_billing E) = gorm_purchases (en_fresh E) (en_now E)"
  "bs_checkout (app_billing E) = en_checkout E"
  "bs_decoder (app_billing E) = en_decoder E"
  "bs_grants (app_billing E) = ActivateForPurchase E"
  "bs_ActiveVersion (app_billing E) = adapter_ActiveVersion (en_registry E)"
  "bs_CurrentPrice (app_billing E) = adapter_CurrentPrice (en_now E)"
  "bs_OwnerOf (app_billing E) = adapter_OwnerOf"
  "bs_HostEmail (app_billing E) = adapter_HostEmail (en_email E)"
  "bs_Resolve (app_billing E) = Resolve gorm_grants"
  "bs_registry (app_billing E) = en_registry E"
  "bs_provider (app_billing E) = en_provider E"
  "bs_currency (app_billing E) = en_currency E"
  "bs_enabled (app_billing E) = en_enabled E"
  "bs_event_id (app_billing E) = en_event_id E"
  "bs_hash (app_billing E) = en_hash E"
  "bs_now (app_billing E) = en_now E"
  "bs_fresh (app_billing E) = en_fresh E"
  by (simp_all add: app_billing_def)

lemma gorm_fields:
  "rp_CreatePurchase (gorm_purchases f n) = db_CreatePurchase f"
  "rp_IdempotentPurchase (gorm_purchases f n) = db_IdempotentPurchase"
  "rp_GetPurchase (gorm_purchases f n) = db_GetPurchase"
  "rp_UpdateCheckout (gorm_purchases f n) = db_UpdateCheckout"
  "rp_SettlePurchase (gorm_purchases f n) = db_SettlePurchase"
  "rp_UpdateStatus (gorm_purchases f n) = db_UpdateStatus"
  "rp_MarkEntitlementApplied (gorm_purchases f n) = db_MarkEntitlementApplied"
  "rp_OpenPurchaseForEvent (gorm_purchases f n) = db_OpenPurchaseForEvent"
  "rp_LatestEventPurchase (gorm_purchases f n) = db_LatestEventPurchase"
  "rp_HasEligibleCommercialPurchase (gorm_purchases f n) = db_HasEligibleCommercialPurchase"
  "rp_RecordReversal (gorm_purchases f n) = db_RecordReversal"
  "rp_UnappliedSettled (gorm_purchases f n) = db_UnappliedSettled"
  "rp_InsertProviderEvent (gorm_purchases f n) = db_InsertProviderEvent f n"
  "rp_MarkProviderEventProcessed (gorm_purchases f n) = db_MarkProviderEventProcessed"
  "rp_MarkProviderEventFailed (gorm_purchases f n) = db_MarkProviderEventFailed"
  "rp_FindProviderPrice (gorm_purchases f n) = db_FindProviderPrice"
  "rp_FindProviderProduct (gorm_purchases f n) = db_FindProviderProduct"
  "rp_PurchaseByProviderTransaction (gorm_purchases f n) = db_PurchaseByProviderTransaction"
  by (simp_all add: gorm_purchases_def)

end
