(* ===== verification/Fixtures.thy ===== *)
theory Fixtures
  imports EntitlementFacts
begin

text \<open>
  A small concrete database the witnesses run on: three plan versions, one host with one
  active event on the Free plan, and an open media table. Instants are small numbers.
\<close>

definition empty_db :: db where
  "empty_db = \<lparr>t_events = [], t_media = [], t_media_jobs = [], t_guest_sessions = [], t_exports = [], t_replicas = [], t_walls = [],
     t_plan_versions = [], t_plan_prices = [], t_grants = [], t_audits = [], t_licenses = [],
     t_purchases = [], t_provider_events = [], t_provider_prices = [], t_provider_products = [], t_users = [],
     t_consents = [], t_qr_sources = []\<rparr>"

definition fx_limits :: "int \<Rightarrow> int \<Rightarrow> int \<Rightarrow> limits" where
  "fx_limits items bytes days = \<lparr>MaxGuests = 2, MaxMediaItems = items, MaxPhotoItems = 0,
     MaxVideoItems = 0, MaxMediaBytes = bytes, MaxLiveWallItems = 0, RetentionDays = days\<rparr>"

definition fx_ent :: "feature list \<Rightarrow> limits \<Rightarrow> entitlements" where
  "fx_ent fs l = \<lparr>Features = fs, FairUse = False, Limits = l\<rparr>"

definition fx_version :: "uuid \<Rightarrow> plan_code \<Rightarrow> entitlements \<Rightarrow> version" where
  "fx_version i code e = \<lparr>pv_ID = i, pv_Code = code, pv_Version = 1, pv_DisplayName = code,
     pv_Status = VersionActive, pv_Entitlements = e, pv_CreatedAt = 1, pv_ActivatedAt = Some 1,
     pv_RetiredAt = None\<rparr>"

definition fx_free :: version where
  "fx_free = fx_version 1 PlanFree (fx_ent [] (fx_limits 10 1000 30))"
definition fx_experience :: version where
  "fx_experience = fx_version 2 PlanExperience (fx_ent [FeatureZIPExport] (fx_limits 100 5000 90))"
definition fx_signature :: version where
  "fx_signature = fx_version 3 PlanSignature
     (fx_ent [FeatureZIPExport, FeatureRemoveBranding] (fx_limits 500 9000 365))"

definition fx_event :: event where
  "fx_event = \<lparr>ev_ID = 7, ev_HostID = 5, ev_ClientRequestID = None, ev_Name = ''party'',
     ev_Slug = ''evt_1'', ev_EventDate = None, ev_EventType = ''other'', ev_ExpectedGuestCount = 10,
     ev_Status = EventActive, ev_GalleryEnabled = True, ev_LifecyclePhase = None,
     ev_SetupChecklist = ''{}'', ev_CandidCameraEnabled = True, ev_GuestTheme = None,
     ev_QRConfig = None, ev_MaxMediaBytes = 1000, ev_UsedMediaBytes = 0, ev_ReservedMediaBytes = 0,
     ev_TrialStartedAt = Some 2, ev_TrialEndedAt = None, ev_BillingStatus = EventBillingOK,
     ev_CreatedAt = 2, ev_UpdatedAt = 2, max_media_items = 10, uploaded_media_items = 0,
     reserved_media_items = 0, max_photo_items = 0, uploaded_photo_items = 0,
     reserved_photo_items = 0, max_video_items = 0, uploaded_video_items = 0,
     reserved_video_items = 0, media_purged_at = None\<rparr>"

definition fx_free_grant :: grant where
  "fx_free_grant = \<lparr>gr_ID = 70, gr_EventID = 7, gr_PlanVersionID = 1, gr_EventLicenseID = None,
     gr_Status = GrantActive, gr_Source = SourceSystem, gr_SourceReference = None, gr_ActorID = None,
     gr_EntitlementSnapshot = pv_Entitlements fx_free, gr_ActivatedAt = 2,
     gr_UploadExpiresAt = 2 + 30 * day, gr_RetentionExpiresAt = 2 + 30 * day, gr_CreatedAt = 2\<rparr>"

definition fx_db :: db where
  "fx_db = empty_db\<lparr>t_events := [fx_event], t_plan_versions := [fx_free, fx_experience, fx_signature],
     t_grants := [fx_free_grant]\<rparr>"

named_theorems fx \<open>the definitions of the fixture\<close>

lemmas fx_defs [fx] = empty_db_def fx_limits_def fx_ent_def fx_version_def fx_free_def
  fx_experience_def fx_signature_def fx_event_def fx_free_grant_def fx_db_def

lemma fx_grants_inv: "grants_inv fx_db"
  by (simp add: fx grants_inv_def keyed_def one_active_def active_rows_def refs_unique_def)

lemma fx_limits_match: "limits_match fx_db"
  by (simp add: fx limits_match_def event_has_limits_def limits_of_def)

lemma fx_versions_keyed: "keyed pv_ID (t_plan_versions fx_db)"
  by (simp add: fx keyed_def)

lemma trim_space_id:
  assumes "find (\<lambda>p. has_prefix s p) utf8_spaces = None"
    "find (\<lambda>p. has_prefix (rev s) p) (map rev utf8_spaces) = None"
  shows "trim_space s = s"
proof -
  have "trim_left utf8_spaces s = s"
    using assms(1) by (cases "length s") (simp_all add: trim_left_def)
  moreover have "trim_left (map rev utf8_spaces) (rev s) = rev s"
    using assms(2) by (cases "length s") (simp_all add: trim_left_def)
  ultimately show ?thesis by (simp add: trim_space_def)
qed

end
