(* ===== verification/GrantProps.thy ===== *)
theory GrantProps
  imports Fixtures
begin

text \<open>
  What the granting service promises. The interface \<open>grant_ledger\<close> states the laws it
  relies on (errors change nothing, a recorded source reference is refused); the service
  lemmas are proved from the laws alone, and the database transactions satisfy them.
\<close>

section \<open>The ledger interface\<close>

locale grant_ledger =
  fixes repo :: "'s grant_repo"
    and granted :: "grant_source \<Rightarrow> string \<Rightarrow> 's \<Rightarrow> bool"
  assumes activate_error: "er_Activate repo a req build s = (Inl e, s') \<Longrightarrow> s' = s"
    and activate_dup: "granted (rq_Source req) (rq_SourceRef req) s \<Longrightarrow> rq_SourceRef req \<noteq> '''' \<Longrightarrow>
      fst (er_Activate repo a req build s) = Inl (Entitlement ErrDuplicateSourceReference) \<or>
      fst (er_Activate repo a req build s) = Inl (Entitlement ErrEventNotFound)"
    and activate_records: "er_Activate repo a req build s = (Inr g, s') \<Longrightarrow>
      granted (gr_Source g) (coalesce (gr_SourceReference g) '''') s'"
    and activate_builds: "er_Activate repo a req build s = (Inr g, s') \<Longrightarrow>
      \<exists>facts current target. build facts current = Inr (g, target)"
    and revoke_error: "er_Revoke repo a i reason at s = (Inl e, s'') \<Longrightarrow> s'' = s"
begin

lemma service_error_atomic:
  "GrantActivate reg cat repo notify gid aid now inp s = (Inl e, ann, s') \<Longrightarrow> s' = s \<and> ann = []"
  by (auto simp: GrantActivate_def Let_def dest: activate_error
      split: if_splits sum.splits prod.splits error.splits)

lemma service_records:
  assumes "GrantActivate reg cat repo notify gid aid now inp s = (Inr g, ann, s')"
  shows "granted (ai_Source inp) (trim_space (ai_SourceRef inp)) s'"
proof -
  from assms obtain v req at where act: "er_Activate repo aid req
      (build_grant reg gid inp (trim_space (ai_SourceRef inp)) v at) s = (Inr g, s')"
    by (auto simp: GrantActivate_def Let_def split: if_splits sum.splits prod.splits error.splits)
  from activate_builds [OF act] obtain facts current target where
    "build_grant reg gid inp (trim_space (ai_SourceRef inp)) v at facts current = Inr (g, target)"
    by blast
  from build_grant_Inr(6,7) [OF this] activate_records [OF act] show ?thesis
    by simp
qed

text \<open>A source reference grants once, whatever event, plan or time the second call names.\<close>

lemma service_refuses_recorded:
  assumes "granted (ai_Source inp) (trim_space (ai_SourceRef inp)) s"
  shows "\<exists>e. GrantActivate reg cat repo notify gid aid now inp s = (Inl e, [], s)"
proof -
  obtain r ann s' where run: "GrantActivate reg cat repo notify gid aid now inp s = (r, ann, s')"
    by (cases "GrantActivate reg cat repo notify gid aid now inp s") auto
  show ?thesis
  proof (cases r)
    case (Inl e)
    with service_error_atomic run show ?thesis by fastforce
  next
    case (Inr g)
    from run [unfolded Inr] obtain v at where ref: "trim_space (ai_SourceRef inp) \<noteq> ''''"
      and act: "er_Activate repo aid (activate_request inp)
        (build_grant reg gid inp (trim_space (ai_SourceRef inp)) v at) s = (Inr g, s')"
      by (auto simp: GrantActivate_def Let_def activate_request_def
          split: if_splits sum.splits prod.splits error.splits)
    from activate_dup [of "activate_request inp" s aid
        "build_grant reg gid inp (trim_space (ai_SourceRef inp)) v at"] assms ref act
    have False by (simp add: activate_request_def)
    then show ?thesis ..
  qed
qed

lemma revoke_service_error_atomic:
  "GrantRevoke repo notify aid now i reason s = (Inl e, ann, s') \<Longrightarrow> s' = s \<and> ann = []"
  by (auto simp: GrantRevoke_def dest: revoke_error split: if_splits sum.splits prod.splits)

end

definition recorded :: "grant_source \<Rightarrow> string \<Rightarrow> db \<Rightarrow> bool" where
  "recorded src ref s \<longleftrightarrow>
     (\<exists>g \<in> set (t_grants s). gr_Source g = src \<and> coalesce (gr_SourceReference g) '''' = ref)"

lemma db_Activate_dup:
  assumes "recorded (rq_Source req) (rq_SourceRef req) s" "rq_SourceRef req \<noteq> ''''"
  shows "fst (db_Activate a req build s) = Inl (Entitlement ErrDuplicateSourceReference) \<or>
    fst (db_Activate a req build s) = Inl (Entitlement ErrEventNotFound)"
proof (cases "lookup_row ev_ID (rq_EventID req) (t_events s)")
  case None
  then show ?thesis by (simp add: db_Activate_def activate_tx_def transaction_def)
next
  case (Some e)
  from assms have "0 < count_where (\<lambda>g. gr_Source g = rq_Source req \<and>
      gr_SourceReference g = Some (rq_SourceRef req)) (t_grants s)"
    by (auto simp: count_where_pos_iff recorded_def)
      (metis coalesce.simps(1) coalesce.simps(2) option.exhaust)
  with Some assms(2) show ?thesis
    by (simp add: db_Activate_def activate_tx_def transaction_def)
qed

interpretation gl: grant_ledger gorm_grants recorded
proof unfold_locales
  fix a req build s g s'
  assume act: "er_Activate gorm_grants a req build s = (Inr g, s')"
  then have "db_Activate a req build s = (Inr g, s')" by (simp add: gorm_grants_def)
  then obtain e target where "lookup_row ev_ID (rq_EventID req) (t_events s) = Some e" and
    b: "build \<lparr>ef_EventDate = ev_EventDate e\<rparr> (activeGrant (rq_EventID req) s) = Inr (g, target)" and
    w: "writeGrant a g (activeGrant (rq_EventID req) s) target (rq_Reason req) s = Inr s'"
    by (rule db_Activate_Inr)
  from b show "\<exists>facts current target. build facts current = Inr (g, target)" by blast
  from writeGrant_Inr(1) [OF w] show "recorded (gr_Source g) (coalesce (gr_SourceReference g) '''') s'"
    by (auto simp: recorded_def)
next
  fix a req build s e s'
  assume "er_Activate gorm_grants a req build s = (Inl e, s')"
  then show "s' = s" by (simp add: gorm_grants_def db_Activate_Inl)
next
  fix a i reason at s e s''
  assume "er_Revoke gorm_grants a i reason at s = (Inl e, s'')"
  then show "s'' = s" by (simp add: gorm_grants_def db_Revoke_Inl)
next
  fix req :: activation_request and s a build
  assume "recorded (rq_Source req) (rq_SourceRef req) s" "rq_SourceRef req \<noteq> ''''"
  then show "fst (er_Activate gorm_grants a req build s) = Inl (Entitlement ErrDuplicateSourceReference) \<or>
    fst (er_Activate gorm_grants a req build s) = Inl (Entitlement ErrEventNotFound)"
    using db_Activate_dup by (simp add: gorm_grants_def)
qed

section \<open>What an activation does\<close>

lemma event_has_limits_apply:
  "e \<in> set (t_events (applyHotLimits i l s)) \<Longrightarrow> ev_ID e = i \<Longrightarrow> event_has_limits e l"
  unfolding applyHotLimits_def
proof (simp, elim in_update_whereE)
  fix x assume "ev_ID e = i" "e = (if ev_ID x = i then x\<lparr>ev_MaxMediaBytes :=
      if 0 < MaxMediaBytes l then MaxMediaBytes l else ev_MaxMediaBytes x,
      max_media_items := MaxMediaItems l, max_photo_items := MaxPhotoItems l,
      max_video_items := MaxVideoItems l\<rparr> else x)"
  then show "event_has_limits e l"
    by (cases "ev_ID x = i") (simp_all add: event_has_limits_def)
qed

lemma event_has_limits_other:
  "e \<in> set (t_events (applyHotLimits i l s)) \<Longrightarrow> ev_ID e \<noteq> i \<Longrightarrow> e \<in> set (t_events s)"
  unfolding applyHotLimits_def
  by (simp, elim in_update_whereE) (simp split: if_splits)

lemma supersede_active_old:
  assumes "h \<in> set (t_grants (after_supersede p s))" "gr_Status h = GrantActive"
  shows "h \<in> set (t_grants s)"
  using assms by (auto simp: after_supersede_def set_update_where split: option.splits if_splits)

lemma writeGrant_limits:
  assumes inv: "grants_inv s" and lim: "limits_match s"
    and cur: "activeGrant (gr_EventID g) s = previous"
    and w: "writeGrant a g previous target reason s = Inr s'"
  shows "limits_match s'"
  unfolding limits_match_def
proof (intro ballI impI)
  fix e h assume e: "e \<in> set (t_events s')" and h: "h \<in> set (t_grants s')"
    and act: "gr_EventID h = ev_ID e \<and> gr_Status h = GrantActive"
  note w = writeGrant_Inr [OF w]
  show "event_has_limits e (limits_of h)"
  proof (cases "ev_ID e = gr_EventID g")
    case True
    with h act w(1) supersede_none_active [OF inv cur] have "h = g" by auto
    with True e w(2) show ?thesis by (auto intro: event_has_limits_apply)
  next
    case False
    with e w(2) have "e \<in> set (t_events s)" by (auto dest: event_has_limits_other)
    moreover from False act h w(1) have "h \<in> set (t_grants (after_supersede previous s))" by auto
    with act have "h \<in> set (t_grants s)" by (auto dest: supersede_active_old)
    ultimately show ?thesis using lim act by (auto simp: limits_match_def)
  qed
qed

text \<open>The plan code of the active grant, which transitions compare.\<close>

definition plan_of :: "uuid \<Rightarrow> db \<Rightarrow> plan_code option" where
  "plan_of i s = map_option ag_PlanCode (activeGrant i s)"

lemma CheckTransition_None:
  "CheckTransition reg from to = None \<longleftrightarrow>
     Valid reg to \<and> (\<forall>f. from = Some f \<longrightarrow> Rank reg f < Rank reg to)"
  by (auto simp: CheckTransition_def split: option.splits)

text \<open>A successful call, down to the rows it writes.\<close>

lemma GrantActivate_writes:
  assumes "GrantActivate reg gorm_catalog gorm_grants notify gid aid now inp s = (Inr g, ann, s')"
    and "keyed pv_ID (t_plan_versions s)"
  obtains v at e target where "pv_Code v = ai_TargetPlanCode inp"
    "lookup_row ev_ID (ai_EventID inp) (t_events s) = Some e"
    "build_grant reg gid inp (trim_space (ai_SourceRef inp)) v at
      \<lparr>ef_EventDate = ev_EventDate e\<rparr> (activeGrant (ai_EventID inp) s) = Inr (g, target)"
    "writeGrant aid g (activeGrant (ai_EventID inp) s) target (ai_Reason inp) s = Inr s'"
    "lookup_row pv_ID (gr_PlanVersionID g) (t_plan_versions s) = Some v"
proof -
  from assms(1) obtain v at where v: "pv_Code v = ai_TargetPlanCode inp" "v \<in> set (t_plan_versions s)"
    and act: "db_Activate aid (activate_request inp)
       (build_grant reg gid inp (trim_space (ai_SourceRef inp)) v at) s = (Inr g, s')"
    by (rule GrantActivate_Inr)
  from act obtain e target where
      "lookup_row ev_ID (rq_EventID (activate_request inp)) (t_events s) = Some e"
    and "build_grant reg gid inp (trim_space (ai_SourceRef inp)) v at
      \<lparr>ef_EventDate = ev_EventDate e\<rparr> (activeGrant (rq_EventID (activate_request inp)) s) =
        Inr (g, target)"
    and "writeGrant aid g (activeGrant (rq_EventID (activate_request inp)) s) target
       (rq_Reason (activate_request inp)) s = Inr s'"
    by (rule db_Activate_Inr)
  moreover from this(2) keyed_lookup [OF assms(2) v(2)]
  have "lookup_row pv_ID (gr_PlanVersionID g) (t_plan_versions s) = Some v"
    by (simp add: build_grant_Inr(3))
  ultimately show ?thesis
    using that [OF v(1)] by (simp add: activate_request_def)
qed

section \<open>Properties\<close>

text \<open>C2: a successful activation makes the target plan the event's one active plan, copies
its limits to the event row, never moves down the tiers and never shortens an expiry.\<close>

theorem activation_upgrades:
  assumes inv: "grants_inv s" and lim: "limits_match s" and vk: "keyed pv_ID (t_plan_versions s)"
    and run: "GrantActivate reg gorm_catalog gorm_grants notify gid aid now inp s = (Inr g, ann, s')"
  shows "grants_inv s' \<and> limits_match s' \<and>
    plan_of (ai_EventID inp) s' = Some (ai_TargetPlanCode inp) \<and>
    (\<forall>c. activeGrant (ai_EventID inp) s = Some c \<longrightarrow>
       Rank reg (ag_PlanCode c) < Rank reg (ai_TargetPlanCode inp) \<and>
       gr_UploadExpiresAt (ag_Grant c) \<le> gr_UploadExpiresAt g \<and>
       gr_RetentionExpiresAt (ag_Grant c) \<le> gr_RetentionExpiresAt g)"
proof -
  let ?i = "ai_EventID inp" and ?cur = "activeGrant (ai_EventID inp) s"
  from run vk obtain v at e target where v: "pv_Code v = ai_TargetPlanCode inp"
    and "lookup_row ev_ID (ai_EventID inp) (t_events s) = Some e"
    and b: "build_grant reg gid inp (trim_space (ai_SourceRef inp)) v at
      \<lparr>ef_EventDate = ev_EventDate e\<rparr> ?cur = Inr (g, target)"
    and w: "writeGrant aid g ?cur target (ai_Reason inp) s = Inr s'"
    and lv: "lookup_row pv_ID (gr_PlanVersionID g) (t_plan_versions s) = Some v"
    by (rule GrantActivate_writes)
  note b = build_grant_Inr [OF b]
  have "grants_inv s'" using writeGrant_inv [OF inv w] lv by simp
  moreover have "limits_match s'" using writeGrant_limits [OF inv lim _ w] b(2) by simp
  moreover have "plan_of ?i s' = Some (ai_TargetPlanCode inp)"
    using writeGrant_active [OF inv w lv b(5)] b(2) v by (simp add: plan_of_def)
  ultimately show ?thesis
    using b(12,14,15) v by (auto simp: CheckTransition_None)
qed

text \<open>The upgrade of the fixture's event from Free to Experience.\<close>

definition fx_upgrade :: activate_input where
  "fx_upgrade = \<lparr>ai_EventID = 7, ai_TargetPlanCode = PlanExperience, ai_Source = SourceManual,
     ai_SourceRef = ''ref-1'', ai_ActorID = None, ai_Reason = '''', ai_ActivatedAt = 0\<rparr>"

lemma fx_upgrade_runs:
  "\<not> isl (fst (GrantActivate default_registry gorm_catalog gorm_grants True 71 72 100 fx_upgrade fx_db))"
  by code_simp

abbreviation fx_run :: "(error + grant) \<times> plan_change list \<times> db" where
  "fx_run \<equiv> GrantActivate default_registry gorm_catalog gorm_grants True 71 72 100 fx_upgrade fx_db"

lemma fx_run_ok: obtains g ann where "fx_run = (Inr g, ann, snd (snd fx_run))"
  using fx_upgrade_runs by (cases fx_run, cases "fst fx_run") auto

theorem activation_upgrades_witness:
  "grants_inv (snd (snd fx_run)) \<and> limits_match (snd (snd fx_run)) \<and>
   plan_of 7 (snd (snd fx_run)) = Some PlanExperience"
proof -
  obtain g ann where run: "fx_run = (Inr g, ann, snd (snd fx_run))" by (rule fx_run_ok)
  have "ai_EventID fx_upgrade = 7" "ai_TargetPlanCode fx_upgrade = PlanExperience"
    by (simp_all add: fx_upgrade_def)
  with activation_upgrades [OF fx_grants_inv fx_limits_match fx_versions_keyed run]
  show ?thesis by simp
qed

text \<open>A source reference grants at most once. After an activation, any later call with the
same source and the same trimmed reference fails and changes nothing, whatever else it asks.\<close>

theorem activation_idempotent:
  assumes "GrantActivate reg gorm_catalog gorm_grants notify gid aid now inp s = (Inr g, ann, s')"
    and "ai_Source inp' = ai_Source inp" "trim_space (ai_SourceRef inp') = trim_space (ai_SourceRef inp)"
  shows "\<exists>e. GrantActivate reg' gorm_catalog gorm_grants notify' gid' aid' now' inp' s' = (Inl e, [], s')"
  using gl.service_records [OF assms(1)] assms(2,3) gl.service_refuses_recorded [of inp' s'] by simp

theorem activation_idempotent_witness:
  "\<exists>e. GrantActivate default_registry gorm_catalog gorm_grants True 81 82 200
     (fx_upgrade\<lparr>ai_TargetPlanCode := PlanSignature\<rparr>) (snd (snd fx_run)) =
     (Inl e, [], snd (snd fx_run))"
proof -
  obtain g ann where run: "fx_run = (Inr g, ann, snd (snd fx_run))" by (rule fx_run_ok)
  show ?thesis by (rule activation_idempotent [OF run]) simp_all
qed

text \<open>A failed activation leaves no trace: no row of any table and no announcement.\<close>

theorem activation_error_atomic:
  assumes "GrantActivate reg cat gorm_grants notify gid aid now inp s = (Inl e, ann, s')"
  shows "s' = s \<and> ann = []"
  by (rule gl.service_error_atomic [OF assms])

theorem activation_error_atomic_witness:
  "snd (GrantActivate default_registry gorm_catalog gorm_grants True 71 72 100
     (fx_upgrade\<lparr>ai_TargetPlanCode := PlanFree\<rparr>) fx_db) = ([], fx_db)"
proof -
  let ?r = "GrantActivate default_registry gorm_catalog gorm_grants True 71 72 100
     (fx_upgrade\<lparr>ai_TargetPlanCode := PlanFree\<rparr>) fx_db"
  have "isl (fst ?r)" by code_simp
  then obtain e ann s' where r: "?r = (Inl e, ann, s')" by (cases ?r, cases "fst ?r") auto
  with activation_error_atomic [OF r] show ?thesis by simp
qed

text \<open>Revoking: the candidates are the superseded grants, latest activation first.\<close>

lemma first_by_head:
  "first_by k p t = Some r \<longleftrightarrow> (\<exists>u. sort_key k (filter p t) = r # u)"
  by (auto simp: first_by_def split: list.splits)

lemma sort_key_head:
  assumes "r \<in> set xs" "\<And>x. x \<in> set xs \<Longrightarrow> x \<noteq> r \<Longrightarrow> k r < k x"
  shows "\<exists>u. sort_key k xs = r # u"
proof -
  from assms(1) obtain y u where y: "sort_key k xs = y # u"
    by (metis list.set_cases set_sort)
  have "sorted (map k (y # u))" using sorted_sort_key [of k xs] y by simp
  moreover have "r \<in> set (y # u)" using assms(1) by (simp flip: y)
  ultimately have "k y \<le> k r" by auto
  moreover have "y \<in> set xs" by (metis y list.set_intros(1) set_sort)
  ultimately have "y = r" using assms(2) [of y] by (cases "y = r") auto
  with y show ?thesis by blast
qed

lemma update_where_cong:
  "(\<And>r. r \<in> set t \<Longrightarrow> (if p r then f r else r) = (if q r then h r else r)) \<Longrightarrow>
     update_where p f t = update_where q h t"
  by (simp add: update_where_def)

lemma gr_Status_same: "gr_Status c = st \<Longrightarrow> c\<lparr>gr_Status := st\<rparr> = (c :: grant)"
  by (cases c) simp

lemma restore_superseded:
  assumes "keyed gr_ID t" "c \<in> set t" "gr_Status c = GrantActive"
  shows "update_where (\<lambda>h. gr_ID h = gr_ID c) (\<lambda>h. h\<lparr>gr_Status := GrantActive\<rparr>)
     (update_where (\<lambda>h. gr_ID h = gr_ID c \<and> gr_Status h = GrantActive)
       (\<lambda>h. h\<lparr>gr_Status := GrantSuperseded\<rparr>) t) = t"
proof -
  have "r = c" if "r \<in> set t" "gr_ID r = gr_ID c" for r
    using assms(1,2) that by (auto simp: keyed_def distinct_map inj_on_def)
  with assms(3) have "gr_ID r = gr_ID c \<Longrightarrow> gr_Status r = GrantActive" if "r \<in> set t" for r
    using that by metis
  then show ?thesis
    by (auto simp: update_where_def gr_Status_same intro!: map_idI)
qed

lemma set_mapfilter_join:
  "a \<in> set (List.map_filter (join_grant s) gs) \<longleftrightarrow> (\<exists>g \<in> set gs. join_grant s g = Some a)"
  by (auto simp: List.map_filter_def) force

text \<open>The state after a revocation that finds \<open>current\<close> active and \<open>previous\<close> first.\<close>

lemma revoke_tx_Inr:
  assumes "lookup_row ev_ID i (t_events s) = Some e" "activeGrant i s = Some current"
    and "sort_key (\<lambda>a. (- gr_ActivatedAt (ag_Grant a), - gr_CreatedAt (ag_Grant a)))
       (List.map_filter (join_grant s)
         (filter (\<lambda>g. gr_EventID g = i \<and> gr_Status g = GrantSuperseded) (t_grants s))) = previous # u"
  obtains s' r where "revoke_tx aid i reason at s = Inr (r, s')"
    "t_grants s' = update_where (\<lambda>h. gr_ID h = gr_ID (ag_Grant previous)) (\<lambda>h. h\<lparr>gr_Status := GrantActive\<rparr>)
       (update_where (\<lambda>h. gr_ID h = gr_ID (ag_Grant current)) (\<lambda>h. h\<lparr>gr_Status := GrantRevoked\<rparr>)
         (t_grants s))"
    "t_events s' = t_events (applyHotLimits i (limits_of (ag_Grant previous)) s)"
    "t_plan_versions s' = t_plan_versions s"
  using assms
  by (auto simp: revoke_tx_def Let_def writeAudit_def applyHotLimits_def limits_of_def)

lemma grants_inv_append_inactive:
  assumes "grants_inv s" "t_plan_versions s' = t_plan_versions s"
    and "t_grants s' = t_grants s @ [g\<lparr>gr_Status := GrantRevoked\<rparr>]"
    and "grants_inv s1" "t_plan_versions s1 = t_plan_versions s"
      "t_grants s1 = t_grants (after_supersede previous s) @ [g]"
  shows "grants_inv s'"
proof -
  have same: "map gr_ID (t_grants s') = map gr_ID (t_grants s1)"
    using assms(3,6)
    by (auto simp: after_supersede_def map_update_where_same split: option.splits)
  have "refs_unique (t_grants s') \<longleftrightarrow> refs_unique (t_grants s1)"
  proof -
    have "refs_unique (u @ [g\<lparr>gr_Status := GrantRevoked\<rparr>]) \<longleftrightarrow> refs_unique (u @ [g])" for u
      by (simp add: refs_unique_def)
    moreover have "refs_unique (update_where p (\<lambda>g. g\<lparr>gr_Status := st\<rparr>) u @ [g]) \<longleftrightarrow> refs_unique (u @ [g])"
      for p st and u :: "grant list"
      using refs_unique_status [of "\<lambda>h. p h \<and> h \<in> set u" st "u"]
    proof -
      have "map (\<lambda>g. (gr_Source g, gr_SourceReference g))
         (filter (\<lambda>g. gr_SourceReference g \<noteq> None) (update_where p (\<lambda>g. g\<lparr>gr_Status := st\<rparr>) u)) =
        map (\<lambda>g. (gr_Source g, gr_SourceReference g)) (filter (\<lambda>g. gr_SourceReference g \<noteq> None) u)"
        by (induction u) auto
      then show ?thesis by (simp add: refs_unique_def flip: set_map)
    qed
    ultimately show ?thesis
      using assms(3,6) by (simp add: after_supersede_def split: option.splits)
  qed
  moreover have "one_active (t_grants s')"
    using assms(1,3) by (simp add: grants_inv_def one_active_def active_rows_def)
  ultimately show ?thesis
    using assms same by (auto simp: grants_inv_def keyed_def)
qed
text \<open>After an activation over \<open>c\<close>, the first grant to restore is \<open>c\<close>, now superseded.\<close>

lemma restore_head:
  assumes inv: "grants_inv s" and cur: "activeGrant i s = Some c"
    and grants: "t_grants s1 = t_grants (after_supersede (Some c) s) @ [g]"
    and vers: "t_plan_versions s1 = t_plan_versions s"
    and act: "gr_Status g = GrantActive"
    and older: "\<forall>h \<in> set (t_grants s). gr_EventID h = i \<and> gr_Status h = GrantSuperseded \<longrightarrow>
       gr_ActivatedAt h < gr_ActivatedAt (ag_Grant c)"
  shows "\<exists>u. sort_key (\<lambda>a. (- gr_ActivatedAt (ag_Grant a), - gr_CreatedAt (ag_Grant a)))
     (List.map_filter (join_grant s1)
       (filter (\<lambda>g. gr_EventID g = i \<and> gr_Status g = GrantSuperseded) (t_grants s1))) =
     c\<lparr>ag_Grant := (ag_Grant c)\<lparr>gr_Status := GrantSuperseded\<rparr>\<rparr> # u"
proof (rule sort_key_head)
  note c = activeGrant_Some [OF cur]
  let ?p = "c\<lparr>ag_Grant := (ag_Grant c)\<lparr>gr_Status := GrantSuperseded\<rparr>\<rparr>"
  have j: "join_grant s1 ((ag_Grant c)\<lparr>gr_Status := GrantSuperseded\<rparr>) = Some ?p"
    using c(4) vers by (cases c) (auto simp: join_grant_def)
  have "(ag_Grant c)\<lparr>gr_Status := GrantSuperseded\<rparr> \<in> set (t_grants s1)"
    using c grants by (force simp: after_supersede_def set_update_where)
  then show "?p \<in> set (List.map_filter (join_grant s1)
      (filter (\<lambda>g. gr_EventID g = i \<and> gr_Status g = GrantSuperseded) (t_grants s1)))"
    using j c(2) by (auto simp: set_mapfilter_join intro!: bexI [of _ "(ag_Grant c)\<lparr>gr_Status := GrantSuperseded\<rparr>"])
  fix x
  assume "x \<in> set (List.map_filter (join_grant s1)
      (filter (\<lambda>g. gr_EventID g = i \<and> gr_Status g = GrantSuperseded) (t_grants s1)))"
    and ne: "x \<noteq> ?p"
  then obtain h where h: "h \<in> set (t_grants s1)" "gr_EventID h = i" "gr_Status h = GrantSuperseded"
      "join_grant s1 h = Some x"
    by (auto simp: set_mapfilter_join)
  from h(4) have hx: "ag_Grant x = h" by (rule join_grant_Some)
  from h(1,3) grants act obtain h0 where h0: "h0 \<in> set (t_grants s)"
    "h = (if gr_ID h0 = gr_ID (ag_Grant c) \<and> gr_Status h0 = GrantActive
       then h0\<lparr>gr_Status := GrantSuperseded\<rparr> else h0)"
    by (auto simp: after_supersede_def set_update_where)
  have "h = h0"
  proof (rule ccontr)
    assume "h \<noteq> h0"
    with h0 have a: "gr_ID h0 = gr_ID (ag_Grant c)" "h = h0\<lparr>gr_Status := GrantSuperseded\<rparr>"
      by (auto split: if_splits)
    have "h0 = ag_Grant c"
      using inv h0(1) c(1) a(1) by (auto simp: grants_inv_def keyed_def distinct_map inj_on_def)
    with a j h(4) ne show False by simp
  qed
  with h0(1) h older hx have "gr_ActivatedAt (ag_Grant x) < gr_ActivatedAt (ag_Grant c)" by auto
  then show "(- gr_ActivatedAt (ag_Grant ?p), - gr_CreatedAt (ag_Grant ?p)) <
      (- gr_ActivatedAt (ag_Grant x), - gr_CreatedAt (ag_Grant x))"
    by simp
qed

lemma after_supersede_ids [simp]:
  "map gr_ID (t_grants (after_supersede p s)) = map gr_ID (t_grants s)"
  by (auto simp: after_supersede_def map_update_where_same split: option.splits)

text \<open>Revoking and restoring, on the grants table alone.\<close>

lemma revoke_grants_table:
  assumes inv: "grants_inv s" and cur: "activeGrant i s = Some c"
    and fresh: "\<forall>h \<in> set (t_grants (after_supersede (Some c) s)). \<not> grant_conflict g h"
  shows "update_where (\<lambda>h. gr_ID h = gr_ID (ag_Grant c)) (\<lambda>h. h\<lparr>gr_Status := GrantActive\<rparr>)
     (update_where (\<lambda>h. gr_ID h = gr_ID g) (\<lambda>h. h\<lparr>gr_Status := GrantRevoked\<rparr>)
       (t_grants (after_supersede (Some c) s) @ [g])) =
     t_grants s @ [g\<lparr>gr_Status := GrantRevoked\<rparr>]"
proof -
  note c = activeGrant_Some [OF cur]
  let ?t = "t_grants (after_supersede (Some c) s)"
  have ids: "\<forall>h \<in> set ?t. gr_ID h \<noteq> gr_ID g"
    using fresh by (auto simp: grant_conflict_def)
  moreover from c(1) have "gr_ID (ag_Grant c) \<in> gr_ID ` set ?t"
    by (metis after_supersede_ids image_eqI set_map)
  ultimately have cg: "gr_ID g \<noteq> gr_ID (ag_Grant c)" by auto
  have "update_where (\<lambda>h. gr_ID h = gr_ID g) (\<lambda>h. h\<lparr>gr_Status := GrantRevoked\<rparr>) (?t @ [g]) =
      ?t @ [g\<lparr>gr_Status := GrantRevoked\<rparr>]"
    using update_where_none [OF ids] by (simp add: update_where_def)
  moreover have "keyed gr_ID (t_grants s)" using inv by (simp add: grants_inv_def)
  from restore_superseded [OF this c(1,3)]
  have "update_where (\<lambda>h. gr_ID h = gr_ID (ag_Grant c)) (\<lambda>h. h\<lparr>gr_Status := GrantActive\<rparr>) ?t = t_grants s"
    by (simp add: after_supersede_def)
  ultimately show ?thesis using cg by (simp add: update_where_def)
qed
lemma restored_limits:
  assumes lim: "limits_match s" and inv2: "grants_inv s2" and act2: "activeGrant i s2 = Some c"
    and gs: "t_grants s2 = t_grants s @ [g\<lparr>gr_Status := GrantRevoked\<rparr>]"
    and e1: "t_events s1 = t_events (applyHotLimits i l s)"
    and e2: "t_events s2 = t_events (applyHotLimits i (limits_of (ag_Grant c)) s1)"
    and c: "ag_Grant c \<in> set (t_grants s)"
  shows "limits_match s2"
  unfolding limits_match_def
proof (intro ballI impI)
  fix e h assume e: "e \<in> set (t_events s2)" and h: "h \<in> set (t_grants s2)"
    and act: "gr_EventID h = ev_ID e \<and> gr_Status h = GrantActive"
  show "event_has_limits e (limits_of h)"
  proof (cases "ev_ID e = i")
    case True
    from inv2 have "one_active (t_grants s2)" by (simp add: grants_inv_def)
    from one_active_unique [OF this h] activeGrant_Some [OF act2] act True
    have "h = ag_Grant c" by simp
    with True e e2 show ?thesis by (auto intro: event_has_limits_apply)
  next
    case False
    with e e1 e2 have "e \<in> set (t_events s)" by (auto dest!: event_has_limits_other)
    moreover from act h gs have "h \<in> set (t_grants s)" by auto
    ultimately show ?thesis using lim act by (auto simp: limits_match_def)
  qed
qed

text \<open>revoking is the inverse of activating. After a plan change over \<open>c\<close>, a revocation with
a reason always succeeds: \<open>c\<close> is active again with its limits, the new grant stays as a revoked
row, and every other grant is as it was.\<close>

theorem revoke_undoes_activation:
  assumes inv: "grants_inv s" and lim: "limits_match s" and vk: "keyed pv_ID (t_plan_versions s)"
    and cur: "activeGrant (ai_EventID inp) s = Some c"
    and older: "\<forall>h \<in> set (t_grants s).
       gr_EventID h = ai_EventID inp \<and> gr_Status h = GrantSuperseded \<longrightarrow>
       gr_ActivatedAt h < gr_ActivatedAt (ag_Grant c)"
    and run: "GrantActivate reg gorm_catalog gorm_grants notify gid aid now inp s = (Inr g, ann, s1)"
    and reason: "trim_space reason \<noteq> ''''"
  shows "\<exists>r ann' s2. GrantRevoke gorm_grants notify' aid' now' (ai_EventID inp) reason s1 = (Inr r, ann', s2) \<and>
    t_grants s2 = t_grants s @ [g\<lparr>gr_Status := GrantRevoked\<rparr>] \<and>
    activeGrant (ai_EventID inp) s2 = Some c \<and> grants_inv s2 \<and> limits_match s2"
proof -
  let ?i = "ai_EventID inp"
  note c = activeGrant_Some [OF cur]
  from run vk obtain v at e target where "pv_Code v = ai_TargetPlanCode inp"
    and ev: "lookup_row ev_ID ?i (t_events s) = Some e"
    and b: "build_grant reg gid inp (trim_space (ai_SourceRef inp)) v at
      \<lparr>ef_EventDate = ev_EventDate e\<rparr> (activeGrant ?i s) = Inr (g, target)"
    and w: "writeGrant aid g (activeGrant ?i s) target (ai_Reason inp) s = Inr s1"
    and lv: "lookup_row pv_ID (gr_PlanVersionID g) (t_plan_versions s) = Some v"
    by (rule GrantActivate_writes)
  note b = build_grant_Inr [OF b] and w = w [unfolded cur] and ws = writeGrant_Inr [OF w [unfolded cur]]
  have inv1: "grants_inv s1" using writeGrant_inv [OF inv w] lv by simp
  obtain d where d: "activeGrant ?i s1 = Some d" "ag_Grant d = g"
    using writeGrant_active [OF inv w lv b(5)] b(2) by auto
  from ws(2) b(2) ev obtain e1 where ev1: "lookup_row ev_ID ?i (t_events s1) = Some e1"
    by (auto simp: applyHotLimits_def lookup_row_update)
  from restore_head [OF inv cur ws(1,3) b(5) older] obtain u where
    head: "sort_key (\<lambda>a. (- gr_ActivatedAt (ag_Grant a), - gr_CreatedAt (ag_Grant a)))
     (List.map_filter (join_grant s1)
       (filter (\<lambda>g. gr_EventID g = ?i \<and> gr_Status g = GrantSuperseded) (t_grants s1))) =
     c\<lparr>ag_Grant := (ag_Grant c)\<lparr>gr_Status := GrantSuperseded\<rparr>\<rparr> # u" by blast
  obtain s2 r where rv: "revoke_tx aid' ?i (trim_space reason) now' s1 = Inr (r, s2)"
    and g2: "t_grants s2 = update_where
        (\<lambda>h. gr_ID h = gr_ID (ag_Grant (c\<lparr>ag_Grant := (ag_Grant c)\<lparr>gr_Status := GrantSuperseded\<rparr>\<rparr>)))
        (\<lambda>h. h\<lparr>gr_Status := GrantActive\<rparr>)
       (update_where (\<lambda>h. gr_ID h = gr_ID (ag_Grant d)) (\<lambda>h. h\<lparr>gr_Status := GrantRevoked\<rparr>)
         (t_grants s1))"
    and e2: "t_events s2 = t_events (applyHotLimits ?i (limits_of
        (ag_Grant (c\<lparr>ag_Grant := (ag_Grant c)\<lparr>gr_Status := GrantSuperseded\<rparr>\<rparr>))) s1)"
    and v2: "t_plan_versions s2 = t_plan_versions s1"
    by (rule revoke_tx_Inr [OF ev1 d(1) head])
  have gs: "t_grants s2 = t_grants s @ [g\<lparr>gr_Status := GrantRevoked\<rparr>]"
    using g2 ws(1) d(2) revoke_grants_table [OF inv cur ws(6)] by simp
  have inv2: "grants_inv s2"
    using grants_inv_append_inactive [OF inv _ gs inv1 ws(3,1)] v2 ws(3) by simp
  have act2: "activeGrant ?i s2 = Some c"
  proof -
    have "activeGrant ?i s2 = join_grant s2 (ag_Grant c)"
      using c gs by (intro activeGrant_intro [OF inv2]) simp_all
    with c(4) v2 ws(3) show ?thesis by (simp add: join_grant_def)
  qed
  have "limits_match s2"
    by (rule restored_limits [OF lim inv2 act2 gs _ _ c(1)])
       (use e2 ws(2) b(2) in \<open>simp_all add: limits_of_def\<close>)
  moreover obtain r1 r2 where "r = (r1, r2)" by (cases r)
  ultimately show ?thesis
    using rv gs act2 inv2 reason
    by (simp add: GrantRevoke_def gorm_grants_def db_Revoke_def)
qed
theorem revoke_undoes_activation_witness:
  "\<exists>r ann' s2. GrantRevoke gorm_grants True 73 200 7 ''mistake'' (snd (snd fx_run)) = (Inr r, ann', s2) \<and>
     activeGrant 7 s2 = Some \<lparr>ag_Grant = fx_free_grant, ag_PlanCode = PlanFree, ag_PlanName = PlanFree,
       ag_PlanVersion = 1\<rparr> \<and> limits_match s2"
proof -
  obtain g ann where run: "fx_run = (Inr g, ann, snd (snd fx_run))" by (rule fx_run_ok)
  have i: "ai_EventID fx_upgrade = 7" by (simp add: fx_upgrade_def)
  have cur: "activeGrant (ai_EventID fx_upgrade) fx_db = Some \<lparr>ag_Grant = fx_free_grant,
      ag_PlanCode = PlanFree, ag_PlanName = PlanFree, ag_PlanVersion = 1\<rparr>"
    unfolding i by code_simp
  have older: "\<forall>h \<in> set (t_grants fx_db). gr_EventID h = ai_EventID fx_upgrade \<and>
      gr_Status h = GrantSuperseded \<longrightarrow> gr_ActivatedAt h < gr_ActivatedAt (ag_Grant \<lparr>ag_Grant = fx_free_grant,
      ag_PlanCode = PlanFree, ag_PlanName = PlanFree, ag_PlanVersion = 1\<rparr>)"
    by (simp add: fx)
  have reason: "trim_space ''mistake'' \<noteq> ''''" by code_simp
  from revoke_undoes_activation [OF fx_grants_inv fx_limits_match fx_versions_keyed cur older run reason]
  show ?thesis unfolding i by blast
qed

end
