(* ===== verification/LicenseProps.thy ===== *)
theory LicenseProps
  imports License GrantProps
begin

text \<open>
  What a paid activation does to licenses, grants and the event, and the consequence of
  the unique index on \<open>consumed_event_id\<close>: an event accepts one purchased license in its
  life, so a paid upgrade is refused for good.
\<close>

section \<open>The license table\<close>

definition licenses_inv :: "db \<Rightarrow> bool" where
  "licenses_inv s \<longleftrightarrow> license_keys_ok (t_licenses s) \<and> list_all license_row_ok (t_licenses s)"

lemma find_update_where [tbl]:
  "(\<And>r. p r \<Longrightarrow> q (f r) = q r) \<Longrightarrow>
     find q (update_where p f t) = map_option (\<lambda>r. if p r then f r else r) (find q t)"
  by (induction t) auto

lemma write_licenses_Inr:
  "write_licenses t s = Inr s' \<longleftrightarrow>
     s' = s\<lparr>t_licenses := t\<rparr> \<and> license_keys_ok t \<and> list_all license_row_ok t"
  by (auto simp: write_licenses_def)

lemma write_licenses_inv: "write_licenses t s = Inr s' \<Longrightarrow> licenses_inv s'"
  by (simp add: write_licenses_Inr licenses_inv_def)

lemma consumed_unique:
  assumes "license_keys_ok t" "l \<in> set t" "m \<in> set t" "li_ConsumedEventID l = Some e"
    "li_ConsumedEventID m = Some e"
  shows "l = m"
proof -
  from assms(1) have "distinct (filter (\<lambda>e. e \<noteq> None) (map li_ConsumedEventID t))"
    by (simp add: license_keys_ok_def)
  with assms(2-5) show ?thesis
    by (induction t) (auto simp: rev_image_eqI split: if_splits)
qed

lemma issue_license_Inr:
  assumes "issue_license i at inp s = Inr s'" "licenses_inv s"
  shows "licenses_inv s'" "\<exists>u. t_licenses s' = t_licenses s @ u"
    "t_grants s' = t_grants s" "t_events s' = t_events s" "t_plan_versions s' = t_plan_versions s"
    "t_purchases s' = t_purchases s" "t_audits s' = t_audits s"
  using assms
  by (auto simp: issue_license_def write_licenses_Inr licenses_inv_def split: if_splits)

text \<open>The commit, table by table.\<close>

lemma license_commit_Inr:
  assumes "license_commit f ids at inp v l e current s = Inr s'"
  obtains s1 s2 where "reserve_license (li_ID l) (pi_EventID inp) at s = Inr s1"
    "writeGrant (fresh_audit ids) (license_grant f ids at inp v l e current) current (pv_Code v)
       ''paid event package purchase'' s1 = Inr s2"
    "t_grants s1 = t_grants s" "t_events s1 = t_events s" "t_plan_versions s1 = t_plan_versions s"
    "t_grants s' = t_grants s2" "t_plan_versions s' = t_plan_versions s"
    "t_events s' = t_events (end_trial (pi_EventID inp) at s2)"
    "t_licenses s' = update_where (\<lambda>m. li_ID m = li_ID l)
       (\<lambda>m. m\<lparr>li_Status := LicenseConsumed, li_ConsumedEventID := Some (pi_EventID inp),
             li_ConsumedAt := Some at, li_ReservedEventID := Some (pi_EventID inp),
             li_ReservedAt := Some at\<rparr>) (t_licenses s)"
    "licenses_inv s'"
proof -
  from assms obtain s1 s2 s3 where 1: "reserve_license (li_ID l) (pi_EventID inp) at s = Inr s1"
    and 2: "writeGrant (fresh_audit ids) (license_grant f ids at inp v l e current) current (pv_Code v)
       ''paid event package purchase'' s1 = Inr s2"
    and 3: "consume_license (li_ID l) (pi_EventID inp) at s2 = Inr s3"
    and 4: "s' = end_trial (pi_EventID inp) at s3"
    by (auto simp: license_commit_def split: sum.splits)
  note w = writeGrant_Inr [OF 2]
  let ?i = "li_ID l"
  have r: "s1 = s\<lparr>t_licenses := update_where (\<lambda>m. li_ID m = ?i)
      (\<lambda>m. m\<lparr>li_Status := LicenseReserved, li_ReservedEventID := Some (pi_EventID inp),
            li_ReservedAt := Some at\<rparr>) (t_licenses s)\<rparr>"
    using 1 by (simp add: reserve_license_def write_licenses_Inr)
  have c: "s3 = s2\<lparr>t_licenses := update_where (\<lambda>m. li_ID m = ?i \<and> li_Status m = LicenseReserved)
      (\<lambda>m. m\<lparr>li_Status := LicenseConsumed, li_ConsumedEventID := Some (pi_EventID inp),
            li_ConsumedAt := Some at\<rparr>) (t_licenses s2)\<rparr>"
    using 3 by (simp add: consume_license_def write_licenses_Inr)
  have inv: "licenses_inv s3"
    using 3 write_licenses_inv by (simp add: consume_license_def)
  have lic: "t_licenses s' = update_where (\<lambda>m. li_ID m = ?i)
       (\<lambda>m. m\<lparr>li_Status := LicenseConsumed, li_ConsumedEventID := Some (pi_EventID inp),
             li_ConsumedAt := Some at, li_ReservedEventID := Some (pi_EventID inp),
             li_ReservedAt := Some at\<rparr>) (t_licenses s)"
    using 4 c w(4) r by (simp add: end_trial_def update_where_def)
  show ?thesis
    using that [OF 1 2 _ _ _ _ _ _ lic] r c 4 w(3) inv
    by (simp add: end_trial_def licenses_inv_def)
qed
lemma license_grant_simps [simp]:
  "gr_ID (license_grant f ids at inp v l e current) = fresh_grant ids"
  "gr_EventID (license_grant f ids at inp v l e current) = pi_EventID inp"
  "gr_PlanVersionID (license_grant f ids at inp v l e current) = pv_ID v"
  "gr_EventLicenseID (license_grant f ids at inp v l e current) = Some (li_ID l)"
  "gr_Status (license_grant f ids at inp v l e current) = GrantActive"
  "gr_Source (license_grant f ids at inp v l e current) = SourcePurchase"
  "gr_SourceReference (license_grant f ids at inp v l e current) = Some (purchase_ref f (pi_PurchaseID inp))"
  "gr_EntitlementSnapshot (license_grant f ids at inp v l e current) = pv_Entitlements v"
  by (simp_all add: license_grant_def Let_def split: prod.splits option.splits)

lemma activeGrant_cong:
  "t_grants s = t_grants s' \<Longrightarrow> t_plan_versions s = t_plan_versions s' \<Longrightarrow> activeGrant i s = activeGrant i s'"
  by (simp add: activeGrant_def join_grant_def [abs_def])

lemma grants_inv_cong:
  "t_grants s = t_grants s' \<Longrightarrow> t_plan_versions s = t_plan_versions s' \<Longrightarrow> grants_inv s = grants_inv s'"
  by (simp add: grants_inv_def)

lemma limits_match_end_trial:
  assumes "limits_match s" "t_grants s' = t_grants s" "t_events s' = t_events (end_trial i at s)"
  shows "limits_match s'"
  unfolding limits_match_def
proof (intro ballI impI)
  fix e h assume e: "e \<in> set (t_events s')" and h: "h \<in> set (t_grants s')"
    and act: "gr_EventID h = ev_ID e \<and> gr_Status h = GrantActive"
  from e assms(3) have "e \<in> set (update_where (\<lambda>e. ev_ID e = i)
     (\<lambda>e. e\<lparr>ev_TrialEndedAt := Some (coalesce (ev_TrialEndedAt e) at)\<rparr>) (t_events s))"
    by (simp add: end_trial_def)
  then obtain x where x: "x \<in> set (t_events s)" "e = (if ev_ID x = i
      then x\<lparr>ev_TrialEndedAt := Some (coalesce (ev_TrialEndedAt x) at)\<rparr> else x)"
    by (rule in_update_whereE)
  from x(2) have "ev_ID e = ev_ID x" by simp
  with assms(1,2) x(1) h act have "event_has_limits x (limits_of h)"
    by (metis limits_match_def)
  with x(2) show "event_has_limits e (limits_of h)" by (simp add: event_has_limits_def)
qed

lemma end_trial_ended:
  "e \<in> set (t_events (end_trial i at s)) \<Longrightarrow> ev_ID e = i \<Longrightarrow> ev_TrialEndedAt e \<noteq> None"
  unfolding end_trial_def
  by (simp, elim in_update_whereE) (simp split: if_splits)

text \<open>A successful activation that announced a change, unfolded to its commit.\<close>

lemma ActivatePurchase_Inr:
  assumes "ActivatePurchase reg f ids now inp s = (Inr (ch # chs), s')" "licenses_inv s"
  obtains v l e at s1 where "lookup_row pv_ID (pi_PlanVersionID inp) (t_plan_versions s) = Some v"
    "find (\<lambda>l. li_PurchaseID l = Some (pi_PurchaseID inp)) (t_licenses s1) = Some l"
    "li_AccountID l = pi_AccountID inp" "ev_HostID e = pi_AccountID inp"
    "find (\<lambda>e. ev_ID e = pi_EventID inp \<and> ev_Status e \<noteq> EventDeleted) (t_events s) = Some e"
    "CheckTransition reg (map_option ag_PlanCode (activeGrant (pi_EventID inp) s)) (pv_Code v) = None"
    "license_commit f ids at inp v l e (activeGrant (pi_EventID inp) s) s1 = Inr s'"
    "t_grants s1 = t_grants s" "t_events s1 = t_events s" "t_plan_versions s1 = t_plan_versions s"
    "licenses_inv s1"
    "ch # chs = [\<lparr>ch_EventID = pi_EventID inp, ch_PlanCode = pv_Code v, ch_GrantID = fresh_grant ids\<rparr>]"
proof -
  let ?at = "if is_zero_time (pi_ActivatedAt inp) then now else pi_ActivatedAt inp"
  from assms(1) have "license_tx reg f ids ?at inp s = Inr (ch # chs, s')"
    by (simp add: ActivatePurchase_def Let_def transaction_Inr)
  then obtain v s1 l e where v: "lookup_row pv_ID (pi_PlanVersionID inp) (t_plan_versions s) = Some v"
    and i: "issue_license (fresh_license ids) ?at inp s = Inr s1"
    and l: "find (\<lambda>l. li_PurchaseID l = Some (pi_PurchaseID inp)) (t_licenses s1) = Some l"
    and c: "license_check inp l = GateOpen"
    and e: "find (\<lambda>e. ev_ID e = pi_EventID inp \<and> ev_Status e \<noteq> EventDeleted) (t_events s1) = Some e"
      "ev_HostID e = pi_AccountID inp"
    and t: "CheckTransition reg (map_option ag_PlanCode (activeGrant (pi_EventID inp) s1)) (pv_Code v) = None"
    and m: "license_commit f ids ?at inp v l e (activeGrant (pi_EventID inp) s1) s1 = Inr s'"
    and ch: "ch # chs = [\<lparr>ch_EventID = pi_EventID inp, ch_PlanCode = pv_Code v, ch_GrantID = fresh_grant ids\<rparr>]"
    by (auto simp: license_tx_def Let_def split: option.splits sum.splits license_gate.splits if_splits)
  note i = issue_license_Inr [OF i assms(2)]
  from c have a: "li_AccountID l = pi_AccountID inp"
    by (auto simp: license_check_def split: if_splits)
  from activeGrant_cong [OF i(3,5)] have ag: "activeGrant (pi_EventID inp) s1 = activeGrant (pi_EventID inp) s" .
  show ?thesis
    using that [OF v l a e(2) _ _ _ i(3,4,5,1) ch] e(1) i(4) t m ag by simp
qed
section \<open>Properties\<close>

lemma ActivatePurchase_error: "ActivatePurchase reg f ids now inp s = (Inl e, s') \<Longrightarrow> s' = s"
  by (simp add: ActivatePurchase_def Let_def transaction_Inl)

lemma lookup_update_pred:
  "find q t = Some l \<Longrightarrow> (\<And>r. li_ID r = i \<Longrightarrow> q (f r) = q r) \<Longrightarrow> li_ID l = i \<Longrightarrow>
     find q (update_where (\<lambda>m. li_ID m = i) f t) = Some (f l)"
  by (simp add: find_update_where)

text \<open>C3: a paid activation that is announced gives the event the purchased plan and consumes
exactly the license of that purchase for it; the plan moves up, the trial ends, and the grant,
license and limit invariants stay.\<close>

theorem paid_activation:
  assumes inv: "grants_inv s" and lim: "limits_match s" and lic: "licenses_inv s"
    and run: "ActivatePurchase reg f ids now inp s = (Inr (ch # chs), s')"
  shows "grants_inv s' \<and> limits_match s' \<and> licenses_inv s' \<and> chs = [] \<and>
    plan_of (pi_EventID inp) s' = Some (ch_PlanCode ch) \<and>
    (\<forall>c. activeGrant (pi_EventID inp) s = Some c \<longrightarrow> Rank reg (ag_PlanCode c) < Rank reg (ch_PlanCode ch)) \<and>
    (\<exists>l. find (\<lambda>l. li_PurchaseID l = Some (pi_PurchaseID inp)) (t_licenses s') = Some l \<and>
       li_Status l = LicenseConsumed \<and> li_ConsumedEventID l = Some (pi_EventID inp) \<and>
       li_AccountID l = pi_AccountID inp) \<and>
    (\<forall>e \<in> set (t_events s'). ev_ID e = pi_EventID inp \<longrightarrow> ev_TrialEndedAt e \<noteq> None)"
proof -
  let ?i = "pi_EventID inp" and ?cur = "activeGrant (pi_EventID inp) s"
  from run lic obtain v l e at s1 where v: "lookup_row pv_ID (pi_PlanVersionID inp) (t_plan_versions s) = Some v"
    and l: "find (\<lambda>l. li_PurchaseID l = Some (pi_PurchaseID inp)) (t_licenses s1) = Some l"
    and acc: "li_AccountID l = pi_AccountID inp" "ev_HostID e = pi_AccountID inp"
    and "find (\<lambda>e. ev_ID e = ?i \<and> ev_Status e \<noteq> EventDeleted) (t_events s) = Some e"
    and ct: "CheckTransition reg (map_option ag_PlanCode ?cur) (pv_Code v) = None"
    and m: "license_commit f ids at inp v l e ?cur s1 = Inr s'"
    and s1: "t_grants s1 = t_grants s" "t_events s1 = t_events s" "t_plan_versions s1 = t_plan_versions s"
      "licenses_inv s1"
    and ch: "ch # chs = [\<lparr>ch_EventID = ?i, ch_PlanCode = pv_Code v, ch_GrantID = fresh_grant ids\<rparr>]"
    by (rule ActivatePurchase_Inr)
  let ?g = "license_grant f ids at inp v l e ?cur"
  from m obtain s2 s3 where "reserve_license (li_ID l) ?i at s1 = Inr s2"
    and w: "writeGrant (fresh_audit ids) ?g ?cur (pv_Code v) ''paid event package purchase'' s2 = Inr s3"
    and s2: "t_grants s2 = t_grants s1" "t_events s2 = t_events s1" "t_plan_versions s2 = t_plan_versions s1"
    and g3: "t_grants s' = t_grants s3" and v3: "t_plan_versions s' = t_plan_versions s1"
    and e3: "t_events s' = t_events (end_trial ?i at s3)"
    and l3: "t_licenses s' = update_where (\<lambda>m. li_ID m = li_ID l)
       (\<lambda>m. m\<lparr>li_Status := LicenseConsumed, li_ConsumedEventID := Some ?i,
             li_ConsumedAt := Some at, li_ReservedEventID := Some ?i,
             li_ReservedAt := Some at\<rparr>) (t_licenses s1)"
    and i3: "licenses_inv s'"
    by (rule license_commit_Inr)
  have inv2: "grants_inv s2" and cur2: "activeGrant (gr_EventID ?g) s2 = ?cur"
    using inv s1 s2 grants_inv_cong [of s2 s] activeGrant_cong [of s2 s] by simp_all
  have lim2: "limits_match s2" using lim s1 s2 by (simp add: limits_match_def)
  have lv: "lookup_row pv_ID (gr_PlanVersionID ?g) (t_plan_versions s2) = Some v"
    using v s1 s2 lookup_row_Some [OF v] by simp
  from writeGrant_inv [OF inv2 w] lv have inv3: "grants_inv s3" by simp
  have v33: "t_plan_versions s' = t_plan_versions s3" using v3 s2(3) writeGrant_Inr(3) [OF w] by simp
  from inv3 grants_inv_cong [OF g3 v33] have "grants_inv s'" by simp
  moreover have "limits_match s'"
    using limits_match_end_trial [OF writeGrant_limits [OF inv2 lim2 cur2 w] g3 e3] .
  moreover have "plan_of ?i s' = Some (pv_Code v)"
    using writeGrant_active [OF inv2 w lv] activeGrant_cong [OF g3 v33] by (simp add: plan_of_def)
  moreover have "\<forall>e \<in> set (t_events s'). ev_ID e = ?i \<longrightarrow> ev_TrialEndedAt e \<noteq> None"
    using e3 end_trial_ended by simp
  ultimately show ?thesis
    using i3 l3 lookup_update_pred [OF l] acc(1) ch ct by (auto simp: CheckTransition_None)
qed

definition fx_purchase_input :: purchase_license_input where
  "fx_purchase_input = \<lparr>pi_PurchaseID = 60, pi_AccountID = 5, pi_EventID = 7, pi_PlanVersionID = 2,
     pi_PaymentProvider = ''paddle'', pi_ProviderTransactionID = ''txn_1'', pi_PurchaseAmountMinor = 4900,
     pi_PurchaseCurrency = ''USD'', pi_ActivatedAt = 50\<rparr>"

definition fx_ids :: license_ids where
  "fx_ids = \<lparr>fresh_license = 41, fresh_grant = 42, fresh_audit = 43\<rparr>"

abbreviation fx_uuid_string :: "uuid \<Rightarrow> string" where
  "fx_uuid_string i \<equiv> replicate i CHR ''x''"

abbreviation fx_paid :: "(error + plan_change list) \<times> db" where
  "fx_paid \<equiv> ActivatePurchase default_registry fx_uuid_string fx_ids 60 fx_purchase_input fx_db"

lemma fx_paid_ok: "fx_paid = (Inr [\<lparr>ch_EventID = 7, ch_PlanCode = PlanExperience, ch_GrantID = 42\<rparr>], snd fx_paid)"
proof -
  have "fst fx_paid = Inr [\<lparr>ch_EventID = 7, ch_PlanCode = PlanExperience, ch_GrantID = 42\<rparr>]"
    by code_simp
  then show ?thesis by (metis prod.collapse)
qed

lemma fx_licenses_inv: "licenses_inv fx_db"
  by (simp add: fx licenses_inv_def license_keys_ok_def)

theorem paid_activation_witness:
  "grants_inv (snd fx_paid) \<and> licenses_inv (snd fx_paid) \<and> plan_of 7 (snd fx_paid) = Some PlanExperience"
  using paid_activation [OF fx_grants_inv fx_limits_match fx_licenses_inv fx_paid_ok]
  by (simp add: fx_purchase_input_def)
lemma find_purchase_unique:
  assumes "license_keys_ok t" "l \<in> set t" "li_PurchaseID l = Some p"
  shows "find (\<lambda>l. li_PurchaseID l = Some p) t = Some l"
proof -
  from assms(1) have "distinct (filter (\<lambda>p. p \<noteq> None) (map li_PurchaseID t))"
    by (simp add: license_keys_ok_def)
  with assms(2,3) show ?thesis
    by (induction t) (auto simp: rev_image_eqI split: if_splits)
qed

text \<open>A delivery for a license its own event consumed is a success that changes nothing.\<close>

lemma ActivatePurchase_done:
  assumes "licenses_inv s" "find (\<lambda>l. li_PurchaseID l = Some (pi_PurchaseID inp)) (t_licenses s) = Some l"
    and "li_Status l = LicenseConsumed" "li_ConsumedEventID l = Some (pi_EventID inp)"
    and "li_AccountID l = pi_AccountID inp" "li_PlanVersionID l = pi_PlanVersionID inp"
    and "lookup_row pv_ID (pi_PlanVersionID inp) (t_plan_versions s) = Some v"
  shows "ActivatePurchase reg f ids now inp s = (Inr [], s)"
proof -
  from assms(2) have "\<exists>l \<in> set (t_licenses s). li_PurchaseID l = Some (pi_PurchaseID inp)"
    by (auto simp: find_Some_iff)
  then have "issue_license i at inp s = Inr s" for i at by (simp add: issue_license_def)
  with assms(2-) show ?thesis
    by (simp add: ActivatePurchase_def Let_def license_tx_def license_check_def transaction_def)
qed

lemma license_check_version:
  "license_check inp l = GateOpen \<Longrightarrow> li_PlanVersionID l = pi_PlanVersionID inp"
  by (auto simp: license_check_def split: if_splits)

lemma ActivatePurchase_gate:
  assumes "ActivatePurchase reg f ids now inp s = (Inr anns, s')"
  obtains v l e at s1 where "lookup_row pv_ID (pi_PlanVersionID inp) (t_plan_versions s) = Some v"
    "issue_license (fresh_license ids) at inp s = Inr s1"
    "find (\<lambda>l. li_PurchaseID l = Some (pi_PurchaseID inp)) (t_licenses s1) = Some l"
    "license_check inp l = GateDone \<and> anns = [] \<and> s' = s1 \<or>
     license_check inp l = GateOpen \<and> anns \<noteq> [] \<and>
       license_commit f ids at inp v l e (activeGrant (pi_EventID inp) s1) s1 = Inr s'"
proof -
  let ?at = "if is_zero_time (pi_ActivatedAt inp) then now else pi_ActivatedAt inp"
  from assms have "license_tx reg f ids ?at inp s = Inr (anns, s')"
    by (simp add: ActivatePurchase_def Let_def transaction_Inr)
  with that [of _ ?at] show ?thesis
    by (fastforce simp: license_tx_def Let_def
        split: option.splits sum.splits license_gate.splits if_splits)
qed

lemma ActivatePurchase_effect:
  assumes "licenses_inv s" "ActivatePurchase reg f ids now inp s = (Inr (ch # chs), s')"
  shows "\<exists>l v. find (\<lambda>l. li_PurchaseID l = Some (pi_PurchaseID inp)) (t_licenses s') = Some l \<and>
    li_Status l = LicenseConsumed \<and> li_ConsumedEventID l = Some (pi_EventID inp) \<and>
    li_AccountID l = pi_AccountID inp \<and> li_PlanVersionID l = pi_PlanVersionID inp \<and>
    lookup_row pv_ID (pi_PlanVersionID inp) (t_plan_versions s') = Some v \<and> licenses_inv s'"
proof -
  from assms(2) obtain v l e at s1 where v: "lookup_row pv_ID (pi_PlanVersionID inp) (t_plan_versions s) = Some v"
    and i: "issue_license (fresh_license ids) at inp s = Inr s1"
    and l: "find (\<lambda>l. li_PurchaseID l = Some (pi_PurchaseID inp)) (t_licenses s1) = Some l"
    and c: "license_check inp l = GateOpen"
    and m: "license_commit f ids at inp v l e (activeGrant (pi_EventID inp) s1) s1 = Inr s'"
    by (rule ActivatePurchase_gate) auto
  from c have "li_AccountID l = pi_AccountID inp" by (auto simp: license_check_def split: if_splits)
  moreover from m obtain s2 where "t_plan_versions s' = t_plan_versions s1"
    "t_licenses s' = update_where (\<lambda>m. li_ID m = li_ID l)
       (\<lambda>m. m\<lparr>li_Status := LicenseConsumed, li_ConsumedEventID := Some (pi_EventID inp),
             li_ConsumedAt := Some at, li_ReservedEventID := Some (pi_EventID inp),
             li_ReservedAt := Some at\<rparr>) (t_licenses s1)" "licenses_inv s'"
    by (elim license_commit_Inr) blast
  ultimately show ?thesis
    using v issue_license_Inr(5) [OF i assms(1)] lookup_update_pred [OF l] license_check_version [OF c]
    by auto
qed

text \<open>A paid activation is exactly-once. Repeating the call after it succeeded, with other
fresh ids at another time, succeeds again, announces nothing and changes nothing.\<close>

theorem paid_activation_once:
  assumes "licenses_inv s"
    and "ActivatePurchase reg f ids now inp s = (Inr (ch # chs), s')"
  shows "ActivatePurchase reg' f' ids' now' inp s' = (Inr [], s')"
  using ActivatePurchase_effect [OF assms] ActivatePurchase_done [of s' inp] by blast

theorem paid_activation_once_witness:
  "ActivatePurchase default_registry fx_uuid_string
     \<lparr>fresh_license = 51, fresh_grant = 52, fresh_audit = 53\<rparr> 99 fx_purchase_input (snd fx_paid) =
   (Inr [], snd fx_paid)"
  by (rule paid_activation_once [OF fx_licenses_inv fx_paid_ok])

text \<open>The license of the purchase, consumed by its event, is the only one the event consumed.\<close>

lemma commit_consumes:
  assumes "license_commit f ids at inp v m e current s = Inr s'" "m \<in> set (t_licenses s)"
    and "l \<in> set (t_licenses s)" "li_ConsumedEventID l = Some (pi_EventID inp)" "licenses_inv s"
  shows "l = m"
proof (rule ccontr)
  assume "l \<noteq> m"
  with assms(2,3,5) have id: "li_ID l \<noteq> li_ID m"
    by (auto simp: licenses_inv_def license_keys_ok_def distinct_map inj_on_def)
  from assms(1) obtain t where t: "t_licenses s' = update_where (\<lambda>x. li_ID x = li_ID m)
       (\<lambda>m. m\<lparr>li_Status := LicenseConsumed, li_ConsumedEventID := Some (pi_EventID inp),
             li_ConsumedAt := Some at, li_ReservedEventID := Some (pi_EventID inp),
             li_ReservedAt := Some at\<rparr>) (t_licenses s)" and inv: "licenses_inv s'"
    by (rule license_commit_Inr)
  let ?m = "m\<lparr>li_Status := LicenseConsumed, li_ConsumedEventID := Some (pi_EventID inp),
             li_ConsumedAt := Some at, li_ReservedEventID := Some (pi_EventID inp),
             li_ReservedAt := Some at\<rparr>"
  from t assms(2,3) id have "l \<in> set (t_licenses s')" "?m \<in> set (t_licenses s')"
    by (force simp: set_update_where)+
  from consumed_unique [OF _ this assms(4)] inv have "l = ?m" by (simp add: licenses_inv_def)
  with id show False by (metis (no_types, lifting) event_license.select_convs(1)
      event_license.surjective event_license.update_convs(4,11,12,14,15))
qed

lemma license_slot_taken:
  assumes inv: "licenses_inv s"
    and l: "l \<in> set (t_licenses s)" "li_ConsumedEventID l = Some (pi_EventID inp)"
      "li_PurchaseID l \<noteq> Some (pi_PurchaseID inp)"
  shows "\<exists>e. ActivatePurchase reg f ids now inp s = (Inl e, s)"
proof -
  obtain r s' where run: "ActivatePurchase reg f ids now inp s = (r, s')"
    by (cases "ActivatePurchase reg f ids now inp s") auto
  show ?thesis
  proof (cases r)
    case (Inl e)
    with run ActivatePurchase_error show ?thesis by blast
  next
    case (Inr anns)
    from run [unfolded Inr] obtain v m e at s1 where
        i: "issue_license (fresh_license ids) at inp s = Inr s1"
      and m: "find (\<lambda>l. li_PurchaseID l = Some (pi_PurchaseID inp)) (t_licenses s1) = Some m"
      and or: "license_check inp m = GateDone \<or>
        license_commit f ids at inp v m e (activeGrant (pi_EventID inp) s1) s1 = Inr s'"
      by (rule ActivatePurchase_gate) blast
    note i = issue_license_Inr(1,2) [OF i inv]
    from i(2) l(1) have ls: "l \<in> set (t_licenses s1)" by auto
    from m have ms: "m \<in> set (t_licenses s1)" "li_PurchaseID m = Some (pi_PurchaseID inp)"
      by (auto simp: find_Some_iff)
    from or have "l = m"
    proof
      assume "license_check inp m = GateDone"
      then have "li_ConsumedEventID m = Some (pi_EventID inp)"
        by (auto simp: license_check_def split: if_splits)
      with consumed_unique [OF _ ls ms(1) l(2)] i(1) show ?thesis by (simp add: licenses_inv_def)
    qed (rule commit_consumes [OF _ ms(1) ls l(2) i(1)])
    with ms(2) l(3) show ?thesis by simp
  qed
qed

text \<open>C1: an event accepts one purchased license in its life. Once a license of another purchase
was consumed by it, every activation of a further purchase for that event fails and rolls back,
because consuming the second license violates the unique index on \<open>consumed_event_id\<close>: a paid
upgrade is settled but never granted.\<close>

theorem paid_upgrade_refused:
  assumes inv: "licenses_inv s"
    and l: "l \<in> set (t_licenses s)" "li_ConsumedEventID l = Some (pi_EventID inp)"
      "li_PurchaseID l \<noteq> Some (pi_PurchaseID inp)"
  shows "\<exists>e. ActivatePurchase reg f ids now inp s = (Inl e, s)"
  by (rule license_slot_taken [OF assms])

definition fx_upgrade_input :: purchase_license_input where
  "fx_upgrade_input = fx_purchase_input\<lparr>pi_PurchaseID := 61, pi_PlanVersionID := 3,
     pi_ProviderTransactionID := ''txn_2'', pi_ActivatedAt := 80\<rparr>"

theorem paid_upgrade_refused_witness:
  "\<exists>e. ActivatePurchase default_registry fx_uuid_string
     \<lparr>fresh_license = 51, fresh_grant = 52, fresh_audit = 53\<rparr> 99 fx_upgrade_input (snd fx_paid) =
   (Inl e, snd fx_paid)"
proof -
  from ActivatePurchase_effect [OF fx_licenses_inv fx_paid_ok] obtain l where
      f: "find (\<lambda>l. li_PurchaseID l = Some (pi_PurchaseID fx_purchase_input)) (t_licenses (snd fx_paid)) = Some l"
    and c: "li_ConsumedEventID l = Some (pi_EventID fx_purchase_input)" and i: "licenses_inv (snd fx_paid)"
    by blast
  from f have "l \<in> set (t_licenses (snd fx_paid))"
    "li_PurchaseID l \<noteq> Some (pi_PurchaseID fx_upgrade_input)"
    by (auto simp: find_Some_iff fx_upgrade_input_def fx_purchase_input_def)
  with c i show ?thesis
    by (intro paid_upgrade_refused [of _ l]) (simp_all add: fx_upgrade_input_def)
qed

lemma RevokeUnconsumed_run:
  assumes "licenses_inv s"
  shows "RevokeUnconsumed now p s =
    (Inr (\<exists>l \<in> set (t_licenses s). li_PurchaseID l = Some p \<and> li_Status l \<in> {LicenseAvailable, LicenseReserved}),
     s\<lparr>t_licenses := update_where
       (\<lambda>l. li_PurchaseID l = Some p \<and> li_Status l \<in> {LicenseAvailable, LicenseReserved})
       (\<lambda>l. l\<lparr>li_Status := LicenseRevoked, li_RevokedAt := Some now\<rparr>) (t_licenses s)\<rparr>)"
proof -
  let ?p = "\<lambda>l. li_PurchaseID l = Some p \<and> li_Status l \<in> {LicenseAvailable, LicenseReserved}"
  let ?t = "update_where ?p (\<lambda>l. l\<lparr>li_Status := LicenseRevoked, li_RevokedAt := Some now\<rparr>) (t_licenses s)"
  have "license_keys_ok ?t"
    using assms by (simp add: licenses_inv_def license_keys_ok_def map_update_where_same)
  moreover have "list_all license_row_ok ?t"
    using assms by (auto simp: licenses_inv_def list_all_iff license_row_ok_def elim!: in_update_whereE)
  ultimately show ?thesis
    by (simp add: RevokeUnconsumed_def Let_def write_licenses_def count_where_pos_iff)
qed

text \<open>Withdrawing a license never takes a plan away. It succeeds, leaves grants, events and
every consumed license alone, and when it reports a withdrawal no later call can activate that
purchase.\<close>

theorem revoke_unconsumed_safe:
  assumes inv: "licenses_inv s" and run: "RevokeUnconsumed now p s = (r, s')"
  shows "t_grants s' = t_grants s \<and> t_events s' = t_events s \<and> licenses_inv s' \<and>
    (\<forall>l. li_Status l = LicenseConsumed \<longrightarrow> (l \<in> set (t_licenses s') \<longleftrightarrow> l \<in> set (t_licenses s))) \<and>
    (r = Inr True \<longrightarrow> (\<forall>reg f ids now' inp. pi_PurchaseID inp = p \<longrightarrow>
       (\<exists>e. ActivatePurchase reg f ids now' inp s' = (Inl e, s'))))"
proof -
  let ?p = "\<lambda>l. li_PurchaseID l = Some p \<and> li_Status l \<in> {LicenseAvailable, LicenseReserved}"
  let ?f = "\<lambda>l. l\<lparr>li_Status := LicenseRevoked, li_RevokedAt := Some now\<rparr>"
  note rr = RevokeUnconsumed_run [OF inv, of now p]
  from run rr have s': "s' = s\<lparr>t_licenses := update_where ?p ?f (t_licenses s)\<rparr>"
    and r: "r = Inr (\<exists>l \<in> set (t_licenses s). ?p l)" by simp_all
  have keys: "licenses_inv s'"
    using inv s' by (auto simp: licenses_inv_def license_keys_ok_def map_update_where_same
        list_all_iff license_row_ok_def elim!: in_update_whereE)
  have con: "l \<in> set (t_licenses s') \<longleftrightarrow> l \<in> set (t_licenses s)" if "li_Status l = LicenseConsumed" for l
    using that s' by (force simp: set_update_where)
  have "\<exists>e. ActivatePurchase reg f ids now' inp s' = (Inl e, s')"
    if rt: "r = Inr True" and ip: "pi_PurchaseID inp = p" for reg f ids now' inp
  proof -
    from rt r obtain l where l: "l \<in> set (t_licenses s)" "?p l" by auto
    then have m: "?f l \<in> set (t_licenses s')" using s' by (force simp: set_update_where)
    have fm: "find (\<lambda>l. li_PurchaseID l = Some p) (t_licenses s') = Some (?f l)"
      using keys m l(2) by (intro find_purchase_unique) (simp_all add: licenses_inv_def)
    obtain r2 s2 where run2: "ActivatePurchase reg f ids now' inp s' = (r2, s2)"
      by (cases "ActivatePurchase reg f ids now' inp s'") auto
    show ?thesis
    proof (cases r2)
      case (Inl e)
      with run2 ActivatePurchase_error show ?thesis by blast
    next
      case (Inr anns)
      from run2 [unfolded Inr] obtain v x e at s1 where
          i: "issue_license (fresh_license ids) at inp s' = Inr s1"
        and x: "find (\<lambda>l. li_PurchaseID l = Some (pi_PurchaseID inp)) (t_licenses s1) = Some x"
        and g: "license_check inp x = GateDone \<or> license_check inp x = GateOpen"
        by (rule ActivatePurchase_gate) blast
      from i m l(2) ip have "s1 = s'" by (auto simp: issue_license_def split: if_splits)
      with x fm ip have "x = ?f l" by simp
      with g show ?thesis by (auto simp: license_check_def split: if_splits)
    qed
  qed
  with s' keys con show ?thesis by simp
qed

theorem revoke_unconsumed_safe_witness:
  "\<exists>r s'. RevokeUnconsumed 77 60 (snd fx_paid) = (r, s') \<and> t_grants s' = t_grants (snd fx_paid) \<and>
     t_events s' = t_events (snd fx_paid)"
proof -
  have i: "licenses_inv (snd fx_paid)" using ActivatePurchase_effect [OF fx_licenses_inv fx_paid_ok] by blast
  obtain r s' where run: "RevokeUnconsumed 77 60 (snd fx_paid) = (r, s')"
    by (cases "RevokeUnconsumed 77 60 (snd fx_paid)") auto
  with revoke_unconsumed_safe [OF i run] show ?thesis by blast
qed

end
