(* ===== verification/BillingFixtures.thy ===== *)
theory BillingFixtures
  imports Wiring LicenseProps
begin

text \<open>
  A concrete shop for the witnesses: two priced tiers, products for both, and a provider
  that decodes a few message names.
\<close>

definition fx_price :: "uuid \<Rightarrow> uuid \<Rightarrow> int \<Rightarrow> int \<Rightarrow> price" where
  "fx_price i v amount returning = \<lparr>pp_ID = i, pp_PlanVersionID = v, pp_Currency = ''USD'',
     pp_AmountMinor = amount, pp_CompareAtMinor = None, pp_ReturningAmountMinor = Some returning,
     pp_ValidFrom = 0, pp_ValidUntil = None, pp_CreatedAt = 0\<rparr>"

definition fx_product :: "uuid \<Rightarrow> plan_code \<Rightarrow> string \<Rightarrow> provider_product" where
  "fx_product i code p = \<lparr>px_ID = i, px_Provider = ''paddle'', px_PlanCode = code,
     px_ProviderProductID = p, px_Active = True, px_CreatedAt = 0, px_RetiredAt = None\<rparr>"

definition fx_shop :: db where
  "fx_shop = fx_db\<lparr>t_plan_prices := [fx_price 21 2 4900 3900, fx_price 31 3 9900 7900],
     t_provider_products := [fx_product 22 PlanExperience ''pro_e'', fx_product 32 PlanSignature ''pro_s'']\<rparr>"

definition fx_money :: "int \<Rightarrow> money" where
  "fx_money a = \<lparr>mn_AmountMinor = a, mn_Currency = ''USD''\<rparr>"

definition fx_notice :: "string \<Rightarrow> provider_event_type \<Rightarrow> uuid \<Rightarrow> string \<Rightarrow> int \<Rightarrow> int \<Rightarrow> provider_event" where
  "fx_notice i ty p txn amount adj = \<lparr>xe_ExternalEventID = i, xe_DedupeKey = '''', xe_Type = ty,
     xe_ExternalTransactionID = txn, xe_PurchaseID = p, xe_PriceID = ''pri_1'',
     xe_Subtotal = fx_money amount, xe_Tax = fx_money 0, xe_Total = fx_money amount,
     xe_Adjustment = fx_money adj, xe_OccurredAt = 50\<rparr>"

definition fx_decoder :: "string \<Rightarrow> string \<Rightarrow> error + provider_event" where
  "fx_decoder raw signature =
     (if signature \<noteq> ''sig'' then Inl (Fmt ''signature'')
      else if raw = ''paid'' then Inr (fx_notice ''e1'' EventPaymentSettled 60 ''txn_1'' 4900 0)
      else if raw = ''cheap'' then Inr (fx_notice ''e2'' EventPaymentSettled 60 ''txn_1'' 100 0)
      else if raw = ''refund'' then Inr (fx_notice ''e3'' EventPaymentRefunded 0 ''txn_1'' 0 2000)
      else if raw = ''failed'' then Inr (fx_notice ''e4'' EventPaymentFailed 60 ''txn_1'' 0 0)
      else if raw = ''paid2'' then Inr (fx_notice ''e5'' EventPaymentSettled 61 ''txn_2'' 5000 0)
      else if raw = ''dispute'' then Inr (fx_notice ''e6'' EventPaymentDisputed 0 ''txn_1'' 0 4900)
      else Inl (Fmt ''malformed''))"

definition fx_event_id :: "provider \<Rightarrow> string \<Rightarrow> uuid" where
  "fx_event_id prov key = of_char (last key)"

definition fx_checkout :: "string \<Rightarrow> checkout_input \<Rightarrow> db \<Rightarrow> (error + checkout_target) \<times> db" where
  "fx_checkout txn inp s = (Inr \<lparr>ct_ExternalCheckoutID = txn, ct_ProviderPriceID = ''pri_1'', ct_URL = ''''\<rparr>, s)"

definition fx_env :: "nat \<Rightarrow> app_env" where
  "fx_env n = \<lparr>en_registry = default_registry, en_uuid_string = fx_uuid_string,
     en_ids = \<lparr>fresh_license = 41 + 10 * n, fresh_grant = 42 + 10 * n, fresh_audit = 43 + 10 * n\<rparr>,
     en_now = 60 + int n, en_fresh = 60 + n, en_email = (\<lambda>i. ''host@example.org''), en_provider = ''paddle'',
     en_currency = ''USD'', en_enabled = True, en_successURL = '''', en_cancelURL = '''',
     en_checkout = fx_checkout (if n = 0 then ''txn_1'' else ''txn_2''), en_decoder = fx_decoder,
     en_event_id = fx_event_id, en_hash = (\<lambda>b. b)\<rparr>"

abbreviation fx_bill :: "nat \<Rightarrow> db billing_service" where
  "fx_bill n \<equiv> app_billing (fx_env n)"

definition fx_order :: "plan_code \<Rightarrow> string \<Rightarrow> create_command" where
  "fx_order code key = \<lparr>cc_EventID = 7, cc_HostID = 5, cc_PlanCode = code, cc_Currency = ''USD'',
     cc_IdempotencyKey = key\<rparr>"

text \<open>The states of one shopping trip: ordered, paid, upgrade ordered.\<close>

definition fx_ordered :: db where
  "fx_ordered = snd (CreateCheckout (fx_bill 0) (fx_order PlanExperience ''k1'') fx_shop)"

definition fx_settled :: db where
  "fx_settled = snd (HandleProviderEvent (fx_bill 0) ''paid'' ''sig'' fx_ordered)"

definition fx_ordered2 :: db where
  "fx_ordered2 = snd (CreateCheckout (fx_bill 1) (fx_order PlanSignature ''k2'') fx_settled)"

lemma fx_order_runs: "\<not> isl (fst (CreateCheckout (fx_bill 0) (fx_order PlanExperience ''k1'') fx_shop))"
  by code_simp

lemma fx_paid_runs: "fst (HandleProviderEvent (fx_bill 0) ''paid'' ''sig'' fx_ordered) = None"
  by code_simp

lemma fx_order2_runs: "\<not> isl (fst (CreateCheckout (fx_bill 1) (fx_order PlanSignature ''k2'') fx_settled))"
  by code_simp

end
