(* ===== verification/QuoteProps.thy ===== *)
theory QuoteProps
  imports BillingFixtures
begin

text \<open>
  What a quote promises: the arithmetic the purchases table checks, the upgrade credit,
  and that a coupon never changes the tier's value.
\<close>

section \<open>Prices\<close>

definition money_ok :: "int \<Rightarrow> bool" where
  "money_ok a \<longleftrightarrow> 0 \<le> a \<and> a < 2 ^ 63"

definition prices_ok :: "db \<Rightarrow> bool" where
  "prices_ok s \<longleftrightarrow> (\<forall>p \<in> set (t_plan_prices s). money_ok (pp_AmountMinor p) \<and>
     (case pp_ReturningAmountMinor p of None \<Rightarrow> True | Some r \<Rightarrow> money_ok r))"

definition purchases_inv :: "db \<Rightarrow> bool" where
  "purchases_inv s \<longleftrightarrow> purchase_keys_ok (t_purchases s) \<and> list_all purchase_row_ok (t_purchases s)"

definition catalog_price_ok :: "catalog_price \<Rightarrow> bool" where
  "catalog_price_ok p \<longleftrightarrow> money_ok (cp_AmountMinor p) \<and>
     (case cp_ReturningAmountMinor p of None \<Rightarrow> True | Some r \<Rightarrow> money_ok r)"

lemma tierValue_ok: "catalog_price_ok p \<Longrightarrow> money_ok (tierValue ctx p)"
  by (auto simp: catalog_price_ok_def tierValue_def split: option.splits)

lemma adapter_price_ok:
  "prices_ok s \<Longrightarrow> adapter_CurrentPrice now vid cur s = Inr p \<Longrightarrow> catalog_price_ok p"
  using first_by_Some [of pp_ID "price_valid_at vid cur now" "t_plan_prices s"]
  by (fastforce simp: adapter_CurrentPrice_def prices_ok_def catalog_price_ok_def split: option.splits)

lemma adapter_price_currency:
  "adapter_CurrentPrice now vid cur s = Inr p \<Longrightarrow> cp_Currency p = cur"
  using first_by_Some [of pp_ID "price_valid_at vid cur now" "t_plan_prices s"]
  by (fastforce simp: adapter_CurrentPrice_def price_valid_at_def split: option.splits)

section \<open>The arithmetic of a quote\<close>

definition quote_sound :: "quote \<Rightarrow> bool" where
  "quote_sound q \<longleftrightarrow>
     q_FinalAmountMinor q = q_BaseAmountMinor q - q_DiscountAmountMinor q \<and>
     0 \<le> q_UpgradeCreditMinor q \<and> q_UpgradeCreditMinor q \<le> q_DiscountAmountMinor q \<and>
     q_DiscountAmountMinor q \<le> q_BaseAmountMinor q \<and> money_ok (q_BaseAmountMinor q)"

lemma quoteNewPurchase_sound:
  assumes "quoteNewPurchase S hostID eventID price q s = Inr q'" "catalog_price_ok price"
    "q_UpgradeCreditMinor q = 0" "q_DiscountAmountMinor q = 0"
  shows "quote_sound q' \<and> q_UpgradeCreditMinor q' = 0 \<and> q_Currency q' = q_Currency q \<and>
    q_PlanCode q' = q_PlanCode q \<and> q_PlanVersionID q' = q_PlanVersionID q"
  using assms tierValue_ok [OF assms(2)]
  by (auto simp: quoteNewPurchase_def quote_sound_def money_ok_def Let_def split: sum.splits if_splits)

lemma quoteUpgrade_sound:
  assumes "quoteUpgrade S hostID eventID current currency price q s = Inr q'" "catalog_price_ok price"
    and "\<And>ctx c. upgrade_terms S hostID eventID current currency s = Inr (ctx, c) \<Longrightarrow> 0 \<le> c"
  shows "quote_sound q' \<and> q_Currency q' = q_Currency q \<and>
    q_PlanCode q' = q_PlanCode q \<and> q_PlanVersionID q' = q_PlanVersionID q"
proof -
  from assms(1) obtain ctx c where t: "upgrade_terms S hostID eventID current currency s = Inr (ctx, c)"
    by (auto simp: quoteUpgrade_def split: sum.splits)
  from assms(3) [OF t] have "0 \<le> c" .
  with t assms(1) tierValue_ok [OF assms(2), of ctx] show ?thesis
    by (auto simp: quoteUpgrade_def quote_sound_def money_ok_def Let_def i64_small split: sum.splits)
qed

lemma app_terms_nonneg:
  assumes "upgrade_terms (app_billing E) hostID eventID current currency s = Inr (ctx, c)"
    "purchases_inv s" "prices_ok s"
  shows "0 \<le> c"
proof (cases "db_LatestEventPurchase eventID s")
  case (Inr r)
  show ?thesis
  proof (cases r)
    case (Some p)
    with Inr have "p \<in> set (t_purchases s)"
      by (auto simp: db_LatestEventPurchase_def dest: first_by_Some)
    with assms(2) have "0 \<le> pu_BaseAmountMinor p"
      by (auto simp: purchases_inv_def list_all_iff purchase_row_ok_def)
    with assms(1) Inr Some show ?thesis
      by (auto simp: upgrade_terms_def app_billing_def gorm_purchases_def)
  next
    case None
    with assms(1) Inr obtain held where "tierPrice (app_billing E) current currency s = Inr held"
      and c: "c = tierValue ctx held"
      by (auto simp: upgrade_terms_def app_billing_def gorm_purchases_def Let_def split: sum.splits)
    then obtain vid where "adapter_CurrentPrice (en_now E) vid currency s = Inr held"
      by (auto simp: tierPrice_def app_billing_def split: sum.splits)
    from tierValue_ok [OF adapter_price_ok [OF assms(3) this]] c show ?thesis
      by (simp add: money_ok_def)
  qed
qed (use assms(1) in \<open>simp add: upgrade_terms_def app_billing_def gorm_purchases_def\<close>)

text \<open>A successful quote, down to the price it is computed from.\<close>

lemma QuoteEventPurchase_Inr:
  assumes "QuoteEventPurchase S eventID hostID target currency s = Inr q"
  obtains current v price q0 where "currency = bs_currency S" "Sellable (bs_registry S) target"
    "bs_OwnerOf S eventID hostID s = None" "bs_Resolve S eventID s = Inr current"
    "CheckTransition (bs_registry S) (Some (ee_PlanCode current)) target = None"
    "bs_ActiveVersion S target s = Inr v" "bs_CurrentPrice S (cv_ID v) currency s = Inr price"
    "q_UpgradeCreditMinor q0 = 0" "q_DiscountAmountMinor q0 = 0" "q_Currency q0 = cp_Currency price"
    "q_PlanCode q0 = target" "q_PlanVersionID q0 = cv_ID v"
    "\<not> Sellable (bs_registry S) (ee_PlanCode current) \<and>
       quoteNewPurchase S hostID eventID price q0 s = Inr q \<or>
     Sellable (bs_registry S) (ee_PlanCode current) \<and>
       quoteUpgrade S hostID eventID (ee_PlanCode current) currency price q0 s = Inr q"
proof -
  from assms obtain current v price where *: "currency = bs_currency S" "Sellable (bs_registry S) target"
    "bs_OwnerOf S eventID hostID s = None" "bs_Resolve S eventID s = Inr current"
    "CheckTransition (bs_registry S) (Some (ee_PlanCode current)) target = None"
    "bs_ActiveVersion S target s = Inr v" "bs_CurrentPrice S (cv_ID v) currency s = Inr price"
    by (auto simp: QuoteEventPurchase_def split: if_splits sum.splits)
  with assms show ?thesis
    by (intro that [OF *, of "\<lparr>q_EventID = eventID, q_PlanVersionID = cv_ID v,
          q_CurrentPlanCode = ee_PlanCode current, q_PlanCode = target, q_BaseAmountMinor = 0,
          q_UpgradeCreditMinor = 0, q_DiscountAmountMinor = 0, q_FinalAmountMinor = 0,
          q_Currency = cp_Currency price, q_Context = ContextFirst, q_Reason = PricingFirstPurchase,
          q_PricingVersion = consumerPricingVersion\<rparr>"])
      (auto simp: QuoteEventPurchase_def Let_def split: if_splits)
qed
lemma sdiv_nonneg [go_arith]:
  fixes a b :: int
  assumes "0 \<le> a" "0 < b"
  shows "a sdiv b = a div b"
  using assms by (cases "a = 0") (simp_all add: signed_divide_int_def)

lemma new_purchase_row_ok: "quote_sound q \<Longrightarrow> purchase_row_ok (new_purchase S inp q ex)"
  by (auto simp: quote_sound_def money_ok_def purchase_row_ok_def new_purchase_def)

section \<open>Properties\<close>

text \<open>Every quote the service gives satisfies final = base - discount with
0 <= upgrade credit <= discount <= base, is in the deployment's currency, and is for a sellable
tier strictly above the plan of an event the host owns.\<close>

theorem quote_arithmetic:
  assumes inv: "purchases_inv s" and prices: "prices_ok s"
    and q: "QuoteEventPurchase (app_billing E) eventID hostID target currency s = Inr q"
  shows "quote_sound q \<and> q_Currency q = en_currency E \<and> q_PlanCode q = target \<and>
    Sellable (en_registry E) target \<and> (\<exists>e. db_GetOwned eventID hostID s = Inr e) \<and>
    (\<exists>c. activeGrant eventID s = Some c \<and>
       Rank (en_registry E) (ag_PlanCode c) < Rank (en_registry E) target)"
proof -
  from q obtain current v price q0 where cur: "currency = bs_currency (app_billing E)"
    and sell: "Sellable (bs_registry (app_billing E)) target"
    and own: "bs_OwnerOf (app_billing E) eventID hostID s = None"
    and res: "bs_Resolve (app_billing E) eventID s = Inr current"
    and tr: "CheckTransition (bs_registry (app_billing E)) (Some (ee_PlanCode current)) target = None"
    and "bs_ActiveVersion (app_billing E) target s = Inr v"
    and pr: "bs_CurrentPrice (app_billing E) (cv_ID v) currency s = Inr price"
    and q0: "q_UpgradeCreditMinor q0 = 0" "q_DiscountAmountMinor q0 = 0"
      "q_Currency q0 = cp_Currency price" "q_PlanCode q0 = target" "q_PlanVersionID q0 = cv_ID v"
    and alt: "\<not> Sellable (bs_registry (app_billing E)) (ee_PlanCode current) \<and>
       quoteNewPurchase (app_billing E) hostID eventID price q0 s = Inr q \<or>
     Sellable (bs_registry (app_billing E)) (ee_PlanCode current) \<and>
       quoteUpgrade (app_billing E) hostID eventID (ee_PlanCode current) currency price q0 s = Inr q"
    by (rule QuoteEventPurchase_Inr)
  from pr have ad: "adapter_CurrentPrice (en_now E) (cv_ID v) currency s = Inr price"
    by (simp add: app_billing_def)
  note ok = adapter_price_ok [OF prices ad] and cc = adapter_price_currency [OF ad]
  from alt have "quote_sound q \<and> q_Currency q = q_Currency q0 \<and> q_PlanCode q = q_PlanCode q0"
  proof
    assume "\<not> Sellable (bs_registry (app_billing E)) (ee_PlanCode current) \<and>
       quoteNewPurchase (app_billing E) hostID eventID price q0 s = Inr q"
    then have nw: "quoteNewPurchase (app_billing E) hostID eventID price q0 s = Inr q" ..
    from quoteNewPurchase_sound [OF nw ok q0(1,2)] show ?thesis by blast
  next
    assume "Sellable (bs_registry (app_billing E)) (ee_PlanCode current) \<and>
       quoteUpgrade (app_billing E) hostID eventID (ee_PlanCode current) currency price q0 s = Inr q"
    then have up: "quoteUpgrade (app_billing E) hostID eventID (ee_PlanCode current) currency price q0 s = Inr q" ..
    from quoteUpgrade_sound [OF up ok] app_terms_nonneg inv prices show ?thesis by blast
  qed
  moreover from own have "\<exists>e. db_GetOwned eventID hostID s = Inr e"
    by (auto simp: app_billing_def adapter_OwnerOf_def split: sum.splits)
  moreover from res obtain c where "activeGrant eventID s = Some c" "ee_PlanCode current = ag_PlanCode c"
    by (auto simp: app_billing_def Resolve_def gorm_grants_def db_ActiveGrant_def fromActiveGrant_def
        split: option.splits)
  ultimately show ?thesis
    using cur cc q0 sell tr by (auto simp: app_billing_def CheckTransition_None)
qed

lemma fx_shop_ok: "purchases_inv fx_shop" "prices_ok fx_shop"
  by (simp_all add: purchases_inv_def prices_ok_def fx_shop_def fx purchase_keys_ok_def fx_price_def money_ok_def)

lemma fx_quote_runs: "\<not> isl (QuoteEventPurchase (fx_bill 0) 7 5 PlanExperience ''USD'' fx_shop)"
  by code_simp

theorem quote_arithmetic_witness:
  "\<exists>q. QuoteEventPurchase (fx_bill 0) 7 5 PlanExperience ''USD'' fx_shop = Inr q \<and> quote_sound q"
proof -
  from fx_quote_runs obtain q where q: "QuoteEventPurchase (fx_bill 0) 7 5 PlanExperience ''USD'' fx_shop = Inr q"
    by (cases "QuoteEventPurchase (fx_bill 0) 7 5 PlanExperience ''USD'' fx_shop") auto
  with quote_arithmetic [OF fx_shop_ok q] show ?thesis by blast
qed

text \<open>an upgrade is priced in the context the event was sold in and costs what the held tier
does not already cover: the target's value less the commercial value of the purchase that funded
the event, never negative, and the full value once that purchase was refunded or disputed.\<close>

theorem upgrade_price:
  assumes inv: "purchases_inv s" and prices: "prices_ok s"
    and q: "QuoteEventPurchase (app_billing E) eventID hostID target currency s = Inr q"
    and cur: "activeGrant eventID s = Some c" "Sellable (en_registry E) (ag_PlanCode c)"
    and fund: "db_LatestEventPurchase eventID s = Inr (Some p)"
  shows "q_Context q = pu_PricingContext p \<and> q_Reason q = PricingUpgrade \<and>
    q_FinalAmountMinor q =
      max 0 (q_BaseAmountMinor q - (if Paid (pu_Status p) then pu_BaseAmountMinor p else 0)) \<and>
    (\<exists>v price. adapter_ActiveVersion (en_registry E) target s = Inr v \<and>
       adapter_CurrentPrice (en_now E) (cv_ID v) currency s = Inr price \<and>
       q_BaseAmountMinor q = tierValue (pu_PricingContext p) price)"
proof -
  from q obtain current v price q0 where
        res: "bs_Resolve (app_billing E) eventID s = Inr current"
    and ver: "bs_ActiveVersion (app_billing E) target s = Inr v"
    and pr: "bs_CurrentPrice (app_billing E) (cv_ID v) currency s = Inr price"
    and alt: "\<not> Sellable (bs_registry (app_billing E)) (ee_PlanCode current) \<and>
       quoteNewPurchase (app_billing E) hostID eventID price q0 s = Inr q \<or>
     Sellable (bs_registry (app_billing E)) (ee_PlanCode current) \<and>
       quoteUpgrade (app_billing E) hostID eventID (ee_PlanCode current) currency price q0 s = Inr q"
    by (rule QuoteEventPurchase_Inr)
  from res cur have "ee_PlanCode current = ag_PlanCode c"
    by (auto simp: app_billing_def Resolve_def gorm_grants_def db_ActiveGrant_def fromActiveGrant_def)
  with alt cur(2) have up: "quoteUpgrade (app_billing E) hostID eventID (ee_PlanCode current) currency
      price q0 s = Inr q"
    by (simp add: app_billing_def)
  have t: "upgrade_terms (app_billing E) hostID eventID (ee_PlanCode current) currency s =
      Inr (pu_PricingContext p, if Paid (pu_Status p) then pu_BaseAmountMinor p else 0)"
    using fund by (simp add: upgrade_terms_def app_billing_def gorm_purchases_def)
  from pr have ad: "adapter_CurrentPrice (en_now E) (cv_ID v) currency s = Inr price"
    by (simp add: app_billing_def)
  from fund have "p \<in> set (t_purchases s)"
    by (auto simp: db_LatestEventPurchase_def dest: first_by_Some)
  with inv have "0 \<le> pu_BaseAmountMinor p"
    by (auto simp: purchases_inv_def list_all_iff purchase_row_ok_def)
  with up t tierValue_ok [OF adapter_price_ok [OF prices ad], of "pu_PricingContext p"] ver ad
  show ?thesis
    by (auto simp: quoteUpgrade_def Let_def money_ok_def i64_small app_billing_def)
qed

lemma fx_settled_ok: "purchases_inv fx_settled" "prices_ok fx_settled"
proof -
  show "purchases_inv fx_settled" unfolding purchases_inv_def by code_simp
  have "t_plan_prices fx_settled = t_plan_prices fx_shop" by code_simp
  then show "prices_ok fx_settled" using fx_shop_ok(2) by (simp add: prices_ok_def)
qed

lemma fx_quote2_runs: "\<not> isl (QuoteEventPurchase (fx_bill 1) 7 5 PlanSignature ''USD'' fx_settled)"
  by code_simp

theorem upgrade_price_witness:
  "\<exists>q p. QuoteEventPurchase (fx_bill 1) 7 5 PlanSignature ''USD'' fx_settled = Inr q \<and>
     db_LatestEventPurchase 7 fx_settled = Inr (Some p) \<and> q_Context q = pu_PricingContext p \<and>
     q_FinalAmountMinor q =
       max 0 (q_BaseAmountMinor q - (if Paid (pu_Status p) then pu_BaseAmountMinor p else 0))"
proof -
  from fx_quote2_runs obtain q where q: "QuoteEventPurchase (fx_bill 1) 7 5 PlanSignature ''USD'' fx_settled = Inr q"
    by (cases "QuoteEventPurchase (fx_bill 1) 7 5 PlanSignature ''USD'' fx_settled") auto
  have "map_option ag_PlanCode (activeGrant 7 fx_settled) = Some PlanExperience" by code_simp
  then obtain c where c: "activeGrant 7 fx_settled = Some c" "ag_PlanCode c = PlanExperience" by auto
  then have sell: "Sellable (en_registry (fx_env 1)) (ag_PlanCode c)" by (simp add: fx_env_def)
  have "\<exists>p. db_LatestEventPurchase 7 fx_settled = Inr (Some p)"
  proof -
    have "projr (db_LatestEventPurchase 7 fx_settled) \<noteq> None" by code_simp
    then show ?thesis by (auto simp: db_LatestEventPurchase_def)
  qed
  then obtain p where p: "db_LatestEventPurchase 7 fx_settled = Inr (Some p)" ..
  from upgrade_price [OF fx_settled_ok q c(1) sell p] q p show ?thesis by blast
qed

text \<open>a coupon is a discount on one purchase. It keeps the quote sound and leaves the tier's
value and the upgrade credit alone, so a discounted purchase earns the credit of a full one.\<close>

theorem promotion_keeps_tier_value:
  assumes "quote_sound q" "100 * q_FinalAmountMinor q < 2 ^ 63"
    and "ApplyPercentagePromotion q percent = Inr q'"
  shows "quote_sound q' \<and> q_BaseAmountMinor q' = q_BaseAmountMinor q \<and>
    q_UpgradeCreditMinor q' = q_UpgradeCreditMinor q \<and>
    0 \<le> q_FinalAmountMinor q' \<and> q_FinalAmountMinor q' \<le> q_FinalAmountMinor q \<and>
    (percent = 100 \<longrightarrow> q_FinalAmountMinor q' = 0)"
proof -
  let ?f = "q_FinalAmountMinor q" and ?d = "(q_FinalAmountMinor q * percent) div 100"
  from assms(3) have pc: "0 \<le> percent" "percent \<le> 100"
    by (auto simp: ApplyPercentagePromotion_def split: if_splits)
  from assms(1) have f: "0 \<le> ?f" by (auto simp: quote_sound_def)
  have m: "0 \<le> ?f * percent" "?f * percent \<le> ?f * 100"
    using pc f by (auto intro: mult_left_mono)
  have d: "0 \<le> ?d" "?d \<le> ?f"
    using m zdiv_mono1 [OF m(2), of 100] by (simp_all add: pos_imp_zdiv_nonneg_iff)
  have "i64 (?f * percent) = ?f * percent"
    using m assms(2) by (intro i64_small) linarith+
  moreover have "(?f * percent) sdiv 100 = ?d"
    using m by (intro sdiv_nonneg) simp_all
  moreover have "i64 (?f - ?d) = ?f - ?d"
    using d assms(2) f by (intro i64_small) linarith+
  moreover have "i64 (q_DiscountAmountMinor q + ?d) = q_DiscountAmountMinor q + ?d"
    using d assms(1) by (intro i64_small) (auto simp: quote_sound_def money_ok_def)
  ultimately have "q' = q\<lparr>q_DiscountAmountMinor := q_DiscountAmountMinor q + ?d,
      q_FinalAmountMinor := ?f - ?d, q_Reason := PricingPromotion\<rparr>"
    using assms(3) pc by (simp add: ApplyPercentagePromotion_def Let_def)
  with assms(1) d show ?thesis by (auto simp: quote_sound_def)
qed

definition fx_quote :: quote where
  "fx_quote = \<lparr>q_EventID = 7, q_PlanVersionID = 2, q_CurrentPlanCode = PlanFree,
     q_PlanCode = PlanExperience, q_BaseAmountMinor = 4900, q_UpgradeCreditMinor = 0,
     q_DiscountAmountMinor = 0, q_FinalAmountMinor = 4900, q_Currency = ''USD'',
     q_Context = ContextFirst, q_Reason = PricingFirstPurchase, q_PricingVersion = consumerPricingVersion\<rparr>"

theorem promotion_keeps_tier_value_witness:
  "\<exists>q'. ApplyPercentagePromotion fx_quote 25 = Inr q' \<and> quote_sound q' \<and> q_BaseAmountMinor q' = 4900"
proof -
  have s: "quote_sound fx_quote" "100 * q_FinalAmountMinor fx_quote < 2 ^ 63"
    by (simp_all add: fx_quote_def quote_sound_def money_ok_def)
  obtain q' where q': "ApplyPercentagePromotion fx_quote 25 = Inr q'"
    by (simp add: ApplyPercentagePromotion_def Let_def)
  from promotion_keeps_tier_value [OF s q'] q' show ?thesis by (simp add: fx_quote_def)
qed

end
