(* ===== verification/Ledger.thy ===== *)
theory Ledger
  imports QuoteProps
begin

text \<open>
  The life of a purchase under provider notifications. \<open>purchase_step\<close> is the abstract
  specification: which changes one notification may make to one purchase. The locale
  \<open>purchase_store\<close> states what the billing service relies on in its repository,
  \<open>billing_ledger\<close> adds that granting and withdrawing licenses leave purchases alone, and
  the service is shown to make only these steps. The database satisfies both interfaces.
\<close>

section \<open>The specification\<close>

text \<open>A purchase without its bookkeeping columns.\<close>

definition erase :: "purchase \<Rightarrow> purchase" where
  "erase p = p\<lparr>pu_UpdatedAt := 0, pu_EntitlementAppliedAt := None, pu_FailureCode := None\<rparr>"

definition settlement_of :: "provider_event \<Rightarrow> time option \<Rightarrow> purchase \<Rightarrow> purchase" where
  "settlement_of ev at p = p\<lparr>pu_Status := StatusSettled,
     pu_ProviderTransactionID := Some (xe_ExternalTransactionID ev),
     pu_SettledSubtotalMinor := Some (mn_AmountMinor (xe_Subtotal ev)),
     pu_SettledTaxMinor := Some (mn_AmountMinor (xe_Tax ev)),
     pu_SettledTotalMinor := Some (mn_AmountMinor (xe_Total ev)),
     pu_SettledCurrency := Some (mn_Currency (xe_Total ev)), pu_SettledAt := at\<rparr>"

definition restored_amount :: "purchase \<Rightarrow> provider_event \<Rightarrow> int" where
  "restored_amount p ev =
     (let adj = mn_AmountMinor (xe_Adjustment ev); r = i64 (pu_RefundedAmountMinor p - adj)
      in if adj \<le> 0 \<or> r < 0 then 0 else r)"

inductive purchase_step :: "provider_event \<Rightarrow> purchase \<Rightarrow> purchase \<Rightarrow> bool" where
  step_keep: "erase p' = erase p \<Longrightarrow> purchase_step ev p p'"
| step_settle: "xe_Type ev = EventPaymentSettled \<Longrightarrow> \<not> PostSettlement (pu_Status p) \<Longrightarrow>
    integrity_ok p ev \<Longrightarrow> erase p' = settlement_of ev at (erase p) \<Longrightarrow> purchase_step ev p p'"
| step_close: "xe_Type ev \<noteq> EventPaymentSettled \<Longrightarrow> \<not> PostSettlement (pu_Status p) \<Longrightarrow>
    st \<in> {StatusFailed, StatusCanceled} \<Longrightarrow> erase p' = (erase p)\<lparr>pu_Status := st\<rparr> \<Longrightarrow>
    purchase_step ev p p'"
| step_reverse: "xe_Type ev = (if dispute then EventPaymentDisputed else EventPaymentRefunded) \<Longrightarrow>
    PostSettlement (pu_Status p) \<Longrightarrow> reversal_outcome p ev dispute = (st, amount) \<Longrightarrow> 0 \<le> amount \<Longrightarrow>
    erase p' = (erase p)\<lparr>pu_Status := st, pu_RefundedAmountMinor := amount\<rparr> \<Longrightarrow>
    purchase_step ev p p'"
| step_restore: "xe_Type ev = EventPaymentDisputeReversed \<Longrightarrow> pu_Status p = StatusDisputed \<Longrightarrow>
    erase p' = (erase p)\<lparr>pu_Status := StatusSettled,
      pu_RefundedAmountMinor := restored_amount p ev\<rparr> \<Longrightarrow> purchase_step ev p p'"

inductive_cases purchase_stepE: "purchase_step ev p p'"

lemma erase_mark [simp]:
  "erase (p\<lparr>pu_EntitlementAppliedAt := a, pu_UpdatedAt := now\<rparr>) = erase p"
  by (simp add: erase_def)

text \<open>What erasing keeps.\<close>

lemma erase_fields:
  "erase p' = q \<Longrightarrow> pu_ID p' = pu_ID q \<and> pu_Status p' = pu_Status q \<and>
     pu_RefundedAmountMinor p' = pu_RefundedAmountMinor q \<and>
     pu_SettledTotalMinor p' = pu_SettledTotalMinor q \<and> pu_EventID p' = pu_EventID q \<and>
     pu_HostID p' = pu_HostID q \<and> pu_PlanVersionID p' = pu_PlanVersionID q \<and>
     pu_QuotedAmountMinor p' = pu_QuotedAmountMinor q \<and> pu_QuotedCurrency p' = pu_QuotedCurrency q"
  by (auto simp: erase_def)

lemma erase_simps [simp]:
  "pu_ID (erase p) = pu_ID p" "pu_Status (erase p) = pu_Status p"
  "pu_RefundedAmountMinor (erase p) = pu_RefundedAmountMinor p"
  "pu_SettledTotalMinor (erase p) = pu_SettledTotalMinor p"
  "pu_EventID (erase p) = pu_EventID p" "pu_HostID (erase p) = pu_HostID p"
  "pu_PlanVersionID (erase p) = pu_PlanVersionID p"
  "pu_QuotedAmountMinor (erase p) = pu_QuotedAmountMinor p"
  "pu_QuotedCurrency (erase p) = pu_QuotedCurrency p"
  by (simp_all add: erase_def)

lemma settlement_simps [simp]:
  "pu_Status (settlement_of ev at p) = StatusSettled"
  "pu_RefundedAmountMinor (settlement_of ev at p) = pu_RefundedAmountMinor p"
  "pu_SettledTotalMinor (settlement_of ev at p) = Some (mn_AmountMinor (xe_Total ev))"
  "pu_ID (settlement_of ev at p) = pu_ID p"
  "pu_EventID (settlement_of ev at p) = pu_EventID p" "pu_HostID (settlement_of ev at p) = pu_HostID p"
  "pu_PlanVersionID (settlement_of ev at p) = pu_PlanVersionID p"
  "pu_QuotedAmountMinor (settlement_of ev at p) = pu_QuotedAmountMinor p"
  "pu_QuotedCurrency (settlement_of ev at p) = pu_QuotedCurrency p"
  by (simp_all add: settlement_of_def)

lemma reversal_status: "reversal_outcome p ev dispute = (st, amount) \<Longrightarrow> PostSettlement st"
  by (auto simp: reversal_outcome_def Let_def split: if_splits)

lemma step_post: "purchase_step ev p p' \<Longrightarrow> PostSettlement (pu_Status p) \<Longrightarrow> PostSettlement (pu_Status p')"
  by (elim purchase_stepE) (auto dest!: erase_fields reversal_status)

text \<open>The terms of sale never change, and the settled total is fixed once money moved.\<close>

lemma step_terms:
  "purchase_step ev p p' \<Longrightarrow> pu_EventID p' = pu_EventID p \<and> pu_HostID p' = pu_HostID p \<and>
     pu_PlanVersionID p' = pu_PlanVersionID p \<and> pu_QuotedAmountMinor p' = pu_QuotedAmountMinor p \<and>
     pu_QuotedCurrency p' = pu_QuotedCurrency p \<and>
     (PostSettlement (pu_Status p) \<longrightarrow> pu_SettledTotalMinor p' = pu_SettledTotalMinor p)"
  by (elim purchase_stepE) (auto dest!: erase_fields)

text \<open>Money becomes settled only by a notification that matches the quote.\<close>

lemma step_settles:
  "purchase_step ev p p' \<Longrightarrow> \<not> PostSettlement (pu_Status p) \<Longrightarrow> PostSettlement (pu_Status p') \<Longrightarrow>
     xe_Type ev = EventPaymentSettled \<and> integrity_ok p ev \<and> pu_Status p' = StatusSettled \<and>
     pu_SettledTotalMinor p' = Some (mn_AmountMinor (xe_Total ev))"
  by (elim purchase_stepE) (auto dest!: erase_fields)

text \<open>Refunds never exceed what was paid.\<close>

definition refund_bounded :: "purchase \<Rightarrow> bool" where
  "refund_bounded p \<longleftrightarrow> 0 \<le> pu_RefundedAmountMinor p \<and> pu_RefundedAmountMinor p < 2 ^ 63 \<and>
     (\<not> PostSettlement (pu_Status p) \<longrightarrow> pu_RefundedAmountMinor p = 0) \<and>
     (0 < valueOrZero (pu_SettledTotalMinor p) \<longrightarrow>
        pu_RefundedAmountMinor p \<le> valueOrZero (pu_SettledTotalMinor p))"

lemma restored_le:
  assumes "refund_bounded p" "in_i64 (mn_AmountMinor (xe_Adjustment ev))"
  shows "0 \<le> restored_amount p ev \<and> restored_amount p ev \<le> pu_RefundedAmountMinor p"
proof -
  let ?r = "pu_RefundedAmountMinor p" and ?a = "mn_AmountMinor (xe_Adjustment ev)"
  have "i64 (?r - ?a) = ?r - ?a" if "0 < ?a"
    using assms that by (intro i64_id) (auto simp: in_i64_def refund_bounded_def)
  with assms(1) show ?thesis
    by (auto simp: restored_amount_def Let_def refund_bounded_def)
qed

lemma step_refund:
  assumes "purchase_step ev p p'" "refund_bounded p" "in_i64 (mn_AmountMinor (xe_Adjustment ev))"
  shows "refund_bounded p'"
  using assms(1)
proof (cases rule: purchase_step.cases)
  case (step_reverse dispute st amount)
  then have "amount < 2 ^ 63 \<and> (0 < valueOrZero (pu_SettledTotalMinor p) \<longrightarrow>
      amount \<le> valueOrZero (pu_SettledTotalMinor p))"
    using i64_in_i64 [of "pu_RefundedAmountMinor p + mn_AmountMinor (xe_Adjustment ev)"]
      i64_in_i64 [of "pu_RefundedAmountMinor p + valueOrZero (pu_SettledTotalMinor p)"]
    unfolding in_i64_def reversal_outcome_def Let_def by (auto split: if_splits)
  with step_reverse reversal_status [OF step_reverse(3)] show ?thesis
    by (auto simp: refund_bounded_def dest!: erase_fields)
next
  case step_restore
  with restored_le [OF assms(2,3)] assms(2) show ?thesis
    by (auto simp: refund_bounded_def dest!: erase_fields)
qed (use assms in \<open>auto simp: refund_bounded_def dest!: erase_fields\<close>)
section \<open>The interfaces\<close>

locale purchase_store =
  fixes repo :: "'s purchase_repo"
    and get :: "uuid \<Rightarrow> 's \<Rightarrow> purchase option"
  assumes get_found: "rp_GetPurchase repo i s = Inr p \<Longrightarrow> get i s = Some p"
    and get_id: "get i s = Some p \<Longrightarrow> pu_ID p = i"
    and settle_law: "rp_SettlePurchase repo now inp s = (r, s') \<Longrightarrow> get i s' =
      (if r = None \<and> i = si_PurchaseID inp then map_option (settled_row now inp) (get i s) else get i s)"
    and status_law: "rp_UpdateStatus repo now j st code s = (r, s') \<Longrightarrow> get i s' =
      (if r = None \<and> i = j then map_option (\<lambda>p. p\<lparr>pu_Status := st, pu_UpdatedAt := now,
         pu_FailureCode := (case code of None \<Rightarrow> pu_FailureCode p | Some c \<Rightarrow> Some c)\<rparr>) (get i s)
       else get i s)"
    and reversal_law: "rp_RecordReversal repo now rin s = (r, s') \<Longrightarrow> get i s' =
      (if r = None \<and> i = ri_PurchaseID rin then map_option (\<lambda>p. p\<lparr>pu_Status := ri_Status rin,
         pu_RefundedAmountMinor := ri_RefundedAmountMinor rin, pu_UpdatedAt := now\<rparr>) (get i s)
       else get i s)"
    and reversal_check: "rp_RecordReversal repo now rin s = (None, s') \<Longrightarrow> 0 \<le> ri_RefundedAmountMinor rin"
    and mark_law: "rp_MarkEntitlementApplied repo now j s = (r, s') \<Longrightarrow> get i s' =
      (if r = None \<and> i = j then map_option (\<lambda>p. p\<lparr>pu_EntitlementAppliedAt := Some now,
         pu_UpdatedAt := now\<rparr>) (get i s) else get i s)"
    and insert_law: "rp_InsertProviderEvent repo rec s = (x, s') \<Longrightarrow> get i s' = get i s"
    and processed_law: "rp_MarkProviderEventProcessed repo now j s = (r, s') \<Longrightarrow> get i s' = get i s"
    and failed_law: "rp_MarkProviderEventFailed repo j err s = (r, s') \<Longrightarrow> get i s' = get i s"
begin

text \<open>How a stored purchase moved between two states: erased rows compare equal.\<close>

definition same_money :: "'s \<Rightarrow> 's \<Rightarrow> bool" where
  "same_money s s' \<longleftrightarrow> (\<forall>i. map_option erase (get i s') = map_option erase (get i s))"

lemma same_money_refl [simp]: "same_money s s"
  by (simp add: same_money_def)

lemma same_money_trans: "same_money s s' \<Longrightarrow> same_money s' s'' \<Longrightarrow> same_money s s''"
  by (simp add: same_money_def)

lemma same_moneyD: "same_money s s' \<Longrightarrow> get i s = Some p \<Longrightarrow> \<exists>p'. get i s' = Some p' \<and> erase p' = erase p"
  unfolding same_money_def by (metis map_option_eq_Some option.simps(9))

lemma mark_same: "rp_MarkEntitlementApplied repo now j s = (r, s') \<Longrightarrow> same_money s s'"
  using mark_law by (auto simp: same_money_def option.map_comp comp_def erase_mark)

lemma insert_same: "rp_InsertProviderEvent repo rec s = (x, s') \<Longrightarrow> same_money s s'"
  using insert_law by (simp add: same_money_def)

lemma processed_same: "same_money s (snd (rp_MarkProviderEventProcessed repo now j s))"
  using processed_law [of now j s] by (cases "rp_MarkProviderEventProcessed repo now j s") (simp add: same_money_def)

lemma failed_same: "same_money s (snd (rp_MarkProviderEventFailed repo j err s))"
  using failed_law [of j err s] by (cases "rp_MarkProviderEventFailed repo j err s") (simp add: same_money_def)

end

text \<open>The billing service over a store, with grants and licenses that leave purchases alone.\<close>

locale billing_ledger = purchase_store "bs_repo S" get
  for S :: "'s billing_service" and get :: "uuid \<Rightarrow> 's \<Rightarrow> purchase option" +
  assumes grants_frame: "bs_grants S gin s = (r, s') \<Longrightarrow> get i s' = get i s"
    and revoke_frame: "bs_licenses S = Some lic \<Longrightarrow> lr_RevokeUnconsumedLicense lic j s = (b, s') \<Longrightarrow>
      get i s' = get i s"
    and flag_frame: "bs_licenses S = Some lic \<Longrightarrow> lr_SetEventBillingStatus lic j st s = (r, s') \<Longrightarrow>
      get i s' = get i s"
begin

text \<open>One delivery moves every stored purchase by at most one step of the specification.\<close>

definition moves :: "provider_event \<Rightarrow> 's \<Rightarrow> 's \<Rightarrow> bool" where
  "moves ev s s' \<longleftrightarrow> (\<forall>i p. get i s = Some p \<longrightarrow> (\<exists>p'. get i s' = Some p' \<and> purchase_step ev p p'))"

lemma moves_same: "same_money s s' \<Longrightarrow> moves ev s s'"
  using same_moneyD step_keep unfolding moves_def by blast

lemma moves_after:
  assumes "moves ev s s'" "same_money s' s''"
  shows "moves ev s s''"
  unfolding moves_def
proof (intro allI impI)
  fix i p assume "get i s = Some p"
  with assms(1) obtain p' where p': "get i s' = Some p'" "purchase_step ev p p'"
    by (auto simp: moves_def)
  from same_moneyD [OF assms(2) p'(1)] obtain p'' where p'': "get i s'' = Some p''" "erase p'' = erase p'"
    by blast
  from p'(2) p''(2) have "purchase_step ev p p''"
    by (cases rule: purchase_step.cases) (auto intro: purchase_step.intros)
  with p''(1) show "\<exists>p'. get i s'' = Some p' \<and> purchase_step ev p p'" by blast
qed

lemma moves_before:
  assumes "same_money s s'" "get i s = Some p" "get i s' = Some p'"
  shows "erase p' = erase p"
  using same_moneyD [OF assms(1,2)] assms(3) by simp

lemma apply_same: "applyEntitlement S p txn at s = (r, s') \<Longrightarrow> same_money s s'"
proof -
  assume run: "applyEntitlement S p txn at s = (r, s')"
  show ?thesis
  proof (cases "pu_EntitlementAppliedAt p")
    case (Some x)
    with run show ?thesis by (simp add: applyEntitlement_def)
  next
    case None
    then obtain gin e s1 where g: "bs_grants S gin s = (e, s1)"
      and s': "s' = s1 \<or> s' = snd (rp_MarkEntitlementApplied (bs_repo S) (bs_now S) (pu_ID p) s1)"
      using run by (force simp: applyEntitlement_def Let_def split: prod.splits option.splits if_splits)
    have "same_money s s1" using grants_frame [OF g] by (simp add: same_money_def)
    moreover have "same_money s1 (snd (rp_MarkEntitlementApplied (bs_repo S) (bs_now S) (pu_ID p) s1))"
      by (cases "rp_MarkEntitlementApplied (bs_repo S) (bs_now S) (pu_ID p) s1") (simp add: mark_same)
    ultimately show ?thesis using s' same_money_trans by blast
  qed
qed

text \<open>A change of one purchase that is a step, all others as they were.\<close>

lemma moves_one:
  assumes "\<And>i. get i s' = (if c \<and> i = j then map_option f (get i s) else get i s)"
    and "get j s = Some p" "c \<Longrightarrow> purchase_step ev p (f p)"
  shows "moves ev s s'"
  unfolding moves_def
proof (intro allI impI)
  fix i q assume q: "get i s = Some q"
  show "\<exists>q'. get i s' = Some q' \<and> purchase_step ev q q'"
    using assms q by (cases "c \<and> i = j") (auto intro: step_keep)
qed

end
context billing_ledger begin

lemma settlement_moves:
  assumes "handleSettlement S j ev s = (r, s')" "xe_Type ev = EventPaymentSettled"
  shows "moves ev s s'"
proof (cases "rp_GetPurchase (bs_repo S) j s")
  case (Inl e)
  with assms show ?thesis by (simp add: handleSettlement_def moves_same)
next
  case (Inr p)
  note g = get_found [OF Inr] and pid = get_id [OF get_found [OF Inr]]
  let ?si = "\<lparr>si_PurchaseID = pu_ID p, si_ProviderTransactionID = xe_ExternalTransactionID ev,
     si_SettledSubtotalMinor = mn_AmountMinor (xe_Subtotal ev),
     si_SettledTaxMinor = mn_AmountMinor (xe_Tax ev),
     si_SettledTotalMinor = mn_AmountMinor (xe_Total ev),
     si_SettledCurrency = mn_Currency (xe_Total ev)\<rparr>"
  obtain err s1 where st: "rp_SettlePurchase (bs_repo S) (bs_now S) ?si s = (err, s1)"
    by (cases "rp_SettlePurchase (bs_repo S) (bs_now S) ?si s") auto
  consider (settled) "pu_Status p = StatusSettled"
    | (post) "pu_Status p \<noteq> StatusSettled" "PostSettlement (pu_Status p)"
    | (mismatch) "\<not> PostSettlement (pu_Status p)" "\<not> integrity_ok p ev"
    | (pay) "\<not> PostSettlement (pu_Status p)" "integrity_ok p ev"
    by auto
  then show ?thesis
  proof cases
    case settled
    with assms(1) Inr have "applyEntitlement S p (xe_ExternalTransactionID ev) (xe_OccurredAt ev) s = (r, s')"
      by (simp add: handleSettlement_def)
    then show ?thesis by (rule moves_same [OF apply_same])
  next
    case pay
    then have nst: "pu_Status p \<noteq> StatusSettled" by auto
    have "purchase_step ev p (settled_row (bs_now S) ?si p)"
      using pay assms(2)
      by (intro step_settle [where at = "Some (bs_now S)"])
        (simp_all add: settled_row_def settlement_of_def erase_def)
    then have m: "moves ev s s1"
      using settle_law [OF st] g pid
      by (intro moves_one [where j = j and p = p and c = "err = None" and
            f = "settled_row (bs_now S) ?si"]) simp_all
    have "s' = s1 \<or> (\<exists>q r. applyEntitlement S q (xe_ExternalTransactionID ev) (xe_OccurredAt ev) s1 = (r, s'))"
      using assms(1) Inr pay nst st by (auto simp: handleSettlement_def split: if_splits)
    then show ?thesis
    proof
      assume "\<exists>q r. applyEntitlement S q (xe_ExternalTransactionID ev) (xe_OccurredAt ev) s1 = (r, s')"
      then show ?thesis using moves_after [OF m] apply_same by blast
    qed (simp add: m)
  qed (use assms Inr in \<open>auto simp: handleSettlement_def moves_same split: if_splits\<close>)
qed

lemma failure_moves:
  assumes "handleFailure S j st s = (r, s')" "xe_Type ev \<noteq> EventPaymentSettled"
    and "st \<in> {StatusFailed, StatusCanceled}"
  shows "moves ev s s'"
proof (cases "rp_GetPurchase (bs_repo S) j s")
  case (Inr p)
  note g = get_found [OF Inr] and pid = get_id [OF get_found [OF Inr]]
  show ?thesis
  proof (cases "PostSettlement (pu_Status p) \<or> pu_Status p = st")
    case False
    with assms(1) Inr have up: "rp_UpdateStatus (bs_repo S) (bs_now S) (pu_ID p) st None s = (r, s')"
      by (simp add: handleFailure_def)
    have "purchase_step ev p (p\<lparr>pu_Status := st, pu_UpdatedAt := bs_now S, pu_FailureCode := pu_FailureCode p\<rparr>)"
      using False assms(2,3) by (intro step_close [of _ _ st]) (auto simp: erase_def)
    with status_law [OF up] g pid show ?thesis
      by (intro moves_one [where j = j and p = p and c = "r = None" and f = "\<lambda>p. p\<lparr>pu_Status := st,
            pu_UpdatedAt := bs_now S, pu_FailureCode := pu_FailureCode p\<rparr>"]) simp_all
  qed (use assms Inr in \<open>auto simp: handleFailure_def moves_same\<close>)
qed (use assms in \<open>simp add: handleFailure_def moves_same\<close>)

lemma unwind_same: "unwind_license S p dispute st s = (r, s') \<Longrightarrow> same_money s s'"
proof -
  assume run: "unwind_license S p dispute st s = (r, s')"
  show ?thesis
  proof (cases "bs_licenses S")
    case None
    with run show ?thesis by (simp add: unwind_license_def)
  next
    case (Some lic)
    obtain b s1 where b: "lr_RevokeUnconsumedLicense lic (pu_ID p) s = (b, s1)"
      by (cases "lr_RevokeUnconsumedLicense lic (pu_ID p) s") auto
    have s1: "same_money s s1" using revoke_frame [OF Some b] by (simp add: same_money_def)
    have "s' = s1 \<or> (\<exists>es r. lr_SetEventBillingStatus lic (pu_EventID p) es s1 = (r, s'))"
      using run Some b by (auto simp: unwind_license_def split: sum.splits if_splits)
    then show ?thesis
    proof
      assume "\<exists>es r. lr_SetEventBillingStatus lic (pu_EventID p) es s1 = (r, s')"
      then have "same_money s1 s'" using flag_frame [OF Some] by (auto simp: same_money_def)
      with s1 show ?thesis by (rule same_money_trans)
    qed (simp add: s1)
  qed
qed

lemma reversal_moves:
  assumes "handleReversal S j ev dispute s = (r, s')"
    and ty: "xe_Type ev = (if dispute then EventPaymentDisputed else EventPaymentRefunded)"
  shows "moves ev s s'"
proof (cases "rp_GetPurchase (bs_repo S) j s")
  case (Inr p)
  note g = get_found [OF Inr] and pid = get_id [OF get_found [OF Inr]]
  show ?thesis
  proof (cases "PostSettlement (pu_Status p)")
    case True
    obtain st amount where o: "reversal_outcome p ev dispute = (st, amount)"
      by (cases "reversal_outcome p ev dispute") auto
    let ?ri = "\<lparr>ri_PurchaseID = pu_ID p, ri_Status = st, ri_RefundedAmountMinor = amount\<rparr>"
    obtain err s1 where rr: "rp_RecordReversal (bs_repo S) (bs_now S) ?ri s = (err, s1)"
      by (cases "rp_RecordReversal (bs_repo S) (bs_now S) ?ri s") auto
    have "purchase_step ev p (p\<lparr>pu_Status := st, pu_RefundedAmountMinor := amount, pu_UpdatedAt := bs_now S\<rparr>)"
      if "err = None"
      using True ty o reversal_check [OF rr [unfolded that]] by (intro step_reverse [of _ dispute _ st amount]) (simp_all add: erase_def)
    with reversal_law [OF rr] g pid have m: "moves ev s s1"
      by (intro moves_one [where j = j and p = p and c = "err = None" and f = "\<lambda>p. p\<lparr>pu_Status := st,
            pu_RefundedAmountMinor := amount, pu_UpdatedAt := bs_now S\<rparr>"]) simp_all
    have "s' = s1 \<or> (\<exists>r. unwind_license S p dispute st s1 = (r, s'))"
      using assms(1) Inr True o rr by (auto simp: handleReversal_def split: option.splits)
    with m moves_after [OF m] unwind_same show ?thesis by blast
  next
    case False
    show ?thesis
    proof (cases "Open (pu_Status p)")
      case True
      let ?f = "\<lambda>p. p\<lparr>pu_Status := StatusCanceled, pu_UpdatedAt := bs_now S,
            pu_FailureCode := Some ''reversed_before_settlement''\<rparr>"
      have up: "rp_UpdateStatus (bs_repo S) (bs_now S) (pu_ID p) StatusCanceled
          (Some ''reversed_before_settlement'') s = (r, s')"
        using assms(1) Inr False True by (simp add: handleReversal_def)
      have "purchase_step ev p (?f p)"
        using False ty by (intro step_close [of _ _ StatusCanceled]) (auto simp: erase_def)
      with status_law [OF up] g pid show ?thesis
        by (intro moves_one [where j = j and p = p and c = "r = None" and f = ?f]) simp_all
    qed (use assms(1) Inr False in \<open>simp add: handleReversal_def moves_same\<close>)
  qed
qed (use assms in \<open>simp add: handleReversal_def moves_same\<close>)

end
context billing_ledger begin

lemma dispute_reversed_moves:
  assumes "handleDisputeReversed S j ev s = (r, s')" and ty: "xe_Type ev = EventPaymentDisputeReversed"
  shows "moves ev s s'"
proof (cases "rp_GetPurchase (bs_repo S) j s")
  case (Inr p)
  note g = get_found [OF Inr] and pid = get_id [OF get_found [OF Inr]]
  show ?thesis
  proof (cases "pu_Status p = StatusDisputed")
    case True
    let ?ri = "\<lparr>ri_PurchaseID = pu_ID p, ri_Status = StatusSettled,
       ri_RefundedAmountMinor = restored_amount p ev\<rparr>"
    let ?f = "\<lambda>q. q\<lparr>pu_Status := StatusSettled, pu_RefundedAmountMinor := restored_amount p ev,
       pu_UpdatedAt := bs_now S\<rparr>"
    obtain err s1 where rr: "rp_RecordReversal (bs_repo S) (bs_now S) ?ri s = (err, s1)"
      by (cases "rp_RecordReversal (bs_repo S) (bs_now S) ?ri s") auto
    have "purchase_step ev p (?f p)"
      using True ty by (intro step_restore) (simp_all add: erase_def)
    with reversal_law [OF rr] g pid have m: "moves ev s s1"
      by (intro moves_one [where j = j and p = p and c = "err = None" and f = ?f]) simp_all
    have "s' = s1 \<or> (\<exists>lic r. bs_licenses S = Some lic \<and>
        lr_SetEventBillingStatus lic (pu_EventID p) EventBillingOK s1 = (r, s'))"
      using assms(1) Inr True rr
      by (auto simp: handleDisputeReversed_def restored_amount_def Let_def split: option.splits)
    then show ?thesis
    proof
      assume "\<exists>lic r. bs_licenses S = Some lic \<and>
        lr_SetEventBillingStatus lic (pu_EventID p) EventBillingOK s1 = (r, s')"
      then have "same_money s1 s'" using flag_frame by (auto simp: same_money_def)
      with m show ?thesis by (rule moves_after)
    qed (simp add: m)
  qed (use assms(1) Inr in \<open>simp add: handleDisputeReversed_def moves_same\<close>)
qed (use assms in \<open>simp add: handleDisputeReversed_def moves_same\<close>)

lemma route_moves:
  assumes "route_event S j ev s = Some (r, s')"
  shows "moves ev s s'"
  using assms settlement_moves [of j ev s r s'] failure_moves [of j _ s r s' ev]
    reversal_moves [of j ev _ s r s'] dispute_reversed_moves [of j ev s r s']
  by (cases "xe_Type ev") (auto simp: route_event_def)

lemma process_moves:
  assumes "process_event S recID j ev s = (r, s')"
  shows "moves ev s s'"
proof (cases "xe_Type ev = EventIgnored \<or> j = uuid_nil")
  case True
  then have "same_money s s'"
    using assms processed_same failed_same by (auto simp: process_event_def Let_def split: if_splits)
  then show ?thesis by (rule moves_same)
next
  case False
  show ?thesis
  proof (cases "route_event S j ev s")
    case None
    with False assms have "s' = snd (rp_MarkProviderEventProcessed (bs_repo S) (bs_now S) recID s)"
      by (simp add: process_event_def Let_def)
    with processed_same moves_same show ?thesis by simp
  next
    case (Some rs)
    obtain e s1 where rs: "rs = (e, s1)" by (cases rs)
    note m = route_moves [OF Some [unfolded rs]]
    from False assms Some rs have "s' = snd (rp_MarkProviderEventProcessed (bs_repo S) (bs_now S) recID s1) \<or>
        (\<exists>err. s' = snd (rp_MarkProviderEventFailed (bs_repo S) recID err s1))"
      by (auto simp: process_event_def Let_def split: option.splits)
    then show ?thesis
      using moves_after [OF m processed_same] moves_after [OF m failed_same] by blast
  qed
qed

text \<open>The refinement: a delivery makes at most a step of the decoded event.\<close>

lemma delivery_moves:
  assumes run: "HandleProviderEvent S raw sig s = (r, s')" and p: "get i s = Some p"
  obtains p' where "get i s' = Some p'"
    "erase p' = erase p \<or> (\<exists>ev. bs_decoder S raw sig = Inr ev \<and> purchase_step ev p p')"
proof -
  have "\<exists>p'. get i s' = Some p' \<and>
    (erase p' = erase p \<or> (\<exists>ev. bs_decoder S raw sig = Inr ev \<and> purchase_step ev p p'))"
  proof (cases "bs_decoder S raw sig")
    case (Inr ev)
    show ?thesis
    proof (cases "event_purchase S ev s")
      case (Inl e)
      with run Inr p show ?thesis by (simp add: HandleProviderEvent_def)
    next
      case pid: (Inr j)
      obtain x s1 where ins: "rp_InsertProviderEvent (bs_repo S) (event_record S raw ev j) s = (x, s1)"
        by (cases "rp_InsertProviderEvent (bs_repo S) (event_record S raw ev j) s") auto
      have g1: "get k s1 = get k s" for k by (rule insert_law [OF ins])
      from run Inr pid ins have "s' = s1 \<or>
          process_event S (pe_ID (event_record S raw ev j)) j ev s1 = (r, s')"
        by (auto simp: HandleProviderEvent_def split: sum.splits bool.splits)
      then show ?thesis
      proof
        assume "process_event S (pe_ID (event_record S raw ev j)) j ev s1 = (r, s')"
        from process_moves [OF this] g1 p have "\<exists>p'. get i s' = Some p' \<and> purchase_step ev p p'"
          by (simp add: moves_def)
        with Inr show ?thesis by blast
      qed (use g1 p in simp)
    qed
  qed (use run p in \<open>simp add: HandleProviderEvent_def\<close>)
  with that show ?thesis by blast
qed

end

section \<open>The database is a store\<close>

definition purchase_row :: "uuid \<Rightarrow> db \<Rightarrow> purchase option" where
  "purchase_row i s = lookup_row pu_ID i (t_purchases s)"

lemma update_purchases_get:
  assumes "update_purchases p f s = (r, s')" "\<And>q. p q \<Longrightarrow> pu_ID (f q) = pu_ID q"
  shows "purchase_row i s' = (if isl r then purchase_row i s
    else map_option (\<lambda>q. if p q then f q else q) (purchase_row i s))"
  using assms
  by (auto simp: update_purchases_def write_purchases_def purchase_row_def lookup_row_update
      split: sum.splits if_splits)

lemma found_or_missing_get:
  assumes "found_or_missing (update_purchases (\<lambda>q. pu_ID q = j) f s) = (r, s')"
    and "\<And>q. pu_ID (f q) = pu_ID q"
  shows "purchase_row i s' = (if r = None \<and> i = j then map_option f (purchase_row i s) else purchase_row i s)"
proof -
  obtain u s1 where u: "update_purchases (\<lambda>q. pu_ID q = j) f s = (u, s1)"
    by (cases "update_purchases (\<lambda>q. pu_ID q = j) f s") auto
  note g = update_purchases_get [OF u assms(2)]
  have row: "purchase_row i s = Some q \<Longrightarrow> pu_ID q = i \<and> q \<in> set (t_purchases s)" for q
    by (auto simp: purchase_row_def dest: lookup_row_Some)
  show ?thesis
  proof (cases u)
    case (Inl e)
    with assms(1) u g show ?thesis by (auto simp: found_or_missing_def)
  next
    case (Inr n)
    with u have n: "n = count_where (\<lambda>q. pu_ID q = j) (t_purchases s)"
      by (auto simp: update_purchases_def split: sum.splits)
    from Inr assms(1) u have r: "r = (if n = 0 then Some (Billing ErrPurchaseNotFound) else None)" "s' = s1"
      by (simp_all add: found_or_missing_def split: if_splits)
    show ?thesis
    proof (cases "purchase_row i s")
      case None
      with g Inr r show ?thesis by auto
    next
      case (Some q)
      with row have q: "pu_ID q = i" "q \<in> set (t_purchases s)" by auto
      then have "i = j \<Longrightarrow> n \<noteq> 0"
        unfolding n count_where_0_iff by auto
      with g Inr r Some q show ?thesis by auto
    qed
  qed
qed
lemma settle_get:
  assumes "db_SettlePurchase now inp s = (r, s')"
  shows "purchase_row i s' = (if r = None \<and> i = si_PurchaseID inp
    then map_option (settled_row now inp) (purchase_row i s) else purchase_row i s)"
proof -
  let ?p = "\<lambda>q. pu_ID q = si_PurchaseID inp \<and> pu_Status q \<noteq> StatusSettled"
  let ?f = "settled_row now inp"
  have idf: "pu_ID (?f q) = pu_ID q" for q by (simp add: settled_row_def)
  obtain u s1 where u: "update_purchases ?p ?f s = (u, s1)"
    by (cases "update_purchases ?p ?f s") auto
  note g = update_purchases_get [OF u idf]
  have s1: "s' = s1" using assms u by (auto simp: db_SettlePurchase_def split: sum.splits option.splits if_splits)
  show ?thesis
  proof (cases u)
    case (Inl e)
    with assms u g show ?thesis by (auto simp: db_SettlePurchase_def)
  next
    case (Inr n)
    from u Inr have n: "n = count_where ?p (t_purchases s)"
      and keys: "purchase_keys_ok (update_where ?p ?f (t_purchases s))"
      by (auto simp: update_purchases_def write_purchases_def split: sum.splits if_splits)
    from keys have "distinct (map pu_ID (update_where ?p ?f (t_purchases s)))"
      by (simp add: purchase_keys_ok_def)
    then have dis: "distinct (map pu_ID (t_purchases s))"
      by (simp add: map_update_where_same idf)
    have some: "r = None \<longleftrightarrow> n \<noteq> 0"
      using assms u Inr by (auto simp: db_SettlePurchase_def split: option.splits if_splits)
    show ?thesis
    proof (cases "purchase_row i s")
      case None
      with g Inr s1 show ?thesis by auto
    next
      case (Some q)
      then have q: "pu_ID q = i" "q \<in> set (t_purchases s)"
        by (auto simp: purchase_row_def dest: lookup_row_Some)
      have uniq: "x = q" if "x \<in> set (t_purchases s)" "pu_ID x = i" for x
        using dis q that by (auto simp: distinct_map inj_on_def)
      show ?thesis
      proof (cases "i = si_PurchaseID inp")
        case True
        have "n \<noteq> 0 \<longleftrightarrow> (\<exists>x \<in> set (t_purchases s). ?p x)"
          by (simp add: n count_where_0_iff)
        also have "\<dots> \<longleftrightarrow> pu_Status q \<noteq> StatusSettled"
          by (metis q True uniq)
        finally have "n \<noteq> 0 \<longleftrightarrow> pu_Status q \<noteq> StatusSettled" .
        with g Inr s1 Some some q True show ?thesis by simp
      qed (use g Inr s1 Some q in simp)
    qed
  qed
qed

lemma mark_get:
  assumes "db_MarkEntitlementApplied now j s = (r, s')"
  shows "purchase_row i s' = (if r = None \<and> i = j then map_option
    (\<lambda>p. p\<lparr>pu_EntitlementAppliedAt := Some now, pu_UpdatedAt := now\<rparr>) (purchase_row i s)
    else purchase_row i s)"
proof -
  define f :: "purchase \<Rightarrow> purchase" where
    "f = (\<lambda>p. p\<lparr>pu_EntitlementAppliedAt := Some now, pu_UpdatedAt := now\<rparr>)"
  obtain u s1 where u: "update_purchases (\<lambda>q. pu_ID q = j) f s = (u, s1)"
    by (cases "update_purchases (\<lambda>q. pu_ID q = j) f s") auto
  have g: "purchase_row i s1 = (if isl u then purchase_row i s
      else map_option (\<lambda>q. if pu_ID q = j then f q else q) (purchase_row i s))"
    by (rule update_purchases_get [OF u]) (simp add: f_def)
  have r: "s' = s1" "r = None \<longleftrightarrow> \<not> isl u"
    using assms u by (auto simp: db_MarkEntitlementApplied_def f_def [symmetric] split: sum.splits)
  have "purchase_row i s = Some q \<Longrightarrow> pu_ID q = i" for q
    by (auto simp: purchase_row_def dest: lookup_row_Some)
  then have "purchase_row i s' = (if r = None \<and> i = j then map_option f (purchase_row i s)
      else purchase_row i s)"
    using g r by (cases "purchase_row i s"; cases "i = j") simp_all
  then show ?thesis by (simp add: f_def)
qed

lemma reversal_nonneg:
  assumes "db_RecordReversal now rin s = (None, s')"
  shows "0 \<le> ri_RefundedAmountMinor rin"
proof -
  let ?p = "\<lambda>p. pu_ID p = ri_PurchaseID rin"
  let ?f = "\<lambda>p. p\<lparr>pu_Status := ri_Status rin, pu_RefundedAmountMinor := ri_RefundedAmountMinor rin,
     pu_UpdatedAt := now\<rparr>"
  from assms have n: "count_where ?p (t_purchases s) \<noteq> 0"
    and ok: "list_all purchase_row_ok (update_where ?p ?f (t_purchases s))"
    by (auto simp: db_RecordReversal_def found_or_missing_def update_purchases_def write_purchases_def
        split: sum.splits if_splits)
  from n obtain q where "q \<in> set (t_purchases s)" "?p q" by (auto simp: count_where_0_iff)
  then have "?f q \<in> set (update_where ?p ?f (t_purchases s))" by (force simp: set_update_where)
  with ok have "purchase_row_ok (?f q)" by (auto simp: list_all_iff)
  then show ?thesis by (simp add: purchase_row_ok_def)
qed

lemma events_get [simp]:
  "purchase_row i (s\<lparr>t_provider_events := t\<rparr>) = purchase_row i s"
  by (simp add: purchase_row_def)

lemma insert_get: "db_InsertProviderEvent fresh now rec s = (x, s') \<Longrightarrow> purchase_row i s' = purchase_row i s"
  by (auto simp: db_InsertProviderEvent_def Let_def split: if_splits)

text \<open>Granting and withdrawing licenses leave the purchases table alone.\<close>

lemma write_licenses_purchases: "write_licenses t s = Inr s' \<Longrightarrow> t_purchases s' = t_purchases s"
  by (simp add: write_licenses_Inr)

lemma license_commit_purchases:
  assumes "license_commit f ids at inp v l e current s = Inr s'"
  shows "t_purchases s' = t_purchases s"
  using assms writeGrant_Inr(5)
  by (fastforce simp: license_commit_def reserve_license_def consume_license_def end_trial_def
      split: sum.splits dest: write_licenses_purchases)

lemma ActivatePurchase_purchases:
  assumes "ActivatePurchase reg f ids now inp s = (r, s')"
  shows "t_purchases s' = t_purchases s"
proof (cases r)
  case (Inl e)
  with assms ActivatePurchase_error show ?thesis by blast
next
  case (Inr anns)
  from assms [unfolded Inr] obtain v l e at s1 where i: "issue_license (fresh_license ids) at inp s = Inr s1"
    and or: "license_check inp l = GateDone \<and> anns = [] \<and> s' = s1 \<or>
     license_check inp l = GateOpen \<and> anns \<noteq> [] \<and>
       license_commit f ids at inp v l e (activeGrant (pi_EventID inp) s1) s1 = Inr s'"
    by (rule ActivatePurchase_gate)
  from i have "t_purchases s1 = t_purchases s"
    by (auto simp: issue_license_def dest: write_licenses_purchases split: if_splits)
  with or license_commit_purchases show ?thesis by metis
qed

lemma RevokeUnconsumed_purchases:
  "RevokeUnconsumed now p s = (r, s') \<Longrightarrow> t_purchases s' = t_purchases s"
  by (auto simp: RevokeUnconsumed_def Let_def dest: write_licenses_purchases split: sum.splits)

interpretation bl: billing_ledger "app_billing E" purchase_row for E
proof unfold_locales
  fix i s p
  show "rp_GetPurchase (bs_repo (app_billing E)) i s = Inr p \<Longrightarrow> purchase_row i s = Some p"
    by (auto simp: app_billing_def gorm_purchases_def db_GetPurchase_def purchase_row_def split: option.splits)
  show "purchase_row i s = Some p \<Longrightarrow> pu_ID p = i"
    by (auto simp: purchase_row_def dest: lookup_row_Some)
next
  fix now inp s r s' i
  assume "rp_SettlePurchase (bs_repo (app_billing E)) now inp s = (r, s')"
  then show "purchase_row i s' = (if r = None \<and> i = si_PurchaseID inp
      then map_option (settled_row now inp) (purchase_row i s) else purchase_row i s)"
    by (intro settle_get) (simp add: app_billing_def gorm_purchases_def)
next
  fix now j st code s r s' i
  assume "rp_UpdateStatus (bs_repo (app_billing E)) now j st code s = (r, s')"
  then show "purchase_row i s' = (if r = None \<and> i = j then map_option (\<lambda>p. p\<lparr>pu_Status := st,
      pu_UpdatedAt := now, pu_FailureCode := (case code of None \<Rightarrow> pu_FailureCode p | Some c \<Rightarrow> Some c)\<rparr>)
      (purchase_row i s) else purchase_row i s)"
    by (intro found_or_missing_get) (simp_all add: app_billing_def gorm_purchases_def db_UpdateStatus_def)
next
  fix now rin s r s' i
  assume "rp_RecordReversal (bs_repo (app_billing E)) now rin s = (r, s')"
  then show "purchase_row i s' = (if r = None \<and> i = ri_PurchaseID rin then map_option
      (\<lambda>p. p\<lparr>pu_Status := ri_Status rin, pu_RefundedAmountMinor := ri_RefundedAmountMinor rin,
         pu_UpdatedAt := now\<rparr>) (purchase_row i s) else purchase_row i s)"
    by (intro found_or_missing_get) (simp_all add: app_billing_def gorm_purchases_def db_RecordReversal_def)
next
  fix now rin s s'
  assume "rp_RecordReversal (bs_repo (app_billing E)) now rin s = (None, s')"
  then show "0 \<le> ri_RefundedAmountMinor rin"
    by (intro reversal_nonneg) (simp add: app_billing_def gorm_purchases_def)
next
  fix now j s r s' i
  assume "rp_MarkEntitlementApplied (bs_repo (app_billing E)) now j s = (r, s')"
  then show "purchase_row i s' = (if r = None \<and> i = j then map_option
      (\<lambda>p. p\<lparr>pu_EntitlementAppliedAt := Some now, pu_UpdatedAt := now\<rparr>) (purchase_row i s)
      else purchase_row i s)"
    by (intro mark_get) (simp add: app_billing_def gorm_purchases_def)
next
  fix rec s x s' i
  assume "rp_InsertProviderEvent (bs_repo (app_billing E)) rec s = (x, s')"
  then show "purchase_row i s' = purchase_row i s"
    by (intro insert_get) (simp add: app_billing_def gorm_purchases_def)
qed (auto simp: app_billing_def gorm_purchases_def db_MarkProviderEventProcessed_def
    db_MarkProviderEventFailed_def ActivateForPurchase_def adapter_RevokeUnconsumed_def
    adapter_SetEventBillingStatus_def purchase_row_def
    dest!: ActivatePurchase_purchases RevokeUnconsumed_purchases split: prod.splits sum.splits)

end

