(* ===== verification/BillingProps.thy ===== *)
theory BillingProps
  imports Ledger
begin

text \<open>
  Properties of the billing service over the database. Frame interfaces say which part of
  the state an operation may touch; the purchase life cycle comes from the ledger.
\<close>

section \<open>Frames\<close>

text \<open>An observation that closing, reversing and withdrawing leave alone.\<close>

locale close_frame =
  fixes S :: "'s billing_service" and obs :: "'s \<Rightarrow> 'o"
  assumes status_frame: "rp_UpdateStatus (bs_repo S) now i st code s = (r, s') \<Longrightarrow> obs s' = obs s"
    and reversal_frame: "rp_RecordReversal (bs_repo S) now rin s = (r, s') \<Longrightarrow> obs s' = obs s"
    and withdraw_frame: "bs_licenses S = Some lic \<Longrightarrow> lr_RevokeUnconsumedLicense lic i s = (b, s') \<Longrightarrow>
      obs s' = obs s"
    and flag_event_frame: "bs_licenses S = Some lic \<Longrightarrow> lr_SetEventBillingStatus lic i es s = (r, s') \<Longrightarrow>
      obs s' = obs s"
begin

lemma failure_frame: "handleFailure S i st s = (r, s') \<Longrightarrow> obs s' = obs s"
  by (auto simp: handleFailure_def dest: status_frame split: sum.splits if_splits)

lemma unwind_frame: "unwind_license S p dispute st s = (r, s') \<Longrightarrow> obs s' = obs s"
proof -
  assume run: "unwind_license S p dispute st s = (r, s')"
  show ?thesis
  proof (cases "bs_licenses S")
    case (Some lic)
    obtain b s1 where b: "lr_RevokeUnconsumedLicense lic (pu_ID p) s = (b, s1)"
      by (cases "lr_RevokeUnconsumedLicense lic (pu_ID p) s") auto
    with run Some have "s' = s1 \<or> (\<exists>es r. lr_SetEventBillingStatus lic (pu_EventID p) es s1 = (r, s'))"
      by (auto simp: unwind_license_def split: sum.splits if_splits)
    with withdraw_frame [OF Some b] flag_event_frame [OF Some] show ?thesis by metis
  qed (use run in \<open>simp add: unwind_license_def\<close>)
qed

lemma handleReversal_frame: "handleReversal S i ev dispute s = (r, s') \<Longrightarrow> obs s' = obs s"
  by (fastforce simp: handleReversal_def dest: status_frame reversal_frame unwind_frame
      split: sum.splits if_splits prod.splits option.splits)

lemma dispute_reversed_frame: "handleDisputeReversed S i ev s = (r, s') \<Longrightarrow> obs s' = obs s"
  by (fastforce simp: handleDisputeReversed_def Let_def dest: reversal_frame flag_event_frame
      split: sum.splits if_splits prod.splits option.splits)

end

text \<open>An observation that deliveries leave alone too, unless they settle a payment.\<close>

locale delivery_frame = close_frame +
  assumes insert_frame: "rp_InsertProviderEvent (bs_repo S) rec s = (x, s') \<Longrightarrow> obs s' = obs s"
    and processed_frame: "rp_MarkProviderEventProcessed (bs_repo S) now i s = (r, s') \<Longrightarrow> obs s' = obs s"
    and failed_frame: "rp_MarkProviderEventFailed (bs_repo S) i err s = (r, s') \<Longrightarrow> obs s' = obs s"
begin

lemma route_close_frame:
  "route_event S i ev s = Some (r, s') \<Longrightarrow> xe_Type ev \<noteq> EventPaymentSettled \<Longrightarrow> obs s' = obs s"
  by (cases "xe_Type ev")
    (auto simp: route_event_def dest: failure_frame handleReversal_frame dispute_reversed_frame)

lemma marks_frame:
  "obs (snd (rp_MarkProviderEventProcessed (bs_repo S) now i s)) = obs s"
  "obs (snd (rp_MarkProviderEventFailed (bs_repo S) i err s)) = obs s"
  by (metis prod.collapse processed_frame) (metis prod.collapse failed_frame)

lemma process_frame:
  assumes "process_event S recID i ev s = (r, s')" "xe_Type ev \<noteq> EventPaymentSettled"
  shows "obs s' = obs s"
proof (cases "route_event S i ev s")
  case None
  with assms show ?thesis by (auto simp: process_event_def Let_def marks_frame split: if_splits)
next
  case (Some es)
  obtain e s1 where es: "es = (e, s1)" by (cases es)
  from route_close_frame [OF Some [unfolded es] assms(2)] Some es assms show ?thesis
    by (auto simp: process_event_def Let_def marks_frame split: if_splits option.splits)
qed

lemma delivery_close_frame:
  assumes "HandleProviderEvent S raw sig s = (r, s')" "bs_decoder S raw sig = Inr ev"
    and "xe_Type ev \<noteq> EventPaymentSettled"
  shows "obs s' = obs s"
proof (cases "event_purchase S ev s")
  case (Inr i)
  obtain x s1 where ins: "rp_InsertProviderEvent (bs_repo S) (event_record S raw ev i) s = (x, s1)"
    by (cases "rp_InsertProviderEvent (bs_repo S) (event_record S raw ev i) s") auto
  with assms Inr have "s' = s1 \<or> process_event S (pe_ID (event_record S raw ev i)) i ev s1 = (r, s')"
    by (auto simp: HandleProviderEvent_def split: sum.splits bool.splits)
  with insert_frame [OF ins] process_frame assms(3) show ?thesis by metis
qed (use assms in \<open>simp add: HandleProviderEvent_def\<close>)

end

text \<open>An observation that every handler leaves alone.\<close>

locale handler_frame = close_frame +
  assumes settle_frame: "rp_SettlePurchase (bs_repo S) now sin s = (r, s') \<Longrightarrow> obs s' = obs s"
    and applied_frame: "rp_MarkEntitlementApplied (bs_repo S) now i s = (r, s') \<Longrightarrow> obs s' = obs s"
    and grant_frame: "bs_grants S gin s = (r, s') \<Longrightarrow> obs s' = obs s"
begin

lemma apply_frame: "applyEntitlement S p txn at s = (r, s') \<Longrightarrow> obs s' = obs s"
proof -
  assume run: "applyEntitlement S p txn at s = (r, s')"
  show ?thesis
  proof (cases "pu_EntitlementAppliedAt p")
    case None
    with run obtain gin e s1 where g: "bs_grants S gin s = (e, s1)"
      and s': "s' = s1 \<or> s' = snd (rp_MarkEntitlementApplied (bs_repo S) (bs_now S) (pu_ID p) s1)"
      by (force simp: applyEntitlement_def Let_def split: prod.splits option.splits if_splits)
    have "obs (snd (rp_MarkEntitlementApplied (bs_repo S) (bs_now S) (pu_ID p) s1)) = obs s1"
      by (metis prod.collapse applied_frame)
    with grant_frame [OF g] s' show ?thesis by metis
  qed (use run in \<open>simp add: applyEntitlement_def\<close>)
qed

lemma settlement_frame: "handleSettlement S i ev s = (r, s') \<Longrightarrow> obs s' = obs s"
  by (fastforce simp: handleSettlement_def dest: apply_frame settle_frame
      split: sum.splits if_splits prod.splits)

lemma route_frame: "route_event S i ev s = Some (r, s') \<Longrightarrow> obs s' = obs s"
  by (cases "xe_Type ev")
    (auto simp: route_event_def dest: failure_frame handleReversal_frame dispute_reversed_frame
      settlement_frame)

end

section \<open>What reversals leave alone\<close>

text \<open>Grants, media, audits, consumed licenses, and events up to their billing flag.\<close>

definition kept_by_reversal ::
  "db \<Rightarrow> grant list \<times> media list \<times> audit list \<times> event_license list \<times> event list" where
  "kept_by_reversal s = (t_grants s, t_media s, t_audits s,
     filter (\<lambda>l. li_Status l = LicenseConsumed) (t_licenses s),
     map (\<lambda>e. e\<lparr>ev_BillingStatus := EventBillingOK\<rparr>) (t_events s))"

lemma update_purchases_frame:
  "update_purchases p f s = (r, s') \<Longrightarrow> \<exists>t. s' = s\<lparr>t_purchases := t\<rparr>"
proof -
  assume "update_purchases p f s = (r, s')"
  then have "s' = s \<or> s' = s\<lparr>t_purchases := update_where p f (t_purchases s)\<rparr>"
    by (auto simp: update_purchases_def write_purchases_def split: sum.splits if_splits)
  moreover have "s = s\<lparr>t_purchases := t_purchases s\<rparr>" by simp
  ultimately show ?thesis by metis
qed

lemma found_or_missing_frame:
  "found_or_missing (update_purchases p f s) = (r, s') \<Longrightarrow> \<exists>t. s' = s\<lparr>t_purchases := t\<rparr>"
  using update_purchases_frame [of p f s]
  by (cases "update_purchases p f s") (auto simp: found_or_missing_def split: sum.splits)

lemma kept_frames [simp]:
  "kept_by_reversal (s\<lparr>t_purchases := t\<rparr>) = kept_by_reversal s"
  "kept_by_reversal (s\<lparr>t_provider_events := u\<rparr>) = kept_by_reversal s"
  by (simp_all add: kept_by_reversal_def)

lemma revoke_kept:
  assumes "RevokeUnconsumed now i s = (b, s')"
  shows "kept_by_reversal s' = kept_by_reversal s"
proof -
  let ?p = "\<lambda>l. li_PurchaseID l = Some i \<and> li_Status l \<in> {LicenseAvailable, LicenseReserved}"
  let ?f = "\<lambda>l. l\<lparr>li_Status := LicenseRevoked, li_RevokedAt := Some now\<rparr>"
  have "filter (\<lambda>l. li_Status l = LicenseConsumed) (update_where ?p ?f t) =
      filter (\<lambda>l. li_Status l = LicenseConsumed) t" for t
    by (induction t) auto
  moreover from assms have "s' = s \<or> s' = s\<lparr>t_licenses := update_where ?p ?f (t_licenses s)\<rparr>"
    by (auto simp: RevokeUnconsumed_def write_licenses_Inr Let_def split: sum.splits)
  ultimately show ?thesis by (auto simp: kept_by_reversal_def)
qed

lemma flag_kept:
  "kept_by_reversal (s\<lparr>t_events := update_where p (\<lambda>e. e\<lparr>ev_BillingStatus := es\<rparr>) (t_events s)\<rparr>) =
     kept_by_reversal s"
  by (simp add: kept_by_reversal_def update_where_def)

lemma insert_events_frame:
  assumes "db_InsertProviderEvent fresh now rec s = (x, s')"
  shows "s' = s\<lparr>t_provider_events := t_provider_events s'\<rparr>"
  using assms by (auto simp: db_InsertProviderEvent_def Let_def split: if_splits)
interpretation kept: delivery_frame "app_billing E" kept_by_reversal for E
proof unfold_locales
  fix now i st code s r s'
  assume "rp_UpdateStatus (bs_repo (app_billing E)) now i st code s = (r, s')"
  then have "\<exists>t. s' = s\<lparr>t_purchases := t\<rparr>"
    by (intro found_or_missing_frame) (simp add: app_billing_def gorm_purchases_def db_UpdateStatus_def)
  then show "kept_by_reversal s' = kept_by_reversal s" by auto
next
  fix now rin s r s'
  assume "rp_RecordReversal (bs_repo (app_billing E)) now rin s = (r, s')"
  then have "\<exists>t. s' = s\<lparr>t_purchases := t\<rparr>"
    by (intro found_or_missing_frame) (simp add: app_billing_def gorm_purchases_def db_RecordReversal_def)
  then show "kept_by_reversal s' = kept_by_reversal s" by auto
next
  fix rec s x s'
  assume "rp_InsertProviderEvent (bs_repo (app_billing E)) rec s = (x, s')"
  then have "s' = s\<lparr>t_provider_events := t_provider_events s'\<rparr>"
    by (intro insert_events_frame) (simp add: app_billing_def gorm_purchases_def)
  then show "kept_by_reversal s' = kept_by_reversal s" by (metis kept_frames(2))
qed (auto simp: app_billing_def gorm_purchases_def db_MarkProviderEventProcessed_def
    db_MarkProviderEventFailed_def adapter_RevokeUnconsumed_def adapter_SetEventBillingStatus_def
    revoke_kept flag_kept)

text \<open>The log of deliveries, which no handler writes.\<close>

lemma write_licenses_events: "write_licenses t s = Inr s' \<Longrightarrow> t_provider_events s' = t_provider_events s"
  by (simp add: write_licenses_Inr)

lemma writeGrant_events: "writeGrant a g p target reason s = Inr s' \<Longrightarrow> t_provider_events s' = t_provider_events s"
  by (auto simp: writeGrant_def Let_def create_grant_def writeAudit_def applyHotLimits_def
      set_grant_status_def split: option.splits sum.splits if_splits)

lemma ActivatePurchase_events:
  assumes "ActivatePurchase reg f ids now inp s = (r, s')"
  shows "t_provider_events s' = t_provider_events s"
proof (cases r)
  case (Inl e)
  with assms ActivatePurchase_error show ?thesis by blast
next
  case (Inr anns)
  from assms [unfolded Inr] obtain v l e at s1 where i: "issue_license (fresh_license ids) at inp s = Inr s1"
    and or: "license_check inp l = GateDone \<and> anns = [] \<and> s' = s1 \<or>
     license_check inp l = GateOpen \<and> anns \<noteq> [] \<and>
       license_commit f ids at inp v l e (activeGrant (pi_EventID inp) s1) s1 = Inr s'"
    by (rule ActivatePurchase_gate)
  from i have 1: "t_provider_events s1 = t_provider_events s"
    by (auto simp: issue_license_def dest: write_licenses_events split: if_splits)
  have "license_commit f ids at inp v l e c s1 = Inr s' \<Longrightarrow> t_provider_events s' = t_provider_events s1" for c
    by (fastforce simp: license_commit_def reserve_license_def consume_license_def end_trial_def
        split: sum.splits dest: write_licenses_events writeGrant_events)
  with or 1 show ?thesis by metis
qed

lemma RevokeUnconsumed_events:
  "RevokeUnconsumed now p s = (r, s') \<Longrightarrow> t_provider_events s' = t_provider_events s"
  by (auto simp: RevokeUnconsumed_def Let_def dest: write_licenses_events split: sum.splits)

interpretation log: handler_frame "app_billing E" t_provider_events for E
proof unfold_locales
  fix now i st code s r s'
  assume "rp_UpdateStatus (bs_repo (app_billing E)) now i st code s = (r, s')"
  then have "\<exists>t. s' = s\<lparr>t_purchases := t\<rparr>"
    by (intro found_or_missing_frame) (simp add: app_billing_def gorm_purchases_def db_UpdateStatus_def)
  then show "t_provider_events s' = t_provider_events s" by auto
next
  fix now rin s r s'
  assume "rp_RecordReversal (bs_repo (app_billing E)) now rin s = (r, s')"
  then have "\<exists>t. s' = s\<lparr>t_purchases := t\<rparr>"
    by (intro found_or_missing_frame) (simp add: app_billing_def gorm_purchases_def db_RecordReversal_def)
  then show "t_provider_events s' = t_provider_events s" by auto
next
  fix now inp s r s'
  assume "rp_SettlePurchase (bs_repo (app_billing E)) now inp s = (r, s')"
  then have "\<exists>u. update_purchases (\<lambda>p. pu_ID p = si_PurchaseID inp \<and> pu_Status p \<noteq> StatusSettled)
      (settled_row now inp) s = (u, s')"
    by (auto simp: app_billing_def gorm_purchases_def db_SettlePurchase_def
        split: prod.splits sum.splits if_splits option.splits)
  then show "t_provider_events s' = t_provider_events s" by (auto dest: update_purchases_frame)
next
  fix now i s r s'
  assume "rp_MarkEntitlementApplied (bs_repo (app_billing E)) now i s = (r, s')"
  then have "\<exists>u. update_purchases (\<lambda>p. pu_ID p = i)
      (\<lambda>p. p\<lparr>pu_EntitlementAppliedAt := Some now, pu_UpdatedAt := now\<rparr>) s = (u, s')"
    by (auto simp: app_billing_def gorm_purchases_def db_MarkEntitlementApplied_def
        split: prod.splits sum.splits)
  then show "t_provider_events s' = t_provider_events s" by (auto dest: update_purchases_frame)
qed (auto simp: app_billing_def ActivateForPurchase_def adapter_RevokeUnconsumed_def
    adapter_SetEventBillingStatus_def dest!: ActivatePurchase_events RevokeUnconsumed_events
    split: prod.splits sum.splits)
section \<open>Properties of deliveries\<close>

text \<open>C4: the service refines the purchase life cycle. Whatever a delivery does, each stored
purchase keeps its money columns or makes one step of \<open>purchase_step\<close> for the event that was
decoded: settle when the amounts match, close when nothing was paid, reverse, or restore.\<close>

theorem delivery_refines_lifecycle:
  assumes "HandleProviderEvent (app_billing E) raw sig s = (r, s')" "purchase_row i s = Some p"
  shows "\<exists>p'. purchase_row i s' = Some p' \<and>
    (erase p' = erase p \<or> (\<exists>ev. en_decoder E raw sig = Inr ev \<and> purchase_step ev p p'))"
proof -
  obtain p' where "purchase_row i s' = Some p'" "erase p' = erase p \<or>
      (\<exists>ev. bs_decoder (app_billing E) raw sig = Inr ev \<and> purchase_step ev p p')"
    by (rule bl.delivery_moves [OF assms])
  then show ?thesis by (auto simp: app_billing_def)
qed

lemma fx_bill_paid: "HandleProviderEvent (fx_bill 0) ''paid'' ''sig'' fx_ordered = (None, fx_settled)"
  using fx_paid_runs unfolding fx_settled_def by (metis prod.collapse)

lemma fx_ordered_row: "\<exists>p. purchase_row 60 fx_ordered = Some p \<and> \<not> PostSettlement (pu_Status p) \<and>
  pu_QuotedAmountMinor p = 4900"
proof -
  have "map_option (\<lambda>p. (PostSettlement (pu_Status p), pu_QuotedAmountMinor p)) (purchase_row 60 fx_ordered) =
      Some (False, 4900)"
    by code_simp
  then show ?thesis by auto
qed

lemma fx_settled_row: "\<exists>p. purchase_row 60 fx_settled = Some p \<and> pu_Status p = StatusSettled \<and>
  pu_SettledTotalMinor p = Some 4900 \<and> pu_EntitlementAppliedAt p \<noteq> None \<and> pu_RefundedAmountMinor p = 0"
proof -
  have "map_option (\<lambda>p. (pu_Status p, pu_SettledTotalMinor p, pu_EntitlementAppliedAt p,
      pu_RefundedAmountMinor p)) (purchase_row 60 fx_settled) =
      Some (StatusSettled, Some 4900, Some 60, 0)"
    by code_simp
  then show ?thesis by auto
qed

theorem delivery_refines_lifecycle_witness:
  "\<exists>p p'. purchase_row 60 fx_ordered = Some p \<and> purchase_row 60 fx_settled = Some p' \<and>
     (erase p' = erase p \<or> (\<exists>ev. fx_decoder ''paid'' ''sig'' = Inr ev \<and> purchase_step ev p p'))"
proof -
  from fx_ordered_row obtain p where p: "purchase_row 60 fx_ordered = Some p" by blast
  from delivery_refines_lifecycle [OF fx_bill_paid p] p show ?thesis by (simp add: fx_env_def)
qed

text \<open>Any number of deliveries, each with its own clock and fresh ids.\<close>

fun deliver :: "(app_env \<times> string \<times> string) list \<Rightarrow> db \<Rightarrow> db" where
  "deliver [] s = s"
| "deliver ((E, raw, sig) # ms) s = deliver ms (snd (HandleProviderEvent (app_billing E) raw sig s))"

lemma step_or_same:
  assumes "purchase_row i s = Some p"
  obtains p' where "purchase_row i (snd (HandleProviderEvent (app_billing E) raw sig s)) = Some p'"
    "purchase_step ev p p' \<or> (\<exists>ev. en_decoder E raw sig = Inr ev \<and> purchase_step ev p p')"
proof -
  obtain r s' where run: "HandleProviderEvent (app_billing E) raw sig s = (r, s')"
    by (cases "HandleProviderEvent (app_billing E) raw sig s") auto
  from delivery_refines_lifecycle [OF run assms] run that show ?thesis
    by (auto intro: step_keep)
qed

text \<open>Paid is final. Once a purchase reached settlement, no sequence of notifications, in any
order and with any repetition, takes it back to open, failed or canceled, changes what was
settled, or changes its terms of sale.\<close>

theorem settled_is_final:
  assumes "purchase_row i s = Some p" "PostSettlement (pu_Status p)"
  shows "\<exists>p'. purchase_row i (deliver ms s) = Some p' \<and> PostSettlement (pu_Status p') \<and>
    pu_SettledTotalMinor p' = pu_SettledTotalMinor p \<and>
    pu_QuotedAmountMinor p' = pu_QuotedAmountMinor p \<and> pu_EventID p' = pu_EventID p \<and>
    pu_HostID p' = pu_HostID p \<and> pu_PlanVersionID p' = pu_PlanVersionID p"
  using assms
proof (induction ms arbitrary: s p)
  case (Cons m ms)
  obtain E raw sig where m: "m = (E, raw, sig)" by (cases m)
  from step_or_same [OF Cons.prems(1), of E raw sig] obtain p' ev where
    p': "purchase_row i (snd (HandleProviderEvent (app_billing E) raw sig s)) = Some p'"
    and st: "purchase_step ev p p'" by metis
  from Cons.IH [OF p' step_post [OF st Cons.prems(2)]] step_terms [OF st] Cons.prems(2) m
  show ?case by auto
qed simp

theorem settled_is_final_witness:
  "\<exists>p'. purchase_row 60 (deliver [(fx_env 0, ''failed'', ''sig''), (fx_env 0, ''refund'', ''sig'')] fx_settled)
     = Some p' \<and> PostSettlement (pu_Status p') \<and> pu_SettledTotalMinor p' = Some 4900"
proof -
  from fx_settled_row obtain p where p: "purchase_row 60 fx_settled = Some p" "pu_Status p = StatusSettled"
      "pu_SettledTotalMinor p = Some 4900" by blast
  then have "PostSettlement (pu_Status p)" by simp
  from settled_is_final [OF p(1) this, of "[(fx_env 0, ''failed'', ''sig''), (fx_env 0, ''refund'', ''sig'')]"] p(3)
  show ?thesis by auto
qed

text \<open>C5: money is recorded only when it is the money that was quoted. A purchase that becomes
settled did so by a settlement notification whose subtotal is the quoted amount, in the quoted
currency, at the price snapshotted at checkout.\<close>

theorem settlement_matches_quote:
  assumes "HandleProviderEvent (app_billing E) raw sig s = (r, s')"
    and "purchase_row i s = Some p" "\<not> PostSettlement (pu_Status p)"
    and "purchase_row i s' = Some p'" "PostSettlement (pu_Status p')"
  shows "\<exists>ev. en_decoder E raw sig = Inr ev \<and> xe_Type ev = EventPaymentSettled \<and>
    mn_AmountMinor (xe_Subtotal ev) = pu_QuotedAmountMinor p \<and>
    mn_Currency (xe_Subtotal ev) = pu_QuotedCurrency p \<and> mn_Currency (xe_Total ev) = pu_QuotedCurrency p \<and>
    (pu_ProviderPriceID p \<noteq> '''' \<longrightarrow> xe_PriceID ev = pu_ProviderPriceID p) \<and>
    pu_Status p' = StatusSettled \<and> pu_SettledTotalMinor p' = Some (mn_AmountMinor (xe_Total ev))"
proof -
  from delivery_refines_lifecycle [OF assms(1,2)] assms(4)
  consider "erase p' = erase p" | ev where "en_decoder E raw sig = Inr ev" "purchase_step ev p p'"
    by auto
  then show ?thesis
  proof cases
    case 1
    then have "pu_Status p' = pu_Status p" by (auto dest: erase_fields)
    with assms(3,5) show ?thesis by simp
  next
    case 2
    from step_settles [OF 2(2) assms(3,5)] 2(1) show ?thesis by (auto simp: integrity_ok_def)
  qed
qed

theorem settlement_matches_quote_witness:
  "\<exists>ev. fx_decoder ''paid'' ''sig'' = Inr ev \<and> mn_AmountMinor (xe_Subtotal ev) = 4900"
proof -
  from fx_ordered_row obtain p where p: "purchase_row 60 fx_ordered = Some p" "\<not> PostSettlement (pu_Status p)"
      "pu_QuotedAmountMinor p = 4900" by blast
  from fx_settled_row obtain p' where p': "purchase_row 60 fx_settled = Some p'" "pu_Status p' = StatusSettled"
    by blast
  from p'(2) have "PostSettlement (pu_Status p')" by simp
  from settlement_matches_quote [OF fx_bill_paid p(1,2) p'(1) this] p(3) show ?thesis
    by (auto simp: fx_env_def)
qed



text \<open>C9: billing never takes an event away. A failure, cancellation, refund, chargeback or reversed
chargeback leaves every grant, media row, audit row and consumed license as it was, and events
too but for their billing flag.\<close>

theorem reversal_keeps_event:
  assumes "HandleProviderEvent (app_billing E) raw sig s = (r, s')"
    and "en_decoder E raw sig = Inr ev" "xe_Type ev \<noteq> EventPaymentSettled"
  shows "t_grants s' = t_grants s \<and> t_media s' = t_media s \<and> t_audits s' = t_audits s \<and>
    filter (\<lambda>l. li_Status l = LicenseConsumed) (t_licenses s') =
      filter (\<lambda>l. li_Status l = LicenseConsumed) (t_licenses s) \<and>
    map (\<lambda>e. e\<lparr>ev_BillingStatus := EventBillingOK\<rparr>) (t_events s') =
      map (\<lambda>e. e\<lparr>ev_BillingStatus := EventBillingOK\<rparr>) (t_events s)"
proof -
  from assms(2) have "bs_decoder (app_billing E) raw sig = Inr ev" by (simp add: app_billing_def)
  from kept.delivery_close_frame [OF assms(1) this assms(3)] show ?thesis
    by (simp add: kept_by_reversal_def)
qed

theorem reversal_keeps_event_witness:
  "t_grants (snd (HandleProviderEvent (fx_bill 0) ''dispute'' ''sig'' fx_settled)) = t_grants fx_settled"
proof -
  obtain r s' where run: "HandleProviderEvent (fx_bill 0) ''dispute'' ''sig'' fx_settled = (r, s')"
    by (cases "HandleProviderEvent (fx_bill 0) ''dispute'' ''sig'' fx_settled") auto
  have "en_decoder (fx_env 0) ''dispute'' ''sig'' = Inr (fx_notice ''e6'' EventPaymentDisputed 0 ''txn_1'' 0 4900)"
    by (simp add: fx_env_def fx_decoder_def)
  from reversal_keeps_event [OF run this] run show ?thesis by (simp add: fx_notice_def)
qed
section \<open>Deduplication\<close>

definition dedupe_key :: "provider_event \<Rightarrow> string" where
  "dedupe_key ev = (if xe_DedupeKey ev = '''' then xe_ExternalEventID ev else xe_DedupeKey ev)"

text \<open>A key that is in the log, and has no failed delivery to reclaim.\<close>

definition key_done :: "provider \<Rightarrow> string \<Rightarrow> uuid \<Rightarrow> db \<Rightarrow> bool" where
  "key_done prov key i s \<longleftrightarrow>
     (\<exists>x \<in> set (t_provider_events s). pe_Provider x = prov \<and> pe_ExternalEventID x = key) \<and>
     (\<forall>x \<in> set (t_provider_events s). pe_ID x = i \<longrightarrow> pe_Status x \<noteq> DeliveryFailed)"

lemma event_record_simps [simp]:
  "pe_ID (event_record S raw ev j) = bs_event_id S (bs_provider S) (dedupe_key ev)"
  "pe_Provider (event_record S raw ev j) = bs_provider S"
  "pe_ExternalEventID (event_record S raw ev j) = dedupe_key ev"
  by (simp_all add: event_record_def dedupe_key_def Let_def)

lemma insert_key_done:
  assumes "key_done (pe_Provider rec) (pe_ExternalEventID rec) (pe_ID rec) s" "pe_ID rec \<noteq> uuid_nil"
  shows "db_InsertProviderEvent fresh now rec s = (Inr True, s)"
proof -
  let ?q = "\<lambda>x. pe_ID x = pe_ID rec \<and> pe_Status x = DeliveryFailed"
  from assms have none: "\<forall>x \<in> set (t_provider_events s). \<not> ?q x" by (auto simp: key_done_def)
  then have "count_where ?q (t_provider_events s) = 0" by (simp add: count_where_0_iff)
  with assms update_where_none [OF none] show ?thesis
    by (auto simp: db_InsertProviderEvent_def Let_def key_done_def)
qed

lemma app_event_purchase: "\<exists>j. event_purchase (app_billing E) ev s = Inr j"
  by (auto simp: event_purchase_def app_billing_def gorm_purchases_def
      db_PurchaseByProviderTransaction_def split: option.splits)

lemma redelivery_done:
  assumes "key_done (en_provider E) (dedupe_key ev) (en_event_id E (en_provider E) (dedupe_key ev)) s"
    and "en_decoder E raw sig = Inr ev" "en_event_id E (en_provider E) (dedupe_key ev) \<noteq> uuid_nil"
  shows "HandleProviderEvent (app_billing E) raw sig s = (None, s)"
proof -
  obtain j where j: "event_purchase (app_billing E) ev s = Inr j"
    using app_event_purchase [of E ev s] by blast
  have "rp_InsertProviderEvent (bs_repo (app_billing E)) (event_record (app_billing E) raw ev j) s = (Inr True, s)"
    using insert_key_done [of "event_record (app_billing E) raw ev j" s "en_fresh E" "en_now E"] assms(1,3)
    by (simp add: app_billing_def gorm_purchases_def)
  with j assms(2) show ?thesis
    by (simp add: HandleProviderEvent_def app_billing_def)
qed

lemma keyed_count_failed:
  assumes "keyed pe_ID t" "count_where (\<lambda>x. pe_ID x = i \<and> pe_Status x = DeliveryFailed) t \<noteq> 1"
  shows "\<forall>x \<in> set t. pe_ID x = i \<longrightarrow> pe_Status x \<noteq> DeliveryFailed"
  using assms
proof (induction t)
  case (Cons y t)
  then show ?case
    by (auto simp: keyed_def count_where_0_iff split: if_splits) (metis image_eqI)+
qed simp

lemma insert_logged:
  assumes "db_InsertProviderEvent fresh now rec s = (Inr d, s')" "pe_ID rec \<noteq> uuid_nil"
  shows "\<exists>x \<in> set (t_provider_events s'). pe_Provider x = pe_Provider rec \<and>
    pe_ExternalEventID x = pe_ExternalEventID rec"
proof (cases "\<exists>x \<in> set (t_provider_events s). pe_Provider x = pe_Provider rec \<and>
    pe_ExternalEventID x = pe_ExternalEventID rec")
  case True
  then obtain x where x: "x \<in> set (t_provider_events s)" "pe_Provider x = pe_Provider rec"
    "pe_ExternalEventID x = pe_ExternalEventID rec" by blast
  let ?q = "\<lambda>x. pe_ID x = pe_ID rec \<and> pe_Status x = DeliveryFailed"
  let ?f = "\<lambda>x. x\<lparr>pe_Status := DeliveryReceived, pe_LastError := None\<rparr>"
  from True assms have "t_provider_events s' = update_where ?q ?f (t_provider_events s)"
    by (auto simp: db_InsertProviderEvent_def Let_def split: if_splits)
  with x(1) have "(if ?q x then ?f x else x) \<in> set (t_provider_events s')"
    by (auto simp: set_update_where)
  with x(2,3) show ?thesis by (metis (no_types, lifting) provider_event_record.ext_inject
      provider_event_record.surjective provider_event_record.update_convs(7,9))
next
  case False
  with assms show ?thesis by (auto simp: db_InsertProviderEvent_def Let_def split: if_splits)
qed
lemma insert_duplicate_done:
  assumes "db_InsertProviderEvent fresh now rec s = (Inr True, s')" "pe_ID rec \<noteq> uuid_nil"
    and "keyed pe_ID (t_provider_events s)"
  shows "key_done (pe_Provider rec) (pe_ExternalEventID rec) (pe_ID rec) s'"
proof -
  let ?q = "\<lambda>x. pe_ID x = pe_ID rec \<and> pe_Status x = DeliveryFailed"
  from assms(1,2) have "count_where ?q (t_provider_events s) \<noteq> 1"
    and s': "t_provider_events s' = update_where ?q
      (\<lambda>x. x\<lparr>pe_Status := DeliveryReceived, pe_LastError := None\<rparr>) (t_provider_events s)"
    by (auto simp: db_InsertProviderEvent_def Let_def split: if_splits)
  from keyed_count_failed [OF assms(3) this(1)] have none: "\<forall>x \<in> set (t_provider_events s). \<not> ?q x"
    by blast
  with s' have "t_provider_events s' = t_provider_events s" by (simp add: update_where_none)
  with none insert_logged [OF assms(1,2)] show ?thesis by (auto simp: key_done_def)
qed

lemma processed_done:
  assumes "\<exists>x \<in> set (t_provider_events s). pe_Provider x = prov \<and> pe_ExternalEventID x = key"
  shows "key_done prov key i (snd (db_MarkProviderEventProcessed now i s))"
proof -
  let ?t = "update_where (\<lambda>x. pe_ID x = i)
     (\<lambda>x. x\<lparr>pe_Status := DeliveryProcessed, pe_ProcessedAt := Some now\<rparr>) (t_provider_events s)"
  from assms obtain x where x: "x \<in> set (t_provider_events s)" "pe_Provider x = prov"
    "pe_ExternalEventID x = key" by blast
  let ?x = "if pe_ID x = i then x\<lparr>pe_Status := DeliveryProcessed, pe_ProcessedAt := Some now\<rparr> else x"
  have in_t: "?x \<in> set ?t" using x(1) by (auto simp: set_update_where)
  have t: "t_provider_events (snd (db_MarkProviderEventProcessed now i s)) = ?t"
    by (simp add: db_MarkProviderEventProcessed_def)
  have none: "pe_Status y \<noteq> DeliveryFailed" if y: "y \<in> set ?t" "pe_ID y = i" for y
    using y(1) by (rule in_update_whereE) (use y(2) in \<open>simp split: if_splits\<close>)
  show ?thesis
    unfolding key_done_def t
  proof (intro conjI ballI impI bexI [OF _ in_t] none)
    show "pe_Provider ?x = prov" "pe_ExternalEventID ?x = key" using x by simp_all
  qed
qed

text \<open>A successful delivery leaves its key done.\<close>

lemma delivery_done:
  assumes run: "HandleProviderEvent (app_billing E) raw sig s = (None, s')"
    and ev: "en_decoder E raw sig = Inr ev" and k: "keyed pe_ID (t_provider_events s)"
    and nn: "en_event_id E (en_provider E) (dedupe_key ev) \<noteq> uuid_nil"
  shows "key_done (en_provider E) (dedupe_key ev) (en_event_id E (en_provider E) (dedupe_key ev)) s'"
proof -
  let ?S = "app_billing E" and ?i = "en_event_id E (en_provider E) (dedupe_key ev)"
  have ids: "bs_provider ?S = en_provider E" "bs_event_id ?S = en_event_id E"
    "bs_decoder ?S = en_decoder E" by (simp_all add: app_billing_def)
  obtain j where j: "event_purchase ?S ev s = Inr j" using app_event_purchase [of E ev s] by blast
  let ?rec = "event_record ?S raw ev j"
  obtain x s1 where ins: "db_InsertProviderEvent (en_fresh E) (en_now E) ?rec s = (x, s1)"
    by (cases "db_InsertProviderEvent (en_fresh E) (en_now E) ?rec s") auto
  then have rp: "rp_InsertProviderEvent (bs_repo ?S) ?rec s = (x, s1)"
    by (simp add: app_billing_def gorm_purchases_def)
  from run ev j rp ids obtain d where d: "x = Inr d"
    and alt: "d \<and> s' = s1 \<or> \<not> d \<and> process_event ?S ?i j ev s1 = (None, s')"
    by (auto simp: HandleProviderEvent_def split: sum.splits bool.splits)
  have pid: "pe_ID ?rec \<noteq> uuid_nil" using nn ids by simp
  note logged = insert_logged [OF ins [unfolded d] pid]
  from alt show ?thesis
  proof
    assume "d \<and> s' = s1"
    with insert_duplicate_done [of "en_fresh E" "en_now E" ?rec s s1] ins d pid k ids show ?thesis by simp
  next
    assume "\<not> d \<and> process_event ?S ?i j ev s1 = (None, s')"
    then obtain s2 where s': "s' = snd (rp_MarkProviderEventProcessed (bs_repo ?S) (bs_now ?S) ?i s2)"
      and s2: "s2 = s1 \<or> (\<exists>r. route_event ?S j ev s1 = Some (r, s2))"
      by (auto simp: process_event_def Let_def split: if_splits option.splits)
    from s2 log.route_frame have "t_provider_events s2 = t_provider_events s1" by blast
    with logged ids processed_done [of s2 "en_provider E" "dedupe_key ev" ?i "bs_now ?S"] s'
    show ?thesis by (simp add: app_billing_def gorm_purchases_def)
  qed
qed

text \<open>C7: a notification takes effect once. After a delivery succeeded, every later delivery whose
event has the same deduplication key, under any notification id, clock or fresh ids, succeeds and
changes nothing at all.\<close>

theorem delivery_exactly_once:
  assumes "HandleProviderEvent (app_billing E) raw sig s = (None, s')"
    and "en_decoder E raw sig = Inr ev" "keyed pe_ID (t_provider_events s)"
    and "en_event_id E (en_provider E) (dedupe_key ev) \<noteq> uuid_nil"
    and "en_provider E' = en_provider E" "en_event_id E' = en_event_id E"
    and "en_decoder E' raw' sig' = Inr ev'" "dedupe_key ev' = dedupe_key ev"
  shows "HandleProviderEvent (app_billing E') raw' sig' s' = (None, s')"
  using delivery_done [OF assms(1-4)] redelivery_done [of E' ev' s' raw' sig'] assms(4-8) by simp

theorem delivery_exactly_once_witness:
  "HandleProviderEvent (fx_bill 1) ''paid'' ''sig'' fx_settled = (None, fx_settled)"
proof (rule delivery_exactly_once [OF fx_bill_paid])
  show "keyed pe_ID (t_provider_events fx_ordered)"
  proof -
    have "t_provider_events fx_ordered = []" by code_simp
    then show ?thesis by (simp add: keyed_def)
  qed
  show "en_decoder (fx_env 0) ''paid'' ''sig'' = Inr (fx_notice ''e1'' EventPaymentSettled 60 ''txn_1'' 4900 0)"
    and "en_decoder (fx_env 1) ''paid'' ''sig'' = Inr (fx_notice ''e1'' EventPaymentSettled 60 ''txn_1'' 4900 0)"
    by (simp_all add: fx_env_def fx_decoder_def)
  show "en_event_id (fx_env 0) (en_provider (fx_env 0))
      (dedupe_key (fx_notice ''e1'' EventPaymentSettled 60 ''txn_1'' 4900 0)) \<noteq> uuid_nil"
    by (simp add: fx_env_def fx_event_id_def dedupe_key_def fx_notice_def)
qed (simp_all add: fx_env_def)

end
