(* ===== verification/PaidProps.thy ===== *)
theory PaidProps
  imports BillingProps
begin

text \<open>
  Money and plans: a settled payment is applied to its event exactly when its license can
  be consumed, and reconciliation converges.
\<close>

section \<open>Applying a settled purchase\<close>

text \<open>No path of the license transaction reports a duplicate source reference.\<close>

lemma db_only:
  "issue_license i at inp s = Inl e \<Longrightarrow> \<exists>d. e = DB d"
  "writeGrant a g c target reason s = Inl e \<Longrightarrow> \<exists>d. e = DB d"
  "reserve_license i j at s = Inl e \<Longrightarrow> \<exists>d. e = DB d"
  "consume_license i j at s = Inl e \<Longrightarrow> \<exists>d. e = DB d"
  by (auto simp: issue_license_def write_licenses_def reserve_license_def consume_license_def
      writeGrant_def create_grant_def Let_def split: if_splits sum.splits)

lemma commit_db_only: "license_commit f ids at inp v l ev c s = Inl e \<Longrightarrow> \<exists>d. e = DB d"
  by (auto simp: license_commit_def dest: db_only split: sum.splits)

lemma license_check_errors:
  "license_check inp l = GateClosed e \<Longrightarrow> e \<noteq> Entitlement ErrDuplicateSourceReference"
  by (auto simp: license_check_def split: if_splits)

lemma transition_errors: "CheckTransition reg from to = Some e \<Longrightarrow> e \<noteq> Entitlement ErrDuplicateSourceReference"
  by (auto simp: CheckTransition_def split: if_splits option.splits)

lemma license_tx_no_dup:
  "license_tx reg f ids at inp s = Inl e \<Longrightarrow> e \<noteq> Entitlement ErrDuplicateSourceReference"
  by (auto simp: license_tx_def Let_def
      dest: db_only commit_db_only license_check_errors transition_errors
      split: option.splits sum.splits license_gate.splits if_splits)

lemma ActivatePurchase_no_dup:
  "ActivatePurchase reg f ids now inp s = (Inl e, s') \<Longrightarrow> e \<noteq> Entitlement ErrDuplicateSourceReference"
  by (auto simp: ActivatePurchase_def Let_def transaction_Inl dest: license_tx_no_dup)

lemma ActivatePurchase_consumed:
  assumes "ActivatePurchase reg f ids now inp s = (Inr anns, s')" "licenses_inv s"
  shows "\<exists>l \<in> set (t_licenses s'). li_PurchaseID l = Some (pi_PurchaseID inp) \<and>
    li_Status l = LicenseConsumed \<and> li_ConsumedEventID l = Some (pi_EventID inp)"
proof (cases anns)
  case (Cons ch chs)
  from ActivatePurchase_effect [OF assms(2) assms(1) [unfolded Cons]] show ?thesis
    by (auto simp: find_Some_iff)
next
  case Nil
  from assms(1) obtain l s1 where
      f: "find (\<lambda>l. li_PurchaseID l = Some (pi_PurchaseID inp)) (t_licenses s1) = Some l"
    and c: "license_check inp l = GateDone" "s' = s1"
    by (rule ActivatePurchase_gate) (use Nil in auto)
  from c(1) have "li_Status l = LicenseConsumed" "li_ConsumedEventID l = Some (pi_EventID inp)"
    by (auto simp: license_check_def split: if_splits)
  with f c(2) show ?thesis by (auto simp: find_Some_iff)
qed

text \<open>Marking a purchase applied cannot fail, nor touch anything but its row.\<close>

definition mark_applied :: "time \<Rightarrow> uuid \<Rightarrow> db \<Rightarrow> db" where
  "mark_applied now i s = s\<lparr>t_purchases := update_where (\<lambda>p. pu_ID p = i)
     (\<lambda>p. p\<lparr>pu_EntitlementAppliedAt := Some now, pu_UpdatedAt := now\<rparr>) (t_purchases s)\<rparr>"

lemma update_where_filter:
  "(\<And>r. p r \<Longrightarrow> q (f r) = q r) \<Longrightarrow> filter q (update_where p f t) = update_where p f (filter q t)"
  by (induction t) auto

lemma mark_keys: "purchases_inv s \<Longrightarrow> purchases_inv (mark_applied now i s)"
  by (auto simp: purchases_inv_def mark_applied_def purchase_keys_ok_def map_update_where_same
      update_where_filter list_all_iff purchase_row_ok_def elim!: in_update_whereE)

lemma mark_ok:
  assumes "purchases_inv s"
  shows "db_MarkEntitlementApplied now i s = (None, mark_applied now i s)"
  using mark_keys [OF assms, of now i]
  by (simp add: db_MarkEntitlementApplied_def update_purchases_def write_purchases_def
      purchases_inv_def mark_applied_def)

lemma mark_row:
  "purchase_row i (mark_applied now i s) = map_option
     (\<lambda>p. p\<lparr>pu_EntitlementAppliedAt := Some now, pu_UpdatedAt := now\<rparr>) (purchase_row i s)"
  unfolding mark_applied_def purchase_row_def
  by (simp add: lookup_row_update)
    (cases "lookup_row pu_ID i (t_purchases s)", auto dest: lookup_row_Some)

text \<open>What applying a purchase asks of the license service.\<close>

definition license_input :: "app_env \<Rightarrow> purchase \<Rightarrow> string \<Rightarrow> time \<Rightarrow> purchase_license_input" where
  "license_input E p txn at = \<lparr>pi_PurchaseID = pu_ID p, pi_AccountID = pu_HostID p,
     pi_EventID = pu_EventID p, pi_PlanVersionID = pu_PlanVersionID p, pi_PaymentProvider = pu_Provider p,
     pi_ProviderTransactionID = (case pu_ProviderTransactionID p of
        Some t \<Rightarrow> if txn = '''' then t else txn | None \<Rightarrow> txn),
     pi_PurchaseAmountMinor = valueOrZero (pu_SettledTotalMinor p),
     pi_PurchaseCurrency = valueOrEmpty (pu_SettledCurrency p),
     pi_ActivatedAt = (if is_zero_time at then en_now E else at)\<rparr>"

lemma app_apply_unfold:
  assumes "pu_EntitlementAppliedAt p = None"
  shows "applyEntitlement (app_billing E) p txn at s =
    (case ActivatePurchase (en_registry E) (en_uuid_string E) (en_ids E) (en_now E) (license_input E p txn at) s of
       (Inl e, s1) \<Rightarrow> (Some e, s1)
     | (Inr _, s1) \<Rightarrow> (None, snd (db_MarkEntitlementApplied (en_now E) (pu_ID p) s1)))"
  using assms
  by (auto simp: applyEntitlement_def app_fields gorm_fields ActivateForPurchase_def Let_def
      license_input_def dest: ActivatePurchase_no_dup split: prod.splits sum.splits)

text \<open>Applying a purchase of the application: a consumed license, or an error and no change.\<close>

lemma app_apply:
  assumes inv: "purchases_inv s" "licenses_inv s" and n: "pu_EntitlementAppliedAt p = None"
    and run: "applyEntitlement (app_billing E) p txn at s = (r, s')"
  shows "(\<exists>e. r = Some e \<and> s' = s) \<or>
    (r = None \<and> t_purchases s' = t_purchases (mark_applied (en_now E) (pu_ID p) s) \<and> licenses_inv s' \<and>
      (\<exists>l \<in> set (t_licenses s'). li_PurchaseID l = Some (pu_ID p) \<and> li_Status l = LicenseConsumed \<and>
         li_ConsumedEventID l = Some (pu_EventID p)))"
proof -
  let ?inp = "license_input E p txn at"
  have inp: "pi_PurchaseID ?inp = pu_ID p" "pi_EventID ?inp = pu_EventID p"
    by (simp_all add: license_input_def)
  obtain a s1 where act: "ActivatePurchase (en_registry E) (en_uuid_string E) (en_ids E) (en_now E) ?inp s = (a, s1)"
    by (cases "ActivatePurchase (en_registry E) (en_uuid_string E) (en_ids E) (en_now E) ?inp s") auto
  show ?thesis
  proof (cases a)
    case (Inl e)
    with act have "s1 = s" using ActivatePurchase_error by blast
    with run act Inl have "r = Some e" "s' = s" by (simp_all add: app_apply_unfold [OF n])
    then show ?thesis by blast
  next
    case (Inr anns)
    note act = act [unfolded Inr]
    have ps: "t_purchases s1 = t_purchases s" by (rule ActivatePurchase_purchases [OF act])
    with inv(1) have "purchases_inv s1" by (simp add: purchases_inv_def)
    from mark_ok [OF this] run act have r: "r = None" "s' = mark_applied (en_now E) (pu_ID p) s1"
      by (simp_all add: app_apply_unfold [OF n])
    have "licenses_inv s1"
    proof (cases anns)
      case (Cons ch chs)
      from ActivatePurchase_effect [OF inv(2) act [unfolded Cons]] show ?thesis by blast
    next
      case Nil
      from act obtain at s2 where "issue_license (fresh_license (en_ids E)) at ?inp s = Inr s2" "s1 = s2"
        by (rule ActivatePurchase_gate) (use Nil in auto)
      with issue_license_Inr(1) inv(2) show ?thesis by blast
    qed
    moreover from ActivatePurchase_consumed [OF act inv(2)] inp obtain l where
      "l \<in> set (t_licenses s1)" "li_PurchaseID l = Some (pu_ID p)" "li_Status l = LicenseConsumed"
      "li_ConsumedEventID l = Some (pu_EventID p)" by auto
    ultimately show ?thesis using r ps by (auto simp: mark_applied_def licenses_inv_def)
  qed
qed

lemma settle_already:
  assumes "db_SettlePurchase now inp s = (Some (Billing ErrPurchaseAlreadySettled), s')"
  shows "\<exists>p. purchase_row (si_PurchaseID inp) s = Some p \<and> pu_Status p = StatusSettled"
proof -
  have "purchase_row (si_PurchaseID inp) s' = purchase_row (si_PurchaseID inp) s"
    using settle_get [OF assms] by simp
  with assms show ?thesis
    by (auto simp: db_SettlePurchase_def purchase_row_def update_purchases_def write_purchases_def
        split: prod.splits sum.splits if_splits option.splits)
qed

lemma settle_writes_inv:
  assumes "db_SettlePurchase now inp s = (None, s')"
  shows "purchases_inv s' \<and> t_licenses s' = t_licenses s"
  using assms
  by (auto simp: db_SettlePurchase_def update_purchases_def write_purchases_def purchases_inv_def
      split: prod.splits sum.splits if_splits option.splits)
section \<open>Properties\<close>

lemma settlement_unpaid:
  assumes "handleSettlement (app_billing E) i ev s = (None, s')"
    and p: "purchase_row i s = Some p" "\<not> PostSettlement (pu_Status p)"
  obtains s1 where "db_SettlePurchase (en_now E) \<lparr>si_PurchaseID = i,
       si_ProviderTransactionID = xe_ExternalTransactionID ev,
       si_SettledSubtotalMinor = mn_AmountMinor (xe_Subtotal ev),
       si_SettledTaxMinor = mn_AmountMinor (xe_Tax ev),
       si_SettledTotalMinor = mn_AmountMinor (xe_Total ev),
       si_SettledCurrency = mn_Currency (xe_Total ev)\<rparr> s = (None, s1)"
    "applyEntitlement (app_billing E) (p\<lparr>pu_SettledTotalMinor := Some (mn_AmountMinor (xe_Total ev)),
       pu_SettledCurrency := Some (mn_Currency (xe_Total ev))\<rparr>)
       (xe_ExternalTransactionID ev) (xe_OccurredAt ev) s1 = (None, s')"
proof -
  from p(1) have pid: "pu_ID p = i" by (auto simp: purchase_row_def dest: lookup_row_Some)
  let ?si = "\<lparr>si_PurchaseID = i, si_ProviderTransactionID = xe_ExternalTransactionID ev,
       si_SettledSubtotalMinor = mn_AmountMinor (xe_Subtotal ev),
       si_SettledTaxMinor = mn_AmountMinor (xe_Tax ev),
       si_SettledTotalMinor = mn_AmountMinor (xe_Total ev),
       si_SettledCurrency = mn_Currency (xe_Total ev)\<rparr>"
  obtain err s1 where st: "db_SettlePurchase (en_now E) ?si s = (err, s1)"
    by (cases "db_SettlePurchase (en_now E) ?si s") auto
  from p(2) have "pu_Status p \<noteq> StatusSettled" by auto
  with settle_already [of "en_now E" ?si s s1] p(1) st have "err \<noteq> Some (Billing ErrPurchaseAlreadySettled)"
    by auto
  with assms(1) p pid st \<open>pu_Status p \<noteq> StatusSettled\<close> that [of s1] show ?thesis
    by (auto simp: handleSettlement_def app_fields gorm_fields db_GetPurchase_def purchase_row_def
        split: if_splits)
qed

lemma process_settled:
  assumes "process_event (app_billing E) k i ev s = (None, s')" "xe_Type ev = EventPaymentSettled"
  obtains s1 where "handleSettlement (app_billing E) i ev s = (None, s1)"
    "s' = snd (db_MarkProviderEventProcessed (en_now E) k s1)"
  using assms
  by (auto simp: process_event_def Let_def route_event_def app_fields gorm_fields
      split: if_splits option.splits prod.splits)


lemma fx_ordered_inv: "purchases_inv fx_ordered" "licenses_inv fx_ordered"
proof -
  show "purchases_inv fx_ordered" unfolding purchases_inv_def by code_simp
  have "t_licenses fx_ordered = []" by code_simp
  then show "licenses_inv fx_ordered" by (simp add: licenses_inv_def license_keys_ok_def)
qed

text \<open>a paid upgrade stays unapplied. When the event already consumed the license of an earlier
purchase, a settled upgrade purchase cannot be applied: neither a redelivered settlement nor the
reconciliation job grants it, each attempt fails and leaves the database as it was.\<close>

theorem paid_upgrade_stays_unapplied:
  assumes inv: "licenses_inv s"
    and p: "purchase_row i s = Some p" "pu_Status p = StatusSettled" "pu_EntitlementAppliedAt p = None"
    and l: "l \<in> set (t_licenses s)" "li_ConsumedEventID l = Some (pu_EventID p)"
      "li_PurchaseID l \<noteq> Some (pu_ID p)"
  shows "(\<exists>e. handleSettlement (app_billing E) i ev s = (Some e, s)) \<and>
    (rp_UnappliedSettled (bs_repo (app_billing E)) lim s = Inr [p] \<longrightarrow>
      (\<exists>e. ReconcileUnapplied (app_billing E) lim s = ((0, [e]), s)))"
proof -
  have ap: "\<exists>e. applyEntitlement (app_billing E) p txn at s = (Some e, s)" for txn at
  proof -
    have "pi_EventID (license_input E p txn at) = pu_EventID p"
      "pi_PurchaseID (license_input E p txn at) = pu_ID p" by (simp_all add: license_input_def)
    with license_slot_taken [OF inv l(1), of "license_input E p txn at"] l(2,3)
    obtain e where "ActivatePurchase (en_registry E) (en_uuid_string E) (en_ids E) (en_now E)
        (license_input E p txn at) s = (Inl e, s)" by metis
    then show ?thesis by (simp add: app_apply_unfold [OF p(3)])
  qed
  from p(1) have "rp_GetPurchase (bs_repo (app_billing E)) i s = Inr p"
    by (simp add: app_fields gorm_fields db_GetPurchase_def purchase_row_def)
  with p(2) ap [of "xe_ExternalTransactionID ev" "xe_OccurredAt ev"]
  have "\<exists>e. handleSettlement (app_billing E) i ev s = (Some e, s)"
    by (simp add: handleSettlement_def)
  moreover from ap [of "''''" "coalesce (pu_SettledAt p) (bs_now (app_billing E))"]
  have "rp_UnappliedSettled (bs_repo (app_billing E)) lim s = Inr [p] \<longrightarrow>
      (\<exists>e. ReconcileUnapplied (app_billing E) lim s = ((0, [e]), s))"
    by (auto simp: ReconcileUnapplied_def)
  ultimately show ?thesis ..
qed

text \<open>The shopping trip ends there: the upgrade is paid for and settled, and stuck.\<close>

definition fx_stuck :: db where
  "fx_stuck = snd (HandleProviderEvent (fx_bill 1) ''paid2'' ''sig'' fx_ordered2)"

theorem paid_upgrade_stays_unapplied_witness:
  "\<exists>p e. purchase_row 61 fx_stuck = Some p \<and> pu_Status p = StatusSettled \<and>
     pu_SettledTotalMinor p = Some 5000 \<and>
     handleSettlement (fx_bill 1) 61 (fx_notice ''e7'' EventPaymentSettled 61 ''txn_2'' 5000 0) fx_stuck =
       (Some e, fx_stuck)"
proof -
  have "map_option (\<lambda>p. (pu_Status p, pu_SettledTotalMinor p, pu_EntitlementAppliedAt p, pu_EventID p, pu_ID p))
      (purchase_row 61 fx_stuck) = Some (StatusSettled, Some 5000, None, 7, 61)"
    by code_simp
  then obtain p where p: "purchase_row 61 fx_stuck = Some p" "pu_Status p = StatusSettled"
    "pu_EntitlementAppliedAt p = None" and t: "pu_SettledTotalMinor p = Some 5000" "pu_EventID p = 7" "pu_ID p = 61"
    by auto
  have inv: "licenses_inv fx_stuck" unfolding licenses_inv_def by code_simp
  have "map (\<lambda>l. (li_ConsumedEventID l, li_PurchaseID l)) (t_licenses fx_stuck) = [(Some 7, Some 60)]"
    by code_simp
  then obtain l where l: "l \<in> set (t_licenses fx_stuck)" "li_ConsumedEventID l = Some 7" "li_PurchaseID l = Some 60"
    by auto
  with t have "li_ConsumedEventID l = Some (pu_EventID p)" "li_PurchaseID l \<noteq> Some (pu_ID p)" by simp_all
  from paid_upgrade_stays_unapplied [OF inv p l(1) this] p t show ?thesis by blast
qed

section \<open>Reconciliation\<close>

definition mark_many :: "time \<Rightarrow> uuid set \<Rightarrow> purchase list \<Rightarrow> purchase list" where
  "mark_many now ids t = update_where (\<lambda>p. pu_ID p \<in> ids)
     (\<lambda>p. p\<lparr>pu_EntitlementAppliedAt := Some now, pu_UpdatedAt := now\<rparr>) t"

lemma mark_many_insert:
  "mark_many now ids (t_purchases (mark_applied now i s)) = mark_many now (insert i ids) (t_purchases s)"
  by (simp add: mark_many_def mark_applied_def update_where_def)

lemma reconcile_all:
  assumes "reconcile_loop (app_billing E) ps (a, es) s = ((n, []), s')"
    and "purchases_inv s" "licenses_inv s" "\<forall>p \<in> set ps. pu_EntitlementAppliedAt p = None"
  shows "es = [] \<and> n = a + length ps \<and>
    t_purchases s' = mark_many (en_now E) (pu_ID ` set ps) (t_purchases s)"
  using assms
proof (induction ps arbitrary: a es s)
  case Nil
  then show ?case by (simp add: mark_many_def update_where_def)
next
  case (Cons p ps)
  obtain r s1 where ap: "applyEntitlement (app_billing E) p ''''
      (coalesce (pu_SettledAt p) (bs_now (app_billing E))) s = (r, s1)"
    by (cases "applyEntitlement (app_billing E) p '''' (coalesce (pu_SettledAt p) (bs_now (app_billing E))) s") auto
  note step = app_apply [OF Cons.prems(2,3) _ ap]
  show ?case
  proof (cases r)
    case (Some e)
    with step Cons.prems(4) have "s1 = s" by auto
    with Cons.prems(1) ap Some have "reconcile_loop (app_billing E) ps (a, es @ [e]) s = ((n, []), s')" by simp
    from Cons.IH [OF this Cons.prems(2,3)] Cons.prems(4) show ?thesis by simp
  next
    case None
    with step Cons.prems(4) have t1: "t_purchases s1 = t_purchases (mark_applied (en_now E) (pu_ID p) s)"
      and l1: "licenses_inv s1" by auto
    from t1 mark_keys [OF Cons.prems(2)] have p1: "purchases_inv s1" by (simp add: purchases_inv_def)
    from Cons.prems(1) ap None have "reconcile_loop (app_billing E) ps (a + 1, es) s1 = ((n, []), s')" by simp
    from Cons.IH [OF this p1 l1] Cons.prems(4) t1 show ?thesis by (simp add: mark_many_insert)
  qed
qed


text \<open>A settled purchase whose grant was interrupted.\<close>

definition fx_interrupted :: db where
  "fx_interrupted = snd (db_SettlePurchase 55 \<lparr>si_PurchaseID = 60, si_ProviderTransactionID = ''txn_1'',
     si_SettledSubtotalMinor = 4900, si_SettledTaxMinor = 0, si_SettledTotalMinor = 4900,
     si_SettledCurrency = ''USD''\<rparr> fx_ordered)"


end
