(* ===== verification/MediaRepo.thy ===== *)
theory MediaRepo
  imports Schema
begin

text \<open>
  The persistence port of media (internal/media/repository.go, quota.go) and its
  PostgreSQL adapter (internal/platform/database/media_repository.go): reservations
  against the quota counters of the event row, the transition to ready that turns a
  reservation into usage and enqueues the thumbnail job, moderation, deletion and the
  gallery queries.

  Each operation is one transaction or one statement. A write that breaks a constraint
  of \<open>media\<close> or \<open>events\<close> fails and changes nothing; \<open>write_media\<close> and \<open>write_quota\<close> hold
  the constraints. Rows that compare equal in an ORDER BY come in table order. The clock
  of the database and the id it draws for a job are arguments.
\<close>

section \<open>Kinds and states (media.go, quota.go)\<close>

definition mediaKind :: "string \<Rightarrow> int \<times> int" where
  "mediaKind mime =
     (if has_prefix mime ''image/'' then (1, 0)
      else if has_prefix mime ''video/'' then (0, 1) else (0, 0))"

fun in_flight :: "media_status \<Rightarrow> bool" where
  "in_flight MediaPending = True"
| "in_flight MediaUploading = True"
| "in_flight MediaUploaded = True"
| "in_flight _ = False"

fun visible :: "media_status \<Rightarrow> bool" where
  "visible MediaReady = True"
| "visible MediaFeatured = True"
| "visible _ = False"

fun completed :: "media_status \<Rightarrow> bool" where
  "completed MediaReady = True"
| "completed MediaFeatured = True"
| "completed MediaHidden = True"
| "completed _ = False"

definition is_photo :: "media \<Rightarrow> bool" where
  "is_photo m = has_prefix (md_MIMEType m) ''image/''"

definition is_video :: "media \<Rightarrow> bool" where
  "is_video m = has_prefix (md_MIMEType m) ''video/''"

record reserve_limits =
  MaxEventBytes :: int
  EnforceItems :: bool

record cursor =
  cu_CreatedAt :: time
  cu_ID :: uuid

record presentation_metadata =
  pm_Width :: "int option"
  pm_Height :: "int option"
  pm_DurationSeconds :: "int option"
  pm_TransitionCueSeconds :: "int option"

datatype gallery_filter =
    FilterAll
  | FilterPhotos
  | FilterVideos
  | FilterFavorites
  | FilterHidden
  | FilterOther string

datatype gallery_sort = SortNewest | SortOldest | SortOther string

record gallery_counts =
  gc_All :: int
  gc_Photos :: int
  gc_Videos :: int
  gc_Favorites :: int
  gc_Hidden :: int

section \<open>Constraints of the tables\<close>

definition lower_hex :: "char \<Rightarrow> bool" where
  "lower_hex c \<longleftrightarrow> (let n = (of_char c :: nat)
     in (48 \<le> n \<and> n \<le> 57) \<or> (97 \<le> n \<and> n \<le> 102))"

fun at_least :: "int \<Rightarrow> int option \<Rightarrow> bool" where
  "at_least b None = True"
| "at_least b (Some x) = (b \<le> x)"

text \<open>The values of the enumeration \<open>media_status\<close>.\<close>

fun known_status :: "media_status \<Rightarrow> bool" where
  "known_status (MediaStatusOther x) = False"
| "known_status _ = True"

definition media_row_ok :: "media \<Rightarrow> bool" where
  "media_row_ok m \<longleftrightarrow>
     length (md_ChecksumSHA256 m) = 64 \<and> list_all lower_hex (md_ChecksumSHA256 m) \<and>
     at_least 1 (md_Width m) \<and> at_least 1 (md_Height m) \<and>
     at_least 0 (md_DurationSeconds m) \<and> at_least 0 (md_TransitionCueSeconds m) \<and>
     in_i64 (md_ExpectedSize m) \<and> known_status (md_Status m)"

definition client_key :: "media \<Rightarrow> uuid \<times> uuid \<times> uuid option" where
  "client_key m = (md_EventID m, md_GuestSessionID m, md_ClientUploadID m)"

definition checksum_key :: "media \<Rightarrow> uuid \<times> string" where
  "checksum_key m = (md_EventID m, md_ChecksumSHA256 m)"

definition media_keys_ok :: "media list \<Rightarrow> bool" where
  "media_keys_ok t \<longleftrightarrow>
     distinct (map md_ID t) \<and> distinct (map md_ObjectKey t) \<and>
     distinct (map client_key (filter (\<lambda>m. md_ClientUploadID m \<noteq> None) t)) \<and>
     distinct (map checksum_key (filter (\<lambda>m. md_Status m = MediaReady) t))"

definition write_media :: "media list \<Rightarrow> db \<Rightarrow> error + db" where
  "write_media t s =
     (if \<not> list_all media_row_ok t then Inl (DB ErrCheckViolated)
      else if \<not> media_keys_ok t then Inl (DB ErrDuplicatedKey)
      else if \<not> list_all (\<lambda>m. md_EventID m \<in> ev_ID ` set (t_events s) \<and>
             md_GuestSessionID m \<in> gs_ID ` set (t_guest_sessions s)) t
      then Inl (DB ErrForeignKeyViolated)
      else Inr (s\<lparr>t_media := t\<rparr>))"

definition quota_row_ok :: "event \<Rightarrow> bool" where
  "quota_row_ok e \<longleftrightarrow>
     0 \<le> ev_ReservedMediaBytes e \<and>
     0 \<le> uploaded_media_items e \<and> 0 \<le> reserved_media_items e \<and>
     0 \<le> uploaded_photo_items e \<and> 0 \<le> reserved_photo_items e \<and>
     0 \<le> uploaded_video_items e \<and> 0 \<le> reserved_video_items e"

definition quota_in_range :: "event \<Rightarrow> bool" where
  "quota_in_range e \<longleftrightarrow>
     in_i64 (ev_UsedMediaBytes e) \<and> in_i64 (ev_ReservedMediaBytes e) \<and>
     in_i64 (uploaded_media_items e) \<and> in_i64 (reserved_media_items e) \<and>
     in_i64 (uploaded_photo_items e) \<and> in_i64 (reserved_photo_items e) \<and>
     in_i64 (uploaded_video_items e) \<and> in_i64 (reserved_video_items e)"

definition write_quota :: "event list \<Rightarrow> db \<Rightarrow> error + db" where
  "write_quota t s =
     (if \<not> list_all quota_in_range t then Inl (DB ErrOutOfRange)
      else if \<not> list_all quota_row_ok t then Inl (DB ErrCheckViolated)
      else Inr (s\<lparr>t_events := t\<rparr>))"

section \<open>Reservations\<close>

text \<open>\<open>COALESCE(NULLIF(max_bytes, 0), max_media_bytes)\<close>.\<close>

definition byte_limit :: "reserve_limits \<Rightarrow> event \<Rightarrow> int" where
  "byte_limit lim e = (if MaxEventBytes lim = 0 then ev_MaxMediaBytes e else MaxEventBytes lim)"

text \<open>The item part of the WHERE clause of the conditional update.\<close>

definition item_room :: "int \<Rightarrow> int \<Rightarrow> event \<Rightarrow> bool" where
  "item_room photo video e \<longleftrightarrow>
     (max_media_items e = 0 \<or>
        uploaded_media_items e + reserved_media_items e + 1 \<le> max_media_items e) \<and>
     (photo = 0 \<or> max_photo_items e = 0 \<or>
        uploaded_photo_items e + reserved_photo_items e + 1 \<le> max_photo_items e) \<and>
     (video = 0 \<or> max_video_items e = 0 \<or>
        uploaded_video_items e + reserved_video_items e + 1 \<le> max_video_items e)"

definition reservable :: "media \<Rightarrow> reserve_limits \<Rightarrow> event \<Rightarrow> bool" where
  "reservable rec lim e \<longleftrightarrow>
     ev_ID e = md_EventID rec \<and> ev_Status e = EventActive \<and>
     ev_UsedMediaBytes e + ev_ReservedMediaBytes e + md_ExpectedSize rec \<le> byte_limit lim e \<and>
     (\<not> EnforceItems lim \<or>
        item_room (fst (mediaKind (md_MIMEType rec))) (snd (mediaKind (md_MIMEType rec))) e)"

definition reserve_counters :: "media \<Rightarrow> event \<Rightarrow> event" where
  "reserve_counters rec e = e\<lparr>
     ev_ReservedMediaBytes := ev_ReservedMediaBytes e + md_ExpectedSize rec,
     reserved_media_items := reserved_media_items e + 1,
     reserved_photo_items := reserved_photo_items e + fst (mediaKind (md_MIMEType rec)),
     reserved_video_items := reserved_video_items e + snd (mediaKind (md_MIMEType rec))\<rparr>"

definition reservationRefusal :: "media \<Rightarrow> reserve_limits \<Rightarrow> db \<Rightarrow> error" where
  "reservationRefusal rec lim s =
     (case find (\<lambda>e. ev_ID e = md_EventID rec) (t_events s) of
        None \<Rightarrow> Media ErrMediaNotFound
      | Some q \<Rightarrow>
          if ev_Status q \<noteq> EventActive then Fmt ''event is not accepting uploads''
          else
            (let (photo, video) = mediaKind (md_MIMEType rec);
                 bytes = Media (QuotaError ResourceBytes
                   (if 0 < MaxEventBytes lim then MaxEventBytes lim else ev_MaxMediaBytes q)
                   (ev_UsedMediaBytes q + ev_ReservedMediaBytes q))
             in if EnforceItems lim then
                  (if video = 1 \<and> 0 < max_video_items q \<and>
                      max_video_items q < uploaded_video_items q + reserved_video_items q + 1
                   then Media (QuotaError ResourceVideo (max_video_items q)
                          (uploaded_video_items q + reserved_video_items q))
                   else if photo = 1 \<and> 0 < max_photo_items q \<and>
                      max_photo_items q < uploaded_photo_items q + reserved_photo_items q + 1
                   then Media (QuotaError ResourcePhoto (max_photo_items q)
                          (uploaded_photo_items q + reserved_photo_items q))
                   else if 0 < max_media_items q \<and>
                      max_media_items q < uploaded_media_items q + reserved_media_items q + 1
                   then Media (QuotaError ResourceMedia (max_media_items q)
                          (uploaded_media_items q + reserved_media_items q))
                   else bytes)
                else bytes))"

text \<open>GORM fills an unset \<open>CreatedAt\<close> when it inserts.\<close>

definition reserve_tx :: "time \<Rightarrow> media \<Rightarrow> reserve_limits \<Rightarrow> db \<Rightarrow> error + unit \<times> db" where
  "reserve_tx now rec lim s =
     (if \<exists>e \<in> set (t_events s). ev_ID e = md_EventID rec \<and> ev_Status e = EventActive \<and>
           \<not> in_i64 (ev_UsedMediaBytes e + ev_ReservedMediaBytes e + md_ExpectedSize rec)
      then Inl (DB ErrOutOfRange)
      else
     (case write_quota (update_where (reservable rec lim) (reserve_counters rec) (t_events s)) s of
        Inl e \<Rightarrow> Inl e
      | Inr s1 \<Rightarrow>
          if count_where (reservable rec lim) (t_events s) \<noteq> 1
          then Inl (reservationRefusal rec lim s1)
          else
            (case write_media (t_media s1 @
                 [rec\<lparr>md_CreatedAt := (if is_zero_time (md_CreatedAt rec) then now else md_CreatedAt rec)\<rparr>]) s1 of
               Inl e \<Rightarrow> Inl e
             | Inr s2 \<Rightarrow> Inr ((), s2))))"

definition db_ReserveUpload :: "time \<Rightarrow> media \<Rightarrow> reserve_limits \<Rightarrow> db \<Rightarrow> (error + unit) \<times> db" where
  "db_ReserveUpload now rec lim = transaction (reserve_tx now rec lim)"

definition found_media :: "media option \<Rightarrow> error + media" where
  "found_media r = (case r of None \<Rightarrow> Inl (Media ErrMediaNotFound) | Some m \<Rightarrow> Inr m)"

definition db_FindByClientUpload :: "uuid \<Rightarrow> uuid \<Rightarrow> uuid \<Rightarrow> db \<Rightarrow> error + media" where
  "db_FindByClientUpload eventID sessionID clientUploadID s = found_media
     (first_by md_ID (\<lambda>m. md_EventID m = eventID \<and> md_GuestSessionID m = sessionID \<and>
        md_ClientUploadID m = Some clientUploadID) (t_media s))"

definition db_HasReadyChecksum :: "uuid \<Rightarrow> string \<Rightarrow> db \<Rightarrow> error + bool" where
  "db_HasReadyChecksum eventID checksum s = Inr (0 < count_where
     (\<lambda>m. md_EventID m = eventID \<and> md_ChecksumSHA256 m = checksum \<and> md_Status m = MediaReady)
     (t_media s))"

text \<open>
  \<open>DeleteManyUploads\<close>: the rows go whatever their state, with the jobs and replicas that
  reference them; the reservations of those still in flight are released per event.
\<close>

definition released :: "uuid list \<Rightarrow> event \<Rightarrow> media list \<Rightarrow> media list" where
  "released ids e t = filter (\<lambda>m. md_ID m \<in> set ids \<and> in_flight (md_Status m) \<and> md_EventID m = ev_ID e) t"

definition release_counters :: "media list \<Rightarrow> event \<Rightarrow> event" where
  "release_counters rel e = e\<lparr>
     ev_ReservedMediaBytes := max (ev_ReservedMediaBytes e - sum_list (map md_ExpectedSize rel)) 0,
     reserved_media_items := max (reserved_media_items e - int (length rel)) 0,
     reserved_photo_items := max (reserved_photo_items e - int (count_where is_photo rel)) 0,
     reserved_video_items := max (reserved_video_items e - int (count_where is_video rel)) 0\<rparr>"

definition db_DeleteManyUploads :: "uuid list \<Rightarrow> db \<Rightarrow> error option \<times> db" where
  "db_DeleteManyUploads ids s =
     (if ids = [] then (None, s)
      else
        (case write_quota (update_where (\<lambda>e. released ids e (t_media s) \<noteq> [])
             (\<lambda>e. release_counters (released ids e (t_media s)) e) (t_events s)) s of
           Inl e \<Rightarrow> (Some e, s)
         | Inr s1 \<Rightarrow> (None, s1\<lparr>
             t_media := delete_where (\<lambda>m. md_ID m \<in> set ids) (t_media s1),
             t_media_jobs := delete_where (\<lambda>j. \<exists>m \<in> set (t_media s1). md_ID m \<in> set ids \<and> mj_MediaID j = md_ID m)
               (t_media_jobs s1),
             t_replicas := delete_where (\<lambda>r. \<exists>m \<in> set (t_media s1). md_ID m \<in> set ids \<and> sr_media_id r = md_ID m)
               (t_replicas s1)\<rparr>)))"

definition db_DeleteMedia :: "uuid \<Rightarrow> db \<Rightarrow> error option \<times> db" where
  "db_DeleteMedia mediaID = db_DeleteManyUploads [mediaID]"

section \<open>Completion\<close>

definition db_FindUploadForSession :: "uuid \<Rightarrow> uuid \<Rightarrow> uuid \<Rightarrow> db \<Rightarrow> error + media" where
  "db_FindUploadForSession mediaID eventID sessionID s = found_media
     (first_by md_ID (\<lambda>m. md_ID m = mediaID \<and> md_EventID m = eventID \<and>
        md_GuestSessionID m = sessionID \<and> (in_flight (md_Status m) \<or> md_Status m = MediaReady))
        (t_media s))"

definition uploading_row :: "uuid \<Rightarrow> uuid \<Rightarrow> media \<Rightarrow> bool" where
  "uploading_row eventID mediaID m \<longleftrightarrow>
     md_ID m = mediaID \<and> md_EventID m = eventID \<and> in_flight (md_Status m)"

definition ready_row :: "int \<Rightarrow> time \<Rightarrow> media \<Rightarrow> media" where
  "ready_row actualSize uploadedAt m = m\<lparr>md_Status := MediaReady, md_ActualSize := Some actualSize,
     md_UploadedAt := Some uploadedAt, md_LastActivityAt := uploadedAt\<rparr>"

definition settle_counters :: "int \<Rightarrow> media \<Rightarrow> event \<Rightarrow> event" where
  "settle_counters actual m e =
     (let photo = (if is_photo m then 1 else 0); video = (if is_video m then 1 else 0)
      in e\<lparr>
        ev_UsedMediaBytes := ev_UsedMediaBytes e + actual,
        ev_ReservedMediaBytes := max (ev_ReservedMediaBytes e - md_ExpectedSize m) 0,
        uploaded_media_items := uploaded_media_items e + 1,
        reserved_media_items := max (reserved_media_items e - 1) 0,
        uploaded_photo_items := uploaded_photo_items e + photo,
        reserved_photo_items := max (reserved_photo_items e - photo) 0,
        uploaded_video_items := uploaded_video_items e + video,
        reserved_video_items := max (reserved_video_items e - video) 0\<rparr>)"

definition new_job :: "uuid \<Rightarrow> time \<Rightarrow> uuid \<Rightarrow> media_job" where
  "new_job i now mediaID = \<lparr>mj_ID = i, mj_MediaID = mediaID, mj_Kind = KindThumbnail,
     mj_Status = JobQueued, mj_Attempts = 0, mj_RunAfter = now, mj_LastError = None,
     mj_CreatedAt = now, mj_UpdatedAt = now\<rparr>"

text \<open>The insert with \<open>ON CONFLICT (media_id, kind) DO NOTHING\<close>.\<close>

definition enqueue_thumbnail :: "uuid \<Rightarrow> time \<Rightarrow> media \<Rightarrow> db \<Rightarrow> error + db" where
  "enqueue_thumbnail i now m s =
     (if \<not> (is_photo m \<or> is_video m) then Inr s
      else if \<exists>j \<in> set (t_media_jobs s). mj_MediaID j = md_ID m \<and> mj_Kind j = KindThumbnail then Inr s
      else if i \<in> mj_ID ` set (t_media_jobs s) then Inl (DB ErrDuplicatedKey)
      else Inr (s\<lparr>t_media_jobs := t_media_jobs s @ [new_job i now (md_ID m)]\<rparr>))"

definition ready_tx ::
  "uuid \<Rightarrow> time \<Rightarrow> uuid \<Rightarrow> uuid \<Rightarrow> int \<Rightarrow> time \<Rightarrow> db \<Rightarrow> error + unit \<times> db" where
  "ready_tx fresh now eventID mediaID actualSize uploadedAt s =
     (case write_media (update_where (uploading_row eventID mediaID) (ready_row actualSize uploadedAt)
             (t_media s)) s of
        Inl (DB ErrDuplicatedKey) \<Rightarrow> Inl (Media ErrDuplicate)
      | Inl e \<Rightarrow> Inl e
      | Inr s1 \<Rightarrow>
          if count_where (uploading_row eventID mediaID) (t_media s) \<noteq> 1
          then Inl (Media ErrMediaNotFound)
          else
            (case find (\<lambda>m. md_ID m = mediaID) (t_media s1) of
               None \<Rightarrow> Inr ((), s1)
             | Some m \<Rightarrow>
            (case write_quota (update_where (\<lambda>e. ev_ID e = eventID) (settle_counters actualSize m)
                 (t_events s1)) s1 of
               Inl e \<Rightarrow> Inl e
             | Inr s2 \<Rightarrow>
            (case enqueue_thumbnail fresh now m s2 of
               Inl e \<Rightarrow> Inl e
             | Inr s3 \<Rightarrow> Inr ((), s3)))))"

definition db_MarkReady ::
  "uuid \<Rightarrow> time \<Rightarrow> uuid \<Rightarrow> uuid \<Rightarrow> int \<Rightarrow> time \<Rightarrow> db \<Rightarrow> (error + unit) \<times> db" where
  "db_MarkReady fresh now eventID mediaID actualSize uploadedAt =
     transaction (ready_tx fresh now eventID mediaID actualSize uploadedAt)"

section \<open>Moderation and deletion\<close>

definition moderated_row :: "uuid \<Rightarrow> uuid list \<Rightarrow> media \<Rightarrow> bool" where
  "moderated_row eventID ids m \<longleftrightarrow>
     md_EventID m = eventID \<and> md_ID m \<in> set ids \<and> completed (md_Status m)"

definition set_status :: "media_status \<Rightarrow> time \<Rightarrow> media \<Rightarrow> media" where
  "set_status st now m = m\<lparr>md_Status := st, md_LastActivityAt := now\<rparr>"

definition db_UpdateMediaStatus ::
  "time \<Rightarrow> uuid \<Rightarrow> uuid \<Rightarrow> media_status \<Rightarrow> db \<Rightarrow> (error + media) \<times> db" where
  "db_UpdateMediaStatus now eventID mediaID st s =
     (case write_media (update_where (moderated_row eventID [mediaID]) (set_status st now) (t_media s)) s of
        Inl e \<Rightarrow> (Inl e, s)
      | Inr s1 \<Rightarrow>
          (if count_where (moderated_row eventID [mediaID]) (t_media s) \<noteq> 1
           then (Inl (Media ErrMediaNotFound), s1)
           else (found_media (map_option (set_status st now)
                   (find (moderated_row eventID [mediaID]) (t_media s))), s1)))"

text \<open>
  The bulk update is a statement of its own, outside a transaction: it is committed
  before its row count is compared.
\<close>

definition db_UpdateMediaStatuses ::
  "time \<Rightarrow> uuid \<Rightarrow> uuid list \<Rightarrow> media_status \<Rightarrow> db \<Rightarrow> error option \<times> db" where
  "db_UpdateMediaStatuses now eventID ids st s =
     (case write_media (update_where (moderated_row eventID ids) (set_status st now) (t_media s)) s of
        Inl e \<Rightarrow> (Some e, s)
      | Inr s1 \<Rightarrow>
          (if count_where (moderated_row eventID ids) (t_media s) \<noteq> length ids
           then (Some (Media ErrMediaNotFound), s1) else (None, s1)))"

definition actual_size :: "media \<Rightarrow> int" where
  "actual_size m = coalesce (md_ActualSize m) 0"

definition delete_for_event_tx :: "time \<Rightarrow> uuid \<Rightarrow> uuid list \<Rightarrow> db \<Rightarrow> error + unit \<times> db" where
  "delete_for_event_tx now eventID ids s =
     (let bytesToRelease = sum_where (moderated_row eventID ids) actual_size (t_media s)
      in if \<not> in_i64 bytesToRelease then Inl (DB ErrOutOfRange)
         else
        (case write_media (update_where (moderated_row eventID ids) (set_status MediaDeleted now)
                (t_media s)) s of
           Inl e \<Rightarrow> Inl e
         | Inr s1 \<Rightarrow>
             if count_where (moderated_row eventID ids) (t_media s) \<noteq> length ids
             then Inl (Media ErrMediaNotFound)
             else
               (case write_quota (update_where (\<lambda>e. ev_ID e = eventID)
                    (\<lambda>e. e\<lparr>ev_UsedMediaBytes := max (ev_UsedMediaBytes e - bytesToRelease) 0\<rparr>)
                    (t_events s1)) s1 of
                  Inl e \<Rightarrow> Inl e
                | Inr s2 \<Rightarrow> Inr ((), s2))))"

definition db_DeleteForEvent :: "time \<Rightarrow> uuid \<Rightarrow> uuid list \<Rightarrow> db \<Rightarrow> (error + unit) \<times> db" where
  "db_DeleteForEvent now eventID ids = transaction (delete_for_event_tx now eventID ids)"

definition with_metadata :: "bool \<Rightarrow> presentation_metadata \<Rightarrow> media \<Rightarrow> media" where
  "with_metadata thumbnailReady md m = m\<lparr>
     md_ThumbnailReady := (thumbnailReady \<or> md_ThumbnailReady m),
     md_Width := (if pm_Width md = None then md_Width m else pm_Width md),
     md_Height := (if pm_Height md = None then md_Height m else pm_Height md),
     md_DurationSeconds := (if pm_DurationSeconds md = None then md_DurationSeconds m
                            else pm_DurationSeconds md),
     md_TransitionCueSeconds := (if pm_TransitionCueSeconds md = None then md_TransitionCueSeconds m
                                 else pm_TransitionCueSeconds md)\<rparr>"

definition db_UpdateProcessingResult ::
  "uuid \<Rightarrow> uuid \<Rightarrow> bool \<Rightarrow> presentation_metadata \<Rightarrow> db \<Rightarrow> error option \<times> db" where
  "db_UpdateProcessingResult eventID mediaID thumbnailReady md s =
     (if \<not> thumbnailReady \<and> pm_Width md = None \<and> pm_Height md = None \<and>
         pm_DurationSeconds md = None \<and> pm_TransitionCueSeconds md = None
      then (None, s)
      else
        (case write_media (update_where (moderated_row eventID [mediaID])
             (with_metadata thumbnailReady md) (t_media s)) s of
           Inl e \<Rightarrow> (Some e, s)
         | Inr s1 \<Rightarrow>
             (if count_where (moderated_row eventID [mediaID]) (t_media s) \<noteq> 1
              then (Some (Media ErrMediaNotFound), s1) else (None, s1))))"

section \<open>Queries\<close>

definition db_FindMediaByID :: "uuid \<Rightarrow> db \<Rightarrow> error + media" where
  "db_FindMediaByID mediaID s = found_media (first_by md_ID (\<lambda>m. md_ID m = mediaID) (t_media s))"

definition db_FindReady :: "uuid \<Rightarrow> uuid \<Rightarrow> db \<Rightarrow> error + media" where
  "db_FindReady eventID mediaID s = found_media
     (first_by md_ID (\<lambda>m. md_ID m = mediaID \<and> md_EventID m = eventID \<and> visible (md_Status m)) (t_media s))"

definition db_FindStale :: "time \<Rightarrow> int \<Rightarrow> db \<Rightarrow> error + media list" where
  "db_FindStale before lim s =
     (let lim' = (if lim < 1 \<or> 500 < lim then 100 else lim)
      in Inr (take (nat lim') (sort_key md_LastActivityAt
           (filter (\<lambda>m. in_flight (md_Status m) \<and> md_LastActivityAt m < before) (t_media s)))))"

definition row_pos :: "media \<Rightarrow> time \<times> uuid" where
  "row_pos m = (md_CreatedAt m, md_ID m)"

definition cursor_pos :: "cursor \<Rightarrow> time \<times> uuid" where
  "cursor_pos c = (cu_CreatedAt c, cu_ID c)"

fun after_cursor :: "bool \<Rightarrow> cursor option \<Rightarrow> media \<Rightarrow> bool" where
  "after_cursor oldest None m = True"
| "after_cursor oldest (Some c) m =
     (if oldest then cursor_pos c < row_pos m else row_pos m < cursor_pos c)"

definition in_order :: "bool \<Rightarrow> media list \<Rightarrow> media list" where
  "in_order oldest t = (if oldest then sort_key row_pos t else rev (sort_key row_pos t))"

definition db_ListReady :: "uuid \<Rightarrow> int \<Rightarrow> cursor option \<Rightarrow> db \<Rightarrow> error + media list" where
  "db_ListReady eventID lim before s = Inr (take (nat lim) (in_order False
     (filter (\<lambda>m. md_EventID m = eventID \<and> visible (md_Status m) \<and> after_cursor False before m) (t_media s))))"

fun gallery_match :: "gallery_filter \<Rightarrow> media \<Rightarrow> bool" where
  "gallery_match FilterPhotos m = (visible (md_Status m) \<and> is_photo m)"
| "gallery_match FilterVideos m = (visible (md_Status m) \<and> is_video m)"
| "gallery_match FilterFavorites m = (md_Status m = MediaFeatured)"
| "gallery_match FilterHidden m = (md_Status m = MediaHidden)"
| "gallery_match _ m = visible (md_Status m)"

definition db_ListGallery ::
  "uuid \<Rightarrow> gallery_filter \<Rightarrow> gallery_sort \<Rightarrow> int \<Rightarrow> cursor option \<Rightarrow> db \<Rightarrow> error + media list" where
  "db_ListGallery eventID flt srt lim before s =
     (let oldest = (srt = SortOldest)
      in Inr (take (nat lim) (in_order oldest
           (filter (\<lambda>m. md_EventID m = eventID \<and> gallery_match flt m \<and> after_cursor oldest before m)
              (t_media s)))))"

definition db_GalleryCounts :: "uuid \<Rightarrow> db \<Rightarrow> error + gallery_counts" where
  "db_GalleryCounts eventID s =
     (let n = (\<lambda>p. int (count_where (\<lambda>m. md_EventID m = eventID \<and> p m) (t_media s)))
      in Inr \<lparr>gc_All = n (\<lambda>m. visible (md_Status m)),
              gc_Photos = n (\<lambda>m. visible (md_Status m) \<and> is_photo m),
              gc_Videos = n (\<lambda>m. visible (md_Status m) \<and> is_video m),
              gc_Favorites = n (\<lambda>m. md_Status m = MediaFeatured),
              gc_Hidden = n (\<lambda>m. md_Status m = MediaHidden)\<rparr>)"

text \<open>\<open>ORDER BY verified_at DESC\<close> puts rows without a time first.\<close>

fun verified_first :: "storage_replica \<Rightarrow> int \<times> time" where
  "verified_first r = (case sr_verified_at r of None \<Rightarrow> (0, 0) | Some t \<Rightarrow> (1, - t))"

definition db_FindArchivedLocation :: "uuid \<Rightarrow> uuid \<Rightarrow> db \<Rightarrow> error + string" where
  "db_FindArchivedLocation eventID mediaID s =
     (case first_by verified_first (\<lambda>r. sr_media_id r = mediaID \<and>
             (\<exists>m \<in> set (t_media s). md_ID m = mediaID \<and> md_EventID m = eventID) \<and>
             sr_provider r = ProviderGoogleDrive \<and> sr_state r = ReplicaVerified) (t_replicas s) of
        None \<Rightarrow> Inl (Media ErrMediaNotFound)
      | Some r \<Rightarrow> if sr_location_reference r = '''' then Inl (Media ErrMediaNotFound)
                  else Inr (sr_location_reference r))"

section \<open>The port\<close>

record 's media_repo =
  mr_ReserveUpload :: "time \<Rightarrow> media \<Rightarrow> reserve_limits \<Rightarrow> 's \<Rightarrow> (error + unit) \<times> 's"
  mr_FindByClientUpload :: "uuid \<Rightarrow> uuid \<Rightarrow> uuid \<Rightarrow> 's \<Rightarrow> error + media"
  mr_HasReadyChecksum :: "uuid \<Rightarrow> string \<Rightarrow> 's \<Rightarrow> error + bool"
  mr_Delete :: "uuid \<Rightarrow> 's \<Rightarrow> error option \<times> 's"
  mr_DeleteManyUploads :: "uuid list \<Rightarrow> 's \<Rightarrow> error option \<times> 's"
  mr_UpdateStatus :: "time \<Rightarrow> uuid \<Rightarrow> uuid \<Rightarrow> media_status \<Rightarrow> 's \<Rightarrow> (error + media) \<times> 's"
  mr_UpdateStatuses :: "time \<Rightarrow> uuid \<Rightarrow> uuid list \<Rightarrow> media_status \<Rightarrow> 's \<Rightarrow> error option \<times> 's"
  mr_DeleteManyForEvent :: "time \<Rightarrow> uuid \<Rightarrow> uuid list \<Rightarrow> 's \<Rightarrow> (error + unit) \<times> 's"
  mr_FindUploadForSession :: "uuid \<Rightarrow> uuid \<Rightarrow> uuid \<Rightarrow> 's \<Rightarrow> error + media"
  mr_MarkReady :: "uuid \<Rightarrow> time \<Rightarrow> uuid \<Rightarrow> uuid \<Rightarrow> int \<Rightarrow> time \<Rightarrow> 's \<Rightarrow> (error + unit) \<times> 's"
  mr_UpdateProcessingResult :: "uuid \<Rightarrow> uuid \<Rightarrow> bool \<Rightarrow> presentation_metadata \<Rightarrow> 's \<Rightarrow> error option \<times> 's"
  mr_ListReady :: "uuid \<Rightarrow> int \<Rightarrow> cursor option \<Rightarrow> 's \<Rightarrow> error + media list"
  mr_ListGallery :: "uuid \<Rightarrow> gallery_filter \<Rightarrow> gallery_sort \<Rightarrow> int \<Rightarrow> cursor option \<Rightarrow> 's \<Rightarrow> error + media list"
  mr_GalleryCounts :: "uuid \<Rightarrow> 's \<Rightarrow> error + gallery_counts"
  mr_FindReady :: "uuid \<Rightarrow> uuid \<Rightarrow> 's \<Rightarrow> error + media"
  mr_FindByID :: "uuid \<Rightarrow> 's \<Rightarrow> error + media"
  mr_FindArchivedLocation :: "uuid \<Rightarrow> uuid \<Rightarrow> 's \<Rightarrow> error + string"
  mr_FindStale :: "time \<Rightarrow> int \<Rightarrow> 's \<Rightarrow> error + media list"

end
