(* ===== verification/Media.thy ===== *)
theory Media
  imports MediaRepo
begin

text \<open>
  The media service (internal/media/service.go, media.go): upload targets, confirmation,
  batches, thumbnails, moderation, expiry of abandoned uploads and the gallery pages.

  The object store, the rate limiter, the image codecs and ffmpeg are not under src/:
  they are fields of \<open>media_service\<close>, each of which may change the state \<open>'s\<close> it is
  given. Instants and fresh ids are fields too. What the notifier is told is part of a
  result; it is empty without a notifier.
\<close>

section \<open>Types (media.go, service.go)\<close>

record object_info =
  oi_Size :: int
  oi_ContentType :: string

datatype change_kind = ChangeCreated | ChangeThumbnail | ChangeModerated | ChangeDeleted

record item =
  it_ID :: uuid
  it_MIMEType :: string
  it_OriginalFilename :: string
  it_CreatedAt :: time
  it_IsVideo :: bool
  it_HasEventFrame :: bool
  it_ThumbnailReady :: bool
  it_Status :: media_status
  it_GuestName :: "string option"
  it_Caption :: "string option"
  it_Width :: "int option"
  it_Height :: "int option"
  it_DurationSeconds :: "int option"
  it_TransitionCueSeconds :: "int option"

record media_change =
  mc_Kind :: change_kind
  mc_EventID :: uuid
  mc_IDs :: "uuid list"
  mc_Status :: "media_status option"
  mc_Item :: "item option"

definition newItem :: "media \<Rightarrow> item" where
  "newItem m = \<lparr>it_ID = md_ID m, it_MIMEType = md_MIMEType m,
     it_OriginalFilename = md_OriginalFilename m, it_CreatedAt = md_CreatedAt m,
     it_IsVideo = has_prefix (md_MIMEType m) ''video/'',
     it_HasEventFrame = has_prefix (md_OriginalFilename m) ''candid_'',
     it_ThumbnailReady = md_ThumbnailReady m, it_Status = md_Status m,
     it_GuestName = md_GuestName m, it_Caption = md_Caption m, it_Width = md_Width m,
     it_Height = md_Height m, it_DurationSeconds = md_DurationSeconds m,
     it_TransitionCueSeconds = md_TransitionCueSeconds m\<rparr>"

record 's media_service =
  ms_repo :: "'s media_repo"
  ms_PresignPut :: "string \<Rightarrow> string \<Rightarrow> 's \<Rightarrow> error + string"
  ms_PresignGet :: "string \<Rightarrow> 's \<Rightarrow> error + string"
  ms_PresignDownload :: "(string \<Rightarrow> string \<Rightarrow> 's \<Rightarrow> error + string) option"
  ms_Head :: "string \<Rightarrow> 's \<Rightarrow> error + object_info"
  ms_DeleteObject :: "string \<Rightarrow> 's \<Rightarrow> error option \<times> 's"
  ms_DeleteMany :: "string list \<Rightarrow> 's \<Rightarrow> (string list \<times> error option) \<times> 's"
  ms_OpenRead :: "string \<Rightarrow> 's \<Rightarrow> error + string"
  ms_Put :: "string \<Rightarrow> string \<Rightarrow> string \<Rightarrow> 's \<Rightarrow> error option \<times> 's"
  ms_Allow :: "string \<Rightarrow> 's \<Rightarrow> (error + bool) \<times> 's"
  ms_DecodeConfig :: "string \<Rightarrow> (int \<times> int) option"
  ms_Decode :: "string \<Rightarrow> (int \<times> int) option"
  ms_EncodeScaled :: "string \<Rightarrow> int \<Rightarrow> int \<Rightarrow> string option"
  ms_ffmpeg :: "(string \<Rightarrow> 's \<Rightarrow> string option) option"
  ms_probe :: "media \<Rightarrow> 's \<Rightarrow> presentation_metadata"
  ms_uuid_string :: "uuid \<Rightarrow> string"
  ms_encode_cursor :: "cursor \<Rightarrow> string"
  ms_decode_cursor :: "string \<Rightarrow> cursor option"
  ms_expiry :: time
  ms_maxImage :: int
  ms_maxVideo :: int
  ms_notify :: bool
  ms_now :: time
  ms_fresh :: uuid
  ms_fresh_job :: "uuid \<Rightarrow> uuid"

definition notify_media :: "'s media_service \<Rightarrow> media_change \<Rightarrow> media_change list" where
  "notify_media S c = (if ms_notify S then [c] else [])"

record create_upload_input =
  ui_Filename :: string
  ui_MIMEType :: string
  ui_Size :: int
  ui_ChecksumSHA256 :: string
  ui_ClientUploadID :: uuid
  ui_GuestName :: string
  ui_Caption :: string

record upload_target =
  ut_MediaID :: uuid
  ut_UploadURL :: string
  ut_ExpiresAt :: time
  ut_RequiredHeaders :: "(string \<times> string) list"

record upload_scope =
  us_EventID :: uuid
  us_GuestSessionID :: uuid
  us_Accepting :: bool
  us_MaxEventBytes :: int
  us_EnforceItems :: bool
  us_UploadClosed :: bool

section \<open>Checks of an upload request\<close>

definition supportedMIMETypes :: "(string \<times> string) list" where
  "supportedMIMETypes =
     [(''image/jpeg'', ''.jpg''), (''image/heic'', ''.heic''), (''image/png'', ''.png''),
      (''image/webp'', ''.webp''), (''video/mp4'', ''.mp4''), (''video/quicktime'', ''.mov'')]"

definition allowed :: "string \<Rightarrow> bool" where
  "allowed mime \<longleftrightarrow> map_of supportedMIMETypes mime \<noteq> None"

definition extension :: "string \<Rightarrow> string" where
  "extension mime = coalesce (map_of supportedMIMETypes mime) ''''"

definition limitByMIME :: "string \<Rightarrow> int \<Rightarrow> int \<Rightarrow> int" where
  "limitByMIME mime maxImageBytes maxVideoBytes =
     (if has_prefix mime ''image/'' then maxImageBytes else maxVideoBytes)"

definition hex_char :: "char \<Rightarrow> bool" where
  "hex_char c \<longleftrightarrow> (let n = (of_char c :: nat)
     in (48 \<le> n \<and> n \<le> 57) \<or> (97 \<le> n \<and> n \<le> 102) \<or> (65 \<le> n \<and> n \<le> 70))"

definition validSHA256 :: "string \<Rightarrow> bool" where
  "validSHA256 v \<longleftrightarrow> length v = 64 \<and> list_all hex_char v"

definition optionalText :: "string \<Rightarrow> string option" where
  "optionalText value = (let trimmed = trim_space value in if trimmed = '''' then None else Some trimmed)"

text \<open>\<open>filepath.Base\<close>: without trailing slashes, what follows the last slash.\<close>

definition base_name :: "string \<Rightarrow> string" where
  "base_name p =
     (if p = '''' then ''.''
      else
        (let q = rev (dropWhile (\<lambda>c. c = CHR ''/'') (rev p))
         in if q = '''' then ''/'' else rev (takeWhile (\<lambda>c. c \<noteq> CHR ''/'') (rev q))))"

definition valid_upload :: "'s media_service \<Rightarrow> create_upload_input \<Rightarrow> bool" where
  "valid_upload S inp \<longleftrightarrow>
     0 < ui_Size inp \<and> allowed (ui_MIMEType inp) \<and>
     ui_Size inp \<le> limitByMIME (ui_MIMEType inp) (ms_maxImage S) (ms_maxVideo S) \<and>
     validSHA256 (ui_ChecksumSHA256 inp)"

section \<open>Upload targets\<close>

definition object_key :: "'s media_service \<Rightarrow> uuid \<Rightarrow> uuid \<Rightarrow> string \<Rightarrow> string" where
  "object_key S eventID mediaID mime = ''events/'' @ ms_uuid_string S eventID @ ''/media/'' @
     ms_uuid_string S mediaID @ ''/original'' @ extension mime"

definition new_media :: "'s media_service \<Rightarrow> upload_scope \<Rightarrow> create_upload_input \<Rightarrow> media" where
  "new_media S sc inp = \<lparr>md_ID = ms_fresh S, md_EventID = us_EventID sc,
     md_GuestSessionID = us_GuestSessionID sc,
     md_ObjectKey = object_key S (us_EventID sc) (ms_fresh S) (ui_MIMEType inp),
     md_OriginalFilename = base_name (ui_Filename inp), md_MIMEType = ui_MIMEType inp,
     md_GuestName = optionalText (ui_GuestName inp), md_Caption = optionalText (ui_Caption inp),
     md_ExpectedSize = ui_Size inp, md_ActualSize = None,
     md_ChecksumSHA256 = map ascii_lower (ui_ChecksumSHA256 inp),
     md_ClientUploadID = Some (ui_ClientUploadID inp), md_Status = MediaPending, md_CreatedAt = 0,
     md_LastActivityAt = ms_now S, md_UploadedAt = None, md_FailedAt = None,
     md_ThumbnailReady = False, md_Width = None, md_Height = None, md_DurationSeconds = None,
     md_TransitionCueSeconds = None, md_SourceDeletedAt = None\<rparr>"

text \<open>
  The path of a request no record exists for yet. It returns the record to hand out and
  whether this call created it.
\<close>

definition reserve_new ::
  "'s media_service \<Rightarrow> upload_scope \<Rightarrow> create_upload_input \<Rightarrow> 's \<Rightarrow> (error + media \<times> bool) \<times> 's" where
  "reserve_new S sc inp s =
     (if us_UploadClosed sc then (Inl (Media ErrUploadClosed), s)
      else
     (case mr_HasReadyChecksum (ms_repo S) (us_EventID sc) (ui_ChecksumSHA256 inp) s of
        Inl e \<Rightarrow> (Inl e, s)
      | Inr duplicate \<Rightarrow>
          if duplicate then (Inl (Media ErrDuplicate), s)
          else
     (case ms_Allow S (''upload:'' @ ms_uuid_string S (us_GuestSessionID sc)) s of
        (Inl e, s1) \<Rightarrow> (Inl e, s1)
      | (Inr ok, s1) \<Rightarrow>
          if \<not> ok then (Inl (Fmt ''upload rate limit exceeded''), s1)
          else
            (let m = new_media S sc inp
             in case mr_ReserveUpload (ms_repo S) (ms_now S) m
                       \<lparr>MaxEventBytes = us_MaxEventBytes sc, EnforceItems = us_EnforceItems sc\<rparr> s1 of
                  (Inl e, s2) \<Rightarrow>
                    (case mr_FindByClientUpload (ms_repo S) (us_EventID sc) (us_GuestSessionID sc)
                            (ui_ClientUploadID inp) s2 of
                       Inr existing \<Rightarrow> (Inr (existing, False), s2)
                     | Inl _ \<Rightarrow> (Inl e, s2))
                | (Inr _, s2) \<Rightarrow> (Inr (m, True), s2)))))"

definition hand_out :: "'s media_service \<Rightarrow> media \<Rightarrow> bool \<Rightarrow> 's \<Rightarrow> (error + upload_target) \<times> 's" where
  "hand_out S m created s =
     (case ms_PresignPut S (md_ObjectKey m) (md_MIMEType m) s of
        Inl e \<Rightarrow> (Inl e, if created then snd (mr_Delete (ms_repo S) (md_ID m) s) else s)
      | Inr url \<Rightarrow> (Inr \<lparr>ut_MediaID = md_ID m, ut_UploadURL = url,
          ut_ExpiresAt = ms_now S + ms_expiry S,
          ut_RequiredHeaders = [(''Content-Type'', md_MIMEType m),
            (''Cache-Control'', ''private, max-age=1800'')]\<rparr>, s))"

definition CreateUpload ::
  "'s media_service \<Rightarrow> upload_scope \<Rightarrow> create_upload_input \<Rightarrow> 's \<Rightarrow> (error + upload_target) \<times> 's" where
  "CreateUpload S sc inp s =
     (if \<not> us_Accepting sc then (Inl (Fmt ''event is not accepting uploads''), s)
      else if \<not> valid_upload S inp then (Inl (Fmt ''invalid media type or file size''), s)
      else if ui_ClientUploadID inp = uuid_nil then (Inl (Fmt ''client upload id is required''), s)
      else
     (case mr_FindByClientUpload (ms_repo S) (us_EventID sc) (us_GuestSessionID sc)
             (ui_ClientUploadID inp) s of
        Inr m \<Rightarrow> hand_out S m False s
      | Inl e \<Rightarrow>
          if e \<noteq> Media ErrMediaNotFound then (Inl e, s)
          else
            (case reserve_new S sc inp s of
               (Inl e, s1) \<Rightarrow> (Inl e, s1)
             | (Inr (m, created), s1) \<Rightarrow> hand_out S m created s1)))"

section \<open>Confirmation\<close>

definition Complete ::
  "'s media_service \<Rightarrow> upload_scope \<Rightarrow> uuid \<Rightarrow> 's \<Rightarrow> (error option \<times> media_change list) \<times> 's" where
  "Complete S sc mediaID s =
     (if \<not> us_Accepting sc then ((Some (Fmt ''event is not accepting uploads''), []), s)
      else
     (case mr_FindUploadForSession (ms_repo S) mediaID (us_EventID sc) (us_GuestSessionID sc) s of
        Inl e \<Rightarrow> ((Some e, []), s)
      | Inr m \<Rightarrow>
          if md_Status m = MediaReady then ((None, []), s)
          else
     (case ms_Head S (md_ObjectKey m) s of
        Inl e \<Rightarrow> ((Some e, []), s)
      | Inr obj \<Rightarrow>
          if oi_Size obj \<noteq> md_ExpectedSize m \<or> oi_ContentType obj \<noteq> md_MIMEType m
          then ((Some (Fmt ''uploaded object metadata does not match requested upload''), []), s)
          else
     (case mr_MarkReady (ms_repo S) (ms_fresh_job S mediaID) (ms_now S) (us_EventID sc) (md_ID m)
             (oi_Size obj) (ms_now S) s of
        (Inr _, s1) \<Rightarrow>
          ((None, notify_media S \<lparr>mc_Kind = ChangeCreated, mc_EventID = us_EventID sc,
             mc_IDs = [md_ID m], mc_Status = Some MediaReady,
             mc_Item = Some (newItem (m\<lparr>md_Status := MediaReady\<rparr>))\<rparr>), s1)
      | (Inl e, s1) \<Rightarrow>
          if e = Media ErrMediaNotFound then
            (case mr_FindUploadForSession (ms_repo S) mediaID (us_EventID sc)
                    (us_GuestSessionID sc) s1 of
               Inr current \<Rightarrow>
                 (if md_Status current = MediaReady then ((None, []), s1) else ((Some e, []), s1))
             | Inl _ \<Rightarrow> ((Some e, []), s1))
          else if e = Media ErrDuplicate then
            (let s2 = snd (ms_DeleteObject S (md_ObjectKey m) s1)
             in ((Some e, []), snd (mr_Delete (ms_repo S) (md_ID m) s2)))
          else ((Some e, []), s1)))))"

definition MaxCompleteBatch :: nat where "MaxCompleteBatch = 50"

fun unique_ids :: "uuid list \<Rightarrow> uuid list \<Rightarrow> uuid list" where
  "unique_ids seen [] = []"
| "unique_ids seen (i # is) =
     (if i = uuid_nil \<or> i \<in> set seen then unique_ids seen is else i # unique_ids (i # seen) is)"

definition uniqueMediaIDs :: "uuid list \<Rightarrow> uuid list" where
  "uniqueMediaIDs ids = unique_ids [] ids"

text \<open>
  A batch runs its confirmations concurrently, at most six at a time; \<open>order\<close> is the
  order in which they take effect.
\<close>

fun complete_each ::
  "'s media_service \<Rightarrow> upload_scope \<Rightarrow> uuid list \<Rightarrow> 's \<Rightarrow>
     ((uuid \<times> error option) list \<times> media_change list) \<times> 's" where
  "complete_each S sc [] s = (([], []), s)"
| "complete_each S sc (i # is) s =
     (let ((e, ch), s1) = Complete S sc i s; ((rs, chs), s2) = complete_each S sc is s1
      in (((i, e) # rs, ch @ chs), s2))"

record complete_result =
  cr_MediaID :: uuid
  cr_Status :: string
  cr_Error :: "error option"

definition complete_result_of :: "(uuid \<times> error option) list \<Rightarrow> uuid \<Rightarrow> complete_result" where
  "complete_result_of rs i =
     (case map_of rs i of
        Some (Some e) \<Rightarrow> \<lparr>cr_MediaID = i, cr_Status = ''failed'', cr_Error = Some e\<rparr>
      | _ \<Rightarrow> \<lparr>cr_MediaID = i, cr_Status = ''ready'', cr_Error = None\<rparr>)"

definition CompleteMany ::
  "'s media_service \<Rightarrow> (uuid list \<Rightarrow> uuid list) \<Rightarrow> upload_scope \<Rightarrow> uuid list \<Rightarrow> 's \<Rightarrow>
     (error + complete_result list \<times> media_change list) \<times> 's" where
  "CompleteMany S order sc ids0 s =
     (let ids = uniqueMediaIDs ids0
      in if ids = [] \<or> MaxCompleteBatch < length ids
         then (Inl (Fmt ''between 1 and 50 media ids are required''), s)
         else if \<not> us_Accepting sc then (Inl (Fmt ''event is not accepting uploads''), s)
         else
           (let ((rs, chs), s1) = complete_each S sc (order ids) s
            in (Inr (map (complete_result_of rs) ids, chs), s1)))"

section \<open>Thumbnails\<close>

definition thumbnailKey :: "'s media_service \<Rightarrow> media \<Rightarrow> string" where
  "thumbnailKey S m = ''events/'' @ ms_uuid_string S (md_EventID m) @ ''/media/'' @
     ms_uuid_string S (md_ID m) @ ''/thumbnail.jpg''"

definition maxThumbnailPixels :: int where "maxThumbnailPixels = 50000000"

definition hasPresentationMetadata :: "media \<Rightarrow> bool" where
  "hasPresentationMetadata m =
     (if md_Width m = None \<or> md_Height m = None then False
      else if has_prefix (md_MIMEType m) ''video/''
      then md_DurationSeconds m \<noteq> None \<and> md_TransitionCueSeconds m \<noteq> None
      else True)"

definition updateProcessingResult ::
  "'s media_service \<Rightarrow> media \<Rightarrow> bool \<Rightarrow> presentation_metadata \<Rightarrow> 's \<Rightarrow> error option \<times> 's" where
  "updateProcessingResult S m thumbnailReady md s =
     (case mr_UpdateProcessingResult (ms_repo S) (md_EventID m) (md_ID m) thumbnailReady md s of
        (Some e, s1) \<Rightarrow> (if e = Media ErrMediaNotFound then None else Some e, s1)
      | (None, s1) \<Rightarrow> (None, s1))"

text \<open>The scaled size: the longer side at most 720, in Go's truncating division.\<close>

definition thumbnail_size :: "int \<Rightarrow> int \<Rightarrow> int \<times> int" where
  "thumbnail_size width height =
     (if height < width \<and> 720 < width then (720, (height * 720) sdiv width)
      else if 720 < height then ((width * 720) sdiv height, 720)
      else (width, height))"

definition store_thumbnail ::
  "'s media_service \<Rightarrow> media \<Rightarrow> presentation_metadata \<Rightarrow> string \<Rightarrow> 's \<Rightarrow>
     (error option \<times> media_change list) \<times> 's" where
  "store_thumbnail S m md encoded s =
     (case ms_Put S (thumbnailKey S m) ''image/jpeg'' encoded s of
        (Some e, s1) \<Rightarrow> ((Some e, []), s1)
      | (None, s1) \<Rightarrow>
          (case updateProcessingResult S m True md s1 of
             (Some e, s2) \<Rightarrow> ((Some e, []), s2)
           | (None, s2) \<Rightarrow> ((None, notify_media S \<lparr>mc_Kind = ChangeThumbnail,
               mc_EventID = md_EventID m, mc_IDs = [md_ID m], mc_Status = None, mc_Item = None\<rparr>), s2)))"

definition generateImageThumbnail ::
  "'s media_service \<Rightarrow> media \<Rightarrow> 's \<Rightarrow> (error option \<times> media_change list) \<times> 's" where
  "generateImageThumbnail S m s =
     (case ms_OpenRead S (md_ObjectKey m) s of
        Inl e \<Rightarrow> ((Some e, []), s)
      | Inr body \<Rightarrow>
     (case ms_DecodeConfig S body of
        None \<Rightarrow> ((None, []), s)
      | Some (w, h) \<Rightarrow>
          (let md = \<lparr>pm_Width = Some w, pm_Height = Some h, pm_DurationSeconds = None,
                 pm_TransitionCueSeconds = None\<rparr>
           in if w < 1 \<or> h < 1 then ((None, []), s)
              else if md_ThumbnailReady m \<or> maxThumbnailPixels < i64 (w * h)
              then (let (e, s1) = updateProcessingResult S m (md_ThumbnailReady m) md s
                    in ((e, []), s1))
              else
                (case ms_Decode S body of
                   None \<Rightarrow> ((None, []), s)
                 | Some (width, height) \<Rightarrow>
                     if width < 1 \<or> height < 1 then ((None, []), s)
                     else
                       (let (tw, th) = thumbnail_size width height
                        in case ms_EncodeScaled S body tw th of
                             None \<Rightarrow> ((None, []), s)
                           | Some encoded \<Rightarrow> store_thumbnail S m md encoded s)))))"

definition generateVideoThumbnail ::
  "'s media_service \<Rightarrow> media \<Rightarrow> 's \<Rightarrow> (error option \<times> media_change list) \<times> 's" where
  "generateVideoThumbnail S m s =
     (let md = ms_probe S m s
      in if md_ThumbnailReady m
         then (let (e, s1) = updateProcessingResult S m True md s in ((e, []), s1))
         else
           (case ms_ffmpeg S of
              None \<Rightarrow> (let (e, s1) = updateProcessingResult S m False md s in ((e, []), s1))
            | Some run \<Rightarrow>
                (case ms_PresignGet S (md_ObjectKey m) s of
                   Inl e \<Rightarrow> ((Some e, []), s)
                 | Inr url \<Rightarrow>
                     (case run url s of
                        None \<Rightarrow> ((None, []), s)
                      | Some frame \<Rightarrow> if frame = '''' then ((None, []), s)
                                      else store_thumbnail S m md frame s))))"

definition GenerateThumbnail ::
  "'s media_service \<Rightarrow> uuid \<Rightarrow> 's \<Rightarrow> (error option \<times> media_change list) \<times> 's" where
  "GenerateThumbnail S mediaID s =
     (case mr_FindByID (ms_repo S) mediaID s of
        Inl e \<Rightarrow> ((if e = Media ErrMediaNotFound then None else Some e, []), s)
      | Inr m \<Rightarrow>
          if md_ThumbnailReady m \<and> hasPresentationMetadata m then ((None, []), s)
          else if has_prefix (md_MIMEType m) ''image/'' then generateImageThumbnail S m s
          else if has_prefix (md_MIMEType m) ''video/'' then generateVideoThumbnail S m s
          else ((None, []), s))"

section \<open>Expiry, moderation and deletion\<close>

definition ExpireStale :: "'s media_service \<Rightarrow> time \<Rightarrow> int \<Rightarrow> 's \<Rightarrow> error option \<times> 's" where
  "ExpireStale S before lim s =
     (case mr_FindStale (ms_repo S) before lim s of
        Inl e \<Rightarrow> (Some e, s)
      | Inr items \<Rightarrow>
          if items = [] then (None, s)
          else
            (let ((unremoved, deleteErr), s1) = ms_DeleteMany S (map md_ObjectKey items) s;
                 expired = map md_ID (filter (\<lambda>m. md_ObjectKey m \<notin> set unremoved) items)
             in case mr_DeleteManyUploads (ms_repo S) expired s1 of
                  (Some e, s2) \<Rightarrow> (Some e, s2)
                | (None, s2) \<Rightarrow>
                    (if unremoved \<noteq> []
                     then (Some (coalesce deleteErr (Fmt ''expired stale uploads'')), s2)
                     else (None, s2))))"

definition validModerationStatus :: "media_status \<Rightarrow> bool" where
  "validModerationStatus st \<longleftrightarrow> st = MediaReady \<or> st = MediaFeatured \<or> st = MediaHidden"

definition UpdateStatus ::
  "'s media_service \<Rightarrow> uuid \<Rightarrow> uuid \<Rightarrow> media_status \<Rightarrow> 's \<Rightarrow>
     (error + media \<times> media_change list) \<times> 's" where
  "UpdateStatus S eventID mediaID st s =
     (if \<not> validModerationStatus st then (Inl (Fmt ''invalid media status''), s)
      else
        (case mr_UpdateStatus (ms_repo S) (ms_now S) eventID mediaID st s of
           (Inl e, s1) \<Rightarrow> (Inl e, s1)
         | (Inr m, s1) \<Rightarrow> (Inr (m, notify_media S \<lparr>mc_Kind = ChangeModerated, mc_EventID = eventID,
             mc_IDs = [mediaID], mc_Status = Some st, mc_Item = Some (newItem m)\<rparr>), s1)))"

definition UpdateStatuses ::
  "'s media_service \<Rightarrow> uuid \<Rightarrow> uuid list \<Rightarrow> media_status \<Rightarrow> 's \<Rightarrow>
     (error option \<times> media_change list) \<times> 's" where
  "UpdateStatuses S eventID ids0 st s =
     (if \<not> validModerationStatus st then ((Some (Fmt ''invalid media status''), []), s)
      else
        (let ids = uniqueMediaIDs ids0
         in if ids = [] \<or> 100 < length ids
            then ((Some (Fmt ''between 1 and 100 media ids are required''), []), s)
            else
              (case mr_UpdateStatuses (ms_repo S) (ms_now S) eventID ids st s of
                 (Some e, s1) \<Rightarrow> ((Some e, []), s1)
               | (None, s1) \<Rightarrow> ((None, notify_media S \<lparr>mc_Kind = ChangeModerated, mc_EventID = eventID,
                   mc_IDs = ids, mc_Status = Some st, mc_Item = None\<rparr>), s1))))"

definition DeleteForEvent ::
  "'s media_service \<Rightarrow> uuid \<Rightarrow> uuid \<Rightarrow> 's \<Rightarrow> (error option \<times> media_change list) \<times> 's" where
  "DeleteForEvent S eventID mediaID s =
     (if mediaID = uuid_nil then ((Some (Media ErrMediaNotFound), []), s)
      else
        (case mr_DeleteManyForEvent (ms_repo S) (ms_now S) eventID [mediaID] s of
           (Inl e, s1) \<Rightarrow> ((Some e, []), s1)
         | (Inr _, s1) \<Rightarrow> ((None, notify_media S \<lparr>mc_Kind = ChangeDeleted, mc_EventID = eventID,
             mc_IDs = [mediaID], mc_Status = None, mc_Item = None\<rparr>), s1)))"

definition DeleteManyForEvent ::
  "'s media_service \<Rightarrow> uuid \<Rightarrow> uuid list \<Rightarrow> 's \<Rightarrow> (error option \<times> media_change list) \<times> 's" where
  "DeleteManyForEvent S eventID ids0 s =
     (let ids = uniqueMediaIDs ids0
      in if ids = [] \<or> 100 < length ids
         then ((Some (Fmt ''between 1 and 100 media ids are required''), []), s)
         else
           (case mr_DeleteManyForEvent (ms_repo S) (ms_now S) eventID ids s of
              (Inl e, s1) \<Rightarrow> ((Some e, []), s1)
            | (Inr _, s1) \<Rightarrow> ((None, notify_media S \<lparr>mc_Kind = ChangeDeleted, mc_EventID = eventID,
                mc_IDs = ids, mc_Status = None, mc_Item = None\<rparr>), s1)))"

end
