(* ===== verification/Gallery.thy ===== *)
theory Gallery
  imports Media
begin

text \<open>
  Gallery pages and links (internal/media/service.go, media.go): the keyset paging of
  ready and filtered media, the projection to public views, and the signing of a page.

  A cursor travels as the text \<open>ms_encode_cursor\<close> makes of it, the base64 of a JSON
  object; \<open>ms_decode_cursor\<close> reads it back, \<open>None\<close> for text that is no cursor.
\<close>

record public_view =
  vw_ID :: uuid
  vw_URL :: string
  vw_DownloadURL :: string
  vw_MIMEType :: string
  vw_OriginalFilename :: string
  vw_ThumbnailURL :: string
  vw_CreatedAt :: time
  vw_IsVideo :: bool
  vw_HasEventFrame :: bool
  vw_ThumbnailReady :: bool
  vw_Status :: media_status
  vw_GuestName :: "string option"
  vw_Caption :: "string option"
  vw_Width :: "int option"
  vw_Height :: "int option"
  vw_DurationSeconds :: "int option"
  vw_TransitionCueSeconds :: "int option"
  vw_objectKey :: string
  vw_thumbnailKey :: string
  vw_routeURL :: string
  vw_sourceArchived :: bool

definition SourceArchived :: "media \<Rightarrow> bool" where
  "SourceArchived m \<longleftrightarrow> md_SourceDeletedAt m \<noteq> None"

definition newPublicView :: "'s media_service \<Rightarrow> (uuid \<Rightarrow> string) \<Rightarrow> media \<Rightarrow> public_view" where
  "newPublicView S urlFor m = \<lparr>vw_ID = md_ID m, vw_URL = urlFor (md_ID m), vw_DownloadURL = '''',
     vw_MIMEType = md_MIMEType m, vw_OriginalFilename = md_OriginalFilename m, vw_ThumbnailURL = '''',
     vw_CreatedAt = md_CreatedAt m, vw_IsVideo = has_prefix (md_MIMEType m) ''video/'',
     vw_HasEventFrame = has_prefix (md_OriginalFilename m) ''candid_'',
     vw_ThumbnailReady = md_ThumbnailReady m, vw_Status = md_Status m, vw_GuestName = md_GuestName m,
     vw_Caption = md_Caption m, vw_Width = md_Width m, vw_Height = md_Height m,
     vw_DurationSeconds = md_DurationSeconds m, vw_TransitionCueSeconds = md_TransitionCueSeconds m,
     vw_objectKey = md_ObjectKey m, vw_thumbnailKey = thumbnailKey S m, vw_routeURL = urlFor (md_ID m),
     vw_sourceArchived = SourceArchived m\<rparr>"

section \<open>Pages\<close>

record cursor_page =
  cp_Data :: "public_view list"
  cp_NextCursor :: string
  cp_HasMore :: bool

record gallery_page =
  gp_Data :: "public_view list"
  gp_Counts :: "gallery_counts option"
  gp_NextCursor :: string
  gp_HasMore :: bool

text \<open>No cursor, a cursor, or an error for text that does not decode.\<close>

definition parse_cursor :: "'s media_service \<Rightarrow> string \<Rightarrow> error + cursor option" where
  "parse_cursor S c =
     (if c = '''' then Inr None
      else (case ms_decode_cursor S c of
              None \<Rightarrow> Inl (Fmt ''invalid cursor'')
            | Some b \<Rightarrow> Inr (Some b)))"

text \<open>
  One row more than the page is read; it only tells whether there is a next page. The
  next cursor is the position of the last row shown.
\<close>

definition cut_page ::
  "'s media_service \<Rightarrow> int \<Rightarrow> media list \<Rightarrow> media list \<times> string \<times> bool" where
  "cut_page S lim records =
     (let hasMore = (lim < int (length records));
          shown = (if hasMore then take (nat lim) records else records);
          next_cursor = (if hasMore
             then ms_encode_cursor S \<lparr>cu_CreatedAt = md_CreatedAt (last shown), cu_ID = md_ID (last shown)\<rparr>
             else '''')
      in (shown, next_cursor, hasMore))"

definition ListReady ::
  "'s media_service \<Rightarrow> (uuid \<Rightarrow> string) \<Rightarrow> uuid \<Rightarrow> int \<Rightarrow> string \<Rightarrow> 's \<Rightarrow> error + cursor_page" where
  "ListReady S urlFor eventID lim0 c s =
     (let lim = (if lim0 < 1 \<or> 100 < lim0 then 60 else lim0)
      in case parse_cursor S c of
           Inl e \<Rightarrow> Inl e
         | Inr before \<Rightarrow>
             (case mr_ListReady (ms_repo S) eventID (lim + 1) before s of
                Inl e \<Rightarrow> Inl e
              | Inr records \<Rightarrow>
                  (let (shown, nxt, hasMore) = cut_page S lim records
                   in Inr \<lparr>cp_Data = map (newPublicView S urlFor) shown, cp_NextCursor = nxt,
                           cp_HasMore = hasMore\<rparr>)))"

definition ListGallery ::
  "'s media_service \<Rightarrow> (uuid \<Rightarrow> string) \<Rightarrow> uuid \<Rightarrow> gallery_filter \<Rightarrow> gallery_sort \<Rightarrow> int \<Rightarrow> string \<Rightarrow>
     's \<Rightarrow> error + gallery_page" where
  "ListGallery S urlFor eventID flt0 srt0 lim0 c s =
     (let lim = (if lim0 < 1 \<or> 100 < lim0 then 24 else lim0);
          flt = (if flt0 = FilterOther '''' then FilterAll else flt0);
          srt = (if srt0 = SortOther '''' then SortNewest else srt0)
      in if flt \<notin> {FilterAll, FilterPhotos, FilterVideos, FilterFavorites, FilterHidden}
         then Inl (Fmt ''invalid media filter'')
         else if srt \<notin> {SortNewest, SortOldest} then Inl (Fmt ''invalid media sort'')
         else
           (case parse_cursor S c of
              Inl e \<Rightarrow> Inl e
            | Inr before \<Rightarrow>
           (case mr_ListGallery (ms_repo S) eventID flt srt (lim + 1) before s of
              Inl e \<Rightarrow> Inl e
            | Inr records \<Rightarrow>
           (case (if before = None
                  then (case mr_GalleryCounts (ms_repo S) eventID s of
                          Inl e \<Rightarrow> Inl e | Inr totals \<Rightarrow> Inr (Some totals))
                  else Inr None) of
              Inl e \<Rightarrow> Inl e
            | Inr counts \<Rightarrow>
                (let (shown, nxt, hasMore) = cut_page S lim records
                 in Inr \<lparr>gp_Data = map (newPublicView S urlFor) shown, gp_Counts = counts,
                         gp_NextCursor = nxt, gp_HasMore = hasMore\<rparr>)))))"

section \<open>Links\<close>

text \<open>\<open>filepath.Ext\<close>: from the last dot after the last slash.\<close>

definition file_ext :: "string \<Rightarrow> string" where
  "file_ext p = (let b = rev (takeWhile (\<lambda>c. c \<noteq> CHR ''/'') (rev p))
     in if CHR ''.'' \<in> set b then CHR ''.'' # rev (takeWhile (\<lambda>c. c \<noteq> CHR ''.'') (rev b)) else '''')"

definition download_name :: "'s media_service \<Rightarrow> public_view \<Rightarrow> string" where
  "download_name S v =
     (if vw_OriginalFilename v = ''''
      then ''candid-media-'' @ take 8 (ms_uuid_string S (vw_ID v)) @ file_ext (vw_objectKey v)
      else vw_OriginalFilename v)"

definition sign_source :: "'s media_service \<Rightarrow> public_view \<Rightarrow> 's \<Rightarrow> error + public_view" where
  "sign_source S v s =
     (if vw_sourceArchived v \<or> vw_objectKey v = '''' then Inr v
      else
        (case ms_PresignGet S (vw_objectKey v) s of
           Inl e \<Rightarrow> Inl e
         | Inr url \<Rightarrow>
             (case ms_PresignDownload S of
                None \<Rightarrow> Inr (v\<lparr>vw_URL := url\<rparr>)
              | Some presign \<Rightarrow>
                  (case presign (vw_objectKey v) (download_name S v) s of
                     Inl _ \<Rightarrow> Inr (v\<lparr>vw_URL := url\<rparr>)
                   | Inr dl \<Rightarrow> Inr (v\<lparr>vw_URL := url, vw_DownloadURL := dl\<rparr>)))))"

definition sign_thumbnail :: "'s media_service \<Rightarrow> public_view \<Rightarrow> 's \<Rightarrow> error + public_view" where
  "sign_thumbnail S v s =
     (if vw_ThumbnailReady v \<and> vw_thumbnailKey v \<noteq> ''''
      then (case ms_PresignGet S (vw_thumbnailKey v) s of
              Inl e \<Rightarrow> Inl e
            | Inr url \<Rightarrow> Inr (v\<lparr>vw_ThumbnailURL := url\<rparr>))
      else Inr v)"

text \<open>The caller drops the views when signing fails.\<close>

fun SignPage :: "'s media_service \<Rightarrow> public_view list \<Rightarrow> 's \<Rightarrow> error + public_view list" where
  "SignPage S [] s = Inr []"
| "SignPage S (v # vs) s =
     (case sign_source S v s of
        Inl e \<Rightarrow> Inl e
      | Inr v1 \<Rightarrow>
     (case sign_thumbnail S v1 s of
        Inl e \<Rightarrow> Inl e
      | Inr v2 \<Rightarrow>
     (case SignPage S vs s of
        Inl e \<Rightarrow> Inl e
      | Inr ws \<Rightarrow> Inr (v2 # ws))))"

definition ReadURL :: "'s media_service \<Rightarrow> uuid \<Rightarrow> uuid \<Rightarrow> 's \<Rightarrow> error + string" where
  "ReadURL S eventID mediaID s =
     (case mr_FindReady (ms_repo S) eventID mediaID s of
        Inl e \<Rightarrow> Inl e
      | Inr m \<Rightarrow> ms_PresignGet S (md_ObjectKey m) s)"

definition ArchivedLocation :: "'s media_service \<Rightarrow> uuid \<Rightarrow> uuid \<Rightarrow> 's \<Rightarrow> error + string" where
  "ArchivedLocation S eventID mediaID s = mr_FindArchivedLocation (ms_repo S) eventID mediaID s"

end
