(* ===== verification/MediaQuota.thy ===== *)
theory MediaQuota
  imports Media
begin

text \<open>
  The quota of an event under concurrent uploads. Every repository operation is one
  atomic step; \<open>media_step\<close> is the relation of all of them, so a run of guests, hosts and
  the expiry job in any interleaving is a sequence of steps. The counters of an event
  are exact in every reachable state, and the limits they enforce are never overshot.
\<close>

section \<open>Sums over an updated table\<close>

lemma int_count_where: "int (count_where p t) = sum_where p (\<lambda>_. 1) t"
  by (induction t) auto

lemma sum_where_update_same [tbl]:
  assumes "\<And>r. r \<in> set t \<Longrightarrow> q r \<Longrightarrow> p (g r) = p r \<and> f (g r) = f r"
  shows "sum_where p f (update_where q g t) = sum_where p f t"
  using assms by (induction t) auto

lemma sum_where_update_leave [tbl]:
  assumes "\<And>r. r \<in> set t \<Longrightarrow> q r \<Longrightarrow> \<not> p (g r)"
  shows "sum_where p f (update_where q g t) = sum_where p f t - sum_where (\<lambda>r. p r \<and> q r) f t"
  using assms by (induction t) auto

lemma sum_where_delete [tbl]:
  "sum_where p f (delete_where q t) = sum_where p f t - sum_where (\<lambda>r. p r \<and> q r) f t"
  by (induction t) (auto simp: delete_where_def)

lemma sum_where_cong [tbl]:
  "(\<And>r. r \<in> set t \<Longrightarrow> p r = q r) \<Longrightarrow> (\<And>r. r \<in> set t \<Longrightarrow> q r \<Longrightarrow> f r = g r) \<Longrightarrow>
     sum_where p f t = sum_where q g t"
  by (induction t) auto

lemma sum_where_none [tbl]: "(\<And>r. r \<in> set t \<Longrightarrow> \<not> p r) \<Longrightarrow> sum_where p f t = 0"
  by (induction t) auto

lemma sum_where_filter: "sum_list (map f (filter p t)) = sum_where p f t"
  by (simp add: sum_where_def)

lemma count_where_one:
  assumes "count_where q t = 1"
  obtains m where "m \<in> set t" "q m" "\<forall>f. sum_where q f t = (f m :: int)" "\<forall>x \<in> set t. q x \<longrightarrow> x = m"
proof -
  from assms obtain m where m: "filter q t = [m]"
    by (auto simp: count_where_def length_Suc_conv)
  then have f: "set (filter q t) = {m}" by simp
  then have "m \<in> set t" "q m" by auto
  moreover have "\<forall>f. sum_where q f t = (f m :: int)"
    by (simp add: sum_where_def m)
  moreover have "\<forall>x \<in> set t. q x \<longrightarrow> x = m"
    using f by auto
  ultimately show thesis by (rule that)
qed

lemma sum_where_member_le:
  assumes "m \<in> set t" "p m" "\<And>r. r \<in> set t \<Longrightarrow> p r \<Longrightarrow> 0 \<le> f r"
  shows "f m \<le> sum_where p f t"
  using assms
proof (induction t)
  case (Cons r t)
  have "0 \<le> sum_where p f t" by (rule sum_where_nonneg) (use Cons.prems in auto)
  then show ?case using Cons by (auto intro: add_increasing)
qed simp

lemma keyed_unique: "keyed k t \<Longrightarrow> x \<in> set t \<Longrightarrow> y \<in> set t \<Longrightarrow> k x = k y \<Longrightarrow> x = y"
  by (metis keyed_lookup option.inject)

section \<open>The counters and what they count\<close>

definition photo_w :: "media \<Rightarrow> int" where
  "photo_w m = (if is_photo m then 1 else 0)"

definition video_w :: "media \<Rightarrow> int" where
  "video_w m = (if is_video m then 1 else 0)"

definition flight_sum :: "(media \<Rightarrow> int) \<Rightarrow> uuid \<Rightarrow> media list \<Rightarrow> int" where
  "flight_sum w i t = sum_where (\<lambda>m. md_EventID m = i \<and> in_flight (md_Status m)) w t"

definition reserved_exact :: "media list \<Rightarrow> event \<Rightarrow> bool" where
  "reserved_exact t e \<longleftrightarrow>
     ev_ReservedMediaBytes e = flight_sum md_ExpectedSize (ev_ID e) t \<and>
     reserved_media_items e = flight_sum (\<lambda>_. 1) (ev_ID e) t \<and>
     reserved_photo_items e = flight_sum photo_w (ev_ID e) t \<and>
     reserved_video_items e = flight_sum video_w (ev_ID e) t"

definition media_inv :: "db \<Rightarrow> bool" where
  "media_inv s \<longleftrightarrow> keyed ev_ID (t_events s) \<and> keyed md_ID (t_media s) \<and>
     (\<forall>m \<in> set (t_media s). 0 \<le> md_ExpectedSize m \<and> 0 \<le> actual_size m) \<and>
     (\<forall>e \<in> set (t_events s). 0 \<le> ev_UsedMediaBytes e \<and> reserved_exact (t_media s) e)"

definition bytes_within :: "reserve_limits \<Rightarrow> event \<Rightarrow> bool" where
  "bytes_within lim e \<longleftrightarrow> ev_UsedMediaBytes e + ev_ReservedMediaBytes e \<le> byte_limit lim e"

definition within :: "int \<Rightarrow> int \<Rightarrow> bool" where
  "within n limit \<longleftrightarrow> limit = 0 \<or> n \<le> limit"

definition items_within :: "event \<Rightarrow> bool" where
  "items_within e \<longleftrightarrow>
     within (uploaded_media_items e + reserved_media_items e) (max_media_items e) \<and>
     within (uploaded_photo_items e + reserved_photo_items e) (max_photo_items e) \<and>
     within (uploaded_video_items e + reserved_video_items e) (max_video_items e)"

definition quota_kept :: "reserve_limits \<Rightarrow> event \<Rightarrow> bool" where
  "quota_kept lim e \<longleftrightarrow> bytes_within lim e \<and> (EnforceItems lim \<longrightarrow> items_within e)"

lemma media_kinds_disjoint: "is_photo m \<Longrightarrow> \<not> is_video m"
  by (cases "md_MIMEType m") (auto simp: is_photo_def is_video_def has_prefix_def)

lemma mediaKind_w:
  "fst (mediaKind (md_MIMEType m)) = photo_w m" "snd (mediaKind (md_MIMEType m)) = video_w m"
  using media_kinds_disjoint [of m]
  by (auto simp: mediaKind_def photo_w_def video_w_def is_photo_def is_video_def)

lemma w_nonneg [simp]: "0 \<le> photo_w m" "0 \<le> video_w m"
  by (simp_all add: photo_w_def video_w_def)

text \<open>What a row in flight reserves is part of the counters.\<close>

lemma in_flight_counted:
  assumes "media_inv s" "m \<in> set (t_media s)" "in_flight (md_Status m)"
    "e \<in> set (t_events s)" "ev_ID e = md_EventID m"
  shows "md_ExpectedSize m \<le> ev_ReservedMediaBytes e" "1 \<le> reserved_media_items e"
    "photo_w m \<le> reserved_photo_items e" "video_w m \<le> reserved_video_items e"
proof -
  have le: "w m \<le> flight_sum w (ev_ID e) (t_media s)" if "\<And>r. r \<in> set (t_media s) \<Longrightarrow> 0 \<le> w r" for w
    unfolding flight_sum_def by (rule sum_where_member_le) (use assms that in auto)
  have ex: "reserved_exact (t_media s) e" and sz: "\<And>m. m \<in> set (t_media s) \<Longrightarrow> 0 \<le> md_ExpectedSize m"
    using assms by (auto simp: media_inv_def)
  show "md_ExpectedSize m \<le> ev_ReservedMediaBytes e" "1 \<le> reserved_media_items e"
    "photo_w m \<le> reserved_photo_items e" "video_w m \<le> reserved_video_items e"
    using ex sz le [of md_ExpectedSize] le [of "\<lambda>_. 1"] le [of photo_w] le [of video_w]
    by (simp_all add: reserved_exact_def)
qed

section \<open>Outcomes of the writes\<close>

lemma write_quota_ok: "write_quota t s = Inr s' \<Longrightarrow> s' = s\<lparr>t_events := t\<rparr>"
  by (auto simp: write_quota_def split: if_splits)

lemma write_media_ok: "write_media t s = Inr s' \<Longrightarrow>
    s' = s\<lparr>t_media := t\<rparr> \<and> media_keys_ok t \<and> list_all media_row_ok t"
  by (auto simp: write_media_def split: if_splits)

lemma media_keys_keyed: "media_keys_ok t \<Longrightarrow> keyed md_ID t"
  by (simp add: media_keys_ok_def keyed_def)

text \<open>An accepted reservation.\<close>

lemma ReserveUpload_ok:
  assumes "db_ReserveUpload now rec lim s = (Inr u, s')"
  obtains r where "r = rec\<lparr>md_CreatedAt := (if is_zero_time (md_CreatedAt rec) then now else md_CreatedAt rec)\<rparr>"
    "s' = s\<lparr>t_events := update_where (reservable rec lim) (reserve_counters rec) (t_events s),
            t_media := t_media s @ [r]\<rparr>"
    "count_where (reservable rec lim) (t_events s) = 1"
    "media_keys_ok (t_media s @ [r])"
proof -
  let ?r = "rec\<lparr>md_CreatedAt := (if is_zero_time (md_CreatedAt rec) then now else md_CreatedAt rec)\<rparr>"
  from assms have tx: "reserve_tx now rec lim s = Inr ((), s')"
    by (auto simp: db_ReserveUpload_def transaction_def split: sum.splits prod.splits)
  then obtain s1 where w: "write_quota (update_where (reservable rec lim) (reserve_counters rec) (t_events s)) s = Inr s1"
    and c: "count_where (reservable rec lim) (t_events s) = 1"
    and m: "write_media (t_media s1 @ [?r]) s1 = Inr s'"
    unfolding reserve_tx_def by (simp split: if_splits sum.splits)
  have s1: "s1 = s\<lparr>t_events := update_where (reservable rec lim) (reserve_counters rec) (t_events s)\<rparr>"
    using w by (rule write_quota_ok)
  show thesis
    by (rule that [OF refl _ c]) (use write_media_ok [OF m] in \<open>simp_all add: s1\<close>)
qed

lemma ReserveUpload_error: "db_ReserveUpload now rec lim s = (Inl e, s') \<Longrightarrow> s' = s"
  using transaction_atomic [of "reserve_tx now rec lim" s e] by (simp add: db_ReserveUpload_def)

lemma MarkReady_error: "db_MarkReady f now i j n at s = (Inl e, s') \<Longrightarrow> s' = s"
  using transaction_atomic [of "ready_tx f now i j n at" s e] by (simp add: db_MarkReady_def)

lemma DeleteForEvent_error: "db_DeleteForEvent now i ids s = (Inl e, s') \<Longrightarrow> s' = s"
  using transaction_atomic [of "delete_for_event_tx now i ids" s e] by (simp add: db_DeleteForEvent_def)


text \<open>A confirmed upload: one row becomes ready and its event's counters move.\<close>

lemma MarkReady_ok:
  assumes "db_MarkReady f now i j n at s = (Inr u, s')"
  obtains m where "m \<in> set (t_media s)" "uploading_row i j m"
    "\<forall>x \<in> set (t_media s). uploading_row i j x \<longrightarrow> x = m"
    "\<forall>p g. (\<forall>r. uploading_row i j r \<longrightarrow> p r \<and> \<not> p (ready_row n at r)) \<longrightarrow>
       sum_where p g (update_where (uploading_row i j) (ready_row n at) (t_media s)) =
       sum_where p g (t_media s) - (g m :: int)"
    "t_media s' = update_where (uploading_row i j) (ready_row n at) (t_media s)"
    "t_events s' = update_where (\<lambda>e. ev_ID e = i) (settle_counters n (ready_row n at m)) (t_events s)"
    "media_keys_ok (t_media s')" "t_guest_sessions s' = t_guest_sessions s"
    "enqueue_thumbnail f now (ready_row n at m)
       (s\<lparr>t_media := t_media s', t_events := t_events s'\<rparr>) = Inr s'"
proof -
  let ?q = "uploading_row i j"
  let ?t = "update_where ?q (ready_row n at) (t_media s)"
  from assms have tx: "ready_tx f now i j n at s = Inr ((), s')"
    by (auto simp: db_MarkReady_def transaction_def split: sum.splits prod.splits)
  then obtain s1 where w: "write_media ?t s = Inr s1" and c: "count_where ?q (t_media s) = 1"
    unfolding ready_tx_def
    by (auto split: sum.splits error.splits db_error.splits if_splits)
  obtain m where m: "m \<in> set (t_media s)" "?q m" "\<forall>f. sum_where ?q f (t_media s) = (f m :: int)"
    "\<forall>x \<in> set (t_media s). ?q x \<longrightarrow> x = m"
    by (rule count_where_one [OF c])
  have s1: "s1 = s\<lparr>t_media := ?t\<rparr>" "media_keys_ok ?t" using write_media_ok [OF w] by auto
  have r: "ready_row n at m \<in> set ?t" "md_ID (ready_row n at m) = j"
    using m(1,2) by (force simp: set_update_where, simp add: ready_row_def uploading_row_def)
  have fi: "find (\<lambda>m. md_ID m = j) ?t = Some (ready_row n at m)"
    using keyed_lookup [OF media_keys_keyed [OF s1(2)] r(1)] r(2) by (simp add: lookup_row_def)
  from tx w c fi obtain s2 where
    w2: "write_quota (update_where (\<lambda>e. ev_ID e = i) (settle_counters n (ready_row n at m)) (t_events s)) s1 = Inr s2"
    and en: "enqueue_thumbnail f now (ready_row n at m) s2 = Inr s'"
    unfolding ready_tx_def by (auto simp: s1(1) split: sum.splits)
  have s2: "s2 = s1\<lparr>t_events := update_where (\<lambda>e. ev_ID e = i) (settle_counters n (ready_row n at m)) (t_events s)\<rparr>"
    by (rule write_quota_ok [OF w2])
  have keep: "t_media s' = t_media s2" "t_events s' = t_events s2" "t_guest_sessions s' = t_guest_sessions s2"
    using en by (auto simp: enqueue_thumbnail_def split: if_splits)
  have drop: "sum_where p g ?t = sum_where p g (t_media s) - (g m :: int)"
    if "\<And>r. ?q r \<Longrightarrow> p r \<and> \<not> p (ready_row n at r)" for p g
  proof -
    have "sum_where p g ?t = sum_where p g (t_media s) - sum_where (\<lambda>r. p r \<and> ?q r) g (t_media s)"
      by (rule sum_where_update_leave) (use that in auto)
    also have "sum_where (\<lambda>r. p r \<and> ?q r) g (t_media s) = sum_where ?q g (t_media s)"
      by (rule sum_where_cong) (use that in auto)
    finally show ?thesis by (simp add: m(3))
  qed
  show thesis
  proof (rule that [OF m(1,2,4)])
    show "\<forall>p g. (\<forall>r. ?q r \<longrightarrow> p r \<and> \<not> p (ready_row n at r)) \<longrightarrow>
      sum_where p g ?t = sum_where p g (t_media s) - (g m :: int)"
      using drop by blast
  qed (use keep s1 s2 en in auto)
qed
section \<open>Steps\<close>

text \<open>
  A step is one repository call of the media service, with the arguments the service
  gives it: a reservation is for a pending record of positive size, a confirmation
  reports the size the record expected, and moderation sets a moderation status.
\<close>

inductive media_step :: "reserve_limits \<Rightarrow> db \<Rightarrow> db \<Rightarrow> bool" for lim where
  reserve: "db_ReserveUpload now rec lim s = (r, s') \<Longrightarrow> md_Status rec = MediaPending \<Longrightarrow>
    md_ActualSize rec = None \<Longrightarrow> 0 < md_ExpectedSize rec \<Longrightarrow> media_step lim s s'"
| confirm: "db_MarkReady f now i j n at s = (r, s') \<Longrightarrow>
    \<forall>m \<in> set (t_media s). md_ID m = j \<longrightarrow> n = md_ExpectedSize m \<Longrightarrow> media_step lim s s'"
| remove: "db_DeleteManyUploads ids s = (r, s') \<Longrightarrow> media_step lim s s'"
| moderate: "db_UpdateMediaStatus now i j st s = (r, s') \<Longrightarrow> completed st \<Longrightarrow> media_step lim s s'"
| moderate_many: "db_UpdateMediaStatuses now i ids st s = (r, s') \<Longrightarrow> completed st \<Longrightarrow> media_step lim s s'"
| delete: "db_DeleteForEvent now i ids s = (r, s') \<Longrightarrow> media_step lim s s'"
| process: "db_UpdateProcessingResult i j ready md s = (r, s') \<Longrightarrow> media_step lim s s'"

inductive_cases media_stepE: "media_step lim s s'"

text \<open>An update that keeps ids, events and sizes, and whether a row is in flight.\<close>

definition keeps_flight :: "(media \<Rightarrow> bool) \<Rightarrow> (media \<Rightarrow> media) \<Rightarrow> bool" where
  "keeps_flight q g \<longleftrightarrow> (\<forall>r. q r \<longrightarrow> md_ID (g r) = md_ID r \<and> md_EventID (g r) = md_EventID r \<and>
     md_ExpectedSize (g r) = md_ExpectedSize r \<and> md_MIMEType (g r) = md_MIMEType r \<and>
     md_ActualSize (g r) = md_ActualSize r \<and>
     in_flight (md_Status (g r)) = in_flight (md_Status r))"

lemma completed_not_flight: "completed st \<Longrightarrow> \<not> in_flight st"
  by (cases st) auto

lemma keeps_flight_status:
  "\<not> in_flight st \<Longrightarrow> keeps_flight (moderated_row i ids) (set_status st now)"
  by (auto simp: keeps_flight_def moderated_row_def set_status_def dest: completed_not_flight)

lemma keeps_flight_metadata: "keeps_flight q (with_metadata b md)"
  by (auto simp: keeps_flight_def with_metadata_def)

lemma flight_sum_keep:
  assumes "keeps_flight q g" "\<And>r. q r \<Longrightarrow> w (g r) = w r"
  shows "flight_sum w i (update_where q g t) = flight_sum w i t"
  unfolding flight_sum_def
  by (rule sum_where_update_same) (use assms in \<open>auto simp: keeps_flight_def\<close>)

lemma reserved_exact_keep:
  assumes k: "keeps_flight q g"
  shows "reserved_exact (update_where q g t) e = reserved_exact t e"
proof -
  have "w (g r) = w r" if "q r" "w \<in> {md_ExpectedSize, \<lambda>_. 1, photo_w, video_w}" for w r
    using k that by (auto simp: keeps_flight_def photo_w_def video_w_def is_photo_def is_video_def)
  then have "flight_sum w i (update_where q g t) = flight_sum w i t"
    if "w \<in> {md_ExpectedSize, \<lambda>_. 1, photo_w, video_w}" for w i
    using that by (intro flight_sum_keep [OF k]) auto
  then show ?thesis by (simp add: reserved_exact_def)
qed

lemma media_inv_keep:
  assumes inv: "media_inv s" and k: "keeps_flight q g"
    and m: "t_media s' = update_where q g (t_media s)"
    and e: "t_events s' = update_where q' h (t_events s)"
    and h: "\<And>x. q' x \<Longrightarrow> ev_ID (h x) = ev_ID x \<and> (0 \<le> ev_UsedMediaBytes x \<longrightarrow> 0 \<le> ev_UsedMediaBytes (h x)) \<and>
      ev_ReservedMediaBytes (h x) = ev_ReservedMediaBytes x \<and>
      reserved_media_items (h x) = reserved_media_items x \<and>
      reserved_photo_items (h x) = reserved_photo_items x \<and>
      reserved_video_items (h x) = reserved_video_items x"
  shows "media_inv s'"
proof -
  have "keyed ev_ID (t_events s')" using inv h by (simp add: e keyed_update media_inv_def)
  moreover have "keyed md_ID (t_media s')"
    using inv k by (simp add: m keyed_update media_inv_def keeps_flight_def)
  moreover have "0 \<le> md_ExpectedSize r \<and> 0 \<le> actual_size r" if "r \<in> set (t_media s')" for r
    using that inv k unfolding m
    by (elim in_update_whereE) (auto simp: keeps_flight_def media_inv_def actual_size_def)
  moreover have "0 \<le> ev_UsedMediaBytes x \<and> reserved_exact (t_media s') x" if "x \<in> set (t_events s')" for x
  proof -
    from that obtain y where y: "y \<in> set (t_events s)" "x = (if q' y then h y else y)"
      unfolding e by (rule in_update_whereE)
    then have "0 \<le> ev_UsedMediaBytes y \<and> reserved_exact (t_media s) y" using inv by (simp add: media_inv_def)
    with y(2) h [of y] have "0 \<le> ev_UsedMediaBytes x \<and> reserved_exact (t_media s) x"
      by (cases "q' y") (simp_all add: reserved_exact_def)
    then show ?thesis by (simp add: m reserved_exact_keep [OF k])
  qed
  ultimately show ?thesis by (simp add: media_inv_def)
qed

lemma update_where_False: "update_where (\<lambda>_. False) g t = t"
  by (simp add: update_where_none)

text \<open>Moderation and thumbnails leave the event rows alone.\<close>

definition rows_only :: "db \<Rightarrow> db \<Rightarrow> bool" where
  "rows_only s s' \<longleftrightarrow> t_events s' = t_events s \<and>
     (\<exists>q g. keeps_flight q g \<and> t_media s' = update_where q g (t_media s))"

lemma rows_only_refl: "rows_only s s"
proof -
  have "keeps_flight (\<lambda>_. False) (\<lambda>m. m)" by (simp add: keeps_flight_def)
  moreover have "t_media s = update_where (\<lambda>_. False) (\<lambda>m. m) (t_media s)"
    by (simp add: update_where_none)
  ultimately show ?thesis unfolding rows_only_def by blast
qed

lemma rows_only_write:
  "keeps_flight q g \<Longrightarrow> write_media (update_where q g (t_media s)) s = Inr s' \<Longrightarrow> rows_only s s'"
  using write_media_ok [of "update_where q g (t_media s)" s s'] by (auto simp: rows_only_def)

lemma rows_only_moderate:
  assumes "db_UpdateMediaStatus now i j st s = (r, s')" "completed st"
  shows "rows_only s s'"
  using assms(1) rows_only_write [OF keeps_flight_status [OF completed_not_flight [OF assms(2)]]]
  by (auto simp: db_UpdateMediaStatus_def rows_only_refl split: sum.splits if_splits)

lemma rows_only_moderate_many:
  assumes "db_UpdateMediaStatuses now i ids st s = (r, s')" "completed st"
  shows "rows_only s s'"
  using assms(1) rows_only_write [OF keeps_flight_status [OF completed_not_flight [OF assms(2)]]]
  by (auto simp: db_UpdateMediaStatuses_def rows_only_refl split: sum.splits if_splits)

lemma rows_only_process:
  assumes "db_UpdateProcessingResult i j ready md s = (r, s')"
  shows "rows_only s s'"
  using assms rows_only_write [OF keeps_flight_metadata]
  by (auto simp: db_UpdateProcessingResult_def rows_only_refl split: sum.splits if_splits)

lemma rows_only_inv: "rows_only s s' \<Longrightarrow> media_inv s \<Longrightarrow> media_inv s'"
  unfolding rows_only_def
  by (elim conjE exE, rule media_inv_keep [where q' = "\<lambda>_. False" and h = "\<lambda>x. x"])
    (auto simp: update_where_none)
section \<open>Each step keeps the counters exact and the limits\<close>

lemma flight_sum_append:
  "flight_sum w i (t @ [r]) = flight_sum w i t +
     (if md_EventID r = i \<and> in_flight (md_Status r) then w r else 0)"
  by (simp add: flight_sum_def)

lemma reserve_counters_simps [simp]:
  "ev_ID (reserve_counters r e) = ev_ID e"
  "ev_ReservedMediaBytes (reserve_counters r e) = ev_ReservedMediaBytes e + md_ExpectedSize r"
  "reserved_media_items (reserve_counters r e) = reserved_media_items e + 1"
  "reserved_photo_items (reserve_counters r e) = reserved_photo_items e + photo_w r"
  "reserved_video_items (reserve_counters r e) = reserved_video_items e + video_w r"
  "ev_UsedMediaBytes (reserve_counters r e) = ev_UsedMediaBytes e"
  "ev_MaxMediaBytes (reserve_counters r e) = ev_MaxMediaBytes e"
  "uploaded_media_items (reserve_counters r e) = uploaded_media_items e"
  "uploaded_photo_items (reserve_counters r e) = uploaded_photo_items e"
  "uploaded_video_items (reserve_counters r e) = uploaded_video_items e"
  "max_media_items (reserve_counters r e) = max_media_items e"
  "max_photo_items (reserve_counters r e) = max_photo_items e"
  "max_video_items (reserve_counters r e) = max_video_items e"
  by (simp_all add: reserve_counters_def mediaKind_w)

lemma within_reserve:
  "within (a + b) c \<Longrightarrow> w = 0 \<or> c = 0 \<or> a + b + 1 \<le> c \<Longrightarrow> w \<le> 1 \<Longrightarrow> within (a + (b + w)) c"
  by (auto simp: within_def)

lemma w_le_1 [simp]: "photo_w m \<le> 1" "video_w m \<le> 1"
  by (simp_all add: photo_w_def video_w_def)

lemma items_within_reserve:
  "items_within e \<Longrightarrow> item_room (photo_w rec) (video_w rec) e \<Longrightarrow> items_within (reserve_counters rec e)"
  unfolding items_within_def item_room_def
  by (simp, intro conjI; rule within_reserve; simp)

lemma quota_kept_reserve:
  assumes "quota_kept lim e" "reservable rec lim e"
  shows "quota_kept lim (reserve_counters rec e)"
proof -
  have "bytes_within lim (reserve_counters rec e)"
    using assms(2) by (auto simp: reservable_def bytes_within_def byte_limit_def)
  moreover have "items_within (reserve_counters rec e)" if "EnforceItems lim"
    by (rule items_within_reserve) (use assms that in \<open>simp_all add: quota_kept_def reservable_def mediaKind_w\<close>)
  ultimately show ?thesis by (simp add: quota_kept_def)
qed

lemma step_reserve:
  assumes inv: "media_inv s" and ok: "db_ReserveUpload now rec lim s = (Inr u, s')"
    and p: "md_Status rec = MediaPending" "md_ActualSize rec = None" "0 < md_ExpectedSize rec"
  shows "media_inv s'"
    "\<forall>e \<in> set (t_events s). quota_kept lim e \<Longrightarrow> \<forall>e \<in> set (t_events s'). quota_kept lim e"
proof -
  obtain r where r: "r = rec\<lparr>md_CreatedAt := (if is_zero_time (md_CreatedAt rec) then now else md_CreatedAt rec)\<rparr>"
    and s': "s' = s\<lparr>t_events := update_where (reservable rec lim) (reserve_counters rec) (t_events s),
            t_media := t_media s @ [r]\<rparr>"
    and c: "count_where (reservable rec lim) (t_events s) = 1"
    and keys: "media_keys_ok (t_media s @ [r])"
    by (rule ReserveUpload_ok [OF ok])
  have rr: "md_EventID r = md_EventID rec" "md_Status r = MediaPending"
    "md_ExpectedSize r = md_ExpectedSize rec" "md_ActualSize r = None" "photo_w r = photo_w rec" "video_w r = video_w rec"
    using p by (simp_all add: r photo_w_def video_w_def is_photo_def is_video_def)
  obtain e where e: "e \<in> set (t_events s)" "reservable rec lim e"
    by (rule count_where_one [OF c])
  have ke: "keyed ev_ID (t_events s)" using inv by (simp add: media_inv_def)
  have only: "reservable rec lim y \<longleftrightarrow> ev_ID y = md_EventID rec" if "y \<in> set (t_events s)" for y
    using keyed_unique [OF ke that e(1)] e(2) by (auto simp: reservable_def)
  have ex: "0 \<le> ev_UsedMediaBytes x \<and> reserved_exact (t_media s @ [r]) x" if "x \<in> set (t_events s')" for x
  proof -
    from that obtain y where y: "y \<in> set (t_events s)"
      "x = (if reservable rec lim y then reserve_counters rec y else y)"
      unfolding s' by (auto elim: in_update_whereE)
    have "0 \<le> ev_UsedMediaBytes y \<and> reserved_exact (t_media s) y" using inv y(1) by (simp add: media_inv_def)
    then show ?thesis
      using only [OF y(1)] by (simp add: y(2) reserved_exact_def flight_sum_append rr)
  qed
  have "keyed ev_ID (t_events s')" using ke by (simp add: s' keyed_update)
  moreover have "\<forall>m \<in> set (t_media s'). 0 \<le> md_ExpectedSize m \<and> 0 \<le> actual_size m"
    using inv p(3) by (auto simp: s' media_inv_def rr actual_size_def)
  ultimately show "media_inv s'"
    using ex media_keys_keyed [OF keys] by (simp add: media_inv_def s')
  assume q: "\<forall>e \<in> set (t_events s). quota_kept lim e"
  have "quota_kept lim (reserve_counters rec y)" if "y \<in> set (t_events s)" "reservable rec lim y" for y
    by (rule quota_kept_reserve) (use q that in auto)
  then show "\<forall>e \<in> set (t_events s'). quota_kept lim e"
    using q by (auto simp: s' set_update_where)
qed

lemma ready_row_simps [simp]:
  "md_ID (ready_row n at m) = md_ID m" "md_EventID (ready_row n at m) = md_EventID m"
  "md_ExpectedSize (ready_row n at m) = md_ExpectedSize m"
  "md_MIMEType (ready_row n at m) = md_MIMEType m" "md_ActualSize (ready_row n at m) = Some n" "md_Status (ready_row n at m) = MediaReady"
  "is_photo (ready_row n at m) = is_photo m" "is_video (ready_row n at m) = is_video m"
  by (simp_all add: ready_row_def is_photo_def is_video_def)

lemma settle_counters_simps [simp]:
  "ev_ID (settle_counters n m e) = ev_ID e"
  "ev_UsedMediaBytes (settle_counters n m e) = ev_UsedMediaBytes e + n"
  "ev_ReservedMediaBytes (settle_counters n m e) = max (ev_ReservedMediaBytes e - md_ExpectedSize m) 0"
  "uploaded_media_items (settle_counters n m e) = uploaded_media_items e + 1"
  "reserved_media_items (settle_counters n m e) = max (reserved_media_items e - 1) 0"
  "uploaded_photo_items (settle_counters n m e) = uploaded_photo_items e + photo_w m"
  "reserved_photo_items (settle_counters n m e) = max (reserved_photo_items e - photo_w m) 0"
  "uploaded_video_items (settle_counters n m e) = uploaded_video_items e + video_w m"
  "reserved_video_items (settle_counters n m e) = max (reserved_video_items e - video_w m) 0"
  "ev_MaxMediaBytes (settle_counters n m e) = ev_MaxMediaBytes e"
  "max_media_items (settle_counters n m e) = max_media_items e"
  "max_photo_items (settle_counters n m e) = max_photo_items e"
  "max_video_items (settle_counters n m e) = max_video_items e"
  by (simp_all add: settle_counters_def photo_w_def video_w_def Let_def)

lemma w_ready_row [simp]: "photo_w (ready_row n at m) = photo_w m" "video_w (ready_row n at m) = video_w m"
  by (simp_all add: photo_w_def video_w_def)

text \<open>With an exact reservation, GREATEST never cuts.\<close>

lemma settle_exact:
  assumes "md_ExpectedSize m \<le> ev_ReservedMediaBytes e" "1 \<le> reserved_media_items e"
    "photo_w m \<le> reserved_photo_items e" "video_w m \<le> reserved_video_items e"
  shows "ev_ReservedMediaBytes (settle_counters n (ready_row n at m) e) = ev_ReservedMediaBytes e - md_ExpectedSize m"
    "reserved_media_items (settle_counters n (ready_row n at m) e) = reserved_media_items e - 1"
    "reserved_photo_items (settle_counters n (ready_row n at m) e) = reserved_photo_items e - photo_w m"
    "reserved_video_items (settle_counters n (ready_row n at m) e) = reserved_video_items e - video_w m"
  using assms by simp_all

lemma quota_kept_settle:
  assumes "quota_kept lim e" "md_ExpectedSize m \<le> ev_ReservedMediaBytes e" "1 \<le> reserved_media_items e"
    "photo_w m \<le> reserved_photo_items e" "video_w m \<le> reserved_video_items e" "n = md_ExpectedSize m"
  shows "quota_kept lim (settle_counters n (ready_row n at m) e)"
proof -
  note x = settle_exact [OF assms(2-5), of n at]
  have "bytes_within lim (settle_counters n (ready_row n at m) e) = bytes_within lim e"
    unfolding bytes_within_def byte_limit_def x(1) by (simp add: assms(6))
  moreover have "items_within (settle_counters n (ready_row n at m) e) = items_within e"
    unfolding items_within_def x by (simp add: algebra_simps)
  ultimately show ?thesis using assms(1) by (simp add: quota_kept_def)
qed

lemma step_confirm:
  assumes inv: "media_inv s" and ok: "db_MarkReady f now i j n at s = (Inr u, s')"
    and size: "\<forall>m \<in> set (t_media s). md_ID m = j \<longrightarrow> n = md_ExpectedSize m"
  shows "media_inv s'"
    "\<forall>e \<in> set (t_events s). quota_kept lim e \<Longrightarrow> \<forall>e \<in> set (t_events s'). quota_kept lim e"
proof -
  obtain m where m: "m \<in> set (t_media s)" "uploading_row i j m"
    and drop: "\<forall>p g. (\<forall>r. uploading_row i j r \<longrightarrow> p r \<and> \<not> p (ready_row n at r)) \<longrightarrow>
       sum_where p g (update_where (uploading_row i j) (ready_row n at) (t_media s)) =
       sum_where p g (t_media s) - (g m :: int)"
    and t: "t_media s' = update_where (uploading_row i j) (ready_row n at) (t_media s)"
    and ev: "t_events s' = update_where (\<lambda>e. ev_ID e = i) (settle_counters n (ready_row n at m)) (t_events s)"
    and keys: "media_keys_ok (t_media s')"
    by (rule MarkReady_ok [OF ok])
  have mi: "md_EventID m = i" "in_flight (md_Status m)" "md_ID m = j"
    using m(2) by (simp_all add: uploading_row_def)
  have n: "n = md_ExpectedSize m" using size m(1) mi(3) by simp
  then have n0: "0 \<le> n" using inv m(1) by (simp add: media_inv_def)
  have here: "flight_sum w i (t_media s') = flight_sum w i (t_media s) - w m" for w
    unfolding flight_sum_def t by (rule drop [rule_format]) (auto simp: uploading_row_def)
  have there: "flight_sum w k (t_media s') = flight_sum w k (t_media s)" if "k \<noteq> i" for w k
  proof -
    let ?p = "\<lambda>m. md_EventID m = k \<and> in_flight (md_Status m)"
    have "sum_where (\<lambda>r. ?p r \<and> uploading_row i j r) w (t_media s) = 0"
      by (rule sum_where_none) (use that in \<open>simp add: uploading_row_def\<close>)
    then show ?thesis
      unfolding flight_sum_def t by (simp add: sum_where_update_leave)
  qed
  have row: "\<exists>y \<in> set (t_events s). x = (if ev_ID y = i then settle_counters n (ready_row n at m) y else y)"
    if "x \<in> set (t_events s')" for x using that unfolding ev by (auto simp: set_update_where)
  have ex: "0 \<le> ev_UsedMediaBytes x \<and> reserved_exact (t_media s') x" if x: "x \<in> set (t_events s')" for x
  proof -
    obtain y where y: "y \<in> set (t_events s)"
      "x = (if ev_ID y = i then settle_counters n (ready_row n at m) y else y)" using row [OF x] by blast
    have e: "0 \<le> ev_UsedMediaBytes y" "reserved_exact (t_media s) y" using inv y(1) by (simp_all add: media_inv_def)
    show ?thesis
    proof (cases "ev_ID y = i")
      case True
      note x = settle_exact [OF in_flight_counted [OF inv m(1) mi(2) y(1) trans [OF True mi(1) [symmetric]]], of n at]
      show ?thesis using True e n0 by (simp add: y(2) reserved_exact_def here x del: settle_counters_simps(3,5,7,9))
    next
      case False
      with e show ?thesis by (simp add: y(2) reserved_exact_def there)
    qed
  qed
  have "keyed ev_ID (t_events s')" using inv by (simp add: ev keyed_update media_inv_def)
  moreover have "\<forall>m \<in> set (t_media s'). 0 \<le> md_ExpectedSize m \<and> 0 \<le> actual_size m"
    using inv n0 by (auto simp: t media_inv_def actual_size_def elim!: in_update_whereE)
  ultimately show "media_inv s'"
    using ex media_keys_keyed [OF keys] by (simp add: media_inv_def)
  assume q: "\<forall>e \<in> set (t_events s). quota_kept lim e"
  show "\<forall>e \<in> set (t_events s'). quota_kept lim e"
  proof
    fix x assume x: "x \<in> set (t_events s')"
    obtain y where y: "y \<in> set (t_events s)"
      "x = (if ev_ID y = i then settle_counters n (ready_row n at m) y else y)" using row [OF x] by blast
    have qy: "quota_kept lim y" using q y(1) by simp
    show "quota_kept lim x"
    proof (cases "ev_ID y = i")
      case True
      show ?thesis
        using quota_kept_settle [OF qy in_flight_counted [OF inv m(1) mi(2) y(1) trans [OF True mi(1) [symmetric]]] n]
        by (simp add: y(2) True)
    next
      case False
      with qy show ?thesis by (simp add: y(2))
    qed
  qed
qed
text \<open>Removal: exactly the reservations of the removed rows in flight come back.\<close>

lemma released_sum:
  "sum_list (map w (released ids e t)) =
     sum_where (\<lambda>m. (md_EventID m = ev_ID e \<and> in_flight (md_Status m)) \<and> md_ID m \<in> set ids) w t"
  unfolding released_def sum_where_filter by (rule sum_where_cong) auto

lemma flight_sum_removed:
  "flight_sum w (ev_ID e) (delete_where (\<lambda>m. md_ID m \<in> set ids) t) =
     flight_sum w (ev_ID e) t - sum_list (map w (released ids e t))"
  by (simp add: flight_sum_def sum_where_delete released_sum)

lemma flight_sum_nonneg: "(\<And>m. m \<in> set t \<Longrightarrow> 0 \<le> w m) \<Longrightarrow> 0 \<le> flight_sum w i t"
  unfolding flight_sum_def by (rule sum_where_nonneg) blast

lemma release_counters_simps [simp]:
  "ev_ID (release_counters rel e) = ev_ID e"
  "ev_UsedMediaBytes (release_counters rel e) = ev_UsedMediaBytes e"
  "ev_MaxMediaBytes (release_counters rel e) = ev_MaxMediaBytes e"
  "uploaded_media_items (release_counters rel e) = uploaded_media_items e"
  "uploaded_photo_items (release_counters rel e) = uploaded_photo_items e"
  "uploaded_video_items (release_counters rel e) = uploaded_video_items e"
  "max_media_items (release_counters rel e) = max_media_items e"
  "max_photo_items (release_counters rel e) = max_photo_items e"
  "max_video_items (release_counters rel e) = max_video_items e"
  by (simp_all add: release_counters_def)

lemma sum_list_weights:
  "int (length rel) = sum_list (map (\<lambda>_. 1) rel)"
  "int (count_where is_photo rel) = sum_list (map photo_w rel)"
  "int (count_where is_video rel) = sum_list (map video_w rel)"
  by (induction rel) (auto simp: photo_w_def video_w_def)

lemma release_exact:
  fixes ids :: "uuid list"
  assumes "reserved_exact t e" "\<And>m. m \<in> set t \<Longrightarrow> 0 \<le> md_ExpectedSize m"
  defines "rel \<equiv> released ids e t" and "t' \<equiv> delete_where (\<lambda>m. md_ID m \<in> set ids) t"
  shows "reserved_exact t' (release_counters rel e)"
    "ev_ReservedMediaBytes (release_counters rel e) \<le> ev_ReservedMediaBytes e"
    "reserved_media_items (release_counters rel e) \<le> reserved_media_items e"
    "reserved_photo_items (release_counters rel e) \<le> reserved_photo_items e"
    "reserved_video_items (release_counters rel e) \<le> reserved_video_items e"
proof -
  have f: "flight_sum w (ev_ID e) t' = flight_sum w (ev_ID e) t - sum_list (map w rel)" for w
    unfolding t'_def rel_def by (rule flight_sum_removed)
  have pos: "0 \<le> flight_sum w (ev_ID e) t'" "0 \<le> sum_list (map w rel)"
    if "\<And>m. m \<in> set t \<Longrightarrow> 0 \<le> w m" for w
    using that by (auto simp: t'_def rel_def released_def intro!: flight_sum_nonneg sum_list_nonneg)
  note size = pos [of md_ExpectedSize, OF assms(2)] and one = pos [of "\<lambda>_. 1", simplified]
    and photo = pos [of photo_w, simplified] and video = pos [of video_w, simplified]
  show "reserved_exact t' (release_counters rel e)"
    using assms(1) size one photo video f
    by (simp add: reserved_exact_def release_counters_def sum_list_weights)
  show "ev_ReservedMediaBytes (release_counters rel e) \<le> ev_ReservedMediaBytes e"
    "reserved_media_items (release_counters rel e) \<le> reserved_media_items e"
    "reserved_photo_items (release_counters rel e) \<le> reserved_photo_items e"
    "reserved_video_items (release_counters rel e) \<le> reserved_video_items e"
    using assms(1) size one photo video f [of md_ExpectedSize] f [of "\<lambda>_. 1"] f [of photo_w] f [of video_w]
    by (simp_all add: reserved_exact_def release_counters_def sum_list_weights)
qed

lemma DeleteManyUploads_cases:
  assumes "db_DeleteManyUploads ids s = (r, s')"
  shows "s' = s \<or> ids \<noteq> [] \<and> r = None \<and>
    t_media s' = delete_where (\<lambda>m. md_ID m \<in> set ids) (t_media s) \<and>
    t_events s' = update_where (\<lambda>e. released ids e (t_media s) \<noteq> [])
      (\<lambda>e. release_counters (released ids e (t_media s)) e) (t_events s)"
  using assms write_quota_ok by (fastforce simp: db_DeleteManyUploads_def split: if_splits sum.splits)

lemma quota_kept_less:
  assumes "quota_kept lim e" "ev_MaxMediaBytes e' = ev_MaxMediaBytes e"
    "ev_UsedMediaBytes e' + ev_ReservedMediaBytes e' \<le> ev_UsedMediaBytes e + ev_ReservedMediaBytes e"
    "max_media_items e' = max_media_items e" "max_photo_items e' = max_photo_items e"
    "max_video_items e' = max_video_items e"
    "uploaded_media_items e' + reserved_media_items e' \<le> uploaded_media_items e + reserved_media_items e"
    "uploaded_photo_items e' + reserved_photo_items e' \<le> uploaded_photo_items e + reserved_photo_items e"
    "uploaded_video_items e' + reserved_video_items e' \<le> uploaded_video_items e + reserved_video_items e"
  shows "quota_kept lim e'"
proof -
  have "bytes_within lim e'"
    using assms(1-3) by (simp add: quota_kept_def bytes_within_def byte_limit_def split: if_splits)
  moreover have "items_within e \<Longrightarrow> items_within e'"
    using assms(4-9) unfolding items_within_def within_def by (elim conjE) (intro conjI; force)
  ultimately show ?thesis using assms(1) by (simp add: quota_kept_def)
qed

lemma step_remove:
  assumes inv: "media_inv s" and ok: "db_DeleteManyUploads ids s = (r, s')"
  shows "media_inv s'"
    "\<forall>e \<in> set (t_events s). quota_kept lim e \<Longrightarrow> \<forall>e \<in> set (t_events s'). quota_kept lim e"
proof -
  let ?rel = "\<lambda>e. released ids e (t_media s)"
  let ?t = "delete_where (\<lambda>m. md_ID m \<in> set ids) (t_media s)"
  consider "s' = s" | "t_media s' = ?t"
      "t_events s' = update_where (\<lambda>e. ?rel e \<noteq> []) (\<lambda>e. release_counters (?rel e) e) (t_events s)"
    using DeleteManyUploads_cases [OF ok] by blast
  then have "media_inv s' \<and> ((\<forall>e \<in> set (t_events s). quota_kept lim e) \<longrightarrow>
     (\<forall>e \<in> set (t_events s'). quota_kept lim e))"
  proof cases
    case 2
    have row: "\<exists>y \<in> set (t_events s). x = (if ?rel y \<noteq> [] then release_counters (?rel y) y else y)"
      if x: "x \<in> set (t_events s')" for x using x unfolding 2 by (auto simp: set_update_where)
    have e: "reserved_exact (t_media s) y" "0 \<le> ev_UsedMediaBytes y" if "y \<in> set (t_events s)" for y
      using inv that by (simp_all add: media_inv_def)
    have sz: "0 \<le> md_ExpectedSize m" if "m \<in> set (t_media s)" for m
      using inv that by (simp add: media_inv_def)
    have none: "reserved_exact ?t y" if "y \<in> set (t_events s)" "?rel y = []" for y
      using e(1) [OF that(1)] that(2) by (simp add: reserved_exact_def flight_sum_removed)
    have "keyed ev_ID (t_events s')"
      using inv by (simp add: 2(2) keyed_update media_inv_def)
    moreover have "keyed md_ID (t_media s')"
      using inv by (simp add: 2(1) media_inv_def keyed_def delete_where_def distinct_map_filter)
    moreover have sizes: "\<forall>m \<in> set (t_media s'). 0 \<le> md_ExpectedSize m \<and> 0 \<le> actual_size m"
      using inv by (simp add: 2(1) media_inv_def)
    moreover have "0 \<le> ev_UsedMediaBytes x \<and> reserved_exact (t_media s') x" if "x \<in> set (t_events s')" for x
      using row [OF that] e none release_exact(1) [OF e(1) sz] by (auto simp: 2(1))
    ultimately have "media_inv s'" by (simp add: media_inv_def)
    moreover have "quota_kept lim x" if q: "x \<in> set (t_events s')" "\<forall>e \<in> set (t_events s). quota_kept lim e" for x
    proof -
      obtain y where y: "y \<in> set (t_events s)" "x = (if ?rel y \<noteq> [] then release_counters (?rel y) y else y)"
        using row [OF q(1)] by blast
      have "quota_kept lim (release_counters (?rel y) y)"
        by (rule quota_kept_less [of lim y]) (use q(2) y(1) release_exact(2-5) [OF e(1) [OF y(1)] sz] in auto)
      with q(2) y show ?thesis by simp
    qed
    ultimately show ?thesis by blast
  qed (use inv in auto)
  then show "media_inv s'"
    "\<forall>e \<in> set (t_events s). quota_kept lim e \<Longrightarrow> \<forall>e \<in> set (t_events s'). quota_kept lim e"
    by auto
qed

text \<open>Deletion by the host gives bytes back and nothing else.\<close>

lemma DeleteForEvent_ok:
  assumes "db_DeleteForEvent now i ids s = (Inr u, s')"
  shows "s' = s\<lparr>t_media := update_where (moderated_row i ids) (set_status MediaDeleted now) (t_media s),
      t_events := update_where (\<lambda>e. ev_ID e = i)
        (\<lambda>e. e\<lparr>ev_UsedMediaBytes := max (ev_UsedMediaBytes e -
           sum_where (moderated_row i ids) actual_size (t_media s)) 0\<rparr>) (t_events s)\<rparr> \<and>
    count_where (moderated_row i ids) (t_media s) = length ids"
proof -
  have "delete_for_event_tx now i ids s = Inr ((), s')"
    using assms by (auto simp: db_DeleteForEvent_def transaction_def split: sum.splits prod.splits)
  then show ?thesis
    by (auto simp: delete_for_event_tx_def Let_def dest!: write_media_ok write_quota_ok
        split: if_splits sum.splits)
qed

lemma step_delete:
  assumes inv: "media_inv s" and ok: "db_DeleteForEvent now i ids s = (Inr u, s')"
  shows "media_inv s'"
    "\<forall>e \<in> set (t_events s). quota_kept lim e \<Longrightarrow> \<forall>e \<in> set (t_events s'). quota_kept lim e"
proof -
  let ?b = "sum_where (moderated_row i ids) actual_size (t_media s)"
  let ?h = "\<lambda>e. e\<lparr>ev_UsedMediaBytes := max (ev_UsedMediaBytes e - ?b) 0\<rparr>"
  have s': "t_media s' = update_where (moderated_row i ids) (set_status MediaDeleted now) (t_media s)"
    "t_events s' = update_where (\<lambda>e. ev_ID e = i) ?h (t_events s)"
    using DeleteForEvent_ok [OF ok] by simp_all
  show "media_inv s'"
    by (rule media_inv_keep [OF inv _ s']) (auto intro: keeps_flight_status)
  have b: "0 \<le> ?b" by (rule sum_where_nonneg) (use inv in \<open>simp add: media_inv_def\<close>)
  assume q: "\<forall>e \<in> set (t_events s). quota_kept lim e"
  have "quota_kept lim (?h y)" if "y \<in> set (t_events s)" for y
    by (rule quota_kept_less [of lim y]) (use q that b inv in \<open>auto simp: media_inv_def\<close>)
  then show "\<forall>e \<in> set (t_events s'). quota_kept lim e"
    using q unfolding s' by (auto elim!: in_update_whereE)
qed

lemma media_step_keeps:
  assumes "media_step lim s s'" "media_inv s"
  shows "media_inv s'"
    "\<forall>e \<in> set (t_events s). quota_kept lim e \<Longrightarrow> \<forall>e \<in> set (t_events s'). quota_kept lim e"
proof -
  have "media_inv s' \<and> ((\<forall>e \<in> set (t_events s). quota_kept lim e) \<longrightarrow>
     (\<forall>e \<in> set (t_events s'). quota_kept lim e))"
    using assms(1)
  proof cases
    case (reserve now rec r)
    then consider "s' = s" | u where "db_ReserveUpload now rec lim s = (Inr u, s')"
      by (cases r) (auto dest: ReserveUpload_error)
    then show ?thesis
      by cases (use step_reserve [OF assms(2) _ reserve(2-4)] assms(2) in blast)+
  next
    case (confirm f now i j n at r)
    then consider "s' = s" | u where "db_MarkReady f now i j n at s = (Inr u, s')"
      by (cases r) (auto dest: MarkReady_error)
    then show ?thesis
      by cases (use step_confirm [OF assms(2) _ confirm(2)] assms(2) in blast)+
  next
    case (remove ids r)
    then show ?thesis using step_remove [OF assms(2)] by blast
  next
    case (moderate now i j st r)
    then show ?thesis using rows_only_moderate rows_only_inv assms(2) rows_only_def by metis
  next
    case (moderate_many now i ids st r)
    then show ?thesis using rows_only_moderate_many rows_only_inv assms(2) rows_only_def by metis
  next
    case (delete now i ids r)
    then consider "s' = s" | u where "db_DeleteForEvent now i ids s = (Inr u, s')"
      by (cases r) (auto dest: DeleteForEvent_error)
    then show ?thesis
      by cases (use step_delete [OF assms(2)] assms(2) in blast)+
  next
    case (process i j ready md r)
    then show ?thesis using rows_only_process rows_only_inv assms(2) rows_only_def by metis
  qed
  then show "media_inv s'"
    "\<forall>e \<in> set (t_events s). quota_kept lim e \<Longrightarrow> \<forall>e \<in> set (t_events s'). quota_kept lim e"
    by auto
qed

lemma media_steps_keep:
  assumes "(media_step lim)\<^sup>*\<^sup>* s s'" "media_inv s"
  shows "media_inv s' \<and> ((\<forall>e \<in> set (t_events s). quota_kept lim e) \<longrightarrow>
    (\<forall>e \<in> set (t_events s'). quota_kept lim e))"
  using assms by (induction rule: rtranclp_induct) (use media_step_keeps in blast)+

end
