(* ===== verification/MediaApp.thy ===== *)
theory MediaApp
  imports Gallery MediaQuota
begin

text \<open>
  The media service as cmd/api/main.go builds it: the PostgreSQL adapter beside the object
  store, the limiter and the codecs of the deployment. The state is the database and
  whatever those keep, \<open>'o\<close>; a repository call changes the first half, a storage call the
  second.
\<close>

record 'o media_env =
  me_PresignPut :: "string \<Rightarrow> string \<Rightarrow> 'o \<Rightarrow> error + string"
  me_PresignGet :: "string \<Rightarrow> 'o \<Rightarrow> error + string"
  me_PresignDownload :: "(string \<Rightarrow> string \<Rightarrow> 'o \<Rightarrow> error + string) option"
  me_Head :: "string \<Rightarrow> 'o \<Rightarrow> error + object_info"
  me_DeleteObject :: "string \<Rightarrow> 'o \<Rightarrow> error option \<times> 'o"
  me_DeleteMany :: "string list \<Rightarrow> 'o \<Rightarrow> (string list \<times> error option) \<times> 'o"
  me_OpenRead :: "string \<Rightarrow> 'o \<Rightarrow> error + string"
  me_Put :: "string \<Rightarrow> string \<Rightarrow> string \<Rightarrow> 'o \<Rightarrow> error option \<times> 'o"
  me_Allow :: "string \<Rightarrow> 'o \<Rightarrow> (error + bool) \<times> 'o"
  me_DecodeConfig :: "string \<Rightarrow> (int \<times> int) option"
  me_Decode :: "string \<Rightarrow> (int \<times> int) option"
  me_EncodeScaled :: "string \<Rightarrow> int \<Rightarrow> int \<Rightarrow> string option"
  me_ffmpeg :: "(string \<Rightarrow> 'o \<Rightarrow> string option) option"
  me_probe :: "media \<Rightarrow> 'o \<Rightarrow> presentation_metadata"
  me_uuid_string :: "uuid \<Rightarrow> string"
  me_encode_cursor :: "cursor \<Rightarrow> string"
  me_decode_cursor :: "string \<Rightarrow> cursor option"
  me_expiry :: time
  me_maxImage :: int
  me_maxVideo :: int
  me_notify :: bool
  me_now :: time
  me_fresh :: uuid
  me_fresh_job :: "uuid \<Rightarrow> uuid"

definition on_db :: "(db \<Rightarrow> 'a \<times> db) \<Rightarrow> db \<times> 'o \<Rightarrow> 'a \<times> (db \<times> 'o)" where
  "on_db f so = (let (r, s) = f (fst so) in (r, (s, snd so)))"

definition on_store :: "('o \<Rightarrow> 'a \<times> 'o) \<Rightarrow> db \<times> 'o \<Rightarrow> 'a \<times> (db \<times> 'o)" where
  "on_store f so = (let (r, o') = f (snd so) in (r, (fst so, o')))"

definition gorm_media :: "(db \<times> 'o) media_repo" where
  "gorm_media = \<lparr>
     mr_ReserveUpload = (\<lambda>now rec lim. on_db (db_ReserveUpload now rec lim)),
     mr_FindByClientUpload = (\<lambda>i j k so. db_FindByClientUpload i j k (fst so)),
     mr_HasReadyChecksum = (\<lambda>i c so. db_HasReadyChecksum i c (fst so)),
     mr_Delete = (\<lambda>i. on_db (db_DeleteMedia i)),
     mr_DeleteManyUploads = (\<lambda>ids. on_db (db_DeleteManyUploads ids)),
     mr_UpdateStatus = (\<lambda>now i j st. on_db (db_UpdateMediaStatus now i j st)),
     mr_UpdateStatuses = (\<lambda>now i ids st. on_db (db_UpdateMediaStatuses now i ids st)),
     mr_DeleteManyForEvent = (\<lambda>now i ids. on_db (db_DeleteForEvent now i ids)),
     mr_FindUploadForSession = (\<lambda>i j k so. db_FindUploadForSession i j k (fst so)),
     mr_MarkReady = (\<lambda>f now i j n at. on_db (db_MarkReady f now i j n at)),
     mr_UpdateProcessingResult = (\<lambda>i j b md. on_db (db_UpdateProcessingResult i j b md)),
     mr_ListReady = (\<lambda>i n c so. db_ListReady i n c (fst so)),
     mr_ListGallery = (\<lambda>i f o' n c so. db_ListGallery i f o' n c (fst so)),
     mr_GalleryCounts = (\<lambda>i so. db_GalleryCounts i (fst so)),
     mr_FindReady = (\<lambda>i j so. db_FindReady i j (fst so)),
     mr_FindByID = (\<lambda>i so. db_FindMediaByID i (fst so)),
     mr_FindArchivedLocation = (\<lambda>i j so. db_FindArchivedLocation i j (fst so)),
     mr_FindStale = (\<lambda>t n so. db_FindStale t n (fst so))\<rparr>"

definition app_media :: "'o media_env \<Rightarrow> (db \<times> 'o) media_service" where
  "app_media E = \<lparr>ms_repo = gorm_media,
     ms_PresignPut = (\<lambda>k m so. me_PresignPut E k m (snd so)),
     ms_PresignGet = (\<lambda>k so. me_PresignGet E k (snd so)),
     ms_PresignDownload = map_option (\<lambda>f k n so. f k n (snd so)) (me_PresignDownload E),
     ms_Head = (\<lambda>k so. me_Head E k (snd so)),
     ms_DeleteObject = (\<lambda>k. on_store (me_DeleteObject E k)),
     ms_DeleteMany = (\<lambda>ks. on_store (me_DeleteMany E ks)),
     ms_OpenRead = (\<lambda>k so. me_OpenRead E k (snd so)),
     ms_Put = (\<lambda>k m b. on_store (me_Put E k m b)),
     ms_Allow = (\<lambda>k. on_store (me_Allow E k)),
     ms_DecodeConfig = me_DecodeConfig E, ms_Decode = me_Decode E,
     ms_EncodeScaled = me_EncodeScaled E,
     ms_ffmpeg = map_option (\<lambda>f u so. f u (snd so)) (me_ffmpeg E),
     ms_probe = (\<lambda>m so. me_probe E m (snd so)),
     ms_uuid_string = me_uuid_string E, ms_encode_cursor = me_encode_cursor E,
     ms_decode_cursor = me_decode_cursor E, ms_expiry = me_expiry E,
     ms_maxImage = me_maxImage E, ms_maxVideo = me_maxVideo E, ms_notify = me_notify E,
     ms_now = me_now E, ms_fresh = me_fresh E, ms_fresh_job = me_fresh_job E\<rparr>"

lemma media_fields:
  "ms_repo (app_media E) = gorm_media"
  "ms_PresignPut (app_media E) k m so = me_PresignPut E k m (snd so)"
  "ms_PresignGet (app_media E) k so = me_PresignGet E k (snd so)"
  "ms_Head (app_media E) k so = me_Head E k (snd so)"
  "ms_DeleteObject (app_media E) k = on_store (me_DeleteObject E k)"
  "ms_DeleteMany (app_media E) ks = on_store (me_DeleteMany E ks)"
  "ms_OpenRead (app_media E) k so = me_OpenRead E k (snd so)"
  "ms_Put (app_media E) k m b = on_store (me_Put E k m b)"
  "ms_Allow (app_media E) k = on_store (me_Allow E k)"
  "ms_uuid_string (app_media E) = me_uuid_string E"
  "ms_encode_cursor (app_media E) = me_encode_cursor E"
  "ms_decode_cursor (app_media E) = me_decode_cursor E"
  "ms_expiry (app_media E) = me_expiry E"
  "ms_maxImage (app_media E) = me_maxImage E" "ms_maxVideo (app_media E) = me_maxVideo E"
  "ms_now (app_media E) = me_now E" "ms_fresh (app_media E) = me_fresh E"
  "ms_fresh_job (app_media E) = me_fresh_job E"
  by (simp_all add: app_media_def)

lemma repo_fields:
  "mr_ReserveUpload gorm_media now rec lim = on_db (db_ReserveUpload now rec lim)"
  "mr_FindByClientUpload gorm_media i j k so = db_FindByClientUpload i j k (fst so)"
  "mr_HasReadyChecksum gorm_media i c so = db_HasReadyChecksum i c (fst so)"
  "mr_Delete gorm_media i = on_db (db_DeleteMedia i)"
  "mr_DeleteManyUploads gorm_media ids = on_db (db_DeleteManyUploads ids)"
  "mr_UpdateStatus gorm_media now i j st = on_db (db_UpdateMediaStatus now i j st)"
  "mr_UpdateStatuses gorm_media now i ids st = on_db (db_UpdateMediaStatuses now i ids st)"
  "mr_DeleteManyForEvent gorm_media now i ids = on_db (db_DeleteForEvent now i ids)"
  "mr_FindUploadForSession gorm_media i j k so = db_FindUploadForSession i j k (fst so)"
  "mr_MarkReady gorm_media f now i j n at = on_db (db_MarkReady f now i j n at)"
  "mr_UpdateProcessingResult gorm_media i j b md = on_db (db_UpdateProcessingResult i j b md)"
  "mr_ListReady gorm_media i n cur so = db_ListReady i n cur (fst so)"
  "mr_ListGallery gorm_media i fl od n cur so = db_ListGallery i fl od n cur (fst so)"
  "mr_GalleryCounts gorm_media i so = db_GalleryCounts i (fst so)"
  "mr_FindReady gorm_media i j so = db_FindReady i j (fst so)"
  "mr_FindByID gorm_media i so = db_FindMediaByID i (fst so)"
  "mr_FindArchivedLocation gorm_media i j so = db_FindArchivedLocation i j (fst so)"
  "mr_FindStale gorm_media t n so = db_FindStale t n (fst so)"
  by (simp_all add: gorm_media_def)

text \<open>What the two halves see of a lifted call.\<close>

lemma on_db_fst: "on_db f so = (r, so') \<Longrightarrow> f (fst so) = (r, fst so') \<and> snd so' = snd so"
  by (auto simp: on_db_def split: prod.splits)

lemma on_store_fst: "on_store f so = (r, so') \<Longrightarrow> fst so' = fst so"
  by (auto simp: on_store_def split: prod.splits)

lemma on_db_Pair: "on_db f (s, x) = (fst (f s), (snd (f s), x))"
  by (simp add: on_db_def split: prod.splits)

lemma on_store_Pair: "on_store f (s, x) = (fst (f x), (s, snd (f x)))"
  by (simp add: on_store_def split: prod.splits)

section \<open>Calls of the service are sequences of steps\<close>

abbreviation scope_limits :: "upload_scope \<Rightarrow> reserve_limits" where
  "scope_limits sc \<equiv> \<lparr>MaxEventBytes = us_MaxEventBytes sc, EnforceItems = us_EnforceItems sc\<rparr>"

abbreviation steps :: "reserve_limits \<Rightarrow> db \<Rightarrow> db \<Rightarrow> bool" where
  "steps lim \<equiv> (media_step lim)\<^sup>*\<^sup>*"

lemma step_steps: "media_step lim s s' \<Longrightarrow> steps lim s s'"
  by (rule r_into_rtranclp)

lemma removal_step: "media_step lim s (snd (db_DeleteManyUploads ids s))"
  by (rule media_step.remove [OF prod.collapse [symmetric]])

lemma hand_out_steps:
  assumes "hand_out (app_media E) m created so = (r, so')"
  shows "steps lim (fst so) (fst so')"
proof -
  have "steps lim (fst so) (fst (snd (on_db (db_DeleteMedia i) so)))" for i
    by (cases so) (auto simp: on_db_Pair db_DeleteMedia_def intro!: step_steps removal_step)
  with assms show ?thesis
    by (auto simp: hand_out_def media_fields repo_fields split: sum.splits if_splits)
qed

lemma reserve_new_steps:
  assumes "reserve_new (app_media E) sc inp so = (r, so')" "valid_upload (app_media E) inp"
  shows "steps (scope_limits sc) (fst so) (fst so')"
proof -
  have st: "steps (scope_limits sc) (fst so1) (fst so2)"
    if "on_db (db_ReserveUpload (me_now E) (new_media (app_media E) sc inp) (scope_limits sc)) so1 = (q, so2)"
    for so1 so2 q
    using media_step.reserve [OF on_db_fst [OF that, THEN conjunct1]] assms(2)
    by (auto simp: new_media_def valid_upload_def intro!: step_steps)
  show ?thesis
    using assms(1)
    by (auto simp: reserve_new_def media_fields repo_fields Let_def dest!: on_store_fst dest: st
        split: if_splits sum.splits prod.splits)
qed

lemma CreateUpload_steps:
  assumes "CreateUpload (app_media E) sc inp so = (r, so')"
  shows "steps (scope_limits sc) (fst so) (fst so')"
proof -
  have h: "steps (scope_limits sc) (fst so1) (fst so2)"
    if "hand_out (app_media E) m c so1 = (q, so2)" for m c so1 so2 q
    by (rule hand_out_steps [OF that])
  show ?thesis
    using assms unfolding CreateUpload_def
    by (auto split: if_splits sum.splits prod.splits dest: h reserve_new_steps
        intro: rtranclp_trans)
qed
lemma found_by_id:
  assumes "media_inv s" "db_FindUploadForSession mediaID i k s = Inr m"
  shows "m \<in> set (t_media s)" "md_ID m = mediaID" "md_EventID m = i" "md_GuestSessionID m = k"
    "\<forall>x \<in> set (t_media s). md_ID x = mediaID \<longrightarrow> x = m"
proof -
  have m: "m \<in> set (t_media s) \<and> md_ID m = mediaID \<and> md_EventID m = i \<and> md_GuestSessionID m = k"
    using assms(2) first_by_Some
    by (fastforce simp: db_FindUploadForSession_def found_media_def split: option.splits)
  then show "m \<in> set (t_media s)" "md_ID m = mediaID" "md_EventID m = i" "md_GuestSessionID m = k"
    by simp_all
  show "\<forall>x \<in> set (t_media s). md_ID x = mediaID \<longrightarrow> x = m"
    using assms(1) m keyed_unique [of md_ID "t_media s"] by (auto simp: media_inv_def)
qed

text \<open>A confirmation that gets as far as the repository call.\<close>

definition confirmable :: "'o media_env \<Rightarrow> upload_scope \<Rightarrow> uuid \<Rightarrow> db \<times> 'o \<Rightarrow> media \<Rightarrow> bool" where
  "confirmable E sc mediaID so m \<longleftrightarrow> us_Accepting sc \<and>
     db_FindUploadForSession mediaID (us_EventID sc) (us_GuestSessionID sc) (fst so) = Inr m \<and>
     md_Status m \<noteq> MediaReady \<and>
     me_Head E (md_ObjectKey m) (snd so) = Inr \<lparr>oi_Size = md_ExpectedSize m, oi_ContentType = md_MIMEType m\<rparr>"

lemma Complete_not_confirmable:
  assumes "Complete (app_media E) sc mediaID so = (r, so')" "\<nexists>m. confirmable E sc mediaID so m"
  shows "so' = so" "snd r = []"
proof -
  have "so' = so \<and> snd r = []"
    using assms by (auto simp: Complete_def confirmable_def media_fields repo_fields object_info.equality
        split: if_splits sum.splits)
  then show "so' = so" "snd r = []" by auto
qed

definition mark_call :: "'o media_env \<Rightarrow> upload_scope \<Rightarrow> uuid \<Rightarrow> media \<Rightarrow> db \<Rightarrow> (error + unit) \<times> db" where
  "mark_call E sc mediaID m = db_MarkReady (me_fresh_job E mediaID) (me_now E) (us_EventID sc) (md_ID m)
     (md_ExpectedSize m) (me_now E)"

lemma Complete_confirmable:
  assumes "confirmable E sc mediaID (s, x) m" "mark_call E sc mediaID m s = (q, s1)"
  shows "Complete (app_media E) sc mediaID (s, x) =
    (case q of
       Inr _ \<Rightarrow> ((None, notify_media (app_media E) \<lparr>mc_Kind = ChangeCreated, mc_EventID = us_EventID sc,
           mc_IDs = [md_ID m], mc_Status = Some MediaReady,
           mc_Item = Some (newItem (m\<lparr>md_Status := MediaReady\<rparr>))\<rparr>), (s1, x))
     | Inl e \<Rightarrow>
         if e = Media ErrMediaNotFound then
           (case db_FindUploadForSession mediaID (us_EventID sc) (us_GuestSessionID sc) s1 of
              Inr current \<Rightarrow> ((if md_Status current = MediaReady then None else Some e, []), (s1, x))
            | Inl _ \<Rightarrow> ((Some e, []), (s1, x)))
         else if e = Media ErrDuplicate then
           ((Some e, []), (snd (db_DeleteMedia (md_ID m) s1), snd (me_DeleteObject E (md_ObjectKey m) x)))
         else ((Some e, []), (s1, x)))"
  using assms
  by (simp add: Complete_def confirmable_def mark_call_def media_fields repo_fields on_db_Pair on_store_Pair
      Let_def split: sum.splits)

lemma Complete_steps:
  assumes inv: "media_inv (fst so)" and c: "Complete (app_media E) sc mediaID so = (r, so')"
  shows "steps lim (fst so) (fst so')"
proof (cases "\<exists>m. confirmable E sc mediaID so m")
  case False
  then show ?thesis using Complete_not_confirmable [OF c] by simp
next
  case True
  then obtain m where m: "confirmable E sc mediaID so m" by blast
  obtain s x where so: "so = (s, x)" by force
  obtain q s1 where q: "mark_call E sc mediaID m s = (q, s1)" by force
  have "db_FindUploadForSession mediaID (us_EventID sc) (us_GuestSessionID sc) s = Inr m"
    using m by (simp add: confirmable_def so)
  note f = found_by_id(2,5) [OF inv [unfolded so fst_conv] this]
  have "md_ExpectedSize m = md_ExpectedSize y" if "y \<in> set (t_media s)" "md_ID y = md_ID m" for y
    using f(2) that unfolding f(1) by blast
  then have st: "steps lim s s1"
    by (intro step_steps media_step.confirm [OF q [unfolded mark_call_def]]) blast
  have "steps lim s (snd (db_DeleteMedia i s1))" for i
    using st removal_step [of lim s1 "[i]"] by (simp add: db_DeleteMedia_def)
  with st c show ?thesis
    unfolding so Complete_confirmable [OF m [unfolded so] q]
    by (auto split: sum.splits if_splits)
qed

lemma steps_inv: "steps lim s s' \<Longrightarrow> media_inv s \<Longrightarrow> media_inv s'"
  by (simp add: media_steps_keep)

lemma complete_each_steps:
  "media_inv (fst so) \<Longrightarrow> complete_each (app_media E) sc ids so = (r, so') \<Longrightarrow> steps lim (fst so) (fst so')"
proof (induction ids arbitrary: so r)
  case (Cons i js)
  obtain q so1 where c: "Complete (app_media E) sc i so = (q, so1)" by (rule prod.exhaust)
  obtain q2 where d: "complete_each (app_media E) sc js so1 = (q2, so')"
    using Cons.prems(2) by (auto simp: c split: prod.splits)
  have st: "steps lim (fst so) (fst so1)" by (rule Complete_steps [OF Cons.prems(1) c])
  show ?case
    by (rule rtranclp_trans [OF st Cons.IH [OF steps_inv [OF st Cons.prems(1)] d]])
qed simp

lemma CompleteMany_steps:
  assumes "media_inv (fst so)" "CompleteMany (app_media E) order sc ids so = (r, so')"
  shows "steps lim (fst so) (fst so')"
  using assms(2) complete_each_steps [OF assms(1)]
  by (auto simp: CompleteMany_def Let_def split: if_splits prod.splits)

lemma process_step: "media_step lim s (snd (db_UpdateProcessingResult i j b md s))"
  by (rule media_step.process [OF prod.collapse [symmetric]])

lemma updateProcessingResult_steps:
  assumes "updateProcessingResult (app_media E) m b md so = (r, so')"
  shows "steps lim (fst so) (fst so')"
  using assms process_step [of lim "fst so" "md_EventID m" "md_ID m" b md]
  by (cases so) (auto simp: updateProcessingResult_def media_fields repo_fields on_db_Pair
      split: option.splits prod.splits intro!: step_steps)

lemma store_thumbnail_steps:
  assumes "store_thumbnail (app_media E) m md b so = (r, so')"
  shows "steps lim (fst so) (fst so')"
  using assms unfolding store_thumbnail_def
  by (auto simp: media_fields dest!: on_store_fst dest: updateProcessingResult_steps
      split: option.splits prod.splits)

lemma GenerateThumbnail_steps:
  assumes "GenerateThumbnail (app_media E) mediaID so = (r, so')"
  shows "steps lim (fst so) (fst so')"
proof -
  have "steps lim (fst so) (fst so')" if "generateImageThumbnail (app_media E) m so = (r, so')" for m
    using that unfolding generateImageThumbnail_def Let_def
    by (auto dest: updateProcessingResult_steps store_thumbnail_steps
        split: sum.splits option.splits prod.splits if_splits)
  moreover have "steps lim (fst so) (fst so')" if "generateVideoThumbnail (app_media E) m so = (r, so')" for m
    using that unfolding generateVideoThumbnail_def Let_def
    by (auto dest: updateProcessingResult_steps store_thumbnail_steps
        split: sum.splits option.splits prod.splits if_splits)
  ultimately show ?thesis
    using assms unfolding GenerateThumbnail_def by (auto split: sum.splits if_splits)
qed

lemma ExpireStale_steps:
  assumes "ExpireStale (app_media E) before n so = (r, so')"
  shows "steps lim (fst so) (fst so')"
proof -
  have rem: "steps lim (fst so1) (fst so2)" if "on_db (db_DeleteManyUploads ids) so1 = (q, so2)" for ids so1 q so2
    by (rule step_steps, rule media_step.remove [OF on_db_fst [OF that, THEN conjunct1]])
  show ?thesis
    using assms unfolding ExpireStale_def
    by (auto simp: media_fields repo_fields Let_def dest!: on_store_fst dest: rem
        split: sum.splits option.splits prod.splits if_splits)
qed

lemma validModerationStatus_completed: "validModerationStatus st \<Longrightarrow> completed st"
  by (auto simp: validModerationStatus_def)

lemma UpdateStatus_steps:
  assumes "UpdateStatus (app_media E) i j st so = (r, so')"
  shows "steps lim (fst so) (fst so')"
proof -
  have mod: "steps lim (fst so) (fst so1)"
    if "on_db (db_UpdateMediaStatus t i j st) so = (q, so1)" "validModerationStatus st" for t q so1
    by (rule step_steps, rule media_step.moderate [OF on_db_fst [OF that(1), THEN conjunct1]
        validModerationStatus_completed [OF that(2)]])
  show ?thesis
    using assms unfolding UpdateStatus_def
    by (auto simp: media_fields repo_fields dest: mod split: sum.splits prod.splits if_splits)
qed

lemma UpdateStatuses_steps:
  assumes "UpdateStatuses (app_media E) i ids st so = (r, so')"
  shows "steps lim (fst so) (fst so')"
proof -
  have mod: "steps lim (fst so) (fst so1)"
    if "on_db (db_UpdateMediaStatuses t i js st) so = (q, so1)" "validModerationStatus st" for t q so1 js
    by (rule step_steps, rule media_step.moderate_many [OF on_db_fst [OF that(1), THEN conjunct1]
        validModerationStatus_completed [OF that(2)]])
  show ?thesis
    using assms unfolding UpdateStatuses_def Let_def
    by (auto simp: media_fields repo_fields dest: mod split: option.splits prod.splits if_splits)
qed

lemma delete_steps:
  "on_db (db_DeleteForEvent t i js) so = (q, so1) \<Longrightarrow> steps lim (fst so) (fst so1)"
  by (rule step_steps, rule media_step.delete [OF on_db_fst [THEN conjunct1]])

lemma DeleteForEvent_steps:
  assumes "DeleteForEvent (app_media E) i j so = (r, so')"
  shows "steps lim (fst so) (fst so')"
  using assms unfolding DeleteForEvent_def
  by (auto simp: media_fields repo_fields dest: delete_steps split: sum.splits prod.splits if_splits)

lemma DeleteManyForEvent_steps:
  assumes "DeleteManyForEvent (app_media E) i ids so = (r, so')"
  shows "steps lim (fst so) (fst so')"
  using assms unfolding DeleteManyForEvent_def Let_def
  by (auto simp: media_fields repo_fields dest: delete_steps split: sum.splits prod.splits if_splits)

section \<open>Calls\<close>

text \<open>
  One call of the service, by anyone, at any time and with any ids. The uploads of a run
  are under the limits \<open>lim\<close>.
\<close>

inductive media_call :: "reserve_limits \<Rightarrow> db \<times> 'o \<Rightarrow> db \<times> 'o \<Rightarrow> bool" for lim where
  "CreateUpload (app_media E) sc inp so = (r, so') \<Longrightarrow> scope_limits sc = lim \<Longrightarrow> media_call lim so so'"
| "Complete (app_media E) sc i so = (r, so') \<Longrightarrow> media_call lim so so'"
| "CompleteMany (app_media E) order sc ids so = (r, so') \<Longrightarrow> media_call lim so so'"
| "GenerateThumbnail (app_media E) i so = (r, so') \<Longrightarrow> media_call lim so so'"
| "ExpireStale (app_media E) before n so = (r, so') \<Longrightarrow> media_call lim so so'"
| "UpdateStatus (app_media E) i j st so = (r, so') \<Longrightarrow> media_call lim so so'"
| "UpdateStatuses (app_media E) i ids st so = (r, so') \<Longrightarrow> media_call lim so so'"
| "DeleteForEvent (app_media E) i j so = (r, so') \<Longrightarrow> media_call lim so so'"
| "DeleteManyForEvent (app_media E) i ids so = (r, so') \<Longrightarrow> media_call lim so so'"

lemma media_call_steps: "media_call lim so so' \<Longrightarrow> media_inv (fst so) \<Longrightarrow> steps lim (fst so) (fst so')"
  by (induction rule: media_call.induct)
    (auto dest: CreateUpload_steps Complete_steps CompleteMany_steps GenerateThumbnail_steps
      ExpireStale_steps UpdateStatus_steps UpdateStatuses_steps DeleteForEvent_steps DeleteManyForEvent_steps)

end
