(* ===== verification/MediaProps.thy ===== *)
theory MediaProps
  imports MediaApp Fixtures
begin

text \<open>
  Correctness of uploads: quota under interleaving, idempotent upload targets, errors that
  leave no trace, refusals that name the limit, confirmations that take effect once. The
  fixture is the event of the shared one, with a guest session and an object store that
  is a list of keys.
\<close>

section \<open>Fixture\<close>

type_synonym store = "(string \<times> object_info) list"

definition fx_session :: guest_session where
  "fx_session = \<lparr>gs_ID = 4, gs_EventID = 7, gs_QRSourceCode = None, gs_TokenHash = ''h'',
     gs_ExpiresAt = 1000, gs_CreatedAt = 2\<rparr>"

definition fx_media_db :: db where
  "fx_media_db = fx_db\<lparr>t_guest_sessions := [fx_session]\<rparr>"

definition fx_store_env :: "nat \<Rightarrow> store media_env" where
  "fx_store_env n = \<lparr>me_PresignPut = (\<lambda>k m st. Inr (''put:'' @ k)), me_PresignGet = (\<lambda>k st. Inr (''get:'' @ k)),
     me_PresignDownload = None,
     me_Head = (\<lambda>k st. case map_of st k of None \<Rightarrow> Inl (DB ErrConnection) | Some i \<Rightarrow> Inr i),
     me_DeleteObject = (\<lambda>k st. (None, filter (\<lambda>p. fst p \<noteq> k) st)),
     me_DeleteMany = (\<lambda>ks st. (([], None), filter (\<lambda>p. fst p \<notin> set ks) st)),
     me_OpenRead = (\<lambda>k st. Inr ''body''), me_Put = (\<lambda>k m b st. (None, (k, \<lparr>oi_Size = 1, oi_ContentType = m\<rparr>) # st)),
     me_Allow = (\<lambda>k st. (Inr True, st)), me_DecodeConfig = (\<lambda>b. Some (800, 600)),
     me_Decode = (\<lambda>b. Some (800, 600)), me_EncodeScaled = (\<lambda>b w h. Some ''jpeg''), me_ffmpeg = None,
     me_probe = (\<lambda>m st. \<lparr>pm_Width = None, pm_Height = None, pm_DurationSeconds = None, pm_TransitionCueSeconds = None\<rparr>),
     me_uuid_string = (\<lambda>i. replicate i CHR ''u''),
     me_encode_cursor = (\<lambda>c. ''c''), me_decode_cursor = (\<lambda>t. None),
     me_expiry = 50, me_maxImage = 600, me_maxVideo = 900, me_notify = True, me_now = 20, me_fresh = n,
     me_fresh_job = (\<lambda>i. i + 30)\<rparr>"

definition fx_scope :: upload_scope where
  "fx_scope = \<lparr>us_EventID = 7, us_GuestSessionID = 4, us_Accepting = True, us_MaxEventBytes = 0,
     us_EnforceItems = True, us_UploadClosed = False\<rparr>"

definition fx_upload :: "nat \<Rightarrow> char \<Rightarrow> int \<Rightarrow> create_upload_input" where
  "fx_upload client c n = \<lparr>ui_Filename = ''a/b.jpg'', ui_MIMEType = ''image/jpeg'', ui_Size = n,
     ui_ChecksumSHA256 = replicate 64 c, ui_ClientUploadID = client, ui_GuestName = ''g'', ui_Caption = ''''\<rparr>"

lemmas fx_media [fx] = fx_session_def fx_media_db_def fx_store_env_def fx_scope_def fx_upload_def

definition fx_reserved :: "db \<times> store" where
  "fx_reserved = snd (CreateUpload (app_media (fx_store_env 11)) fx_scope (fx_upload 61 CHR ''a'' 400) (fx_media_db, []))"

text \<open>Its value, computed once.\<close>

definition fx_row :: "media_status \<Rightarrow> int option \<Rightarrow> time option \<Rightarrow> media" where
  "fx_row st n at = \<lparr>md_ID = 11, md_EventID = 7, md_GuestSessionID = 4,
     md_ObjectKey = ''events/uuuuuuu/media/uuuuuuuuuuu/original.jpg'', md_OriginalFilename = ''b.jpg'',
     md_MIMEType = ''image/jpeg'', md_GuestName = Some ''g'', md_Caption = None, md_ExpectedSize = 400,
     md_ActualSize = n, md_ChecksumSHA256 = replicate 64 CHR ''a'', md_ClientUploadID = Some 61, md_Status = st,
     md_CreatedAt = 20, md_LastActivityAt = 20, md_UploadedAt = at, md_FailedAt = None,
     md_ThumbnailReady = False, md_Width = None, md_Height = None, md_DurationSeconds = None,
     md_TransitionCueSeconds = None, md_SourceDeletedAt = None\<rparr>"

lemma fx_reserved_value [code]:
  "fx_reserved = (fx_media_db\<lparr>t_media := [fx_row MediaPending None None],
     t_events := [fx_event\<lparr>ev_ReservedMediaBytes := 400, reserved_media_items := 1, reserved_photo_items := 1\<rparr>]\<rparr>, [])"
  by code_simp

definition fx_limit :: reserve_limits where
  "fx_limit = \<lparr>MaxEventBytes = 0, EnforceItems = True\<rparr>"

lemma fx_media_inv: "media_inv fx_media_db" "\<forall>e \<in> set (t_events fx_media_db). quota_kept fx_limit e"
  by (simp_all add: fx media_inv_def keyed_def reserved_exact_def flight_sum_def quota_kept_def
      bytes_within_def byte_limit_def items_within_def within_def fx_limit_def)

lemma fx_reserved_target:
  "fst (CreateUpload (app_media (fx_store_env 11)) fx_scope (fx_upload 61 CHR ''a'' 400) (fx_media_db, [])) =
     Inr \<lparr>ut_MediaID = 11, ut_UploadURL = ''put:'' @ md_ObjectKey (hd (t_media (fst fx_reserved))), ut_ExpiresAt = 70,
       ut_RequiredHeaders = [(''Content-Type'', ''image/jpeg''), (''Cache-Control'', ''private, max-age=1800'')]\<rparr>"
  by code_simp

lemma fx_reserved_rows:
  "map md_ID (t_media (fst fx_reserved)) = [11]"
  "map md_Status (t_media (fst fx_reserved)) = [MediaPending]"
  "map ev_ReservedMediaBytes (t_events (fst fx_reserved)) = [400]"
  by code_simp+
section \<open>Quota\<close>

text \<open>C17: however guests, hosts and background jobs interleave, the reservation counters of an
event equal what its uploads in flight reserve, and used plus reserved bytes (and, when they are
enforced, uploaded plus reserved items, photos and videos) never pass the event's limits.\<close>

theorem quota_never_overshoots:
  assumes "media_inv s" "\<forall>e \<in> set (t_events s). quota_kept lim e"
    and "(media_step lim)\<^sup>*\<^sup>* s s'"
  shows "\<forall>e \<in> set (t_events s'). quota_kept lim e \<and> reserved_exact (t_media s') e"
  using media_steps_keep [OF assms(3,1)] assms(2) by (simp add: media_inv_def)

lemma fx_reserved_steps: "steps fx_limit fx_media_db (fst fx_reserved)"
proof -
  have "CreateUpload (app_media (fx_store_env 11)) fx_scope (fx_upload 61 CHR ''a'' 400) (fx_media_db, []) =
    (fst (CreateUpload (app_media (fx_store_env 11)) fx_scope (fx_upload 61 CHR ''a'' 400) (fx_media_db, [])), fx_reserved)"
    by (simp add: fx_reserved_def)
  from CreateUpload_steps [OF this] show ?thesis by (simp add: fx_scope_def fx_limit_def)
qed

lemma fx_reserved_inv: "media_inv (fst fx_reserved)"
  by (rule steps_inv [OF fx_reserved_steps fx_media_inv(1)])

theorem quota_never_overshoots_witness:
  "list_all (\<lambda>e. quota_kept fx_limit e \<and> reserved_exact (t_media (fst fx_reserved)) e) (t_events (fst fx_reserved)) \<and>
   map ev_ReservedMediaBytes (t_events (fst fx_reserved)) = [400]"
  using quota_never_overshoots [OF fx_media_inv fx_reserved_steps] fx_reserved_rows(3)
  unfolding list_all_iff by (rule conjI)

text \<open>C19: every call of the media service changes the database by a sequence of those atomic
steps, so runs of whole calls keep the counters exact and the limits too.\<close>

theorem calls_refine_steps:
  assumes "media_inv (fst so)" "(media_call lim)\<^sup>*\<^sup>* so so'"
  shows "(media_step lim)\<^sup>*\<^sup>* (fst so) (fst so') \<and> media_inv (fst so')"
  using assms(2)
proof (induction rule: rtranclp_induct)
  case (step y z)
  then show ?case
    using media_call_steps [of lim y z] steps_inv [of lim "fst y" "fst z"] by (auto intro: rtranclp_trans)
qed (simp add: assms(1))

theorem calls_refine_steps_witness:
  "(media_step fx_limit)\<^sup>*\<^sup>* fx_media_db (fst fx_reserved) \<and> media_inv (fst fx_reserved)"
proof -
  have "media_call fx_limit (fx_media_db, []) fx_reserved"
    by (rule media_call.intros(1) [OF prod.collapse [symmetric], where E = "fx_store_env 11" and sc = fx_scope
          and inp = "fx_upload 61 CHR ''a'' 400" and so = "(fx_media_db, [])", folded fx_reserved_def])
      (simp add: fx_scope_def fx_limit_def)
  from calls_refine_steps [of "(fx_media_db, [])", OF _ r_into_rtranclp, OF _ this] fx_media_inv(1)
  show ?thesis by simp
qed

section \<open>Upload targets\<close>

lemma filter_nil_append: "filter p t = [] \<Longrightarrow> p r \<Longrightarrow> filter p (t @ [r]) = [r]"
  by simp

lemma first_by_only: "(\<forall>x \<in> set t. \<not> p x) \<Longrightarrow> p r \<Longrightarrow> first_by k p (t @ [r]) = Some r"
  by (simp add: first_by_def filter_empty_conv)

lemma reserve_new_ok:
  assumes "reserve_new (app_media E) sc inp (s, x) = (Inr (m, c), (s1, x1))"
  shows "c \<and> m = new_media (app_media E) sc inp \<and>
      db_ReserveUpload (me_now E) m (scope_limits sc) s = (Inr (), s1) \<or>
    \<not> c \<and> db_FindByClientUpload (us_EventID sc) (us_GuestSessionID sc) (ui_ClientUploadID inp) s1 = Inr m"
  using assms
  by (cases "db_ReserveUpload (me_now E) (new_media (app_media E) sc inp) (scope_limits sc) s")
    (auto simp: reserve_new_def media_fields repo_fields Let_def on_store_Pair on_db_Pair
      split: if_splits sum.splits prod.splits)

text \<open>What a call that succeeds has done: found or written the row of the client id.\<close>

lemma CreateUpload_row:
  assumes ok: "CreateUpload (app_media E) sc inp so = (Inr t, so')"
  obtains m where
    "db_FindByClientUpload (us_EventID sc) (us_GuestSessionID sc) (ui_ClientUploadID inp) (fst so') = Inr m"
    "ut_MediaID t = md_ID m" "ut_RequiredHeaders t =
       [(''Content-Type'', md_MIMEType m), (''Cache-Control'', ''private, max-age=1800'')]"
    "me_PresignPut E (md_ObjectKey m) (md_MIMEType m) (snd so') = Inr (ut_UploadURL t)"
proof -
  let ?find = "db_FindByClientUpload (us_EventID sc) (us_GuestSessionID sc) (ui_ClientUploadID inp)"
  have ho: "so2 = so' \<and> ut_MediaID t = md_ID m \<and> ut_RequiredHeaders t =
       [(''Content-Type'', md_MIMEType m), (''Cache-Control'', ''private, max-age=1800'')] \<and>
       me_PresignPut E (md_ObjectKey m) (md_MIMEType m) (snd so') = Inr (ut_UploadURL t)"
    if "hand_out (app_media E) m c so2 = (Inr t, so')" for m c so2
    using that by (auto simp: hand_out_def media_fields split: sum.splits)
  show thesis
  proof (cases "?find (fst so)")
    case (Inr m)
    with ok have "hand_out (app_media E) m False so = (Inr t, so')"
      by (auto simp: CreateUpload_def media_fields repo_fields split: if_splits)
    with ho Inr that show thesis by blast
  next
    case (Inl e)
    with ok obtain m c so1 where r: "reserve_new (app_media E) sc inp so = (Inr (m, c), so1)"
      and h: "hand_out (app_media E) m c so1 = (Inr t, so')" and e: "e = Media ErrMediaNotFound"
      by (auto simp: CreateUpload_def media_fields repo_fields split: if_splits sum.splits prod.splits)
    obtain s x s1 x1 where so: "so = (s, x)" "so1 = (s1, x1)" by (cases so, cases so1) blast
    have "\<exists>r. ?find s1 = Inr r \<and> md_ID r = md_ID m \<and> md_MIMEType r = md_MIMEType m \<and>
       md_ObjectKey r = md_ObjectKey m"
      using reserve_new_ok [OF r [unfolded so]]
    proof (elim disjE conjE)
      assume m: "m = new_media (app_media E) sc inp"
        and ru: "db_ReserveUpload (me_now E) m (scope_limits sc) s = (Inr (), s1)"
      obtain r where r: "r = m\<lparr>md_CreatedAt := (if is_zero_time (md_CreatedAt m) then me_now E else md_CreatedAt m)\<rparr>"
        and s1: "s1 = s\<lparr>t_events := update_where (reservable m (scope_limits sc)) (reserve_counters m) (t_events s),
          t_media := t_media s @ [r]\<rparr>"
        by (rule ReserveUpload_ok [OF ru])
      have "\<forall>y \<in> set (t_media s). \<not> (md_EventID y = us_EventID sc \<and>
          md_GuestSessionID y = us_GuestSessionID sc \<and> md_ClientUploadID y = Some (ui_ClientUploadID inp))"
        using \<open>?find (fst so) = Inl e\<close>
        by (auto simp: so db_FindByClientUpload_def found_media_def first_by_None split: option.splits)
      then have "?find s1 = Inr r"
        by (simp add: db_FindByClientUpload_def found_media_def s1 first_by_only r m new_media_def)
      then show ?thesis by (simp add: r)
    qed blast
    then obtain r where "?find (fst so1) = Inr r" "md_ID r = md_ID m" "md_MIMEType r = md_MIMEType m"
       "md_ObjectKey r = md_ObjectKey m" by (auto simp: so)
    with ho [OF h] show thesis by (intro that [of r]) auto
  qed
qed

lemma valid_upload_fx: "valid_upload (app_media (fx_store_env n)) (fx_upload k CHR ''a'' 400)"
  by (simp add: valid_upload_def media_fields fx allowed_def supportedMIMETypes_def limitByMIME_def
      has_prefix_def validSHA256_def hex_char_def list_all_iff)


section \<open>Errors leave no trace\<close>

text \<open>Jobs and replicas reference media rows that exist.\<close>

definition media_refs_ok :: "db \<Rightarrow> bool" where
  "media_refs_ok s \<longleftrightarrow> (\<forall>j \<in> set (t_media_jobs s). mj_MediaID j \<in> md_ID ` set (t_media s)) \<and>
     (\<forall>r \<in> set (t_replicas s). sr_media_id r \<in> md_ID ` set (t_media s))"

lemma released_new:
  assumes "\<forall>y \<in> set t. md_ID y \<noteq> md_ID r" "in_flight (md_Status r)"
  shows "released [md_ID r] e (t @ [r]) = (if md_EventID r = ev_ID e then [r] else [])"
  using assms by (auto simp: released_def filter_empty_conv)

lemma delete_where_none: "\<forall>y \<in> set t. \<not> p y \<Longrightarrow> delete_where p t = t"
  by (simp add: delete_where_def)

lemma release_reserve:
  assumes "md_EventID r = ev_ID e" "0 \<le> ev_ReservedMediaBytes e" "0 \<le> reserved_media_items e"
    "0 \<le> reserved_photo_items e" "0 \<le> reserved_video_items e" "md_MIMEType r = md_MIMEType m"
    "md_ExpectedSize r = md_ExpectedSize m"
  shows "release_counters [r] (reserve_counters m e) = e"
  using assms
  by (simp add: release_counters_def reserve_counters_def mediaKind_w photo_w_def video_w_def
      is_photo_def is_video_def)

lemma exact_nonneg:
  assumes "media_inv s" "e \<in> set (t_events s)"
  shows "0 \<le> ev_ReservedMediaBytes e" "0 \<le> reserved_media_items e" "0 \<le> reserved_photo_items e"
    "0 \<le> reserved_video_items e"
  using assms by (auto simp: media_inv_def reserved_exact_def intro!: flight_sum_nonneg)

lemma update_where_undo:
  assumes "\<And>x. x \<in> set t \<Longrightarrow> q x \<Longrightarrow> p (g x) \<and> f (g x) = x" "\<And>x. x \<in> set t \<Longrightarrow> \<not> q x \<Longrightarrow> \<not> p x"
  shows "update_where p f (update_where q g t) = t"
  using assms by (induction t) auto

text \<open>A reservation and the deletion of its row are inverse.\<close>

lemma reserve_then_delete:
  assumes inv: "media_inv s" "media_refs_ok s" "md_Status m = MediaPending"
    and ru: "db_ReserveUpload now m lim s = (Inr u, s1)"
    and q: "list_all quota_in_range (t_events s)" "list_all quota_row_ok (t_events s)"
  shows "db_DeleteMedia (md_ID m) s1 = (None, s)"
proof -
  obtain r where r: "r = m\<lparr>md_CreatedAt := (if is_zero_time (md_CreatedAt m) then now else md_CreatedAt m)\<rparr>"
    and s1: "s1 = s\<lparr>t_events := update_where (reservable m lim) (reserve_counters m) (t_events s),
      t_media := t_media s @ [r]\<rparr>"
    and c: "count_where (reservable m lim) (t_events s) = 1"
    and keys: "media_keys_ok (t_media s @ [r])"
    by (rule ReserveUpload_ok [OF ru])
  have "md_ID r \<notin> md_ID ` set (t_media s)" using keys by (simp add: media_keys_ok_def)
  then have new: "\<forall>y \<in> set (t_media s). md_ID y \<noteq> md_ID r" by (metis imageI)
  obtain e where e: "e \<in> set (t_events s)" "reservable m lim e" by (rule count_where_one [OF c])
  have only: "reservable m lim y \<longleftrightarrow> ev_ID y = md_EventID r" if "y \<in> set (t_events s)" for y
    using keyed_unique [of ev_ID "t_events s" y e] inv(1) that e
    by (auto simp: media_inv_def reservable_def r)
  have rel: "released [md_ID r] x (t_media s @ [r]) = (if md_EventID r = ev_ID x then [r] else [])" for x
    by (rule released_new [OF new]) (simp add: r inv(3))
  have rr: "md_MIMEType r = md_MIMEType m" "md_ExpectedSize r = md_ExpectedSize m" by (simp_all add: r)
  let ?P = "\<lambda>x. released [md_ID r] x (t_media s1) \<noteq> []"
  let ?F = "\<lambda>x. release_counters (released [md_ID r] x (t_media s1)) x"
  have undo: "update_where ?P ?F (t_events s1) = t_events s"
    unfolding s1
  proof (simp, rule update_where_undo)
    fix x assume x: "x \<in> set (t_events s)"
    show "reservable m lim x \<Longrightarrow> released [md_ID r] (reserve_counters m x) (t_media s @ [r]) \<noteq> [] \<and>
        release_counters (released [md_ID r] (reserve_counters m x) (t_media s @ [r])) (reserve_counters m x) = x"
      using only [OF x] release_reserve [OF _ exact_nonneg [OF inv(1) x] rr] by (simp add: rel)
    show "\<not> reservable m lim x \<Longrightarrow> \<not> released [md_ID r] x (t_media s @ [r]) \<noteq> []"
      using only [OF x] by (auto simp: rel)
  qed
  have loose: "\<forall>j \<in> set (t_media_jobs s). mj_MediaID j \<noteq> md_ID r"
    "\<forall>x \<in> set (t_replicas s). sr_media_id x \<noteq> md_ID r"
    using inv(2) new by (fastforce simp: media_refs_ok_def)+
  have "db_DeleteMedia (md_ID r) s1 = (None, s)"
    using new loose q undo
    by (auto simp: db_DeleteMedia_def db_DeleteManyUploads_def write_quota_def s1
        delete_where_def intro!: db.equality filter_True)
  then show ?thesis by (simp add: r)
qed

lemma reserve_new_keeps:
  assumes "reserve_new (app_media E) sc inp (s, x) = (q, so1)"
  shows "fst so1 = s \<or> (\<exists>m. q = Inr (m, True))"
proof -
  obtain a b where ru: "db_ReserveUpload (me_now E) (new_media (app_media E) sc inp) (scope_limits sc) s = (a, b)"
    by (rule prod.exhaust)
  have b: "b = s" if "a = Inl e" for e using ru that by (simp add: ReserveUpload_error)
  obtain p y where al: "me_Allow E (''upload:'' @ me_uuid_string E (us_GuestSessionID sc)) x = (p, y)"
    by (rule prod.exhaust)
  show ?thesis
    using assms b
    by (cases a; cases p)
      (auto simp: reserve_new_def media_fields repo_fields Let_def on_store_Pair on_db_Pair ru al
        split: if_splits sum.splits)
qed

text \<open>An upload request that is refused, at whatever point, leaves the database as it was: no
pending record and no reservation, also when the link could not be signed after the quota was
taken.\<close>

theorem refused_upload_leaves_no_trace:
  assumes "media_inv (fst so)" "media_refs_ok (fst so)"
    and "list_all quota_in_range (t_events (fst so))" "list_all quota_row_ok (t_events (fst so))"
    and bad: "CreateUpload (app_media E) sc inp so = (Inl e, so')"
  shows "fst so' = fst so"
proof -
  obtain s x where so: "so = (s, x)" by (cases so) blast
  have pend: "md_Status (new_media (app_media E) sc inp) = MediaPending" by (simp add: new_media_def)
  have out: "fst so1 = (if c then snd (db_DeleteMedia (md_ID m) s1) else s1)"
    if "hand_out (app_media E) m c (s1, y) = (Inl e1, so1)" for m c s1 y e1 so1
    using that by (auto simp: hand_out_def media_fields repo_fields on_db_Pair split: sum.splits)
  note new = reserve_new_keeps [of E sc inp s x]
  have kept: "s1 = s" if "reserve_new (app_media E) sc inp (s, x) = (Inr (m, False), (s1, y))" for m s1 y
    using new [OF that] by simp
  have fin: "fst so1 = s"
    if r: "reserve_new (app_media E) sc inp (s, x) = (Inr (m, c), (s1, y))"
      and h: "hand_out (app_media E) m c (s1, y) = (Inl e1, so1)" for m c s1 y e1 so1
  proof (cases c)
    case True
    with reserve_new_ok [OF r] have m: "m = new_media (app_media E) sc inp"
      "db_ReserveUpload (me_now E) m (scope_limits sc) s = (Inr (), s1)" by auto
    have "db_DeleteMedia (md_ID m) s1 = (None, s)"
      by (rule reserve_then_delete [OF _ _ _ m(2)]) (use assms pend so m(1) in auto)
    with True out [OF h] show ?thesis by simp
  next
    case False
    with out [OF h] kept r show ?thesis by simp
  qed
  obtain q s1 y where r: "reserve_new (app_media E) sc inp (s, x) = (q, (s1, y))" by (metis prod.exhaust)
  show ?thesis
  proof (cases q)
    case (Inl e1)
    have "s1 = s" using new [OF r] by (simp add: Inl)
    with bad r Inl show ?thesis
      by (auto simp: so CreateUpload_def media_fields repo_fields dest: out split: if_splits sum.splits)
  next
    case (Inr mc)
    obtain m c where mc: "mc = (m, c)" by (cases mc)
    have "fst so1 = s" if "hand_out (app_media E) m c (s1, y) = (Inl e1, so1)" for e1 so1
      by (rule fin [OF r [unfolded Inr mc] that])
    with bad r Inr mc show ?thesis
      by (auto simp: so CreateUpload_def media_fields repo_fields dest: out split: if_splits sum.splits)
  qed
qed
definition fx_unsigned :: "store media_env" where
  "fx_unsigned = (fx_store_env 11)\<lparr>me_PresignPut := (\<lambda>k m st. Inl (DB ErrConnection))\<rparr>"

lemma fx_media_refs: "media_refs_ok fx_media_db" "list_all quota_in_range (t_events fx_media_db)"
  "list_all quota_row_ok (t_events fx_media_db)"
  by (simp_all add: fx media_refs_ok_def quota_in_range_def quota_row_ok_def in_i64_def)

lemma fx_unsigned_fails:
  "isl (fst (CreateUpload (app_media fx_unsigned) fx_scope (fx_upload 61 CHR ''a'' 400) (fx_media_db, [])))"
  by code_simp

theorem refused_upload_leaves_no_trace_witness:
  "fst (snd (CreateUpload (app_media fx_unsigned) fx_scope (fx_upload 61 CHR ''a'' 400) (fx_media_db, []))) =
     fx_media_db"
proof -
  obtain e where "CreateUpload (app_media fx_unsigned) fx_scope (fx_upload 61 CHR ''a'' 400) (fx_media_db, []) =
    (Inl e, snd (CreateUpload (app_media fx_unsigned) fx_scope (fx_upload 61 CHR ''a'' 400) (fx_media_db, [])))"
    using fx_unsigned_fails by (metis isl_def prod.collapse)
  from refused_upload_leaves_no_trace [OF _ _ _ _ this] fx_media_refs fx_media_inv(1)
  show ?thesis by simp
qed

section \<open>Refusals\<close>

fun usage_of :: "quota_resource \<Rightarrow> event \<Rightarrow> int" where
  "usage_of ResourceBytes e = ev_UsedMediaBytes e + ev_ReservedMediaBytes e"
| "usage_of ResourceMedia e = uploaded_media_items e + reserved_media_items e"
| "usage_of ResourcePhoto e = uploaded_photo_items e + reserved_photo_items e"
| "usage_of ResourceVideo e = uploaded_video_items e + reserved_video_items e"

fun limit_of :: "quota_resource \<Rightarrow> reserve_limits \<Rightarrow> event \<Rightarrow> int" where
  "limit_of ResourceBytes lim e = byte_limit lim e"
| "limit_of ResourceMedia lim e = max_media_items e"
| "limit_of ResourcePhoto lim e = max_photo_items e"
| "limit_of ResourceVideo lim e = max_video_items e"

fun demand :: "quota_resource \<Rightarrow> media \<Rightarrow> int" where
  "demand ResourceBytes m = md_ExpectedSize m"
| "demand ResourceMedia m = 1"
| "demand ResourcePhoto m = photo_w m"
| "demand ResourceVideo m = video_w m"

definition maxima_ok :: "event \<Rightarrow> bool" where
  "maxima_ok e \<longleftrightarrow> 0 \<le> max_media_items e \<and> 0 \<le> max_photo_items e \<and> 0 \<le> max_video_items e"

lemma refusal_reason:
  assumes "reservationRefusal rec lim s = Media (QuotaError res limit usage)"
    and "find (\<lambda>e. ev_ID e = md_EventID rec) (t_events s) = Some e" "\<not> reservable rec lim e"
    and "0 \<le> MaxEventBytes lim" "maxima_ok e"
  shows "usage = usage_of res e \<and> limit = limit_of res lim e \<and> limit < usage + demand res rec"
proof -
  have e: "ev_ID e = md_EventID rec" "ev_Status e = EventActive"
    using assms(1,2) by (auto simp: reservationRefusal_def find_Some_iff split: if_splits)
  have k: "mediaKind (md_MIMEType rec) = (photo_w rec, video_w rec)"
    using mediaKind_w [of rec] by (simp add: prod_eq_iff)
  have w: "photo_w rec = 0 \<or> photo_w rec = 1" "video_w rec = 0 \<or> video_w rec = 1"
    by (auto simp: photo_w_def video_w_def)
  have lim: "byte_limit lim e = (if 0 < MaxEventBytes lim then MaxEventBytes lim else ev_MaxMediaBytes e)"
    using assms(4) by (simp add: byte_limit_def)
  have no: "EnforceItems lim \<longrightarrow> item_room (photo_w rec) (video_w rec) e \<Longrightarrow>
      byte_limit lim e < usage_of ResourceBytes e + md_ExpectedSize rec"
    using assms(3) e by (simp add: reservable_def k not_le)
  define v where "v \<longleftrightarrow> video_w rec = 1 \<and> 0 < max_video_items e \<and>
    max_video_items e < uploaded_video_items e + reserved_video_items e + 1"
  define p where "p \<longleftrightarrow> photo_w rec = 1 \<and> 0 < max_photo_items e \<and>
    max_photo_items e < uploaded_photo_items e + reserved_photo_items e + 1"
  define m where "m \<longleftrightarrow> 0 < max_media_items e \<and>
    max_media_items e < uploaded_media_items e + reserved_media_items e + 1"
  have room: "item_room (photo_w rec) (video_w rec) e \<longleftrightarrow> \<not> v \<and> \<not> p \<and> \<not> m"
    using w assms(5) unfolding item_room_def maxima_ok_def v_def p_def m_def by linarith
  have "reservationRefusal rec lim s =
    (if EnforceItems lim \<and> v then Media (QuotaError ResourceVideo (max_video_items e) (usage_of ResourceVideo e))
     else if EnforceItems lim \<and> p then Media (QuotaError ResourcePhoto (max_photo_items e) (usage_of ResourcePhoto e))
     else if EnforceItems lim \<and> m then Media (QuotaError ResourceMedia (max_media_items e) (usage_of ResourceMedia e))
     else Media (QuotaError ResourceBytes (byte_limit lim e) (usage_of ResourceBytes e)))"
    unfolding reservationRefusal_def v_def p_def m_def by (cases "EnforceItems lim") (simp_all add: assms(2) e k lim Let_def)
  then have eq: "Media (QuotaError res limit usage) = \<dots>" using assms(1) by simp
  have over: "v \<Longrightarrow> limit_of ResourceVideo lim e < usage_of ResourceVideo e + demand ResourceVideo rec"
    "p \<Longrightarrow> limit_of ResourcePhoto lim e < usage_of ResourcePhoto e + demand ResourcePhoto rec"
    "m \<Longrightarrow> limit_of ResourceMedia lim e < usage_of ResourceMedia e + demand ResourceMedia rec"
    by (simp_all add: v_def p_def m_def)
  show ?thesis
    using eq no over unfolding room by (cases "EnforceItems lim"; cases v; cases p; cases m) simp_all
qed

text \<open>a quota refusal tells the truth. The resource it names is one this upload would take
past its limit, and the limit and the usage it reports are those of the event.\<close>

theorem refusal_names_the_limit:
  assumes "db_ReserveUpload now rec lim s = (Inl (Media (QuotaError res limit usage)), s')"
    and "keyed ev_ID (t_events s)" "0 \<le> MaxEventBytes lim" "\<forall>e \<in> set (t_events s). maxima_ok e"
  shows "\<exists>e \<in> set (t_events s). ev_ID e = md_EventID rec \<and> ev_Status e = EventActive \<and>
    usage = usage_of res e \<and> limit = limit_of res lim e \<and> limit < usage + demand res rec"
proof -
  let ?up = "update_where (reservable rec lim) (reserve_counters rec) (t_events s)"
  have "reserve_tx now rec lim s = Inl (Media (QuotaError res limit usage))"
    using assms(1) by (auto simp: db_ReserveUpload_def transaction_def split: sum.splits)
  then obtain s1 where w: "write_quota ?up s = Inr s1"
    and c: "count_where (reservable rec lim) (t_events s) \<noteq> 1"
    and ref: "reservationRefusal rec lim s1 = Media (QuotaError res limit usage)"
    unfolding reserve_tx_def write_media_def
    by (auto simp: write_quota_def split: if_splits sum.splits)
  have none: "\<not> reservable rec lim e" if "e \<in> set (t_events s)" for e
  proof
    assume r: "reservable rec lim e"
    have "distinct (t_events s)" using assms(2) by (simp add: keyed_def distinct_map)
    moreover have "filter (reservable rec lim) (t_events s) = filter (\<lambda>x. x = e) (t_events s)"
      using r that keyed_unique [OF assms(2)] by (intro filter_cong) (auto simp: reservable_def)
    ultimately show False
      using c that by (simp add: count_where_def distinct_length_filter Int_insert_right)
  qed
  then have s1: "t_events s1 = t_events s"
    using write_quota_ok [OF w] by (simp add: update_where_none)
  from ref obtain e where f: "find (\<lambda>e. ev_ID e = md_EventID rec) (t_events s1) = Some e"
    and a: "ev_Status e = EventActive"
    by (auto simp: reservationRefusal_def split: option.splits if_splits)
  then have e: "e \<in> set (t_events s)" "ev_ID e = md_EventID rec" by (auto simp: s1 find_Some_iff)
  show ?thesis
    using refusal_reason [OF ref f none [OF e(1)] assms(3)] assms(4) e a by blast
qed

definition fx_second :: media where
  "fx_second = new_media (app_media (fx_store_env 12)) fx_scope (fx_upload 62 CHR ''b'' 601)"

lemma fx_second_refused:
  "fst (db_ReserveUpload 20 fx_second fx_limit (fst fx_reserved)) = Inl (Media (QuotaError ResourceBytes 1000 400))"
  by code_simp

theorem refusal_names_the_limit_witness:
  "\<exists>e \<in> set (t_events (fst fx_reserved)). ev_ID e = 7 \<and> ev_Status e = EventActive \<and>
    400 = usage_of ResourceBytes e \<and> 1000 = limit_of ResourceBytes fx_limit e \<and> (1000::int) < 400 + 601"
proof -
  have max: "\<forall>e \<in> set (t_events (fst fx_reserved)). maxima_ok e"
    by code_simp
  have k: "keyed ev_ID (t_events (fst fx_reserved))" using fx_reserved_inv by (simp add: media_inv_def)
  have "db_ReserveUpload 20 fx_second fx_limit (fst fx_reserved) =
     (Inl (Media (QuotaError ResourceBytes 1000 400)), snd (db_ReserveUpload 20 fx_second fx_limit (fst fx_reserved)))"
    using fx_second_refused by (simp add: prod_eq_iff)
  from refusal_names_the_limit [OF this k _ max]
  show ?thesis by (simp add: fx_limit_def fx_second_def new_media_def fx)
qed

end
