(* ===== verification/GalleryProps.thy ===== *)
theory GalleryProps
  imports MediaProps
begin

text \<open>
  Keyset paging. \<open>keyset_pages\<close> is the contract of a query that reads a sorted list from a
  position on; under it, following the cursors from the first page to the last shows every
  row once, in order. The two queries of the media repository meet it.
\<close>

section \<open>The contract\<close>

text \<open>
  The walk over the pages of a query: one row more than a page is read, and the next page
  starts after the last row shown.
\<close>

fun pages :: "nat \<Rightarrow> nat \<Rightarrow> ('r option \<Rightarrow> nat \<Rightarrow> 'r list) \<Rightarrow> 'r option \<Rightarrow> 'r list" where
  "pages 0 lim fetch c = []"
| "pages (Suc k) lim fetch c =
     (let r = fetch c (Suc lim)
      in if lim < length r then take lim r @ pages k lim fetch (Some (last (take lim r))) else r)"

locale keyset_pages =
  fixes ok :: "'s \<Rightarrow> bool"
    and rows :: "'s \<Rightarrow> 'r list"
    and before :: "'s \<Rightarrow> 'r \<Rightarrow> 'r \<Rightarrow> bool"
    and fetch :: "'s \<Rightarrow> 'r option \<Rightarrow> nat \<Rightarrow> 'r list"
  assumes in_sequence: "ok s \<Longrightarrow> sorted_wrt (before s) (rows s)"
    and asymmetric: "before s x y \<Longrightarrow> \<not> before s y x"
    and fetch_first: "ok s \<Longrightarrow> fetch s None n = take n (rows s)"
    and fetch_after: "ok s \<Longrightarrow> fetch s (Some x) n = take n (filter (before s x) (rows s))"
begin

lemma filter_after:
  assumes "sorted_wrt (before s) (xs @ x # ys)"
  shows "filter (before s x) (xs @ x # ys) = ys"
proof -
  have "filter (before s x) xs = []"
    using assms asymmetric by (auto simp: filter_empty_conv sorted_wrt_append)
  moreover have "\<not> before s x x" using asymmetric by blast
  moreover have "filter (before s x) ys = ys"
    using assms by (simp add: sorted_wrt_append filter_id_conv)
  ultimately show ?thesis by simp
qed

lemma fetch_suffix:
  assumes "ok s" "rows s = p @ d" "c = (if p = [] then None else Some (last p))"
  shows "fetch s c n = take n d"
proof (cases "p = []")
  case True
  with assms show ?thesis by (simp add: fetch_first)
next
  case False
  then have r: "rows s = butlast p @ last p # d" using assms(2) by simp
  have "filter (before s (last p)) (rows s) = d"
    using in_sequence [OF assms(1)] unfolding r by (rule filter_after)
  with False assms show ?thesis by (simp add: fetch_after)
qed

lemma pages_suffix:
  "ok s \<Longrightarrow> rows s = p @ d \<Longrightarrow> c = (if p = [] then None else Some (last p)) \<Longrightarrow> 0 < lim \<Longrightarrow>
     length d < k \<Longrightarrow> pages k lim (fetch s) c = d"
proof (induction k arbitrary: p d c)
  case (Suc k)
  have f: "fetch s c (Suc lim) = take (Suc lim) d" by (rule fetch_suffix [OF Suc.prems(1-3)])
  show ?case
  proof (cases "lim < length d")
    case True
    then have t: "take lim (take (Suc lim) d) = take lim d" "take lim d \<noteq> []"
      using Suc.prems(4) by (auto simp: min_def)
    have "pages k lim (fetch s) (Some (last (take lim d))) = drop lim d"
      by (rule Suc.IH [of "p @ take lim d"]) (use Suc.prems True t in auto)
    then show ?thesis using True t(1) by (simp add: f Let_def)
  qed (simp add: f)
qed simp

lemma pages_all: "ok s \<Longrightarrow> 0 < lim \<Longrightarrow> length (rows s) < k \<Longrightarrow> pages k lim (fetch s) None = rows s"
  by (rule pages_suffix [where p = "[]"]) simp_all

end

section \<open>The queries of the media repository\<close>

definition pos_before :: "bool \<Rightarrow> media \<Rightarrow> media \<Rightarrow> bool" where
  "pos_before oldest x y = (if oldest then row_pos x < row_pos y else row_pos y < row_pos x)"

definition cursor_of :: "media \<Rightarrow> cursor" where
  "cursor_of m = \<lparr>cu_CreatedAt = md_CreatedAt m, cu_ID = md_ID m\<rparr>"

definition gallery_rows :: "db \<Rightarrow> uuid \<Rightarrow> gallery_filter \<Rightarrow> bool \<Rightarrow> media list" where
  "gallery_rows s i flt oldest = in_order oldest (filter (\<lambda>m. md_EventID m = i \<and> gallery_match flt m) (t_media s))"

lemma after_cursor_before: "after_cursor oldest (Some (cursor_of x)) = pos_before oldest x"
  by (rule ext) (simp add: cursor_of_def cursor_pos_def row_pos_def pos_before_def)

lemma in_order_filter: "in_order oldest (filter p t) = filter p (in_order oldest t)"
  by (simp add: in_order_def filter_sort [symmetric] rev_filter)

lemma pos_before_lambda:
  "pos_before True = (\<lambda>x y. row_pos x < row_pos y)" "pos_before False = (\<lambda>x y. row_pos y < row_pos x)"
  by (intro ext, simp add: pos_before_def)+

lemma in_order_sorted:
  assumes "distinct (map md_ID t)"
  shows "sorted_wrt (pos_before oldest) (in_order oldest t)"
proof -
  have "distinct (map row_pos t)"
    using assms by (auto simp: distinct_map row_pos_def inj_on_def)
  then have "distinct (map row_pos (sort_key row_pos t))"
    by (metis distinct_map distinct_sort set_sort)
  then have "sorted_wrt (<) (map row_pos (sort_key row_pos t))"
    by (simp add: strict_sorted_iff)
  then have "sorted_wrt (\<lambda>x y. row_pos x < row_pos y) (sort_key row_pos t)"
    by (simp add: sorted_wrt_map)
  then show ?thesis
    by (cases oldest) (simp_all add: in_order_def pos_before_lambda sorted_wrt_rev)
qed

definition fetch_gallery :: "db \<times> uuid \<times> gallery_filter \<times> bool \<Rightarrow> media option \<Rightarrow> nat \<Rightarrow> media list" where
  "fetch_gallery q c n = (case q of (s, i, flt, oldest) \<Rightarrow>
     (case db_ListGallery i flt (if oldest then SortOldest else SortNewest) (int n) (map_option cursor_of c) s of
        Inr r \<Rightarrow> r | Inl _ \<Rightarrow> []))"

lemma fetch_gallery_eq:
  "fetch_gallery (s, i, flt, oldest) c n = take n (filter (after_cursor oldest (map_option cursor_of c))
     (gallery_rows s i flt oldest))"
  unfolding fetch_gallery_def gallery_rows_def
  by (cases oldest) (simp_all add: db_ListGallery_def Let_def in_order_filter [symmetric] conj_ac)

interpretation gallery: keyset_pages "\<lambda>(s, i, flt, oldest). keyed md_ID (t_media s)"
  "\<lambda>(s, i, flt, oldest). gallery_rows s i flt oldest" "\<lambda>(s, i, flt, oldest). pos_before oldest" fetch_gallery
proof unfold_locales
  fix q :: "db \<times> uuid \<times> gallery_filter \<times> bool" and x y n
  obtain s i flt oldest where q: "q = (s, i, flt, oldest)" by (cases q) auto
  assume "case q of (s, i, flt, oldest) \<Rightarrow> keyed md_ID (t_media s)"
  then have k: "keyed md_ID (t_media s)" by (simp add: q)
  show "sorted_wrt (case q of (s, i, flt, oldest) \<Rightarrow> pos_before oldest)
      (case q of (s, i, flt, oldest) \<Rightarrow> gallery_rows s i flt oldest)"
    using k by (simp add: q gallery_rows_def keyed_def distinct_map_filter in_order_sorted)
  show "fetch_gallery q None n = take n (case q of (s, i, flt, oldest) \<Rightarrow> gallery_rows s i flt oldest)"
    by (simp add: q fetch_gallery_eq)
  show "fetch_gallery q (Some x) n = take n (filter ((case q of (s, i, flt, oldest) \<Rightarrow> pos_before oldest) x)
      (case q of (s, i, flt, oldest) \<Rightarrow> gallery_rows s i flt oldest))"
    by (simp add: q fetch_gallery_eq after_cursor_before)
next
  fix q :: "db \<times> uuid \<times> gallery_filter \<times> bool" and x y
  assume "(case q of (s, i, flt, oldest) \<Rightarrow> pos_before oldest) x y"
  then show "\<not> (case q of (s, i, flt, oldest) \<Rightarrow> pos_before oldest) y x"
    by (auto simp: pos_before_def split: prod.splits if_splits)
qed

definition fetch_ready :: "db \<times> uuid \<Rightarrow> media option \<Rightarrow> nat \<Rightarrow> media list" where
  "fetch_ready q c n = (case db_ListReady (snd q) (int n) (map_option cursor_of c) (fst q) of
     Inr r \<Rightarrow> r | Inl _ \<Rightarrow> [])"

lemma fetch_ready_eq:
  "fetch_ready (s, i) c n = take n (filter (after_cursor False (map_option cursor_of c)) (gallery_rows s i FilterAll False))"
  by (simp add: fetch_ready_def db_ListReady_def gallery_rows_def in_order_filter [symmetric] conj_ac)

interpretation ready: keyset_pages "\<lambda>q. keyed md_ID (t_media (fst q))"
  "\<lambda>q. gallery_rows (fst q) (snd q) FilterAll False" "\<lambda>q. pos_before False" fetch_ready
proof unfold_locales
  fix q :: "db \<times> uuid" and x y n
  assume k: "keyed md_ID (t_media (fst q))"
  show "sorted_wrt (pos_before False) (gallery_rows (fst q) (snd q) FilterAll False)"
    using k by (simp add: gallery_rows_def keyed_def distinct_map_filter in_order_sorted)
  show "fetch_ready q None n = take n (gallery_rows (fst q) (snd q) FilterAll False)"
    by (cases q) (simp add: fetch_ready_eq)
  show "fetch_ready q (Some x) n = take n (filter (pos_before False x) (gallery_rows (fst q) (snd q) FilterAll False))"
    by (cases q) (simp add: fetch_ready_eq after_cursor_before)
qed (simp add: pos_before_def)

section \<open>Walking the gallery\<close>

text \<open>A client that follows \<open>next_cursor\<close> until \<open>has_more\<close> is false, in at most \<open>k\<close> requests.\<close>

fun gallery_walk ::
  "nat \<Rightarrow> 's media_service \<Rightarrow> (uuid \<Rightarrow> string) \<Rightarrow> uuid \<Rightarrow> gallery_filter \<Rightarrow> gallery_sort \<Rightarrow> int \<Rightarrow> string \<Rightarrow>
     's \<Rightarrow> public_view list" where
  "gallery_walk 0 S url i flt srt lim c s = []"
| "gallery_walk (Suc k) S url i flt srt lim c s =
     (case ListGallery S url i flt srt lim c s of
        Inl _ \<Rightarrow> []
      | Inr p \<Rightarrow> gp_Data p @
          (if gp_HasMore p then gallery_walk k S url i flt srt lim (gp_NextCursor p) s else []))"

text \<open>What the page codec does with the positions of the rows it is given.\<close>

definition codec_ok :: "'o media_env \<Rightarrow> media list \<Rightarrow> bool" where
  "codec_ok E t \<longleftrightarrow> (\<forall>m \<in> set t. me_encode_cursor E (cursor_of m) \<noteq> '''' \<and>
     me_decode_cursor E (me_encode_cursor E (cursor_of m)) = Some (cursor_of m))"

lemma fetch_gallery_rows: "set (fetch_gallery (s, i, flt, oldest) c n) \<subseteq> set (t_media s)"
  by (auto simp: fetch_gallery_eq gallery_rows_def in_order_def dest!: in_set_takeD split: if_splits)

definition known_filters :: "gallery_filter set" where
  "known_filters = {FilterAll, FilterPhotos, FilterVideos, FilterFavorites, FilterHidden}"

definition known_sorts :: "gallery_sort set" where
  "known_sorts = {SortNewest, SortOldest}"

lemma ListGallery_valid:
  assumes "1 \<le> lim" "lim \<le> 100" "flt \<in> known_filters" "srt \<in> known_sorts"
    and p: "parse_cursor S t = Inr before"
    and q: "mr_ListGallery (ms_repo S) i flt srt (lim + 1) before s = Inr r"
    and g: "mr_GalleryCounts (ms_repo S) i s = Inr w"
    and c: "cut_page S lim r = (shown, nxt, hm)"
  shows "ListGallery S url i flt srt lim t s = Inr \<lparr>gp_Data = map (newPublicView S url) shown,
     gp_Counts = (if before = None then Some w else None), gp_NextCursor = nxt, gp_HasMore = hm\<rparr>"
proof -
  have v: "(if flt = FilterOther '''' then FilterAll else flt) = flt"
    "(if srt = SortOther '''' then SortNewest else srt) = srt"
    "(if lim < 1 \<or> 100 < lim then 24 else lim) = lim"
    using assms(1-4) by (auto simp: known_filters_def known_sorts_def)
  have m: "(flt \<notin> known_filters) = False" "(srt \<notin> known_sorts) = False" using assms(3,4) by simp_all
  show ?thesis
    unfolding ListGallery_def Let_def v known_filters_def [symmetric] known_sorts_def [symmetric] m
      if_False p q sum.case g
    by (simp only: c prod.case sum.case if_distrib [where f = "case_sum _ _"] if_distribR cong: if_cong split: if_split)
      simp
qed

lemma ListGallery_page:
  assumes "1 \<le> lim" "lim \<le> 100" "flt \<in> known_filters"
    and p: "parse_cursor (app_media E) t = Inr (map_option cursor_of c)"
    and r: "r = fetch_gallery (s, i, flt, oldest) c (Suc (nat lim))"
  shows "\<exists>counts. ListGallery (app_media E) url i flt (if oldest then SortOldest else SortNewest) lim t (s, x) =
     Inr \<lparr>gp_Data = map (newPublicView (app_media E) url) (take (nat lim) r), gp_Counts = counts,
       gp_NextCursor = (if nat lim < length r
          then me_encode_cursor E (cursor_of (last (take (nat lim) r))) else ''''),
       gp_HasMore = (nat lim < length r)\<rparr>"
proof -
  let ?srt = "if oldest then SortOldest else SortNewest"
  have q: "mr_ListGallery (ms_repo (app_media E)) i flt ?srt (lim + 1) (map_option cursor_of c) (s, x) = Inr r"
    using assms(1) by (simp add: r fetch_gallery_def media_fields repo_fields db_ListGallery_def Let_def add.commute)
  have n: "(lim < int (length r)) = (nat lim < length r)" using assms(1) by linarith
  obtain w where g: "mr_GalleryCounts (ms_repo (app_media E)) i (s, x) = Inr w"
    by (simp add: media_fields repo_fields db_GalleryCounts_def)
  have s: "?srt \<in> known_sorts" by (simp add: known_sorts_def)
  have cut: "cut_page (app_media E) lim r = (take (nat lim) r, if nat lim < length r
      then me_encode_cursor E (cursor_of (last (take (nat lim) r))) else '''', nat lim < length r)"
    unfolding cut_page_def Let_def n media_fields(11) cursor_of_def by simp
  from ListGallery_valid [OF assms(1-3) s p q g cut] show ?thesis by blast
qed

lemma gallery_walk_pages:
  assumes "1 \<le> lim" "lim \<le> 100" "flt \<in> known_filters"
    and codec: "codec_ok E (t_media s)"
  shows "parse_cursor (app_media E) t = Inr (map_option cursor_of c) \<Longrightarrow>
    gallery_walk k (app_media E) url i flt (if oldest then SortOldest else SortNewest) lim t (s, x) =
      map (newPublicView (app_media E) url) (pages k (nat lim) (fetch_gallery (s, i, flt, oldest)) c)"
proof (induction k arbitrary: t c)
  case (Suc k)
  define r where "r = fetch_gallery (s, i, flt, oldest) c (Suc (nat lim))"
  obtain counts where L: "ListGallery (app_media E) url i flt (if oldest then SortOldest else SortNewest) lim t (s, x) =
     Inr \<lparr>gp_Data = map (newPublicView (app_media E) url) (take (nat lim) r), gp_Counts = counts,
       gp_NextCursor = (if nat lim < length r
          then me_encode_cursor E (cursor_of (last (take (nat lim) r))) else ''''),
       gp_HasMore = (nat lim < length r)\<rparr>"
    using ListGallery_page [OF assms(1-3) Suc.prems r_def] by blast
  show ?case
  proof (cases "nat lim < length r")
    case True
    let ?z = "last (take (nat lim) r)"
    have "take (nat lim) r \<noteq> []" using True assms(1) by auto
    then have "?z \<in> set (take (nat lim) r)" by (rule last_in_set)
    then have "?z \<in> set r" by (rule in_set_takeD)
    then have "?z \<in> set (t_media s)"
      unfolding r_def by (rule subsetD [OF fetch_gallery_rows])
    then have "parse_cursor (app_media E) (me_encode_cursor E (cursor_of ?z)) = Inr (map_option cursor_of (Some ?z))"
      using codec by (simp add: parse_cursor_def codec_ok_def media_fields)
    from Suc.IH [OF this] True show ?thesis
      by (simp add: L flip: r_def)
  qed (simp add: L flip: r_def)
qed simp

text \<open>C27: Following the cursors of the gallery from the first page to the last shows every media
  row of the event that the filter matches exactly once, in the order of the sort, whatever
  the page size; the walk ends after at most one request per row and one more.\<close>

theorem gallery_pages_complete:
  assumes "1 \<le> lim" "lim \<le> 100" "flt \<in> known_filters" "keyed md_ID (t_media s)"
    and "codec_ok E (t_media s)" "length (t_media s) < k"
  shows "gallery_walk k (app_media E) url i flt (if oldest then SortOldest else SortNewest) lim '''' (s, x) =
      map (newPublicView (app_media E) url) (gallery_rows s i flt oldest) \<and>
    distinct (map md_ID (gallery_rows s i flt oldest)) \<and>
    set (gallery_rows s i flt oldest) = {m \<in> set (t_media s). md_EventID m = i \<and> gallery_match flt m} \<and>
    sorted_wrt (pos_before oldest) (gallery_rows s i flt oldest)"
proof -
  have p: "parse_cursor (app_media E) '''' = Inr (map_option cursor_of None)"
    by (simp add: parse_cursor_def)
  have n: "length (gallery_rows s i flt oldest) < k"
    using le_less_trans [OF length_filter_le assms(6)] by (simp add: gallery_rows_def in_order_def)
  have "pages k (nat lim) (fetch_gallery (s, i, flt, oldest)) None = gallery_rows s i flt oldest"
    using gallery.pages_all [of "(s, i, flt, oldest)" "nat lim" k] assms(1,4) n by simp
  moreover have "sorted_wrt (pos_before oldest) (gallery_rows s i flt oldest)"
    using gallery.in_sequence [of "(s, i, flt, oldest)"] assms(4) by simp
  moreover have "distinct (map md_ID (gallery_rows s i flt oldest))"
    using assms(4) by (simp add: gallery_rows_def in_order_def keyed_def rev_map [symmetric]
      distinct_map inj_on_def)
  ultimately show ?thesis
    using gallery_walk_pages [OF assms(1-3,5) p, of k url i oldest x]
    by (auto simp: gallery_rows_def in_order_def)
qed

text \<open>A codec in the shape of the real one: it can be read back, and no text of it is empty.\<close>

definition fx_encode :: "cursor \<Rightarrow> string" where
  "fx_encode c = replicate (nat (cu_CreatedAt c)) CHR ''t'' @ CHR ''.'' # replicate (cu_ID c) CHR ''i''"

definition fx_decode :: "string \<Rightarrow> cursor option" where
  "fx_decode t = Some \<lparr>cu_CreatedAt = int (length (takeWhile (\<lambda>c. c = CHR ''t'') t)),
     cu_ID = length (filter (\<lambda>c. c = CHR ''i'') t)\<rparr>"

definition fx_gallery_env :: "store media_env" where
  "fx_gallery_env = fx_store_env 11\<lparr>me_encode_cursor := fx_encode, me_decode_cursor := fx_decode\<rparr>"

definition fx_gallery_db :: db where
  "fx_gallery_db = fx_media_db\<lparr>t_media := map
     (\<lambda>(i, at, st). (new_media (app_media fx_gallery_env) fx_scope (fx_upload i CHR ''a'' 400))
        \<lparr>md_ID := i, md_CreatedAt := at, md_Status := st\<rparr>)
     [(2, 5, MediaReady), (1, 5, MediaReady), (3, 4, MediaHidden), (4, 9, MediaFeatured)]\<rparr>"

theorem gallery_pages_complete_witness:
  "map vw_ID (gallery_walk 5 (app_media fx_gallery_env) (\<lambda>_. '''') 7 FilterAll SortNewest 2 '''' (fx_gallery_db, [])) =
     [4, 2, 1]"
proof -
  have "keyed md_ID (t_media fx_gallery_db)" "length (t_media fx_gallery_db) < 5"
    "codec_ok fx_gallery_env (t_media fx_gallery_db)"
    "map (\<lambda>m. vw_ID (newPublicView (app_media fx_gallery_env) (\<lambda>_. '''') m))
      (gallery_rows fx_gallery_db 7 FilterAll False) = [4, 2, 1]"
    by code_simp+
  with gallery_pages_complete [of 2 FilterAll fx_gallery_db fx_gallery_env 5 "\<lambda>_. ''''" 7 False "[]"]
  show ?thesis by (simp add: known_filters_def comp_def)
qed

end
