(* ===== verification/ConfirmProps.thy ===== *)
theory ConfirmProps
  imports MediaProps
begin

text \<open>
  Correctness of confirmation, batches, moderation and removal: a confirmed upload is
  ready and stays so, a batch reports each item truthfully, deletion by the host is all or
  nothing, and the two places where the code does less than that.
\<close>

section \<open>Confirmation\<close>

definition ready_for :: "upload_scope \<Rightarrow> uuid \<Rightarrow> media list \<Rightarrow> bool" where
  "ready_for sc i t \<longleftrightarrow> (\<exists>m \<in> set t. md_ID m = i \<and> md_EventID m = us_EventID sc \<and>
     md_GuestSessionID m = us_GuestSessionID sc \<and> md_Status m = MediaReady)"

definition same_scope :: "upload_scope \<Rightarrow> upload_scope \<Rightarrow> bool" where
  "same_scope a b \<longleftrightarrow> us_EventID a = us_EventID b \<and> us_GuestSessionID a = us_GuestSessionID b"

lemma first_by_unique:
  assumes "m \<in> set t" "p m" "\<forall>x \<in> set t. p x \<longrightarrow> x = m"
  shows "first_by k p t = Some m"
proof (cases "first_by k p t")
  case None
  then have "\<not> p m" using assms(1) by (simp add: first_by_None)
  with assms(2) show ?thesis by simp
next
  case (Some r)
  have "r = m" using first_by_Some [OF Some] assms(3) by blast
  with Some show ?thesis by simp
qed

lemma find_ready:
  assumes "media_inv s" "ready_for sc i (t_media s)"
  obtains m where "db_FindUploadForSession i (us_EventID sc) (us_GuestSessionID sc) s = Inr m"
    "md_Status m = MediaReady"
proof -
  from assms(2) obtain m where m: "m \<in> set (t_media s)" "md_ID m = i" "md_EventID m = us_EventID sc"
    "md_GuestSessionID m = us_GuestSessionID sc" "md_Status m = MediaReady"
    by (auto simp: ready_for_def)
  have k: "keyed md_ID (t_media s)" using assms(1) by (simp add: media_inv_def)
  have u: "x = m" if "x \<in> set (t_media s)" "md_ID x = i" for x
    by (rule keyed_unique [OF k that(1) m(1)]) (simp add: that(2) m(2))
  have "first_by md_ID (\<lambda>m. md_ID m = i \<and> md_EventID m = us_EventID sc \<and>
      md_GuestSessionID m = us_GuestSessionID sc \<and> (in_flight (md_Status m) \<or> md_Status m = MediaReady))
      (t_media s) = Some m"
    by (rule first_by_unique [OF m(1)]) (use m u in blast)+
  then have "db_FindUploadForSession i (us_EventID sc) (us_GuestSessionID sc) s = Inr m"
    by (simp add: db_FindUploadForSession_def found_media_def)
  with m(5) that show thesis by blast
qed

lemma Complete_ready_again:
  assumes "media_inv (fst so)" "ready_for sc i (t_media (fst so))" "us_Accepting sc"
  shows "Complete (app_media E) sc i so = ((None, []), so)"
proof -
  obtain m where "db_FindUploadForSession i (us_EventID sc) (us_GuestSessionID sc) (fst so) = Inr m"
    "md_Status m = MediaReady" by (rule find_ready [OF assms(1,2)])
  with assms(3) show ?thesis by (simp add: Complete_def media_fields repo_fields)
qed

lemma ready_for_found:
  assumes "media_inv s" "db_FindUploadForSession i (us_EventID sc) (us_GuestSessionID sc) s = Inr m"
    "md_Status m = MediaReady"
  shows "ready_for sc i (t_media s)"
  using found_by_id(1-4) [OF assms(1,2)] assms(3) unfolding ready_for_def by blast

lemma enqueue_owed:
  assumes "enqueue_thumbnail i now m s = Inr s'" "is_photo m \<or> is_video m"
  shows "\<exists>j \<in> set (t_media_jobs s'). mj_MediaID j = md_ID m \<and> mj_Kind j = KindThumbnail"
  using assms by (auto simp: enqueue_thumbnail_def new_job_def split: if_splits)

text \<open>The repository call turns the row it was found for into a ready one.\<close>

lemma mark_call_ready:
  assumes inv: "media_inv s"
    and c: "confirmable E sc i (s, x) m" and mk: "mark_call E sc i m s = (Inr u, s1)"
  shows "ready_for sc i (t_media s1)"
    "\<exists>m' \<in> set (t_media s1). md_ID m' = i \<and> md_ActualSize m' = Some (md_ExpectedSize m')"
    "is_photo m \<or> is_video m \<Longrightarrow> \<exists>j \<in> set (t_media_jobs s1). mj_MediaID j = i \<and> mj_Kind j = KindThumbnail"
proof -
  have find: "db_FindUploadForSession i (us_EventID sc) (us_GuestSessionID sc) s = Inr m"
    using c by (simp add: confirmable_def)
  note f = found_by_id [OF inv find]
  let ?n = "md_ExpectedSize m" let ?at = "me_now E"
  obtain r where r: "r \<in> set (t_media s)" "uploading_row (us_EventID sc) (md_ID m) r"
    and t: "t_media s1 = update_where (uploading_row (us_EventID sc) (md_ID m)) (ready_row ?n ?at) (t_media s)"
    and en: "enqueue_thumbnail (me_fresh_job E i) ?at (ready_row ?n ?at r)
       (s\<lparr>t_media := t_media s1, t_events := t_events s1\<rparr>) = Inr s1"
    using MarkReady_ok [OF mk [unfolded mark_call_def]] by metis
  have "md_ID r = i" using r(2) f(2) by (simp add: uploading_row_def)
  then have rm: "r = m" using f(5) r(1) by blast
  have row: "ready_row ?n ?at m \<in> set (t_media s1)"
    using r by (force simp: t set_update_where rm)
  then show "ready_for sc i (t_media s1)"
    unfolding ready_for_def by (intro bexI [OF _ row]) (simp add: f(2-4) ready_row_def)
  show "\<exists>m' \<in> set (t_media s1). md_ID m' = i \<and> md_ActualSize m' = Some (md_ExpectedSize m')"
    by (intro bexI [OF _ row]) (simp add: f(2))
  show "is_photo m \<or> is_video m \<Longrightarrow> \<exists>j \<in> set (t_media_jobs s1). mj_MediaID j = i \<and> mj_Kind j = KindThumbnail"
    using enqueue_owed [OF en] f(2) by (simp add: rm)
qed

lemma mark_call_error: "mark_call E sc i m s = (Inl e, s1) \<Longrightarrow> s1 = s"
  by (simp add: mark_call_def MarkReady_error)

lemma Complete_ok_ready:
  assumes inv: "media_inv (fst so)" and ok: "Complete (app_media E) sc i so = ((None, ch), so')"
  shows "ready_for sc i (t_media (fst so'))" "us_Accepting sc"
proof -
  have acc: "us_Accepting sc" using ok by (auto simp: Complete_def split: if_splits)
  have "ready_for sc i (t_media (fst so'))"
  proof (cases "\<exists>m. confirmable E sc i so m")
    case False
    then have so: "so' = so" using Complete_not_confirmable [OF ok] by simp
    from ok False obtain m where "db_FindUploadForSession i (us_EventID sc) (us_GuestSessionID sc) (fst so) = Inr m"
      "md_Status m = MediaReady"
      by (auto simp: Complete_def confirmable_def media_fields repo_fields object_info.equality
          split: if_splits sum.splits)
    with inv show ?thesis by (simp add: so ready_for_found)
  next
    case True
    then obtain m where m: "confirmable E sc i so m" by blast
    obtain s x where so: "so = (s, x)" by force
    obtain q s1 where q: "mark_call E sc i m s = (q, s1)" by force
    have invs: "media_inv s" using inv so by simp
    note eq = Complete_confirmable [OF m [unfolded so] q]
    show ?thesis
    proof (cases q)
      case (Inr u)
      with ok eq mark_call_ready(1) [OF invs m [unfolded so]] q show ?thesis by (auto simp: so)
    next
      case (Inl e)
      then have "s1 = s" using q mark_call_error by simp
      with ok eq Inl ready_for_found [OF invs] show ?thesis
        by (auto simp: so split: if_splits sum.splits)
    qed
  qed
  with acc show "ready_for sc i (t_media (fst so'))" "us_Accepting sc" by auto
qed

definition fx_object :: "db \<times> store \<Rightarrow> db \<times> store" where
  "fx_object so = (fst so, map (\<lambda>m. (md_ObjectKey m, \<lparr>oi_Size = md_ExpectedSize m, oi_ContentType = md_MIMEType m\<rparr>))
     (t_media (fst so)) @ snd so)"

definition fx_confirmed :: "db \<times> store" where
  "fx_confirmed = snd (Complete (app_media (fx_store_env 12)) fx_scope 11 (fx_object fx_reserved))"

lemma fx_confirmed_value [code]:
  "fx_confirmed = (fx_media_db\<lparr>t_media := [fx_row MediaReady (Some 400) (Some 20)],
     t_events := [fx_event\<lparr>ev_UsedMediaBytes := 400, uploaded_media_items := 1, uploaded_photo_items := 1\<rparr>],
     t_media_jobs := [new_job 41 20 11]\<rparr>,
     [(md_ObjectKey (fx_row MediaReady None None), \<lparr>oi_Size = 400, oi_ContentType = ''image/jpeg''\<rparr>)])"
  by code_simp

lemma fx_confirmed_result:
  "fst (fst (Complete (app_media (fx_store_env 12)) fx_scope 11 (fx_object fx_reserved))) = None"
  by code_simp


section \<open>Batches\<close>

text \<open>A ready record stays ready through any confirmation.\<close>

lemma Complete_keeps_ready:
  assumes inv: "media_inv (fst so)" and c: "Complete (app_media E) sc i so = (r, so')"
    and rd: "ready_for sc' j (t_media (fst so))"
  shows "ready_for sc' j (t_media (fst so'))"
proof (cases "\<exists>m. confirmable E sc i so m")
  case False
  then show ?thesis using Complete_not_confirmable [OF c] rd by simp
next
  case True
  then obtain m where m: "confirmable E sc i so m" by blast
  obtain s x where so: "so = (s, x)" by force
  obtain q s1 where q: "mark_call E sc i m s = (q, s1)" by force
  have invs: "media_inv s" using inv so by simp
  have find: "db_FindUploadForSession i (us_EventID sc) (us_GuestSessionID sc) s = Inr m"
    and nr: "md_Status m \<noteq> MediaReady" using m by (simp_all add: so confirmable_def)
  note f = found_by_id [OF invs find]
  from rd obtain y where y: "y \<in> set (t_media s)" "md_ID y = j" "md_EventID y = us_EventID sc'"
    "md_GuestSessionID y = us_GuestSessionID sc'" "md_Status y = MediaReady" by (auto simp: ready_for_def so)
  have ji: "j \<noteq> md_ID m"
    using f(2,5) y(1,2,5) nr by blast
  note eq = Complete_confirmable [OF m [unfolded so] q]
  show ?thesis
  proof (cases q)
    case (Inr u)
    obtain g where t: "t_media s1 = update_where (uploading_row (us_EventID sc) (md_ID m)) (ready_row (md_ExpectedSize m) g) (t_media s)"
      using MarkReady_ok [OF q [unfolded Inr mark_call_def]] by metis
    have "\<not> uploading_row (us_EventID sc) (md_ID m) y" using y(5) by (simp add: uploading_row_def)
    then have "y \<in> set (t_media s1)" using y(1) unfolding t set_update_where by (auto intro: rev_image_eqI)
    moreover have "fst so' = s1" using c eq Inr by (auto simp: so)
    ultimately show ?thesis unfolding ready_for_def using y by blast
  next
    case (Inl e)
    then have s1: "s1 = s" using q mark_call_error by simp
    have "y \<in> set (t_media s)" "y \<in> set (t_media (snd (db_DeleteMedia (md_ID m) s)))"
      using y(1,2) ji DeleteManyUploads_cases [OF prod.collapse [symmetric], of "[md_ID m]" s]
      by (auto simp: db_DeleteMedia_def)
    moreover have "fst so' = s \<or> fst so' = snd (db_DeleteMedia (md_ID m) s)"
      using c eq Inl s1 by (auto simp: so split: if_splits sum.splits)
    ultimately show ?thesis unfolding ready_for_def using y by metis
  qed
qed

lemma complete_each_keeps_ready:
  "media_inv (fst so) \<Longrightarrow> complete_each (app_media E) sc ids so = (r, so') \<Longrightarrow>
     ready_for sc' j (t_media (fst so)) \<Longrightarrow> ready_for sc' j (t_media (fst so'))"
proof (induction ids arbitrary: so r)
  case (Cons i js)
  obtain q so1 where c: "Complete (app_media E) sc i so = (q, so1)" by (rule prod.exhaust)
  obtain q2 where d: "complete_each (app_media E) sc js so1 = (q2, so')"
    using Cons.prems(2) by (auto simp: c split: prod.splits)
  have "media_inv (fst so1)" using steps_inv [OF Complete_steps [OF Cons.prems(1) c]] Cons.prems(1) by blast
  from Cons.IH [OF this d] Complete_keeps_ready [OF Cons.prems(1) c Cons.prems(3)] show ?case by blast
qed simp

lemma complete_each_results:
  "media_inv (fst so) \<Longrightarrow> complete_each (app_media E) sc ids so = ((rs, chs), so') \<Longrightarrow>
     map fst rs = ids \<and> (\<forall>i. (i, None) \<in> set rs \<longrightarrow> ready_for sc i (t_media (fst so')))"
proof (induction ids arbitrary: so rs chs)
  case (Cons i js)
  obtain e ch so1 where c: "Complete (app_media E) sc i so = ((e, ch), so1)" by (metis prod.exhaust)
  obtain rs2 chs2 where d: "complete_each (app_media E) sc js so1 = ((rs2, chs2), so')"
    and rs: "rs = (i, e) # rs2" using Cons.prems(2) by (auto simp: c split: prod.splits)
  have inv1: "media_inv (fst so1)" using steps_inv [OF Complete_steps [OF Cons.prems(1) c]] Cons.prems(1) by blast
  have "ready_for sc i (t_media (fst so'))" if "e = None"
    using complete_each_keeps_ready [OF inv1 d] Complete_ok_ready(1) [OF Cons.prems(1)] c that by blast
  with Cons.IH [OF inv1 d] show ?case by (auto simp: rs)
qed simp

lemma unique_ids_props:
  "distinct (unique_ids seen ids) \<and> set (unique_ids seen ids) = set ids - set seen - {uuid_nil}"
proof (induction ids arbitrary: seen)
  case (Cons i ids)
  show ?case using Cons.IH [of seen] Cons.IH [of "i # seen"] by auto
qed simp

lemma uniqueMediaIDs_props:
  "distinct (uniqueMediaIDs ids)" "set (uniqueMediaIDs ids) = set ids - {uuid_nil}"
  using unique_ids_props [of "[]" ids] by (simp_all add: uniqueMediaIDs_def)

text \<open>A batch confirmation answers for every requested record. Whatever order its confirmations
take effect in, the response has one result per distinct id, in the order asked, and a result says
ready only when that record is ready for the guest's event and session in the end.\<close>

theorem batch_answers_for_every_item:
  assumes "media_inv (fst so)" "set (order (uniqueMediaIDs ids)) = set (uniqueMediaIDs ids)"
    and "CompleteMany (app_media E) order sc ids so = (Inr (results, chs), so')"
  shows "map cr_MediaID results = uniqueMediaIDs ids \<and>
    set (map cr_MediaID results) = set ids - {uuid_nil} \<and>
    (\<forall>r \<in> set results. cr_Status r = ''ready'' \<longrightarrow> ready_for sc (cr_MediaID r) (t_media (fst so')))"
proof -
  let ?ids = "uniqueMediaIDs ids"
  obtain rs where run: "complete_each (app_media E) sc (order ?ids) so = ((rs, chs), so')"
    and res: "results = map (complete_result_of rs) ?ids"
    using assms(3) by (auto simp: CompleteMany_def Let_def split: if_splits prod.splits)
  note cr = complete_each_results [OF assms(1) run]
  have m: "map cr_MediaID results = ?ids"
    unfolding res by (simp add: o_def complete_result_of_def map_idI split: option.splits)
  have "ready_for sc i (t_media (fst so'))" if "i \<in> set ?ids" "cr_Status (complete_result_of rs i) = ''ready''" for i
  proof -
    have "i \<in> fst ` set rs"
      using that(1) cr assms(2) by (metis image_set)
    then obtain v where v: "map_of rs i = Some v" by (metis map_of_eq_None_iff option.exhaust)
    with that(2) have "v = None" by (cases v) (auto simp: complete_result_of_def)
    with v have "(i, None) \<in> set rs" by (simp add: map_of_SomeD)
    with cr show ?thesis by blast
  qed
  with m show ?thesis
    by (auto simp: uniqueMediaIDs_props(2) res complete_result_of_def split: option.splits)
qed
definition fx_batch :: "(error + complete_result list \<times> media_change list) \<times> (db \<times> store)" where
  "fx_batch = CompleteMany (app_media (fx_store_env 12)) rev fx_scope [11, 0, 11, 19] (fx_object fx_reserved)"

lemma fx_batch_statuses:
  "(case fst fx_batch of Inr (rs, _) \<Rightarrow> map (\<lambda>r. (cr_MediaID r, cr_Status r)) rs | Inl _ \<Rightarrow> []) =
     [(11, ''ready''), (19, ''failed'')]"
  by code_simp

theorem batch_answers_for_every_item_witness:
  "\<exists>results chs so'. CompleteMany (app_media (fx_store_env 12)) rev fx_scope [11, 0, 11, 19] (fx_object fx_reserved) =
     (Inr (results, chs), so') \<and> map (\<lambda>r. (cr_MediaID r, cr_Status r)) results = [(11, ''ready''), (19, ''failed'')] \<and>
     ready_for fx_scope 11 (t_media (fst so'))"
proof -
  obtain results chs where r: "fst fx_batch = Inr (results, chs)"
    and st: "map (\<lambda>r. (cr_MediaID r, cr_Status r)) results = [(11, ''ready''), (19, ''failed'')]"
    using fx_batch_statuses by (auto split: sum.splits prod.splits)
  have c: "CompleteMany (app_media (fx_store_env 12)) rev fx_scope [11, 0, 11, 19] (fx_object fx_reserved) =
     (Inr (results, chs), snd fx_batch)" using r by (simp add: fx_batch_def prod_eq_iff)
  have inv: "media_inv (fst (fx_object fx_reserved))" using fx_reserved_inv by (simp add: fx_object_def)
  obtain r1 where "r1 \<in> set results" "cr_MediaID r1 = 11" "cr_Status r1 = ''ready''"
    using st by (cases results) auto
  with batch_answers_for_every_item [OF inv _ c] have "ready_for fx_scope 11 (t_media (fst (snd fx_batch)))" by auto
  with c st show ?thesis by (intro exI conjI)
qed

section \<open>Deletion by the host\<close>

text \<open>Deleting media in bulk is all or nothing. Either the call fails, changes nothing and
announces nothing; or every distinct id named a completed record of the event, each of those is now
deleted, every other record is as it was, and the event's used bytes drop by their actual sizes.\<close>

theorem bulk_delete_all_or_nothing:
  assumes "media_inv (fst so)" "DeleteManyForEvent (app_media E) i ids so = ((r, chs), so')"
  shows "(r \<noteq> None \<and> so' = so \<and> chs = []) \<or>
    (r = None \<and>
     (\<forall>j \<in> set ids - {uuid_nil}. \<exists>m \<in> set (t_media (fst so)). md_ID m = j \<and> md_EventID m = i \<and> completed (md_Status m)) \<and>
     t_media (fst so') = map (\<lambda>m. if md_EventID m = i \<and> md_ID m \<in> set ids - {uuid_nil} \<and> completed (md_Status m)
       then set_status MediaDeleted (me_now E) m else m) (t_media (fst so)) \<and>
     map ev_UsedMediaBytes (t_events (fst so')) = map (\<lambda>e. if ev_ID e = i
       then max (ev_UsedMediaBytes e - sum_where (moderated_row i (uniqueMediaIDs ids)) actual_size (t_media (fst so))) 0
       else ev_UsedMediaBytes e) (t_events (fst so)))"
proof -
  let ?ids = "uniqueMediaIDs ids"
  obtain s x where so: "so = (s, x)" by force
  obtain q s1 where d: "db_DeleteForEvent (me_now E) i ?ids s = (q, s1)" by force
  show ?thesis
  proof (cases "(?ids = [] \<or> 100 < length ?ids) \<or> isl q")
    case True
    then show ?thesis
      using assms(2) d DeleteForEvent_error [of "me_now E" i ?ids s _ s1]
      by (cases q) (auto simp: DeleteManyForEvent_def Let_def media_fields repo_fields so on_db_Pair split: if_splits)
  next
    case False
    then obtain u where q: "q = Inr u" by (cases q) auto
    with assms(2) d False have res: "r = None" "so' = (s1, x)"
      by (auto simp: DeleteManyForEvent_def Let_def media_fields repo_fields so on_db_Pair split: if_splits)
    note ok = DeleteForEvent_ok [OF d [unfolded q]]
    have inv: "keyed md_ID (t_media s)" using assms(1) by (simp add: so media_inv_def)
    have "\<exists>m \<in> set (t_media s). md_ID m = j \<and> md_EventID m = i \<and> completed (md_Status m)" if j: "j \<in> set ?ids" for j
    proof -
      let ?hit = "filter (moderated_row i ?ids) (t_media s)"
      have "distinct (map md_ID ?hit)" using inv by (simp add: keyed_def distinct_map_filter)
      then have "card (md_ID ` set ?hit) = length ?hit" by (metis distinct_card length_map set_map)
      also have "\<dots> = card (set ?ids)"
        using ok by (simp add: count_where_def distinct_card uniqueMediaIDs_props(1))
      finally have "md_ID ` set ?hit = set ?ids"
        by (intro card_seteq) (auto simp: moderated_row_def)
      with j have "j \<in> md_ID ` set ?hit" by blast
      then show ?thesis by (auto simp: moderated_row_def)
    qed
    moreover have "t_media s1 = map (\<lambda>m. if md_EventID m = i \<and> md_ID m \<in> set ids - {uuid_nil} \<and> completed (md_Status m)
       then set_status MediaDeleted (me_now E) m else m) (t_media s)"
      using ok by (simp add: update_where_def moderated_row_def uniqueMediaIDs_props(2) conj_ac)
    moreover have "map ev_UsedMediaBytes (t_events s1) = map (\<lambda>e. if ev_ID e = i
       then max (ev_UsedMediaBytes e - sum_where (moderated_row i ?ids) actual_size (t_media s)) 0
       else ev_UsedMediaBytes e) (t_events s)"
      using ok by (simp add: update_where_def)
    ultimately show ?thesis by (simp add: res so uniqueMediaIDs_props(2))
  qed
qed

lemma fx_confirmed_inv: "media_inv (fst fx_confirmed)"
  using steps_inv [OF Complete_steps [OF _ prod.collapse [symmetric]], of "fx_object fx_reserved"
      "fx_store_env 12" fx_scope 11] fx_reserved_inv
  by (simp add: fx_confirmed_def fx_object_def)

lemma fx_delete_none: "fst (fst (DeleteManyForEvent (app_media (fx_store_env 12)) 7 [11, 11] fx_confirmed)) = None"
  by code_simp

theorem bulk_delete_all_or_nothing_witness:
  "\<exists>so'. snd (DeleteManyForEvent (app_media (fx_store_env 12)) 7 [11, 11] fx_confirmed) = so' \<and>
    (\<exists>m \<in> set (t_media (fst fx_confirmed)). md_ID m = 11 \<and> md_EventID m = 7 \<and> completed (md_Status m)) \<and>
    t_media (fst so') = map (\<lambda>m. if md_EventID m = 7 \<and> md_ID m \<in> set [11, 11] - {uuid_nil} \<and> completed (md_Status m)
       then set_status MediaDeleted 20 m else m) (t_media (fst fx_confirmed))"
proof -
  let ?r = "DeleteManyForEvent (app_media (fx_store_env 12)) 7 [11, 11] fx_confirmed"
  have "?r = ((None, snd (fst ?r)), snd ?r)" using fx_delete_none by (simp add: prod_eq_iff)
  from bulk_delete_all_or_nothing [OF fx_confirmed_inv this]
  show ?thesis by (auto simp: fx_store_env_def)
qed
section \<open>Where less is kept\<close>

lemma write_media_error: "write_media t s = Inl e \<Longrightarrow> \<exists>d. e = DB d"
  by (auto simp: write_media_def split: if_splits)

text \<open>bulk moderation is not all or nothing. When it answers not found, because one of the
records is gone or not ready, every record of the list that could be moderated has the new status
all the same, and nobody is told.\<close>

theorem bulk_moderation_partial:
  assumes "UpdateStatuses (app_media E) i ids st so = ((Some (Media ErrMediaNotFound), chs), so')"
  shows "chs = [] \<and> t_media (fst so') =
    map (\<lambda>m. if md_EventID m = i \<and> md_ID m \<in> set ids - {uuid_nil} \<and> completed (md_Status m)
       then set_status st (me_now E) m else m) (t_media (fst so))"
proof -
  obtain s x where so: "so = (s, x)" by force
  obtain q s1 where d: "db_UpdateMediaStatuses (me_now E) i (uniqueMediaIDs ids) st s = (q, s1)" by force
  from assms d have q: "q = Some (Media ErrMediaNotFound)" "so' = (s1, x)" "chs = []"
    by (auto simp: UpdateStatuses_def Let_def media_fields repo_fields so on_db_Pair split: if_splits option.splits)
  have "t_media s1 = update_where (moderated_row i (uniqueMediaIDs ids)) (set_status st (me_now E)) (t_media s)"
  proof (cases "write_media (update_where (moderated_row i (uniqueMediaIDs ids)) (set_status st (me_now E)) (t_media s)) s")
    case (Inl e)
    with d q(1) write_media_error [OF Inl] show ?thesis by (auto simp: db_UpdateMediaStatuses_def)
  next
    case (Inr s2)
    with d have "s1 = s2" by (auto simp: db_UpdateMediaStatuses_def split: if_splits)
    with write_media_ok [OF Inr] show ?thesis by simp
  qed
  then show ?thesis
    by (simp add: q so update_where_def moderated_row_def uniqueMediaIDs_props(2) conj_ac)
qed

lemma fx_partial:
  "fst (UpdateStatuses (app_media (fx_store_env 12)) 7 [11, 19] MediaFeatured fx_confirmed) =
     (Some (Media ErrMediaNotFound), [])"
  by code_simp

lemma fx_confirmed_rows: "map (\<lambda>m. (md_EventID m, md_ID m, md_Status m)) (t_media (fst fx_confirmed)) = [(7, 11, MediaReady)]"
  by code_simp

theorem bulk_moderation_partial_witness:
  "fst (fst (UpdateStatuses (app_media (fx_store_env 12)) 7 [11, 19] MediaFeatured fx_confirmed)) =
     Some (Media ErrMediaNotFound) \<and>
   map md_Status (t_media (fst (snd (UpdateStatuses (app_media (fx_store_env 12)) 7 [11, 19] MediaFeatured
     fx_confirmed)))) = [MediaFeatured]"
proof -
  let ?r = "UpdateStatuses (app_media (fx_store_env 12)) 7 [11, 19] MediaFeatured fx_confirmed"
  have "?r = ((Some (Media ErrMediaNotFound), []), snd ?r)" using fx_partial by (simp add: prod_eq_iff)
  note p = bulk_moderation_partial [OF this]
  obtain m where m: "t_media (fst fx_confirmed) = [m]" "md_EventID m = 7" "md_ID m = 11" "md_Status m = MediaReady"
    using fx_confirmed_rows by auto
  have "map md_Status (t_media (fst (snd ?r))) = [MediaFeatured]"
    unfolding p [THEN conjunct2] by (simp add: m set_status_def)
  then show ?thesis using fx_partial by simp
qed

text \<open>the expiry job can remove a finished upload. When a stale upload it has listed is confirmed
before it deletes the rows, the finished record is gone all the same, and its bytes stay charged to
the event.\<close>

theorem expiry_race_loses_upload:
  assumes "media_inv s" "db_FindStale before n s = Inr items" "j \<in> md_ID ` set items"
    and "db_MarkReady f now i j sz at s = (Inr u, s1)"
    and "db_DeleteManyUploads (map md_ID items) s1 = (None, s2)"
  shows "(\<exists>m \<in> set (t_media s1). md_ID m = j \<and> md_Status m = MediaReady) \<and>
    (\<forall>m \<in> set (t_media s2). md_ID m \<noteq> j) \<and>
    map ev_UsedMediaBytes (t_events s2) =
      map (\<lambda>e. if ev_ID e = i then ev_UsedMediaBytes e + sz else ev_UsedMediaBytes e) (t_events s)"
proof -
  obtain m where m: "m \<in> set (t_media s)" "uploading_row i j m"
    and t: "t_media s1 = update_where (uploading_row i j) (ready_row sz at) (t_media s)"
    and ev: "t_events s1 = update_where (\<lambda>e. ev_ID e = i) (settle_counters sz (ready_row sz at m)) (t_events s)"
    using MarkReady_ok [OF assms(4)] by metis
  have "ready_row sz at m \<in> set (t_media s1)" using m by (force simp: t set_update_where)
  moreover have st: "md_Status (ready_row sz at m) = MediaReady" by simp
  moreover have "md_ID (ready_row sz at m) = j" using m(2) by (simp add: uploading_row_def)
  moreover have "t_media s2 = delete_where (\<lambda>m. md_ID m \<in> set (map md_ID items)) (t_media s1) \<and>
    map ev_UsedMediaBytes (t_events s2) = map ev_UsedMediaBytes (t_events s1)"
  proof -
    have "s2 = s1 \<Longrightarrow> False" if "map md_ID items \<noteq> []"
      using assms(5) that write_quota_ok \<open>ready_row sz at m \<in> set (t_media s1)\<close> assms(3)
        \<open>md_ID (ready_row sz at m) = j\<close>
      by (auto simp: db_DeleteManyUploads_def split: if_splits sum.splits
          dest!: arg_cong [where f = "\<lambda>s. ready_row sz at m \<in> set (t_media s)"])
    moreover have "map md_ID items \<noteq> []" using assms(3) by auto
    ultimately show ?thesis
      using DeleteManyUploads_cases [OF assms(5)] by (auto simp: map_update_where_same)
  qed
  moreover have "map ev_UsedMediaBytes (t_events s1) =
      map (\<lambda>e. if ev_ID e = i then ev_UsedMediaBytes e + sz else ev_UsedMediaBytes e) (t_events s)"
    by (simp add: ev update_where_def)
  moreover have "\<forall>m \<in> set (delete_where (\<lambda>m. md_ID m \<in> set (map md_ID items)) (t_media s1)). md_ID m \<noteq> j"
    using assms(3) by auto
  ultimately show ?thesis by metis
qed

definition fx_late :: "db" where
  "fx_late = fst fx_reserved"

lemma fx_race:
  "map md_ID (projr (db_FindStale 30 100 fx_late)) = [11] \<and> \<not> isl (db_FindStale 30 100 fx_late)"
  "\<not> isl (fst (db_MarkReady 41 31 7 11 400 31 fx_late))"
  "fst (db_DeleteManyUploads [11] (snd (db_MarkReady 41 31 7 11 400 31 fx_late))) = None"
  by code_simp+

theorem expiry_race_loses_upload_witness:
  "\<exists>s1 s2. db_MarkReady 41 31 7 11 400 31 fx_late = (Inr (), s1) \<and> db_DeleteManyUploads [11] s1 = (None, s2) \<and>
     (\<exists>m \<in> set (t_media s1). md_ID m = 11 \<and> md_Status m = MediaReady) \<and>
     (\<forall>m \<in> set (t_media s2). md_ID m \<noteq> 11)"
proof -
  let ?s1 = "snd (db_MarkReady 41 31 7 11 400 31 fx_late)"
  obtain items where i: "db_FindStale 30 100 fx_late = Inr items" "map md_ID items = [11]"
    using fx_race(1) by (cases "db_FindStale 30 100 fx_late") auto
  have m: "db_MarkReady 41 31 7 11 400 31 fx_late = (Inr (), ?s1)"
  proof -
    have "fst (db_MarkReady 41 31 7 11 400 31 fx_late) = Inr ()"
      using fx_race(2) by (cases "fst (db_MarkReady 41 31 7 11 400 31 fx_late)") auto
    then show ?thesis by (simp add: prod_eq_iff)
  qed
  have d: "db_DeleteManyUploads (map md_ID items) ?s1 = (None, snd (db_DeleteManyUploads [11] ?s1))"
    using fx_race(3) i(2) by (simp add: prod_eq_iff)
  have "11 \<in> md_ID ` set items" using i(2) by (metis list.set_intros(1) set_map)
  from expiry_race_loses_upload [OF _ i(1) this m d] fx_reserved_inv m d i(2)
  show ?thesis by (simp add: fx_late_def) blast
qed

end
