(* ===== verification/ThumbProps.thy ===== *)
theory ThumbProps
  imports ConfirmProps
begin

text \<open>
  Correctness of thumbnails (size, and that a finished one is not made twice) and two
  blind spots of the duplicate check: letters of the checksum in upper case, and originals
  that have been featured or hidden.
\<close>

section \<open>Thumbnails\<close>

lemma sdiv_pos: "0 \<le> a \<Longrightarrow> 0 < b \<Longrightarrow> a sdiv b = a div (b::int)"
  by (cases "a = 0") (simp_all add: signed_divide_int_def)

lemma scaled_bounds:
  assumes "0 < (w::int)" "0 < h" "h \<le> w" "720 < w"
  shows "0 \<le> (h * 720) div w" "(h * 720) div w \<le> 720" "(h * 720) div w \<le> h"
    "(h * 720) div w * w \<le> h * 720" "h * 720 < (h * 720) div w * w + w"
    "(h * 720) div w = 0 \<longleftrightarrow> h * 720 < w"
proof -
  have d: "(h * 720) div w * w + (h * 720) mod w = h * 720" by (rule div_mult_mod_eq)
  have m: "0 \<le> (h * 720) mod w" "(h * 720) mod w < w" using assms(1) by simp_all
  show nn: "0 \<le> (h * 720) div w" using assms by (simp add: pos_imp_zdiv_nonneg_iff)
  show l: "(h * 720) div w * w \<le> h * 720" "h * 720 < (h * 720) div w * w + w" using d m by linarith+
  have "h * 720 \<le> 720 * w" "h * 720 \<le> h * w" using assms by simp_all
  then have "(h * 720) div w * w \<le> 720 * w" "(h * 720) div w * w \<le> h * w" using l(1) by linarith+
  then show "(h * 720) div w \<le> 720" "(h * 720) div w \<le> h"
    using assms(1) by (simp_all add: mult_le_cancel_right)
  show "(h * 720) div w = 0 \<longleftrightarrow> h * 720 < w"
  proof
    assume "(h * 720) div w = 0"
    then show "h * 720 < w" using l(2) by simp
  next
    assume "h * 720 < w"
    then show "(h * 720) div w = 0" using assms(2) by (simp add: div_pos_pos_trivial)
  qed
qed

text \<open>A thumbnail fits in 720 by 720, is never larger than the picture, and keeps its proportions
to within one pixel of rounding; but a picture more than 720 times as long as it is wide comes
out with a side of no pixels at all, where the code still encodes and stores it.\<close>

theorem thumbnail_fits:
  assumes "1 \<le> w" "1 \<le> h" "thumbnail_size w h = (tw, th)"
  shows "0 \<le> tw \<and> 0 \<le> th \<and> tw \<le> 720 \<and> th \<le> 720 \<and> tw \<le> w \<and> th \<le> h \<and>
    \<bar>tw * h - th * w\<bar> < max w h \<and> (w \<le> 720 \<and> h \<le> 720 \<longrightarrow> tw = w \<and> th = h) \<and>
    ((tw = 0 \<or> th = 0) = (720 < max w h \<and> min w h * 720 < max w h))"
proof -
  consider (wide) "h < w" "720 < w" | (tall) "\<not> (h < w \<and> 720 < w)" "720 < h" "w \<le> h"
    | (small) "w \<le> 720" "h \<le> 720" by linarith
  then show ?thesis
  proof cases
    case wide
    then have "tw = 720" "th = (h * 720) div w" using assms by (auto simp: thumbnail_size_def sdiv_pos)
    with scaled_bounds [of w h] wide assms(1,2) show ?thesis by (simp add: algebra_simps)
  next
    case tall
    then have "tw = (w * 720) div h" "th = 720" using assms by (auto simp: thumbnail_size_def sdiv_pos)
    with scaled_bounds [of h w] tall assms(1,2) show ?thesis by (simp add: algebra_simps)
  next
    case small
    then have "tw = w" "th = h" using assms by (auto simp: thumbnail_size_def)
    with small assms(1,2) show ?thesis by (simp add: mult.commute)
  qed
qed

theorem thumbnail_fits_witness:
  "thumbnail_size 800 600 = (720, 540) \<and> thumbnail_size 1000 1 = (720, 0) \<and> (1::int) * 720 < 1000"
proof -
  have "thumbnail_size 1000 1 = (720, 0)" "thumbnail_size 800 600 = (720, 540)" by code_simp+
  with thumbnail_fits [of 1000 1 720 0] show ?thesis by simp
qed

lemma image_not_video: "has_prefix s ''image/'' \<Longrightarrow> \<not> has_prefix s ''video/''"
  by (auto simp: has_prefix_def)

text \<open>Announcing a thumbnail means that its row was written.\<close>

lemma store_thumbnail_written:
  assumes "store_thumbnail (app_media E) m md enc (s, x) = ((None, ch), (s1, x1))"
    and "pm_Width md \<noteq> None"
  shows "t_media s1 = update_where (moderated_row (md_EventID m) [md_ID m]) (with_metadata True md) (t_media s)"
proof -
  obtain x2 where st: "updateProcessingResult (app_media E) m True md (s, x2) = (None, (s1, x1))"
    using assms(1)
    by (auto simp: store_thumbnail_def media_fields on_store_Pair split: option.splits prod.splits)
  obtain r s2 where d: "db_UpdateProcessingResult (md_EventID m) (md_ID m) True md s = (r, s2)"
    by (rule prod.exhaust)
  have s: "s2 = s1" and r: "r = None \<or> r = Some (Media ErrMediaNotFound)"
    using st d by (auto simp: updateProcessingResult_def media_fields repo_fields on_db_Pair
      split: option.splits prod.splits if_splits)
  show ?thesis
  proof (cases "write_media (update_where (moderated_row (md_EventID m) [md_ID m]) (with_metadata True md)
      (t_media s)) s")
    case (Inl e)
    with write_media_error [OF Inl] d r show ?thesis
      by (auto simp: db_UpdateProcessingResult_def)
  next
    case (Inr s3)
    with d have "s3 = s2" by (auto simp: db_UpdateProcessingResult_def split: if_splits)
    with write_media_ok [OF Inr] s show ?thesis by simp
  qed
qed

lemma found_after_metadata:
  assumes k: "keyed md_ID (t_media s)" and m: "m \<in> set (t_media s)" "completed (md_Status m)"
    and t: "t_media s1 = update_where (moderated_row (md_EventID m) [md_ID m]) (with_metadata b md) (t_media s)"
  shows "db_FindMediaByID (md_ID m) s1 = Inr (with_metadata b md m)"
proof -
  have row: "with_metadata b md m \<in> set (t_media s1)"
    using m by (force simp: t set_update_where moderated_row_def)
  have key: "keyed md_ID (t_media s1)"
    using k by (simp add: t keyed_update with_metadata_def)
  have "first_by md_ID (\<lambda>r. md_ID r = md_ID m) (t_media s1) = Some (with_metadata b md m)"
    by (rule first_by_unique [OF row])
      (use keyed_unique [OF key _ row] in \<open>auto simp: with_metadata_def\<close>)
  then show ?thesis by (simp add: db_FindMediaByID_def found_media_def)
qed

text \<open>A thumbnail is made once. When the worker has announced the thumbnail of a picture, its
record says so with the picture's size, and running the job again, as an at-least-once queue may,
reads nothing from the store, writes nothing and announces nothing.\<close>

theorem thumbnail_made_once:
  assumes "keyed md_ID (t_media s)" "m \<in> set (t_media s)" "completed (md_Status m)"
    and "has_prefix (md_MIMEType m) ''image/''"
    and run: "GenerateThumbnail (app_media E) (md_ID m) (s, x) = ((None, ch), (s1, x1))" and "ch \<noteq> []"
  shows "ch = [\<lparr>mc_Kind = ChangeThumbnail, mc_EventID = md_EventID m, mc_IDs = [md_ID m], mc_Status = None,
      mc_Item = None\<rparr>] \<and>
    (\<exists>w h. 1 \<le> w \<and> 1 \<le> h \<and> i64 (w * h) \<le> maxThumbnailPixels \<and>
       db_FindMediaByID (md_ID m) s1 = Inr (m\<lparr>md_ThumbnailReady := True, md_Width := Some w, md_Height := Some h\<rparr>)) \<and>
    GenerateThumbnail (app_media F) (md_ID m) (s1, x2) = ((None, []), (s1, x2))"
proof -
  have "first_by md_ID (\<lambda>r. md_ID r = md_ID m) (t_media s) = Some m"
    by (rule first_by_unique [OF assms(2)]) (use keyed_unique [OF assms(1) _ assms(2)] in auto)
  then have found: "db_FindMediaByID (md_ID m) s = Inr m" by (simp add: db_FindMediaByID_def found_media_def)
  note novid = image_not_video [OF assms(4)]
  have "generateImageThumbnail (app_media E) m (s, x) = ((None, ch), (s1, x1))"
    using run assms(4,6) by (simp add: GenerateThumbnail_def media_fields repo_fields found split: if_splits)
  then obtain w h enc where wh: "1 \<le> w" "1 \<le> h" "i64 (w * h) \<le> maxThumbnailPixels"
    and st: "store_thumbnail (app_media E) m \<lparr>pm_Width = Some w, pm_Height = Some h,
        pm_DurationSeconds = None, pm_TransitionCueSeconds = None\<rparr> enc (s, x) = ((None, ch), (s1, x1))"
    using assms(6)
    by (auto simp: generateImageThumbnail_def Let_def not_less split: sum.splits option.splits if_splits prod.splits)
  let ?md = "\<lparr>pm_Width = Some w, pm_Height = Some h, pm_DurationSeconds = None, pm_TransitionCueSeconds = None\<rparr>"
  have row: "db_FindMediaByID (md_ID m) s1 = Inr (with_metadata True ?md m)"
    by (rule found_after_metadata [OF assms(1-3) store_thumbnail_written [OF st]]) simp
  have "GenerateThumbnail (app_media F) (md_ID m) (s1, x2) = ((None, []), (s1, x2))"
    using novid by (simp add: GenerateThumbnail_def media_fields repo_fields row with_metadata_def
      hasPresentationMetadata_def)
  moreover have "ch = [\<lparr>mc_Kind = ChangeThumbnail, mc_EventID = md_EventID m, mc_IDs = [md_ID m],
      mc_Status = None, mc_Item = None\<rparr>]"
    using st assms(6) by (auto simp: store_thumbnail_def notify_media_def split: option.splits prod.splits if_splits)
  ultimately show ?thesis using wh row by (auto simp: with_metadata_def)
qed

lemma fx_thumbnail:
  "map md_ID (t_media (fst fx_confirmed)) = [11]" "\<forall>m \<in> set (t_media (fst fx_confirmed)).
     md_EventID m = 7 \<and> completed (md_Status m) \<and> has_prefix (md_MIMEType m) ''image/''"
  by code_simp+

lemma fx_thumbnail_run:
  "(let r = fst (GenerateThumbnail (app_media (fx_store_env 12)) 11 fx_confirmed)
    in (fst r, snd r = [])) = (None, False)"
  by code_simp

lemma fx_thumbnail_made:
  "fst (fst (GenerateThumbnail (app_media (fx_store_env 12)) 11 fx_confirmed)) = None"
  "snd (fst (GenerateThumbnail (app_media (fx_store_env 12)) 11 fx_confirmed)) \<noteq> []"
  using fx_thumbnail_run by (simp_all add: Let_def)

theorem thumbnail_made_once_witness:
  "\<exists>ch s1 x1. GenerateThumbnail (app_media (fx_store_env 12)) 11 fx_confirmed = ((None, ch), (s1, x1)) \<and>
     length ch = 1 \<and> GenerateThumbnail (app_media (fx_store_env 13)) 11 (s1, x1) = ((None, []), (s1, x1))"
proof -
  let ?g = "GenerateThumbnail (app_media (fx_store_env 12)) 11 fx_confirmed"
  obtain m where m: "t_media (fst fx_confirmed) = [m]" "md_ID m = 11" using fx_thumbnail(1) by auto
  have g: "GenerateThumbnail (app_media (fx_store_env 12)) (md_ID m) (fst fx_confirmed, snd fx_confirmed) =
      ((None, snd (fst ?g)), (fst (snd ?g), snd (snd ?g)))"
    using fx_thumbnail_made(1) by (simp add: m(2) prod_eq_iff)
  have "completed (md_Status m)" "has_prefix (md_MIMEType m) ''image/''" using fx_thumbnail(2) m(1) by auto
  from thumbnail_made_once [OF _ _ this g fx_thumbnail_made(2), of "fx_store_env 13" "snd (snd ?g)"]
  have "length (snd (fst ?g)) = 1 \<and>
    GenerateThumbnail (app_media (fx_store_env 13)) 11 (snd ?g) = ((None, []), snd ?g)"
    by (simp add: m keyed_def)
  moreover have "?g = ((None, snd (fst ?g)), snd ?g)" using fx_thumbnail_made(1) by (simp add: prod_eq_iff)
  ultimately show ?thesis by (metis prod.collapse)
qed

section \<open>Blind spots of the duplicate check\<close>

lemma lower_hex_lower: "lower_hex c \<Longrightarrow> ascii_lower c = c"
  by (auto simp: lower_hex_def ascii_lower_def Let_def)

lemma lower_hex_all: "list_all lower_hex t \<Longrightarrow> map ascii_lower t = t"
  by (induction t) (simp_all add: lower_hex_lower)

text \<open>The check for a file the gallery already has compares the checksum as the client wrote it,
while the table holds it in lower case: the same file announced with a checksum that has one letter in
upper case is never recognised, and is let through to be uploaded.\<close>

theorem uppercase_checksum_unseen:
  assumes "list_all media_row_ok (t_media s)" "r \<in> set (t_media s)" "md_EventID r = i" "md_Status r = MediaReady"
    and "md_ChecksumSHA256 r = map ascii_lower c" "map ascii_lower c \<noteq> c"
  shows "db_HasReadyChecksum i c s = Inr False \<and> db_HasReadyChecksum i (map ascii_lower c) s = Inr True"
proof -
  have "md_ChecksumSHA256 m \<noteq> c" if "m \<in> set (t_media s)" for m
  proof -
    have "list_all lower_hex (md_ChecksumSHA256 m)"
      using assms(1) that by (simp add: list_all_iff media_row_ok_def)
    from lower_hex_all [OF this] show ?thesis using assms(6) by auto
  qed
  then have "count_where (\<lambda>m. md_EventID m = i \<and> md_ChecksumSHA256 m = c \<and> md_Status m = MediaReady) (t_media s) = 0"
    by (simp add: count_where_0_iff)
  moreover have "0 < count_where (\<lambda>m. md_EventID m = i \<and> md_ChecksumSHA256 m = map ascii_lower c \<and>
      md_Status m = MediaReady) (t_media s)"
    using assms(2-5) by (auto simp: count_where_pos_iff)
  ultimately show ?thesis by (simp add: db_HasReadyChecksum_def)
qed

lemma fx_upper:
  "list_all media_row_ok (t_media (fst fx_confirmed))"
  "map md_ChecksumSHA256 (t_media (fst fx_confirmed)) = [replicate 64 CHR ''a'']"
  "map ascii_lower (replicate 64 CHR ''A'') = replicate 64 CHR ''a''"
  by code_simp+

lemma fx_upper_refused:
  "fst (CreateUpload (app_media (fx_store_env 12)) fx_scope (fx_upload 62 CHR ''a'' 300) fx_confirmed) =
     Inl (Media ErrDuplicate)"
  by code_simp

lemma fx_upper_accepted:
  "isl (fst (CreateUpload (app_media (fx_store_env 12)) fx_scope (fx_upload 62 CHR ''A'' 300) fx_confirmed)) = False"
  by code_simp

theorem uppercase_checksum_unseen_witness:
  "db_HasReadyChecksum 7 (replicate 64 CHR ''A'') (fst fx_confirmed) = Inr False \<and>
   fst (CreateUpload (app_media (fx_store_env 12)) fx_scope (fx_upload 62 CHR ''a'' 300) fx_confirmed) =
     Inl (Media ErrDuplicate) \<and>
   \<not> isl (fst (CreateUpload (app_media (fx_store_env 12)) fx_scope (fx_upload 62 CHR ''A'' 300) fx_confirmed))"
proof -
  obtain m where m: "t_media (fst fx_confirmed) = [m]" "md_EventID m = 7" "md_Status m = MediaReady"
    using fx_confirmed_rows by auto
  have "replicate 64 CHR ''a'' \<noteq> replicate 64 CHR ''A''" by simp
  with uppercase_checksum_unseen [of "fst fx_confirmed" m 7 "replicate 64 CHR ''A''"] fx_upper fx_upper_refused fx_upper_accepted m
  show ?thesis by simp
qed

lemma keys_clash:
  assumes "a \<in> set t" "b \<in> set t" "md_ID a \<noteq> md_ID b" "checksum_key a = checksum_key b"
    and "md_Status a = MediaReady" "md_Status b = MediaReady"
  shows "\<not> media_keys_ok t"
proof
  assume "media_keys_ok t"
  then have "inj_on checksum_key (set (filter (\<lambda>m. md_Status m = MediaReady) t))"
    by (simp add: media_keys_ok_def distinct_map)
  then have "a = b" by (rule inj_onD) (use assms in simp_all)
  with assms(3) show False by simp
qed

text \<open>Only ready records count for the duplicate check, so that while an original is featured or
hidden the same file is accepted again; from then on the host cannot bring the original back to
ready, the attempt ends in a violated index and changes nothing.\<close>

theorem featured_original_blocked:
  assumes "list_all media_row_ok (t_media s)" "a \<in> set (t_media s)" "b \<in> set (t_media s)" "md_ID a \<noteq> md_ID b"
    and "md_EventID a = i" "md_EventID b = i" "md_ChecksumSHA256 a = md_ChecksumSHA256 b"
    and "md_Status a = MediaFeatured \<or> md_Status a = MediaHidden" "md_Status b = MediaReady"
  shows "UpdateStatus (app_media E) i (md_ID a) MediaReady (s, x) = (Inl (DB ErrDuplicatedKey), (s, x))"
proof -
  let ?f = "set_status MediaReady (me_now E)" and ?p = "moderated_row i [md_ID a]"
  let ?t = "update_where ?p ?f (t_media s)"
  have "list_all media_row_ok ?t"
    using assms(1) by (auto simp: list_all_iff set_update_where media_row_ok_def set_status_def)
  moreover have "\<not> media_keys_ok ?t"
  proof (rule keys_clash)
    have "?p a" using assms(5,8) by (auto simp: moderated_row_def)
    then show "?f a \<in> set ?t" using assms(2) by (force simp: set_update_where)
    have "\<not> ?p b" using assms(4) by (simp add: moderated_row_def)
    then show "b \<in> set ?t" using assms(3) by (force simp: set_update_where)
  qed (use assms in \<open>simp_all add: set_status_def checksum_key_def\<close>)
  ultimately have "write_media ?t s = Inl (DB ErrDuplicatedKey)" by (simp add: write_media_def)
  then show ?thesis
    by (simp add: UpdateStatus_def validModerationStatus_def media_fields repo_fields on_db_Pair
        db_UpdateMediaStatus_def)
qed

text \<open>The story from the empty gallery on: upload, confirm, feature, upload again, confirm, un-feature.\<close>

definition fx_featured :: "db \<times> store" where
  "fx_featured = snd (UpdateStatus (app_media (fx_store_env 12)) 7 11 MediaFeatured fx_confirmed)"

lemma fx_featured_value [code]:
  "fx_featured = (let (s, st) = fx_confirmed in (s\<lparr>t_media := [fx_row MediaFeatured (Some 400) (Some 20)]\<rparr>, st))"
  by code_simp

definition fx_again :: "db \<times> store" where
  "fx_again = snd (Complete (app_media (fx_store_env 12)) fx_scope 12 (fx_object
     (snd (CreateUpload (app_media (fx_store_env 12)) fx_scope (fx_upload 62 CHR ''a'' 300) fx_featured))))"

lemma fx_again_run:
  "(let t = t_media (fst fx_again) in (list_all media_row_ok t, map (\<lambda>m. (md_ID m, md_EventID m, md_Status m)) t,
      map md_ChecksumSHA256 t)) =
   (True, [(11, 7, MediaFeatured), (12, 7, MediaReady)], [replicate 64 CHR ''a'', replicate 64 CHR ''a''])"
  by code_simp

lemma fx_again_rows:
  "list_all media_row_ok (t_media (fst fx_again))"
  "map (\<lambda>m. (md_ID m, md_EventID m, md_Status m)) (t_media (fst fx_again)) = [(11, 7, MediaFeatured), (12, 7, MediaReady)]"
  "map md_ChecksumSHA256 (t_media (fst fx_again)) = [replicate 64 CHR ''a'', replicate 64 CHR ''a'']"
  using fx_again_run by (simp_all add: Let_def)

theorem featured_original_blocked_witness:
  "fst (UpdateStatus (app_media (fx_store_env 12)) 7 11 MediaReady fx_again) = Inl (DB ErrDuplicatedKey)"
proof -
  obtain a b where m: "t_media (fst fx_again) = [a, b]" "md_ID a = 11" "md_ID b = 12" "md_EventID a = 7"
    "md_EventID b = 7" "md_Status a = MediaFeatured" "md_Status b = MediaReady"
    "md_ChecksumSHA256 a = md_ChecksumSHA256 b"
    using fx_again_rows(2,3) by auto
  have "UpdateStatus (app_media (fx_store_env 12)) 7 (md_ID a) MediaReady (fst fx_again, snd fx_again) =
      (Inl (DB ErrDuplicatedKey), (fst fx_again, snd fx_again))"
    by (rule featured_original_blocked [of _ a b]) (use fx_again_rows(1) m in simp_all)
  then show ?thesis by (simp add: m)
qed

end
