(* ===== verification/MediaJob.thy ===== *)
theory MediaJob
  imports Schema
begin

text \<open>
  Deferred work on media (internal/mediajob): the queue in the table \<open>media_jobs\<close> and the
  worker that drains it.

  \<open>locked\<close> are the jobs another replica holds a row lock on when it claims, which
  SKIP LOCKED passes over. The worker runs the jobs of a batch concurrently; \<open>order\<close> is the
  order in which they take effect. A runner may fail or panic, with the text the code
  records. Log lines are left out.
\<close>

section \<open>The queue (repository.go)\<close>

definition claimable :: "uuid list \<Rightarrow> time \<Rightarrow> media_job \<Rightarrow> bool" where
  "claimable locked now j \<longleftrightarrow> mj_Status j = JobQueued \<and> mj_RunAfter j \<le> now \<and> mj_ID j \<notin> set locked"

definition claimed_job :: "media_job \<Rightarrow> media_job" where
  "claimed_job j = j\<lparr>mj_Status := JobProcessing, mj_Attempts := mj_Attempts j + 1\<rparr>"

definition due_jobs :: "uuid list \<Rightarrow> int \<Rightarrow> time \<Rightarrow> media_job list \<Rightarrow> media_job list" where
  "due_jobs locked lim now t = take (nat lim) (sort_key mj_RunAfter (filter (claimable locked now) t))"

definition claim_tx :: "uuid list \<Rightarrow> int \<Rightarrow> time \<Rightarrow> db \<Rightarrow> error + media_job list \<times> db" where
  "claim_tx locked lim now s =
     (let jobs = due_jobs locked lim now (t_media_jobs s)
      in if jobs = [] then Inl (MediaJob ErrNoQueuedJob)
         else Inr (map claimed_job jobs,
           s\<lparr>t_media_jobs := update_where (\<lambda>j. mj_ID j \<in> set (map mj_ID jobs))
               (\<lambda>j. (claimed_job j)\<lparr>mj_UpdatedAt := now\<rparr>) (t_media_jobs s)\<rparr>))"

definition db_ClaimBatch :: "uuid list \<Rightarrow> int \<Rightarrow> time \<Rightarrow> db \<Rightarrow> (error + media_job list) \<times> db" where
  "db_ClaimBatch locked lim now = transaction (claim_tx locked (if lim < 1 then 1 else lim) now)"

definition truncate_cause :: "string \<Rightarrow> string" where
  "truncate_cause cause = (if 500 < length cause then take 500 cause else cause)"

definition set_job :: "uuid \<Rightarrow> (media_job \<Rightarrow> media_job) \<Rightarrow> db \<Rightarrow> db" where
  "set_job i f s = s\<lparr>t_media_jobs := update_where (\<lambda>j. mj_ID j = i) f (t_media_jobs s)\<rparr>"

definition db_MarkDone :: "time \<Rightarrow> uuid \<Rightarrow> db \<Rightarrow> error option \<times> db" where
  "db_MarkDone now i s = (None, set_job i
     (\<lambda>j. j\<lparr>mj_Status := JobDone, mj_LastError := None, mj_UpdatedAt := now\<rparr>) s)"

text \<open>PostgreSQL refuses a text value that is not valid UTF-8.\<close>

definition db_Reschedule :: "time \<Rightarrow> uuid \<Rightarrow> time \<Rightarrow> string \<Rightarrow> db \<Rightarrow> error option \<times> db" where
  "db_Reschedule now i runAfter cause s =
     (if \<not> text_ok (truncate_cause cause) then (Some (DB ErrInvalidText), s)
      else (None, set_job i (\<lambda>j. j\<lparr>mj_Status := JobQueued, mj_RunAfter := runAfter,
        mj_LastError := Some (truncate_cause cause), mj_UpdatedAt := now\<rparr>) s))"

definition db_MarkFailed :: "time \<Rightarrow> uuid \<Rightarrow> string \<Rightarrow> db \<Rightarrow> error option \<times> db" where
  "db_MarkFailed now i cause s =
     (if \<not> text_ok (truncate_cause cause) then (Some (DB ErrInvalidText), s)
      else (None, set_job i (\<lambda>j. j\<lparr>mj_Status := JobFailed,
        mj_LastError := Some (truncate_cause cause), mj_UpdatedAt := now\<rparr>) s))"

section \<open>The worker (mediajob.go, worker.go)\<close>

record 's job_repo =
  jr_ClaimBatch :: "int \<Rightarrow> time \<Rightarrow> 's \<Rightarrow> (error + media_job list) \<times> 's"
  jr_MarkDone :: "uuid \<Rightarrow> 's \<Rightarrow> error option \<times> 's"
  jr_Reschedule :: "uuid \<Rightarrow> time \<Rightarrow> string \<Rightarrow> 's \<Rightarrow> error option \<times> 's"
  jr_MarkFailed :: "uuid \<Rightarrow> string \<Rightarrow> 's \<Rightarrow> error option \<times> 's"

record job_config =
  jc_Concurrency :: int
  jc_Idle :: time
  jc_MaxAttempts :: int
  jc_Backoff :: time

definition withDefaults :: "job_config \<Rightarrow> job_config" where
  "withDefaults c = \<lparr>
     jc_Concurrency = (if jc_Concurrency c \<le> 0 then 2 else jc_Concurrency c),
     jc_Idle = (if jc_Idle c \<le> 0 then 5 * second else jc_Idle c),
     jc_MaxAttempts = (if jc_MaxAttempts c \<le> 0 then 5 else jc_MaxAttempts c),
     jc_Backoff = (if jc_Backoff c \<le> 0 then 30 * second else jc_Backoff c)\<rparr>"

datatype run_outcome = RunOk | RunErr string | RunPanic string

record 's worker =
  wk_repo :: "'s job_repo"
  wk_run :: "uuid \<Rightarrow> 's \<Rightarrow> run_outcome \<times> 's"
  wk_cfg :: job_config
  wk_now :: time

definition NewWorker ::
  "'s job_repo \<Rightarrow> (uuid \<Rightarrow> 's \<Rightarrow> run_outcome \<times> 's) \<Rightarrow> job_config \<Rightarrow> time \<Rightarrow> 's worker" where
  "NewWorker repo run cfg now =
     \<lparr>wk_repo = repo, wk_run = run, wk_cfg = withDefaults cfg, wk_now = now\<rparr>"

text \<open>The delay doubles with each attempt, in the shift of a 64-bit duration.\<close>

definition retry_delay :: "job_config \<Rightarrow> int \<Rightarrow> time" where
  "retry_delay cfg attempts =
     (let shift = (if attempts - 1 < 0 then 0 else attempts - 1)
      in i64 (jc_Backoff cfg * 2 ^ nat shift))"

definition fail_job :: "'s worker \<Rightarrow> media_job \<Rightarrow> string \<Rightarrow> 's \<Rightarrow> 's" where
  "fail_job W j cause s =
     (if jc_MaxAttempts (wk_cfg W) \<le> mj_Attempts j
      then snd (jr_MarkFailed (wk_repo W) (mj_ID j) cause s)
      else snd (jr_Reschedule (wk_repo W) (mj_ID j)
             (wk_now W + retry_delay (wk_cfg W) (mj_Attempts j)) cause s))"

definition process_job :: "'s worker \<Rightarrow> media_job \<Rightarrow> 's \<Rightarrow> 's" where
  "process_job W j s =
     (case mj_Kind j of
        KindThumbnail \<Rightarrow>
          (case wk_run W (mj_MediaID j) s of
             (RunOk, s1) \<Rightarrow> snd (jr_MarkDone (wk_repo W) (mj_ID j) s1)
           | (RunErr cause, s1) \<Rightarrow> fail_job W j cause s1
           | (RunPanic cause, s1) \<Rightarrow> fail_job W j (''panic: '' @ cause) s1)
      | KindOther k \<Rightarrow> fail_job W j ''unknown job kind'' s)"

definition drainOnce ::
  "'s worker \<Rightarrow> (media_job list \<Rightarrow> media_job list) \<Rightarrow> 's \<Rightarrow> (error + bool) \<times> 's" where
  "drainOnce W order s =
     (case jr_ClaimBatch (wk_repo W) (jc_Concurrency (wk_cfg W)) (wk_now W) s of
        (Inl e, s1) \<Rightarrow> (if e = MediaJob ErrNoQueuedJob then Inr False else Inl e, s1)
      | (Inr jobs, s1) \<Rightarrow> (Inr True, fold (process_job W) (order jobs) s1))"

text \<open>
  The loop of \<open>Run\<close> between two sleeps: it drains again at once while there was work. The
  \<open>n\<close>-th pass sees the worker \<open>Ws n\<close>, whose clock is the time of the pass; \<open>None\<close> when it is
  still busy after \<open>k\<close> passes.
\<close>

fun drain :: "nat \<Rightarrow> (nat \<Rightarrow> 's worker) \<Rightarrow> (media_job list \<Rightarrow> media_job list) \<Rightarrow> nat \<Rightarrow> 's \<Rightarrow> 's option" where
  "drain 0 Ws order n s = None"
| "drain (Suc k) Ws order n s =
     (case drainOnce (Ws n) order s of
        (Inr True, s1) \<Rightarrow> drain k Ws order (Suc n) s1
      | (_, s1) \<Rightarrow> Some s1)"

end
