(* ===== verification/JobProps.thy ===== *)
theory JobProps
  imports MediaJob ConfirmProps
begin

text \<open>
  The media worker of the API process (cmd/api/main.go): the queue in PostgreSQL, and the
  media service as runner. A job row moves along its life cycle only, is run at most
  \<open>MaxAttempts\<close> times, and the worker comes to rest; but a row left in processing is never
  looked at again.
\<close>

section \<open>The worker of the application\<close>

definition gorm_jobs :: "uuid list \<Rightarrow> time \<Rightarrow> (db \<times> 'o) job_repo" where
  "gorm_jobs locked now = \<lparr>
     jr_ClaimBatch = (\<lambda>n at. on_db (db_ClaimBatch locked n at)),
     jr_MarkDone = (\<lambda>i. on_db (db_MarkDone now i)),
     jr_Reschedule = (\<lambda>i at c. on_db (db_Reschedule now i at c)),
     jr_MarkFailed = (\<lambda>i c. on_db (db_MarkFailed now i c))\<rparr>"

text \<open>\<open>err.Error()\<close> is the text the rendering \<open>etxt\<close> makes of an error.\<close>

definition thumbnail_runner ::
  "'o media_env \<Rightarrow> (error \<Rightarrow> string) \<Rightarrow> uuid \<Rightarrow> db \<times> 'o \<Rightarrow> run_outcome \<times> (db \<times> 'o)" where
  "thumbnail_runner E etxt mediaID so =
     (case GenerateThumbnail (app_media E) mediaID so of
        ((None, ch), so1) \<Rightarrow> (RunOk, so1)
      | ((Some e, ch), so1) \<Rightarrow> (RunErr (etxt e), so1))"

definition app_worker ::
  "'o media_env \<Rightarrow> (error \<Rightarrow> string) \<Rightarrow> uuid list \<Rightarrow> job_config \<Rightarrow> time \<Rightarrow> (db \<times> 'o) worker" where
  "app_worker E etxt locked cfg now =
     NewWorker (gorm_jobs locked now) (thumbnail_runner E etxt) cfg now"

section \<open>The life cycle of a job\<close>

inductive job_move :: "int \<Rightarrow> media_job \<Rightarrow> media_job \<Rightarrow> bool" for M where
  claim: "mj_Status x = JobQueued \<Longrightarrow>
    job_move M x (x\<lparr>mj_Status := JobProcessing, mj_Attempts := mj_Attempts x + 1, mj_UpdatedAt := t\<rparr>)"
| finish: "mj_Status x = JobProcessing \<Longrightarrow>
    job_move M x (x\<lparr>mj_Status := JobDone, mj_LastError := None, mj_UpdatedAt := t\<rparr>)"
| retry: "mj_Status x = JobProcessing \<Longrightarrow> mj_Attempts x < M \<Longrightarrow>
    job_move M x (x\<lparr>mj_Status := JobQueued, mj_RunAfter := r, mj_LastError := Some c, mj_UpdatedAt := t\<rparr>)"
| retire: "mj_Status x = JobProcessing \<Longrightarrow> M \<le> mj_Attempts x \<Longrightarrow>
    job_move M x (x\<lparr>mj_Status := JobFailed, mj_LastError := Some c, mj_UpdatedAt := t\<rparr>)"

text \<open>What a run leaves of a row that was in processing; it may fail to record the outcome.\<close>

definition job_end :: "int \<Rightarrow> media_job \<Rightarrow> media_job \<Rightarrow> bool" where
  "job_end M x y \<longleftrightarrow> y = x \<or> job_move M x y"

lemma job_move_id: "job_move M x y \<Longrightarrow> mj_ID y = mj_ID x \<and> mj_MediaID y = mj_MediaID x"
  by (induction rule: job_move.induct) simp_all

lemma job_end_id: "job_end M x y \<Longrightarrow> mj_ID y = mj_ID x"
  by (auto simp: job_end_def dest: job_move_id)

lemma job_end_attempts: "job_end M x y \<Longrightarrow> mj_Status x = JobProcessing \<Longrightarrow>
    mj_Attempts y = mj_Attempts x \<and> (mj_Status y = JobQueued \<longrightarrow> mj_Attempts y < M)"
  by (auto simp: job_end_def elim!: job_move.cases)

text \<open>One pass over a row: claimed, run, and its outcome recorded or not.\<close>

definition job_round :: "int \<Rightarrow> media_job \<Rightarrow> media_job \<Rightarrow> bool" where
  "job_round M x y \<longleftrightarrow> mj_Status x = JobQueued \<and>
     (\<exists>x1. job_move M x x1 \<and> mj_Status x1 = JobProcessing \<and> mj_Attempts x1 = mj_Attempts x + 1 \<and> job_end M x1 y)"

text \<open>An order of a batch is a rearrangement of it.\<close>

definition reorders :: "('a list \<Rightarrow> 'a list) \<Rightarrow> bool" where
  "reorders order \<longleftrightarrow> (\<forall>xs. set (order xs) = set xs \<and> length (order xs) = length xs)"

lemma reorders_distinct:
  assumes "reorders order" "distinct (map f xs)"
  shows "distinct (map f (order xs))"
proof (rule card_distinct)
  have "card (set (map f (order xs))) = card (set (map f xs))"
    using assms(1) by (simp add: reorders_def)
  then show "card (set (map f (order xs))) = length (map f (order xs))"
    using assms(1) distinct_card [OF assms(2)] by (simp add: reorders_def)
qed

lemma claim_rows:
  assumes c: "db_ClaimBatch locked n now s = (Inr jobs, s1)" and k: "keyed mj_ID (t_media_jobs s)"
  shows "\<exists>due. due \<noteq> [] \<and> jobs = map claimed_job due \<and> set due \<subseteq> set (t_media_jobs s) \<and> distinct (map mj_ID due) \<and>
    (\<forall>x \<in> set (t_media_jobs s). mj_ID x \<in> mj_ID ` set due \<longrightarrow> x \<in> set due \<and> claimable locked now x) \<and>
    t_media_jobs s1 = update_where (\<lambda>x. mj_ID x \<in> mj_ID ` set due)
      (\<lambda>x. (claimed_job x)\<lparr>mj_UpdatedAt := now\<rparr>) (t_media_jobs s)"
proof -
  let ?due = "due_jobs locked (if n < 1 then 1 else n) now (t_media_jobs s)"
  have set_due: "set ?due \<subseteq> {x \<in> set (t_media_jobs s). claimable locked now x}"
    by (auto simp: due_jobs_def dest!: in_set_takeD)
  have "distinct (map mj_ID (filter (claimable locked now) (t_media_jobs s)))"
    using k by (simp add: keyed_def distinct_map_filter)
  then have "distinct (map mj_ID (sort_key mj_RunAfter (filter (claimable locked now) (t_media_jobs s))))"
    by (simp add: distinct_map)
  then have dist: "distinct (map mj_ID ?due)" by (simp add: due_jobs_def take_map [symmetric])
  have own: "x \<in> set ?due \<and> claimable locked now x"
    if x: "x \<in> set (t_media_jobs s)" and i: "mj_ID x \<in> mj_ID ` set ?due" for x
  proof -
    obtain y where y: "y \<in> set ?due" "mj_ID x = mj_ID y" using i by auto
    then have "y \<in> set (t_media_jobs s)" using set_due by auto
    then have "x = y" using keyed_unique [OF k x] y(2) by simp
    then show ?thesis using y(1) set_due by auto
  qed
  have "?due \<noteq> []" "jobs = map claimed_job ?due" "t_media_jobs s1 = update_where (\<lambda>x. mj_ID x \<in> mj_ID ` set ?due)
      (\<lambda>x. (claimed_job x)\<lparr>mj_UpdatedAt := now\<rparr>) (t_media_jobs s)"
    using c by (auto simp: db_ClaimBatch_def transaction_def claim_tx_def Let_def split: sum.splits if_splits)
  then show ?thesis using set_due dist own by blast
qed

lemma nth_update_where: "n < length t \<Longrightarrow> update_where p f t ! n = (if p (t ! n) then f (t ! n) else t ! n)"
  by (simp add: update_where_def)

section \<open>A runner that leaves the queue alone\<close>

locale job_runner =
  fixes run :: "uuid \<Rightarrow> db \<times> 'o \<Rightarrow> run_outcome \<times> (db \<times> 'o)"
  assumes keeps_jobs: "t_media_jobs (fst (snd (run i so))) = t_media_jobs (fst so)"
begin

lemma fail_rows:
  fixes so :: "db \<times> 'o"
  assumes "W = NewWorker (gorm_jobs locked now) run cfg now" "M = jc_MaxAttempts (withDefaults cfg)"
  shows "\<exists>f. t_media_jobs (fst (fail_job W j c so)) = update_where (\<lambda>x. mj_ID x = mj_ID j) f (t_media_jobs (fst so)) \<and>
    (\<forall>x. mj_Status x = JobProcessing \<longrightarrow> mj_Attempts x = mj_Attempts j \<longrightarrow> job_end M x (f x))"
proof -
  obtain s o' where so: "so = (s, o')" by (rule prod.exhaust)
  consider (bad) "\<not> text_ok (truncate_cause c)" | (retire) "text_ok (truncate_cause c)" "M \<le> mj_Attempts j"
    | (retry) "text_ok (truncate_cause c)" "mj_Attempts j < M" by linarith
  then show ?thesis
  proof cases
    case bad
    then have "t_media_jobs (fst (fail_job W j c so)) = update_where (\<lambda>x. mj_ID x = mj_ID j) (\<lambda>x. x) (t_media_jobs (fst so))"
      by (auto simp: fail_job_def assms NewWorker_def gorm_jobs_def so on_db_Pair db_MarkFailed_def db_Reschedule_def
          update_where_def)
    then show ?thesis by (intro exI [of _ "\<lambda>x. x"]) (simp add: job_end_def)
  next
    case retire
    let ?f = "\<lambda>x. x\<lparr>mj_Status := JobFailed, mj_LastError := Some (truncate_cause c), mj_UpdatedAt := now\<rparr>"
    have "t_media_jobs (fst (fail_job W j c so)) = update_where (\<lambda>x. mj_ID x = mj_ID j) ?f (t_media_jobs (fst so))"
      using retire by (simp add: fail_job_def assms NewWorker_def gorm_jobs_def so on_db_Pair db_MarkFailed_def set_job_def)
    then show ?thesis using retire by (intro exI [of _ ?f]) (simp add: job_end_def job_move.retire)
  next
    case retry
    let ?f = "\<lambda>x. x\<lparr>mj_Status := JobQueued, mj_RunAfter := now + retry_delay (withDefaults cfg) (mj_Attempts j),
      mj_LastError := Some (truncate_cause c), mj_UpdatedAt := now\<rparr>"
    have "t_media_jobs (fst (fail_job W j c so)) = update_where (\<lambda>x. mj_ID x = mj_ID j) ?f (t_media_jobs (fst so))"
      using retry by (simp add: fail_job_def assms NewWorker_def gorm_jobs_def so on_db_Pair db_Reschedule_def set_job_def)
    then show ?thesis using retry by (intro exI [of _ ?f]) (simp add: job_end_def job_move.retry)
  qed
qed

lemma process_rows:
  fixes so :: "db \<times> 'o"
  assumes W: "W = NewWorker (gorm_jobs locked now) run cfg now" "M = jc_MaxAttempts (withDefaults cfg)"
  shows "\<exists>f. t_media_jobs (fst (process_job W j so)) = update_where (\<lambda>x. mj_ID x = mj_ID j) f (t_media_jobs (fst so)) \<and>
    (\<forall>x. mj_Status x = JobProcessing \<longrightarrow> mj_Attempts x = mj_Attempts j \<longrightarrow> job_end M x (f x))"
proof (cases "mj_Kind j")
  case KindThumbnail
  obtain r so1 where r: "run (mj_MediaID j) so = (r, so1)" by (rule prod.exhaust)
  have k: "t_media_jobs (fst so1) = t_media_jobs (fst so)" using keeps_jobs [of "mj_MediaID j" so] r by simp
  have run: "wk_run W (mj_MediaID j) so = (r, so1)" and repo: "wk_repo W = gorm_jobs locked now"
    by (simp_all add: W(1) NewWorker_def r)
  show ?thesis
  proof (cases r)
    case RunOk
    let ?f = "\<lambda>x. x\<lparr>mj_Status := JobDone, mj_LastError := None, mj_UpdatedAt := now\<rparr>"
    obtain s o' where so1: "so1 = (s, o')" by (rule prod.exhaust)
    have "t_media_jobs (fst (process_job W j so)) = update_where (\<lambda>x. mj_ID x = mj_ID j) ?f (t_media_jobs (fst so))"
      unfolding k [symmetric]
      by (simp add: process_job_def KindThumbnail run RunOk repo gorm_jobs_def so1 on_db_Pair
          db_MarkDone_def set_job_def)
    then show ?thesis by (intro exI [of _ ?f]) (simp add: job_end_def job_move.finish)
  next
    case (RunErr c)
    with fail_rows [OF W, of j c so1] show ?thesis by (simp add: process_job_def KindThumbnail run k)
  next
    case (RunPanic c)
    with fail_rows [OF W, of j "''panic: '' @ c" so1] show ?thesis by (simp add: process_job_def KindThumbnail run k)
  qed
next
  case (KindOther x)
  with fail_rows [OF W, of j "''unknown job kind''" so] show ?thesis by (simp add: process_job_def)
qed

text \<open>A batch, in any order: each claimed row gets its outcome, every other row is as it was.\<close>

lemma batch_rows:
  fixes so :: "db \<times> 'o"
  assumes W: "W = NewWorker (gorm_jobs locked now) run cfg now" "M = jc_MaxAttempts (withDefaults cfg)"
  shows "distinct (map mj_ID js) \<Longrightarrow>
    \<forall>x \<in> set (t_media_jobs (fst so)). \<forall>j \<in> set js. mj_ID x = mj_ID j \<longrightarrow>
       mj_Status x = JobProcessing \<and> mj_Attempts x = mj_Attempts j \<Longrightarrow>
    list_all2 (\<lambda>x y. if mj_ID x \<in> mj_ID ` set js then job_end M x y else y = x)
      (t_media_jobs (fst so)) (t_media_jobs (fst (fold (process_job W) js so)))"
proof (induction js arbitrary: so)
  case Nil
  then show ?case by (simp add: list_all2_refl)
next
  case (Cons j js)
  let ?so1 = "process_job W j so" and ?t = "t_media_jobs (fst so)"
  obtain f where f: "t_media_jobs (fst ?so1) = update_where (\<lambda>x. mj_ID x = mj_ID j) f ?t"
    and e: "\<And>x. mj_Status x = JobProcessing \<Longrightarrow> mj_Attempts x = mj_Attempts j \<Longrightarrow> job_end M x (f x)"
    using process_rows [OF W, of j so] by blast
  have hit: "job_end M x (f x)" if "x \<in> set ?t" "mj_ID x = mj_ID j" for x
    using Cons.prems(2) that e by auto
  have later: "\<forall>x \<in> set (t_media_jobs (fst ?so1)). \<forall>i \<in> set js. mj_ID x = mj_ID i \<longrightarrow>
      mj_Status x = JobProcessing \<and> mj_Attempts x = mj_Attempts i"
  proof (intro ballI impI)
    fix y i assume y: "y \<in> set (t_media_jobs (fst ?so1))" and i: "i \<in> set js" "mj_ID y = mj_ID i"
    obtain x where x: "x \<in> set ?t" "y = (if mj_ID x = mj_ID j then f x else x)"
      using y by (auto simp: f set_update_where)
    have "mj_ID i \<noteq> mj_ID j" using Cons.prems(1) i(1) by (auto simp: image_iff)
    moreover have "mj_ID y = mj_ID x" using x hit job_end_id by (metis (full_types))
    ultimately have "y = x" using x(2) i(2) by auto
    then show "mj_Status y = JobProcessing \<and> mj_Attempts y = mj_Attempts i"
      using Cons.prems(2) x(1) i by auto
  qed
  have rest: "list_all2 (\<lambda>x y. if mj_ID x \<in> mj_ID ` set js then job_end M x y else y = x)
      (update_where (\<lambda>x. mj_ID x = mj_ID j) f ?t) (t_media_jobs (fst (fold (process_job W) js ?so1)))"
    using Cons.IH [OF _ later] Cons.prems(1) by (simp add: f)
  have nj: "mj_ID j \<notin> mj_ID ` set js" using Cons.prems(1) by auto
  show ?case
  proof (simp only: fold_simps, rule list_all2_all_nthI)
    show "length ?t = length (t_media_jobs (fst (fold (process_job W) js ?so1)))"
      using list_all2_lengthD [OF rest] by simp
  next
    fix n assume n: "n < length ?t"
    let ?x = "?t ! n" and ?y = "t_media_jobs (fst (fold (process_job W) js ?so1)) ! n"
      have xm: "?x \<in> set ?t" using n by simp
      have r: "if mj_ID (if mj_ID ?x = mj_ID j then f ?x else ?x) \<in> mj_ID ` set js
          then job_end M (if mj_ID ?x = mj_ID j then f ?x else ?x) ?y
          else ?y = (if mj_ID ?x = mj_ID j then f ?x else ?x)"
        by (rule list_all2_nthD [OF rest, of n, unfolded length_update_where, OF n, unfolded nth_update_where [OF n]])
      show "if mj_ID ?x \<in> mj_ID ` set (j # js) then job_end M ?x ?y else ?y = ?x"
      proof (cases "mj_ID ?x = mj_ID j")
        case True
        have "mj_ID (f ?x) = mj_ID j" using hit [OF xm True] job_end_id True by metis
        then have "?y = f ?x" using r True nj by simp
        then show ?thesis using hit [OF xm True] True by simp
      next
        case False
        with r show ?thesis by (simp cong: if_cong)
      qed
  qed
qed

lemma drain_rows:
  fixes so :: "db \<times> 'o"
  assumes W: "W = NewWorker (gorm_jobs locked now) run cfg now" "M = jc_MaxAttempts (withDefaults cfg)"
    and k: "keyed mj_ID (t_media_jobs (fst so))" and ord: "reorders order"
    and d: "drainOnce W order so = (Inr True, so')"
  shows "\<exists>ids. ids \<noteq> {} \<and> ids \<subseteq> mj_ID ` set (t_media_jobs (fst so)) \<and>
    list_all2 (\<lambda>x y. if mj_ID x \<in> ids then job_round M x y else y = x)
      (t_media_jobs (fst so)) (t_media_jobs (fst so'))"
proof -
  obtain s o' where so: "so = (s, o')" by (rule prod.exhaust)
  have flds: "wk_repo W = gorm_jobs locked now" "wk_now W = now" by (simp_all add: W(1) NewWorker_def)
  obtain q s1 where q: "db_ClaimBatch locked (jc_Concurrency (wk_cfg W)) now s = (q, s1)" by (rule prod.exhaust)
  then obtain jobs where c: "db_ClaimBatch locked (jc_Concurrency (wk_cfg W)) now s = (Inr jobs, s1)"
    and so': "so' = fold (process_job W) (order jobs) (s1, o')"
    using d by (cases q) (auto simp: drainOnce_def flds gorm_jobs_def so on_db_Pair split: if_splits)
  from claim_rows [OF c] k obtain due where due: "due \<noteq> []" "jobs = map claimed_job due"
    "set due \<subseteq> set (t_media_jobs s)" "distinct (map mj_ID due)"
    "\<And>x. x \<in> set (t_media_jobs s) \<Longrightarrow> mj_ID x \<in> mj_ID ` set due \<Longrightarrow> x \<in> set due \<and> claimable locked now x"
    and t1: "t_media_jobs s1 = update_where (\<lambda>x. mj_ID x \<in> mj_ID ` set due)
       (\<lambda>x. (claimed_job x)\<lparr>mj_UpdatedAt := now\<rparr>) (t_media_jobs s)"
    by (auto simp: so)
  have ids: "mj_ID ` set (order jobs) = mj_ID ` set due"
    using ord by (simp add: reorders_def due(2) image_image claimed_job_def)
  have dist: "distinct (map mj_ID (order jobs))"
    by (rule reorders_distinct [OF ord]) (simp add: due(2,4) comp_def claimed_job_def)
  have match: "\<forall>x \<in> set (t_media_jobs (fst (s1, o'))). \<forall>j \<in> set (order jobs). mj_ID x = mj_ID j \<longrightarrow>
       mj_Status x = JobProcessing \<and> mj_Attempts x = mj_Attempts j"
  proof (intro ballI impI)
    fix y j assume y: "y \<in> set (t_media_jobs (fst (s1, o')))" and j: "j \<in> set (order jobs)" "mj_ID y = mj_ID j"
    obtain d' where d': "d' \<in> set due" "j = claimed_job d'"
      using j(1) ord by (auto simp: reorders_def due(2))
    obtain x where x: "x \<in> set (t_media_jobs s)"
      "y = (if mj_ID x \<in> mj_ID ` set due then (claimed_job x)\<lparr>mj_UpdatedAt := now\<rparr> else x)"
      using y by (auto simp: t1 set_update_where)
    have "mj_ID x = mj_ID d'" using x j(2) d'(2) by (auto simp: claimed_job_def split: if_splits)
    moreover have "d' \<in> set (t_media_jobs s)" using due(3) d'(1) by auto
    ultimately have "x = d'" using k x(1) keyed_unique by (metis fst_conv so)
    then show "mj_Status y = JobProcessing \<and> mj_Attempts y = mj_Attempts j"
      using x(2) d' by (simp add: claimed_job_def)
  qed
  have l: "list_all2 (\<lambda>x y. if mj_ID x \<in> mj_ID ` set due then job_end M x y else y = x)
      (t_media_jobs s1) (t_media_jobs (fst so'))"
    using batch_rows [OF W dist match] by (simp add: ids so')
  have "list_all2 (\<lambda>x y. if mj_ID x \<in> mj_ID ` set due then job_round M x y else y = x)
      (t_media_jobs s) (t_media_jobs (fst so'))"
  proof (rule list_all2_all_nthI)
    show "length (t_media_jobs s) = length (t_media_jobs (fst so'))"
      using list_all2_lengthD [OF l] by (simp add: t1)
  next
    fix n assume n: "n < length (t_media_jobs s)"
    let ?x = "t_media_jobs s ! n" and ?y = "t_media_jobs (fst so') ! n"
    have x1: "t_media_jobs s1 ! n = (if mj_ID ?x \<in> mj_ID ` set due then (claimed_job ?x)\<lparr>mj_UpdatedAt := now\<rparr> else ?x)"
      using n by (simp add: t1 update_where_def)
    have r: "if mj_ID (t_media_jobs s1 ! n) \<in> mj_ID ` set due then job_end M (t_media_jobs s1 ! n) ?y
        else ?y = t_media_jobs s1 ! n"
      using list_all2_nthD [OF l, of n] n by (simp add: t1)
    show "if mj_ID ?x \<in> mj_ID ` set due then job_round M ?x ?y else ?y = ?x"
    proof (cases "mj_ID ?x \<in> mj_ID ` set due")
      case True
      let ?x1 = "(claimed_job ?x)\<lparr>mj_UpdatedAt := now\<rparr>"
      have "claimable locked now ?x"
        by (rule due(5) [THEN conjunct2]) (use True n in \<open>simp_all only: nth_mem\<close>)
      then have st: "mj_Status ?x = JobQueued" by (simp add: claimable_def)
      from job_move.claim [OF st, of M now] have "job_move M ?x ?x1" by (simp add: claimed_job_def)
      moreover have "mj_ID ?x1 = mj_ID ?x" by (simp add: claimed_job_def)
      ultimately show ?thesis using r x1 True st by (auto simp: job_round_def claimed_job_def)
    qed (use r x1 in simp)
  qed
  then show ?thesis using due(1,3) by (intro exI [of _ "mj_ID ` set due"]) (auto simp: so)
qed

end

section \<open>The media service as runner\<close>

lemma updateProcessing_jobs:
  "t_media_jobs (fst (snd (updateProcessingResult (app_media E) m b md so))) = t_media_jobs (fst so)"
proof -
  obtain s o' where so: "so = (s, o')" by (rule prod.exhaust)
  have "t_media_jobs (snd (db_UpdateProcessingResult (md_EventID m) (md_ID m) b md s)) = t_media_jobs s"
    by (auto simp: db_UpdateProcessingResult_def write_media_def split: sum.splits if_splits)
  then show ?thesis
    by (simp add: updateProcessingResult_def media_fields repo_fields so on_db_Pair split: prod.splits option.splits)
qed

lemma store_thumbnail_jobs:
  "t_media_jobs (fst (snd (store_thumbnail (app_media E) m md enc so))) = t_media_jobs (fst so)"
  using updateProcessing_jobs [of E m True md]
  by (auto simp: store_thumbnail_def media_fields on_store_def Let_def split: prod.splits option.splits)
    (metis fst_conv snd_conv)+

lemma GenerateThumbnail_jobs:
  "t_media_jobs (fst (snd (GenerateThumbnail (app_media E) i so))) = t_media_jobs (fst so)"
proof -
  have img: "t_media_jobs (fst (snd (generateImageThumbnail (app_media E) m so))) = t_media_jobs (fst so)" for m
    using updateProcessing_jobs [of E m "md_ThumbnailReady m" _ so] store_thumbnail_jobs [of E m _ _ so]
    by (auto simp: generateImageThumbnail_def Let_def split: sum.splits option.splits prod.splits)
      (metis fst_conv snd_conv)+
  have vid: "t_media_jobs (fst (snd (generateVideoThumbnail (app_media E) m so))) = t_media_jobs (fst so)" for m
    using updateProcessing_jobs [of E m True _ so] updateProcessing_jobs [of E m False _ so]
      store_thumbnail_jobs [of E m _ _ so]
    by (auto simp: generateVideoThumbnail_def Let_def split: sum.splits option.splits prod.splits)
      (metis fst_conv snd_conv)+
  show ?thesis using img vid by (simp add: GenerateThumbnail_def split: sum.splits)
qed

interpretation thumbnails: job_runner "thumbnail_runner E etxt" for E etxt
proof
  fix i and so :: "db \<times> 'a"
  show "t_media_jobs (fst (snd (thumbnail_runner E etxt i so))) = t_media_jobs (fst so)"
    using GenerateThumbnail_jobs [of E i so]
    by (auto simp: thumbnail_runner_def split: prod.splits option.splits)
qed

section \<open>Runs of the worker\<close>

text \<open>Any replica may run a pass at any time, past the rows others hold locks on.\<close>

inductive drain_step ::
  "'o media_env \<Rightarrow> (error \<Rightarrow> string) \<Rightarrow> job_config \<Rightarrow> db \<times> 'o \<Rightarrow> db \<times> 'o \<Rightarrow> bool" for E etxt cfg where
  pass: "reorders order \<Longrightarrow> drainOnce (app_worker E etxt locked cfg now) order so = (r, so') \<Longrightarrow>
    drain_step E etxt cfg so so'"

definition max_attempts :: "job_config \<Rightarrow> int" where
  "max_attempts cfg = jc_MaxAttempts (withDefaults cfg)"

definition attempts_ok :: "int \<Rightarrow> media_job list \<Rightarrow> bool" where
  "attempts_ok M t \<longleftrightarrow> (\<forall>x \<in> set t. 0 \<le> mj_Attempts x \<and> mj_Attempts x \<le> M \<and>
     (mj_Status x = JobQueued \<longrightarrow> mj_Attempts x < M))"

lemma idle_pass:
  assumes "drainOnce (app_worker E etxt locked cfg now) order so = (r, so')" "r \<noteq> Inr True"
  shows "so' = so"
proof -
  obtain s o' where so: "so = (s, o')" by (rule prod.exhaust)
  obtain q s1 where q: "db_ClaimBatch locked (jc_Concurrency (withDefaults cfg)) now s = (q, s1)" by (rule prod.exhaust)
  have "\<exists>e. q = Inl e"
    using assms q by (cases q) (auto simp: drainOnce_def app_worker_def NewWorker_def gorm_jobs_def so on_db_Pair)
  moreover from this have "s1 = s"
    using q by (auto simp: db_ClaimBatch_def transaction_def split: sum.splits)
  ultimately show ?thesis
    using assms(1) q by (auto simp: drainOnce_def app_worker_def NewWorker_def gorm_jobs_def so on_db_Pair)
qed

lemma pass_rows:
  fixes so :: "db \<times> 'o"
  assumes "drain_step E etxt cfg so so'" "keyed mj_ID (t_media_jobs (fst so))"
  shows "\<exists>ids. list_all2 (\<lambda>x y. if mj_ID x \<in> ids then job_round (max_attempts cfg) x y else y = x)
      (t_media_jobs (fst so)) (t_media_jobs (fst so'))"
  using assms(1)
proof cases
  case (pass order locked now r)
  show ?thesis
  proof (cases "r = Inr True")
    case True
    with thumbnails.drain_rows [OF app_worker_def refl assms(2) pass(1)] pass(2) show ?thesis
      unfolding max_attempts_def by blast
  next
    case False
    then have "so' = so" by (rule idle_pass [OF pass(2)])
    then show ?thesis by (intro exI [of _ "{}"]) (simp add: list_all2_refl)
  qed
qed

lemma round_moves:
  assumes "job_round M x y"
  shows "(job_move M)\<^sup>*\<^sup>* x y" "mj_ID y = mj_ID x" "mj_Attempts y = mj_Attempts x + 1"
    "mj_Status y = JobQueued \<longrightarrow> mj_Attempts y < M"
proof -
  obtain x1 where m: "job_move M x x1" "mj_Status x1 = JobProcessing" "mj_Attempts x1 = mj_Attempts x + 1"
    "job_end M x1 y" using assms by (auto simp: job_round_def)
  show "(job_move M)\<^sup>*\<^sup>* x y" using m(1,4) by (auto simp: job_end_def)
  show "mj_ID y = mj_ID x" using m(1,4) job_move_id job_end_id by metis
  show "mj_Attempts y = mj_Attempts x + 1" "mj_Status y = JobQueued \<longrightarrow> mj_Attempts y < M"
    using job_end_attempts [OF m(4,2)] m(3) by auto
qed

lemma pass_keeps:
  assumes l: "list_all2 (\<lambda>x y. if mj_ID x \<in> ids then job_round M x y else y = x) t t'"
  shows "list_all2 (job_move M)\<^sup>*\<^sup>* t t'" "map mj_ID t' = map mj_ID t" "attempts_ok M t \<Longrightarrow> attempts_ok M t'"
proof -
  show "list_all2 (job_move M)\<^sup>*\<^sup>* t t'"
    by (rule list_all2_mono [OF l]) (auto split: if_splits dest: round_moves(1))
  have "list_all2 (\<lambda>x y. mj_ID y = mj_ID x) t t'"
    by (rule list_all2_mono [OF l]) (auto split: if_splits dest: round_moves(2))
  then show "map mj_ID t' = map mj_ID t" by (induction rule: list_all2_induct) auto
  assume ok: "attempts_ok M t"
  have row: "0 \<le> mj_Attempts y \<and> mj_Attempts y \<le> M \<and> (mj_Status y = JobQueued \<longrightarrow> mj_Attempts y < M)"
    if "x \<in> set t" "if mj_ID x \<in> ids then job_round M x y else y = x" for x y
  proof (cases "mj_ID x \<in> ids")
    case True
    with that(2) have r: "job_round M x y" by simp
    moreover have "mj_Status x = JobQueued" using r by (simp add: job_round_def)
    ultimately show ?thesis using ok that(1) round_moves [OF r] by (auto simp: attempts_ok_def)
  next
    case False
    with that ok show ?thesis by (simp add: attempts_ok_def)
  qed
  show "attempts_ok M t'"
    unfolding attempts_ok_def
  proof
    fix y assume "y \<in> set t'"
    then obtain n where n: "n < length t'" "t' ! n = y" by (auto simp: in_set_conv_nth)
    then have "n < length t" using list_all2_lengthD [OF l] by simp
    from list_all2_nthD [OF l this] have "if mj_ID (t ! n) \<in> ids then job_round M (t ! n) y else y = t ! n"
      unfolding n(2) .
    with nth_mem [OF \<open>n < length t\<close>]
    show "0 \<le> mj_Attempts y \<and> mj_Attempts y \<le> M \<and> (mj_Status y = JobQueued \<longrightarrow> mj_Attempts y < M)" by (rule row)
  qed
qed

text \<open>C34: However many replicas drain the queue, in whatever order and past whatever locks, every job
row moves along its life cycle (queued, processing, then done, queued again or failed) and is run at
most \<open>MaxAttempts\<close> times: a row is queued again only while it has attempts left.\<close>

theorem jobs_follow_lifecycle:
  assumes "(drain_step E etxt cfg)\<^sup>*\<^sup>* so so'"
    and "keyed mj_ID (t_media_jobs (fst so))" "attempts_ok (max_attempts cfg) (t_media_jobs (fst so))"
  shows "list_all2 (job_move (max_attempts cfg))\<^sup>*\<^sup>* (t_media_jobs (fst so)) (t_media_jobs (fst so')) \<and>
    attempts_ok (max_attempts cfg) (t_media_jobs (fst so')) \<and> keyed mj_ID (t_media_jobs (fst so'))"
  using assms
proof (induction rule: rtranclp_induct)
  case base
  then show ?case by (simp add: list_all2_refl)
next
  case (step so1 so2)
  then have ih: "list_all2 (job_move (max_attempts cfg))\<^sup>*\<^sup>* (t_media_jobs (fst so)) (t_media_jobs (fst so1))"
    "attempts_ok (max_attempts cfg) (t_media_jobs (fst so1))" "keyed mj_ID (t_media_jobs (fst so1))" by auto
  obtain ids where l: "list_all2 (\<lambda>x y. if mj_ID x \<in> ids then job_round (max_attempts cfg) x y else y = x)
      (t_media_jobs (fst so1)) (t_media_jobs (fst so2))"
    using pass_rows [OF step.hyps(2) ih(3)] by blast
  note k = pass_keeps [OF l]
  have "list_all2 (job_move (max_attempts cfg))\<^sup>*\<^sup>* (t_media_jobs (fst so)) (t_media_jobs (fst so2))"
    by (rule list_all2_trans [OF _ ih(1) k(1)]) (rule rtranclp_trans)
  then show ?case using k(2) k(3) [OF ih(2)] ih(3) by (simp add: keyed_def)
qed

section \<open>Coming to rest\<close>

definition weight :: "int \<Rightarrow> media_job \<Rightarrow> nat" where
  "weight M x = (if mj_Status x = JobQueued then nat (M - mj_Attempts x) else 0)"

definition work_left :: "int \<Rightarrow> media_job list \<Rightarrow> nat" where
  "work_left M t = sum_list (map (weight M) t)"

lemma round_weight:
  assumes "job_round M x y" "mj_Attempts x < M"
  shows "weight M y + 1 \<le> weight M x"
  using round_moves(3) [OF assms(1)] assms by (auto simp: weight_def job_round_def)

lemma pass_weight:
  assumes "list_all2 (\<lambda>x y. if mj_ID x \<in> ids then job_round M x y else y = x) t t'" "attempts_ok M t"
  shows "work_left M t' + length (filter (\<lambda>x. mj_ID x \<in> ids) t) \<le> work_left M t"
  using assms
proof (induction rule: list_all2_induct)
  case (Cons x t y t')
  have ok: "attempts_ok M t" using Cons.prems by (simp add: attempts_ok_def)
  show ?case
  proof (cases "mj_ID x \<in> ids")
    case True
    with Cons.hyps(1) have r: "job_round M x y" by simp
    then have "mj_Attempts x < M" using Cons.prems by (auto simp: attempts_ok_def job_round_def)
    with round_weight [OF r] Cons.IH [OF ok] True show ?thesis by (simp add: work_left_def)
  next
    case False
    with Cons.hyps(1) Cons.IH [OF ok] show ?thesis by (simp add: work_left_def)
  qed
qed (simp add: work_left_def)

text \<open>C35: The worker comes to rest. Its loop drains again at once as long as a pass found work; since each
pass uses up an attempt of some job, it reaches an idle pass after at most as many passes as the
queued jobs have attempts left, whatever fails on the way and however the clock runs.\<close>

theorem worker_comes_to_rest:
  assumes "keyed mj_ID (t_media_jobs (fst so))" "attempts_ok (max_attempts cfg) (t_media_jobs (fst so))"
    and "reorders order" "work_left (max_attempts cfg) (t_media_jobs (fst so)) < k"
  shows "\<exists>so'. drain k (\<lambda>n. app_worker E etxt (locked n) cfg (clock n)) order m so = Some so' \<and>
    (drain_step E etxt cfg)\<^sup>*\<^sup>* so so'"
  using assms
proof (induction k arbitrary: m so)
  case (Suc k)
  let ?W = "app_worker E etxt (locked m) cfg (clock m)" and ?M = "max_attempts cfg"
  obtain r so1 where d: "drainOnce ?W order so = (r, so1)" by (rule prod.exhaust)
  have st: "drain_step E etxt cfg so so1" by (rule drain_step.pass [OF Suc.prems(3) d])
  show ?case
  proof (cases "r = Inr True")
    case True
    with d have d': "drainOnce ?W order so = (Inr True, so1)" by simp
    obtain ids where ids: "ids \<noteq> {}" "ids \<subseteq> mj_ID ` set (t_media_jobs (fst so))"
      "list_all2 (\<lambda>x y. if mj_ID x \<in> ids then job_round ?M x y else y = x)
        (t_media_jobs (fst so)) (t_media_jobs (fst so1))"
      using thumbnails.drain_rows [OF app_worker_def refl Suc.prems(1,3) d'] unfolding max_attempts_def by blast
    have "filter (\<lambda>x. mj_ID x \<in> ids) (t_media_jobs (fst so)) \<noteq> []"
      using ids(1,2) by (auto simp: filter_empty_conv)
    then have "0 < length (filter (\<lambda>x. mj_ID x \<in> ids) (t_media_jobs (fst so)))" by simp
    with pass_weight [OF ids(3) Suc.prems(2)] Suc.prems(4)
    have w: "work_left ?M (t_media_jobs (fst so1)) < k" by linarith
    note kp = pass_keeps [OF ids(3)]
    have key: "keyed mj_ID (t_media_jobs (fst so1))" using kp(2) Suc.prems(1) by (simp add: keyed_def)
    from Suc.IH [OF key kp(3) [OF Suc.prems(2)] Suc.prems(3) w, of "Suc m"] obtain so'
      where "drain k (\<lambda>n. app_worker E etxt (locked n) cfg (clock n)) order (Suc m) so1 = Some so'"
        "(drain_step E etxt cfg)\<^sup>*\<^sup>* so1 so'" by blast
    then show ?thesis using True d st by (auto intro: converse_rtranclp_into_rtranclp)
  next
    case False
    then have "drain (Suc k) (\<lambda>n. app_worker E etxt (locked n) cfg (clock n)) order m so = Some so1"
      using d by (auto split: sum.splits bool.splits)
    with st show ?thesis by blast
  qed
qed simp

section \<open>Stranded jobs\<close>

text \<open>A job left in processing is never run again. If the process stops between the claim and the
outcome, or the outcome cannot be recorded, the row stays in processing and no later pass of any
replica touches it, although the queue is there so that owed work survives a crash.\<close>

theorem processing_never_reclaimed:
  assumes "(drain_step E etxt cfg)\<^sup>*\<^sup>* so so'"
    and "keyed mj_ID (t_media_jobs (fst so))" "x \<in> set (t_media_jobs (fst so))" "mj_Status x = JobProcessing"
  shows "x \<in> set (t_media_jobs (fst so')) \<and> keyed mj_ID (t_media_jobs (fst so'))"
  using assms
proof (induction rule: rtranclp_induct)
  case (step so1 so2)
  then have ih: "x \<in> set (t_media_jobs (fst so1))" "keyed mj_ID (t_media_jobs (fst so1))" by auto
  obtain ids where l: "list_all2 (\<lambda>x y. if mj_ID x \<in> ids then job_round (max_attempts cfg) x y else y = x)
      (t_media_jobs (fst so1)) (t_media_jobs (fst so2))"
    using pass_rows [OF step.hyps(2) ih(2)] by blast
  obtain n where n: "n < length (t_media_jobs (fst so1))" "t_media_jobs (fst so1) ! n = x"
    using ih(1) by (auto simp: in_set_conv_nth)
  from list_all2_nthD [OF l n(1)] have "t_media_jobs (fst so2) ! n = x"
    using step.prems(3) n(2) by (auto simp: job_round_def split: if_splits)
  moreover have "n < length (t_media_jobs (fst so2))" using list_all2_lengthD [OF l] n(1) by simp
  ultimately show ?case using pass_keeps(2) [OF l] ih(2) by (metis keyed_def nth_mem)
qed simp

text \<open>
  An outcome that cannot be recorded: the cause is cut after 500 bytes, also inside a
  character, and the cut text is refused.
\<close>

theorem cut_cause_refused:
  "text_ok (replicate 499 CHR ''x'' @ [CHR 0xC3, CHR 0xA9]) \<and>
   db_Reschedule now i at (replicate 499 CHR ''x'' @ [CHR 0xC3, CHR 0xA9]) s = (Some (DB ErrInvalidText), s)"
proof -
  have "truncate_cause (replicate 499 CHR ''x'' @ [CHR 0xC3, CHR 0xA9]) = replicate 499 CHR ''x'' @ [CHR 0xC3]"
    by (simp add: truncate_cause_def take_Cons')
  moreover have pad: "text_ok (replicate n CHR ''x'' @ r) = text_ok r" for n r
  proof (induction n)
    case (Suc n)
    have "utf8_bytes (120 # bs) = utf8_bytes bs" for bs by (cases bs rule: utf8_bytes.cases) simp_all
    with Suc show ?case by (simp add: text_ok_def)
  qed simp
  moreover have "\<not> text_ok [CHR 0xC3]" "text_ok [CHR 0xC3, CHR 0xA9]"
    by (simp_all add: text_ok_def utf8_tail_def)
  ultimately show ?thesis by (simp add: db_Reschedule_def)
qed

section \<open>Witnesses\<close>

text \<open>The job of the confirmed upload, a worker that succeeds and one that cannot read the object.\<close>

definition fx_cfg :: job_config where
  "fx_cfg = \<lparr>jc_Concurrency = 1, jc_Idle = 0, jc_MaxAttempts = 2, jc_Backoff = 10\<rparr>"

definition fx_blind :: "store media_env" where
  "fx_blind = fx_store_env 12\<lparr>me_OpenRead := (\<lambda>k st. Inl (DB ErrConnection))\<rparr>"

definition fx_worker :: "store media_env \<Rightarrow> time \<Rightarrow> (db \<times> store) worker" where
  "fx_worker E now = app_worker E (\<lambda>e. ''unreadable'') [] fx_cfg now"

definition fx_claimed :: "db \<times> store" where
  "fx_claimed = snd (on_db (db_ClaimBatch [] 1 20) fx_confirmed)"

lemma reorders_id: "reorders (\<lambda>xs. xs)"
  by (simp add: reorders_def)

lemma fx_max: "max_attempts fx_cfg = 2"
  by (simp add: max_attempts_def withDefaults_def fx_cfg_def)

lemma fx_jobs:
  "keyed mj_ID (t_media_jobs (fst fx_confirmed))" "attempts_ok 2 (t_media_jobs (fst fx_confirmed))"
  "work_left 2 (t_media_jobs (fst fx_confirmed)) = 2"
  by code_simp+

lemma fx_pass_runs:
  "map mj_Status (t_media_jobs (fst (snd (drainOnce (fx_worker (fx_store_env 12) 20) (\<lambda>xs. xs) fx_confirmed)))) =
     [JobDone]"
  by code_simp

lemma fx_pass_step:
  "(drain_step E (\<lambda>e. ''unreadable'') fx_cfg)\<^sup>*\<^sup>* so (snd (drainOnce (fx_worker E now) (\<lambda>xs. xs) so))"
  unfolding fx_worker_def
  by (rule r_into_rtranclp, rule drain_step.pass [OF reorders_id]) (rule prod.collapse [symmetric])

theorem jobs_follow_lifecycle_witness:
  "list_all2 (job_move 2)\<^sup>*\<^sup>* (t_media_jobs (fst fx_confirmed))
     (t_media_jobs (fst (snd (drainOnce (fx_worker (fx_store_env 12) 20) (\<lambda>xs. xs) fx_confirmed)))) \<and>
   map mj_Status (t_media_jobs (fst (snd (drainOnce (fx_worker (fx_store_env 12) 20) (\<lambda>xs. xs) fx_confirmed)))) =
     [JobDone]"
  using jobs_follow_lifecycle [OF fx_pass_step, of fx_confirmed "fx_store_env 12" 20]
    fx_jobs fx_pass_runs fx_max by simp

theorem worker_comes_to_rest_witness:
  "\<exists>so'. drain 3 (\<lambda>n. app_worker fx_blind (\<lambda>e. ''unreadable'') [] fx_cfg (20 + 100 * int n)) (\<lambda>xs. xs) 0 fx_confirmed =
     Some so'"
  using worker_comes_to_rest [OF _ _ reorders_id, of fx_confirmed fx_cfg 3 fx_blind "\<lambda>e. ''unreadable''" "\<lambda>n. []"
      "\<lambda>n. 20 + 100 * int n" 0] fx_jobs fx_max by auto

lemma fx_claimed_job:
  "map (\<lambda>j. (mj_ID j, mj_Status j)) (t_media_jobs (fst fx_claimed)) = [(41, JobProcessing)]"
  by code_simp

theorem processing_never_reclaimed_witness:
  "\<exists>x \<in> set (t_media_jobs (fst (snd (drainOnce (fx_worker (fx_store_env 12) 100000) (\<lambda>xs. xs) fx_claimed)))).
     mj_ID x = 41 \<and> mj_Status x = JobProcessing"
proof -
  obtain x where x: "t_media_jobs (fst fx_claimed) = [x]" "mj_ID x = 41" "mj_Status x = JobProcessing"
    using fx_claimed_job by auto
  have "keyed mj_ID (t_media_jobs (fst fx_claimed))" "x \<in> set (t_media_jobs (fst fx_claimed))"
    by (simp_all add: x keyed_def)
  from processing_never_reclaimed [OF fx_pass_step this x(3), of "fx_store_env 12" 100000] x
  show ?thesis by blast
qed

end
