(* ===== verification/Archive.thy ===== *)
theory Archive
  imports Media
begin

text \<open>
  Replication of originals to the long-term archive (internal/archive/service.go) over its
  PostgreSQL adapter (internal/platform/database/archive_repository.go).

  The hot store, the archive client, the digest and the context are fields of
  \<open>archive_service\<close>. \<open>Upload\<close> returns the location and the bytes it read from its reader, which
  are what the digest beside it saw; reading a copy back returns its bytes and whether
  reading and closing both succeeded.
\<close>

record candidate =
  ca_ID :: uuid
  ca_ObjectKey :: string
  ca_OriginalFilename :: string
  ca_MIMEType :: string

definition candidate_of :: "media \<Rightarrow> candidate" where
  "candidate_of m = \<lparr>ca_ID = md_ID m, ca_ObjectKey = md_ObjectKey m,
     ca_OriginalFilename = md_OriginalFilename m, ca_MIMEType = md_MIMEType m\<rparr>"

section \<open>Replica state\<close>

definition drive_copy :: "uuid \<Rightarrow> storage_replica \<Rightarrow> bool" where
  "drive_copy i r \<longleftrightarrow> sr_media_id r = i \<and> sr_provider r = ProviderGoogleDrive \<and> sr_state r = ReplicaVerified"

definition archivable :: "time \<Rightarrow> storage_replica list \<Rightarrow> media \<Rightarrow> bool" where
  "archivable olderThan rs m \<longleftrightarrow> md_Status m = MediaReady \<and>
     (case md_UploadedAt m of None \<Rightarrow> False | Some t \<Rightarrow> t \<le> olderThan) \<and>
     \<not> (\<exists>r \<in> set rs. drive_copy (md_ID m) r)"

definition db_ListForArchive :: "time \<Rightarrow> int \<Rightarrow> db \<Rightarrow> error + candidate list" where
  "db_ListForArchive olderThan lim s = Inr (map candidate_of (take (nat lim)
     (sort_key (\<lambda>m. coalesce (md_UploadedAt m) 0) (filter (archivable olderThan (t_replicas s)) (t_media s)))))"

definition source_gone :: "media \<Rightarrow> storage_replica \<Rightarrow> bool" where
  "source_gone m r \<longleftrightarrow> sr_media_id r = md_ID m \<and> sr_provider r = ProviderR2 \<and>
     sr_location_reference r = md_ObjectKey m \<and> sr_state r = ReplicaDeleted"

text \<open>\<open>ORDER BY verified_at ASC\<close> puts rows without a time last.\<close>

fun verified_last :: "time option \<Rightarrow> int \<times> time" where
  "verified_last None = (1, 0)"
| "verified_last (Some t) = (0, t)"

definition db_ListSourceDeletionPending :: "int \<Rightarrow> db \<Rightarrow> error + candidate list" where
  "db_ListSourceDeletionPending lim s = Inr (map (\<lambda>(m, r). candidate_of m) (take (nat lim)
     (sort_key (\<lambda>(m, r). verified_last (sr_verified_at r))
       (concat (map (\<lambda>m. map (\<lambda>r. (m, r)) (filter (drive_copy (md_ID m)) (t_replicas s)))
         (filter (\<lambda>m. \<not> (\<exists>r \<in> set (t_replicas s). source_gone m r)) (t_media s)))))))"

text \<open>
  \<open>upsert_replica r f\<close>: INSERT .. ON CONFLICT (media_id, provider, location_reference) DO
  UPDATE; the media row must exist.
\<close>

definition same_copy :: "storage_replica \<Rightarrow> storage_replica \<Rightarrow> bool" where
  "same_copy r x \<longleftrightarrow> sr_media_id x = sr_media_id r \<and> sr_provider x = sr_provider r \<and>
     sr_location_reference x = sr_location_reference r"

definition upsert_replica ::
  "storage_replica \<Rightarrow> (storage_replica \<Rightarrow> storage_replica) \<Rightarrow> db \<Rightarrow> error + db" where
  "upsert_replica r f s =
     (if \<exists>x \<in> set (t_replicas s). same_copy r x
      then Inr (s\<lparr>t_replicas := update_where (same_copy r) f (t_replicas s)\<rparr>)
      else if \<not> (\<exists>m \<in> set (t_media s). md_ID m = sr_media_id r) then Inl (DB ErrForeignKeyViolated)
      else Inr (s\<lparr>t_replicas := t_replicas s @ [r]\<rparr>))"

definition db_RecordVerified ::
  "uuid \<Rightarrow> string \<Rightarrow> int \<Rightarrow> string \<Rightarrow> time \<Rightarrow> db \<Rightarrow> error option \<times> db" where
  "db_RecordVerified mediaID location n checksum at s =
     (case upsert_replica \<lparr>sr_media_id = mediaID, sr_provider = ProviderGoogleDrive,
             sr_location_reference = location, sr_state = ReplicaVerified, sr_size = Some n,
             sr_checksum_sha256 = Some checksum, sr_verified_at = Some at, sr_deleted_at = None\<rparr>
           (\<lambda>x. x\<lparr>sr_state := ReplicaVerified, sr_size := Some n, sr_checksum_sha256 := Some checksum,
              sr_verified_at := Some at\<rparr>) s of
        Inl e \<Rightarrow> (Some e, s) | Inr s1 \<Rightarrow> (None, s1))"

definition source_deleted_tx :: "uuid \<Rightarrow> string \<Rightarrow> time \<Rightarrow> db \<Rightarrow> error + unit \<times> db" where
  "source_deleted_tx mediaID objectKey at s =
     (case upsert_replica \<lparr>sr_media_id = mediaID, sr_provider = ProviderR2,
             sr_location_reference = objectKey, sr_state = ReplicaDeleted, sr_size = None,
             sr_checksum_sha256 = None, sr_verified_at = None, sr_deleted_at = Some at\<rparr>
           (\<lambda>x. x\<lparr>sr_state := ReplicaDeleted, sr_deleted_at := Some at\<rparr>) s of
        Inl e \<Rightarrow> Inl e
      | Inr s1 \<Rightarrow> Inr ((), s1\<lparr>t_media := update_where
           (\<lambda>m. md_ID m = mediaID \<and> md_SourceDeletedAt m = None)
           (\<lambda>m. m\<lparr>md_SourceDeletedAt := Some at\<rparr>) (t_media s1)\<rparr>))"

definition db_MarkSourceDeleted :: "uuid \<Rightarrow> string \<Rightarrow> time \<Rightarrow> db \<Rightarrow> error option \<times> db" where
  "db_MarkSourceDeleted mediaID objectKey at s =
     (case transaction (source_deleted_tx mediaID objectKey at) s of
        (Inl e, s1) \<Rightarrow> (Some e, s1) | (Inr _, s1) \<Rightarrow> (None, s1))"

section \<open>The service\<close>

record 's archive_service =
  as_ListForArchive :: "time \<Rightarrow> int \<Rightarrow> 's \<Rightarrow> error + candidate list"
  as_ListSourceDeletionPending :: "int \<Rightarrow> 's \<Rightarrow> error + candidate list"
  as_RecordVerified :: "uuid \<Rightarrow> string \<Rightarrow> int \<Rightarrow> string \<Rightarrow> time \<Rightarrow> 's \<Rightarrow> error option \<times> 's"
  as_MarkSourceDeleted :: "uuid \<Rightarrow> string \<Rightarrow> time \<Rightarrow> 's \<Rightarrow> error option \<times> 's"
  as_source_OpenRead :: "string \<Rightarrow> 's \<Rightarrow> error + string \<times> object_info"
  as_source_Delete :: "string \<Rightarrow> 's \<Rightarrow> error option \<times> 's"
  as_target_Upload :: "string \<Rightarrow> string \<Rightarrow> string \<Rightarrow> 's \<Rightarrow> (error + string \<times> string) \<times> 's"
  as_target_OpenRead :: "string \<Rightarrow> 's \<Rightarrow> error + string \<times> bool"
  as_target_Delete :: "string \<Rightarrow> 's \<Rightarrow> error option \<times> 's"
  as_sha256 :: "string \<Rightarrow> string"
  as_ctx_Err :: "'s \<Rightarrow> error option"
  as_minAge :: time
  as_now :: time

definition deleteSource :: "'s archive_service \<Rightarrow> candidate \<Rightarrow> 's \<Rightarrow> error option \<times> 's" where
  "deleteSource S c s =
     (case as_source_Delete S (ca_ObjectKey c) s of
        (Some e, s1) \<Rightarrow> (Some e, s1)
      | (None, s1) \<Rightarrow> as_MarkSourceDeleted S (ca_ID c) (ca_ObjectKey c) (as_now S) s1)"

definition archive_one :: "'s archive_service \<Rightarrow> candidate \<Rightarrow> 's \<Rightarrow> error option \<times> 's" where
  "archive_one S c s =
     (case as_source_OpenRead S (ca_ObjectKey c) s of
        Inl e \<Rightarrow> (Some e, s)
      | Inr (body, info) \<Rightarrow>
     (case as_target_Upload S (ca_OriginalFilename c) (ca_MIMEType c) body s of
        (Inl e, s1) \<Rightarrow> (Some e, s1)
      | (Inr (location, consumed), s1) \<Rightarrow>
          (let checksum = as_sha256 S consumed
           in case as_target_OpenRead S location s1 of
                Inl e \<Rightarrow> (Some e, snd (as_target_Delete S location s1))
              | Inr (copy, read_ok) \<Rightarrow>
                  if \<not> read_ok \<or> checksum \<noteq> as_sha256 S copy
                  then (Some (Fmt ''archive checksum mismatch''), snd (as_target_Delete S location s1))
                  else
                    (case as_RecordVerified S (ca_ID c) location (oi_Size info) checksum (as_now S) s1 of
                       (Some e, s2) \<Rightarrow> (Some e, s2)
                     | (None, s2) \<Rightarrow> deleteSource S c s2))))"

text \<open>
  One pass over a batch: a failure is noted (the first one is kept) and the pass goes on; a
  cancelled context ends it, also after the item that was under way.
\<close>

fun each_candidate ::
  "'s archive_service \<Rightarrow> (candidate \<Rightarrow> 's \<Rightarrow> error option \<times> 's) \<Rightarrow> candidate list \<Rightarrow> error option \<Rightarrow> 's \<Rightarrow>
     (error + error option) \<times> 's" where
  "each_candidate S f [] failure s = (Inr failure, s)"
| "each_candidate S f (c # cs) failure s =
     (let (r, s1) = f c s;
          failure1 = (if failure = None then r else failure)
      in case as_ctx_Err S s1 of
           Some e \<Rightarrow> (Inl e, s1)
         | None \<Rightarrow> each_candidate S f cs failure1 s1)"

definition ArchiveRun :: "'s archive_service \<Rightarrow> int \<Rightarrow> 's \<Rightarrow> error option \<times> 's" where
  "ArchiveRun S lim0 s =
     (let lim = (if lim0 < 1 then 50 else lim0)
      in case as_ListSourceDeletionPending S lim s of
           Inl e \<Rightarrow> (Some e, s)
         | Inr pending \<Rightarrow>
        (case each_candidate S (deleteSource S) pending None s of
           (Inl e, s1) \<Rightarrow> (Some e, s1)
         | (Inr failure, s1) \<Rightarrow>
        (case as_ListForArchive S (as_now S - as_minAge S) lim s1 of
           Inl e \<Rightarrow> (Some e, s1)
         | Inr candidates \<Rightarrow>
        (case each_candidate S (archive_one S) candidates failure s1 of
           (Inl e, s2) \<Rightarrow> (Some e, s2)
         | (Inr failure2, s2) \<Rightarrow> (failure2, s2)))))"

end
