(* ===== verification/ArchiveProps.thy ===== *)
theory ArchiveProps
  imports Archive MediaProps
begin

text \<open>
  Correctness of archive replication: no original is lost. The service runs over the
  PostgreSQL adapter, as the archive command builds it, beside a hot store and an archive
  that do what their documentation says (\<open>stores_ok\<close>), and may fail at any call.
\<close>

section \<open>The service of the application\<close>

record 'o archive_env =
  ae_source_OpenRead :: "string \<Rightarrow> 'o \<Rightarrow> error + string \<times> object_info"
  ae_source_Delete :: "string \<Rightarrow> 'o \<Rightarrow> error option \<times> 'o"
  ae_target_Upload :: "string \<Rightarrow> string \<Rightarrow> string \<Rightarrow> 'o \<Rightarrow> (error + string \<times> string) \<times> 'o"
  ae_target_OpenRead :: "string \<Rightarrow> 'o \<Rightarrow> error + string \<times> bool"
  ae_target_Delete :: "string \<Rightarrow> 'o \<Rightarrow> error option \<times> 'o"
  ae_sha256 :: "string \<Rightarrow> string"
  ae_ctx_Err :: "'o \<Rightarrow> error option"
  ae_minAge :: time
  ae_now :: time

definition app_archive :: "'o archive_env \<Rightarrow> (db \<times> 'o) archive_service" where
  "app_archive A = \<lparr>
     as_ListForArchive = (\<lambda>t n so. db_ListForArchive t n (fst so)),
     as_ListSourceDeletionPending = (\<lambda>n so. db_ListSourceDeletionPending n (fst so)),
     as_RecordVerified = (\<lambda>i l n c t. on_db (db_RecordVerified i l n c t)),
     as_MarkSourceDeleted = (\<lambda>i k t. on_db (db_MarkSourceDeleted i k t)),
     as_source_OpenRead = (\<lambda>k so. ae_source_OpenRead A k (snd so)),
     as_source_Delete = (\<lambda>k. on_store (ae_source_Delete A k)),
     as_target_Upload = (\<lambda>n m b. on_store (ae_target_Upload A n m b)),
     as_target_OpenRead = (\<lambda>l so. ae_target_OpenRead A l (snd so)),
     as_target_Delete = (\<lambda>l. on_store (ae_target_Delete A l)),
     as_sha256 = ae_sha256 A, as_ctx_Err = (\<lambda>so. ae_ctx_Err A (snd so)),
     as_minAge = ae_minAge A, as_now = ae_now A\<rparr>"

lemma archive_fields:
  "as_ListForArchive (app_archive A) t n so = db_ListForArchive t n (fst so)"
  "as_ListSourceDeletionPending (app_archive A) n so = db_ListSourceDeletionPending n (fst so)"
  "as_RecordVerified (app_archive A) i l n c t = on_db (db_RecordVerified i l n c t)"
  "as_MarkSourceDeleted (app_archive A) i k t = on_db (db_MarkSourceDeleted i k t)"
  "as_source_OpenRead (app_archive A) k so = ae_source_OpenRead A k (snd so)"
  "as_source_Delete (app_archive A) k = on_store (ae_source_Delete A k)"
  "as_target_Upload (app_archive A) nm m b = on_store (ae_target_Upload A nm m b)"
  "as_target_OpenRead (app_archive A) l so = ae_target_OpenRead A l (snd so)"
  "as_target_Delete (app_archive A) l = on_store (ae_target_Delete A l)"
  "as_sha256 (app_archive A) = ae_sha256 A" "as_now (app_archive A) = ae_now A"
  "as_minAge (app_archive A) = ae_minAge A"
  by (simp_all add: app_archive_def)

section \<open>What the stores promise\<close>

text \<open>
  \<open>hot\<close> and \<open>cold\<close> are what the object store and the archive hold. A read that succeeds
  returns what is held; a deletion concerns its key only; an upload that succeeds has read
  all of its body and is given a location of its own, where anything may be.
\<close>

definition stores_ok ::
  "'o archive_env \<Rightarrow> ('o \<Rightarrow> string \<Rightarrow> string option) \<Rightarrow> ('o \<Rightarrow> string \<Rightarrow> string option) \<Rightarrow> bool" where
  "stores_ok A hot cold \<longleftrightarrow>
     (\<forall>k x b i. ae_source_OpenRead A k x = Inr (b, i) \<longrightarrow> hot x k = Some b) \<and>
     (\<forall>k x e y. ae_source_Delete A k x = (e, y) \<longrightarrow> cold y = cold x \<and>
        (hot y k = None \<or> hot y k = hot x k) \<and> (\<forall>l. l \<noteq> k \<longrightarrow> hot y l = hot x l)) \<and>
     (\<forall>n m b x y loc c. ae_target_Upload A n m b x = (Inr (loc, c), y) \<longrightarrow>
        c = b \<and> hot y = hot x \<and> cold x loc = None \<and> (\<forall>l. l \<noteq> loc \<longrightarrow> cold y l = cold x l)) \<and>
     (\<forall>n m b x y e. ae_target_Upload A n m b x = (Inl e, y) \<longrightarrow>
        hot y = hot x \<and> (\<forall>l. cold x l \<noteq> None \<longrightarrow> cold y l = cold x l)) \<and>
     (\<forall>l x c. ae_target_OpenRead A l x = Inr (c, True) \<longrightarrow> cold x l = Some c) \<and>
     (\<forall>l x e y. ae_target_Delete A l x = (e, y) \<longrightarrow> hot y = hot x \<and> (\<forall>k. k \<noteq> l \<longrightarrow> cold y k = cold x k))"

lemma stores_okD:
  assumes "stores_ok A hot cold"
  shows "ae_source_OpenRead A k x = Inr (b, i) \<Longrightarrow> hot x k = Some b"
    "ae_source_Delete A k x = (e, y) \<Longrightarrow> cold y = cold x \<and> (hot y k = None \<or> hot y k = hot x k) \<and>
       (\<forall>l. l \<noteq> k \<longrightarrow> hot y l = hot x l)"
    "ae_target_Upload A n m b x = (Inr (loc, c), y) \<Longrightarrow> c = b \<and> hot y = hot x \<and> cold x loc = None \<and>
       (\<forall>l. l \<noteq> loc \<longrightarrow> cold y l = cold x l)"
    "ae_target_Upload A n m b x = (Inl d, y) \<Longrightarrow> hot y = hot x \<and> (\<forall>l. cold x l \<noteq> None \<longrightarrow> cold y l = cold x l)"
    "ae_target_OpenRead A l x = Inr (c, True) \<Longrightarrow> cold x l = Some c"
    "ae_target_Delete A l x = (e, y) \<Longrightarrow> hot y = hot x \<and> (\<forall>k. k \<noteq> l \<longrightarrow> cold y k = cold x k)"
proof -
  note a = assms [unfolded stores_ok_def]
  show "ae_source_OpenRead A k x = Inr (b, i) \<Longrightarrow> hot x k = Some b"
    using a [THEN conjunct1] by blast
  show "ae_source_Delete A k x = (e, y) \<Longrightarrow> cold y = cold x \<and> (hot y k = None \<or> hot y k = hot x k) \<and>
       (\<forall>l. l \<noteq> k \<longrightarrow> hot y l = hot x l)"
    using a [THEN conjunct2, THEN conjunct1] by blast
  show "ae_target_Upload A n m b x = (Inr (loc, c), y) \<Longrightarrow> c = b \<and> hot y = hot x \<and> cold x loc = None \<and>
       (\<forall>l. l \<noteq> loc \<longrightarrow> cold y l = cold x l)"
    using a [THEN conjunct2, THEN conjunct2, THEN conjunct1] by blast
  show "ae_target_Upload A n m b x = (Inl d, y) \<Longrightarrow> hot y = hot x \<and> (\<forall>l. cold x l \<noteq> None \<longrightarrow> cold y l = cold x l)"
    using a [THEN conjunct2, THEN conjunct2, THEN conjunct2, THEN conjunct1] by blast
  show "ae_target_OpenRead A l x = Inr (c, True) \<Longrightarrow> cold x l = Some c"
    using a [THEN conjunct2, THEN conjunct2, THEN conjunct2, THEN conjunct2, THEN conjunct1] by blast
  show "ae_target_Delete A l x = (e, y) \<Longrightarrow> hot y = hot x \<and> (\<forall>k. k \<noteq> l \<longrightarrow> cold y k = cold x k)"
    using a [THEN conjunct2, THEN conjunct2, THEN conjunct2, THEN conjunct2, THEN conjunct2] by blast
qed

section \<open>Safety of the originals\<close>

definition has_copy :: "db \<Rightarrow> uuid \<Rightarrow> bool" where
  "has_copy s i \<longleftrightarrow> (\<exists>r \<in> set (t_replicas s). drive_copy i r)"

definition id_keys :: "db \<Rightarrow> (uuid \<times> string) list" where
  "id_keys s = map (\<lambda>m. (md_ID m, md_ObjectKey m)) (t_media s)"

text \<open>
  The state is truthful: each verified replica names a copy with the digest of its
  original, an object under a media key is that original, and a record marked as archived
  has a verified copy.
\<close>

definition truthful ::
  "'o archive_env \<Rightarrow> ('o \<Rightarrow> string \<Rightarrow> string option) \<Rightarrow> ('o \<Rightarrow> string \<Rightarrow> string option) \<Rightarrow>
     (uuid \<Rightarrow> string) \<Rightarrow> db \<times> 'o \<Rightarrow> bool" where
  "truthful A hot cold orig so \<longleftrightarrow>
     distinct (map fst (id_keys (fst so))) \<and> distinct (map snd (id_keys (fst so))) \<and>
     (\<forall>r \<in> set (t_replicas (fst so)). \<forall>i. drive_copy i r \<longrightarrow>
        (\<exists>c. cold (snd so) (sr_location_reference r) = Some c \<and> ae_sha256 A c = ae_sha256 A (orig i))) \<and>
     (\<forall>(i, k) \<in> set (id_keys (fst so)). \<forall>b. hot (snd so) k = Some b \<longrightarrow> b = orig i) \<and>
     (\<forall>m \<in> set (t_media (fst so)). md_SourceDeletedAt m \<noteq> None \<longrightarrow> has_copy (fst so) (md_ID m))"

text \<open>An original is held when the hot store has it or the archive a verified copy.\<close>

definition held :: "('o \<Rightarrow> string \<Rightarrow> string option) \<Rightarrow> (uuid \<Rightarrow> string) \<Rightarrow> db \<times> 'o \<Rightarrow> uuid \<times> string \<Rightarrow> bool" where
  "held hot orig so p \<longleftrightarrow> hot (snd so) (snd p) = Some (orig (fst p)) \<or> has_copy (fst so) (fst p)"

definition safe_step ::
  "'o archive_env \<Rightarrow> ('o \<Rightarrow> string \<Rightarrow> string option) \<Rightarrow> ('o \<Rightarrow> string \<Rightarrow> string option) \<Rightarrow>
     (uuid \<Rightarrow> string) \<Rightarrow> db \<times> 'o \<Rightarrow> db \<times> 'o \<Rightarrow> bool" where
  "safe_step A hot cold orig so so' \<longleftrightarrow> (truthful A hot cold orig so \<longrightarrow>
     truthful A hot cold orig so' \<and> id_keys (fst so') = id_keys (fst so) \<and>
     (\<forall>i. has_copy (fst so) i \<longrightarrow> has_copy (fst so') i) \<and>
     (\<forall>p \<in> set (id_keys (fst so)). held hot orig so p \<longrightarrow> held hot orig so' p))"

lemma safe_refl: "safe_step A hot cold orig so so"
  by (simp add: safe_step_def)

lemma safe_trans:
  "safe_step A hot cold orig a b \<Longrightarrow> safe_step A hot cold orig b c \<Longrightarrow> safe_step A hot cold orig a c"
  by (simp add: safe_step_def)

text \<open>The database half of the two writes.\<close>

lemma upsert_r2:
  assumes "upsert_replica r f s = Inr s1" "sr_provider r = ProviderR2" "\<And>x. sr_provider (f x) = sr_provider x"
  shows "t_media s1 = t_media s" "{x \<in> set (t_replicas s1). drive_copy i x} = {x \<in> set (t_replicas s). drive_copy i x}"
proof -
  have "\<And>x. same_copy r x \<Longrightarrow> \<not> drive_copy i x \<and> \<not> drive_copy i (f x)"
    using assms(2,3) by (auto simp: same_copy_def drive_copy_def)
  then show "t_media s1 = t_media s"
    "{x \<in> set (t_replicas s1). drive_copy i x} = {x \<in> set (t_replicas s). drive_copy i x}"
    using assms(1,2) by (auto simp: upsert_replica_def set_update_where drive_copy_def split: if_splits)
qed

lemma MarkSourceDeleted_frame:
  assumes "db_MarkSourceDeleted i k t s = (e, s1)"
  shows "id_keys s1 = id_keys s" "{x \<in> set (t_replicas s1). drive_copy j x} = {x \<in> set (t_replicas s). drive_copy j x}"
    "m \<in> set (t_media s1) \<Longrightarrow> md_SourceDeletedAt m \<noteq> None \<Longrightarrow>
       md_ID m = i \<or> (\<exists>m0 \<in> set (t_media s). md_ID m0 = md_ID m \<and> md_SourceDeletedAt m0 \<noteq> None)"
proof -
  have "id_keys s1 = id_keys s \<and> {x \<in> set (t_replicas s1). drive_copy j x} = {x \<in> set (t_replicas s). drive_copy j x} \<and>
    (\<forall>m \<in> set (t_media s1). md_SourceDeletedAt m \<noteq> None \<longrightarrow>
       md_ID m = i \<or> (\<exists>m0 \<in> set (t_media s). md_ID m0 = md_ID m \<and> md_SourceDeletedAt m0 \<noteq> None))"
  proof (cases "source_deleted_tx i k t s")
    case (Inl x)
    with assms show ?thesis by (auto simp: db_MarkSourceDeleted_def transaction_def)
  next
    case (Inr y)
    then obtain s2 where u: "upsert_replica \<lparr>sr_media_id = i, sr_provider = ProviderR2, sr_location_reference = k,
        sr_state = ReplicaDeleted, sr_size = None, sr_checksum_sha256 = None, sr_verified_at = None,
        sr_deleted_at = Some t\<rparr> (\<lambda>x. x\<lparr>sr_state := ReplicaDeleted, sr_deleted_at := Some t\<rparr>) s = Inr s2"
      and s1: "s1 = s2\<lparr>t_media := update_where (\<lambda>m. md_ID m = i \<and> md_SourceDeletedAt m = None)
        (\<lambda>m. m\<lparr>md_SourceDeletedAt := Some t\<rparr>) (t_media s2)\<rparr>"
      using assms by (auto simp: db_MarkSourceDeleted_def transaction_def source_deleted_tx_def split: sum.splits)
    note r2 = upsert_r2 [OF u, simplified]
    have "map (\<lambda>m. (md_ID m, md_ObjectKey m)) (t_media s1) = map (\<lambda>m. (md_ID m, md_ObjectKey m)) (t_media s2)"
      by (simp add: s1 map_update_where_same)
    with r2(1) r2(2) [of j] show ?thesis
      by (auto simp: id_keys_def s1 set_update_where split: if_splits)
  qed
  then show "id_keys s1 = id_keys s"
    "{x \<in> set (t_replicas s1). drive_copy j x} = {x \<in> set (t_replicas s). drive_copy j x}"
    "m \<in> set (t_media s1) \<Longrightarrow> md_SourceDeletedAt m \<noteq> None \<Longrightarrow>
       md_ID m = i \<or> (\<exists>m0 \<in> set (t_media s). md_ID m0 = md_ID m \<and> md_SourceDeletedAt m0 \<noteq> None)" by auto
qed

lemma copies_same:
  "(\<And>i. {x \<in> set (t_replicas s'). drive_copy i x} = {x \<in> set (t_replicas s). drive_copy i x}) \<Longrightarrow>
     has_copy s' i = has_copy s i"
  unfolding has_copy_def by blast

lemma safe_stepI: "(truthful A hot cold orig so \<Longrightarrow> safe_step A hot cold orig so so') \<Longrightarrow> safe_step A hot cold orig so so'"
  by (simp add: safe_step_def)

lemma cold_grow_safe:
  assumes "hot y = hot x" "\<forall>l. cold x l \<noteq> None \<longrightarrow> cold y l = cold x l"
  shows "safe_step A hot cold orig (s, x) (s, y)"
proof (rule safe_stepI)
  assume tr: "truthful A hot cold orig (s, x)"
  have "\<exists>c. cold y (sr_location_reference r) = Some c \<and> ae_sha256 A c = ae_sha256 A (orig i)"
    if r: "r \<in> set (t_replicas s)" "drive_copy i r" for r i
  proof -
    obtain c where c: "cold x (sr_location_reference r) = Some c" "ae_sha256 A c = ae_sha256 A (orig i)"
      using tr r unfolding truthful_def fst_conv snd_conv by blast
    then have "cold y (sr_location_reference r) = Some c" using assms(2) by simp
    with c(2) show ?thesis by blast
  qed
  then show "safe_step A hot cold orig (s, x) (s, y)"
    using tr assms(1) by (simp add: safe_step_def truthful_def held_def)
qed

lemma source_delete_safe:
  assumes ok: "stores_ok A hot cold" and d: "ae_source_Delete A (ca_ObjectKey c) x = (e, y)"
    and copy: "has_copy s (ca_ID c)" "(ca_ID c, ca_ObjectKey c) \<in> set (id_keys s)"
  shows "safe_step A hot cold orig (s, x) (s, y)"
proof (rule safe_stepI)
  assume tr: "truthful A hot cold orig (s, x)"
  have y: "cold y = cold x" "hot y (ca_ObjectKey c) = None \<or> hot y (ca_ObjectKey c) = hot x (ca_ObjectKey c)"
    "\<And>l. l \<noteq> ca_ObjectKey c \<Longrightarrow> hot y l = hot x l"
    using stores_okD(2) [OF ok d] by auto
  have less: "hot y k = Some b \<Longrightarrow> hot x k = Some b" for k b
    using y(2,3) by (cases "k = ca_ObjectKey c") auto
  have own: "i = ca_ID c" if "(i, ca_ObjectKey c) \<in> set (id_keys s)" for i
  proof -
    have "inj_on snd (set (id_keys s))" using tr by (simp add: truthful_def distinct_map)
    from inj_onD [OF this _ that copy(2)] show ?thesis by simp
  qed
  have "held hot orig (s, y) p" if p: "p \<in> set (id_keys s)" "held hot orig (s, x) p" for p
  proof (cases "snd p = ca_ObjectKey c")
    case True
    then have "fst p = ca_ID c" using own p(1) by (metis prod.collapse)
    then show ?thesis using copy(1) by (simp add: held_def)
  next
    case False
    with p(2) y(3) show ?thesis by (simp add: held_def)
  qed
  moreover have "truthful A hot cold orig (s, y)" using tr less y(1) by (auto simp: truthful_def)
  ultimately show "safe_step A hot cold orig (s, x) (s, y)" by (simp add: safe_step_def)
qed

lemma mark_safe:
  assumes "db_MarkSourceDeleted i k t s = (e, s1)" "has_copy s i"
  shows "safe_step A hot cold orig (s, x) (s1, x)"
proof (rule safe_stepI)
  assume tr: "truthful A hot cold orig (s, x)"
  note m = MarkSourceDeleted_frame [OF assms(1)]
  have hc: "has_copy s1 j = has_copy s j" for j by (rule copies_same) (rule m(2))
  have r: "(r \<in> set (t_replicas s1) \<and> drive_copy j r) = (r \<in> set (t_replicas s) \<and> drive_copy j r)" for r j
    using m(2) [of j] by blast
  have "has_copy s1 (md_ID n)" if n: "n \<in> set (t_media s1)" "md_SourceDeletedAt n \<noteq> None" for n
    using m(3) [OF n] tr assms(2) by (auto simp: hc truthful_def)
  moreover have "\<exists>c. cold x (sr_location_reference q) = Some c \<and> ae_sha256 A c = ae_sha256 A (orig j)"
    if "q \<in> set (t_replicas s1)" "drive_copy j q" for q j
    using that r [of q j] tr by (simp add: truthful_def)
  ultimately show "safe_step A hot cold orig (s, x) (s1, x)"
    using tr by (auto simp: safe_step_def truthful_def held_def m(1) hc)
qed

lemma deleteSource_safe:
  assumes ok: "stores_ok A hot cold"
    and copy: "has_copy (fst so) (ca_ID c)" "(ca_ID c, ca_ObjectKey c) \<in> set (id_keys (fst so))"
  shows "safe_step A hot cold orig so (snd (deleteSource (app_archive A) c so))"
proof -
  obtain s x where so: "so = (s, x)" by (rule prod.exhaust)
  obtain e y where d: "ae_source_Delete A (ca_ObjectKey c) x = (e, y)" by (rule prod.exhaust)
  have 1: "safe_step A hot cold orig (s, x) (s, y)"
    by (rule source_delete_safe [OF ok d]) (use copy so in simp_all)
  show ?thesis
  proof (cases e)
    case None
    obtain r s1 where mk: "db_MarkSourceDeleted (ca_ID c) (ca_ObjectKey c) (ae_now A) s = (r, s1)" by (rule prod.exhaust)
    have 2: "safe_step A hot cold orig (s, y) (s1, y)" by (rule mark_safe [OF mk]) (use copy so in simp)
    have "snd (deleteSource (app_archive A) c so) = (s1, y)"
      by (simp add: deleteSource_def archive_fields so on_store_Pair on_db_Pair d mk None)
    with safe_trans [OF 1 2] show ?thesis by (simp add: so)
  next
    case (Some a)
    then have "snd (deleteSource (app_archive A) c so) = (s, y)"
      by (simp add: deleteSource_def archive_fields so on_store_Pair d)
    with 1 show ?thesis by (simp add: so)
  qed
qed

lemma record_safe:
  assumes "db_RecordVerified i loc n ck t s = (e, s1)"
    and "cold x loc = Some c" "ae_sha256 A c = ae_sha256 A (orig i)"
  shows "safe_step A hot cold orig (s, x) (s1, x)" "e = None \<Longrightarrow> has_copy s1 i" "id_keys s1 = id_keys s"
proof -
  let ?new = "\<lparr>sr_media_id = i, sr_provider = ProviderGoogleDrive, sr_location_reference = loc,
    sr_state = ReplicaVerified, sr_size = Some n, sr_checksum_sha256 = Some ck, sr_verified_at = Some t, sr_deleted_at = None\<rparr>"
  let ?f = "\<lambda>x. x\<lparr>sr_state := ReplicaVerified, sr_size := Some n, sr_checksum_sha256 := Some ck, sr_verified_at := Some t\<rparr>"
  have all: "safe_step A hot cold orig (s, x) (s1, x) \<and> (e = None \<longrightarrow> has_copy s1 i) \<and> id_keys s1 = id_keys s"
  proof (cases "upsert_replica ?new ?f s")
    case (Inl a)
    with assms(1) show ?thesis by (auto simp: db_RecordVerified_def safe_refl)
  next
    case (Inr s2)
    with assms(1) have s1: "s1 = s2" by (simp add: db_RecordVerified_def)
    have md: "t_media s1 = t_media s" using Inr by (auto simp: s1 upsert_replica_def split: if_splits)
    have old: "\<exists>r' \<in> set (t_replicas s1). drive_copy j r'" if r: "r \<in> set (t_replicas s)" "drive_copy j r" for r j
    proof (cases "\<exists>x \<in> set (t_replicas s). same_copy ?new x")
      case True
      then have t: "t_replicas s1 = update_where (same_copy ?new) ?f (t_replicas s)"
        using Inr by (auto simp: s1 upsert_replica_def)
      have "(if same_copy ?new r then ?f r else r) \<in> set (t_replicas s1)"
        unfolding t set_update_where using r(1) by (rule imageI)
      moreover have "drive_copy j (if same_copy ?new r then ?f r else r)" using r(2) by (simp add: drive_copy_def)
      ultimately show ?thesis by blast
    next
      case False
      then have "t_replicas s1 = t_replicas s @ [?new]"
        using Inr by (auto simp: s1 upsert_replica_def split: if_splits)
      with r show ?thesis by auto
    qed
    have new: "\<exists>r \<in> set (t_replicas s1). drive_copy i r"
    proof (cases "\<exists>x \<in> set (t_replicas s). same_copy ?new x")
      case True
      then obtain q where q: "q \<in> set (t_replicas s)" "same_copy ?new q" by blast
      have t: "t_replicas s1 = update_where (same_copy ?new) ?f (t_replicas s)"
        using Inr True by (auto simp: s1 upsert_replica_def)
      have "(if same_copy ?new q then ?f q else q) \<in> set (t_replicas s1)"
        unfolding t set_update_where using q(1) by (rule imageI)
      moreover have "drive_copy i (?f q)" using q(2) by (simp add: drive_copy_def same_copy_def)
      ultimately show ?thesis using q(2) by auto
    next
      case False
      then have "t_replicas s1 = t_replicas s @ [?new]"
        using Inr by (auto simp: s1 upsert_replica_def split: if_splits)
      then show ?thesis by (auto simp: drive_copy_def)
    qed
    have src: "(r \<in> set (t_replicas s)) \<or> (j = i \<and> sr_location_reference r = loc)"
      if "r \<in> set (t_replicas s1)" "drive_copy j r" for r j
      using Inr that
      by (auto simp: s1 upsert_replica_def set_update_where drive_copy_def same_copy_def split: if_splits)
    have hc: "has_copy s j \<Longrightarrow> has_copy s1 j" for j using old by (auto simp: has_copy_def)
    have ik: "id_keys s1 = id_keys s" by (simp add: id_keys_def md)
    have "truthful A hot cold orig (s, x) \<Longrightarrow> truthful A hot cold orig (s1, x)"
      using src assms(2,3) hc by (auto simp: truthful_def ik md) blast+
    then show ?thesis using new hc by (auto simp: safe_step_def held_def has_copy_def ik)
  qed
  then show "safe_step A hot cold orig (s, x) (s1, x)" "e = None \<Longrightarrow> has_copy s1 i" "id_keys s1 = id_keys s" by auto
qed

lemma archive_one_safe:
  assumes ok: "stores_ok A hot cold" and c: "(ca_ID c, ca_ObjectKey c) \<in> set (id_keys (fst so))"
  shows "safe_step A hot cold orig so (snd (archive_one (app_archive A) c so))"
proof (rule safe_stepI)
  assume tr: "truthful A hot cold orig so"
  obtain s x where so: "so = (s, x)" by (rule prod.exhaust)
  show "safe_step A hot cold orig so (snd (archive_one (app_archive A) c so))"
  proof (cases "ae_source_OpenRead A (ca_ObjectKey c) x")
    case (Inl e)
    then show ?thesis by (simp add: archive_one_def archive_fields so safe_refl)
  next
    case (Inr bi)
    obtain body info where bi: "ae_source_OpenRead A (ca_ObjectKey c) x = Inr (body, info)"
      using Inr by (cases bi) simp
    then have "hot x (ca_ObjectKey c) = Some body" by (rule stores_okD(1) [OF ok])
    then have body: "body = orig (ca_ID c)" using tr c by (force simp: truthful_def so)
    obtain u x1 where u: "ae_target_Upload A (ca_OriginalFilename c) (ca_MIMEType c) body x = (u, x1)" by (rule prod.exhaust)
    show ?thesis
    proof (cases u)
      case (Inl e)
      with u have "ae_target_Upload A (ca_OriginalFilename c) (ca_MIMEType c) body x = (Inl e, x1)" by simp
      then have "hot x1 = hot x" "\<forall>l. cold x l \<noteq> None \<longrightarrow> cold x1 l = cold x l"
        using stores_okD(4) [OF ok] by auto
      from cold_grow_safe [OF this, where s = s] show ?thesis
        by (simp add: archive_one_def archive_fields so bi u Inl on_store_Pair)
    next
      case (Inr lc)
      obtain loc cons where lc: "lc = (loc, cons)" by (rule prod.exhaust)
      have up: "ae_target_Upload A (ca_OriginalFilename c) (ca_MIMEType c) body x = (Inr (loc, cons), x1)"
        using u Inr lc by simp
      have x1: "cons = body" "hot x1 = hot x" "cold x loc = None" "\<And>l. l \<noteq> loc \<Longrightarrow> cold x1 l = cold x l"
        using stores_okD(3) [OF ok up] by auto
      have up_safe: "safe_step A hot cold orig (s, x) (s, x1)"
        by (rule cold_grow_safe [where hot = hot and cold = cold, OF x1(2)]) (use x1(3,4) in metis)
      obtain e x2 where del: "ae_target_Delete A loc x1 = (e, x2)" by (rule prod.exhaust)
      then have "hot x2 = hot x1" "\<And>k. k \<noteq> loc \<Longrightarrow> cold x2 k = cold x1 k" using stores_okD(6) [OF ok] by auto
      then have del_safe: "safe_step A hot cold orig (s, x) (s, x2)"
        by (intro cold_grow_safe [where hot = hot and cold = cold]) (use x1(2-4) in metis)+
      show ?thesis
      proof (cases "ae_target_OpenRead A loc x1")
        case (Inl e')
        with del_safe del show ?thesis
          by (simp add: archive_one_def archive_fields so bi u Inr lc on_store_Pair)
      next
        case (Inr cr)
        obtain copy rd where cr: "ae_target_OpenRead A loc x1 = Inr (copy, rd)" using Inr by (cases cr) simp
        show ?thesis
        proof (cases "\<not> rd \<or> ae_sha256 A cons \<noteq> ae_sha256 A copy")
          case True
          with del_safe del show ?thesis
            by (auto simp: archive_one_def archive_fields so bi up cr on_store_Pair)
        next
          case False
          have good: "cold x1 loc = Some copy" "ae_sha256 A copy = ae_sha256 A (orig (ca_ID c))"
            using False stores_okD(5) [OF ok] cr x1(1) body by auto
          obtain r s1 where rec: "db_RecordVerified (ca_ID c) loc (oi_Size info) (ae_sha256 A copy) (ae_now A) s = (r, s1)"
            by (rule prod.exhaust)
          have rs: "safe_step A hot cold orig (s, x1) (s1, x1)" "r = None \<Longrightarrow> has_copy s1 (ca_ID c)" "id_keys s1 = id_keys s"
            using record_safe(1) [where hot = hot and cold = cold and orig = orig and x = x1 and A = A, OF rec good]
              record_safe(2,3) [where cold = cold and orig = orig and x = x1 and A = A, OF rec good] by blast+
          have to: "safe_step A hot cold orig (s, x) (s1, x1)" by (rule safe_trans [OF up_safe rs(1)])
          show ?thesis
          proof (cases r)
            case (Some e')
            with to False show ?thesis
              by (simp add: archive_one_def archive_fields so bi up cr on_store_Pair on_db_Pair rec Let_def)
          next
            case None
            have "safe_step A hot cold orig (s1, x1) (snd (deleteSource (app_archive A) c (s1, x1)))"
              by (rule deleteSource_safe [OF ok]) (use rs(2,3) None c so in simp_all)
            with to have "safe_step A hot cold orig (s, x) (snd (deleteSource (app_archive A) c (s1, x1)))"
              by (rule safe_trans)
            with None False show ?thesis
              by (simp add: archive_one_def archive_fields so bi up cr on_store_Pair on_db_Pair rec Let_def)
          qed
        qed
      qed
    qed
  qed
qed

lemma each_safe:
  assumes step: "\<And>c so. P c so \<Longrightarrow> safe_step A hot cold orig so (snd (f c so))"
    and stable: "\<And>c so so'. P c so \<Longrightarrow> truthful A hot cold orig so \<Longrightarrow> safe_step A hot cold orig so so' \<Longrightarrow> P c so'"
  shows "\<forall>c \<in> set cs. P c so \<Longrightarrow> safe_step A hot cold orig so (snd (each_candidate S f cs failure so))"
proof (induction cs arbitrary: failure so)
  case (Cons c cs)
  show ?case
  proof (rule safe_stepI)
    assume tr: "truthful A hot cold orig so"
    obtain r so1 where f: "f c so = (r, so1)" by (rule prod.exhaust)
    have 1: "safe_step A hot cold orig so so1" using step [of c so] Cons.prems f by simp
    have "\<forall>d \<in> set cs. P d so1" using Cons.prems stable [OF _ tr 1] by simp
    note 2 = Cons.IH [OF this]
    show "safe_step A hot cold orig so (snd (each_candidate S f (c # cs) failure so))"
      using 1 safe_trans [OF 1 2] by (simp add: f Let_def split: option.splits)
  qed
qed (simp add: safe_refl)

lemma listed_media:
  "db_ListForArchive t n s = Inr cs \<Longrightarrow> c \<in> set cs \<Longrightarrow> (ca_ID c, ca_ObjectKey c) \<in> set (id_keys s)"
  by (auto simp: db_ListForArchive_def id_keys_def candidate_of_def dest!: in_set_takeD)

lemma pending_media:
  "db_ListSourceDeletionPending n s = Inr cs \<Longrightarrow> c \<in> set cs \<Longrightarrow>
     (ca_ID c, ca_ObjectKey c) \<in> set (id_keys s) \<and> has_copy s (ca_ID c)"
  by (auto simp: db_ListSourceDeletionPending_def id_keys_def candidate_of_def has_copy_def dest!: in_set_takeD) blast?

lemma ArchiveRun_safe:
  assumes ok: "stores_ok A hot cold"
  shows "safe_step A hot cold orig so (snd (ArchiveRun (app_archive A) lim so))"
proof (rule safe_stepI)
  assume tr: "truthful A hot cold orig so"
  let ?S = "app_archive A" and ?n = "if lim < 1 then 50 else lim"
  let ?p = "\<lambda>c so. (ca_ID c, ca_ObjectKey c) \<in> set (id_keys (fst so))"
  let ?q = "\<lambda>c so. ?p c so \<and> has_copy (fst so) (ca_ID c)"
  obtain pending where p: "db_ListSourceDeletionPending ?n (fst so) = Inr pending"
    by (simp add: db_ListSourceDeletionPending_def)
  obtain r so1 where e1: "each_candidate ?S (deleteSource ?S) pending None so = (r, so1)" by (rule prod.exhaust)
  have "safe_step A hot cold orig so (snd (each_candidate ?S (deleteSource ?S) pending None so))"
    by (rule each_safe [where P = ?q])
      (use deleteSource_safe [OF ok] pending_media [OF p] in \<open>auto simp: safe_step_def\<close>)
  then have 1: "safe_step A hot cold orig so so1" by (simp add: e1)
  show "safe_step A hot cold orig so (snd (ArchiveRun ?S lim so))"
  proof (cases r)
    case (Inl e)
    with 1 e1 p show ?thesis by (simp add: ArchiveRun_def archive_fields Let_def)
  next
    case (Inr failure)
    obtain cs where cs: "db_ListForArchive (ae_now A - ae_minAge A) ?n (fst so1) = Inr cs"
      by (simp add: db_ListForArchive_def)
    obtain r2 so2 where e2: "each_candidate ?S (archive_one ?S) cs failure so1 = (r2, so2)" by (rule prod.exhaust)
    have "safe_step A hot cold orig so1 (snd (each_candidate ?S (archive_one ?S) cs failure so1))"
      by (rule each_safe [where P = ?p])
        (use archive_one_safe [OF ok] listed_media [OF cs] in \<open>auto simp: safe_step_def\<close>)
    then have "safe_step A hot cold orig so so2" using safe_trans [OF 1] by (simp add: e2)
    moreover have "snd (ArchiveRun ?S lim so) = so2"
      using e1 p cs e2 by (cases r2) (simp_all add: ArchiveRun_def archive_fields Let_def Inr)
    ultimately show ?thesis by simp
  qed
qed

section \<open>No original is lost\<close>

text \<open>C29: An archive run never loses an original. Whatever calls fail or are cancelled in the middle, each
original that the hot store or a verified copy held before is held after the run, by the hot store
or by a copy whose digest was read back and compared; and a record is marked as archived only when
such a copy exists.\<close>

theorem archive_loses_no_original:
  assumes "stores_ok A hot cold" "truthful A hot cold orig so"
    and "ArchiveRun (app_archive A) lim so = (r, so')"
  shows "truthful A hot cold orig so' \<and> id_keys (fst so') = id_keys (fst so) \<and>
    (\<forall>p \<in> set (id_keys (fst so)). held hot orig so p \<longrightarrow> held hot orig so' p)"
  using ArchiveRun_safe [OF assms(1), of orig so lim] assms(2,3) by (simp add: safe_step_def)

text \<open>Stores that are lists of objects; a new location is longer than every one there is.\<close>

type_synonym shelves = "(string \<times> string) list \<times> (string \<times> string) list"

definition fx_archive :: "shelves archive_env" where
  "fx_archive = \<lparr>
     ae_source_OpenRead = (\<lambda>k x. case map_of (fst x) k of None \<Rightarrow> Inl (DB ErrConnection)
       | Some b \<Rightarrow> Inr (b, \<lparr>oi_Size = int (length b), oi_ContentType = ''image/jpeg''\<rparr>)),
     ae_source_Delete = (\<lambda>k x. (None, (filter (\<lambda>p. fst p \<noteq> k) (fst x), snd x))),
     ae_target_Upload = (\<lambda>n m b x. (let loc = replicate (Suc (sum_list (map (length \<circ> fst) (snd x)))) CHR ''d''
       in (Inr (loc, b), (fst x, (loc, b) # snd x)))),
     ae_target_OpenRead = (\<lambda>l x. case map_of (snd x) l of None \<Rightarrow> Inl (DB ErrConnection) | Some b \<Rightarrow> Inr (b, True)),
     ae_target_Delete = (\<lambda>l x. (None, (fst x, filter (\<lambda>p. fst p \<noteq> l) (snd x)))),
     ae_sha256 = (\<lambda>b. b), ae_ctx_Err = (\<lambda>x. None), ae_minAge = 10, ae_now = 100\<rparr>"

lemma fresh_location: "map_of t (replicate (Suc (sum_list (map (length \<circ> fst) t))) CHR ''d'') = None"
proof -
  have "length (fst p) \<le> sum_list (map (length \<circ> fst) t)" if "p \<in> set t" for p
    using that by (induction t) auto
  then have "\<forall>p \<in> set t. length (fst p) \<noteq> Suc (sum_list (map (length \<circ> fst) t))"
    by fastforce
  then have "\<forall>p \<in> set t. fst p \<noteq> replicate (Suc (sum_list (map (length \<circ> fst) t))) CHR ''d''"
    by (auto simp del: replicate.simps)
  then show ?thesis unfolding map_of_eq_None_iff by auto
qed

lemma map_of_other: "l \<noteq> k \<Longrightarrow> map_of (filter (\<lambda>p. fst p \<noteq> k) t) l = map_of t l"
  "map_of (filter (\<lambda>p. fst p \<noteq> k) t) k = None"
  by (induction t) auto

lemma fx_stores_ok: "stores_ok fx_archive (\<lambda>x. map_of (fst x)) (\<lambda>x. map_of (snd x))"
  unfolding stores_ok_def
  by (intro conjI allI impI)
    (auto simp: fx_archive_def Let_def fresh_location fresh_location [simplified] map_of_other split: option.splits)

definition fx_archive_db :: db where
  "fx_archive_db = fx_media_db\<lparr>t_media := [fx_row MediaReady (Some 400) (Some 20)]\<rparr>"

definition fx_shelves :: shelves where
  "fx_shelves = ([(''events/uuuuuuu/media/uuuuuuuuuuu/original.jpg'', ''pixels'')], [])"

lemma fx_archive_truthful:
  "truthful fx_archive (\<lambda>x. map_of (fst x)) (\<lambda>x. map_of (snd x)) (\<lambda>i. ''pixels'') (fx_archive_db, fx_shelves)"
  by (auto simp: truthful_def fx fx_archive_db_def fx_shelves_def id_keys_def fx_row_def split: if_splits)

theorem archive_loses_no_original_witness:
  "\<exists>r so'. ArchiveRun (app_archive fx_archive) 0 (fx_archive_db, fx_shelves) = (r, so') \<and> r = None \<and>
     map_of (fst (snd so')) ''events/uuuuuuu/media/uuuuuuuuuuu/original.jpg'' = None \<and> has_copy (fst so') 11"
proof -
  let ?r = "ArchiveRun (app_archive fx_archive) 0 (fx_archive_db, fx_shelves)"
  let ?k = "''events/uuuuuuu/media/uuuuuuuuuuu/original.jpg''"
  have "fst ?r = None \<and> map_of (fst (snd (snd ?r))) ?k = None" by code_simp
  moreover have "(11, ?k) \<in> set (id_keys fx_archive_db)"
    "held (\<lambda>x. map_of (fst x)) (\<lambda>i. ''pixels'') (fx_archive_db, fx_shelves) (11, ?k)"
    by (simp_all add: fx_archive_db_def id_keys_def fx_row_def held_def fx_shelves_def)
  then have "held (\<lambda>x. map_of (fst x)) (\<lambda>i. ''pixels'') (snd ?r) (11, ?k)"
    using archive_loses_no_original [OF fx_stores_ok fx_archive_truthful prod.collapse [symmetric], of 0] by simp
  ultimately show ?thesis
    by (intro exI [of _ "fst ?r"] exI [of _ "snd ?r"]) (simp add: held_def prod_eq_iff)
qed

end
