(* ===== verification/Retention.thy ===== *)
theory Retention
  imports MediaApp
begin

text \<open>
  The end of an event's storage period (internal/retention): which events are due, and the
  purge of one. The object store and the archive client are fields of
  \<open>retention_service\<close>; log lines are left out.
\<close>

definition DefaultGrace :: time where "DefaultGrace = 30 * 24 * hour"

record retention_candidate =
  rc_EventID :: uuid
  rc_PlanCode :: plan_code
  rc_RetentionExpiresAt :: time

record replica_ref =
  rr_MediaID :: uuid
  rr_Location :: string

record purged =
  pg_Media :: int
  pg_Exports :: int

section \<open>The repository (repository.go)\<close>

definition due_grant :: "time \<Rightarrow> db \<Rightarrow> grant \<Rightarrow> bool" where
  "due_grant cutoff s g \<longleftrightarrow> gr_Status g = GrantActive \<and> gr_RetentionExpiresAt g \<le> cutoff \<and>
     (\<exists>e \<in> set (t_events s). ev_ID e = gr_EventID g \<and> media_purged_at e = None)"

definition db_Candidates :: "time \<Rightarrow> int \<Rightarrow> db \<Rightarrow> error + retention_candidate list" where
  "db_Candidates cutoff lim s = Inr (take (nat lim)
     (concat (map (\<lambda>g. map (\<lambda>v. \<lparr>rc_EventID = gr_EventID g, rc_PlanCode = pv_Code v,
           rc_RetentionExpiresAt = gr_RetentionExpiresAt g\<rparr>)
         (filter (\<lambda>v. pv_ID v = gr_PlanVersionID g) (t_plan_versions s)))
       (sort_key gr_RetentionExpiresAt (filter (due_grant cutoff s) (t_grants s))))))"

definition archived_replica :: "uuid \<Rightarrow> db \<Rightarrow> storage_replica \<Rightarrow> bool" where
  "archived_replica eventID s r \<longleftrightarrow> sr_provider r = ProviderGoogleDrive \<and> sr_state r = ReplicaVerified \<and>
     (\<exists>m \<in> set (t_media s). md_ID m = sr_media_id r \<and> md_EventID m = eventID)"

definition db_ArchivedReplicas :: "uuid \<Rightarrow> db \<Rightarrow> error + replica_ref list" where
  "db_ArchivedReplicas eventID s =
     Inr (map (\<lambda>r. \<lparr>rr_MediaID = sr_media_id r, rr_Location = sr_location_reference r\<rparr>)
       (filter (archived_replica eventID s) (t_replicas s)))"

definition names_replica :: "replica_ref \<Rightarrow> storage_replica \<Rightarrow> bool" where
  "names_replica x r \<longleftrightarrow> sr_media_id r = rr_MediaID x \<and> sr_provider r = ProviderGoogleDrive \<and>
     sr_location_reference r = rr_Location x"

definition db_MarkReplicaDeleted :: "replica_ref \<Rightarrow> time \<Rightarrow> db \<Rightarrow> error option \<times> db" where
  "db_MarkReplicaDeleted x at s = (None, s\<lparr>t_replicas := update_where (names_replica x)
     (\<lambda>r. r\<lparr>sr_state := ReplicaDeleted, sr_deleted_at := Some at\<rparr>) (t_replicas s)\<rparr>)"

definition purged_media :: "uuid \<Rightarrow> media \<Rightarrow> bool" where
  "purged_media eventID m \<longleftrightarrow> md_EventID m = eventID \<and> md_Status m \<noteq> MediaDeleted"

definition purge_media_row :: "time \<Rightarrow> media \<Rightarrow> media" where
  "purge_media_row at m = m\<lparr>md_Status := MediaDeleted,
     md_SourceDeletedAt := Some (coalesce (md_SourceDeletedAt m) at), md_LastActivityAt := at\<rparr>"

definition purged_export :: "uuid \<Rightarrow> export_job \<Rightarrow> bool" where
  "purged_export eventID x \<longleftrightarrow> ex_EventID x = eventID \<and>
     (ex_ObjectKey x \<noteq> None \<or> ex_Status x = ExportQueued \<or> ex_Status x = ExportProcessing)"

definition purge_export_row :: "time \<Rightarrow> export_job \<Rightarrow> export_job" where
  "purge_export_row at x = x\<lparr>ex_Status := ExportFailed, ex_ObjectKey := None,
     ex_ErrorMessage := Some ''removed at the end of the event storage period'',
     ex_CompletedAt := Some (coalesce (ex_CompletedAt x) at)\<rparr>"

definition purge_event_row :: "time \<Rightarrow> event \<Rightarrow> event" where
  "purge_event_row at e = e\<lparr>
     ev_Status := (if ev_Status e = EventActive then EventClosed else ev_Status e),
     ev_UsedMediaBytes := 0, ev_ReservedMediaBytes := 0, reserved_media_items := 0,
     reserved_photo_items := 0, reserved_video_items := 0, media_purged_at := Some at\<rparr>"

definition purge_tx :: "uuid \<Rightarrow> time \<Rightarrow> db \<Rightarrow> error + purged \<times> db" where
  "purge_tx eventID at s =
     (case write_media (update_where (purged_media eventID) (purge_media_row at) (t_media s)) s of
        Inl e \<Rightarrow> Inl e
      | Inr s1 \<Rightarrow>
          (let s2 = s1\<lparr>t_exports := update_where (purged_export eventID) (purge_export_row at) (t_exports s1)\<rparr>
           in case write_quota (update_where (\<lambda>e. ev_ID e = eventID) (purge_event_row at) (t_events s2)) s2 of
                Inl e \<Rightarrow> Inl e
              | Inr s3 \<Rightarrow> Inr (\<lparr>pg_Media = int (count_where (purged_media eventID) (t_media s)),
                  pg_Exports = int (count_where (purged_export eventID) (t_exports s))\<rparr>, s3)))"

definition db_MarkPurged :: "uuid \<Rightarrow> time \<Rightarrow> db \<Rightarrow> (error + purged) \<times> db" where
  "db_MarkPurged eventID at = transaction (purge_tx eventID at)"

section \<open>The service (retention.go)\<close>

record 's retention_service =
  rs_Candidates :: "time \<Rightarrow> int \<Rightarrow> 's \<Rightarrow> error + retention_candidate list"
  rs_ArchivedReplicas :: "uuid \<Rightarrow> 's \<Rightarrow> error + replica_ref list"
  rs_MarkReplicaDeleted :: "replica_ref \<Rightarrow> time \<Rightarrow> 's \<Rightarrow> error option \<times> 's"
  rs_MarkPurged :: "uuid \<Rightarrow> time \<Rightarrow> 's \<Rightarrow> (error + purged) \<times> 's"
  rs_DeletePrefix :: "string \<Rightarrow> 's \<Rightarrow> (error + int) \<times> 's"
  rs_archive_Delete :: "(string \<Rightarrow> 's \<Rightarrow> error option \<times> 's) option"
  rs_uuid_string :: "uuid \<Rightarrow> string"
  rs_grace :: time
  rs_enforce :: bool
  rs_now :: time

definition EventPrefix :: "(uuid \<Rightarrow> string) \<Rightarrow> uuid \<Rightarrow> string" where
  "EventPrefix str eventID = ''events/'' @ str eventID @ ''/''"

fun delete_replicas ::
  "'s retention_service \<Rightarrow> (string \<Rightarrow> 's \<Rightarrow> error option \<times> 's) \<Rightarrow> replica_ref list \<Rightarrow> 's \<Rightarrow> error option \<times> 's" where
  "delete_replicas R del [] s = (None, s)"
| "delete_replicas R del (x # xs) s =
     (case del (rr_Location x) s of
        (Some e, s1) \<Rightarrow> (Some e, s1)
      | (None, s1) \<Rightarrow>
     (case rs_MarkReplicaDeleted R x (rs_now R) s1 of
        (Some e, s2) \<Rightarrow> (Some e, s2)
      | (None, s2) \<Rightarrow> delete_replicas R del xs s2))"

definition purge :: "'s retention_service \<Rightarrow> retention_candidate \<Rightarrow> 's \<Rightarrow> (error + purged) \<times> 's" where
  "purge R c s =
     (if rc_EventID c = uuid_nil then (Inl (Fmt ''retention: refusing to purge without an event id''), s)
      else
     (case rs_ArchivedReplicas R (rc_EventID c) s of
        Inl e \<Rightarrow> (Inl e, s)
      | Inr replicas \<Rightarrow>
          if replicas \<noteq> [] \<and> rs_archive_Delete R = None
          then (Inl (Retention ErrArchiveUnavailable), s)
          else
     (case (case rs_archive_Delete R of
              None \<Rightarrow> (None, s)
            | Some del \<Rightarrow> delete_replicas R del replicas s) of
        (Some e, s1) \<Rightarrow> (Inl e, s1)
      | (None, s1) \<Rightarrow>
     (case rs_DeletePrefix R (EventPrefix (rs_uuid_string R) (rc_EventID c)) s1 of
        (Inl e, s2) \<Rightarrow> (Inl e, s2)
      | (Inr n, s2) \<Rightarrow> rs_MarkPurged R (rc_EventID c) (rs_now R) s2))))"

record retention_report =
  rt_Due :: nat
  rt_Purged :: nat
  rt_Failed :: "(uuid \<times> error) list"
  rt_Candidates :: "retention_candidate list"

fun purge_each ::
  "'s retention_service \<Rightarrow> bool \<Rightarrow> retention_candidate list \<Rightarrow> retention_report \<Rightarrow> 's \<Rightarrow> retention_report \<times> 's" where
  "purge_each R dryRun [] rep s = (rep, s)"
| "purge_each R dryRun (c # cs) rep s =
     (if dryRun \<or> \<not> rs_enforce R then purge_each R dryRun cs rep s
      else
        (case purge R c s of
           (Inl e, s1) \<Rightarrow> purge_each R dryRun cs (rep\<lparr>rt_Failed := rt_Failed rep @ [(rc_EventID c, e)]\<rparr>) s1
         | (Inr x, s1) \<Rightarrow> purge_each R dryRun cs (rep\<lparr>rt_Purged := rt_Purged rep + 1\<rparr>) s1))"

definition RetentionRun :: "'s retention_service \<Rightarrow> int \<Rightarrow> bool \<Rightarrow> 's \<Rightarrow> (error + retention_report) \<times> 's" where
  "RetentionRun R lim0 dryRun s =
     (let lim = (if lim0 < 1 then 50 else lim0)
      in case rs_Candidates R (rs_now R - rs_grace R) lim s of
           Inl e \<Rightarrow> (Inl e, s)
         | Inr candidates \<Rightarrow>
             (let (rep, s1) = purge_each R dryRun candidates
                 \<lparr>rt_Due = length candidates, rt_Purged = 0, rt_Failed = [], rt_Candidates = candidates\<rparr> s
              in (Inr rep, s1)))"

lemma purge_each_dry:
  "dry \<or> \<not> rs_enforce R \<Longrightarrow> purge_each R dry cs rep so = (rep, so)"
  by (induction cs) auto

section \<open>The service of the application\<close>

record 'o retention_env =
  re_DeletePrefix :: "string \<Rightarrow> 'o \<Rightarrow> (error + int) \<times> 'o"
  re_archive_Delete :: "(string \<Rightarrow> 'o \<Rightarrow> error option \<times> 'o) option"
  re_uuid_string :: "uuid \<Rightarrow> string"
  re_grace :: time
  re_enforce :: bool
  re_now :: time

definition app_retention :: "'o retention_env \<Rightarrow> (db \<times> 'o) retention_service" where
  "app_retention R = \<lparr>
     rs_Candidates = (\<lambda>t n so. db_Candidates t n (fst so)),
     rs_ArchivedReplicas = (\<lambda>i so. db_ArchivedReplicas i (fst so)),
     rs_MarkReplicaDeleted = (\<lambda>x t. on_db (db_MarkReplicaDeleted x t)),
     rs_MarkPurged = (\<lambda>i t. on_db (db_MarkPurged i t)),
     rs_DeletePrefix = (\<lambda>p. on_store (re_DeletePrefix R p)),
     rs_archive_Delete = map_option (\<lambda>f l. on_store (f l)) (re_archive_Delete R),
     rs_uuid_string = re_uuid_string R, rs_grace = (if 0 < re_grace R then re_grace R else DefaultGrace),
     rs_enforce = re_enforce R, rs_now = re_now R\<rparr>"

lemma retention_fields:
  "rs_Candidates (app_retention R) t n so = db_Candidates t n (fst so)"
  "rs_ArchivedReplicas (app_retention R) i so = db_ArchivedReplicas i (fst so)"
  "rs_MarkReplicaDeleted (app_retention R) x t = on_db (db_MarkReplicaDeleted x t)"
  "rs_MarkPurged (app_retention R) i t = on_db (db_MarkPurged i t)"
  "rs_DeletePrefix (app_retention R) p = on_store (re_DeletePrefix R p)"
  "rs_archive_Delete (app_retention R) = map_option (\<lambda>f l. on_store (f l)) (re_archive_Delete R)"
  "rs_uuid_string (app_retention R) = re_uuid_string R" "rs_enforce (app_retention R) = re_enforce R"
  "rs_now (app_retention R) = re_now R"
  "rs_grace (app_retention R) = (if 0 < re_grace R then re_grace R else DefaultGrace)"
  by (simp_all add: app_retention_def)

end
