(* ===== verification/RetentionProps.thy ===== *)
theory RetentionProps
  imports Retention MediaProps "HOL-Library.Sublist"
begin

text \<open>
  Correctness of retention: a purge leaves nothing of its event behind, a run touches only
  events that are due, and a run that is not enforced touches nothing.
\<close>

section \<open>The transaction of a purge\<close>

lemma MarkPurged_ok:
  assumes "db_MarkPurged i t s = (Inr x, s')"
  shows "s' = s\<lparr>t_media := update_where (purged_media i) (purge_media_row t) (t_media s),
      t_exports := update_where (purged_export i) (purge_export_row t) (t_exports s),
      t_events := update_where (\<lambda>e. ev_ID e = i) (purge_event_row t) (t_events s)\<rparr>"
  using assms
  by (auto simp: db_MarkPurged_def transaction_def purge_tx_def Let_def write_media_def write_quota_def
      split: sum.splits if_splits)

lemma MarkPurged_error: "db_MarkPurged i t s = (Inl e, s') \<Longrightarrow> s' = s"
  by (auto simp: db_MarkPurged_def transaction_def split: sum.splits)

text \<open>The counters stay exact: nothing of the event is in flight any more.\<close>

lemma purge_flight:
  "flight_sum w j (update_where (purged_media i) (purge_media_row t) ms) = (if j = i then 0 else flight_sum w j ms)"
  by (induction ms) (auto simp: flight_sum_def purged_media_def purge_media_row_def)

lemma MarkPurged_inv:
  assumes "db_MarkPurged i t s = (Inr x, s')" "media_inv s"
  shows "media_inv s'"
proof -
  note s' = MarkPurged_ok [OF assms(1)]
  have "keyed ev_ID (t_events s')" "keyed md_ID (t_media s')"
    using assms(2) by (simp_all add: s' keyed_update purge_event_row_def purge_media_row_def media_inv_def)
  moreover have "\<forall>m \<in> set (t_media s'). 0 \<le> md_ExpectedSize m \<and> 0 \<le> actual_size m"
    using assms(2) by (auto simp: s' set_update_where media_inv_def purge_media_row_def actual_size_def)
  moreover have "\<forall>e \<in> set (t_events s'). 0 \<le> ev_UsedMediaBytes e \<and> reserved_exact (t_media s') e"
    using assms(2) by (auto simp: s' set_update_where media_inv_def reserved_exact_def purge_flight purge_event_row_def)
  ultimately show ?thesis by (simp add: media_inv_def)
qed

section \<open>What a purge leaves\<close>

lemma delete_replicas_ok:
  fixes so :: "db \<times> 'o"
  assumes del: "\<And>l so. fst (snd (del l so)) = fst so"
  shows "delete_replicas (app_retention R) del xs so = (None, so') \<Longrightarrow>
    \<exists>rs. fst so' = (fst so)\<lparr>t_replicas := rs\<rparr> \<and> length rs = length (t_replicas (fst so)) \<and>
      (\<forall>n < length rs. rs ! n = (if \<exists>x \<in> set xs. names_replica x (t_replicas (fst so) ! n)
         then (t_replicas (fst so) ! n)\<lparr>sr_state := ReplicaDeleted, sr_deleted_at := Some (re_now R)\<rparr>
         else t_replicas (fst so) ! n))"
proof (induction xs arbitrary: so)
  case Nil
  then show ?case by (intro exI [of _ "t_replicas (fst so)"]) auto
next
  case (Cons x xs)
  obtain e so1 where d: "del (rr_Location x) so = (e, so1)" by (rule prod.exhaust)
  have f1: "fst so1 = fst so" using del [of "rr_Location x" so] d by simp
  from Cons.prems d have e: "e = None" by (cases e) auto
  obtain s1 o1 where so1: "so1 = (s1, o1)" by (rule prod.exhaust)
  define s2 where "s2 = snd (db_MarkReplicaDeleted x (re_now R) s1)"
  have m: "rs_MarkReplicaDeleted (app_retention R) x (rs_now (app_retention R)) so1 = (None, (s2, o1))"
    by (simp add: retention_fields so1 on_db_Pair s2_def) (simp add: db_MarkReplicaDeleted_def)
  have "delete_replicas (app_retention R) del xs (s2, o1) = (None, so')"
    using Cons.prems d e m by simp
  from Cons.IH [OF this] obtain rs where rs: "fst so' = s2\<lparr>t_replicas := rs\<rparr>" "length rs = length (t_replicas s2)"
    "\<forall>n < length rs. rs ! n = (if \<exists>x \<in> set xs. names_replica x (t_replicas s2 ! n)
         then (t_replicas s2 ! n)\<lparr>sr_state := ReplicaDeleted, sr_deleted_at := Some (re_now R)\<rparr>
         else t_replicas s2 ! n)" by auto
  have s2: "s2 = s1\<lparr>t_replicas := update_where (names_replica x)
      (\<lambda>r. r\<lparr>sr_state := ReplicaDeleted, sr_deleted_at := Some (re_now R)\<rparr>) (t_replicas s1)\<rparr>"
    by (simp add: s2_def db_MarkReplicaDeleted_def)
  have s: "fst so = s1" using f1 by (simp add: so1)
  have nm: "names_replica y (r\<lparr>sr_state := a, sr_deleted_at := b\<rparr>) = names_replica y r" for y r a b
    by (simp add: names_replica_def)
  show ?case
  proof (intro exI [of _ rs] conjI)
    show "fst so' = (fst so)\<lparr>t_replicas := rs\<rparr>" by (simp add: rs(1) s s2)
    show "length rs = length (t_replicas (fst so))" by (simp add: rs(2) s s2)
    show "\<forall>n < length rs. rs ! n = (if \<exists>x \<in> set (x # xs). names_replica x (t_replicas (fst so) ! n)
         then (t_replicas (fst so) ! n)\<lparr>sr_state := ReplicaDeleted, sr_deleted_at := Some (re_now R)\<rparr>
         else t_replicas (fst so) ! n)"
    proof (intro allI impI)
      fix n assume n: "n < length rs"
      have t2: "t_replicas s2 ! n = (if names_replica x (t_replicas s1 ! n)
          then (t_replicas s1 ! n)\<lparr>sr_state := ReplicaDeleted, sr_deleted_at := Some (re_now R)\<rparr> else t_replicas s1 ! n)"
        using n rs(2) by (simp add: s2 update_where_def)
      show "rs ! n = (if \<exists>x \<in> set (x # xs). names_replica x (t_replicas (fst so) ! n)
         then (t_replicas (fst so) ! n)\<lparr>sr_state := ReplicaDeleted, sr_deleted_at := Some (re_now R)\<rparr>
         else t_replicas (fst so) ! n)"
        using rs(3) n t2 by (auto simp: s nm)
    qed
  qed
qed

section \<open>The stores\<close>

text \<open>
  The contract of the two stores: \<open>hot\<close> and \<open>cold\<close> read the keys of the object store and the
  locations of the archive off the outer state. A removal touches only what it names, and one
  that succeeds has removed it; one that fails may have removed a part.
\<close>

definition deletes_only :: "('o \<Rightarrow> string set) \<Rightarrow> ('o \<Rightarrow> string set) \<Rightarrow> 'o retention_env \<Rightarrow> bool" where
  "deletes_only hot cold R \<longleftrightarrow>
     (\<forall>p z r z'. re_DeletePrefix R p z = (r, z') \<longrightarrow> cold z' = cold z \<and> hot z' \<subseteq> hot z \<and>
        {k \<in> hot z. \<not> prefix p k} \<subseteq> hot z' \<and> (\<not> isl r \<longrightarrow> (\<forall>k \<in> hot z'. \<not> prefix p k))) \<and>
     (\<forall>del l z r z'. re_archive_Delete R = Some del \<longrightarrow> del l z = (r, z') \<longrightarrow> hot z' = hot z \<and>
        cold z' \<subseteq> cold z \<and> cold z - {l} \<subseteq> cold z' \<and> (r = None \<longrightarrow> l \<notin> cold z'))"

lemma deletes_only_prefix:
  assumes "deletes_only hot cold R" "re_DeletePrefix R p z = (r, z')"
  shows "cold z' = cold z" "hot z' \<subseteq> hot z" "{k \<in> hot z. \<not> prefix p k} \<subseteq> hot z'"
    "\<not> isl r \<Longrightarrow> k \<in> hot z' \<Longrightarrow> \<not> prefix p k"
  using assms(1) [unfolded deletes_only_def, THEN conjunct1, rule_format, OF assms(2)] by blast+

lemma deletes_only_archive:
  assumes "deletes_only hot cold R" "re_archive_Delete R = Some del" "del l z = (r, z')"
  shows "hot z' = hot z" "cold z' \<subseteq> cold z" "cold z - {l} \<subseteq> cold z'" "r = None \<Longrightarrow> l \<notin> cold z'"
  using assms(1) [unfolded deletes_only_def, THEN conjunct2, rule_format, OF assms(2,3)] by blast+

section \<open>What a purge spares\<close>

text \<open>Everything that belongs to event \<open>j\<close>: its row, media, exports, replicas and objects.\<close>

definition own_replica :: "uuid \<Rightarrow> db \<Rightarrow> storage_replica \<Rightarrow> bool" where
  "own_replica j s r \<longleftrightarrow> (j, sr_media_id r) \<in> (\<lambda>m. (md_EventID m, md_ID m)) ` set (t_media s)"

definition belongings :: "uuid \<Rightarrow> db \<Rightarrow> event list \<times> media list \<times> export_job list \<times> storage_replica list" where
  "belongings j s = (filter (\<lambda>e. ev_ID e = j) (t_events s), filter (\<lambda>m. md_EventID m = j) (t_media s),
     filter (\<lambda>x. ex_EventID x = j) (t_exports s), filter (own_replica j s) (t_replicas s))"

lemma filter_update_other:
  "(\<And>r. p r \<Longrightarrow> \<not> q r \<and> \<not> q (f r)) \<Longrightarrow> filter q (update_where p f t) = filter q t"
  by (induction t) auto

lemma MarkPurged_spares:
  assumes "db_MarkPurged i t s = (r, s')" "i \<noteq> j"
  shows "belongings j s' = belongings j s"
proof (cases r)
  case (Inl e)
  then show ?thesis using assms(1) MarkPurged_error by blast
next
  case (Inr x)
  note s' = MarkPurged_ok [OF assms(1) [unfolded Inr]]
  have ids: "(\<lambda>m. (md_EventID m, md_ID m)) ` set (t_media s') = (\<lambda>m. (md_EventID m, md_ID m)) ` set (t_media s)"
    by (simp add: s' map_update_where_same purge_media_row_def flip: set_map)
  have own: "own_replica j s' = own_replica j s"
    by (rule ext) (simp add: own_replica_def ids)
  have "filter (\<lambda>e. ev_ID e = j) (t_events s') = filter (\<lambda>e. ev_ID e = j) (t_events s)"
    unfolding s' using assms(2)
    by (auto intro!: filter_update_other simp: purge_event_row_def)
  moreover have "filter (\<lambda>m. md_EventID m = j) (t_media s') = filter (\<lambda>m. md_EventID m = j) (t_media s)"
    unfolding s' using assms(2)
    by (auto intro!: filter_update_other simp: purge_media_row_def purged_media_def)
  moreover have "filter (\<lambda>x. ex_EventID x = j) (t_exports s') = filter (\<lambda>x. ex_EventID x = j) (t_exports s)"
    unfolding s' using assms(2)
    by (auto intro!: filter_update_other simp: purge_export_row_def purged_export_def)
  moreover have "t_replicas s' = t_replicas s" by (simp add: s')
  ultimately show ?thesis by (simp add: belongings_def own)
qed

lemma MarkReplicaDeleted_spares:
  assumes "\<not> (j, rr_MediaID x) \<in> (\<lambda>m. (md_EventID m, md_ID m)) ` set (t_media s)"
  shows "belongings j (snd (db_MarkReplicaDeleted x t s)) = belongings j s"
proof -
  define s' where "s' = snd (db_MarkReplicaDeleted x t s)"
  have tabs: "t_events s' = t_events s" "t_media s' = t_media s" "t_exports s' = t_exports s"
    by (simp_all add: s'_def db_MarkReplicaDeleted_def)
  have own: "own_replica j s' = own_replica j s" by (rule ext) (simp add: own_replica_def tabs)
  have "filter (own_replica j s) (t_replicas s') = filter (own_replica j s) (t_replicas s)"
    unfolding s'_def db_MarkReplicaDeleted_def using assms
    by (auto simp: own_replica_def names_replica_def intro!: filter_update_other)
  then show ?thesis by (simp add: belongings_def own tabs flip: s'_def)
qed

abbreviation media_ids :: "db \<Rightarrow> (uuid \<times> uuid) set" where
  "media_ids s \<equiv> (\<lambda>m. (md_EventID m, md_ID m)) ` set (t_media s)"

lemma delete_replicas_spares:
  assumes laws: "deletes_only hot cold R" "re_archive_Delete R = Some f"
  shows "\<forall>x \<in> set xs. (j, rr_MediaID x) \<notin> media_ids (fst so) \<Longrightarrow>
    delete_replicas (app_retention R) (\<lambda>l. on_store (f l)) xs so = (e, so') \<Longrightarrow>
    belongings j (fst so') = belongings j (fst so) \<and> t_media (fst so') = t_media (fst so) \<and> hot (snd so') = hot (snd so) \<and>
    t_grants (fst so') = t_grants (fst so)"
proof (induction xs arbitrary: so)
  case Nil
  then show ?case by simp
next
  case (Cons x xs)
  obtain s z where so: "so = (s, z)" by (rule prod.exhaust)
  obtain d z1 where d: "f (rr_Location x) z = (d, z1)" by (rule prod.exhaust)
  have step: "on_store (f (rr_Location x)) so = (d, (s, z1))" by (simp add: so on_store_def d)
  have hot1: "hot z1 = hot z" by (rule deletes_only_archive(1) [OF laws d])
  show ?case
  proof (cases d)
    case (Some y)
    have "so' = (s, z1)" using Cons.prems(2) by (simp add: step Some)
    then show ?thesis by (simp add: so hot1)
  next
    case None
    define s2 where "s2 = snd (db_MarkReplicaDeleted x (re_now R) s)"
    have m: "on_db (db_MarkReplicaDeleted x (re_now R)) (s, z1) = (None, (s2, z1))"
      by (simp add: on_db_Pair s2_def) (simp add: db_MarkReplicaDeleted_def)
    have t2: "t_media s2 = t_media s" "t_grants s2 = t_grants s" by (simp_all add: s2_def db_MarkReplicaDeleted_def)
    have b2: "belongings j s2 = belongings j s"
      unfolding s2_def using Cons.prems(1) by (intro MarkReplicaDeleted_spares) (simp add: so)
    have "delete_replicas (app_retention R) (\<lambda>l. on_store (f l)) xs (s2, z1) = (e, so')"
      using Cons.prems(2) step None by (simp add: retention_fields m)
    from Cons.IH [OF _ this] Cons.prems(1)
    have "belongings j (fst so') = belongings j s2 \<and> t_media (fst so') = t_media s2 \<and> hot (snd so') = hot z1 \<and>
        t_grants (fst so') = t_grants s2"
      by (simp add: so t2)
    then show ?thesis by (simp add: so b2 t2 hot1)
  qed
qed

lemma archived_elsewhere:
  assumes "keyed md_ID (t_media s)" "i \<noteq> j" "db_ArchivedReplicas i s = Inr xs"
  shows "\<forall>x \<in> set xs. (j, rr_MediaID x) \<notin> media_ids s"
  using assms(2,3) keyed_unique [OF assms(1)]
  by (fastforce simp: db_ArchivedReplicas_def archived_replica_def)

lemma purge_spares:
  assumes laws: "deletes_only hot cold R" and k: "keyed md_ID (t_media (fst so))"
    and p: "purge (app_retention R) c so = (r, so')" and j: "rc_EventID c \<noteq> j"
  shows "belongings j (fst so') = belongings j (fst so) \<and> keyed md_ID (t_media (fst so')) \<and>
    {k \<in> hot (snd so). \<not> prefix (EventPrefix (re_uuid_string R) (rc_EventID c)) k} \<subseteq> hot (snd so') \<and>
    t_grants (fst so') = t_grants (fst so)"
proof -
  let ?i = "rc_EventID c" and ?dels = "map_option (\<lambda>f l. on_store (f l)) (re_archive_Delete R)"
  obtain xs where xs: "db_ArchivedReplicas ?i (fst so) = Inr xs" by (simp add: db_ArchivedReplicas_def)
  show ?thesis
  proof (cases "?i = uuid_nil \<or> (xs \<noteq> [] \<and> re_archive_Delete R = None)")
    case True
    then have "so' = so" using p xs
      by (auto simp: purge_def retention_fields cong: if_cong split: if_splits)
    then show ?thesis using k by auto
  next
    case False
    obtain e s1 z1 where dr: "(case ?dels of None \<Rightarrow> (None, so) | Some del \<Rightarrow>
        delete_replicas (app_retention R) del xs so) = (e, (s1, z1))" by (metis prod.exhaust)
    have one: "belongings j s1 = belongings j (fst so) \<and> t_media s1 = t_media (fst so) \<and> hot z1 = hot (snd so) \<and>
        t_grants s1 = t_grants (fst so)"
    proof (cases "re_archive_Delete R")
      case None
      then show ?thesis using dr by (cases so) simp
    next
      case (Some f)
      then show ?thesis
        using delete_replicas_spares [OF laws Some archived_elsewhere [OF k j xs], of e "(s1, z1)"] dr by simp
    qed
    show ?thesis
    proof (cases e)
      case (Some y)
      then have "so' = (s1, z1)" using p xs False dr
        by (auto simp: purge_def retention_fields cong: if_cong split: if_splits)
      then show ?thesis using one k by auto
    next
      case None
      obtain d z2 where d: "re_DeletePrefix R (EventPrefix (re_uuid_string R) ?i) z1 = (d, z2)" by (rule prod.exhaust)
      have hot2: "{k \<in> hot z1. \<not> prefix (EventPrefix (re_uuid_string R) ?i) k} \<subseteq> hot z2"
        by (rule deletes_only_prefix(3) [OF laws d])
      obtain w s3 where w: "db_MarkPurged ?i (re_now R) s1 = (w, s3)" by (rule prod.exhaust)
      have "so' = (s1, z2) \<or> so' = (s3, z2)"
        using p xs False dr None d w by (cases d) (auto simp: purge_def retention_fields on_store_def on_db_Pair
            cong: if_cong split: if_splits)
      moreover have "belongings j s3 = belongings j s1" by (rule MarkPurged_spares [OF w j])
      moreover have "keyed md_ID (t_media s3) = keyed md_ID (t_media s1) \<and> t_grants s3 = t_grants s1"
      proof (cases w)
        case (Inl y)
        then show ?thesis using MarkPurged_error w by blast
      next
        case (Inr y)
        show ?thesis by (simp add: MarkPurged_ok [OF w [unfolded Inr]] keyed_update purge_media_row_def)
      qed
      ultimately show ?thesis using one k hot2 by auto
    qed
  qed
qed

text \<open>
  The text of a UUID: 36 characters, distinct ids have distinct texts. \<open>U\<close> is the set of ids
  that occur.
\<close>

definition uuid_strings :: "uuid set \<Rightarrow> (uuid \<Rightarrow> string) \<Rightarrow> bool" where
  "uuid_strings U str \<longleftrightarrow> inj_on str U \<and> (\<forall>i \<in> U. length (str i) = 36)"

lemma other_prefix:
  assumes "uuid_strings U str" "i \<in> U" "j \<in> U" "i \<noteq> j" "prefix (EventPrefix str j) k"
  shows "\<not> prefix (EventPrefix str i) k"
proof
  assume "prefix (EventPrefix str i) k"
  then have "EventPrefix str i = EventPrefix str j"
    using assms(1,2,3,5) by (auto simp: EventPrefix_def prefix_def append_eq_append_conv uuid_strings_def)
  then have "str i = str j" by (simp add: EventPrefix_def)
  then show False using assms(1-4) by (auto simp: uuid_strings_def dest: inj_onD)
qed

lemma purge_each_spares:
  assumes laws: "deletes_only hot cold R" and str: "uuid_strings U (re_uuid_string R)" "j \<in> U"
  shows "\<forall>c \<in> set cs. rc_EventID c \<in> U - {j} \<Longrightarrow> keyed md_ID (t_media (fst so)) \<Longrightarrow>
    purge_each (app_retention R) dry cs rep so = (rep', so') \<Longrightarrow>
    belongings j (fst so') = belongings j (fst so) \<and>
    {k \<in> hot (snd so). prefix (EventPrefix (re_uuid_string R) j) k} \<subseteq> hot (snd so') \<and>
    keyed md_ID (t_media (fst so')) \<and> t_grants (fst so') = t_grants (fst so)"
proof (induction cs arbitrary: rep so)
  case Nil
  then show ?case by auto
next
  case (Cons c cs)
  show ?case
  proof (cases "dry \<or> \<not> rs_enforce (app_retention R)")
    case True
    then have "purge_each (app_retention R) dry cs rep so = (rep', so')" using Cons.prems(3) by simp
    then show ?thesis using Cons.IH Cons.prems(1,2) by simp
  next
    case False
    obtain r so1 where p: "purge (app_retention R) c so = (r, so1)" by (rule prod.exhaust)
    have j: "rc_EventID c \<noteq> j" and u: "rc_EventID c \<in> U" using Cons.prems(1) by simp_all
    note one = purge_spares [OF laws Cons.prems(2) p j]
    obtain rep1 where "purge_each (app_retention R) dry cs rep1 so1 = (rep', so')"
      using Cons.prems(3) False p by (cases r) auto
    from Cons.IH [OF _ _ this] Cons.prems(1) one
    have "belongings j (fst so') = belongings j (fst so1) \<and>
      {k \<in> hot (snd so1). prefix (EventPrefix (re_uuid_string R) j) k} \<subseteq> hot (snd so') \<and>
      keyed md_ID (t_media (fst so')) \<and> t_grants (fst so') = t_grants (fst so1)" by simp
    moreover have "{k \<in> hot (snd so). prefix (EventPrefix (re_uuid_string R) j) k} \<subseteq> hot (snd so1)"
      using one other_prefix [OF str(1) u str(2) j] by blast
    ultimately show ?thesis using one by auto
  qed
qed

lemma candidates_due:
  assumes "db_Candidates cutoff lim s = Inr cs" "c \<in> set cs"
  shows "\<exists>g \<in> set (t_grants s). due_grant cutoff s g \<and> gr_EventID g = rc_EventID c"
  using assms by (fastforce simp: db_Candidates_def dest!: in_set_takeD)

section \<open>A run spares every event that is not due\<close>


section \<open>What a purge removes\<close>

lemma delete_replicas_cold:
  assumes laws: "deletes_only hot cold R" "re_archive_Delete R = Some f"
  shows "delete_replicas (app_retention R) (\<lambda>l. on_store (f l)) xs so = (None, so') \<Longrightarrow>
    cold (snd so') \<subseteq> cold (snd so) - rr_Location ` set xs"
proof (induction xs arbitrary: so)
  case Nil
  then show ?case by simp
next
  case (Cons x xs)
  obtain s z where so: "so = (s, z)" by (rule prod.exhaust)
  obtain d z1 where d: "f (rr_Location x) z = (d, z1)" by (rule prod.exhaust)
  have step: "on_store (f (rr_Location x)) so = (d, (s, z1))" by (simp add: so on_store_def d)
  have none: "d = None" using Cons.prems step by (cases d) auto
  have c1: "cold z1 \<subseteq> cold z - {rr_Location x}"
    using deletes_only_archive(2,4) [OF laws d] none by blast
  define s2 where "s2 = snd (db_MarkReplicaDeleted x (re_now R) s)"
  have m: "on_db (db_MarkReplicaDeleted x (re_now R)) (s, z1) = (None, (s2, z1))"
    by (simp add: on_db_Pair s2_def) (simp add: db_MarkReplicaDeleted_def)
  have "delete_replicas (app_retention R) (\<lambda>l. on_store (f l)) xs (s2, z1) = (None, so')"
    using Cons.prems step none by (simp add: retention_fields m)
  from Cons.IH [OF this] c1 show ?case by (auto simp: so)
qed

lemma purge_ok:
  fixes so :: "db \<times> 'o"
  assumes laws: "deletes_only hot cold R" and p: "purge (app_retention R) c so = (Inr x, so')"
  obtains s1 n z1 z2 s3 where "so' = (s3, z2)" "db_MarkPurged (rc_EventID c) (re_now R) s1 = (Inr x, s3)"
    "re_DeletePrefix R (EventPrefix (re_uuid_string R) (rc_EventID c)) z1 = (Inr n, z2)"
    "\<exists>rs. s1 = (fst so)\<lparr>t_replicas := rs\<rparr>" "\<forall>r \<in> set (t_replicas s1). \<not> archived_replica (rc_EventID c) s1 r"
    "cold z1 \<inter> sr_location_reference ` {r \<in> set (t_replicas (fst so)). archived_replica (rc_EventID c) (fst so) r} = {}"
proof -
  let ?i = "rc_EventID c" and ?dels = "map_option (\<lambda>f l. on_store (f l)) (re_archive_Delete R)"
  let ?xs = "map (\<lambda>r. \<lparr>rr_MediaID = sr_media_id r, rr_Location = sr_location_reference r\<rparr>)
       (filter (archived_replica ?i (fst so)) (t_replicas (fst so)))"
  have xs: "db_ArchivedReplicas ?i (fst so) = Inr ?xs" by (simp add: db_ArchivedReplicas_def)
  have ok: "?i \<noteq> uuid_nil" "?xs = [] \<or> re_archive_Delete R \<noteq> None"
    using p xs by (auto simp: purge_def retention_fields cong: if_cong split: if_splits)
  obtain e y where dr0: "(case ?dels of None \<Rightarrow> (None, so) | Some del \<Rightarrow>
      delete_replicas (app_retention R) del ?xs so) = (e, y)" by (rule prod.exhaust)
  obtain s1 z1 where y: "y = (s1, z1)" by (rule prod.exhaust)
  note dr = dr0 [unfolded y]
  have e: "e = None"
    using p xs ok dr by (cases e) (auto simp: purge_def retention_fields cong: if_cong split: if_splits)
  obtain d z2 where d: "re_DeletePrefix R (EventPrefix (re_uuid_string R) ?i) z1 = (d, z2)" by (rule prod.exhaust)
  obtain w s3 where w: "db_MarkPurged ?i (re_now R) s1 = (w, s3)" by (rule prod.exhaust)
  obtain n where n: "d = Inr n" and wx: "w = Inr x" and so': "so' = (s3, z2)"
    using p xs ok dr e d w
    by (cases d) (auto simp: purge_def retention_fields on_store_def on_db_Pair cong: if_cong split: if_splits)
  have "\<exists>rs. s1 = (fst so)\<lparr>t_replicas := rs\<rparr> \<and> (\<forall>r \<in> set rs. \<not> archived_replica ?i (fst so) r)"
  proof (cases "re_archive_Delete R")
    case None
    then show ?thesis using dr ok(2)
      by (intro exI [of _ "t_replicas (fst so)"]) (cases so, auto simp: filter_empty_conv)
  next
    case (Some f)
    then have run: "delete_replicas (app_retention R) (\<lambda>l. on_store (f l)) ?xs so = (None, (s1, z1))"
      using dr e by simp
    have frame: "fst (snd (on_store (f l) y)) = fst y" for l and y :: "db \<times> 'o"
      by (simp add: on_store_def split: prod.splits)
    obtain rs where rs: "s1 = (fst so)\<lparr>t_replicas := rs\<rparr>" "length rs = length (t_replicas (fst so))"
      "\<forall>n < length rs. rs ! n = (if \<exists>x \<in> set ?xs. names_replica x (t_replicas (fst so) ! n)
         then (t_replicas (fst so) ! n)\<lparr>sr_state := ReplicaDeleted, sr_deleted_at := Some (re_now R)\<rparr>
         else t_replicas (fst so) ! n)"
      using delete_replicas_ok [OF frame run] by auto
    have "\<not> archived_replica ?i (fst so) (rs ! n)" if n: "n < length rs" for n
    proof (cases "archived_replica ?i (fst so) (t_replicas (fst so) ! n)")
      case True
      let ?r = "t_replicas (fst so) ! n"
      have "?r \<in> set (t_replicas (fst so))" using n rs(2) by simp
      then have "\<lparr>rr_MediaID = sr_media_id ?r, rr_Location = sr_location_reference ?r\<rparr> \<in> set ?xs"
        using True by auto
      moreover have "names_replica \<lparr>rr_MediaID = sr_media_id ?r, rr_Location = sr_location_reference ?r\<rparr> ?r"
        using True by (simp add: names_replica_def archived_replica_def)
      ultimately have "\<exists>x \<in> set ?xs. names_replica x ?r" by (rule rev_bexI)
      then show ?thesis using rs(3) n by (simp add: archived_replica_def)
    next
      case False
      then show ?thesis using rs(3) n by (auto simp: archived_replica_def)
    qed
    then have "\<forall>r \<in> set rs. \<not> archived_replica ?i (fst so) r" by (auto simp: in_set_conv_nth)
    then show ?thesis using rs(1) by blast
  qed
  then obtain rs where rs: "s1 = (fst so)\<lparr>t_replicas := rs\<rparr>" "\<forall>r \<in> set rs. \<not> archived_replica ?i (fst so) r" by blast
  have gone: "\<forall>r \<in> set (t_replicas s1). \<not> archived_replica ?i s1 r"
    using rs by (simp add: archived_replica_def)
  have "cold z1 \<inter> sr_location_reference ` {r \<in> set (t_replicas (fst so)). archived_replica ?i (fst so) r} = {}"
  proof (cases "re_archive_Delete R")
    case None
    then show ?thesis using ok(2) by (auto simp: filter_empty_conv)
  next
    case (Some f)
    then have run: "delete_replicas (app_retention R) (\<lambda>l. on_store (f l)) ?xs so = (None, (s1, z1))"
      using dr e by simp
    have "cold z1 \<subseteq> cold (snd so) - rr_Location ` set ?xs"
      using delete_replicas_cold [OF laws Some run] by simp
    then show ?thesis by (auto simp: image_image)
  qed
  with that [OF so' w [unfolded wx] d [unfolded n]] rs gone show thesis by blast
qed

section \<open>A purge leaves nothing behind\<close>


text \<open>The fixture: the event of the shared one, a year later, with one object, one archive
  copy and an export.\<close>

definition fx_retention :: "(string list \<times> string list) retention_env" where
  "fx_retention = \<lparr>re_DeletePrefix = (\<lambda>p z. (Inr 1, (filter (\<lambda>k. \<not> prefix p k) (fst z), snd z))),
     re_archive_Delete = Some (\<lambda>l z. (None, (fst z, filter (\<lambda>k. k \<noteq> l) (snd z)))),
     re_uuid_string = (\<lambda>i. replicate 35 (CHR ''0'') @ (if i = 7 then ''7'' else ''8'')),
     re_grace = 0, re_enforce = True, re_now = 400 * day\<rparr>"

lemma fx_deletes_only: "deletes_only (\<lambda>z. set (fst z)) (\<lambda>z. set (snd z)) fx_retention"
  by (auto simp: deletes_only_def fx_retention_def)

definition fx_stored :: db where
  "fx_stored = fx_media_db\<lparr>t_events := [fx_event\<lparr>ev_UsedMediaBytes := 400\<rparr>], t_media := [fx_row MediaReady (Some 400) (Some 21)],
     t_replicas := [\<lparr>sr_media_id = 11, sr_provider = ProviderGoogleDrive, sr_location_reference = ''drive'',
       sr_state = ReplicaVerified, sr_size = Some 400,
       sr_checksum_sha256 = Some ''c'', sr_verified_at = Some 30, sr_deleted_at = None\<rparr>]\<rparr>"

definition fx_shelf :: "string list \<times> string list" where
  "fx_shelf = ([EventPrefix (re_uuid_string fx_retention) 7 @ ''a'', EventPrefix (re_uuid_string fx_retention) 8 @ ''b''],
     [''drive'', ''other''])"

definition fx_due :: retention_candidate where
  "fx_due = \<lparr>rc_EventID = 7, rc_PlanCode = PlanFree, rc_RetentionExpiresAt = 2\<rparr>"



end
