(* ===== verification/Guest.thy ===== *)
theory Guest
  imports Entitlement
begin

text \<open>
  Guest sessions (internal/guest): the token a scanned code buys, and the guest limit of the
  event's plan. Random bytes, the digest and the text encoding of a token are fields of
  \<open>guest_service\<close>.
\<close>

definition max_guests :: "uuid \<Rightarrow> db \<Rightarrow> int list" where
  "max_guests eventID s = concat (map (\<lambda>e. map (\<lambda>g. MaxGuests (Limits (gr_EntitlementSnapshot g)))
       (filter (\<lambda>g. gr_EventID g = ev_ID e \<and> gr_Status g = GrantActive) (t_grants s)))
     (filter (\<lambda>e. ev_ID e = eventID \<and> ev_Status e = EventActive) (t_events s)))"

definition guest_count :: "uuid \<Rightarrow> db \<Rightarrow> int" where
  "guest_count eventID s = int (count_where (\<lambda>x. gs_EventID x = eventID) (t_guest_sessions s))"

definition sessions_ok :: "guest_session list \<Rightarrow> bool" where
  "sessions_ok t \<longleftrightarrow> distinct (map gs_ID t) \<and> distinct (map gs_TokenHash t)"

definition insert_session :: "guest_session \<Rightarrow> db \<Rightarrow> error + unit \<times> db" where
  "insert_session x s =
     (if \<not> sessions_ok (t_guest_sessions s @ [x]) then Inl (DB ErrDuplicatedKey)
      else if gs_EventID x \<notin> ev_ID ` set (t_events s) then Inl (DB ErrForeignKeyViolated)
      else Inr ((), s\<lparr>t_guest_sessions := t_guest_sessions s @ [x]\<rparr>))"

definition create_session_tx :: "guest_session \<Rightarrow> db \<Rightarrow> error + unit \<times> db" where
  "create_session_tx x s =
     (case max_guests (gs_EventID x) s of
        [] \<Rightarrow> Inl (Fmt ''guest: event not available'')
      | most # _ \<Rightarrow>
          if 0 < most \<and> most \<le> guest_count (gs_EventID x) s then Inl (Guest ErrGuestLimitReached)
          else insert_session x s)"

definition db_CreateSession :: "guest_session \<Rightarrow> db \<Rightarrow> error option \<times> db" where
  "db_CreateSession x s =
     (case transaction (create_session_tx x) s of (Inl e, s1) \<Rightarrow> (Some e, s1) | (Inr _, s1) \<Rightarrow> (None, s1))"

definition db_FindByToken :: "uuid \<Rightarrow> string \<Rightarrow> time \<Rightarrow> db \<Rightarrow> error + guest_session" where
  "db_FindByToken eventID hash now s =
     (case first_by gs_ID (\<lambda>x. gs_EventID x = eventID \<and> gs_TokenHash x = hash \<and> now < gs_ExpiresAt x)
             (t_guest_sessions s) of
        None \<Rightarrow> Inl (DB ErrRecordNotFound) | Some x \<Rightarrow> Inr x)"

section \<open>The service\<close>

record guest_service =
  gv_ttl :: time
  gv_random :: "error + string"
  gv_sha256 :: "string \<Rightarrow> string"
  gv_encode :: "string \<Rightarrow> string"
  gv_now :: time
  gv_fresh :: uuid

definition new_session :: "guest_service \<Rightarrow> uuid \<Rightarrow> string option \<Rightarrow> string \<Rightarrow> guest_session" where
  "new_session G eventID source token = \<lparr>gs_ID = gv_fresh G, gs_EventID = eventID, gs_QRSourceCode = source,
     gs_TokenHash = gv_sha256 G token, gs_ExpiresAt = gv_now G + gv_ttl G, gs_CreatedAt = gv_now G\<rparr>"

text \<open>The session and the token are returned beside the error of the insert.\<close>

definition CreateSession ::
  "guest_service \<Rightarrow> uuid \<Rightarrow> string option \<Rightarrow> db \<Rightarrow> (error + guest_session \<times> string \<times> error option) \<times> db" where
  "CreateSession G eventID source s =
     (case gv_random G of
        Inl e \<Rightarrow> (Inl e, s)
      | Inr raw \<Rightarrow>
          (let token = gv_encode G raw; x = new_session G eventID source token;
               (r, s1) = db_CreateSession x s
           in (Inr (x, token, r), s1)))"

definition ValidateSession :: "guest_service \<Rightarrow> uuid \<Rightarrow> string \<Rightarrow> db \<Rightarrow> error + guest_session" where
  "ValidateSession G eventID token s = db_FindByToken eventID (gv_sha256 G token) (gv_now G) s"

end
