(* ===== verification/GuestProps.thy ===== *)
theory GuestProps
  imports Guest Fixtures
begin

text \<open>
  Correctness of guest sessions: the guest limit of the plan holds however many guests scan at
  once, and a token is good for its own event until it expires.
\<close>

section \<open>One scan\<close>

lemma insert_session_ok:
  "insert_session x s = Inr (u, s') \<Longrightarrow> s' = s\<lparr>t_guest_sessions := t_guest_sessions s @ [x]\<rparr> \<and>
     sessions_ok (t_guest_sessions s')"
  by (auto simp: insert_session_def split: if_splits)

lemma create_session_cases:
  assumes "db_CreateSession x s = (r, s')"
  obtains (created) m ms where "r = None" "max_guests (gs_EventID x) s = m # ms"
      "\<not> (0 < m \<and> m \<le> guest_count (gs_EventID x) s)"
      "s' = s\<lparr>t_guest_sessions := t_guest_sessions s @ [x]\<rparr>" "sessions_ok (t_guest_sessions s')"
  | (refused) e where "r = Some e" "s' = s"
      "\<And>m ms. max_guests (gs_EventID x) s = m # ms \<Longrightarrow> 0 < m \<Longrightarrow> m \<le> guest_count (gs_EventID x) s \<Longrightarrow>
        e = Guest ErrGuestLimitReached"
proof (cases "create_session_tx x s")
  case (Inl e)
  then show thesis using assms
    by (intro refused) (auto simp: db_CreateSession_def transaction_def create_session_tx_def split: list.splits if_splits)
next
  case (Inr y)
  obtain u s1 where y: "y = (u, s1)" by (rule prod.exhaust)
  then obtain m ms where m: "max_guests (gs_EventID x) s = m # ms" "\<not> (0 < m \<and> m \<le> guest_count (gs_EventID x) s)"
    and i: "insert_session x s = Inr (u, s1)"
    using Inr by (auto simp: create_session_tx_def split: list.splits if_splits)
  from assms Inr y have "r = None" "s' = s1" by (auto simp: db_CreateSession_def transaction_def)
  with m insert_session_ok [OF i] show thesis by (intro created) auto
qed

lemma CreateSession_cases:
  assumes "CreateSession G e src s = (a, s')"
  obtains (random) d where "a = Inl d" "s' = s"
  | (tried) raw r where "a = Inr (new_session G e src (gv_encode G raw), gv_encode G raw, r)" "gv_random G = Inr raw"
      "db_CreateSession (new_session G e src (gv_encode G raw)) s = (r, s')"
  using assms that by (auto simp: CreateSession_def Let_def split: sum.splits prod.splits)

lemma count_sessions_append [simp]:
  "guest_count j (s\<lparr>t_guest_sessions := t_guest_sessions s @ [x]\<rparr>) = guest_count j s + (if gs_EventID x = j then 1 else 0)"
  by (simp add: guest_count_def count_where_def)

section \<open>The guest limit\<close>

text \<open>Scans of any guests of any events, one transaction after the other.\<close>

inductive arrivals :: "db \<Rightarrow> db \<Rightarrow> bool" where
  "CreateSession G e src s = (a, s') \<Longrightarrow> arrivals s s'"

lemma arrival_keeps:
  assumes "arrivals s s'"
  shows "max_guests e s' = max_guests e s \<and>
    (guest_count e s' = guest_count e s \<or> (guest_count e s' = guest_count e s + 1 \<and>
      (\<exists>m ms. max_guests e s = m # ms \<and> \<not> (0 < m \<and> m \<le> guest_count e s))))"
  using assms
proof (cases rule: arrivals.cases)
  case (1 G j src a)
  then show ?thesis
  proof (cases rule: CreateSession_cases)
    case (random d)
    then show ?thesis by simp
  next
    case (tried raw r)
    from tried(3) show ?thesis
    proof (cases rule: create_session_cases)
      case (created m ms)
      then show ?thesis by (auto simp: new_session_def max_guests_def)
    next
      case (refused d)
      then show ?thesis by simp
    qed
  qed
qed

text \<open>C36: the guest limit is never passed. However many guests scan the code of an event, in
  whatever order, an event whose plan allows \<open>m\<close> guests ends with at most \<open>m\<close> sessions (or with
  those it had, when the plan allowed more before); an event that is not active takes no guest.\<close>

theorem guest_limit_kept:
  assumes "arrivals\<^sup>*\<^sup>* s s'"
  shows "(\<forall>m ms. max_guests e s = m # ms \<and> 0 < m \<longrightarrow> guest_count e s' \<le> max m (guest_count e s)) \<and>
    (max_guests e s = [] \<longrightarrow> guest_count e s' = guest_count e s) \<and> max_guests e s' = max_guests e s"
  using assms
proof (induction rule: rtranclp_induct)
  case base
  then show ?case by simp
next
  case (step s1 s2)
  from arrival_keeps [OF step.hyps(2), of e] step.IH show ?case by auto
qed

section \<open>Tokens\<close>

text \<open>Whatever else happens to the database; no operation changes or removes a session.\<close>

inductive guest_moves :: "db \<Rightarrow> db \<Rightarrow> bool" where
  scan: "CreateSession G e src s = (a, s') \<Longrightarrow> guest_moves s s'"
| elsewhere: "t_guest_sessions s' = t_guest_sessions s \<Longrightarrow> guest_moves s s'"

lemma guest_moves_keep:
  assumes "guest_moves s s'" "sessions_ok (t_guest_sessions s)"
  shows "sessions_ok (t_guest_sessions s') \<and> set (t_guest_sessions s) \<subseteq> set (t_guest_sessions s')"
  using assms(1)
proof (cases rule: guest_moves.cases)
  case (scan G e src a)
  then show ?thesis
  proof (cases rule: CreateSession_cases)
    case (random d)
    then show ?thesis using assms(2) by simp
  next
    case (tried raw r)
    from tried(3) show ?thesis
      by (cases rule: create_session_cases) (use assms(2) in auto)
  qed
next
  case elsewhere
  then show ?thesis using assms(2) by simp
qed

lemma guest_runs_keep:
  "guest_moves\<^sup>*\<^sup>* s s' \<Longrightarrow> sessions_ok (t_guest_sessions s) \<Longrightarrow>
     sessions_ok (t_guest_sessions s') \<and> set (t_guest_sessions s) \<subseteq> set (t_guest_sessions s')"
  by (induction rule: rtranclp_induct) (use guest_moves_keep in blast)+

text \<open>C37: a guest's token is good for exactly its event and its time. The token handed out with a
  session validates, whatever happens meanwhile, for the event it was issued for until the
  session expires; for any other event, and after that time, it is not found.\<close>

theorem guest_token_roundtrip:
  assumes "CreateSession G e src s = (Inr (x, token, None), s1)" "guest_moves\<^sup>*\<^sup>* s1 s2"
    and "gv_sha256 G' = gv_sha256 G"
  shows "ValidateSession G' e' token s2 =
    (if e' = e \<and> gv_now G' < gv_now G + gv_ttl G then Inr x else Inl (DB ErrRecordNotFound))"
proof -
  from assms(1) obtain raw where x: "x = new_session G e src token" "token = gv_encode G raw"
    and c: "db_CreateSession x s = (None, s1)" by (cases rule: CreateSession_cases) auto
  from c have s1: "x \<in> set (t_guest_sessions s1)" "sessions_ok (t_guest_sessions s1)"
    by (cases rule: create_session_cases; simp)+
  from guest_runs_keep [OF assms(2) s1(2)] s1(1)
  have s2: "sessions_ok (t_guest_sessions s2)" "x \<in> set (t_guest_sessions s2)" by auto
  have only: "v = x" if "v \<in> set (t_guest_sessions s2)" "gs_TokenHash v = gs_TokenHash x" for v
    using s2 that by (auto simp: sessions_ok_def distinct_map dest: inj_onD)
  have f: "gs_EventID x = e" "gs_TokenHash x = gv_sha256 G token" "gs_ExpiresAt x = gv_now G + gv_ttl G"
    by (simp_all add: x(1) new_session_def)
  let ?p = "\<lambda>v. gs_EventID v = e' \<and> gs_TokenHash v = gv_sha256 G token \<and> gv_now G' < gs_ExpiresAt v"
  show ?thesis
  proof (cases "e' = e \<and> gv_now G' < gv_now G + gv_ttl G")
    case True
    then have "first_by gs_ID ?p (t_guest_sessions s2) \<noteq> None" using s2(2) f by (auto simp: first_by_None)
    then obtain v where v: "first_by gs_ID ?p (t_guest_sessions s2) = Some v" by blast
    have "v = x" using first_by_Some [OF v] only f(2) by simp
    then show ?thesis using v True by (simp add: ValidateSession_def db_FindByToken_def assms(3))
  next
    case False
    have "first_by gs_ID ?p (t_guest_sessions s2) = None"
      unfolding first_by_None using False only f by metis
    then show ?thesis using False by (auto simp: ValidateSession_def db_FindByToken_def assms(3))
  qed
qed

section \<open>Witnesses\<close>

definition fx_guests :: "uuid \<Rightarrow> guest_service" where
  "fx_guests i = \<lparr>gv_ttl = 100, gv_random = Inr ''r'', gv_sha256 = (\<lambda>x. ''sha:'' @ x),
     gv_encode = (\<lambda>x. ''b64:'' @ x @ (if i = 1 then '''' else ''x'')), gv_now = 10, gv_fresh = i\<rparr>"

text \<open>The plan of the fixture allows two guests: two scans fill the event, a third is refused.\<close>

definition fx_full :: db where
  "fx_full = snd (CreateSession (fx_guests 2) 7 None (snd (CreateSession (fx_guests 1) 7 None fx_db)))"

theorem guest_limit_kept_witness:
  "max_guests 7 fx_db = [2] \<and> guest_count 7 fx_full = 2 \<and> arrivals\<^sup>*\<^sup>* fx_db fx_full \<and> guest_count 7 fx_full \<le> 2"
proof -
  let ?s = "snd (CreateSession (fx_guests 1) 7 None fx_db)"
  have one: "arrivals fx_db ?s" by (rule arrivals.intros) (rule prod.collapse [symmetric])
  have two: "arrivals ?s fx_full" unfolding fx_full_def by (rule arrivals.intros) (rule prod.collapse [symmetric])
  from one two have run: "arrivals\<^sup>*\<^sup>* fx_db fx_full" by (meson r_into_rtranclp rtranclp.rtrancl_into_rtrancl)
  have m: "max_guests 7 fx_db = [2]" by code_simp
  have zero: "guest_count 7 fx_db = 0" by code_simp
  have "guest_count 7 fx_full = 2" by code_simp
  then show ?thesis using guest_limit_kept [OF run, of 7] m zero run by auto
qed

theorem guest_token_roundtrip_witness:
  "\<exists>x token s1. CreateSession (fx_guests 1) 7 None fx_db = (Inr (x, token, None), s1) \<and>
    ValidateSession (fx_guests 3) 7 token s1 = Inr x \<and> ValidateSession (fx_guests 3) 8 token s1 = Inl (DB ErrRecordNotFound)"
proof -
  let ?r = "CreateSession (fx_guests 1) 7 None fx_db"
  have "(case fst ?r of Inl e \<Rightarrow> False | Inr (x, t, e) \<Rightarrow> e = None)" by code_simp
  then obtain x token s1 where r: "?r = (Inr (x, token, None), s1)" by (cases ?r; cases "fst ?r") auto
  have "gv_sha256 (fx_guests 3) = gv_sha256 (fx_guests 1)" by (simp add: fx_guests_def)
  from guest_token_roundtrip [OF r rtranclp.rtrancl_refl this] r show ?thesis
    by (auto simp: fx_guests_def)
qed

end
