(* ===== verification/LiveWall.thy ===== *)
theory LiveWall
  imports Schema
begin

text \<open>
  Live wall sessions (internal/livewall/livewall.go): the repository over the table
  \<open>live_wall_sessions\<close> with its constraints, and the service. The digest and the random
  token are fields of \<open>wall_service\<close>; what the notifiers are told is part of a result.
\<close>

datatype wall_command =
    CommandPlay
  | CommandPause
  | CommandShowCTA
  | CommandHideCTA
  | CommandNext
  | CommandPrevious
  | CommandBlackout
  | CommandResume
  | CommandOther string

record wall_change =
  wc_Session :: wall_session
  wc_Command :: wall_command

record presentation_settings =
  ps_ContentPolicy :: "content_policy option"
  ps_CTAEveryMedia :: "int option"
  ps_LayoutMode :: "layout_mode option"
  ps_SlideDuration :: "int option"
  ps_QRStrategy :: "qr_strategy option"
  ps_ArrivalBehavior :: "arrival_behavior option"
  ps_TransitionMode :: "transition_mode option"
  ps_ExpectedRevision :: "int option"

definition DefaultCTAEveryMedia :: int where "DefaultCTAEveryMedia = 8"
definition MinCTAEveryMedia :: int where "MinCTAEveryMedia = 3"
definition MaxCTAEveryMedia :: int where "MaxCTAEveryMedia = 30"
definition DefaultSlideDuration :: int where "DefaultSlideDuration = 5"
definition MinSlideDuration :: int where "MinSlideDuration = 5"
definition MaxSlideDuration :: int where "MaxSlideDuration = 12"

section \<open>Constraints of the table\<close>

fun known_policy :: "content_policy \<Rightarrow> bool" where
  "known_policy (PolicyOther x) = False"
| "known_policy _ = True"

fun known_layout :: "layout_mode \<Rightarrow> bool" where
  "known_layout (LayoutOther x) = False"
| "known_layout _ = True"

fun known_qr :: "qr_strategy \<Rightarrow> bool" where
  "known_qr (QROther x) = False"
| "known_qr _ = True"

fun known_arrival :: "arrival_behavior \<Rightarrow> bool" where
  "known_arrival (ArrivalOther x) = False"
| "known_arrival _ = True"

fun known_transition :: "transition_mode \<Rightarrow> bool" where
  "known_transition (TransitionOther x) = False"
| "known_transition _ = True"

definition wall_row_ok :: "wall_session \<Rightarrow> bool" where
  "wall_row_ok w \<longleftrightarrow> known_policy (lw_ContentPolicy w) \<and>
     3 \<le> lw_CTAEveryMedia w \<and> lw_CTAEveryMedia w \<le> 30 \<and> known_layout (lw_LayoutMode w) \<and>
     5 \<le> lw_SlideDuration w \<and> lw_SlideDuration w \<le> 12 \<and> known_qr (lw_QRStrategy w) \<and>
     known_arrival (lw_ArrivalBehavior w) \<and> known_transition (lw_TransitionMode w)"

definition write_walls :: "wall_session list \<Rightarrow> db \<Rightarrow> error + db" where
  "write_walls t s =
     (if \<not> list_all wall_row_ok t then Inl (DB ErrCheckViolated)
      else if \<not> list_all (\<lambda>w. in_i64 (lw_Revision w)) t then Inl (DB ErrOutOfRange)
      else if \<not> (distinct (map lw_ID t) \<and> distinct (map lw_TokenHash t)) then Inl (DB ErrDuplicatedKey)
      else if \<not> list_all (\<lambda>w. lw_EventID w \<in> ev_ID ` set (t_events s)) t then Inl (DB ErrForeignKeyViolated)
      else Inr (s\<lparr>t_walls := t\<rparr>))"

section \<open>The repository\<close>

text \<open>
  An insert leaves out a zero value of a column that has a default, and reads the default
  back.
\<close>

definition column_defaults :: "wall_session \<Rightarrow> wall_session" where
  "column_defaults w = w\<lparr>
     lw_ContentPolicy := (if lw_ContentPolicy w = PolicyOther '''' then ContentPolicyAutoApproved else lw_ContentPolicy w),
     lw_IsPlaying := True,
     lw_CTAEveryMedia := (if lw_CTAEveryMedia w = 0 then 8 else lw_CTAEveryMedia w),
     lw_LayoutMode := (if lw_LayoutMode w = LayoutOther '''' then LayoutModeSpotlight else lw_LayoutMode w),
     lw_SlideDuration := (if lw_SlideDuration w = 0 then 5 else lw_SlideDuration w),
     lw_QRStrategy := (if lw_QRStrategy w = QROther '''' then QRStrategyInterval else lw_QRStrategy w),
     lw_ArrivalBehavior := (if lw_ArrivalBehavior w = ArrivalOther '''' then ArrivalBehaviorQueue else lw_ArrivalBehavior w),
     lw_TransitionMode := (if lw_TransitionMode w = TransitionOther '''' then TransitionModeCinematic else lw_TransitionMode w)\<rparr>"

definition db_CreateWall :: "wall_session \<Rightarrow> db \<Rightarrow> (wall_session \<times> error option) \<times> db" where
  "db_CreateWall w s =
     (case write_walls (t_walls s @ [column_defaults w]) s of
        Inl e \<Rightarrow> ((w, Some e), s)
      | Inr s1 \<Rightarrow> ((column_defaults w, None), s1))"

definition found_wall :: "wall_session option \<Rightarrow> error + wall_session" where
  "found_wall r = (case r of None \<Rightarrow> Inl (Wall ErrWallNotFound) | Some w \<Rightarrow> Inr w)"

definition db_FindOwnedWall :: "uuid \<Rightarrow> uuid \<Rightarrow> db \<Rightarrow> error + wall_session" where
  "db_FindOwnedWall eventID i s =
     found_wall (first_by lw_ID (\<lambda>w. lw_ID w = i \<and> lw_EventID w = eventID) (t_walls s))"

definition db_FindToken :: "string \<Rightarrow> time \<Rightarrow> db \<Rightarrow> error + wall_session" where
  "db_FindToken hash now s = found_wall
     (first_by lw_ID (\<lambda>w. lw_TokenHash w = hash \<and> lw_Status w = WallLive \<and> now < lw_ExpiresAt w) (t_walls s))"

definition live_row :: "uuid \<Rightarrow> uuid \<Rightarrow> int option \<Rightarrow> wall_session \<Rightarrow> bool" where
  "live_row eventID i revision w \<longleftrightarrow> lw_ID w = i \<and> lw_EventID w = eventID \<and> lw_Status w = WallLive \<and>
     (case revision of None \<Rightarrow> True | Some r \<Rightarrow> lw_Revision w = r)"

text \<open>One UPDATE .. RETURNING over the live row; \<open>missing\<close> is the error when it matches none.\<close>

definition update_wall ::
  "(wall_session \<Rightarrow> bool) \<Rightarrow> (wall_session \<Rightarrow> wall_session) \<Rightarrow> error \<Rightarrow> db \<Rightarrow> (error + wall_session) \<times> db" where
  "update_wall p f missing s =
     (case write_walls (update_where p f (t_walls s)) s of
        Inl e \<Rightarrow> (Inl e, s)
      | Inr s1 \<Rightarrow>
          (case filter p (t_walls s) of
             [w] \<Rightarrow> (Inr (f w), s1)
           | _ \<Rightarrow> (Inl missing, s1)))"

definition updateLive ::
  "uuid \<Rightarrow> uuid \<Rightarrow> (wall_session \<Rightarrow> wall_session) \<Rightarrow> db \<Rightarrow> (error + wall_session) \<times> db" where
  "updateLive eventID i f = update_wall (live_row eventID i None) f (Wall ErrWallNotFound)"

definition db_EndWall :: "uuid \<Rightarrow> uuid \<Rightarrow> wall_status \<Rightarrow> time \<Rightarrow> db \<Rightarrow> (error + wall_session) \<times> db" where
  "db_EndWall eventID i st endedAt =
     updateLive eventID i (\<lambda>w. w\<lparr>lw_Status := st, lw_EndedAt := Some endedAt\<rparr>)"

definition bump :: "wall_session \<Rightarrow> wall_session" where
  "bump w = w\<lparr>lw_Revision := lw_Revision w + 1\<rparr>"

fun command_updates :: "wall_command \<Rightarrow> (wall_session \<Rightarrow> wall_session) option" where
  "command_updates CommandPlay = Some (\<lambda>w. bump (w\<lparr>lw_IsPlaying := True\<rparr>))"
| "command_updates CommandPause = Some (\<lambda>w. bump (w\<lparr>lw_IsPlaying := False\<rparr>))"
| "command_updates CommandShowCTA = Some (\<lambda>w. bump (w\<lparr>lw_ShowCTA := True\<rparr>))"
| "command_updates CommandHideCTA = Some (\<lambda>w. bump (w\<lparr>lw_ShowCTA := False\<rparr>))"
| "command_updates CommandNext = Some bump"
| "command_updates CommandPrevious = Some bump"
| "command_updates CommandBlackout = Some (\<lambda>w. bump (w\<lparr>lw_IsBlackout := True\<rparr>))"
| "command_updates CommandResume = Some (\<lambda>w. bump (w\<lparr>lw_IsBlackout := False\<rparr>))"
| "command_updates (CommandOther x) = None"

definition db_WallCommand :: "uuid \<Rightarrow> uuid \<Rightarrow> wall_command \<Rightarrow> db \<Rightarrow> (error + wall_session) \<times> db" where
  "db_WallCommand eventID i command s =
     (case command_updates command of
        None \<Rightarrow> (Inl (Wall ErrInvalidCommand), s)
      | Some f \<Rightarrow> updateLive eventID i f s)"

definition db_UpdateContentPolicy :: "uuid \<Rightarrow> uuid \<Rightarrow> content_policy \<Rightarrow> db \<Rightarrow> (error + wall_session) \<times> db" where
  "db_UpdateContentPolicy eventID i policy s =
     (if policy \<noteq> ContentPolicyFeaturedOnly \<and> policy \<noteq> ContentPolicyAutoApproved
      then (Inl (Wall ErrInvalidContentPolicy), s)
      else updateLive eventID i (\<lambda>w. bump (w\<lparr>lw_ContentPolicy := policy\<rparr>)) s)"

definition db_UpdateCTAEveryMedia :: "uuid \<Rightarrow> uuid \<Rightarrow> int \<Rightarrow> db \<Rightarrow> (error + wall_session) \<times> db" where
  "db_UpdateCTAEveryMedia eventID i every = updateLive eventID i (\<lambda>w. bump (w\<lparr>lw_CTAEveryMedia := every\<rparr>))"

definition presentation_updates :: "presentation_settings \<Rightarrow> wall_session \<Rightarrow> wall_session" where
  "presentation_updates p w = bump (w\<lparr>
     lw_ContentPolicy := coalesce (ps_ContentPolicy p) (lw_ContentPolicy w),
     lw_CTAEveryMedia := coalesce (ps_CTAEveryMedia p) (lw_CTAEveryMedia w),
     lw_LayoutMode := coalesce (ps_LayoutMode p) (lw_LayoutMode w),
     lw_SlideDuration := coalesce (ps_SlideDuration p) (lw_SlideDuration w),
     lw_QRStrategy := coalesce (ps_QRStrategy p) (lw_QRStrategy w),
     lw_ArrivalBehavior := coalesce (ps_ArrivalBehavior p) (lw_ArrivalBehavior w),
     lw_TransitionMode := coalesce (ps_TransitionMode p) (lw_TransitionMode w)\<rparr>)"

definition db_UpdatePresentation ::
  "uuid \<Rightarrow> uuid \<Rightarrow> presentation_settings \<Rightarrow> db \<Rightarrow> (error + wall_session) \<times> db" where
  "db_UpdatePresentation eventID i p =
     update_wall (live_row eventID i (ps_ExpectedRevision p)) (presentation_updates p)
       (if ps_ExpectedRevision p \<noteq> None then Wall ErrRevisionConflict else Wall ErrWallNotFound)"

section \<open>The service\<close>

record wall_service =
  ls_lifetime :: time
  ls_notifiers :: nat
  ls_random :: "error + string"
  ls_encode :: "string \<Rightarrow> string"
  ls_sha256 :: "string \<Rightarrow> string"
  ls_now :: time
  ls_fresh :: uuid

definition NewWallService ::
  "time \<Rightarrow> nat \<Rightarrow> (error + string) \<Rightarrow> (string \<Rightarrow> string) \<Rightarrow> (string \<Rightarrow> string) \<Rightarrow> time \<Rightarrow> uuid \<Rightarrow> wall_service" where
  "NewWallService lifetime notifiers random enc sha now fresh =
     \<lparr>ls_lifetime = (if lifetime \<le> 0 then 12 * hour else lifetime), ls_notifiers = notifiers,
      ls_random = random, ls_encode = enc, ls_sha256 = sha, ls_now = now, ls_fresh = fresh\<rparr>"

definition notify_wall :: "wall_service \<Rightarrow> wall_session \<Rightarrow> wall_command \<Rightarrow> wall_change list" where
  "notify_wall W w c = replicate (ls_notifiers W) \<lparr>wc_Session = w, wc_Command = c\<rparr>"

definition tokenHash :: "wall_service \<Rightarrow> string \<Rightarrow> string" where
  "tokenHash W token = ls_encode W (ls_sha256 W token)"

definition new_wall :: "wall_service \<Rightarrow> uuid \<Rightarrow> string \<Rightarrow> string \<Rightarrow> transition_mode option \<Rightarrow> string \<Rightarrow> wall_session" where
  "new_wall W eventID name slug transition token = \<lparr>lw_ID = ls_fresh W, lw_EventID = eventID,
     lw_EventName = name, lw_EventSlug = slug, lw_TokenHash = tokenHash W token, lw_Status = WallLive,
     lw_ContentPolicy = ContentPolicyAutoApproved, lw_IsPlaying = False, lw_ShowCTA = False,
     lw_IsBlackout = False, lw_CTAEveryMedia = DefaultCTAEveryMedia, lw_LayoutMode = LayoutModeSpotlight,
     lw_SlideDuration = DefaultSlideDuration, lw_QRStrategy = QRStrategyInterval,
     lw_ArrivalBehavior = ArrivalBehaviorQueue,
     lw_TransitionMode = (case transition of None \<Rightarrow> TransitionModeCinematic
       | Some t \<Rightarrow> if t = TransitionOther '''' then TransitionModeCinematic else t),
     lw_Revision = 0, lw_ExpiresAt = ls_now W + ls_lifetime W, lw_CreatedAt = ls_now W, lw_EndedAt = None\<rparr>"

definition CreateWall ::
  "wall_service \<Rightarrow> uuid \<Rightarrow> string \<Rightarrow> string \<Rightarrow> transition_mode option \<Rightarrow> db \<Rightarrow>
     (error + wall_session \<times> string \<times> error option) \<times> db" where
  "CreateWall W eventID name slug transition s =
     (case ls_random W of
        Inl e \<Rightarrow> (Inl e, s)
      | Inr raw \<Rightarrow>
          (let token = ls_encode W raw;
               ((w, r), s1) = db_CreateWall (new_wall W eventID name slug transition token) s
           in (Inr (w, token, r), s1)))"

definition GetPublicWall :: "wall_service \<Rightarrow> string \<Rightarrow> db \<Rightarrow> error + wall_session" where
  "GetPublicWall W token s = db_FindToken (tokenHash W token) (ls_now W) s"

text \<open>The notifiers are told of a change that was written.\<close>

definition told ::
  "wall_service \<Rightarrow> wall_command \<Rightarrow> (error + wall_session) \<times> db \<Rightarrow>
     ((error + wall_session) \<times> wall_change list) \<times> db" where
  "told W c r = (case r of
       (Inl e, s) \<Rightarrow> ((Inl e, []), s)
     | (Inr w, s) \<Rightarrow> ((Inr w, notify_wall W w c), s))"

definition EndWall :: "wall_service \<Rightarrow> uuid \<Rightarrow> uuid \<Rightarrow> db \<Rightarrow> ((error + wall_session) \<times> wall_change list) \<times> db" where
  "EndWall W eventID i s = told W (CommandOther '''') (db_EndWall eventID i WallEnded (ls_now W) s)"

definition RevokeWall :: "wall_service \<Rightarrow> uuid \<Rightarrow> uuid \<Rightarrow> db \<Rightarrow> ((error + wall_session) \<times> wall_change list) \<times> db" where
  "RevokeWall W eventID i s = told W (CommandOther '''') (db_EndWall eventID i WallRevoked (ls_now W) s)"

definition WallCommand ::
  "wall_service \<Rightarrow> uuid \<Rightarrow> uuid \<Rightarrow> wall_command \<Rightarrow> db \<Rightarrow> ((error + wall_session) \<times> wall_change list) \<times> db" where
  "WallCommand W eventID i c s = told W c (db_WallCommand eventID i c s)"

definition UpdateContentPolicy ::
  "wall_service \<Rightarrow> uuid \<Rightarrow> uuid \<Rightarrow> content_policy \<Rightarrow> db \<Rightarrow> ((error + wall_session) \<times> wall_change list) \<times> db" where
  "UpdateContentPolicy W eventID i policy s =
     told W (CommandOther '''') (db_UpdateContentPolicy eventID i policy s)"

definition UpdateCTAEveryMedia ::
  "wall_service \<Rightarrow> uuid \<Rightarrow> uuid \<Rightarrow> int \<Rightarrow> db \<Rightarrow> ((error + wall_session) \<times> wall_change list) \<times> db" where
  "UpdateCTAEveryMedia W eventID i every s =
     (if every < MinCTAEveryMedia \<or> MaxCTAEveryMedia < every
      then ((Inl (Wall ErrInvalidCTAEveryMedia), []), s)
      else told W (CommandOther '''') (db_UpdateCTAEveryMedia eventID i every s))"

fun if_given :: "('a \<Rightarrow> bool) \<Rightarrow> 'a option \<Rightarrow> bool" where
  "if_given p None = True"
| "if_given p (Some x) = p x"

definition nothing_given :: "presentation_settings \<Rightarrow> bool" where
  "nothing_given p \<longleftrightarrow> ps_ContentPolicy p = None \<and> ps_CTAEveryMedia p = None \<and> ps_LayoutMode p = None \<and>
     ps_SlideDuration p = None \<and> ps_QRStrategy p = None \<and> ps_ArrivalBehavior p = None \<and>
     ps_TransitionMode p = None"

definition valid_presentation :: "presentation_settings \<Rightarrow> bool" where
  "valid_presentation p \<longleftrightarrow>
     if_given (\<lambda>x. x = ContentPolicyAutoApproved \<or> x = ContentPolicyFeaturedOnly) (ps_ContentPolicy p) \<and>
     if_given (\<lambda>x. MinCTAEveryMedia \<le> x \<and> x \<le> MaxCTAEveryMedia) (ps_CTAEveryMedia p) \<and>
     if_given (\<lambda>x. x = LayoutModeSpotlight \<or> x = LayoutModeMosaic \<or> x = LayoutModeFeatured) (ps_LayoutMode p) \<and>
     if_given (\<lambda>x. MinSlideDuration \<le> x \<and> x \<le> MaxSlideDuration) (ps_SlideDuration p) \<and>
     if_given (\<lambda>x. x = QRStrategyInterval \<or> x = QRStrategyAlways \<or> x = QRStrategyEmptyOnly \<or>
       x = QRStrategyHidden) (ps_QRStrategy p) \<and>
     if_given (\<lambda>x. x = ArrivalBehaviorQueue \<or> x = ArrivalBehaviorNext) (ps_ArrivalBehavior p) \<and>
     if_given (\<lambda>x. x = TransitionModeClassic \<or> x = TransitionModeCinematic \<or> x = TransitionModeFloat3D \<or>
       x = TransitionModeFlash \<or> x = TransitionModeLivingMosaic) (ps_TransitionMode p)"

definition UpdatePresentation ::
  "wall_service \<Rightarrow> uuid \<Rightarrow> uuid \<Rightarrow> presentation_settings \<Rightarrow> db \<Rightarrow>
     ((error + wall_session) \<times> wall_change list) \<times> db" where
  "UpdatePresentation W eventID i p s =
     (if nothing_given p then ((Inl (Wall ErrInvalidPresentation), []), s)
      else if \<not> valid_presentation p then ((Inl (Wall ErrInvalidPresentation), []), s)
      else told W (CommandOther '''') (db_UpdatePresentation eventID i p s))"

end
