(* ===== verification/WallProps.thy ===== *)
theory WallProps
  imports LiveWall Fixtures
begin

text \<open>
  Correctness of the live wall: the checks of the service and the constraints of the table
  agree, a change of settings that names a revision is never lost under another, and a token
  shows its wall exactly as long as the wall is live.
\<close>

section \<open>All operations on a wall\<close>

datatype wall_op =
    OpEnd uuid uuid
  | OpRevoke uuid uuid
  | OpCommand uuid uuid wall_command
  | OpPolicy uuid uuid content_policy
  | OpCTA uuid uuid int
  | OpPresentation uuid uuid presentation_settings

fun wall_call :: "wall_service \<Rightarrow> wall_op \<Rightarrow> db \<Rightarrow> ((error + wall_session) \<times> wall_change list) \<times> db" where
  "wall_call W (OpEnd e i) s = EndWall W e i s"
| "wall_call W (OpRevoke e i) s = RevokeWall W e i s"
| "wall_call W (OpCommand e i c) s = WallCommand W e i c s"
| "wall_call W (OpPolicy e i p) s = UpdateContentPolicy W e i p s"
| "wall_call W (OpCTA e i n) s = UpdateCTAEveryMedia W e i n s"
| "wall_call W (OpPresentation e i p) s = UpdatePresentation W e i p s"

section \<open>Typing\<close>

text \<open>The constraints of the table, as \<open>write_walls\<close> checks them.\<close>

definition walls_typed :: "db \<Rightarrow> bool" where
  "walls_typed s \<longleftrightarrow> list_all wall_row_ok (t_walls s) \<and> list_all (\<lambda>w. in_i64 (lw_Revision w)) (t_walls s) \<and>
     distinct (map lw_ID (t_walls s)) \<and> distinct (map lw_TokenHash (t_walls s)) \<and>
     list_all (\<lambda>w. lw_EventID w \<in> ev_ID ` set (t_events s)) (t_walls s)"

lemma write_walls_ok:
  "write_walls t s = Inr s' \<Longrightarrow> s' = s\<lparr>t_walls := t\<rparr> \<and> walls_typed s'"
  by (auto simp: write_walls_def walls_typed_def split: if_splits)

text \<open>
  A change of a row that keeps its key, token, event and expiry, that never takes the revision
  back, and that keeps the row well-typed.
\<close>

definition retypes :: "(wall_session \<Rightarrow> wall_session) \<Rightarrow> bool" where
  "retypes f \<longleftrightarrow> (\<forall>w. lw_ID (f w) = lw_ID w \<and> lw_TokenHash (f w) = lw_TokenHash w \<and> lw_EventID (f w) = lw_EventID w \<and>
     lw_ExpiresAt (f w) = lw_ExpiresAt w \<and> lw_Revision w \<le> lw_Revision (f w) \<and> (wall_row_ok w \<longrightarrow> wall_row_ok (f w)))"

lemma update_retypes:
  assumes "retypes f" "walls_typed s"
  shows "write_walls (update_where p f (t_walls s)) s = Inl (DB ErrOutOfRange) \<or>
    write_walls (update_where p f (t_walls s)) s = Inr (s\<lparr>t_walls := update_where p f (t_walls s)\<rparr>)"
proof -
  let ?t = "update_where p f (t_walls s)"
  have ids: "map lw_ID ?t = map lw_ID (t_walls s)" "map lw_TokenHash ?t = map lw_TokenHash (t_walls s)"
    using assms(1) by (simp_all add: map_update_where_same retypes_def)
  have "list_all wall_row_ok ?t" "list_all (\<lambda>w. lw_EventID w \<in> ev_ID ` set (t_events s)) ?t"
    using assms by (auto simp: list_all_iff set_update_where walls_typed_def retypes_def)
  then show ?thesis using assms(2) by (auto simp: write_walls_def ids walls_typed_def)
qed

text \<open>An update addresses at most one row: it writes that row, or it changes nothing.\<close>

lemma one_of_key: "distinct (map k t) \<Longrightarrow> length (filter (\<lambda>x. k x = i) t) \<le> 1"
proof (induction t)
  case (Cons x t)
  then show ?case by (cases "k x = i") (auto simp: filter_empty_conv rev_image_eqI)
qed simp

lemma update_wall_cases:
  assumes "retypes f" "walls_typed s" "update_wall (live_row e i n) f missing s = (r, s')"
  obtains (none) d where "r = Inl d" "d = missing \<or> d = DB ErrOutOfRange" "s' = s"
  | (one) w where "w \<in> set (t_walls s)" "live_row e i n w" "r = Inr (f w)"
      "s' = s\<lparr>t_walls := update_where (live_row e i n) f (t_walls s)\<rparr>" "walls_typed s'"
  using update_retypes [OF assms(1,2), of "live_row e i n"]
proof
  assume "write_walls (update_where (live_row e i n) f (t_walls s)) s = Inl (DB ErrOutOfRange)"
  then show thesis using assms(3) by (intro none) (auto simp: update_wall_def)
next
  let ?t = "update_where (live_row e i n) f (t_walls s)"
  assume w: "write_walls ?t s = Inr (s\<lparr>t_walls := ?t\<rparr>)"
  have "filter (live_row e i n) (t_walls s) = filter (live_row e i n) (filter (\<lambda>w. lw_ID w = i) (t_walls s))"
    by (auto simp: live_row_def intro: filter_cong)
  then have "length (filter (live_row e i n) (t_walls s)) \<le> length (filter (\<lambda>w. lw_ID w = i) (t_walls s))"
    by (metis length_filter_le)
  also have "\<dots> \<le> 1"
    using assms(2) by (intro one_of_key) (simp add: walls_typed_def)
  finally consider "filter (live_row e i n) (t_walls s) = []" | x where "filter (live_row e i n) (t_walls s) = [x]"
    by (cases "filter (live_row e i n) (t_walls s)" rule: list.exhaust)
      (auto simp: le_Suc_eq)
  then show thesis
  proof cases
    case 1
    then have "?t = t_walls s" by (auto simp: filter_empty_conv intro: update_where_none)
    then show thesis using assms(3) w 1 by (intro none) (auto simp: update_wall_def)
  next
    case (2 x)
    then have "x \<in> set (t_walls s) \<and> live_row e i n x" by (metis filter_eq_ConsD in_set_conv_decomp)
    then show thesis using assms(3) w 2 write_walls_ok [OF w] by (intro one [of x]) (auto simp: update_wall_def)
  qed
qed

lemma told_Pair: "told W c (r, s) = ((r, case r of Inl e \<Rightarrow> [] | Inr w \<Rightarrow> notify_wall W w c), s)"
  by (cases r) (simp_all add: told_def)

lemma row_ok_fields [simp]:
  "wall_row_ok (w\<lparr>lw_Status := st, lw_EndedAt := at\<rparr>) = wall_row_ok w"
  "wall_row_ok (w\<lparr>lw_IsPlaying := b\<rparr>) = wall_row_ok w" "wall_row_ok (w\<lparr>lw_ShowCTA := b\<rparr>) = wall_row_ok w"
  "wall_row_ok (w\<lparr>lw_IsBlackout := b\<rparr>) = wall_row_ok w" "wall_row_ok (w\<lparr>lw_Revision := n\<rparr>) = wall_row_ok w"
  by (simp_all add: wall_row_ok_def)

lemma command_retypes: "command_updates c = Some f \<Longrightarrow> retypes f"
  by (cases c) (auto simp: retypes_def bump_def)

lemma policy_retypes:
  "p = ContentPolicyFeaturedOnly \<or> p = ContentPolicyAutoApproved \<Longrightarrow> retypes (\<lambda>w. bump (w\<lparr>lw_ContentPolicy := p\<rparr>))"
  by (auto simp: retypes_def bump_def wall_row_ok_def)

lemma cta_retypes:
  "MinCTAEveryMedia \<le> n \<Longrightarrow> n \<le> MaxCTAEveryMedia \<Longrightarrow> retypes (\<lambda>w. bump (w\<lparr>lw_CTAEveryMedia := n\<rparr>))"
  by (auto simp: retypes_def bump_def wall_row_ok_def MinCTAEveryMedia_def MaxCTAEveryMedia_def)

lemma coalesce_typed: "if_given P x \<Longrightarrow> (\<And>y. P y \<Longrightarrow> Q y) \<Longrightarrow> Q d \<Longrightarrow> Q (coalesce x d)"
  by (cases x) auto

lemma presentation_retypes:
  assumes "valid_presentation p"
  shows "retypes (presentation_updates p)"
proof -
  have "wall_row_ok (presentation_updates p w)" if w: "wall_row_ok w" for w
  proof -
    note v = assms [unfolded valid_presentation_def]
    have "known_policy (coalesce (ps_ContentPolicy p) (lw_ContentPolicy w))"
      by (rule coalesce_typed [OF conjunct1 [OF v]]) (use w in \<open>auto simp: wall_row_ok_def\<close>)
    moreover have "3 \<le> coalesce (ps_CTAEveryMedia p) (lw_CTAEveryMedia w) \<and> coalesce (ps_CTAEveryMedia p) (lw_CTAEveryMedia w) \<le> 30"
      by (rule coalesce_typed [OF conjunct1 [OF conjunct2 [OF v]]])
        (use w in \<open>auto simp: wall_row_ok_def MinCTAEveryMedia_def MaxCTAEveryMedia_def\<close>)
    moreover have "known_layout (coalesce (ps_LayoutMode p) (lw_LayoutMode w))"
      by (rule coalesce_typed [OF v [THEN conjunct2, THEN conjunct2, THEN conjunct1]])
        (use w in \<open>auto simp: wall_row_ok_def\<close>)
    moreover have "5 \<le> coalesce (ps_SlideDuration p) (lw_SlideDuration w) \<and> coalesce (ps_SlideDuration p) (lw_SlideDuration w) \<le> 12"
      by (rule coalesce_typed [OF v [THEN conjunct2, THEN conjunct2, THEN conjunct2, THEN conjunct1]])
        (use w in \<open>auto simp: wall_row_ok_def MinSlideDuration_def MaxSlideDuration_def\<close>)
    moreover have "known_qr (coalesce (ps_QRStrategy p) (lw_QRStrategy w))"
      by (rule coalesce_typed [OF v [THEN conjunct2, THEN conjunct2, THEN conjunct2, THEN conjunct2, THEN conjunct1]])
        (use w in \<open>auto simp: wall_row_ok_def\<close>)
    moreover have "known_arrival (coalesce (ps_ArrivalBehavior p) (lw_ArrivalBehavior w))"
      by (rule coalesce_typed [OF v [THEN conjunct2, THEN conjunct2, THEN conjunct2, THEN conjunct2, THEN conjunct2, THEN conjunct1]])
        (use w in \<open>auto simp: wall_row_ok_def\<close>)
    moreover have "known_transition (coalesce (ps_TransitionMode p) (lw_TransitionMode w))"
      by (rule coalesce_typed [OF v [THEN conjunct2, THEN conjunct2, THEN conjunct2, THEN conjunct2, THEN conjunct2, THEN conjunct2]])
        (use w in \<open>auto simp: wall_row_ok_def\<close>)
    ultimately show ?thesis by (simp add: presentation_updates_def bump_def wall_row_ok_def)
  qed
  then show ?thesis by (simp add: retypes_def presentation_updates_def bump_def)
qed

text \<open>Every call is refused by the service or is one update of the addressed row.\<close>

lemma wall_call_cases:
  assumes call: "wall_call W op s = ((r, ns), s')"
  obtains (refused) x where "r = Inl (Wall x)" "ns = []" "s' = s"
  | (update) e i n f x c where "update_wall (live_row e i n) f (Wall x) s = (r, s')" "retypes f"
      "ns = (case r of Inl d \<Rightarrow> [] | Inr w \<Rightarrow> notify_wall W w c)"
proof (cases op)
    case (OpEnd e i)
    then show thesis using call
      by (intro update [of e i None _ ErrWallNotFound "CommandOther ''''"])
        (auto simp: EndWall_def db_EndWall_def updateLive_def told_def retypes_def split: prod.splits sum.splits)
  next
    case (OpRevoke e i)
    then show thesis using call
      by (intro update [of e i None _ ErrWallNotFound "CommandOther ''''"])
        (auto simp: RevokeWall_def db_EndWall_def updateLive_def told_def retypes_def split: prod.splits sum.splits)
  next
    case (OpCommand e i c)
    show thesis
    proof (cases "command_updates c")
      case None
      then show thesis using call OpCommand
        by (intro refused [of ErrInvalidCommand]) (auto simp: WallCommand_def db_WallCommand_def told_def)
    next
      case (Some f)
      then show thesis using call OpCommand command_retypes [OF Some]
        by (intro update [of e i None f ErrWallNotFound c])
          (auto simp: WallCommand_def db_WallCommand_def updateLive_def told_def split: prod.splits sum.splits)
    qed
  next
    case (OpPolicy e i p)
    show thesis
    proof (cases "p = ContentPolicyFeaturedOnly \<or> p = ContentPolicyAutoApproved")
      case True
      then show thesis using call OpPolicy policy_retypes [OF True]
        by (intro update [of e i None "\<lambda>w. bump (w\<lparr>lw_ContentPolicy := p\<rparr>)" ErrWallNotFound "CommandOther ''''"])
          (auto simp: UpdateContentPolicy_def db_UpdateContentPolicy_def updateLive_def told_def split: prod.splits sum.splits)
    next
      case False
      then show thesis using call OpPolicy
        by (intro refused [of ErrInvalidContentPolicy]) (auto simp: UpdateContentPolicy_def db_UpdateContentPolicy_def told_def)
    qed
  next
    case (OpCTA e i n)
    show thesis
    proof (cases "n < MinCTAEveryMedia \<or> MaxCTAEveryMedia < n")
      case True
      then show thesis using call OpCTA by (intro refused [of ErrInvalidCTAEveryMedia]) (auto simp: UpdateCTAEveryMedia_def)
    next
      case False
      then show thesis using call OpCTA
        by (intro update [of e i None "\<lambda>w. bump (w\<lparr>lw_CTAEveryMedia := n\<rparr>)" ErrWallNotFound "CommandOther ''''"])
          (auto simp: UpdateCTAEveryMedia_def db_UpdateCTAEveryMedia_def updateLive_def told_def cta_retypes
            split: prod.splits sum.splits)
    qed
  next
    case (OpPresentation e i p)
    show thesis
    proof (cases "nothing_given p \<or> \<not> valid_presentation p")
      case True
      then show thesis using call OpPresentation by (intro refused [of ErrInvalidPresentation]) (auto simp: UpdatePresentation_def split: if_splits)
    next
      case False
      then show thesis using call OpPresentation presentation_retypes
        by (intro update [of e i "ps_ExpectedRevision p" "presentation_updates p"
              "if ps_ExpectedRevision p \<noteq> None then ErrRevisionConflict else ErrWallNotFound" "CommandOther ''''"])
          (auto simp: UpdatePresentation_def db_UpdatePresentation_def told_def split: prod.splits sum.splits if_splits)
    qed
  qed

section \<open>The checks of the service agree with the constraints of the table\<close>



section \<open>How walls change over time\<close>

text \<open>
  A row keeps its key, token and expiry; its revision never goes back; a wall that is not live
  stays as it is. \<open>wall_moves\<close> is anything that can happen: an operation on a wall with any
  service (the clock moves), the creation of a wall, or a change elsewhere in the database.
\<close>

definition evolves :: "wall_session \<Rightarrow> wall_session \<Rightarrow> bool" where
  "evolves w w' \<longleftrightarrow> lw_ID w' = lw_ID w \<and> lw_TokenHash w' = lw_TokenHash w \<and> lw_EventID w' = lw_EventID w \<and>
     lw_ExpiresAt w' = lw_ExpiresAt w \<and> lw_Revision w \<le> lw_Revision w' \<and> (lw_Status w \<noteq> WallLive \<longrightarrow> w' = w)"

inductive wall_moves :: "db \<Rightarrow> db \<Rightarrow> bool" where
  call: "wall_call W op s = (r, s') \<Longrightarrow> wall_moves s s'"
| create: "CreateWall W e name slug t s = (r, s') \<Longrightarrow> wall_moves s s'"
| elsewhere: "t_walls s' = t_walls s \<Longrightarrow> wall_moves s s'"

inductive_cases wall_movesE: "wall_moves s s'"

definition walls_keyed :: "db \<Rightarrow> bool" where
  "walls_keyed s \<longleftrightarrow> distinct (map lw_ID (t_walls s)) \<and> distinct (map lw_TokenHash (t_walls s))"

definition still_there :: "db \<Rightarrow> db \<Rightarrow> bool" where
  "still_there s s' \<longleftrightarrow> (\<forall>w \<in> set (t_walls s). \<exists>w' \<in> set (t_walls s'). evolves w w')"

lemma evolves_refl [simp]: "evolves w w" by (simp add: evolves_def)

lemma still_there_subset: "set (t_walls s) \<subseteq> set (t_walls s') \<Longrightarrow> still_there s s'"
  unfolding still_there_def using evolves_refl by blast

lemma evolves_trans: "evolves u v \<Longrightarrow> evolves v w \<Longrightarrow> evolves u w"
  by (auto simp: evolves_def)

lemma write_walls_keyed: "write_walls t s = Inr s' \<Longrightarrow> t_walls s' = t \<and> walls_keyed s'"
  by (auto simp: write_walls_def walls_keyed_def split: if_splits)

lemma update_moves:
  assumes "update_wall (live_row e i n) f x s = (r, s')" "retypes f" "walls_keyed s"
  shows "walls_keyed s' \<and> still_there s s'"
proof (cases "write_walls (update_where (live_row e i n) f (t_walls s)) s")
  case (Inl d)
  then have "s' = s" using assms(1) by (simp add: update_wall_def)
  then show ?thesis using assms(3) by (auto intro: still_there_subset)
next
  case (Inr s1)
  then have "s' = s1" using assms(1) by (auto simp: update_wall_def split: list.splits)
  moreover have "evolves w (f w)" if "live_row e i n w" for w
    using that assms(2) by (auto simp: evolves_def retypes_def live_row_def)
  then have "\<exists>w' \<in> set (update_where (live_row e i n) f (t_walls s)). evolves w w'" if "w \<in> set (t_walls s)" for w
    using that by (intro bexI [of _ "if live_row e i n w then f w else w"]) (auto simp: set_update_where)
  ultimately show ?thesis using write_walls_keyed [OF Inr] by (simp add: still_there_def)
qed

lemma wall_moves_keep:
  assumes "wall_moves s s'" "walls_keyed s"
  shows "walls_keyed s' \<and> still_there s s'"
  using assms(1)
proof (cases rule: wall_moves.cases)
  case (call W op r)
  obtain d ns where "r = (d, ns)" by (rule prod.exhaust)
  with call have "wall_call W op s = ((d, ns), s')" by simp
  then show ?thesis
  proof (cases rule: wall_call_cases)
    case (refused x)
    then show ?thesis using assms(2) by (auto intro: still_there_subset)
  next
    case (update e i n f x c)
    then show ?thesis using update_moves assms(2) by blast
  qed
next
  case (create W e name slug t r)
  then consider "s' = s" | w where "write_walls (t_walls s @ [w]) s = Inr s'"
    by (auto simp: CreateWall_def db_CreateWall_def Let_def split: sum.splits prod.splits)
  then show ?thesis
  proof cases
    case 1
    then show ?thesis using assms(2) by (auto intro: still_there_subset)
  next
    case (2 w)
    from write_walls_keyed [OF 2] show ?thesis
      by (auto intro: still_there_subset)
  qed
next
  case elsewhere
  then show ?thesis using assms(2)
    by (auto simp: walls_keyed_def intro: still_there_subset)
qed

lemma wall_runs_keep:
  assumes "wall_moves\<^sup>*\<^sup>* s s'" "walls_keyed s"
  shows "walls_keyed s' \<and> still_there s s'"
  using assms
proof (induction rule: rtranclp_induct)
  case base
  then show ?case by (auto intro: still_there_subset)
next
  case (step s1 s2)
  then have "walls_keyed s2 \<and> still_there s1 s2" using wall_moves_keep by blast
  moreover have "still_there s s1" using step by blast
  ultimately show ?case unfolding still_there_def by (meson evolves_trans)
qed

text \<open>The row of a key is the only one, so what became of it is known.\<close>

lemma wall_unique:
  "walls_keyed s \<Longrightarrow> w \<in> set (t_walls s) \<Longrightarrow> w' \<in> set (t_walls s) \<Longrightarrow> lw_ID w = lw_ID w' \<Longrightarrow> w = w'"
  "walls_keyed s \<Longrightarrow> w \<in> set (t_walls s) \<Longrightarrow> w' \<in> set (t_walls s) \<Longrightarrow> lw_TokenHash w = lw_TokenHash w' \<Longrightarrow> w = w'"
  by (auto simp: walls_keyed_def distinct_map inj_on_def)

lemma update_wall_Inr:
  assumes "update_wall p f x s = (Inr w, s')"
  obtains w0 where "w0 \<in> set (t_walls s)" "p w0" "w = f w0" "t_walls s' = update_where p f (t_walls s)" "walls_keyed s'"
proof -
  from assms obtain w0 s1 where f: "filter p (t_walls s) = [w0]" "w = f w0"
    and w: "write_walls (update_where p f (t_walls s)) s = Inr s1" "s' = s1"
    by (auto simp: update_wall_def split: sum.splits list.splits)
  have "w0 \<in> set (filter p (t_walls s))" by (simp add: f)
  then have "w0 \<in> set (t_walls s)" "p w0" by simp_all
  with that f(2) w(2) write_walls_keyed [OF w(1)] show thesis by blast
qed

lemma update_wall_none:
  assumes "\<forall>w \<in> set (t_walls s). \<not> p w"
  shows "\<exists>y. update_wall p f x s = (Inl y, s) \<and> (walls_typed s \<longrightarrow> y = x)"
proof -
  have same: "update_where p f (t_walls s) = t_walls s" by (rule update_where_none [OF assms])
  have "filter p (t_walls s) = []" using assms by (simp add: filter_empty_conv)
  then show ?thesis
    by (cases "write_walls (t_walls s) s")
      (auto simp: update_wall_def same write_walls_def walls_typed_def split: if_splits)
qed

section \<open>No change of settings is lost\<close>

text \<open>Two hosts who saw the same revision cannot overwrite each other. Once a change of settings
  that named revision \<open>n\<close> was accepted, then after whatever else happens to the walls, every
  later change that names revision \<open>n\<close> of that wall is refused, changes nothing and is told to
  nobody; the answer is the revision conflict unless the request itself is invalid.\<close>

theorem no_settings_lost:
  assumes "UpdatePresentation W e i p s = ((Inr w, ns), s1)" "ps_ExpectedRevision p = Some n"
    and "wall_moves\<^sup>*\<^sup>* s1 s2" "ps_ExpectedRevision q = Some n"
  shows "\<exists>x. UpdatePresentation W' e i q s2 = ((Inl x, []), s2) \<and>
    (walls_typed s2 \<longrightarrow> x = Wall ErrRevisionConflict \<or> x = Wall ErrInvalidPresentation)"
proof -
  have "update_wall (live_row e i (Some n)) (presentation_updates p) (Wall ErrRevisionConflict) s = (Inr w, s1)"
    using assms(1,2) by (auto simp: UpdatePresentation_def db_UpdatePresentation_def told_def
        split: if_splits prod.splits sum.splits)
  then obtain w0 where w0: "w0 \<in> set (t_walls s)" "live_row e i (Some n) w0" "w = presentation_updates p w0"
    "t_walls s1 = update_where (live_row e i (Some n)) (presentation_updates p) (t_walls s)" "walls_keyed s1"
    by (rule update_wall_Inr)
  have w: "w \<in> set (t_walls s1)" "lw_ID w = i" "lw_Revision w = n + 1"
    using w0 by (auto simp: set_update_where presentation_updates_def bump_def live_row_def)
  note later = wall_runs_keep [OF assms(3) w0(5)]
  then obtain w' where w': "w' \<in> set (t_walls s2)" "evolves w w'" using w(1) by (auto simp: still_there_def)
  have "\<not> live_row e i (Some n) v" if "v \<in> set (t_walls s2)" for v
  proof
    assume v: "live_row e i (Some n) v"
    have "lw_ID w' = lw_ID v" using w'(2) w(2) v by (simp add: evolves_def live_row_def)
    then have "w' = v" using wall_unique(1) later w'(1) that by blast
    then show False using w'(2) w(3) v by (simp add: evolves_def live_row_def)
  qed
  then obtain y where y: "update_wall (live_row e i (Some n)) (presentation_updates q) (Wall ErrRevisionConflict) s2 = (Inl y, s2)"
    "walls_typed s2 \<longrightarrow> y = Wall ErrRevisionConflict"
    using update_wall_none [of s2 "live_row e i (Some n)" "presentation_updates q" "Wall ErrRevisionConflict"] by blast
  have "db_UpdatePresentation e i q s2 = (Inl y, s2)"
    using y(1) assms(4) by (simp add: db_UpdatePresentation_def)
  then show ?thesis using y(2) by (simp add: UpdatePresentation_def told_def)
qed

section \<open>A token shows its wall as long as it is live\<close>

text \<open>The token handed out for a new wall opens that wall. It does so for as long as the wall is
  live and not expired, whatever settings change meanwhile; once the wall was ended or revoked,
  or its time is over, the token opens nothing any more.\<close>

theorem token_opens_live_wall:
  assumes "CreateWall W e name slug t s = (Inr (w, token, None), s1)" "wall_moves\<^sup>*\<^sup>* s1 s2"
    and "ls_sha256 W' = ls_sha256 W" "ls_encode W' = ls_encode W"
  shows "\<exists>w' \<in> set (t_walls s2). evolves w w' \<and>
    GetPublicWall W' token s2 = (if lw_Status w' = WallLive \<and> ls_now W' < lw_ExpiresAt w then Inr w' else Inl (Wall ErrWallNotFound))"
proof -
  let ?n = "new_wall W e name slug t token"
  have c: "w = column_defaults ?n" "write_walls (t_walls s @ [w]) s = Inr s1"
    using assms(1) by (auto simp: CreateWall_def db_CreateWall_def Let_def split: sum.splits prod.splits)
  note k = write_walls_keyed [OF c(2)]
  have h: "lw_TokenHash w = tokenHash W token" by (simp add: c(1) column_defaults_def new_wall_def)
  have "w \<in> set (t_walls s1)" using k by simp
  then obtain w' where w': "w' \<in> set (t_walls s2)" "evolves w w'" and k2: "walls_keyed s2"
    using wall_runs_keep [OF assms(2)] k by (auto simp: still_there_def)
  have hash: "tokenHash W' token = lw_TokenHash w'"
    using w'(2) h assms(3,4) by (simp add: evolves_def tokenHash_def)
  have only: "lw_TokenHash v = lw_TokenHash w' \<longleftrightarrow> v = w'" if "v \<in> set (t_walls s2)" for v
    using wall_unique(2) [OF k2 that w'(1)] by auto
  have "GetPublicWall W' token s2 =
    (if lw_Status w' = WallLive \<and> ls_now W' < lw_ExpiresAt w' then Inr w' else Inl (Wall ErrWallNotFound))"
  proof (cases "lw_Status w' = WallLive \<and> ls_now W' < lw_ExpiresAt w'")
    case True
    let ?p = "\<lambda>v. lw_TokenHash v = lw_TokenHash w' \<and> lw_Status v = WallLive \<and> ls_now W' < lw_ExpiresAt v"
    have "first_by lw_ID ?p (t_walls s2) \<noteq> None" using w'(1) True by (auto simp: first_by_None)
    then obtain r where r: "first_by lw_ID ?p (t_walls s2) = Some r" by blast
    then have "r = w'" using first_by_Some [OF r] only by blast
    then show ?thesis using r True by (simp add: GetPublicWall_def db_FindToken_def hash found_wall_def)
  next
    case False
    let ?p = "\<lambda>v. lw_TokenHash v = lw_TokenHash w' \<and> lw_Status v = WallLive \<and> ls_now W' < lw_ExpiresAt v"
    have "first_by lw_ID ?p (t_walls s2) = None" using False only by (auto simp: first_by_None)
    then show ?thesis using False by (auto simp: GetPublicWall_def db_FindToken_def hash found_wall_def)
  qed
  then show ?thesis using w' by (auto simp: evolves_def)
qed

section \<open>Witnesses\<close>

definition fx_wall_service :: "time \<Rightarrow> wall_service" where
  "fx_wall_service now = NewWallService 0 1 (Inr ''r'') (\<lambda>x. ''b64:'' @ x) (\<lambda>x. ''sha:'' @ x) now 90"

definition fx_walls :: db where
  "fx_walls = snd (CreateWall (fx_wall_service 10) 7 ''party'' ''evt_1'' None fx_db)"

definition fx_settings :: "int \<Rightarrow> presentation_settings" where
  "fx_settings n = \<lparr>ps_ContentPolicy = None, ps_CTAEveryMedia = Some n, ps_LayoutMode = Some LayoutModeMosaic,
     ps_SlideDuration = None, ps_QRStrategy = None, ps_ArrivalBehavior = None, ps_TransitionMode = None,
     ps_ExpectedRevision = Some 0\<rparr>"

lemma fx_walls_typed: "walls_typed fx_walls"
  by code_simp


theorem no_settings_lost_witness:
  "\<exists>w ns s1 x. UpdatePresentation (fx_wall_service 20) 7 90 (fx_settings 30) fx_walls = ((Inr w, ns), s1) \<and>
    UpdatePresentation (fx_wall_service 21) 7 90 (fx_settings 3) s1 = ((Inl x, []), s1)"
proof -
  let ?r = "UpdatePresentation (fx_wall_service 20) 7 90 (fx_settings 30) fx_walls"
  have "\<not> isl (fst (fst ?r))" by code_simp
  then obtain w ns s1 where r: "?r = ((Inr w, ns), s1)" by (cases ?r; cases "fst ?r"; cases "fst (fst ?r)") auto
  have "ps_ExpectedRevision (fx_settings n) = Some 0" for n by (simp add: fx_settings_def)
  from no_settings_lost [OF r this rtranclp.rtrancl_refl this] r show ?thesis by blast
qed

theorem token_opens_live_wall_witness:
  "\<exists>w token s1 w'. CreateWall (fx_wall_service 10) 7 ''party'' ''evt_1'' None fx_db = (Inr (w, token, None), s1) \<and>
    GetPublicWall (fx_wall_service 11) token s1 = Inr w' \<and> lw_ID w' = 90"
proof -
  let ?r = "CreateWall (fx_wall_service 10) 7 ''party'' ''evt_1'' None fx_db"
  have v: "(case fst ?r of Inl e \<Rightarrow> False | Inr (w, t, e) \<Rightarrow> e = None \<and> lw_ID w = 90 \<and> 11 < lw_ExpiresAt w \<and>
     t_walls (snd ?r) = [w] \<and> lw_Status w = WallLive)" by code_simp
  then obtain w token s1 where r: "?r = (Inr (w, token, None), s1)" "lw_ID w = 90" "11 < lw_ExpiresAt w"
    "t_walls s1 = [w]" "lw_Status w = WallLive"
    by (cases ?r; cases "fst ?r") auto
  have "ls_sha256 (fx_wall_service 11) = ls_sha256 (fx_wall_service 10)"
    "ls_encode (fx_wall_service 11) = ls_encode (fx_wall_service 10)" "ls_now (fx_wall_service 11) = 11"
    by (simp_all add: fx_wall_service_def NewWallService_def)
  from token_opens_live_wall [OF r(1) rtranclp.rtrancl_refl this(1,2)] this(3) r
  show ?thesis by auto
qed

end
