(* ===== verification/ExportJob.thy ===== *)
theory ExportJob
  imports Gallery
begin

text \<open>
  Exports of an event's media (internal/exportjob): the queue in the table
  \<open>event_exports\<close>, the service, and the names of the files in the archive.

  Object storage, the archive reader and the ZIP encoder are fields of
  \<open>export_service\<close>: \<open>xs_Put\<close> stores the archive made of the entries it is given, a list of
  names and contents. \<open>locked\<close> is what another replica holds a row lock on when it claims.
\<close>

record export_item =
  xi_ID :: uuid
  xi_ObjectKey :: string
  xi_OriginalFilename :: string
  xi_SourceDeletedAt :: "time option"
  xi_DriveLocation :: "string option"

section \<open>The queue (repository.go)\<close>

definition found_export :: "export_job option \<Rightarrow> error + export_job" where
  "found_export r = (case r of None \<Rightarrow> Inl (Export ErrExportNotFound) | Some x \<Rightarrow> Inr x)"

definition open_export :: "export_job \<Rightarrow> bool" where
  "open_export x \<longleftrightarrow> ex_Status x = ExportQueued \<or> ex_Status x = ExportProcessing"

definition newest :: "export_job \<Rightarrow> time \<times> uuid" where
  "newest x = (- ex_CreatedAt x, ex_ID x)"

definition db_CreateExport :: "time \<Rightarrow> export_job \<Rightarrow> db \<Rightarrow> (error + export_job) \<times> db" where
  "db_CreateExport now x s =
     (let x1 = x\<lparr>ex_CreatedAt := (if ex_CreatedAt x = 0 then now else ex_CreatedAt x)\<rparr>
      in if ex_ID x1 \<in> ex_ID ` set (t_exports s) then (Inl (DB ErrDuplicatedKey), s)
         else if ex_EventID x1 \<notin> ev_ID ` set (t_events s) then (Inl (DB ErrForeignKeyViolated), s)
         else (Inr x1, s\<lparr>t_exports := t_exports s @ [x1]\<rparr>))"

definition db_FindActive :: "uuid \<Rightarrow> db \<Rightarrow> error + export_job" where
  "db_FindActive eventID s =
     found_export (first_by newest (\<lambda>x. ex_EventID x = eventID \<and> open_export x) (t_exports s))"

definition db_FindLatest :: "uuid \<Rightarrow> db \<Rightarrow> error + export_job" where
  "db_FindLatest eventID s = found_export (first_by newest (\<lambda>x. ex_EventID x = eventID) (t_exports s))"

definition db_FindOwnedExport :: "uuid \<Rightarrow> uuid \<Rightarrow> db \<Rightarrow> error + export_job" where
  "db_FindOwnedExport eventID jobID s =
     found_export (first_by ex_ID (\<lambda>x. ex_ID x = jobID \<and> ex_EventID x = eventID) (t_exports s))"

definition claimed_export :: "export_job \<Rightarrow> export_job" where
  "claimed_export x = x\<lparr>ex_Status := ExportProcessing, ex_ErrorMessage := None\<rparr>"

definition db_ClaimNext :: "uuid list \<Rightarrow> db \<Rightarrow> (error + export_job) \<times> db" where
  "db_ClaimNext locked s =
     (case first_by (\<lambda>x. (ex_CreatedAt x, ex_ID x))
         (\<lambda>x. ex_Status x = ExportQueued \<and> ex_ID x \<notin> set locked) (t_exports s) of
        None \<Rightarrow> (Inl (Export ErrExportNoQueuedJob), s)
      | Some x \<Rightarrow> (Inr (claimed_export x),
          s\<lparr>t_exports := update_where (\<lambda>y. ex_ID y = ex_ID x) claimed_export (t_exports s)\<rparr>))"

text \<open>One item for each pair of the left join of the media with their verified copies.\<close>

definition verified_copies :: "media \<Rightarrow> storage_replica list \<Rightarrow> string option list" where
  "verified_copies m rs =
     (let ls = map sr_location_reference (filter (\<lambda>r. sr_media_id r = md_ID m \<and>
           sr_provider r = ProviderGoogleDrive \<and> sr_state r = ReplicaVerified) rs)
      in if ls = [] then [None] else map Some ls)"

definition db_ListItems :: "uuid \<Rightarrow> db \<Rightarrow> error + export_item list" where
  "db_ListItems eventID s = Inr (concat (map (\<lambda>m. map (\<lambda>l. \<lparr>xi_ID = md_ID m, xi_ObjectKey = md_ObjectKey m,
         xi_OriginalFilename = md_OriginalFilename m, xi_SourceDeletedAt = md_SourceDeletedAt m,
         xi_DriveLocation = l\<rparr>) (verified_copies m (t_replicas s)))
     (sort_key row_pos (filter (\<lambda>m. md_EventID m = eventID \<and> completed (md_Status m)) (t_media s)))))"

definition processing_row :: "uuid \<Rightarrow> export_job \<Rightarrow> bool" where
  "processing_row jobID x \<longleftrightarrow> ex_ID x = jobID \<and> ex_Status x = ExportProcessing"

definition finish_export :: "uuid \<Rightarrow> (export_job \<Rightarrow> export_job) \<Rightarrow> db \<Rightarrow> error option \<times> db" where
  "finish_export jobID f s =
     (if count_where (processing_row jobID) (t_exports s) \<noteq> 1 then (Some (Export ErrExportNotFound),
         s\<lparr>t_exports := update_where (processing_row jobID) f (t_exports s)\<rparr>)
      else (None, s\<lparr>t_exports := update_where (processing_row jobID) f (t_exports s)\<rparr>))"

definition db_ExportReady :: "uuid \<Rightarrow> string \<Rightarrow> time \<Rightarrow> db \<Rightarrow> error option \<times> db" where
  "db_ExportReady jobID objectKey at = finish_export jobID (\<lambda>x. x\<lparr>ex_Status := ExportReady,
     ex_ObjectKey := Some objectKey, ex_CompletedAt := Some at, ex_ErrorMessage := None\<rparr>)"

definition db_ExportFailed :: "uuid \<Rightarrow> string \<Rightarrow> time \<Rightarrow> db \<Rightarrow> error option \<times> db" where
  "db_ExportFailed jobID message at s =
     (if \<not> text_ok message then (Some (DB ErrInvalidText), s)
      else finish_export jobID (\<lambda>x. x\<lparr>ex_Status := ExportFailed,
        ex_ErrorMessage := Some message, ex_CompletedAt := Some at\<rparr>) s)"

section \<open>File names (exportjob.go)\<close>

definition clean_name :: "export_item \<Rightarrow> string" where
  "clean_name x =
     (let name = trim_space (base_name (xi_OriginalFilename x));
          ext0 = file_ext (xi_ObjectKey x);
          defaultExt = (if ext0 = '''' then ''.jpg'' else ext0)
      in if name = ''.'' \<or> name = '''' \<or> name = ''blob'' \<or> has_prefix name ''blob.''
         then (if has_suffix defaultExt ''.mov'' \<or> has_suffix defaultExt ''.mp4''
               then ''candid-video'' @ defaultExt else ''candid-photo'' @ defaultExt)
         else if file_ext name = '''' then name @ defaultExt
         else name)"

definition trim_suffix :: "string \<Rightarrow> string \<Rightarrow> string" where
  "trim_suffix s x = (if has_suffix s x then take (length s - length x) s else s)"

text \<open>\<open>used\<close> are the names given so far: the code keeps a count per name.\<close>

definition exportFilename :: "(uuid \<Rightarrow> string) \<Rightarrow> export_item \<Rightarrow> string list \<Rightarrow> string" where
  "exportFilename str x used =
     (let name = clean_name x
      in if name \<in> set used
         then trim_suffix name (file_ext name) @ ''-'' @ take 8 (str (xi_ID x)) @ file_ext name
         else name)"

fun exportNames :: "(uuid \<Rightarrow> string) \<Rightarrow> export_item list \<Rightarrow> string list \<Rightarrow> string list" where
  "exportNames str [] used = []"
| "exportNames str (x # xs) used =
     (let name = exportFilename str x used in name # exportNames str xs (name # used))"

section \<open>The service\<close>

record 's export_service =
  xs_Create :: "export_job \<Rightarrow> 's \<Rightarrow> (error + export_job) \<times> 's"
  xs_FindActive :: "uuid \<Rightarrow> 's \<Rightarrow> error + export_job"
  xs_FindLatest :: "uuid \<Rightarrow> 's \<Rightarrow> error + export_job"
  xs_FindOwned :: "uuid \<Rightarrow> uuid \<Rightarrow> 's \<Rightarrow> error + export_job"
  xs_ClaimNext :: "'s \<Rightarrow> (error + export_job) \<times> 's"
  xs_ListItems :: "uuid \<Rightarrow> 's \<Rightarrow> error + export_item list"
  xs_MarkReady :: "uuid \<Rightarrow> string \<Rightarrow> time \<Rightarrow> 's \<Rightarrow> error option \<times> 's"
  xs_MarkFailed :: "uuid \<Rightarrow> string \<Rightarrow> time \<Rightarrow> 's \<Rightarrow> error option \<times> 's"
  xs_OpenRead :: "string \<Rightarrow> 's \<Rightarrow> error + string"
  xs_Put :: "string \<Rightarrow> (string \<times> string) list \<Rightarrow> 's \<Rightarrow> error option \<times> 's"
  xs_PresignGet :: "string \<Rightarrow> time \<Rightarrow> 's \<Rightarrow> error + string"
  xs_PresignDownload :: "(string \<Rightarrow> string \<Rightarrow> time \<Rightarrow> 's \<Rightarrow> error + string) option"
  xs_archive_OpenRead :: "(nat \<Rightarrow> string \<Rightarrow> 's \<Rightarrow> error + string) option"
  xs_ctx_Err :: "nat \<Rightarrow> 's \<Rightarrow> error option"
  xs_uuid_string :: "uuid \<Rightarrow> string"
  xs_error_text :: "error \<Rightarrow> string"
  xs_now :: time
  xs_fresh :: uuid

definition CreateExport :: "'s export_service \<Rightarrow> uuid \<Rightarrow> 's \<Rightarrow> (error + export_job) \<times> 's" where
  "CreateExport X eventID s =
     (case xs_FindActive X eventID s of
        Inr active \<Rightarrow> (Inr active, s)
      | Inl e \<Rightarrow>
          if e \<noteq> Export ErrExportNotFound then (Inl e, s)
          else xs_Create X \<lparr>ex_ID = xs_fresh X, ex_EventID = eventID, ex_Status = ExportQueued,
            ex_ObjectKey = None, ex_ErrorMessage = None, ex_CreatedAt = 0, ex_CompletedAt = None\<rparr> s)"

definition presign_export :: "'s export_service \<Rightarrow> string \<Rightarrow> string \<Rightarrow> time \<Rightarrow> 's \<Rightarrow> error + string" where
  "presign_export X key filename expiry s =
     (case xs_PresignDownload X of
        Some f \<Rightarrow> (if filename \<noteq> '''' then f key filename expiry s else xs_PresignGet X key expiry s)
      | None \<Rightarrow> xs_PresignGet X key expiry s)"

text \<open>The job, its link and the error, as the code returns them.\<close>

definition link_of ::
  "'s export_service \<Rightarrow> string \<Rightarrow> time \<Rightarrow> export_job \<Rightarrow> 's \<Rightarrow> export_job \<times> string \<times> error option" where
  "link_of X filename expiry x s =
     (case (ex_Status x, ex_ObjectKey x) of
        (ExportReady, Some key) \<Rightarrow>
          (case presign_export X key filename expiry s of
             Inl e \<Rightarrow> (x, '''', Some e) | Inr url \<Rightarrow> (x, url, None))
      | _ \<Rightarrow> (x, '''', None))"

definition LatestWithFilename ::
  "'s export_service \<Rightarrow> uuid \<Rightarrow> string \<Rightarrow> 's \<Rightarrow> error + export_job \<times> string \<times> error option" where
  "LatestWithFilename X eventID filename s =
     (case xs_FindLatest X eventID s of
        Inl e \<Rightarrow> Inl e | Inr x \<Rightarrow> Inr (link_of X filename hour x s))"

definition GetWithFilename ::
  "'s export_service \<Rightarrow> uuid \<Rightarrow> uuid \<Rightarrow> string \<Rightarrow> 's \<Rightarrow> error + export_job \<times> string \<times> error option" where
  "GetWithFilename X eventID jobID filename s =
     (case xs_FindOwned X eventID jobID s of
        Inl e \<Rightarrow> Inl e | Inr x \<Rightarrow> Inr (link_of X filename (10 * 60 * second) x s))"

text \<open>
  Three attempts, the \<open>n\<close>-th of which sees the archive as it is then; a cancelled context
  ends them.
\<close>

fun archive_attempts ::
  "'s export_service \<Rightarrow> (nat \<Rightarrow> string \<Rightarrow> 's \<Rightarrow> error + string) \<Rightarrow> string \<Rightarrow> nat list \<Rightarrow> error \<Rightarrow> 's \<Rightarrow> error + string" where
  "archive_attempts X open loc [] lastErr s = Inl lastErr"
| "archive_attempts X open loc (n # ns) lastErr s =
     (case open n loc s of
        Inr body \<Rightarrow> Inr body
      | Inl e \<Rightarrow> (case xs_ctx_Err X n s of Some ce \<Rightarrow> Inl ce | None \<Rightarrow> archive_attempts X open loc ns e s))"

definition open_item :: "'s export_service \<Rightarrow> export_item \<Rightarrow> 's \<Rightarrow> error + string" where
  "open_item X x s =
     (if xi_SourceDeletedAt x = None \<or> coalesce (xi_DriveLocation x) '''' = ''''
      then xs_OpenRead X (xi_ObjectKey x) s
      else
        (case xs_archive_OpenRead X of
           None \<Rightarrow> Inl (Fmt ''media is archived to Google Drive but archive storage is not configured'')
         | Some open \<Rightarrow> archive_attempts X open (coalesce (xi_DriveLocation x) '''') [0, 1, 2]
             (Fmt ''archive read failed after 3 attempts'') s))"

fun zip_entries ::
  "'s export_service \<Rightarrow> export_item list \<Rightarrow> string list \<Rightarrow> 's \<Rightarrow> error + (string \<times> string) list" where
  "zip_entries X [] used s = Inr []"
| "zip_entries X (x # xs) used s =
     (case open_item X x s of
        Inl e \<Rightarrow> Inl e
      | Inr body \<Rightarrow>
          (let name = exportFilename (xs_uuid_string X) x used
           in case zip_entries X xs (name # used) s of
                Inl e \<Rightarrow> Inl e
              | Inr es \<Rightarrow> Inr ((name, body) # es)))"

text \<open>
  The archive is streamed into \<open>Put\<close> while it is written; an error of writing aborts the
  upload.
\<close>

definition writeZip :: "'s export_service \<Rightarrow> string \<Rightarrow> export_item list \<Rightarrow> 's \<Rightarrow> error option \<times> 's" where
  "writeZip X key items s =
     (case zip_entries X items [] s of
        Inl e \<Rightarrow> (Some e, s)
      | Inr entries \<Rightarrow> xs_Put X key entries s)"

definition export_key :: "'s export_service \<Rightarrow> export_job \<Rightarrow> string" where
  "export_key X x = ''events/'' @ xs_uuid_string X (ex_EventID x) @ ''/exports/'' @
     xs_uuid_string X (ex_ID x) @ ''.zip''"

definition RunNext :: "'s export_service \<Rightarrow> 's \<Rightarrow> (bool \<times> error option) \<times> 's" where
  "RunNext X s =
     (case xs_ClaimNext X s of
        (Inl e, s1) \<Rightarrow> ((False, if e = Export ErrExportNoQueuedJob then None else Some e), s1)
      | (Inr x, s1) \<Rightarrow>
          (let (failure, s2) =
             (case xs_ListItems X (ex_EventID x) s1 of
                Inl e \<Rightarrow> (Some e, s1)
              | Inr items \<Rightarrow>
                  if items = [] then (Some (Fmt ''no media available for export''), s1)
                  else writeZip X (export_key X x) items s1)
           in case failure of
                Some e \<Rightarrow> ((True, Some e), snd (xs_MarkFailed X (ex_ID x) (xs_error_text X e) (xs_now X) s2))
              | None \<Rightarrow>
                  (let (r, s3) = xs_MarkReady X (ex_ID x) (export_key X x) (xs_now X) s2
                   in ((True, r), s3))))"

end
