(* ===== verification/ExportProps.thy ===== *)
theory ExportProps
  imports ExportJob RetentionProps
begin

text \<open>
  Correctness of exports: the outcome of a run is what the row says, a row left in processing
  blocks its event for ever, and an export under way while its event is purged leaves its
  archive behind.
\<close>

section \<open>The service of the application\<close>

record 'o export_env =
  xe_OpenRead :: "string \<Rightarrow> 'o \<Rightarrow> error + string"
  xe_Put :: "string \<Rightarrow> (string \<times> string) list \<Rightarrow> 'o \<Rightarrow> error option \<times> 'o"
  xe_PresignGet :: "string \<Rightarrow> time \<Rightarrow> 'o \<Rightarrow> error + string"
  xe_PresignDownload :: "(string \<Rightarrow> string \<Rightarrow> time \<Rightarrow> 'o \<Rightarrow> error + string) option"
  xe_archive_OpenRead :: "(nat \<Rightarrow> string \<Rightarrow> 'o \<Rightarrow> error + string) option"
  xe_ctx_Err :: "nat \<Rightarrow> 'o \<Rightarrow> error option"
  xe_uuid_string :: "uuid \<Rightarrow> string"
  xe_error_text :: "error \<Rightarrow> string"
  xe_locked :: "uuid list"
  xe_now :: time
  xe_fresh :: uuid

definition app_export :: "'o export_env \<Rightarrow> (db \<times> 'o) export_service" where
  "app_export E = \<lparr>
     xs_Create = (\<lambda>x. on_db (db_CreateExport (xe_now E) x)),
     xs_FindActive = (\<lambda>i so. db_FindActive i (fst so)),
     xs_FindLatest = (\<lambda>i so. db_FindLatest i (fst so)),
     xs_FindOwned = (\<lambda>i j so. db_FindOwnedExport i j (fst so)),
     xs_ClaimNext = on_db (db_ClaimNext (xe_locked E)),
     xs_ListItems = (\<lambda>i so. db_ListItems i (fst so)),
     xs_MarkReady = (\<lambda>i k t. on_db (db_ExportReady i k t)),
     xs_MarkFailed = (\<lambda>i m t. on_db (db_ExportFailed i m t)),
     xs_OpenRead = (\<lambda>k so. xe_OpenRead E k (snd so)),
     xs_Put = (\<lambda>k es. on_store (xe_Put E k es)),
     xs_PresignGet = (\<lambda>k t so. xe_PresignGet E k t (snd so)),
     xs_PresignDownload = map_option (\<lambda>f k n t so. f k n t (snd so)) (xe_PresignDownload E),
     xs_archive_OpenRead = map_option (\<lambda>f n l so. f n l (snd so)) (xe_archive_OpenRead E),
     xs_ctx_Err = (\<lambda>n so. xe_ctx_Err E n (snd so)),
     xs_uuid_string = xe_uuid_string E, xs_error_text = xe_error_text E, xs_now = xe_now E, xs_fresh = xe_fresh E\<rparr>"

lemma export_fields [simp]:
  "xs_Create (app_export E) x = on_db (db_CreateExport (xe_now E) x)"
  "xs_FindActive (app_export E) i so = db_FindActive i (fst so)"
  "xs_ClaimNext (app_export E) = on_db (db_ClaimNext (xe_locked E))"
  "xs_ListItems (app_export E) i so = db_ListItems i (fst so)"
  "xs_MarkReady (app_export E) i k t = on_db (db_ExportReady i k t)"
  "xs_MarkFailed (app_export E) i m t = on_db (db_ExportFailed i m t)"
  "xs_Put (app_export E) k es = on_store (xe_Put E k es)"
  "xs_uuid_string (app_export E) = xe_uuid_string E" "xs_error_text (app_export E) = xe_error_text E"
  "xs_now (app_export E) = xe_now E" "xs_fresh (app_export E) = xe_fresh E"
  by (simp_all add: app_export_def)

section \<open>Reading the items\<close>

lemma zip_entries_ok:
  "zip_entries X xs used s = Inr es \<Longrightarrow>
     list_all2 (\<lambda>x e. open_item X x s = Inr (snd e)) xs es \<and> map fst es = exportNames (xs_uuid_string X) xs used"
proof (induction xs arbitrary: used es)
  case Nil
  then show ?case by simp
next
  case (Cons x xs)
  then obtain body es' where b: "open_item X x s = Inr body"
    and r: "zip_entries X xs (exportFilename (xs_uuid_string X) x used # used) s = Inr es'"
    and es: "es = (exportFilename (xs_uuid_string X) x used, body) # es'"
    by (auto simp: Let_def split: sum.splits)
  show ?case using Cons.IH [OF r] b by (simp add: es Let_def)
qed

section \<open>One run\<close>

lemma claim_cases:
  assumes "db_ClaimNext locked s = (r, s')"
  obtains (none) "r = Inl (Export ErrExportNoQueuedJob)" "s' = s"
  | (claimed) x where "x \<in> set (t_exports s)" "ex_Status x = ExportQueued" "r = Inr (claimed_export x)"
      "s' = s\<lparr>t_exports := update_where (\<lambda>y. ex_ID y = ex_ID x) claimed_export (t_exports s)\<rparr>"
proof (cases "first_by (\<lambda>x. (ex_CreatedAt x, ex_ID x)) (\<lambda>x. ex_Status x = ExportQueued \<and> ex_ID x \<notin> set locked) (t_exports s)")
  case None
  then show thesis using assms by (intro none) (simp_all add: db_ClaimNext_def)
next
  case (Some x)
  from first_by_Some [OF Some] show thesis
    using assms Some by (intro claimed [of x]) (simp_all add: db_ClaimNext_def)
qed

lemma count_key: "keyed k t \<Longrightarrow> count_where (\<lambda>y. k y = i) t = (if i \<in> k ` set t then 1 else 0)"
  by (induction t) (auto simp: keyed_def)

lemma finish_claimed:
  assumes "keyed ex_ID (t_exports s)" "x \<in> set (t_exports s)"
    and "\<And>y. ex_ID (f y) = ex_ID y"
  shows "finish_export (ex_ID x) f (s\<lparr>t_exports := update_where (\<lambda>y. ex_ID y = ex_ID x) claimed_export (t_exports s)\<rparr>) =
    (None, s\<lparr>t_exports := update_where (\<lambda>y. ex_ID y = ex_ID x) (\<lambda>y. f (claimed_export y)) (t_exports s)\<rparr>)"
proof -
  let ?t = "update_where (\<lambda>y. ex_ID y = ex_ID x) claimed_export (t_exports s)"
  have row: "processing_row (ex_ID x) (if ex_ID y = ex_ID x then claimed_export y else y) \<longleftrightarrow> ex_ID y = ex_ID x" for y
    by (simp add: processing_row_def claimed_export_def)
  have up: "update_where (processing_row (ex_ID x)) f (update_where (\<lambda>y. ex_ID y = ex_ID x) claimed_export t) =
      update_where (\<lambda>y. ex_ID y = ex_ID x) (\<lambda>y. f (claimed_export y)) t" for t
    by (induction t) (auto simp: row processing_row_def claimed_export_def)
  have "count_where (processing_row (ex_ID x)) (update_where (\<lambda>y. ex_ID y = ex_ID x) claimed_export t) =
      count_where (\<lambda>y. ex_ID y = ex_ID x) t" for t
    by (induction t) (auto simp: processing_row_def claimed_export_def)
  then have "count_where (processing_row (ex_ID x)) ?t = 1"
    using count_key [OF assms(1), of "ex_ID x"] assms(2) by simp
  then show ?thesis by (simp add: finish_export_def up)
qed

text \<open>
  The work between the claim and the outcome: the item list, then the archive. It touches the
  object store only.
\<close>

definition export_work :: "'o export_env \<Rightarrow> export_job \<Rightarrow> db \<times> 'o \<Rightarrow> error option \<times> (db \<times> 'o)" where
  "export_work E x so = (case db_ListItems (ex_EventID x) (fst so) of
       Inl e \<Rightarrow> (Some e, so)
     | Inr items \<Rightarrow> if items = [] then (Some (Fmt ''no media available for export''), so)
         else writeZip (app_export E) (export_key (app_export E) x) items so)"

lemma writeZip_db: "fst (snd (writeZip (app_export E) k items so)) = fst so"
  by (auto simp: writeZip_def on_store_def split: sum.splits prod.splits)

lemma export_work_db: "export_work E x so = (r, so') \<Longrightarrow> fst so' = fst so"
  using writeZip_db [of E "export_key (app_export E) x" _ so]
  by (auto simp: export_work_def split: sum.splits if_splits) (metis snd_conv)

text \<open>What the archive of a job holds: one entry per item, in order, under the name given to it.\<close>

definition stored_archive :: "'o export_env \<Rightarrow> export_job \<Rightarrow> db \<times> 'o \<Rightarrow> 'o \<Rightarrow> bool" where
  "stored_archive E x so z' \<longleftrightarrow> (\<exists>items es. db_ListItems (ex_EventID x) (fst so) = Inr items \<and> items \<noteq> [] \<and>
     list_all2 (\<lambda>i e. open_item (app_export E) i so = Inr (snd e)) items es \<and>
     map fst es = exportNames (xe_uuid_string E) items [] \<and>
     xe_Put E (export_key (app_export E) x) es (snd so) = (None, z'))"

lemma export_work_ok:
  assumes "export_work E x so = (None, so')"
  shows "stored_archive E x so (snd so')"
proof -
  from assms obtain items where i: "db_ListItems (ex_EventID x) (fst so) = Inr items" "items \<noteq> []"
    and w: "writeZip (app_export E) (export_key (app_export E) x) items so = (None, so')"
    by (auto simp: export_work_def split: sum.splits if_splits)
  then obtain es where z: "zip_entries (app_export E) items [] so = Inr es"
    and p: "on_store (xe_Put E (export_key (app_export E) x) es) so = (None, so')"
    by (auto simp: writeZip_def split: sum.splits)
  from p have "xe_Put E (export_key (app_export E) x) es (snd so) = (None, snd so')"
    by (auto simp: on_store_def split: prod.splits)
  with i zip_entries_ok [OF z] show ?thesis by (auto simp: stored_archive_def)
qed

section \<open>The outcome of a run\<close>

lemma RunNext_work:
  "RunNext (app_export E) so =
     (case on_db (db_ClaimNext (xe_locked E)) so of
        (Inl e, s1) \<Rightarrow> ((False, if e = Export ErrExportNoQueuedJob then None else Some e), s1)
      | (Inr x, s1) \<Rightarrow>
          (case export_work E x s1 of
             (Some e, s2) \<Rightarrow> ((True, Some e), snd (on_db (db_ExportFailed (ex_ID x) (xe_error_text E e) (xe_now E)) s2))
           | (None, s2) \<Rightarrow>
               (let (r, s3) = on_db (db_ExportReady (ex_ID x) (export_key (app_export E) x) (xe_now E)) s2
                in ((True, r), s3))))"
  by (auto simp: RunNext_def export_work_def split: sum.splits prod.splits option.splits)

lemma archive_attempts_env:
  "archive_attempts (app_export E) (\<lambda>n l so. f n l (snd so)) loc ns e (s, z) =
   archive_attempts (app_export E) (\<lambda>n l so. f n l (snd so)) loc ns e (s', z)"
  by (induction ns arbitrary: e) (simp_all add: app_export_def split: sum.splits option.splits)

lemma open_item_env: "open_item (app_export E) i (s, z) = open_item (app_export E) i (s', z)"
proof (cases "xe_archive_OpenRead E")
  case None
  then show ?thesis by (simp add: open_item_def app_export_def)
next
  case (Some f)
  then have "xs_archive_OpenRead (app_export E) = Some (\<lambda>n l so. f n l (snd so))" by (simp add: app_export_def)
  moreover have "xs_OpenRead (app_export E) k (s, z) = xs_OpenRead (app_export E) k (s', z)" for k
    by (simp add: app_export_def)
  ultimately show ?thesis
    by (simp del: archive_attempts.simps add: open_item_def archive_attempts_env [of E f _ _ _ s z s'])
qed

lemma stored_archive_db:
  assumes "t_media s' = t_media s" "t_replicas s' = t_replicas s" "stored_archive E x (s, z) z'"
  shows "stored_archive E x (s', z) z'"
proof -
  have "db_ListItems i s' = db_ListItems i s" for i by (simp add: db_ListItems_def assms(1,2))
  moreover have "open_item (app_export E) i (s', z) = open_item (app_export E) i (s, z)" for i
    by (rule open_item_env)
  ultimately show ?thesis using assms(3) by (simp add: stored_archive_def)
qed

text \<open>What a run did is what the row of its job says. A run that claimed a job ends with that job
  ready exactly when the archive of all its items, one entry each and in order, was stored under
  the key the row names; every other run ends with the job failed and the error written down; no
  other row and no other table changes.\<close>

theorem export_outcome_recorded:
  assumes "keyed ex_ID (t_exports s)" "RunNext (app_export E) (s, z) = ((True, r), (s', z'))"
    and "\<And>e. text_ok (xe_error_text E e)"
  shows "\<exists>x \<in> set (t_exports s). ex_Status x = ExportQueued \<and>
    s' = s\<lparr>t_exports := update_where (\<lambda>y. ex_ID y = ex_ID x) (\<lambda>y. case r of
        None \<Rightarrow> y\<lparr>ex_Status := ExportReady, ex_ObjectKey := Some (export_key (app_export E) x),
          ex_CompletedAt := Some (xe_now E), ex_ErrorMessage := None\<rparr>
      | Some e \<Rightarrow> y\<lparr>ex_Status := ExportFailed, ex_ErrorMessage := Some (xe_error_text E e),
          ex_CompletedAt := Some (xe_now E)\<rparr>) (t_exports s)\<rparr> \<and>
    (r = None \<longrightarrow> stored_archive E x (s, z) z')"
proof -
  obtain c s1 where c: "db_ClaimNext (xe_locked E) s = (c, s1)" by (rule prod.exhaust)
  have claim: "on_db (db_ClaimNext (xe_locked E)) (s, z) = (c, (s1, z))" by (simp add: on_db_def c)
  from c obtain x where x: "x \<in> set (t_exports s)" "ex_Status x = ExportQueued" "c = Inr (claimed_export x)"
    and s1: "s1 = s\<lparr>t_exports := update_where (\<lambda>y. ex_ID y = ex_ID x) claimed_export (t_exports s)\<rparr>"
    using assms(2) by (cases rule: claim_cases) (auto simp: RunNext_work claim)
  obtain e so2 where w: "export_work E (claimed_export x) (s1, z) = (e, so2)" by (rule prod.exhaust)
  obtain s2 z2 where so2: "so2 = (s2, z2)" by (rule prod.exhaust)
  have s2: "s2 = s1" using export_work_db [OF w] by (simp add: so2)
  have key: "export_key (app_export E) (claimed_export x) = export_key (app_export E) x"
    by (simp add: export_key_def claimed_export_def)
  have id: "ex_ID (claimed_export x) = ex_ID x" by (simp add: claimed_export_def)
  note finish = finish_claimed [OF assms(1) x(1)]
  show ?thesis
  proof (cases e)
    case (Some d)
    have "db_ExportFailed (ex_ID x) (xe_error_text E d) (xe_now E) s1 =
        (None, s\<lparr>t_exports := update_where (\<lambda>y. ex_ID y = ex_ID x) (\<lambda>y. y\<lparr>ex_Status := ExportFailed,
          ex_ErrorMessage := Some (xe_error_text E d), ex_CompletedAt := Some (xe_now E)\<rparr>) (t_exports s)\<rparr>)"
      using finish assms(3) by (simp add: db_ExportFailed_def s1 claimed_export_def)
    then have fin: "on_db (db_ExportFailed (ex_ID x) (xe_error_text E d) (xe_now E)) (s1, z2) =
        (None, (s\<lparr>t_exports := update_where (\<lambda>y. ex_ID y = ex_ID x) (\<lambda>y. y\<lparr>ex_Status := ExportFailed,
          ex_ErrorMessage := Some (xe_error_text E d), ex_CompletedAt := Some (xe_now E)\<rparr>) (t_exports s)\<rparr>, z2))"
      by (simp add: on_db_def)
    have "r = Some d" "s' = s\<lparr>t_exports := update_where (\<lambda>y. ex_ID y = ex_ID x) (\<lambda>y. y\<lparr>ex_Status := ExportFailed,
          ex_ErrorMessage := Some (xe_error_text E d), ex_CompletedAt := Some (xe_now E)\<rparr>) (t_exports s)\<rparr>"
      using assms(2) w by (auto simp: RunNext_work claim x(3) so2 s2 Some id fin)
    then show ?thesis using x(1,2) by (intro bexI [of _ x]) auto
  next
    case None
    have ready: "db_ExportReady (ex_ID x) (export_key (app_export E) x) (xe_now E) s1 =
        (None, s\<lparr>t_exports := update_where (\<lambda>y. ex_ID y = ex_ID x) (\<lambda>y. y\<lparr>ex_Status := ExportReady,
          ex_ObjectKey := Some (export_key (app_export E) x), ex_CompletedAt := Some (xe_now E),
          ex_ErrorMessage := None\<rparr>) (t_exports s)\<rparr>)"
      using finish by (simp add: db_ExportReady_def s1 claimed_export_def)
    then have fin: "on_db (db_ExportReady (ex_ID x) (export_key (app_export E) x) (xe_now E)) (s1, z2) =
        (None, (s\<lparr>t_exports := update_where (\<lambda>y. ex_ID y = ex_ID x) (\<lambda>y. y\<lparr>ex_Status := ExportReady,
          ex_ObjectKey := Some (export_key (app_export E) x), ex_CompletedAt := Some (xe_now E),
          ex_ErrorMessage := None\<rparr>) (t_exports s)\<rparr>, z2))"
      by (simp add: on_db_def)
    have out: "r = None" "z' = z2" "s' = s\<lparr>t_exports := update_where (\<lambda>y. ex_ID y = ex_ID x) (\<lambda>y. y\<lparr>ex_Status := ExportReady,
          ex_ObjectKey := Some (export_key (app_export E) x), ex_CompletedAt := Some (xe_now E),
          ex_ErrorMessage := None\<rparr>) (t_exports s)\<rparr>"
      using assms(2) w by (auto simp: RunNext_work claim x(3) so2 s2 None key id fin)
    have "stored_archive E (claimed_export x) (s1, z) z2" using export_work_ok w None by (auto simp: so2)
    then have "stored_archive E (claimed_export x) (s, z) z2" by (rule stored_archive_db [rotated 2]) (simp_all add: s1)
    then have "stored_archive E x (s, z) z2" by (simp add: stored_archive_def key) (simp add: claimed_export_def)
    then show ?thesis using x(1,2) out by (intro bexI [of _ x]) auto
  qed
qed

section \<open>A job left in processing\<close>

text \<open>A table of exports after some of the rows that are queued moved on.\<close>

definition queue_moved :: "export_job list \<Rightarrow> export_job list \<Rightarrow> bool" where
  "queue_moved t t' \<longleftrightarrow> list_all2 (\<lambda>y y'. y' = y \<or> ex_Status y = ExportQueued \<and> ex_ID y' = ex_ID y \<and> ex_EventID y' = ex_EventID y) t t'"

lemma queue_moved_refl: "queue_moved t t"
  by (simp add: queue_moved_def list.rel_refl_strong)

lemma queue_moved_claimed:
  assumes "keyed ex_ID t" "x \<in> set t" "ex_Status x = ExportQueued"
    and "\<And>y. ex_ID (f y) = ex_ID y" "\<And>y. ex_EventID (f y) = ex_EventID y"
  shows "queue_moved t (update_where (\<lambda>y. ex_ID y = ex_ID x) f t)"
  unfolding queue_moved_def update_where_def list_all2_map2
  using assms keyed_unique [OF assms(1) _ assms(2)] by (fastforce intro: list.rel_refl_strong)

lemma claimed_fields [simp]: "ex_ID (claimed_export y) = ex_ID y" "ex_EventID (claimed_export y) = ex_EventID y"
  by (simp_all add: claimed_export_def)

lemma RunNext_moves:
  assumes "keyed ex_ID (t_exports s)" "RunNext (app_export E) (s, z) = (r, (s', z'))"
  shows "queue_moved (t_exports s) (t_exports s')"
proof -
  obtain c s1 where c: "db_ClaimNext (xe_locked E) s = (c, s1)" by (rule prod.exhaust)
  have claim: "on_db (db_ClaimNext (xe_locked E)) (s, z) = (c, (s1, z))" by (simp add: on_db_def c)
  from c show ?thesis
  proof (cases rule: claim_cases)
    case none
    then show ?thesis using assms(2) by (auto simp: RunNext_work claim queue_moved_refl)
  next
    case (claimed x)
    obtain e s2 z2 where w: "export_work E (claimed_export x) (s1, z) = (e, (s2, z2))" by (metis prod.exhaust)
    have s2: "s2 = s1" using export_work_db [OF w] by simp
    note finish = finish_claimed [OF assms(1) claimed(1)] and moved = queue_moved_claimed [OF assms(1) claimed(1,2)]
    show ?thesis
    proof (cases e)
      case (Some d)
      obtain q s3 where q: "db_ExportFailed (ex_ID x) (xe_error_text E d) (xe_now E) s1 = (q, s3)" by (rule prod.exhaust)
      have fin: "on_db (db_ExportFailed (ex_ID x) (xe_error_text E d) (xe_now E)) (s1, z2) = (q, (s3, z2))" by (simp add: on_db_def q)
      have "s' = s3" using assms(2) w by (auto simp: RunNext_work claim claimed(3) s2 Some fin)
      then show ?thesis using finish moved q by (auto simp: db_ExportFailed_def claimed(4) split: if_splits)
    next
      case None
      obtain q s3 where q: "db_ExportReady (ex_ID x) (export_key (app_export E) (claimed_export x)) (xe_now E) s1 = (q, s3)" by (rule prod.exhaust)
      have fin: "on_db (db_ExportReady (ex_ID x) (export_key (app_export E) (claimed_export x)) (xe_now E)) (s1, z2) = (q, (s3, z2))" by (simp add: on_db_def q)
      have "s' = s3" using assms(2) w by (auto simp: RunNext_work claim claimed(3) s2 None fin)
      then show ?thesis using finish moved q by (auto simp: db_ExportReady_def claimed(4) split: if_splits)
    qed
  qed
qed

inductive export_step :: "db \<times> 'o \<Rightarrow> db \<times> 'o \<Rightarrow> bool" where
  create: "CreateExport (app_export E) i so = (r, so') \<Longrightarrow> export_step so so'"
| run: "RunNext (app_export E) so = (r, so') \<Longrightarrow> export_step so so'"

definition stuck :: "export_job \<Rightarrow> export_job list \<Rightarrow> bool" where
  "stuck x t \<longleftrightarrow> keyed ex_ID t \<and> x \<in> set t \<and> ex_Status x = ExportProcessing \<and>
     (\<forall>y \<in> set t. ex_EventID y = ex_EventID x \<and> open_export y \<longrightarrow> y = x)"

lemma list_all2_in:
  "list_all2 P t t' \<Longrightarrow> x \<in> set t \<Longrightarrow> \<exists>y \<in> set t'. P x y"
  "list_all2 P t t' \<Longrightarrow> y \<in> set t' \<Longrightarrow> \<exists>x \<in> set t. P x y"
  by (induction rule: list_all2_induct) auto

lemma stuck_moves:
  assumes "queue_moved t t'" "stuck x t"
  shows "stuck x t'"
proof -
  have l: "list_all2 (\<lambda>y y'. y' = y \<or> ex_Status y = ExportQueued \<and> ex_ID y' = ex_ID y \<and> ex_EventID y' = ex_EventID y) t t'"
    using assms(1) by (simp add: queue_moved_def)
  have "map ex_ID t' = map ex_ID t"
    using l by (induction rule: list_all2_induct) auto
  moreover have "x \<in> set t'"
    using list_all2_in(1) [OF l, of x] assms(2) by (auto simp: stuck_def)
  moreover have "y' = x" if open_one: "y' \<in> set t'" "ex_EventID y' = ex_EventID x" "open_export y'" for y'
  proof -
    obtain y where y: "y \<in> set t" "y' = y \<or> ex_Status y = ExportQueued \<and> ex_ID y' = ex_ID y \<and> ex_EventID y' = ex_EventID y"
      using list_all2_in(2) [OF l open_one(1)] by auto
    then show ?thesis using assms(2) open_one by (auto simp: stuck_def open_export_def)
  qed
  ultimately show ?thesis using assms(2) by (simp add: stuck_def keyed_def)
qed

lemma stuck_found:
  assumes "stuck x (t_exports s)"
  shows "db_FindActive (ex_EventID x) s = Inr x"
proof -
  have o: "open_export x" using assms by (simp add: stuck_def open_export_def)
  have "first_by newest (\<lambda>y. ex_EventID y = ex_EventID x \<and> open_export y) (t_exports s) \<noteq> None"
    using assms o by (auto simp: first_by_None stuck_def)
  then obtain y where y: "first_by newest (\<lambda>y. ex_EventID y = ex_EventID x \<and> open_export y) (t_exports s) = Some y" by blast
  have "y = x" using first_by_Some [OF y] assms by (auto simp: stuck_def)
  then show ?thesis using y by (simp add: db_FindActive_def found_export_def)
qed

lemma stuck_step:
  assumes "export_step so so'" "stuck x (t_exports (fst so))"
  shows "stuck x (t_exports (fst so'))"
  using assms(1)
proof (cases rule: export_step.cases)
  case (create E i r)
  show ?thesis
  proof (cases "so' = so")
    case True
    then show ?thesis using assms(2) by simp
  next
    case False
    let ?n = "\<lparr>ex_ID = xe_fresh E, ex_EventID = i, ex_Status = ExportQueued, ex_ObjectKey = None,
      ex_ErrorMessage = None, ex_CreatedAt = 0, ex_CompletedAt = None\<rparr>"
    have i: "i \<noteq> ex_EventID x"
      using create False stuck_found [OF assms(2)] by (auto simp: CreateExport_def)
    have c: "on_db (db_CreateExport (xe_now E) ?n) so = (r, so')"
      using create False by (auto simp: CreateExport_def split: sum.splits if_splits)
    then obtain n where n: "t_exports (fst so') = t_exports (fst so) @ [n]" "ex_EventID n = i" "keyed ex_ID (t_exports (fst so) @ [n])"
      using False assms(2) by (cases so) (auto simp: on_db_def db_CreateExport_def keyed_def stuck_def Let_def split: if_splits)
    then show ?thesis using assms(2) i by (auto simp: stuck_def)
  qed
next
  case (run E r)
  then show ?thesis using RunNext_moves [of "fst so" E "snd so" r "fst so'" "snd so'"] stuck_moves assms(2)
    by (auto simp: stuck_def)
qed

text \<open>an export whose process stopped on the way blocks its event for ever. While its row is in
  processing, no run claims it and no host can start another: after any number of requests and
  runs the row is still there, and asking for an export of the event answers with it and makes
  nothing new.\<close>

theorem stuck_export_blocks:
  assumes "export_step\<^sup>*\<^sup>* so so'" "stuck x (t_exports (fst so))"
  shows "stuck x (t_exports (fst so')) \<and> CreateExport (app_export E) (ex_EventID x) so' = (Inr x, so')"
proof -
  have "stuck x (t_exports (fst so'))"
    using assms by (induction rule: rtranclp_induct) (use stuck_step in blast)+
  then show ?thesis by (simp add: CreateExport_def stuck_found)
qed

section \<open>An export under way while its event is purged\<close>

text \<open>Runs of the retention job on later days, of any server, with any settings.\<close>

inductive retention_day ::
  "('o \<Rightarrow> string set) \<Rightarrow> ('o \<Rightarrow> string set) \<Rightarrow> (uuid \<Rightarrow> string) \<Rightarrow> db \<times> 'o \<Rightarrow> db \<times> 'o \<Rightarrow> bool"
  for hot cold str where
  "deletes_only hot cold R \<Longrightarrow> re_uuid_string R = str \<Longrightarrow>
     RetentionRun (app_retention R) lim dry so = (r, so') \<Longrightarrow> retention_day hot cold str so so'"

definition marked_purged :: "uuid \<Rightarrow> db \<Rightarrow> bool" where
  "marked_purged i s \<longleftrightarrow> (\<forall>e \<in> set (t_events s). ev_ID e = i \<longrightarrow> media_purged_at e \<noteq> None)"

lemma marked_belongings: "belongings i s' = belongings i s \<Longrightarrow> marked_purged i s \<Longrightarrow> marked_purged i s'"
proof -
  assume b: "belongings i s' = belongings i s" and m: "marked_purged i s"
  have "set (filter (\<lambda>e. ev_ID e = i) (t_events s')) = set (filter (\<lambda>e. ev_ID e = i) (t_events s))"
    using b by (simp add: belongings_def)
  then show ?thesis using m by (auto simp: marked_purged_def)
qed

lemma retention_day_keeps:
  assumes "retention_day hot cold str so so'" "marked_purged i (fst so)" "keyed md_ID (t_media (fst so))"
    and "uuid_strings (insert i (gr_EventID ` set (t_grants (fst so)))) str"
  shows "marked_purged i (fst so') \<and> keyed md_ID (t_media (fst so')) \<and> t_grants (fst so') = t_grants (fst so) \<and>
    {k \<in> hot (snd so). prefix (EventPrefix str i) k} \<subseteq> hot (snd so')"
  using assms(1)
proof (cases rule: retention_day.cases)
  case (1 R lim dry r)
  let ?cut = "re_now R - (if 0 < re_grace R then re_grace R else DefaultGrace)"
  obtain cs where cs: "db_Candidates ?cut (if lim < 1 then 50 else lim) (fst so) = Inr cs" by (simp add: db_Candidates_def)
  obtain rep1 rep2 where each: "purge_each (app_retention R) dry cs rep1 so = (rep2, so')"
    using 1(3) cs by (auto simp: RetentionRun_def retention_fields Let_def split: prod.splits)
  have c: "\<forall>c \<in> set cs. rc_EventID c \<in> insert i (gr_EventID ` set (t_grants (fst so))) - {i}"
    using candidates_due [OF cs] assms(2) by (force simp: due_grant_def marked_purged_def)
  have str: "uuid_strings (insert i (gr_EventID ` set (t_grants (fst so)))) (re_uuid_string R)"
    using assms(4) 1(2) by simp
  from purge_each_spares [OF 1(1) str insertI1 c assms(3) each] marked_belongings assms(2) 1(2)
  show ?thesis by auto
qed

lemma retention_days_keep:
  assumes "(retention_day hot cold str)\<^sup>*\<^sup>* so so'" "marked_purged i (fst so)" "keyed md_ID (t_media (fst so))"
    and "uuid_strings (insert i (gr_EventID ` set (t_grants (fst so)))) str"
  shows "marked_purged i (fst so') \<and> keyed md_ID (t_media (fst so')) \<and> t_grants (fst so') = t_grants (fst so) \<and>
    {k \<in> hot (snd so). prefix (EventPrefix str i) k} \<subseteq> hot (snd so')"
  using assms(1)
proof (induction rule: rtranclp_induct)
  case base
  then show ?case using assms(2,3) by auto
next
  case (step so1 so2)
  then have "uuid_strings (insert i (gr_EventID ` set (t_grants (fst so1)))) str" using assms(4) by simp
  with retention_day_keeps [OF step.hyps(2), of i] step.IH show ?case by auto
qed

text \<open>An archive can outlive the purge of its event. When an event is purged while an export of it
  is being stored, the archive of its originals appears under the event's prefix after the sweep,
  the export is answered as not found, and since the event counts as purged no later run of the
  retention job, whatever its settings, ever removes the file.\<close>

theorem late_export_outlives_purge:
  assumes laws: "deletes_only hot cold R" and p: "purge (app_retention R) c (s, z) = (Inr n, (s1, z1))"
    and str: "uuid_strings (insert (rc_EventID c) (gr_EventID ` set (t_grants s))) (re_uuid_string R)"
    and keys: "keyed md_ID (t_media s)" "keyed ex_ID (t_exports s)"
    and job: "x \<in> set (t_exports s)" "ex_Status x = ExportProcessing" "ex_EventID x = rc_EventID c"
    and put: "xe_uuid_string E = re_uuid_string R" "xe_Put E (export_key (app_export E) x) es z1 = (None, z2)"
      "export_key (app_export E) x \<in> hot z2"
    and later: "(retention_day hot cold (re_uuid_string R))\<^sup>*\<^sup>* (s1, z2) (s2, z3)"
  shows "db_ExportReady (ex_ID x) (export_key (app_export E) x) t s1 = (Some (Export ErrExportNotFound), s1) \<and>
    prefix (EventPrefix (re_uuid_string R) (rc_EventID c)) (export_key (app_export E) x) \<and>
    export_key (app_export E) x \<in> hot z3 \<and> marked_purged (rc_EventID c) s2"
proof -
  let ?i = "rc_EventID c" and ?k = "export_key (app_export E) x"
  obtain s0 z0 where 1: "db_MarkPurged ?i (re_now R) s0 = (Inr n, s1)" and 3: "\<exists>rs. s0 = s\<lparr>t_replicas := rs\<rparr>"
    by (rule purge_ok [OF laws p]) auto
  note s1 = MarkPurged_ok [OF 1]
  have t: "t_exports s0 = t_exports s" "t_grants s0 = t_grants s" "t_media s0 = t_media s" using 3 by auto
  have no: "\<forall>y \<in> set (t_exports s1). \<not> processing_row (ex_ID x) y"
  proof
    fix y assume "y \<in> set (t_exports s1)"
    then obtain y0 where y0: "y0 \<in> set (t_exports s)" "y = (if purged_export ?i y0 then purge_export_row (re_now R) y0 else y0)"
      by (auto simp: s1 set_update_where t)
    show "\<not> processing_row (ex_ID x) y"
    proof
      assume pr: "processing_row (ex_ID x) y"
      then have "ex_ID y0 = ex_ID x" by (auto simp: y0(2) processing_row_def purge_export_row_def split: if_splits)
      then have "y0 = x" using keyed_unique [OF keys(2) y0(1) job(1)] by simp
      then show False using pr job(2,3) by (simp add: y0(2) processing_row_def purge_export_row_def purged_export_def)
    qed
  qed
  then have ready: "db_ExportReady (ex_ID x) ?k t s1 = (Some (Export ErrExportNotFound), s1)"
    by (simp add: db_ExportReady_def finish_export_def count_where_def filter_empty_conv update_where_none)
  have key: "prefix (EventPrefix (re_uuid_string R) ?i) ?k"
    by (simp add: export_key_def EventPrefix_def put(1) job(3) prefix_def)
  have m: "marked_purged ?i s1"
    by (auto simp: marked_purged_def s1 set_update_where purge_event_row_def)
  have k1: "keyed md_ID (t_media s1)" using keys(1) by (simp add: s1 t keyed_update purge_media_row_def)
  have "uuid_strings (insert ?i (gr_EventID ` set (t_grants (fst (s1, z2))))) (re_uuid_string R)"
    using str by (simp add: s1 t)
  from retention_days_keep [OF later, of ?i, simplified, OF m k1] this put(3) key ready
  show ?thesis by auto
qed

section \<open>Witnesses\<close>

text \<open>The event of the retention fixture with one export, and a store of keys.\<close>

definition fx_export :: "export_status \<Rightarrow> export_job" where
  "fx_export st = \<lparr>ex_ID = 8, ex_EventID = 7, ex_Status = st, ex_ObjectKey = None, ex_ErrorMessage = None,
     ex_CreatedAt = 40, ex_CompletedAt = None\<rparr>"

definition fx_exports :: "export_status \<Rightarrow> db" where
  "fx_exports st = fx_stored\<lparr>t_exports := [fx_export st]\<rparr>"

definition fx_exporter :: "(string list \<times> string list) export_env" where
  "fx_exporter = \<lparr>xe_OpenRead = (\<lambda>k z. Inr ''body''), xe_Put = (\<lambda>k es z. (None, (k # fst z, snd z))),
     xe_PresignGet = (\<lambda>k t z. Inr k), xe_PresignDownload = None, xe_archive_OpenRead = None,
     xe_ctx_Err = (\<lambda>n z. None), xe_uuid_string = re_uuid_string fx_retention, xe_error_text = (\<lambda>e. ''failed''),
     xe_locked = [], xe_now = 50, xe_fresh = 9\<rparr>"

theorem export_outcome_recorded_witness:
  "\<exists>s' z'. RunNext (app_export fx_exporter) (fx_exports ExportQueued, fx_shelf) = ((True, None), (s', z')) \<and>
    map ex_Status (t_exports s') = [ExportReady] \<and>
    stored_archive fx_exporter (fx_export ExportQueued) (fx_exports ExportQueued, fx_shelf) z'"
proof -
  let ?r = "RunNext (app_export fx_exporter) (fx_exports ExportQueued, fx_shelf)"
  have v: "fst ?r = (True, None) \<and> map ex_Status (t_exports (fst (snd ?r))) = [ExportReady]" by code_simp
  obtain s' z' where r: "?r = ((True, None), (s', z'))" using v by (cases ?r) (auto simp: prod_eq_iff)
  have k: "keyed ex_ID (t_exports (fx_exports ExportQueued))" by (simp add: fx_exports_def keyed_def)
  have "text_ok (xe_error_text fx_exporter e)" for e by (simp add: fx_exporter_def) code_simp
  from export_outcome_recorded [OF k r this] v r show ?thesis by (auto simp: fx_exports_def)
qed

theorem stuck_export_blocks_witness:
  "CreateExport (app_export fx_exporter) 7 (fx_exports ExportProcessing, fx_shelf) =
     (Inr (fx_export ExportProcessing), (fx_exports ExportProcessing, fx_shelf))"
proof -
  have "stuck (fx_export ExportProcessing) (t_exports (fst (fx_exports ExportProcessing, fx_shelf)))"
    by (simp add: stuck_def fx_exports_def keyed_def fx_export_def)
  from stuck_export_blocks [OF rtranclp.rtrancl_refl this] show ?thesis by (simp add: fx_export_def)
qed

theorem late_export_outlives_purge_witness:
  "\<exists>n s1 z1 z2. purge (app_retention fx_retention) fx_due (fx_exports ExportProcessing, fx_shelf) = (Inr n, (s1, z1)) \<and>
    xe_Put fx_exporter (export_key (app_export fx_exporter) (fx_export ExportProcessing)) [] z1 = (None, z2) \<and>
    export_key (app_export fx_exporter) (fx_export ExportProcessing) \<in>
      set (fst (snd (snd (RetentionRun (app_retention fx_retention) 0 False (s1, z2)))))"
proof -
  let ?r = "purge (app_retention fx_retention) fx_due (fx_exports ExportProcessing, fx_shelf)"
  let ?x = "fx_export ExportProcessing"
  have "\<not> isl (fst ?r)" by code_simp
  then obtain n s1 z1 where r: "?r = (Inr n, (s1, z1))" by (cases "fst ?r"; cases "snd ?r"; cases ?r) auto
  let ?z2 = "(export_key (app_export fx_exporter) ?x # fst z1, snd z1)"
  let ?d = "RetentionRun (app_retention fx_retention) 0 False (s1, ?z2)"
  have put: "xe_Put fx_exporter (export_key (app_export fx_exporter) ?x) [] z1 = (None, ?z2)"
    by (simp add: fx_exporter_def)
  have str: "uuid_strings (insert (rc_EventID fx_due) (gr_EventID ` set (t_grants (fx_exports ExportProcessing)))) (re_uuid_string fx_retention)"
    by (simp add: uuid_strings_def fx_exports_def fx_stored_def fx_media_db_def fx_db_def fx_free_grant_def fx_retention_def fx_due_def)
  have keys: "keyed md_ID (t_media (fx_exports ExportProcessing))" "keyed ex_ID (t_exports (fx_exports ExportProcessing))"
    by (simp_all add: fx_exports_def fx_stored_def keyed_def)
  have x: "?x \<in> set (t_exports (fx_exports ExportProcessing))" "ex_Status ?x = ExportProcessing" "ex_EventID ?x = rc_EventID fx_due"
    by (simp_all add: fx_exports_def fx_export_def fx_due_def)
  have u: "xe_uuid_string fx_exporter = re_uuid_string fx_retention" by (simp add: fx_exporter_def)
  have "retention_day (\<lambda>z. set (fst z)) (\<lambda>z. set (snd z)) (re_uuid_string fx_retention) (s1, ?z2) (snd ?d)"
    by (rule retention_day.intros [OF fx_deletes_only refl prod.collapse [symmetric]])
  then have "(retention_day (\<lambda>z. set (fst z)) (\<lambda>z. set (snd z)) (re_uuid_string fx_retention))\<^sup>*\<^sup>* (s1, ?z2) (fst (snd ?d), snd (snd ?d))"
    by (simp add: r_into_rtranclp)
  from late_export_outlives_purge [OF fx_deletes_only r str keys x u put _ this] r put show ?thesis by auto
qed

end
