(* ===== verification/Realtime.thy ===== *)
theory Realtime
  imports Event Media LiveWall "HOL-Library.Word"
begin

text \<open>
  The messages browsers receive about an event (internal/realtime/realtime.go) and the policy
  of who is told what (internal/realtime/notifier.go).

  The JSON encoder and decoder are fields of \<open>codec\<close>: \<open>cd_Marshal\<close> encodes a payload,
  \<open>cd_encode\<close> a whole envelope. A message is a hint: nothing here stores one.
\<close>

unbundle bit_operations_syntax

section \<open>Messages (realtime.go)\<close>

datatype kind =
    KindMediaCreated
  | KindMediaThumbnail
  | KindMediaUpdated
  | KindMediaDeleted
  | KindEventUpdated
  | KindLiveWallPresentation
  | KindEventPlanUpdated
  | KindUnknown string

fun kind_Valid :: "kind \<Rightarrow> bool" where
  "kind_Valid (KindUnknown x) = False"
| "kind_Valid _ = True"

text \<open>A mask of who may receive a message, as the code has it: eight bits.\<close>

type_synonym audience = "8 word"

definition AudienceHost :: audience where "AudienceHost = 1"
definition AudiencePublic :: audience where "AudiencePublic = 2"

definition Includes :: "audience \<Rightarrow> audience \<Rightarrow> bool" where
  "Includes a other \<longleftrightarrow> a AND other \<noteq> 0"

definition audience_Valid :: "audience \<Rightarrow> bool" where
  "audience_Valid a \<longleftrightarrow> a \<noteq> 0 \<and> a AND NOT (AudienceHost OR AudiencePublic) = 0"

record message =
  rm_ID :: string
  rm_Kind :: kind
  rm_EventID :: uuid
  rm_Audience :: audience
  rm_At :: time
  rm_Data :: string

definition Validate :: "message \<Rightarrow> error option" where
  "Validate m =
     (if rm_EventID m = uuid_nil then Some (Fmt ''realtime: invalid message: event id is required'')
      else if \<not> kind_Valid (rm_Kind m) then Some (Fmt ''realtime: invalid message: unknown kind'')
      else if \<not> audience_Valid (rm_Audience m) then Some (Fmt ''realtime: invalid message: audience'')
      else if rm_Data m = '''' then Some (Fmt ''realtime: invalid message: data is required'')
      else None)"

section \<open>Payloads\<close>

record media_payload =
  mp_IDs :: "uuid list"
  mp_Status :: "media_status option"
  mp_Item :: "item option"
  mp_ThumbnailReady :: bool

record wall_payload =
  wp_session_id :: uuid
  wp_status :: wall_status
  wp_is_playing :: bool
  wp_show_cta :: bool
  wp_is_blackout :: bool
  wp_cta_every_media :: int
  wp_revision :: int
  wp_command :: wall_command
  wp_content_policy :: content_policy
  wp_layout_mode :: layout_mode
  wp_slide_duration_seconds :: int
  wp_qr_strategy :: qr_strategy
  wp_arrival_behavior :: arrival_behavior
  wp_transition_mode :: transition_mode

datatype payload =
    MediaPayload media_payload
  | EventPayload event_change
  | WallPayload wall_payload
  | PlanPayload plan_change

record codec =
  cd_Marshal :: "payload \<Rightarrow> error + string"
  cd_Unmarshal :: "string \<Rightarrow> error + payload"
  cd_encode :: "message \<Rightarrow> error + string"
  cd_decode :: "string \<Rightarrow> error + message"
  cd_fresh :: string
  cd_now :: time

definition NewMessage :: "codec \<Rightarrow> uuid \<Rightarrow> kind \<Rightarrow> audience \<Rightarrow> payload \<Rightarrow> error + message" where
  "NewMessage C eventID k a p =
     (case cd_Marshal C p of
        Inl e \<Rightarrow> Inl e
      | Inr data \<Rightarrow>
          (let m = \<lparr>rm_ID = cd_fresh C, rm_Kind = k, rm_EventID = eventID, rm_Audience = a,
                 rm_At = cd_now C, rm_Data = data\<rparr>
           in case Validate m of Some e \<Rightarrow> Inl e | None \<Rightarrow> Inr m))"

definition Encode :: "codec \<Rightarrow> message \<Rightarrow> error + string" where
  "Encode C m = (case Validate m of Some e \<Rightarrow> Inl e | None \<Rightarrow> cd_encode C m)"

definition Decode :: "codec \<Rightarrow> string \<Rightarrow> error + message" where
  "Decode C raw =
     (case cd_decode C raw of
        Inl e \<Rightarrow> Inl e
      | Inr m \<Rightarrow> (case Validate m of Some e \<Rightarrow> Inl e | None \<Rightarrow> Inr m))"

section \<open>The notifier (notifier.go)\<close>

definition buildOne :: "codec \<Rightarrow> uuid \<Rightarrow> kind \<Rightarrow> audience \<Rightarrow> media_payload \<Rightarrow> error + message list" where
  "buildOne C eventID k a p =
     (case NewMessage C eventID k a (MediaPayload p) of Inl e \<Rightarrow> Inl e | Inr m \<Rightarrow> Inr [m])"

definition mediaMessages :: "codec \<Rightarrow> media_change \<Rightarrow> error + message list" where
  "mediaMessages C c =
     (case mc_Kind c of
        ChangeCreated \<Rightarrow> buildOne C (mc_EventID c) KindMediaCreated (AudienceHost OR AudiencePublic)
          \<lparr>mp_IDs = mc_IDs c, mp_Status = Some MediaReady, mp_Item = mc_Item c, mp_ThumbnailReady = False\<rparr>
      | ChangeThumbnail \<Rightarrow> buildOne C (mc_EventID c) KindMediaThumbnail (AudienceHost OR AudiencePublic)
          \<lparr>mp_IDs = mc_IDs c, mp_Status = None, mp_Item = None, mp_ThumbnailReady = True\<rparr>
      | ChangeDeleted \<Rightarrow> buildOne C (mc_EventID c) KindMediaDeleted (AudienceHost OR AudiencePublic)
          \<lparr>mp_IDs = mc_IDs c, mp_Status = None, mp_Item = None, mp_ThumbnailReady = False\<rparr>
      | ChangeModerated \<Rightarrow>
          (case NewMessage C (mc_EventID c) KindMediaUpdated AudienceHost (MediaPayload
               \<lparr>mp_IDs = mc_IDs c, mp_Status = mc_Status c, mp_Item = mc_Item c, mp_ThumbnailReady = False\<rparr>) of
             Inl e \<Rightarrow> Inl e
           | Inr host \<Rightarrow>
               (case NewMessage C (mc_EventID c)
                    (if mc_Status c = Some MediaHidden then KindMediaDeleted else KindMediaUpdated) AudiencePublic
                    (MediaPayload \<lparr>mp_IDs = mc_IDs c,
                       mp_Status = (if mc_Status c = Some MediaHidden then None else Some MediaReady),
                       mp_Item = None, mp_ThumbnailReady = False\<rparr>) of
                  Inl e \<Rightarrow> Inl e
                | Inr guest \<Rightarrow> Inr [host, guest])))"

definition planMessage :: "codec \<Rightarrow> plan_change \<Rightarrow> error + message" where
  "planMessage C c = NewMessage C (ch_EventID c) KindEventPlanUpdated AudienceHost (PlanPayload c)"

definition wall_payload_of :: "wall_change \<Rightarrow> wall_payload" where
  "wall_payload_of c = (let w = wc_Session c in \<lparr>
     wp_session_id = lw_ID w, wp_status = lw_Status w, wp_is_playing = lw_IsPlaying w,
     wp_show_cta = lw_ShowCTA w, wp_is_blackout = lw_IsBlackout w, wp_cta_every_media = lw_CTAEveryMedia w,
     wp_revision = lw_Revision w, wp_command = wc_Command c, wp_content_policy = lw_ContentPolicy w,
     wp_layout_mode = lw_LayoutMode w, wp_slide_duration_seconds = lw_SlideDuration w,
     wp_qr_strategy = lw_QRStrategy w, wp_arrival_behavior = lw_ArrivalBehavior w,
     wp_transition_mode = lw_TransitionMode w\<rparr>)"

text \<open>
  What each notification publishes; one that cannot be built is logged and dropped. \<open>dispatch\<close>
  hands the messages to the hub one by one, in the background.
\<close>

definition dropped_on_error :: "error + message list \<Rightarrow> message list" where
  "dropped_on_error r = (case r of Inl e \<Rightarrow> [] | Inr ms \<Rightarrow> ms)"

definition MediaChanged :: "codec \<Rightarrow> media_change \<Rightarrow> message list" where
  "MediaChanged C c = dropped_on_error (mediaMessages C c)"

definition EventChanged :: "codec \<Rightarrow> event_change \<Rightarrow> message list" where
  "EventChanged C c = dropped_on_error (map_sum id (\<lambda>m. [m])
     (NewMessage C (ec_EventID c) KindEventUpdated (AudienceHost OR AudiencePublic) (EventPayload c)))"

definition LiveWallChanged :: "codec \<Rightarrow> wall_change \<Rightarrow> message list" where
  "LiveWallChanged C c = dropped_on_error (map_sum id (\<lambda>m. [m])
     (NewMessage C (lw_EventID (wc_Session c)) KindLiveWallPresentation AudiencePublic (WallPayload (wall_payload_of c))))"

definition PlanChanged :: "codec \<Rightarrow> plan_change \<Rightarrow> message list" where
  "PlanChanged C c = dropped_on_error (map_sum id (\<lambda>m. [m]) (planMessage C c))"

end
