(* ===== verification/Hub.thy ===== *)
theory Hub
  imports Realtime
begin

text \<open>
  Delivery inside one process (internal/realtime/hub.go) and the connection that reads it
  (serve and pump of internal/httpapi/stream.go).

  The goroutines share topics and subscriptions. Each is a list of the actions it still has to
  do, an action being what it does under one lock, or one channel or context operation; a step
  takes the next action of any goroutine. Topics and subscriptions are numbered in the order
  they are made. A channel is the list of buffered messages and whether it is open; sending on
  a closed one panics, which nothing recovers: \<open>hb_panic\<close>. The ticks of the heartbeat write a
  comment only and are left out.
\<close>

type_synonym sid = nat
type_synonym tid = nat

record subscription =
  sb_ch :: "message list"
  sb_open :: bool
  sb_audience :: audience
  sb_eventID :: uuid
  sb_dropped :: bool

record topic =
  tp_eventID :: uuid
  tp_cancelled :: bool
  tp_subscribers :: "sid list"

datatype action =
    ASubscribe uuid audience
  | AAdd tid sid bool
  | AGo tid
  | AStart tid
  | ALoop tid
  | ARelease sid
  | ACancel tid
  | ADiscard tid
  | AClear tid
  | AServe sid
  | AClose sid
  | ARemove tid sid
  | AHubClose
  | AHubCancel

text \<open>What a client sees of its stream.\<close>

datatype frame = FMessage message | FResync | FUnavailable

record hub =
  hb_buffer :: nat
  hb_closed :: bool
  hb_cancelled :: bool
  hb_topics :: "(uuid \<times> tid) list"
  hb_topic :: "topic list"
  hb_sub :: "subscription list"
  hb_written :: "frame list list"
  hb_threads :: "action list list"
  hb_panic :: bool

definition DefaultBuffer :: nat where "DefaultBuffer = 32"

definition NewHub :: "int \<Rightarrow> hub" where
  "NewHub buffer = \<lparr>hb_buffer = (if buffer \<le> 0 then DefaultBuffer else nat buffer), hb_closed = False,
     hb_cancelled = False, hb_topics = [], hb_topic = [], hb_sub = [], hb_written = [], hb_threads = [],
     hb_panic = False\<rparr>"

section \<open>Critical sections\<close>

definition upd_topic :: "tid \<Rightarrow> (topic \<Rightarrow> topic) \<Rightarrow> hub \<Rightarrow> hub" where
  "upd_topic t f h = h\<lparr>hb_topic := (hb_topic h)[t := f (hb_topic h ! t)]\<rparr>"

definition upd_sub :: "sid \<Rightarrow> (subscription \<Rightarrow> subscription) \<Rightarrow> hub \<Rightarrow> hub" where
  "upd_sub s f h = h\<lparr>hb_sub := (hb_sub h)[s := f (hb_sub h ! s)]\<rparr>"

definition write_frame :: "sid \<Rightarrow> frame \<Rightarrow> hub \<Rightarrow> hub" where
  "write_frame s x h = h\<lparr>hb_written := (hb_written h)[s := hb_written h ! s @ [x]]\<rparr>"

definition ctx_Done :: "tid \<Rightarrow> hub \<Rightarrow> bool" where
  "ctx_Done t h \<longleftrightarrow> hb_cancelled h \<or> tp_cancelled (hb_topic h ! t)"

text \<open>Each connection gets a subscription record of its own, also one that is refused.\<close>

definition newTopic :: "uuid \<Rightarrow> topic" where
  "newTopic eventID = \<lparr>tp_eventID = eventID, tp_cancelled = False, tp_subscribers = []\<rparr>"

definition Subscribe :: "uuid \<Rightarrow> audience \<Rightarrow> hub \<Rightarrow> action list \<times> hub" where
  "Subscribe eventID a h =
     (let s = length (hb_sub h);
          sub = \<lparr>sb_ch = [], sb_open = True, sb_audience = a, sb_eventID = eventID, sb_dropped = False\<rparr>;
          h1 = h\<lparr>hb_sub := hb_sub h @ [sub], hb_written := hb_written h @ [[]]\<rparr>
      in if eventID = uuid_nil \<or> \<not> audience_Valid a \<or> hb_closed h
         then ([], write_frame s FUnavailable h1)
         else
           (case map_of (hb_topics h) eventID of
              Some t \<Rightarrow> ([AAdd t s False], h1)
            | None \<Rightarrow>
                (let t = length (hb_topic h)
                 in ([AAdd t s True],
                     h1\<lparr>hb_topic := hb_topic h @ [newTopic eventID], hb_topics := (eventID, t) # hb_topics h\<rparr>))))"

definition release :: "sid \<Rightarrow> hub \<Rightarrow> hub" where
  "release s = upd_sub s (\<lambda>x. x\<lparr>sb_open := False\<rparr>)"

text \<open>The send of one message to one subscriber: delivered, overflowed, or a panic.\<close>

definition reaches :: "message \<Rightarrow> subscription \<Rightarrow> bool" where
  "reaches m x \<longleftrightarrow> Includes (rm_Audience m) (sb_audience x)"

definition overflows :: "message \<Rightarrow> hub \<Rightarrow> sid \<Rightarrow> bool" where
  "overflows m h s \<longleftrightarrow> reaches m (hb_sub h ! s) \<and> hb_buffer h \<le> length (sb_ch (hb_sub h ! s))"

definition send_to :: "message \<Rightarrow> hub \<Rightarrow> subscription \<Rightarrow> subscription" where
  "send_to m h x = (if \<not> reaches m x then x
     else if hb_buffer h \<le> length (sb_ch x) then x\<lparr>sb_dropped := True\<rparr>
     else x\<lparr>sb_ch := sb_ch x @ [m]\<rparr>)"

definition deliver :: "tid \<Rightarrow> message \<Rightarrow> hub \<Rightarrow> action list \<times> hub" where
  "deliver t m h =
     (let subs = tp_subscribers (hb_topic h ! t);
          overflowed = filter (overflows m h) subs;
          left = filter (\<lambda>s. \<not> overflows m h s) subs;
          h1 = h\<lparr>hb_sub := map (\<lambda>(s, x). if s \<in> set subs then send_to m h x else x) (enumerate 0 (hb_sub h)),
             hb_panic := hb_panic h \<or> (\<exists>s \<in> set subs. reaches m (hb_sub h ! s) \<and> \<not> sb_open (hb_sub h ! s))\<rparr>
      in (map ARelease overflowed @ (if left = [] then [ACancel t] else []),
          upd_topic t (\<lambda>x. x\<lparr>tp_subscribers := left\<rparr>) h1))"

definition shutdown :: "tid \<Rightarrow> action list" where
  "shutdown t = [ACancel t, ADiscard t, AClear t]"

text \<open>Two entries for an event never exist at once, so removing it removes this topic only.\<close>

definition discard :: "tid \<Rightarrow> hub \<Rightarrow> hub" where
  "discard t h = (let e = tp_eventID (hb_topic h ! t) in
     if map_of (hb_topics h) e = Some t then h\<lparr>hb_topics := filter (\<lambda>p. fst p \<noteq> e) (hb_topics h)\<rparr> else h)"

section \<open>Goroutines\<close>

text \<open>
  An action pushes what its goroutine does next. \<open>AAdd t s new\<close> is the rest of a call of
  Subscribe, which starts the topic it made, and then the connection; \<open>ARemove t s\<close> is the rest
  of a Close that found its topic.

  What the outside decides when an action is taken: nothing in particular, that a payload
  arrived from the bus, that the bus failed or ended, that a client left or its time is over.
\<close>

datatype occurrence = Go | Arrives string | BusEnds | Leaves

text \<open>A guest stream ends with the message that the gallery was switched off.\<close>

definition galleryDisabled :: "codec \<Rightarrow> message \<Rightarrow> bool" where
  "galleryDisabled C m = (case cd_Unmarshal C (rm_Data m) of
       Inr (EventPayload c) \<Rightarrow> \<not> ec_GalleryEnabled c
     | _ \<Rightarrow> False)"

definition pump :: "codec \<Rightarrow> sid \<Rightarrow> hub \<Rightarrow> action list \<times> hub" where
  "pump C s h =
     (let x = hb_sub h ! s in
      case sb_ch x of
        m # ms \<Rightarrow>
          (let h1 = write_frame s (FMessage m) (upd_sub s (\<lambda>x. x\<lparr>sb_ch := ms\<rparr>) h)
           in if sb_audience x = AudiencePublic \<and> rm_Kind m = KindEventUpdated \<and> galleryDisabled C m
              then ([AClose s], h1) else ([AServe s], h1))
      | [] \<Rightarrow>
          if sb_open x then ([AServe s], h)
          else ([AClose s], if sb_dropped x then write_frame s FResync h else h))"

text \<open>The parts of run, add, remove, shutdown and the two Close methods, in the order they run.\<close>

definition topic_add :: "tid \<Rightarrow> sid \<Rightarrow> hub \<Rightarrow> hub" where
  [simp]: "topic_add t s = upd_topic t (\<lambda>y. y\<lparr>tp_subscribers := List.insert s (tp_subscribers y)\<rparr>)"

definition topic_remove :: "tid \<Rightarrow> sid \<Rightarrow> hub \<Rightarrow> action list \<times> hub" where
  [simp]: "topic_remove t s h =
     (let left = removeAll s (tp_subscribers (hb_topic h ! t))
      in (if left = [] then [ACancel t] else [], upd_topic t (\<lambda>y. y\<lparr>tp_subscribers := left\<rparr>) h))"

definition topic_clear :: "tid \<Rightarrow> hub \<Rightarrow> action list \<times> hub" where
  [simp]: "topic_clear t h =
     (map ARelease (tp_subscribers (hb_topic h ! t)), upd_topic t (\<lambda>y. y\<lparr>tp_subscribers := []\<rparr>) h)"

definition run_start :: "occurrence \<Rightarrow> tid \<Rightarrow> action list" where
  [simp]: "run_start x t = (case x of BusEnds \<Rightarrow> shutdown t | _ \<Rightarrow> [ALoop t])"

definition run_loop :: "codec \<Rightarrow> occurrence \<Rightarrow> tid \<Rightarrow> hub \<Rightarrow> action list \<times> hub" where
  [simp]: "run_loop C x t h =
     (case x of
        Arrives raw \<Rightarrow>
          (case Decode C raw of
             Inl e \<Rightarrow> ([ALoop t], h)
           | Inr m \<Rightarrow> (let (as, h1) = deliver t m h in (as @ [ALoop t], h1)))
      | BusEnds \<Rightarrow> (shutdown t, h)
      | _ \<Rightarrow> (if ctx_Done t h then shutdown t else [ALoop t], h))"

definition sub_Close :: "sid \<Rightarrow> hub \<Rightarrow> action list" where
  [simp]: "sub_Close s h = (case map_of (hb_topics h) (sb_eventID (hb_sub h ! s)) of
        Some t \<Rightarrow> [ARemove t s] | None \<Rightarrow> [ARelease s])"

definition Hub_Close :: "hub \<Rightarrow> action list \<times> hub" where
  [simp]: "Hub_Close h =
     (if hb_closed h then ([], h)
      else (AHubCancel # concat (map (\<lambda>p. shutdown (snd p)) (hb_topics h)), h\<lparr>hb_closed := True, hb_topics := []\<rparr>))"

definition serve_next :: "codec \<Rightarrow> occurrence \<Rightarrow> sid \<Rightarrow> hub \<Rightarrow> action list \<times> hub" where
  [simp]: "serve_next C x s h = (case x of Leaves \<Rightarrow> ([AClose s], h) | _ \<Rightarrow> pump C s h)"

fun perform :: "codec \<Rightarrow> occurrence \<Rightarrow> action \<Rightarrow> hub \<Rightarrow> action list \<times> action list list \<times> hub" where
  "perform C x (ASubscribe e a) h = (let (as, h1) = Subscribe e a h in (as, [], h1))"
| "perform C x (AAdd t s new) h = ((if new then [AGo t] else []) @ [AServe s], [], topic_add t s h)"
| "perform C x (AGo t) h = ([], [[AStart t]], h)"
| "perform C x (AStart t) h = (run_start x t, [], h)"
| "perform C x (ALoop t) h = (let (as, h1) = run_loop C x t h in (as, [], h1))"
| "perform C x (ARelease s) h = ([], [], release s h)"
| "perform C x (ACancel t) h = ([], [], upd_topic t (\<lambda>y. y\<lparr>tp_cancelled := True\<rparr>) h)"
| "perform C x (ADiscard t) h = ([], [], discard t h)"
| "perform C x (AClear t) h = (let (as, h1) = topic_clear t h in (as, [], h1))"
| "perform C x (AServe s) h = (let (as, h1) = serve_next C x s h in (as, [], h1))"
| "perform C x (AClose s) h = (sub_Close s h, [], h)"
| "perform C x (ARemove t s) h = (let (as, h1) = topic_remove t s h in (as @ [ARelease s], [], h1))"
| "perform C x AHubClose h = (let (as, h1) = Hub_Close h in (as, [], h1))"
| "perform C x AHubCancel h = ([], [], h\<lparr>hb_cancelled := True\<rparr>)"

text \<open>One step of the goroutine at position \<open>i\<close>; after a panic the process is gone.\<close>

definition step_at :: "codec \<Rightarrow> occurrence \<Rightarrow> nat \<Rightarrow> hub \<Rightarrow> hub" where
  "step_at C x i h =
     (if hb_panic h then h
      else
        (case hb_threads h ! i of
           [] \<Rightarrow> h
         | a # as \<Rightarrow>
             (let (new, spawned, h1) = perform C x a h
              in h1\<lparr>hb_threads := (hb_threads h)[i := new @ as] @ spawned\<rparr>)))"

definition arrive :: "action \<Rightarrow> hub \<Rightarrow> hub" where
  "arrive a h = h\<lparr>hb_threads := hb_threads h @ [[a]]\<rparr>"

inductive hub_step :: "codec \<Rightarrow> hub \<Rightarrow> hub \<Rightarrow> bool" for C where
  step: "i < length (hb_threads h) \<Longrightarrow> hub_step C h (step_at C x i h)"
| connect: "hub_step C h (arrive (ASubscribe e a) h)"

inductive closing_step :: "codec \<Rightarrow> hub \<Rightarrow> hub \<Rightarrow> bool" for C where
  serve: "hub_step C h h' \<Longrightarrow> closing_step C h h'"
| close: "closing_step C h (arrive AHubClose h)"

definition Subscribers :: "uuid \<Rightarrow> hub \<Rightarrow> nat" where
  "Subscribers e h = (case map_of (hb_topics h) e of
       None \<Rightarrow> 0 | Some t \<Rightarrow> length (tp_subscribers (hb_topic h ! t)))"

end
