(* ===== verification/HubInv.thy ===== *)
theory HubInv
  imports Hub "HOL-Library.Multiset"
begin

text \<open>
  Correctness of the realtime hub under every interleaving of its goroutines.

  The invariant speaks of the multiset of actions still to be done by any goroutine, so it does
  not depend on which goroutine is where. An action \<open>starts\<close> a topic when the topic's loop is
  running or still to come; such a topic is live.
\<close>

section \<open>Pending actions\<close>

fun starts :: "tid \<Rightarrow> action \<Rightarrow> bool" where
  "starts t (AAdd t' s new) = (new \<and> t' = t)"
| "starts t (AGo t') = (t' = t)"
| "starts t (AStart t') = (t' = t)"
| "starts t (ALoop t') = (t' = t)"
| "starts t _ = False"

fun names :: "sid \<Rightarrow> action \<Rightarrow> bool" where
  "names s (AAdd t s' new) = (s' = s)"
| "names s (ARelease s') = (s' = s)"
| "names s (AServe s') = (s' = s)"
| "names s (AClose s') = (s' = s)"
| "names s (ARemove t s') = (s' = s)"
| "names s _ = False"

fun about :: "tid \<Rightarrow> action \<Rightarrow> bool" where
  "about t (AAdd t' s new) = (t' = t)"
| "about t (AGo t') = (t' = t)"
| "about t (AStart t') = (t' = t)"
| "about t (ALoop t') = (t' = t)"
| "about t (ACancel t') = (t' = t)"
| "about t (ADiscard t') = (t' = t)"
| "about t (AClear t') = (t' = t)"
| "about t (ARemove t' s) = (t' = t)"
| "about t _ = False"

definition pending :: "hub \<Rightarrow> action multiset" where
  "pending h = mset (concat (hb_threads h))"

definition live :: "action multiset \<Rightarrow> tid \<Rightarrow> bool" where
  "live M t \<longleftrightarrow> (\<exists>a \<in># M. starts t a)"

abbreviation subs_of :: "hub \<Rightarrow> tid \<Rightarrow> sid list" where
  "subs_of h t \<equiv> tp_subscribers (hb_topic h ! t)"

lemma starts_about: "starts t a \<Longrightarrow> about t a"
  by (cases a) auto

text \<open>A step takes one pending action and adds what it pushes and what it spawns.\<close>

lemma step_at_pending:
  assumes "i < length (hb_threads h)"
  obtains (idle) "step_at C x i h = h"
  | (acts) a N new spawned h1 t where "pending h = add_mset a N" "perform C x a h = (new, spawned, h1)" "\<not> hb_panic h"
      "step_at C x i h = h1\<lparr>hb_threads := t\<rparr>"
      "pending (step_at C x i h) = N + mset new + mset (concat spawned)"
proof (cases "hb_panic h \<or> hb_threads h ! i = []")
  case True
  then show thesis by (intro idle) (auto simp: step_at_def)
next
  case False
  then obtain a as where a: "hb_threads h ! i = a # as" by (cases "hb_threads h ! i") auto
  obtain new spawned h1 where p: "perform C x a h = (new, spawned, h1)" by (metis prod.exhaust)
  let ?t = "hb_threads h" and ?N = "mset as + mset (concat (take i (hb_threads h))) + mset (concat (drop (Suc i) (hb_threads h)))"
  have t: "?t = take i ?t @ (a # as) # drop (Suc i) ?t" using id_take_nth_drop [OF assms] a by simp
  then have "pending h = mset (concat (take i ?t @ (a # as) # drop (Suc i) ?t))" by (simp add: pending_def)
  also have "\<dots> = add_mset a ?N" by simp
  finally have 1: "pending h = add_mset a ?N" .
  have s: "step_at C x i h = h1\<lparr>hb_threads := ?t[i := new @ as] @ spawned\<rparr>"
    using False a p by (simp add: step_at_def)
  have "?t[i := new @ as] = take i ?t @ (new @ as) # drop (Suc i) ?t"
    using assms by (simp add: upd_conv_take_nth_drop)
  then have "pending (step_at C x i h) = mset (concat (take i ?t @ (new @ as) # drop (Suc i) ?t @ spawned))"
    by (simp add: s pending_def)
  also have "\<dots> = ?N + mset new + mset (concat spawned)" by simp
  finally show thesis using 1 p False s by (intro acts) auto
qed

section \<open>The invariant\<close>

definition tokens_once :: "action multiset \<Rightarrow> bool" where
  "tokens_once M \<longleftrightarrow> (\<forall>t. size (filter_mset (starts t) M) \<le> 1)"

definition in_range :: "action multiset \<Rightarrow> hub \<Rightarrow> bool" where
  "in_range M h \<longleftrightarrow> (\<forall>a \<in># M. (\<forall>s. names s a \<longrightarrow> s < length (hb_sub h)) \<and> (\<forall>t. about t a \<longrightarrow> t < length (hb_topic h))) \<and>
     (\<forall>(e, t) \<in> set (hb_topics h). t < length (hb_topic h) \<and> tp_eventID (hb_topic h ! t) = e)"

definition adds_fresh :: "action multiset \<Rightarrow> hub \<Rightarrow> bool" where
  "adds_fresh M h \<longleftrightarrow> (\<forall>t s new. AAdd t s new \<in># M \<longrightarrow> filter_mset (names s) M = {#AAdd t s new#} \<and>
     sb_open (hb_sub h ! s) \<and> sb_eventID (hb_sub h ! s) = tp_eventID (hb_topic h ! t) \<and>
     (\<forall>t' < length (hb_topic h). s \<notin> set (subs_of h t')))"

definition shut_dead :: "action multiset \<Rightarrow> bool" where
  "shut_dead M \<longleftrightarrow> (\<forall>t. ADiscard t \<in># M \<or> AClear t \<in># M \<longrightarrow> \<not> live M t)"

definition mapped :: "action multiset \<Rightarrow> hub \<Rightarrow> bool" where
  "mapped M h \<longleftrightarrow> (\<forall>t. live M t \<longrightarrow> map_of (hb_topics h) (tp_eventID (hb_topic h ! t)) = Some t)"

definition members_ok :: "action multiset \<Rightarrow> hub \<Rightarrow> bool" where
  "members_ok M h \<longleftrightarrow> (\<forall>t < length (hb_topic h). \<forall>s \<in> set (subs_of h t). s < length (hb_sub h) \<and>
     sb_eventID (hb_sub h ! s) = tp_eventID (hb_topic h ! t) \<and> (live M t \<longrightarrow> sb_open (hb_sub h ! s)) \<and>
     (\<forall>t' < length (hb_topic h). s \<in> set (subs_of h t') \<longrightarrow> t' = t))"

definition releases_ok :: "action multiset \<Rightarrow> hub \<Rightarrow> bool" where
  "releases_ok M h \<longleftrightarrow> (\<forall>t < length (hb_topic h). \<forall>s \<in> set (subs_of h t). live M t \<longrightarrow>
     ARelease s \<notin># M \<and> (\<forall>t'. ARemove t' s \<in># M \<longrightarrow> t' = t))"

definition serving :: "action multiset \<Rightarrow> hub \<Rightarrow> bool" where
  "serving M h \<longleftrightarrow> \<not> hb_panic h \<and> \<not> hb_closed h \<and> AHubClose \<notin># M \<and> AHubCancel \<notin># M"

lemmas hub_inv_defs = tokens_once_def in_range_def adds_fresh_def shut_dead_def mapped_def members_ok_def
  releases_ok_def serving_def

definition hub_inv :: "action multiset \<Rightarrow> hub \<Rightarrow> bool" where
  "hub_inv M h \<longleftrightarrow> tokens_once M \<and> in_range M h \<and> adds_fresh M h \<and> shut_dead M \<and> mapped M h \<and>
     members_ok M h \<and> releases_ok M h \<and> serving M h"

lemma hub_inv_threads [simp]: "hub_inv M (h\<lparr>hb_threads := t\<rparr>) = hub_inv M h"
  by (simp add: hub_inv_def hub_inv_defs)

lemma live_add [simp]: "live (add_mset a M) t \<longleftrightarrow> starts t a \<or> live M t"
  by (simp add: live_def)

lemma live_union [simp]: "live (M + N) t \<longleftrightarrow> live M t \<or> live N t"
  by (auto simp: live_def)

lemma live_empty [simp]: "\<not> live {#} t"
  by (simp add: live_def)

lemma filter_none: "filter_mset P M = {#} \<longleftrightarrow> (\<forall>x \<in># M. \<not> P x)"
  by (induction M) auto

lemma live_size: "live M t \<longleftrightarrow> 0 < size (filter_mset (starts t) M)"
  by (auto simp: live_def filter_none simp flip: nonempty_has_size)

lemma token_alone: "tokens_once (add_mset a M) \<Longrightarrow> starts t a \<Longrightarrow> \<not> live M t"
  unfolding live_size tokens_once_def by (drule spec [of _ t]) simp

section \<open>Every action keeps the invariant\<close>

text \<open>
  Most actions only pass work on: they add no life to a topic, name no new subscription, and
  leave the tables as they are.
\<close>

lemma inv_pass:
  assumes "hub_inv (add_mset a N) h"
    and "\<And>t. size (filter_mset (starts t) new) \<le> (if starts t a then 1 else 0)"
    and "\<And>b s. b \<in># new \<Longrightarrow> names s b \<Longrightarrow> names s a \<or> (s < length (hb_sub h) \<and> (\<forall>t k. AAdd t s k \<notin># N))"
    and "\<And>b t. b \<in># new \<Longrightarrow> about t b \<Longrightarrow> t < length (hb_topic h)"
    and "\<And>t s k. AAdd t s k \<notin># new" "\<And>t s k. a \<noteq> AAdd t s k"
    and "\<And>t. ADiscard t \<in># new \<or> AClear t \<in># new \<Longrightarrow> \<not> live (N + new) t"
    and "\<And>t t' s. t < length (hb_topic h) \<Longrightarrow> s \<in> set (subs_of h t) \<Longrightarrow> live (N + new) t \<Longrightarrow>
      ARelease s \<notin># new \<and> (ARemove t' s \<in># new \<longrightarrow> t' = t)"
    and "AHubClose \<notin># new" "AHubCancel \<notin># new"
  shows "hub_inv (N + new) h"
proof -
  note inv = assms(1) [unfolded hub_inv_def]
  have l: "live (N + new) t \<Longrightarrow> live (add_mset a N) t" for t
    using assms(2) [of t] by (auto simp: live_size split: if_splits)
  have "tokens_once (N + new)"
    unfolding tokens_once_def
  proof
    fix t
    have "size (filter_mset (starts t) (add_mset a N)) \<le> 1" using inv by (simp add: tokens_once_def)
    moreover have "size (filter_mset (starts t) (add_mset a N)) = (if starts t a then 1 else 0) + size (filter_mset (starts t) N)"
      by simp
    ultimately have "(if starts t a then 1 else 0) + size (filter_mset (starts t) N) \<le> 1" by (simp only:)
    then have "size (filter_mset (starts t) N) + size (filter_mset (starts t) new) \<le> 1"
      using assms(2) [of t] by linarith
    then show "size (filter_mset (starts t) (N + new)) \<le> 1" by (simp only: filter_union_mset size_union)
  qed
  moreover have "in_range (N + new) h"
    using inv assms(3,4) unfolding in_range_def by (auto simp: ball_Un) blast
  moreover have "adds_fresh (N + new) h"
    unfolding adds_fresh_def
  proof (intro allI impI)
    fix t s k assume "AAdd t s k \<in># N + new"
    then have n: "AAdd t s k \<in># N" using assms(5) by auto
    have f: "filter_mset (names s) (add_mset a N) = {#AAdd t s k#} \<and>
      sb_open (hb_sub h ! s) \<and> sb_eventID (hb_sub h ! s) = tp_eventID (hb_topic h ! t) \<and>
      (\<forall>t' < length (hb_topic h). s \<notin> set (subs_of h t'))"
      using inv n by (simp add: adds_fresh_def)
    have "\<not> names s a"
    proof
      assume "names s a"
      then have "filter_mset (names s) N = {#}" using f by (cases a) (auto simp: assms(6))
      then show False using n by (auto simp: filter_none)
    qed
    moreover from this have "filter_mset (names s) new = {#}"
      using assms(3) n by (auto simp: filter_none)
    ultimately show "filter_mset (names s) (N + new) = {#AAdd t s k#} \<and>
      sb_open (hb_sub h ! s) \<and> sb_eventID (hb_sub h ! s) = tp_eventID (hb_topic h ! t) \<and>
      (\<forall>t' < length (hb_topic h). s \<notin> set (subs_of h t'))"
      using f by simp
  qed
  moreover have "shut_dead (N + new)"
    unfolding shut_dead_def
  proof (intro allI impI)
    fix t assume "ADiscard t \<in># N + new \<or> AClear t \<in># N + new"
    then consider "ADiscard t \<in># N \<or> AClear t \<in># N" | "ADiscard t \<in># new \<or> AClear t \<in># new" by auto
    then show "\<not> live (N + new) t"
    proof cases
      case 1
      then have "\<not> live (add_mset a N) t" using inv unfolding shut_dead_def by auto
      then show ?thesis using l by blast
    next
      case 2
      then show ?thesis by (rule assms(7))
    qed
  qed
  moreover have "mapped (N + new) h" using inv l unfolding mapped_def by blast
  moreover have "members_ok (N + new) h" using inv l unfolding members_ok_def by blast
  moreover have "releases_ok (N + new) h"
    using inv l assms(8) unfolding releases_ok_def by (auto simp: not_in_iff) blast+
  moreover have "serving (N + new) h" using inv assms(9,10) by (simp add: serving_def)
  ultimately show ?thesis by (simp add: hub_inv_def)
qed

text \<open>
  The tables may lose members and close subscriptions that no live topic holds, and forget
  topics that are not live.
\<close>

lemma inv_tables:
  assumes "hub_inv M h"
    and "length (hb_topic h1) = length (hb_topic h)" "\<And>t. tp_eventID (hb_topic h1 ! t) = tp_eventID (hb_topic h ! t)"
    and "length (hb_sub h1) = length (hb_sub h)" "\<And>s. s < length (hb_sub h) \<Longrightarrow> sb_eventID (hb_sub h1 ! s) = sb_eventID (hb_sub h ! s)"
    and "\<And>t. t < length (hb_topic h) \<Longrightarrow> set (subs_of h1 t) \<subseteq> set (subs_of h t)"
    and "\<And>t s. t < length (hb_topic h) \<Longrightarrow> live M t \<Longrightarrow> s \<in> set (subs_of h1 t) \<Longrightarrow>
      sb_open (hb_sub h ! s) \<Longrightarrow> sb_open (hb_sub h1 ! s)"
    and "\<And>t s k. AAdd t s k \<in># M \<Longrightarrow> sb_open (hb_sub h1 ! s)"
    and "\<And>t. live M t \<Longrightarrow> map_of (hb_topics h1) (tp_eventID (hb_topic h ! t)) = map_of (hb_topics h) (tp_eventID (hb_topic h ! t))"
    and "set (hb_topics h1) \<subseteq> set (hb_topics h)" "\<not> hb_panic h1" "hb_closed h1 = hb_closed h"
  shows "hub_inv M h1"
proof -
  note inv = assms(1) [unfolded hub_inv_def]
  have "in_range M h1" using inv assms(2-5,10) unfolding in_range_def by fastforce
  moreover have "adds_fresh M h1"
    unfolding adds_fresh_def
  proof (intro allI impI)
    fix t s k assume a: "AAdd t s k \<in># M"
    then have "s < length (hb_sub h)" using inv by (auto simp: in_range_def)
    moreover have "filter_mset (names s) M = {#AAdd t s k#} \<and> sb_eventID (hb_sub h ! s) = tp_eventID (hb_topic h ! t) \<and>
        (\<forall>t' < length (hb_topic h). s \<notin> set (subs_of h t'))"
      using inv a unfolding adds_fresh_def by blast
    ultimately show "filter_mset (names s) M = {#AAdd t s k#} \<and> sb_open (hb_sub h1 ! s) \<and>
        sb_eventID (hb_sub h1 ! s) = tp_eventID (hb_topic h1 ! t) \<and> (\<forall>t' < length (hb_topic h1). s \<notin> set (subs_of h1 t'))"
      using assms(2-6) assms(8) [OF a] by (metis subsetD)
  qed
  moreover have "mapped M h1" using inv assms(3,9) unfolding mapped_def by simp
  moreover have "members_ok M h1"
    unfolding members_ok_def
  proof (intro allI impI ballI)
    fix t s assume t: "t < length (hb_topic h1)" and s: "s \<in> set (subs_of h1 t)"
    then have old: "t < length (hb_topic h)" "s \<in> set (subs_of h t)" using assms(2,6) by auto
    have m: "s < length (hb_sub h) \<and> sb_eventID (hb_sub h ! s) = tp_eventID (hb_topic h ! t) \<and>
        (live M t \<longrightarrow> sb_open (hb_sub h ! s)) \<and> (\<forall>t' < length (hb_topic h). s \<in> set (subs_of h t') \<longrightarrow> t' = t)"
      using inv old unfolding members_ok_def by blast
    moreover have "\<forall>t' < length (hb_topic h1). s \<in> set (subs_of h1 t') \<longrightarrow> t' = t"
      using m assms(2,6) by (metis subsetD)
    ultimately show "s < length (hb_sub h1) \<and> sb_eventID (hb_sub h1 ! s) = tp_eventID (hb_topic h1 ! t) \<and>
        (live M t \<longrightarrow> sb_open (hb_sub h1 ! s)) \<and> (\<forall>t' < length (hb_topic h1). s \<in> set (subs_of h1 t') \<longrightarrow> t' = t)"
      using assms(3-5,7) old(1) s by simp
  qed
  moreover have "releases_ok M h1"
    using inv assms(2,6) unfolding releases_ok_def by (metis subsetD)
  moreover have "serving M h1" using inv assms(11,12) by (simp add: serving_def)
  ultimately show ?thesis using inv by (simp add: hub_inv_def)
qed

lemma inv_alone:
  assumes "hub_inv M h" "AAdd t s k \<in># M" "b \<in># M" "names s b"
  shows "b = AAdd t s k"
proof -
  have "b \<in># filter_mset (names s) M" using assms(3,4) by simp
  also have "filter_mset (names s) M = {#AAdd t s k#}"
    using assms(1,2) unfolding hub_inv_def adds_fresh_def by blast
  finally show ?thesis by simp
qed

section \<open>The invariant of one action\<close>

lemma nth_upd [simp]:
  "tp_eventID (hb_topic (upd_topic t f h) ! t') = (if t' = t \<and> t < length (hb_topic h) then tp_eventID (f (hb_topic h ! t)) else tp_eventID (hb_topic h ! t'))"
  "subs_of (upd_topic t f h) t' = (if t' = t \<and> t < length (hb_topic h) then tp_subscribers (f (hb_topic h ! t)) else subs_of h t')"
  "hb_sub (upd_sub s g h) ! s' = (if s' = s \<and> s < length (hb_sub h) then g (hb_sub h ! s) else hb_sub h ! s')"
  by (auto simp: upd_topic_def upd_sub_def nth_list_update list_update_beyond not_less)

lemma upd_fields [simp]:
  "hb_sub (upd_topic t f h) = hb_sub h" "hb_topics (upd_topic t f h) = hb_topics h" "hb_panic (upd_topic t f h) = hb_panic h"
  "hb_closed (upd_topic t f h) = hb_closed h" "length (hb_topic (upd_topic t f h)) = length (hb_topic h)"
  "hb_topic (upd_sub s g h) = hb_topic h" "hb_topics (upd_sub s g h) = hb_topics h" "hb_panic (upd_sub s g h) = hb_panic h"
  "hb_closed (upd_sub s g h) = hb_closed h" "length (hb_sub (upd_sub s g h)) = length (hb_sub h)"
  "hb_sub (write_frame s x h) = hb_sub h" "hb_topic (write_frame s x h) = hb_topic h" "hb_topics (write_frame s x h) = hb_topics h"
  "hb_panic (write_frame s x h) = hb_panic h" "hb_closed (write_frame s x h) = hb_closed h"
  "hb_written (upd_topic t f h) = hb_written h" "hb_written (upd_sub s g h) = hb_written h"
  "hb_buffer (upd_topic t f h) = hb_buffer h" "hb_buffer (upd_sub s g h) = hb_buffer h" "hb_buffer (write_frame s x h) = hb_buffer h"
  by (simp_all add: upd_topic_def upd_sub_def write_frame_def)

text \<open>An action that pushes nothing leaves the rest in order.\<close>

lemma inv_drop: "hub_inv (add_mset a N) h \<Longrightarrow> (\<And>t s k. a \<noteq> AAdd t s k) \<Longrightarrow> hub_inv N h"
  using inv_pass [of a N h "{#}"] by (auto simp: shut_dead_def hub_inv_def)

lemma inv_release:
  assumes "hub_inv (add_mset (ARelease s) N) h"
  shows "hub_inv N (release s h)"
proof -
  note inv = assms [unfolded hub_inv_def]
  have "hub_inv (add_mset (ARelease s) N) (release s h)"
  proof (rule inv_tables [OF assms])
    fix t s' assume "t < length (hb_topic h)" "live (add_mset (ARelease s) N) t" "s' \<in> set (subs_of (release s h) t)" "sb_open (hb_sub h ! s')"
    moreover from this have "s' \<noteq> s" using inv unfolding releases_ok_def by (auto simp: release_def)
    ultimately show "sb_open (hb_sub (release s h) ! s')" by (simp add: release_def)
  next
    fix t s' k assume a: "AAdd t s' k \<in># add_mset (ARelease s) N"
    then have f: "filter_mset (names s') (add_mset (ARelease s) N) = {#AAdd t s' k#}" "sb_open (hb_sub h ! s')"
      using inv unfolding adds_fresh_def by blast+
    then have "s' \<noteq> s" by auto
    then show "sb_open (hb_sub (release s h) ! s')" using f(2) by (simp add: release_def)
  qed (use inv in \<open>auto simp: release_def serving_def\<close>)
  then show ?thesis by (rule inv_drop) simp
qed

lemma inv_cancel:
  assumes "hub_inv (add_mset (ACancel t) N) h"
  shows "hub_inv N (upd_topic t (\<lambda>y. y\<lparr>tp_cancelled := True\<rparr>) h)"
proof -
  have "hub_inv (add_mset (ACancel t) N) (upd_topic t (\<lambda>y. y\<lparr>tp_cancelled := True\<rparr>) h)"
    by (rule inv_tables [OF assms])
      (use assms in \<open>auto simp: hub_inv_def serving_def adds_fresh_def split: if_splits\<close>)
  then show ?thesis by (rule inv_drop) simp
qed

lemma map_of_forget: "k' \<noteq> k \<Longrightarrow> map_of (filter (\<lambda>p. fst p \<noteq> k) xs) k' = map_of xs k'"
  by (induction xs) auto

lemma inv_discard:
  assumes "hub_inv (add_mset (ADiscard t) N) h"
  shows "hub_inv N (discard t h)"
proof -
  note inv = assms [unfolded hub_inv_def]
  have dead: "\<not> live N t" using inv by (auto simp: shut_dead_def)
  have "hub_inv (add_mset (ADiscard t) N) (discard t h)"
  proof (rule inv_tables [OF assms])
    fix t' assume l: "live (add_mset (ADiscard t) N) t'"
    have m: "map_of (hb_topics h) (tp_eventID (hb_topic h ! t')) = Some t'" using inv l unfolding mapped_def by blast
    show "map_of (hb_topics (discard t h)) (tp_eventID (hb_topic h ! t')) = map_of (hb_topics h) (tp_eventID (hb_topic h ! t'))"
    proof (cases "map_of (hb_topics h) (tp_eventID (hb_topic h ! t)) = Some t")
      case True
      then have "tp_eventID (hb_topic h ! t') \<noteq> tp_eventID (hb_topic h ! t)" using m l dead by auto
      then show ?thesis by (simp add: discard_def Let_def map_of_forget)
    qed (simp add: discard_def Let_def)
  qed (use inv in \<open>auto simp: discard_def Let_def serving_def adds_fresh_def split: if_splits\<close>)
  then show ?thesis by (rule inv_drop) simp
qed

text \<open>Members leave a topic: those left may be released, as no live topic holds them now.\<close>

lemma inv_leave:
  assumes "hub_inv M h"
  shows "hub_inv M (upd_topic t (\<lambda>y. y\<lparr>tp_subscribers := filter P (tp_subscribers y)\<rparr>) h)"
  by (rule inv_tables [OF assms]) (use assms in \<open>auto simp: hub_inv_def serving_def adds_fresh_def split: if_splits\<close>)

fun quiet :: "sid set \<Rightarrow> hub \<Rightarrow> action \<Rightarrow> bool" where
  "quiet S h (ARelease s) = (s \<in> S)"
| "quiet S h (ACancel t) = (t < length (hb_topic h))"
| "quiet S h (ALoop t) = (t < length (hb_topic h))"
| "quiet S h _ = False"

lemma inv_push:
  assumes inv: "hub_inv (add_mset a N) h" and a: "\<And>t s k. a \<noteq> AAdd t s k"
    and q: "\<And>b. b \<in># new \<Longrightarrow> quiet S h b"
    and n: "\<And>t. size (filter_mset (starts t) new) \<le> (if starts t a then 1 else 0)"
    and S: "\<And>s. s \<in> S \<Longrightarrow> s < length (hb_sub h)" "\<And>s t k. s \<in> S \<Longrightarrow> AAdd t s k \<notin># N"
      "\<And>s t. s \<in> S \<Longrightarrow> t < length (hb_topic h) \<Longrightarrow> live (N + new) t \<Longrightarrow> s \<notin> set (subs_of h t)"
  shows "hub_inv (N + new) h"
proof (rule inv_pass [OF inv n])
  fix b s assume "b \<in># new" "names s b"
  then have "s \<in> S" using q [of b] by (cases b) auto
  then show "names s a \<or> (s < length (hb_sub h) \<and> (\<forall>t k. AAdd t s k \<notin># N))" using S(1,2) by blast
next
  fix b t assume "b \<in># new" "about t b"
  then show "t < length (hb_topic h)" using q [of b] by (cases b) auto
next
  fix t t' s assume "t < length (hb_topic h)" "s \<in> set (subs_of h t)" "live (N + new) t"
  then have "s \<notin> S" using S(3) by blast
  then show "ARelease s \<notin># new \<and> (ARemove t' s \<in># new \<longrightarrow> t' = t)"
    using q [of "ARelease s"] q [of "ARemove t' s"] by auto
next
  fix t s k show "AAdd t s k \<notin># new" using q [of "AAdd t s k"] by auto
next
  fix t assume "ADiscard t \<in># new \<or> AClear t \<in># new"
  then show "\<not> live (N + new) t" using q [of "ADiscard t"] q [of "AClear t"] by auto
next
  show "AHubClose \<notin># new" "AHubCancel \<notin># new" using q [of AHubClose] q [of AHubCancel] by auto
qed (rule a)

lemma inv_clear:
  assumes "hub_inv (add_mset (AClear t) N) h"
  shows "hub_inv (N + mset (map ARelease (subs_of h t))) (upd_topic t (\<lambda>y. y\<lparr>tp_subscribers := []\<rparr>) h)"
proof -
  note inv = assms [unfolded hub_inv_def]
  have t: "t < length (hb_topic h)" using inv by (auto simp: in_range_def)
  have 1: "hub_inv (add_mset (AClear t) N) (upd_topic t (\<lambda>y. y\<lparr>tp_subscribers := []\<rparr>) h)"
    using inv_leave [OF assms, of t "\<lambda>_. False"] by simp
  show ?thesis
  proof (rule inv_push [OF 1, of _ "set (subs_of h t)"])
    fix s t' k assume s: "s \<in> set (subs_of h t)"
    then show "s < length (hb_sub (upd_topic t (\<lambda>y. y\<lparr>tp_subscribers := []\<rparr>) h))" using inv t by (auto simp: members_ok_def)
    show "AAdd t' s k \<notin># N" using inv t s unfolding adds_fresh_def by auto
    assume "t' < length (hb_topic (upd_topic t (\<lambda>y. y\<lparr>tp_subscribers := []\<rparr>) h))"
    then show "s \<notin> set (subs_of (upd_topic t (\<lambda>y. y\<lparr>tp_subscribers := []\<rparr>) h) t')"
      using inv t s unfolding members_ok_def by auto
  qed (auto simp: filter_none)
qed

lemma inv_remove:
  assumes "hub_inv (add_mset (ARemove t s) N) h"
    and c: "c = {#} \<or> c = {#ACancel t#}"
  shows "hub_inv (N + (c + {#ARelease s#})) (upd_topic t (\<lambda>y. y\<lparr>tp_subscribers := removeAll s (tp_subscribers y)\<rparr>) h)"
    (is "hub_inv _ ?h")
proof -
  note inv = assms(1) [unfolded hub_inv_def]
  have t: "t < length (hb_topic h)" "s < length (hb_sub h)" using inv by (auto simp: in_range_def)
  have 1: "hub_inv (add_mset (ARemove t s) N) ?h"
    using inv_leave [OF assms(1), of t "\<lambda>x. x \<noteq> s"] by (simp add: removeAll_filter_not_eq eq_commute)
  show ?thesis
  proof (rule inv_push [OF 1, of _ "{s}"])
    fix s' t' k assume s: "s' \<in> {s}"
    then show "s' < length (hb_sub ?h)" using t by simp
    show "AAdd t' s' k \<notin># N"
    proof
      assume "AAdd t' s' k \<in># N"
      then show False using inv_alone [OF assms(1), of t' s' k "ARemove t s"] s by simp
    qed
    assume l: "t' < length (hb_topic ?h)" "live (N + (c + {#ARelease s#})) t'"
    show "s' \<notin> set (subs_of ?h t')"
    proof
      assume m: "s' \<in> set (subs_of ?h t')"
      then have "t' \<noteq> t" using s t by auto
      moreover have "t' = t" using inv m l c s unfolding releases_ok_def by (auto split: if_splits)
      ultimately show False by simp
    qed
  qed (use t c in auto)
qed

lemma inv_close:
  assumes "hub_inv (add_mset (AClose s) N) h"
  shows "hub_inv (add_mset (case map_of (hb_topics h) (sb_eventID (hb_sub h ! s)) of
      Some t \<Rightarrow> ARemove t s | None \<Rightarrow> ARelease s) N) h" (is "hub_inv (add_mset ?b N) h")
proof -
  note inv = assms [unfolded hub_inv_def]
  have r: "t < length (hb_topic h)" if "map_of (hb_topics h) e = Some t" for e t
    using inv map_of_SomeD [OF that] unfolding in_range_def by fastforce
  have found: "map_of (hb_topics h) (sb_eventID (hb_sub h ! s)) = Some t"
    if "t < length (hb_topic h)" "s \<in> set (subs_of h t)" "live N t" for t
    using inv that unfolding members_ok_def mapped_def by auto
  have "hub_inv (N + {#?b#}) h"
  proof (rule inv_pass [OF assms])
    fix t t' s' assume "t < length (hb_topic h)" "s' \<in> set (subs_of h t)" "live (N + {#?b#}) t"
    then show "ARelease s' \<notin># {#?b#} \<and> (ARemove t' s' \<in># {#?b#} \<longrightarrow> t' = t)"
      using found by (auto split: option.splits)
  qed (auto split: option.splits dest: r)
  then show ?thesis by simp
qed

lemma inv_serve:
  assumes "hub_inv (add_mset (AServe s) N) h"
  shows "hub_inv (add_mset (AServe s) N) h" "hub_inv (add_mset (AClose s) N) h"
  using assms inv_pass [OF assms, of "{#AClose s#}"] by auto

lemma inv_read:
  assumes "hub_inv M h"
  shows "hub_inv M (upd_sub s (\<lambda>x. x\<lparr>sb_ch := ms\<rparr>) h)"
  by (rule inv_tables [OF assms]) (use assms in \<open>auto simp: hub_inv_def serving_def adds_fresh_def split: if_splits\<close>)

lemma inv_written [simp]: "hub_inv M (write_frame s x h) = hub_inv M h"
  by (simp add: hub_inv_def hub_inv_defs)

lemma inv_pump:
  assumes "hub_inv (add_mset (AServe s) N) h" "pump C s h = (as, h1)"
  shows "hub_inv (N + mset as) h1"
  using inv_serve [OF assms(1)] inv_read [OF inv_serve(1) [OF assms(1)]] inv_read [OF inv_serve(2) [OF assms(1)]] assms(2)
  by (auto simp: pump_def Let_def split: list.splits if_splits)

lemma inv_go:
  assumes "hub_inv (add_mset (AGo t) N) h" shows "hub_inv (add_mset (AStart t) N) h"
  using inv_pass [OF assms, of "{#AStart t#}"] assms by (auto simp: hub_inv_def in_range_def)

lemma inv_loop:
  assumes "hub_inv (add_mset a N) h" "a = AStart t \<or> a = ALoop t"
  shows "hub_inv (add_mset (ALoop t) N) h" "hub_inv (N + mset (shutdown t)) h"
proof -
  have t: "t < length (hb_topic h)" "\<not> live N t"
    using assms token_alone [of a N t] by (auto simp: hub_inv_def in_range_def)
  show "hub_inv (add_mset (ALoop t) N) h" using inv_pass [OF assms(1), of "{#ALoop t#}"] assms(2) t by auto
  show "hub_inv (N + mset (shutdown t)) h"
    by (rule inv_pass [OF assms(1)]) (use assms(2) t in \<open>auto simp: shutdown_def\<close>)
qed

text \<open>Delivering a message never finds a closed channel, because the topic is live.\<close>

lemma send_to_fields [simp]: "sb_open (send_to m h x) = sb_open x" "sb_eventID (send_to m h x) = sb_eventID x"
  by (simp_all add: send_to_def)

lemma deliver_sub:
  assumes "deliver t m h = (as, h1)" "s < length (hb_sub h)"
  shows "hb_sub h1 ! s = (if s \<in> set (subs_of h t) then send_to m h (hb_sub h ! s) else hb_sub h ! s)"
  using assms by (auto simp: deliver_def Let_def nth_enumerate_eq)

lemma deliver_fields:
  assumes "deliver t m h = (as, h1)"
  shows "length (hb_sub h1) = length (hb_sub h)" "length (hb_topic h1) = length (hb_topic h)"
    "tp_eventID (hb_topic h1 ! t') = tp_eventID (hb_topic h ! t')" "hb_topics h1 = hb_topics h" "hb_closed h1 = hb_closed h"
    "subs_of h1 t' = (if t' = t \<and> t < length (hb_topic h) then filter (\<lambda>s. \<not> overflows m h s) (subs_of h t) else subs_of h t')"
    "hb_panic h1 = (hb_panic h \<or> (\<exists>s \<in> set (subs_of h t). reaches m (hb_sub h ! s) \<and> \<not> sb_open (hb_sub h ! s)))"
    "as = map ARelease (filter (overflows m h) (subs_of h t)) @
      (if filter (\<lambda>s. \<not> overflows m h s) (subs_of h t) = [] then [ACancel t] else [])"
    "hb_written h1 = hb_written h" "hb_buffer h1 = hb_buffer h"
  using assms by (auto simp: deliver_def Let_def)

lemma inv_deliver:
  assumes "hub_inv (add_mset (ALoop t) N) h" "deliver t m h = (as, h1)"
  shows "hub_inv (N + mset (as @ [ALoop t])) h1"
proof -
  note inv = assms(1) [unfolded hub_inv_def] and f = deliver_fields [OF assms(2)]
  have t: "t < length (hb_topic h)" using inv by (auto simp: in_range_def)
  have m: "s < length (hb_sub h)" "sb_open (hb_sub h ! s)" "\<And>t' k. AAdd t' s k \<notin># N"
    "\<And>t'. t' < length (hb_topic h) \<Longrightarrow> s \<in> set (subs_of h t') \<Longrightarrow> t' = t" if "s \<in> set (subs_of h t)" for s
    using inv t that unfolding members_ok_def adds_fresh_def by auto
  have 1: "hub_inv (add_mset (ALoop t) N) h1"
  proof (rule inv_tables [OF assms(1)])
    fix s assume "s < length (hb_sub h)"
    then show "sb_eventID (hb_sub h1 ! s) = sb_eventID (hb_sub h ! s)" by (simp add: deliver_sub [OF assms(2)])
  next
    fix t' s assume "t' < length (hb_topic h)" "s \<in> set (subs_of h1 t')" "sb_open (hb_sub h ! s)"
    moreover from this have "s < length (hb_sub h)" using inv unfolding members_ok_def by (auto simp: f split: if_splits)
    ultimately show "sb_open (hb_sub h1 ! s)" by (simp add: deliver_sub [OF assms(2)])
  next
    fix t' s k assume a: "AAdd t' s k \<in># add_mset (ALoop t) N"
    then have "sb_open (hb_sub h ! s)" "s < length (hb_sub h)" using inv by (auto simp: adds_fresh_def in_range_def)
    then show "sb_open (hb_sub h1 ! s)" by (simp add: deliver_sub [OF assms(2)])
  next
    show "\<not> hb_panic h1" using inv m(2) by (auto simp: f serving_def)
  qed (auto simp: f)
  show ?thesis
  proof (rule inv_push [OF 1, of _ "set (filter (overflows m h) (subs_of h t))"])
    fix s t' assume "s \<in> set (filter (overflows m h) (subs_of h t))" "t' < length (hb_topic h1)"
    then have "s \<in> set (subs_of h t)" "overflows m h s" "t' < length (hb_topic h)" by (simp_all add: f(2))
    then show "s \<notin> set (subs_of h1 t')" using m(4) [of s t'] t by (cases "t' = t") (auto simp: f(6))
  next
    fix s t' k assume "s \<in> set (filter (overflows m h) (subs_of h t))"
    then have "s \<in> set (subs_of h t)" by simp
    then show "s < length (hb_sub h1)" "AAdd t' s k \<notin># N" using m(1,3) by (simp_all add: f(1))
  next
    fix b assume "b \<in># mset (as @ [ALoop t])"
    then show "quiet (set (filter (overflows m h) (subs_of h t))) h1 b" using t by (auto simp: f(2,8) split: if_splits)
  next
    fix t' show "size (filter_mset (starts t') (mset (as @ [ALoop t]))) \<le> (if starts t' (ALoop t) then 1 else 0)"
      by (auto simp: f(8) filter_none)
  qed simp
qed

text \<open>A subscription that joins its topic.\<close>

lemma inv_add:
  assumes "hub_inv (add_mset (AAdd t s k) N) h"
  shows "hub_inv (N + mset ((if k then [AGo t] else []) @ [AServe s]))
    (upd_topic t (\<lambda>y. y\<lparr>tp_subscribers := List.insert s (tp_subscribers y)\<rparr>) h)" (is "hub_inv (N + ?new) ?h")
proof -
  note inv = assms [unfolded hub_inv_def]
  let ?M = "add_mset (AAdd t s k) N"
  have t: "t < length (hb_topic h)" "s < length (hb_sub h)" using inv by (auto simp: in_range_def)
  have only: "\<not> names s b" if "b \<in># N" for b
  proof -
    have "filter_mset (names s) ?M = {#AAdd t s k#}" using inv unfolding adds_fresh_def by (meson union_single_eq_member)
    then show ?thesis using that by (simp add: filter_none)
  qed
  have fresh: "sb_open (hb_sub h ! s)" "sb_eventID (hb_sub h ! s) = tp_eventID (hb_topic h ! t)"
    "\<And>t'. t' < length (hb_topic h) \<Longrightarrow> s \<notin> set (subs_of h t')"
    using inv unfolding adds_fresh_def by (meson union_single_eq_member)+
  have l: "live (N + ?new) t' = live ?M t'" for t' by (auto simp: live_def)
  have sz: "size (filter_mset (starts t') (N + ?new)) = size (filter_mset (starts t') ?M)" for t' by auto
  have "tokens_once (N + ?new)" using inv unfolding tokens_once_def sz by simp
  moreover have "in_range (N + ?new) ?h" using inv t unfolding in_range_def by (auto split: if_splits)
  moreover have "adds_fresh (N + ?new) ?h"
    unfolding adds_fresh_def
  proof (intro allI impI)
    fix t' s' k' assume "AAdd t' s' k' \<in># N + ?new"
    then have n: "AAdd t' s' k' \<in># N" by (auto split: if_splits)
    then have "s' \<noteq> s" using only by fastforce
    moreover have "filter_mset (names s') ?M = {#AAdd t' s' k'#} \<and> sb_open (hb_sub h ! s') \<and>
        sb_eventID (hb_sub h ! s') = tp_eventID (hb_topic h ! t') \<and> (\<forall>t'' < length (hb_topic h). s' \<notin> set (subs_of h t''))"
      using inv n unfolding adds_fresh_def by simp
    ultimately show "filter_mset (names s') (N + ?new) = {#AAdd t' s' k'#} \<and> sb_open (hb_sub ?h ! s') \<and>
        sb_eventID (hb_sub ?h ! s') = tp_eventID (hb_topic ?h ! t') \<and> (\<forall>t'' < length (hb_topic ?h). s' \<notin> set (subs_of ?h t''))"
      by auto
  qed
  moreover have "shut_dead (N + ?new)" using inv unfolding shut_dead_def l by auto
  moreover have "mapped (N + ?new) ?h" using inv unfolding mapped_def l by auto
  moreover have "members_ok (N + ?new) ?h"
    unfolding members_ok_def l
  proof (intro allI impI ballI)
    fix t' s' assume a: "t' < length (hb_topic ?h)" "s' \<in> set (subs_of ?h t')"
    show "s' < length (hb_sub ?h) \<and> sb_eventID (hb_sub ?h ! s') = tp_eventID (hb_topic ?h ! t') \<and>
      (live ?M t' \<longrightarrow> sb_open (hb_sub ?h ! s')) \<and> (\<forall>t'' < length (hb_topic ?h). s' \<in> set (subs_of ?h t'') \<longrightarrow> t'' = t')"
    proof (cases "s' = s")
      case True
      then show ?thesis using a t fresh by (auto split: if_splits)
    next
      case False
      then have "s' \<in> set (subs_of h t')" using a by (auto split: if_splits)
      then have "s' < length (hb_sub h) \<and> sb_eventID (hb_sub h ! s') = tp_eventID (hb_topic h ! t') \<and>
        (live ?M t' \<longrightarrow> sb_open (hb_sub h ! s')) \<and> (\<forall>t'' < length (hb_topic h). s' \<in> set (subs_of h t'') \<longrightarrow> t'' = t')"
        using inv a(1) unfolding members_ok_def by simp
      then show ?thesis using False by (auto split: if_splits)
    qed
  qed
  moreover have "releases_ok (N + ?new) ?h"
    unfolding releases_ok_def l
  proof (intro allI impI ballI)
    fix t' s' assume a: "t' < length (hb_topic ?h)" "s' \<in> set (subs_of ?h t')" "live ?M t'"
    have "ARelease s' \<notin># N \<and> (\<forall>t''. ARemove t'' s' \<in># N \<longrightarrow> t'' = t')"
    proof (cases "s' = s")
      case True
      then show ?thesis using only by fastforce
    next
      case False
      then have "s' \<in> set (subs_of h t')" using a by (auto split: if_splits)
      then have "ARelease s' \<notin># ?M \<and> (\<forall>t''. ARemove t'' s' \<in># ?M \<longrightarrow> t'' = t')"
        using inv a(1,3) unfolding releases_ok_def upd_fields by blast
      then show ?thesis by simp
    qed
    then show "ARelease s' \<notin># N + ?new \<and> (\<forall>t''. ARemove t'' s' \<in># N + ?new \<longrightarrow> t'' = t')" by auto
  qed
  moreover have "serving (N + ?new) ?h" using inv by (auto simp: serving_def)
  ultimately show ?thesis by (simp add: hub_inv_def)
qed

text \<open>A new connection, and the topic it may bring.\<close>

lemma inv_grow_sub:
  assumes "hub_inv N h"
  shows "hub_inv N (h\<lparr>hb_sub := hb_sub h @ [x], hb_written := w\<rparr>)" (is "hub_inv N ?h")
proof -
  note inv = assms [unfolded hub_inv_def]
  have "in_range N ?h" using inv by (fastforce simp: in_range_def less_Suc_eq)
  moreover have "adds_fresh N ?h"
    unfolding adds_fresh_def
  proof (intro allI impI)
    fix t s k assume a: "AAdd t s k \<in># N"
    then have "s < length (hb_sub h)" using inv by (auto simp: in_range_def)
    then show "filter_mset (names s) N = {#AAdd t s k#} \<and> sb_open (hb_sub ?h ! s) \<and>
        sb_eventID (hb_sub ?h ! s) = tp_eventID (hb_topic ?h ! t) \<and> (\<forall>t' < length (hb_topic ?h). s \<notin> set (subs_of ?h t'))"
      using inv a unfolding adds_fresh_def by (simp add: nth_append)
  qed
  moreover have "members_ok N ?h"
    unfolding members_ok_def
  proof (intro allI impI ballI)
    fix t s assume a: "t < length (hb_topic ?h)" "s \<in> set (subs_of ?h t)"
    then have "s < length (hb_sub h)" using inv by (auto simp: members_ok_def)
    then show "s < length (hb_sub ?h) \<and> sb_eventID (hb_sub ?h ! s) = tp_eventID (hb_topic ?h ! t) \<and>
        (live N t \<longrightarrow> sb_open (hb_sub ?h ! s)) \<and> (\<forall>t' < length (hb_topic ?h). s \<in> set (subs_of ?h t') \<longrightarrow> t' = t)"
      using inv a unfolding members_ok_def by (simp add: nth_append less_Suc_eq)
  qed
  ultimately show ?thesis using inv by (simp add: hub_inv_def mapped_def releases_ok_def serving_def)
qed

lemma live_range: "hub_inv N h \<Longrightarrow> live N t \<Longrightarrow> t < length (hb_topic h)"
  using starts_about by (fastforce simp: hub_inv_def in_range_def live_def)

lemma inv_grow_topic:
  assumes "hub_inv N h" "map_of (hb_topics h) e = None"
  shows "hub_inv N (h\<lparr>hb_topic := hb_topic h @ [newTopic e], hb_topics := (e, length (hb_topic h)) # hb_topics h\<rparr>)"
    (is "hub_inv N ?h")
proof -
  note inv = assms(1) [unfolded hub_inv_def]
  have no: "subs_of ?h (length (hb_topic h)) = []" by (simp add: newTopic_def)
  have "in_range N ?h" using inv by (fastforce simp: in_range_def less_Suc_eq nth_append newTopic_def)
  moreover have "adds_fresh N ?h"
    unfolding adds_fresh_def
  proof (intro allI impI)
    fix t s k assume a: "AAdd t s k \<in># N"
    then have "t < length (hb_topic h)" using inv by (auto simp: in_range_def)
    then show "filter_mset (names s) N = {#AAdd t s k#} \<and> sb_open (hb_sub ?h ! s) \<and>
        sb_eventID (hb_sub ?h ! s) = tp_eventID (hb_topic ?h ! t) \<and> (\<forall>t' < length (hb_topic ?h). s \<notin> set (subs_of ?h t'))"
      using inv a unfolding adds_fresh_def by (auto simp: nth_append less_Suc_eq newTopic_def)
  qed
  moreover have "mapped N ?h"
    unfolding mapped_def
  proof (intro allI impI)
    fix t assume l: "live N t"
    then have "t < length (hb_topic h)" "map_of (hb_topics h) (tp_eventID (hb_topic h ! t)) = Some t"
      using inv live_range [OF assms(1) l] unfolding mapped_def by auto
    then show "map_of (hb_topics ?h) (tp_eventID (hb_topic ?h ! t)) = Some t" using assms(2) by (auto simp: nth_append)
  qed
  moreover have "members_ok N ?h"
    using inv unfolding members_ok_def by (simp add: nth_append less_Suc_eq newTopic_def)
  moreover have "releases_ok N ?h"
    using inv unfolding releases_ok_def by (simp add: nth_append less_Suc_eq newTopic_def)
  ultimately show ?thesis using inv by (simp add: hub_inv_def serving_def)
qed

lemma inv_joining:
  assumes inv: "hub_inv N h" and t: "t < length (hb_topic h)" and s: "s < length (hb_sub h)" "sb_open (hb_sub h ! s)"
    "sb_eventID (hb_sub h ! s) = tp_eventID (hb_topic h ! t)"
    and fresh: "\<And>b. b \<in># N \<Longrightarrow> \<not> names s b" "\<And>t'. t' < length (hb_topic h) \<Longrightarrow> s \<notin> set (subs_of h t')"
    and k: "k \<Longrightarrow> (\<forall>b \<in># N. \<not> about t b) \<and> map_of (hb_topics h) (tp_eventID (hb_topic h ! t)) = Some t \<and> subs_of h t = []"
  shows "hub_inv (add_mset (AAdd t s k) N) h" (is "hub_inv ?M h")
proof -
  note i = inv [unfolded hub_inv_def]
  have dead: "\<not> live N t" if k using k [OF that] starts_about by (auto simp: live_def)
  have "tokens_once ?M"
    unfolding tokens_once_def
  proof
    fix t'
    have "size (filter_mset (starts t') N) \<le> 1" using i unfolding tokens_once_def by blast
    moreover have "size (filter_mset (starts t) N) = 0" if k using dead [OF that] by (simp add: live_size)
    ultimately show "size (filter_mset (starts t') ?M) \<le> 1" by auto
  qed
  moreover have "in_range ?M h" using i t s unfolding in_range_def by auto
  moreover have "adds_fresh ?M h"
    unfolding adds_fresh_def
  proof (intro allI impI)
    fix t' s' k' assume "AAdd t' s' k' \<in># ?M"
    then consider "AAdd t' s' k' = AAdd t s k" | "AAdd t' s' k' \<in># N" "s' \<noteq> s" using fresh(1) by fastforce
    then show "filter_mset (names s') ?M = {#AAdd t' s' k'#} \<and> sb_open (hb_sub h ! s') \<and>
        sb_eventID (hb_sub h ! s') = tp_eventID (hb_topic h ! t') \<and> (\<forall>t'' < length (hb_topic h). s' \<notin> set (subs_of h t''))"
    proof cases
      case 1
      then show ?thesis using s fresh by (auto simp: filter_none)
    next
      case 2
      then show ?thesis using i unfolding adds_fresh_def by auto
    qed
  qed
  moreover have "shut_dead ?M"
    using i k unfolding shut_dead_def by fastforce
  moreover have "mapped ?M h" using i k unfolding mapped_def by auto
  moreover have "members_ok ?M h"
    unfolding members_ok_def
  proof (intro allI impI ballI)
    fix t' s' assume a: "t' < length (hb_topic h)" "s' \<in> set (subs_of h t')"
    then have "live ?M t' = live N t'" using k by auto
    then show "s' < length (hb_sub h) \<and> sb_eventID (hb_sub h ! s') = tp_eventID (hb_topic h ! t') \<and>
        (live ?M t' \<longrightarrow> sb_open (hb_sub h ! s')) \<and> (\<forall>t'' < length (hb_topic h). s' \<in> set (subs_of h t'') \<longrightarrow> t'' = t')"
      using i a unfolding members_ok_def by simp
  qed
  moreover have "releases_ok ?M h"
    unfolding releases_ok_def
  proof (intro allI impI ballI)
    fix t' s' assume a: "t' < length (hb_topic h)" "s' \<in> set (subs_of h t')" "live ?M t'"
    then have "live N t'" using k by auto
    then have "ARelease s' \<notin># N \<and> (\<forall>t''. ARemove t'' s' \<in># N \<longrightarrow> t'' = t')"
      using i a(1,2) unfolding releases_ok_def by blast
    then show "ARelease s' \<notin># ?M \<and> (\<forall>t''. ARemove t'' s' \<in># ?M \<longrightarrow> t'' = t')" by simp
  qed
  moreover have "serving ?M h" using i by (simp add: serving_def)
  ultimately show ?thesis by (simp add: hub_inv_def)
qed

lemma inv_subscribe:
  assumes "hub_inv (add_mset (ASubscribe e x) N) h" "Subscribe e x h = (as, h1)"
  shows "hub_inv (N + mset as) h1"
proof -
  have N: "hub_inv N h" using inv_drop [OF assms(1)] by simp
  note i = N [unfolded hub_inv_def]
  let ?sub = "\<lparr>sb_ch = [], sb_open = True, sb_audience = x, sb_eventID = e, sb_dropped = False\<rparr>"
  let ?s = "length (hb_sub h)" and ?h = "h\<lparr>hb_sub := hb_sub h @ [?sub], hb_written := hb_written h @ [[]]\<rparr>"
  have g: "hub_inv N ?h" by (rule inv_grow_sub [OF N])
  have unnamed: "\<not> names ?s b" if "b \<in># N" for b using i that unfolding in_range_def by blast
  have unheld: "?s \<notin> set (subs_of h t)" if "t < length (hb_topic h)" for t using i that unfolding members_ok_def by blast
  show ?thesis
  proof (cases "e = uuid_nil \<or> \<not> audience_Valid x \<or> hb_closed h")
    case True
    then show ?thesis using assms(2) g by (auto simp: Subscribe_def Let_def)
  next
    case False
    show ?thesis
    proof (cases "map_of (hb_topics h) e")
      case (Some t)
      then have t: "t < length (hb_topic h)" "tp_eventID (hb_topic h ! t) = e"
        using i map_of_SomeD [OF Some] unfolding in_range_def by fastforce+
      have "hub_inv (add_mset (AAdd t ?s False) N) ?h"
        by (rule inv_joining [OF g]) (use t unnamed unheld in auto)
      then show ?thesis using assms(2) False Some by (auto simp: Subscribe_def Let_def)
    next
      case None
      let ?t = "length (hb_topic h)"
      let ?k = "?h\<lparr>hb_topic := hb_topic ?h @ [newTopic e], hb_topics := (e, ?t) # hb_topics ?h\<rparr>"
      have k: "hub_inv N ?k" using inv_grow_topic [OF g, of e] None by simp
      have "\<not> about ?t b" if "b \<in># N" for b using i that unfolding in_range_def by blast
      then have "hub_inv (add_mset (AAdd ?t ?s True) N) ?k"
        by (intro inv_joining [OF k])
          (use unnamed unheld in \<open>auto simp: newTopic_def nth_append less_Suc_eq\<close>)
      then show ?thesis using assms(2) False None by (auto simp: Subscribe_def Let_def)
    qed
  qed
qed

lemma inv_perform:
  assumes inv: "hub_inv (add_mset a N) h" and p: "perform C x a h = (new, spawned, h1)"
  shows "hub_inv (N + mset new + mset (concat spawned)) h1"
proof (cases a)
  case (ASubscribe e y)
  then show ?thesis using inv_subscribe [of e y N h] inv p by (auto split: prod.splits)
next
  case (AAdd t s k)
  then show ?thesis using inv_add [of t s k N h] inv p by auto
next
  case (AGo t)
  then show ?thesis using inv_go [of t N h] inv p by auto
next
  case (AStart t)
  then show ?thesis using inv_loop [OF inv, of t] p by (auto split: occurrence.splits)
next
  case (ALoop t)
  show ?thesis
  proof (cases "\<exists>raw m. x = Arrives raw \<and> Decode C raw = Inr m")
    case True
    then obtain raw m where x: "x = Arrives raw" "Decode C raw = Inr m" by blast
    obtain as h2 where d: "deliver t m h = (as, h2)" by (rule prod.exhaust)
    show ?thesis using inv_deliver [OF _ d] inv p x d ALoop by auto
  next
    case False
    then show ?thesis using inv_loop [OF inv, of t] p ALoop by (auto split: occurrence.splits sum.splits if_splits)
  qed
next
  case (ARelease s)
  then show ?thesis using inv_release [of s N h] inv p by auto
next
  case (ACancel t)
  then show ?thesis using inv_cancel [of t N h] inv p by auto
next
  case (ADiscard t)
  then show ?thesis using inv_discard [of t N h] inv p by auto
next
  case (AClear t)
  then show ?thesis using inv_clear [of t N h] inv p by auto
next
  case (AServe s)
  then show ?thesis using inv_serve [of s N h] inv_pump [of s N h C] inv p by (auto split: occurrence.splits prod.splits)
next
  case (AClose s)
  then show ?thesis using inv_close [of s N h] inv p by (auto split: option.splits)
next
  case (ARemove t s)
  then show ?thesis using inv_remove [of t s N h "{#}"] inv_remove [of t s N h "{#ACancel t#}"] inv p
    by (auto simp: Let_def upd_topic_def add_mset_commute split: if_splits)
next
  case AHubClose
  then show ?thesis using inv by (simp add: hub_inv_def serving_def)
next
  case AHubCancel
  then show ?thesis using inv by (simp add: hub_inv_def serving_def)
qed

lemma inv_connect: "hub_inv (add_mset (ASubscribe e a) M) h = hub_inv M h"
  by (simp add: hub_inv_def tokens_once_def in_range_def adds_fresh_def shut_dead_def mapped_def members_ok_def
      releases_ok_def serving_def)

lemma inv_step:
  assumes "hub_step C h h'" "hub_inv (pending h) h"
  shows "hub_inv (pending h') h'"
  using assms
proof cases
  case (step i x)
  from step(2) show ?thesis
  proof (cases rule: step_at_pending [of _ _ C x])
    case idle
    then show ?thesis using assms(2) step by simp
  next
    case (acts a N new spawned h1 t)
    then show ?thesis using inv_perform [of a N h C x new spawned h1] assms(2) step by simp
  qed
next
  case (connect e a)
  have "pending h' = add_mset (ASubscribe e a) (pending h)" using connect by (simp add: pending_def arrive_def)
  moreover have "hub_inv (add_mset (ASubscribe e a) (pending h)) h"
    using assms(2) by (simp only: inv_connect)
  ultimately show ?thesis using connect by (simp add: arrive_def)
qed

lemma inv_start: "hub_inv (pending (NewHub b)) (NewHub b)"
  by (simp add: hub_inv_def hub_inv_defs NewHub_def pending_def live_def)

lemma inv_run: "(hub_step C)\<^sup>*\<^sup>* (NewHub b) h \<Longrightarrow> hub_inv (pending h) h"
  by (induction rule: rtranclp_induct) (use inv_start inv_step in blast)+

end
