(* ===== verification/HubProps.thy ===== *)
theory HubProps
  imports HubInv "HOL-Library.Sublist"
begin

text \<open>
  What the realtime hub promises, over the invariant of \<open>HubInv\<close>: schedules that drive it, what
  the connections are sent, topics whose loop has ended, and the properties.
\<close>

section \<open>Runs\<close>

text \<open>A schedule: who connects, which goroutine moves next and what it meets, and the shutdown.\<close>

datatype move = Connect uuid audience | Do nat occurrence | Quit

fun play :: "codec \<Rightarrow> hub \<Rightarrow> move list \<Rightarrow> hub" where
  "play C h [] = h"
| "play C h (Connect e a # ms) = play C (arrive (ASubscribe e a) h) ms"
| "play C h (Do i x # ms) = play C (if i < length (hb_threads h) then step_at C x i h else h) ms"
| "play C h (Quit # ms) = play C (arrive AHubClose h) ms"

lemma play_run: "Quit \<notin> set ms \<Longrightarrow> (hub_step C)\<^sup>*\<^sup>* h (play C h ms)"
proof (induction C h ms rule: play.induct)
  case (2 C h e a ms)
  then show ?case using hub_step.connect [of C h e a] by (auto intro: converse_rtranclp_into_rtranclp)
next
  case (3 C h i x ms)
  then show ?case using hub_step.step [of i h C x] by (auto intro: converse_rtranclp_into_rtranclp)
qed auto

lemma play_closing: "(closing_step C)\<^sup>*\<^sup>* h (play C h ms)"
proof (induction C h ms rule: play.induct)
  case (2 C h e a ms)
  then show ?case using hub_step.connect [of C h e a] by (auto intro: converse_rtranclp_into_rtranclp closing_step.serve)
next
  case (3 C h i x ms)
  have "(closing_step C)\<^sup>*\<^sup>* h (if i < length (hb_threads h) then step_at C x i h else h)"
    using closing_step.serve [OF hub_step.step [of i h C x]] by auto
  then show ?case using 3 by (auto intro: rtranclp_trans)
next
  case (4 C h ms)
  then show ?case by (auto intro: converse_rtranclp_into_rtranclp closing_step.close)
qed auto

lemma closing_run: "(hub_step C)\<^sup>*\<^sup>* h h' \<Longrightarrow> (closing_step C)\<^sup>*\<^sup>* h h'"
  by (induction rule: rtranclp_induct) (auto intro: rtranclp.rtrancl_into_rtrancl closing_step.serve)

definition fx_message :: message where
  "fx_message = \<lparr>rm_ID = ''m1'', rm_Kind = KindMediaCreated, rm_EventID = 7,
     rm_Audience = AudienceHost OR AudiencePublic, rm_At = 0, rm_Data = ''{}''\<rparr>"

definition fx_codec :: codec where
  "fx_codec = \<lparr>cd_Marshal = (\<lambda>p. Inr ''{}''), cd_Unmarshal = (\<lambda>x. Inl (Fmt ''payload'')),
     cd_encode = (\<lambda>m. Inr (rm_ID m)), cd_decode = (\<lambda>raw. Inr fx_message), cd_fresh = ''m1'', cd_now = 0\<rparr>"

text \<open>A client that opens the event, and the topic that starts for it.\<close>

definition fx_opened :: "move list" where
  "fx_opened = [Connect 7 AudiencePublic, Do 0 Go, Do 0 Go, Do 0 Go, Do 1 Go]"

section \<open>Channels\<close>

text \<open>What a connection has been sent or still holds, in order.\<close>

fun frame_message :: "frame \<Rightarrow> message list" where
  "frame_message (FMessage m) = [m]"
| "frame_message _ = []"

definition seen :: "hub \<Rightarrow> sid \<Rightarrow> message list" where
  "seen h s = concat (map frame_message (hb_written h ! s)) @ sb_ch (hb_sub h ! s)"

definition admits :: "subscription \<Rightarrow> message \<Rightarrow> bool" where
  "admits x m \<longleftrightarrow> reaches m x \<and> Validate m = None"

definition channel_ok :: "nat \<Rightarrow> subscription \<Rightarrow> frame list \<Rightarrow> bool" where
  "channel_ok b x w \<longleftrightarrow> length (sb_ch x) \<le> b \<and> list_all (admits x) (concat (map frame_message w) @ sb_ch x) \<and>
     (FResync \<in> set w \<longrightarrow> sb_dropped x)"

definition channels_ok :: "hub \<Rightarrow> bool" where
  "channels_ok h \<longleftrightarrow> length (hb_written h) = length (hb_sub h) \<and>
     (\<forall>s < length (hb_sub h). channel_ok (hb_buffer h) (hb_sub h ! s) (hb_written h ! s))"

text \<open>What one action does to the connections that existed before it.\<close>

definition grows :: "hub \<Rightarrow> hub \<Rightarrow> bool" where
  "grows h h1 \<longleftrightarrow> length (hb_sub h) \<le> length (hb_sub h1) \<and> hb_buffer h1 = hb_buffer h \<and>
     (\<forall>s < length (hb_sub h). sb_audience (hb_sub h1 ! s) = sb_audience (hb_sub h ! s) \<and> prefix (seen h s) (seen h1 s))"

lemma grows_refl [simp]: "grows h h" by (simp add: grows_def)

lemma grows_trans: "grows h h1 \<Longrightarrow> grows h1 h2 \<Longrightarrow> grows h h2"
  unfolding grows_def by (metis prefix_order.trans order.strict_trans2 le_trans)

definition keeps :: "hub \<Rightarrow> hub \<Rightarrow> bool" where
  "keeps h h1 \<longleftrightarrow> length (hb_sub h) \<le> length (hb_sub h1) \<and> hb_buffer h1 = hb_buffer h \<and>
     (\<forall>s < length (hb_sub h). sb_audience (hb_sub h1 ! s) = sb_audience (hb_sub h ! s) \<and> seen h1 s = seen h s)"

lemma keeps_grows: "keeps h h1 \<Longrightarrow> grows h h1"
  by (simp add: keeps_def grows_def)

lemma keeps_refl [simp]: "keeps h h" by (simp add: keeps_def)

lemma chan_same:
  assumes "hb_sub h1 = hb_sub h" "hb_written h1 = hb_written h" "hb_buffer h1 = hb_buffer h"
  shows "keeps h h1 \<and> (channels_ok h \<longrightarrow> channels_ok h1)"
  using assms by (simp add: keeps_def seen_def channels_ok_def)

lemma channel_ok_open [simp]: "channel_ok b (x\<lparr>sb_open := v\<rparr>) w = channel_ok b x w"
  by (simp add: channel_ok_def admits_def reaches_def list_all_iff)

lemma chan_release: "keeps h (release s h) \<and> (channels_ok h \<longrightarrow> channels_ok (release s h))"
  by (simp add: release_def keeps_def seen_def channels_ok_def)

lemma decode_valid: "Decode C raw = Inr m \<Longrightarrow> Validate m = None"
  by (auto simp: Decode_def split: sum.splits option.splits)

lemma chan_deliver:
  assumes d: "deliver t m h = (as, h1)" and v: "Validate m = None"
  shows "grows h h1 \<and> (channels_ok h \<longrightarrow> channels_ok h1)"
proof
  note f = deliver_fields [OF d]
  show "grows h h1"
    by (auto simp: grows_def f seen_def deliver_sub [OF d] send_to_def)
  show "channels_ok h \<longrightarrow> channels_ok h1"
    unfolding channels_ok_def f(1,9,10)
  proof (intro impI conjI allI)
    fix s assume ok: "length (hb_written h) = length (hb_sub h) \<and>
      (\<forall>s < length (hb_sub h). channel_ok (hb_buffer h) (hb_sub h ! s) (hb_written h ! s))" and s: "s < length (hb_sub h)"
    then have "channel_ok (hb_buffer h) (hb_sub h ! s) (hb_written h ! s)" by blast
    then show "channel_ok (hb_buffer h) (hb_sub h1 ! s) (hb_written h ! s)"
      using v by (auto simp: deliver_sub [OF d s] channel_ok_def send_to_def admits_def reaches_def list_all_iff)
  qed simp
qed

lemma chan_frame:
  assumes "frame_message x = []" "x = FResync \<longrightarrow> sb_dropped (hb_sub h ! s)"
  shows "keeps h (write_frame s x h) \<and> (channels_ok h \<longrightarrow> channels_ok (write_frame s x h))"
  using assms by (cases "s < length (hb_written h)")
    (auto simp: keeps_def seen_def channels_ok_def channel_ok_def write_frame_def nth_list_update list_update_beyond not_less)

lemma chan_read:
  assumes "sb_ch (hb_sub h ! s) = m # ms" "length (hb_written h) = length (hb_sub h)"
  shows "keeps h (write_frame s (FMessage m) (upd_sub s (\<lambda>x. x\<lparr>sb_ch := ms\<rparr>) h))"
    "channels_ok h \<longrightarrow> channels_ok (write_frame s (FMessage m) (upd_sub s (\<lambda>x. x\<lparr>sb_ch := ms\<rparr>) h))"
proof -
  let ?h = "write_frame s (FMessage m) (upd_sub s (\<lambda>x. x\<lparr>sb_ch := ms\<rparr>) h)"
  have sub: "hb_sub ?h ! s' = (if s' = s then (hb_sub h ! s)\<lparr>sb_ch := ms\<rparr> else hb_sub h ! s')"
    and wr: "hb_written ?h ! s' = (if s' = s then hb_written h ! s @ [FMessage m] else hb_written h ! s')"
    if "s' < length (hb_sub h)" for s'
    using that assms(2) by (auto simp: write_frame_def upd_sub_def nth_list_update)
  have len: "length (hb_sub ?h) = length (hb_sub h)" "length (hb_written ?h) = length (hb_written h)"
    by (simp_all add: write_frame_def upd_sub_def)
  have sn: "seen ?h s' = seen h s'" if "s' < length (hb_sub h)" for s'
    using assms(1) that unfolding seen_def sub [OF that] wr [OF that] by simp
  show "keeps h ?h" unfolding keeps_def len by (simp add: sn sub)
  show "channels_ok h \<longrightarrow> channels_ok ?h"
    unfolding channels_ok_def len
  proof (intro impI conjI allI)
    fix s' assume ok: "length (hb_written h) = length (hb_sub h) \<and>
      (\<forall>s < length (hb_sub h). channel_ok (hb_buffer h) (hb_sub h ! s) (hb_written h ! s))" and s: "s' < length (hb_sub h)"
    then have "channel_ok (hb_buffer h) (hb_sub h ! s') (hb_written h ! s')" by blast
    then show "channel_ok (hb_buffer ?h) (hb_sub ?h ! s') (hb_written ?h ! s')"
      using assms(1) unfolding sub [OF s] wr [OF s] by (auto simp: channel_ok_def admits_def reaches_def list_all_iff)
  qed (use assms(2) in simp)
qed

lemma chan_subscribe:
  assumes "Subscribe e a h = (as, h1)" "length (hb_written h) = length (hb_sub h)"
  shows "keeps h h1" "channels_ok h \<longrightarrow> channels_ok h1"
  using assms by (auto simp: Subscribe_def Let_def keeps_def seen_def channels_ok_def channel_ok_def write_frame_def
      nth_append nth_list_update less_Suc_eq split: if_splits option.splits)

lemma chan_quiet [simp]:
  "keeps h (upd_topic t f h)" "channels_ok (upd_topic t f h) = channels_ok h"
  "keeps h (h\<lparr>hb_closed := c, hb_topics := ts\<rparr>)" "channels_ok (h\<lparr>hb_closed := c, hb_topics := ts\<rparr>) = channels_ok h"
  "keeps h (h\<lparr>hb_cancelled := c\<rparr>)" "channels_ok (h\<lparr>hb_cancelled := c\<rparr>) = channels_ok h"
  by (simp_all add: keeps_def seen_def channels_ok_def)

lemma chan_perform:
  assumes p: "perform C x a h = (new, spawned, h1)" and w: "length (hb_written h) = length (hb_sub h)"
    and a: "\<And>t. a \<noteq> ALoop t"
  shows "keeps h h1 \<and> (channels_ok h \<longrightarrow> channels_ok h1)"
proof (cases a)
  case (ASubscribe e y)
  then show ?thesis using chan_subscribe [of e y h new h1] p w by (auto split: prod.splits)
next
  case (ARelease s)
  then show ?thesis using chan_release [of h s] p by auto
next
  case (AServe s)
  then show ?thesis using chan_read [of h s] chan_frame [of FResync h s] p w
    by (auto simp: pump_def Let_def split: occurrence.splits list.splits if_splits)
next
  case (ADiscard t)
  then show ?thesis using p by (intro chan_same) (auto simp: discard_def Let_def)
qed (use p a in \<open>auto simp: Let_def split: occurrence.splits option.splits if_splits\<close>)

lemma loop_perform:
  assumes p: "perform C x (ALoop t) h = (new, spawned, h1)"
  shows "h1 = h \<or> (\<exists>m as. Validate m = None \<and> deliver t m h = (as, h1))"
  using p decode_valid [of C] by (auto split: occurrence.splits sum.splits if_splits prod.splits)

lemma chan_step:
  assumes "closing_step C h h'" "channels_ok h"
  shows "grows h h' \<and> channels_ok h'"
proof -
  have w: "length (hb_written h) = length (hb_sub h)" using assms(2) by (simp add: channels_ok_def)
  have arr: "grows h (arrive a h) \<and> channels_ok (arrive a h)" for a
    using chan_same [of "arrive a h" h] assms(2) keeps_grows by (auto simp: arrive_def)
  have stp: "grows h (step_at C x i h) \<and> channels_ok (step_at C x i h)" for x i
  proof (cases "hb_panic h \<or> hb_threads h ! i = []")
    case True
    then show ?thesis using assms(2) by (auto simp: step_at_def grows_refl)
  next
    case False
    then obtain a as where a: "hb_threads h ! i = a # as" by (cases "hb_threads h ! i") auto
    obtain new spawned h1 where p: "perform C x a h = (new, spawned, h1)" by (metis prod.exhaust)
    define h2 where "h2 = step_at C x i h"
    have "hb_sub h2 = hb_sub h1" "hb_written h2 = hb_written h1" "hb_buffer h2 = hb_buffer h1"
      using False a p by (simp_all add: h2_def step_at_def)
    then have "keeps h1 h2 \<and> (channels_ok h1 \<longrightarrow> channels_ok h2)" by (rule chan_same)
    moreover have "grows h h1 \<and> (channels_ok h \<longrightarrow> channels_ok h1)"
    proof (cases "\<exists>t. a = ALoop t")
      case True
      then obtain t where "a = ALoop t" by blast
      then show ?thesis using loop_perform [of C x t h] p chan_deliver by auto
    next
      case False
      then show ?thesis using chan_perform [OF p w] keeps_grows by blast
    qed
    ultimately show ?thesis using assms(2) grows_trans keeps_grows unfolding h2_def by blast
  qed
  from assms(1) show ?thesis by cases (auto elim!: hub_step.cases simp: arr stp)
qed

lemma chan_run:
  assumes "(closing_step C)\<^sup>*\<^sup>* h h'" "channels_ok h"
  shows "grows h h' \<and> channels_ok h'"
  using assms(1)
proof (induction rule: rtranclp_induct)
  case base
  then show ?case using assms(2) by (simp add: grows_refl)
next
  case (step y z)
  then show ?case using chan_step grows_trans by blast
qed

lemma chan_start: "channels_ok (NewHub b)" by (simp add: channels_ok_def NewHub_def)

section \<open>A topic whose loop has ended\<close>

lemma pump_new: "pump C s h = (as, h1) \<Longrightarrow> as = [AServe s] \<or> as = [AClose s]"
  by (auto simp: pump_def Let_def split: list.splits if_splits)

lemma pump_topics: "pump C s h = (as, h1) \<Longrightarrow> hb_topic h1 = hb_topic h \<and> length (hb_sub h1) = length (hb_sub h)"
  by (auto simp: pump_def Let_def split: list.splits if_splits)

lemma subscribe_new:
  assumes "Subscribe e a h = (as, h1)"
  shows "as = [] \<or> (\<exists>t. as = [AAdd t (length (hb_sub h)) False]) \<or> as = [AAdd (length (hb_topic h)) (length (hb_sub h)) True]"
    "hb_topic h1 = hb_topic h \<or> hb_topic h1 = hb_topic h @ [newTopic e]" "length (hb_sub h1) = Suc (length (hb_sub h))"
  using assms by (auto simp: Subscribe_def Let_def split: if_splits option.splits)

lemma deliver_new: "deliver t m h = (as, h1) \<Longrightarrow> b \<in> set as \<Longrightarrow> (\<exists>s. b = ARelease s) \<or> b = ACancel t"
  by (drule deliver_fields(8)) (auto split: if_splits)

lemma perform_new:
  assumes p: "perform C x a h = (new, spawned, h1)" and b: "b \<in> set new \<or> b \<in> set (concat spawned)"
  shows "(starts t b \<longrightarrow> starts t a \<or> t = length (hb_topic h)) \<and> (b = AAdd t s k \<longrightarrow> s = length (hb_sub h))"
proof (cases a)
  case (ASubscribe e y)
  then show ?thesis using p b subscribe_new(1) [of e y h] by (auto split: prod.splits)
next
  case (ALoop t')
  then show ?thesis using p b
    by (auto simp: shutdown_def dest!: deliver_new split: occurrence.splits sum.splits prod.splits if_splits)
next
  case (AServe s')
  then show ?thesis using p b pump_new [of C s' h] by (auto split: occurrence.splits prod.splits)
qed (use p b in \<open>auto simp: shutdown_def Let_def split: occurrence.splits option.splits if_splits\<close>)

lemma perform_members:
  assumes p: "perform C x a h = (new, spawned, h1)"
  shows "length (hb_topic h) \<le> length (hb_topic h1) \<and> length (hb_sub h) \<le> length (hb_sub h1) \<and>
    (t < length (hb_topic h1) \<and> s \<in> set (subs_of h1 t) \<longrightarrow>
      (\<exists>k. a = AAdd t s k) \<or> t < length (hb_topic h) \<and> s \<in> set (subs_of h t))"
proof (cases a)
  case (ASubscribe e y)
  then show ?thesis using p subscribe_new(2,3) [of e y h]
    by (auto simp: newTopic_def nth_append less_Suc_eq split: prod.splits if_splits)
next
  case (ALoop t')
  then show ?thesis using p
    by (auto simp: deliver_fields(1,2,6) split: occurrence.splits sum.splits prod.splits if_splits)
next
  case (AServe s')
  then show ?thesis using p pump_topics [of C s' h] by (auto split: occurrence.splits prod.splits)
qed (use p in \<open>auto simp: release_def discard_def Let_def split: occurrence.splits option.splits if_splits\<close>)

definition cut_off :: "hub \<Rightarrow> tid \<Rightarrow> sid \<Rightarrow> bool" where
  "cut_off h t s \<longleftrightarrow> t < length (hb_topic h) \<and> s < length (hb_sub h) \<and> \<not> live (pending h) t \<and>
     (\<forall>t' k. AAdd t' s k \<notin># pending h) \<and> (\<forall>t' < length (hb_topic h). s \<in> set (subs_of h t') \<longrightarrow> t' = t)"

lemma cut_off_step:
  assumes step: "hub_step C h h'" and inv: "hub_inv (pending h) h" and ch: "channels_ok h" and cut: "cut_off h t s"
  shows "cut_off h' t s \<and> seen h' s = seen h s"
  using step
proof cases
  case (step i x)
  from step(2) show ?thesis
  proof (cases rule: step_at_pending [of _ _ C x])
    case idle
    then show ?thesis using cut step by simp
  next
    case (acts a N new spawned h1 th)
    have h': "hb_topic h' = hb_topic h1" "hb_sub h' = hb_sub h1" "hb_written h' = hb_written h1"
      and pend: "pending h' = N + mset new + mset (concat spawned)"
      using acts step by simp_all
    note m = perform_members [OF acts(2)]
    have new: "starts t b \<longrightarrow> starts t a" "b \<noteq> AAdd t' s k" if "b \<in> set new \<or> b \<in> set (concat spawned)" for b t' k
      using perform_new [OF acts(2) that] cut by (auto simp: cut_off_def)
    have a: "\<not> starts t a" "a \<noteq> AAdd t' s k" "\<not> live N t" "AAdd t' s k \<notin># N" for t' k
      using cut by (auto simp: cut_off_def acts(1))
    have "cut_off h' t s"
      unfolding cut_off_def h'
    proof (intro conjI allI impI)
      show "t < length (hb_topic h1)" "s < length (hb_sub h1)" using m [of t s] cut by (simp_all add: cut_off_def)
      show "\<not> live (pending h') t" using a(1,3) new(1) unfolding pend by (auto simp: live_def)
      show "AAdd t' s k \<notin># pending h'" for t' k
        using a(4) [of t' k] new(2) [of "AAdd t' s k" t' k] unfolding pend by auto
      fix t' assume "t' < length (hb_topic h1)" "s \<in> set (subs_of h1 t')"
      then show "t' = t" using m [of t' s] a(2) cut unfolding cut_off_def by blast
    qed
    moreover have "seen h1 s = seen h s"
    proof (cases "\<exists>u. a = ALoop u")
      case True
      then obtain u where u: "a = ALoop u" by blast
      then have "u < length (hb_topic h)" using inv acts(1) by (auto simp: hub_inv_def in_range_def)
      moreover have "u \<noteq> t" using a(1) u by auto
      ultimately have "s \<notin> set (subs_of h u)" using cut by (auto simp: cut_off_def)
      moreover have "s < length (hb_sub h)" using cut by (simp add: cut_off_def)
      ultimately show ?thesis
        using loop_perform [OF acts(2) [unfolded u]] by (auto simp: seen_def deliver_sub deliver_fields(9))
    next
      case False
      then show ?thesis
        using chan_perform [OF acts(2)] ch cut by (auto simp: channels_ok_def keeps_def cut_off_def)
    qed
    ultimately show ?thesis by (simp add: seen_def h')
  qed
next
  case (connect e a)
  then have "pending h' = add_mset (ASubscribe e a) (pending h)" by (simp add: pending_def arrive_def)
  then show ?thesis using cut connect by (simp add: cut_off_def seen_def arrive_def)
qed

lemma cut_off_run:
  assumes run: "(hub_step C)\<^sup>*\<^sup>* h h'" and h: "(hub_step C)\<^sup>*\<^sup>* (NewHub b) h" and cut: "cut_off h t s"
  shows "cut_off h' t s \<and> seen h' s = seen h s"
  using run
proof (induction rule: rtranclp_induct)
  case base
  then show ?case using cut by simp
next
  case (step y z)
  then have y: "(hub_step C)\<^sup>*\<^sup>* (NewHub b) y" using h by simp
  then have "hub_inv (pending y) y" "channels_ok y"
    using inv_run chan_run [OF closing_run [OF y] chan_start] by blast+
  then show ?case using cut_off_step [OF step(2)] step.IH by auto
qed

section \<open>What the hub promises\<close>

text \<open>C39: While the hub serves, no interleaving of connections, deliveries, bus failures,
overflows and departures makes it send on a closed channel (which would end the process), every
running topic loop is the only one of its topic and the one its event is mapped to, and every
member of such a topic has an open channel.\<close>

theorem no_send_on_closed:
  assumes "(hub_step C)\<^sup>*\<^sup>* (NewHub b) h"
  shows "\<not> hb_panic h \<and> size (filter_mset (\<lambda>a. a = ALoop t) (pending h)) \<le> 1 \<and>
    (ALoop t \<in># pending h \<longrightarrow> map_of (hb_topics h) (tp_eventID (hb_topic h ! t)) = Some t \<and>
      list_all (\<lambda>s. s < length (hb_sub h) \<and> sb_open (hb_sub h ! s)) (subs_of h t))"
proof (intro conjI impI)
  have inv: "hub_inv (pending h) h" by (rule inv_run [OF assms])
  then show "\<not> hb_panic h" by (simp add: hub_inv_def serving_def)
  have "filter_mset (\<lambda>a. a = ALoop t) (pending h) = filter_mset (\<lambda>a. a = ALoop t) (filter_mset (starts t) (pending h))"
    unfolding filter_filter_mset by (rule filter_mset_cong) auto
  then have "size (filter_mset (\<lambda>a. a = ALoop t) (pending h)) \<le> size (filter_mset (starts t) (pending h))"
    using size_filter_mset_lesseq by metis
  then show "size (filter_mset (\<lambda>a. a = ALoop t) (pending h)) \<le> 1"
    using inv unfolding hub_inv_def tokens_once_def by (meson le_trans)
  assume a: "ALoop t \<in># pending h"
  then have l: "live (pending h) t" "t < length (hb_topic h)" using inv
    by (auto simp: live_def hub_inv_def in_range_def intro!: bexI [of _ "ALoop t"])
  then show "map_of (hb_topics h) (tp_eventID (hb_topic h ! t)) = Some t"
    using inv unfolding hub_inv_def mapped_def by blast
  show "list_all (\<lambda>s. s < length (hb_sub h) \<and> sb_open (hb_sub h ! s)) (subs_of h t)"
    using inv l unfolding hub_inv_def members_ok_def list_all_iff by blast
qed

text \<open>One client falls behind with a channel of one message and is released; the topic goes on.\<close>

definition fx_overflow :: "move list" where
  "fx_overflow = fx_opened @ [Connect 7 AudienceHost, Do 2 Go, Do 2 Go, Do 2 (Arrives ''x''),
     Do 1 (Arrives ''m''), Do 2 Go, Do 1 (Arrives ''m''), Do 1 Go]"

theorem no_send_on_closed_witness:
  "\<not> hb_panic (play fx_codec (NewHub 1) fx_overflow) \<and> ALoop 0 \<in># pending (play fx_codec (NewHub 1) fx_overflow) \<and>
   subs_of (play fx_codec (NewHub 1) fx_overflow) 0 = [1] \<and> sb_dropped (hb_sub (play fx_codec (NewHub 1) fx_overflow) ! 0) \<and>
   sb_open (hb_sub (play fx_codec (NewHub 1) fx_overflow) ! 1)"
proof -
  have "\<not> hb_panic (play fx_codec (NewHub 1) fx_overflow)"
    by (rule no_send_on_closed [THEN conjunct1, OF play_run]) (simp add: fx_overflow_def fx_opened_def)
  moreover have "concat (hb_threads (play fx_codec (NewHub 1) fx_overflow)) = [AServe 0, ALoop 0, AServe 1] \<and>
   subs_of (play fx_codec (NewHub 1) fx_overflow) 0 = [1] \<and> sb_dropped (hb_sub (play fx_codec (NewHub 1) fx_overflow) ! 0) \<and>
   sb_open (hb_sub (play fx_codec (NewHub 1) fx_overflow) ! 1)" by code_simp
  ultimately show ?thesis by (simp add: pending_def)
qed


definition fx_reader :: "move list" where
  "fx_reader = fx_opened @ [Do 1 (Arrives ''m''), Do 0 Go]"


text \<open>A subscription whose topic has no loop, none to come, is cut off: it is not told
anything any more, however long the hub runs and whatever arrives for its event. Subscribe
can produce one: it looks its topic up, the loop of that topic ends in between, and the
subscription then joins the dead topic with its channel open.\<close>

theorem late_subscriber_hears_nothing:
  assumes "(hub_step C)\<^sup>*\<^sup>* (NewHub b) h" "cut_off h t s" "(hub_step C)\<^sup>*\<^sup>* h h'"
  shows "seen h' s = seen h s \<and> cut_off h' t s"
  using cut_off_run [OF assms(3,1,2)] by blast

text \<open>The first client leaves while a second one connects.\<close>

definition fx_late :: "move list" where
  "fx_late = fx_opened @ [Do 0 Leaves, Do 0 Go, Do 0 Go, Do 0 Go, Do 0 Go, Connect 7 AudienceHost, Do 2 Go,
     Do 1 Go, Do 1 Go, Do 1 Go, Do 1 Go, Do 2 Go]"

definition fx_after :: "move list" where
  "fx_after = [Connect 7 AudienceHost, Do 3 Go, Do 3 Go, Do 3 Go, Do 4 Go, Do 4 (Arrives ''m''), Do 3 Go, Do 2 Go]"

lemma cut_offI:
  assumes "concat (hb_threads h) = [AServe s]" "map tp_subscribers (hb_topic h) = [[s]]" "length (hb_sub h) = Suc s"
    "length (hb_topic h) = 1"
  shows "cut_off h 0 s"
  using assms by (simp add: cut_off_def pending_def live_def)

theorem late_subscriber_hears_nothing_witness:
  "seen (play fx_codec (play fx_codec (NewHub 2) fx_late) fx_after) 1 = [] \<and>
   seen (play fx_codec (play fx_codec (NewHub 2) fx_late) fx_after) 2 = [fx_message] \<and>
   sb_open (hb_sub (play fx_codec (play fx_codec (NewHub 2) fx_late) fx_after) ! 1)"
proof -
  let ?h = "play fx_codec (NewHub 2) fx_late"
  have "concat (hb_threads ?h) = [AServe 1]" "map tp_subscribers (hb_topic ?h) = [[1]]" "length (hb_sub ?h) = Suc 1" "length (hb_topic ?h) = 1" by code_simp+
  then have c: "cut_off ?h 0 1" by (rule cut_offI)
  have q: "Quit \<notin> set fx_late" "Quit \<notin> set fx_after" by (simp_all add: fx_late_def fx_opened_def fx_after_def)
  have "seen (play fx_codec ?h fx_after) 1 = seen ?h 1"
    by (rule late_subscriber_hears_nothing [THEN conjunct1, OF play_run [OF q(1)] c play_run [OF q(2)]])
  moreover have "seen ?h 1 = []" by code_simp
  moreover have "seen (play fx_codec ?h fx_after) 2 = [fx_message]" by code_simp
  moreover have "sb_open (hb_sub (play fx_codec ?h fx_after) ! 1)" by code_simp
  ultimately show ?thesis by simp
qed

text \<open>A shutdown is not as safe: a client that leaves while Hub.Close runs finds no topic to
leave, releases its channel and stays a member, so that a message the topic's loop still takes
is sent on a closed channel.\<close>

theorem shutdown_may_panic:
  "\<exists>h. (closing_step fx_codec)\<^sup>*\<^sup>* (NewHub 1) h \<and> hb_panic h"
proof -
  have "hb_panic (play fx_codec (NewHub 1) (fx_opened @ [Quit, Do 2 Go, Do 0 Leaves, Do 0 Go, Do 0 Go, Do 1 (Arrives ''m'')]))"
    by code_simp
  then show ?thesis using play_closing by blast
qed

end
