(* ===== verification/RealtimeProps.thy ===== *)
theory RealtimeProps
  imports HubProps ConfirmProps
begin

text \<open>
  What the notifier lets guests know, over the operations of the media service that announce
  changes, and the way of a message through the bus.
\<close>

section \<open>Messages\<close>

lemma NewMessage_fields:
  assumes "NewMessage C i k a p = Inr m"
  shows "rm_EventID m = i" "rm_Kind m = k" "rm_Audience m = a" "cd_Marshal C p = Inr (rm_Data m)" "Validate m = None"
  using assms by (auto simp: NewMessage_def Let_def split: sum.splits option.splits)

lemma audiences [simp]:
  "Includes AudienceHost AudiencePublic = False" "Includes AudiencePublic AudiencePublic" "Includes AudienceHost AudienceHost"
  "Includes (AudienceHost OR AudiencePublic) a = (Includes AudienceHost a \<or> Includes AudiencePublic a)"
proof -
  show "Includes (AudienceHost OR AudiencePublic) a = (Includes AudienceHost a \<or> Includes AudiencePublic a)"
    by (simp add: Includes_def bit.conj_disj_distrib2 or_eq_0_iff)
qed (simp_all add: Includes_def AudienceHost_def AudiencePublic_def)

lemma media_messages:
  assumes "m \<in> set (MediaChanged C c)"
  obtains ms where "mediaMessages C c = Inr ms" "m \<in> set ms"
  using assms by (cases "mediaMessages C c") (auto simp: MediaChanged_def dropped_on_error_def)

lemma moderated_guest:
  assumes "m \<in> set (MediaChanged C c)" "mc_Kind c = ChangeModerated" "Includes (rm_Audience m) AudiencePublic"
  shows "rm_Audience m = AudiencePublic \<and> rm_EventID m = mc_EventID c \<and>
    rm_Kind m = (if mc_Status c = Some MediaHidden then KindMediaDeleted else KindMediaUpdated) \<and>
    cd_Marshal C (MediaPayload \<lparr>mp_IDs = mc_IDs c, mp_Status = (if mc_Status c = Some MediaHidden then None else Some MediaReady),
      mp_Item = None, mp_ThumbnailReady = False\<rparr>) = Inr (rm_Data m)"
proof (rule media_messages [OF assms(1)])
  fix ms assume ms: "mediaMessages C c = Inr ms" "m \<in> set ms"
  then obtain host guest where h: "ms = [host, guest]"
    "NewMessage C (mc_EventID c) KindMediaUpdated AudienceHost (MediaPayload \<lparr>mp_IDs = mc_IDs c,
       mp_Status = mc_Status c, mp_Item = mc_Item c, mp_ThumbnailReady = False\<rparr>) = Inr host"
    "NewMessage C (mc_EventID c) (if mc_Status c = Some MediaHidden then KindMediaDeleted else KindMediaUpdated)
       AudiencePublic (MediaPayload \<lparr>mp_IDs = mc_IDs c,
       mp_Status = (if mc_Status c = Some MediaHidden then None else Some MediaReady), mp_Item = None,
       mp_ThumbnailReady = False\<rparr>) = Inr guest"
    using assms(2) unfolding mediaMessages_def by (simp split: sum.splits) blast
  have "m \<noteq> host" using assms(3) NewMessage_fields(3) [OF h(2)] by auto
  then have "m = guest" using ms(2) h(1) by simp
  then show ?thesis using NewMessage_fields [OF h(3)] by simp
qed

section \<open>Guests and moderation\<close>

text \<open>Whatever the host's moderation announces, a message a guest may receive names the
moderated ids and nothing more: it carries no item, reports a hidden item as deleted, and any
other status, also that of a featured item, as plain ready.\<close>

theorem guests_learn_no_curation:
  assumes "UpdateStatus S e i st s = (Inr (row, ch), s1) \<or> UpdateStatuses S e is st s = ((None, ch), s1)"
    and "c \<in> set ch" "m \<in> set (MediaChanged C c)" "Includes (rm_Audience m) AudiencePublic"
  shows "rm_Audience m = AudiencePublic \<and> rm_EventID m = e \<and>
    rm_Kind m = (if st = MediaHidden then KindMediaDeleted else KindMediaUpdated) \<and>
    (\<exists>ids. cd_Marshal C (MediaPayload \<lparr>mp_IDs = ids, mp_Status = (if st = MediaHidden then None else Some MediaReady),
      mp_Item = None, mp_ThumbnailReady = False\<rparr>) = Inr (rm_Data m) \<and> set ids \<subseteq> insert i (set is))"
proof -
  have "mc_Kind c = ChangeModerated \<and> mc_EventID c = e \<and> mc_Status c = Some st \<and> set (mc_IDs c) \<subseteq> insert i (set is)"
    using assms(1)
  proof
    assume "UpdateStatus S e i st s = (Inr (row, ch), s1)"
    then show ?thesis using assms(2) by (auto simp: UpdateStatus_def notify_media_def split: if_splits prod.splits sum.splits)
  next
    assume "UpdateStatuses S e is st s = ((None, ch), s1)"
    then show ?thesis using assms(2)
      by (auto simp: UpdateStatuses_def notify_media_def Let_def uniqueMediaIDs_props(2)
        split: if_splits prod.splits option.splits)
  qed
  then show ?thesis using moderated_guest [OF assms(3) _ assms(4)] by (auto split: if_splits)
qed

text \<open>Hiding the one record of a gallery: the host hears of an update, guests of a deletion.\<close>

definition fx_told :: "media_change list \<Rightarrow> message list" where
  "fx_told ch = concat (map (MediaChanged fx_codec) ch)"

definition fx_hide :: "(error + media \<times> media_change list) \<times> db \<times> store" where
  "fx_hide = UpdateStatus (app_media (fx_store_env 12)) 7 11 MediaHidden fx_confirmed"

lemma fx_hide_told:
  "(case fst fx_hide of Inl _ \<Rightarrow> [] | Inr (row, ch) \<Rightarrow>
     map (\<lambda>m. (rm_Kind m, Includes (rm_Audience m) AudiencePublic)) (fx_told ch)) =
   [(KindMediaUpdated, False), (KindMediaDeleted, True)]"
  by code_simp

theorem guests_learn_no_curation_witness:
  "\<exists>row ch m. fst (UpdateStatus (app_media (fx_store_env 12)) 7 11 MediaHidden fx_confirmed) = Inr (row, ch) \<and>
     m \<in> set (fx_told ch) \<and> rm_Audience m = AudiencePublic \<and> rm_Kind m = KindMediaDeleted"
proof -
  obtain row ch where h: "fst fx_hide = Inr (row, ch)"
    and t: "map (\<lambda>m. (rm_Kind m, Includes (rm_Audience m) AudiencePublic)) (fx_told ch) =
      [(KindMediaUpdated, False), (KindMediaDeleted, True)]"
    using fx_hide_told by (auto split: sum.splits prod.splits)
  then obtain y m where "fx_told ch = [y, m]" "Includes (rm_Audience m) AudiencePublic" by auto
  then have m: "m \<in> set (fx_told ch)" "Includes (rm_Audience m) AudiencePublic" by simp_all
  then obtain c where c: "c \<in> set ch" "m \<in> set (MediaChanged fx_codec c)" by (auto simp: fx_told_def)
  have "UpdateStatus (app_media (fx_store_env 12)) 7 11 MediaHidden fx_confirmed = (Inr (row, ch), snd fx_hide)"
    using h by (simp add: fx_hide_def prod_eq_iff)
  from guests_learn_no_curation [OF disjI1 [OF this] c m(2)] show ?thesis using h m(1) by (auto simp: fx_hide_def)
qed

text \<open>A thumbnail is announced to guests whatever the status of its record, so that of a hidden
one too: the message names the hidden record.\<close>

theorem thumbnail_told_to_guests:
  assumes "GenerateThumbnail S i s = ((None, ch), s1)" "mr_FindByID (ms_repo S) i s = Inr row" "c \<in> set ch"
    and "m \<in> set (MediaChanged C c)"
  shows "Includes (rm_Audience m) AudiencePublic \<and> rm_Kind m = KindMediaThumbnail \<and> rm_EventID m = md_EventID row \<and>
    cd_Marshal C (MediaPayload \<lparr>mp_IDs = [md_ID row], mp_Status = None, mp_Item = None, mp_ThumbnailReady = True\<rparr>) = Inr (rm_Data m)"
proof -
  have st: "c = \<lparr>mc_Kind = ChangeThumbnail, mc_EventID = md_EventID row, mc_IDs = [md_ID row], mc_Status = None, mc_Item = None\<rparr>"
    if "store_thumbnail S row md enc s = ((None, ch), s1)" for md enc
    using that assms(3) by (auto simp: store_thumbnail_def notify_media_def split: prod.splits option.splits if_splits)
  have "c = \<lparr>mc_Kind = ChangeThumbnail, mc_EventID = md_EventID row, mc_IDs = [md_ID row], mc_Status = None, mc_Item = None\<rparr>"
    using assms(1,2,3) st
    by (auto simp: GenerateThumbnail_def generateImageThumbnail_def generateVideoThumbnail_def Let_def
        split: if_splits sum.splits option.splits prod.splits)
  moreover obtain ms where "mediaMessages C c = Inr ms" "m \<in> set ms" by (rule media_messages [OF assms(4)])
  ultimately show ?thesis
    by (auto simp: mediaMessages_def buildOne_def dest: NewMessage_fields split: sum.splits)
qed

definition fx_hidden :: "db \<times> store" where
  "fx_hidden = snd fx_hide"

lemma fx_hidden_value [code]:
  "fx_hidden = (let (s, st) = fx_confirmed in (s\<lparr>t_media := [fx_row MediaHidden (Some 400) (Some 20)]\<rparr>, st))"
  by code_simp

definition fx_shown :: "(error option \<times> media_change list) \<times> db \<times> store" where
  "fx_shown = GenerateThumbnail (app_media (fx_store_env 13)) 11 fx_hidden"

lemma fx_shown_told:
  "(fst (fst fx_shown), map rm_Kind (fx_told (snd (fst fx_shown))),
     map_option md_Status (case mr_FindByID (ms_repo (app_media (fx_store_env 13))) 11 fx_hidden of Inl _ \<Rightarrow> None | Inr r \<Rightarrow> Some r)) =
   (None, [KindMediaThumbnail], Some MediaHidden)"
  by code_simp

theorem thumbnail_told_to_guests_witness:
  "\<exists>ch s1 row m. GenerateThumbnail (app_media (fx_store_env 13)) 11 fx_hidden = ((None, ch), s1) \<and>
     mr_FindByID (ms_repo (app_media (fx_store_env 13))) 11 fx_hidden = Inr row \<and> md_Status row = MediaHidden \<and>
     m \<in> set (fx_told ch) \<and> Includes (rm_Audience m) AudiencePublic \<and> rm_Kind m = KindMediaThumbnail"
proof -
  obtain row where r: "mr_FindByID (ms_repo (app_media (fx_store_env 13))) 11 fx_hidden = Inr row" "md_Status row = MediaHidden"
    using fx_shown_told by (auto split: sum.splits)
  have g: "GenerateThumbnail (app_media (fx_store_env 13)) 11 fx_hidden = ((None, snd (fst fx_shown)), snd fx_shown)"
    using fx_shown_told by (simp add: fx_shown_def prod_eq_iff)
  obtain m where m: "m \<in> set (fx_told (snd (fst fx_shown)))" using fx_shown_told by (cases "fx_told (snd (fst fx_shown))") auto
  then obtain c where c: "c \<in> set (snd (fst fx_shown))" "m \<in> set (MediaChanged fx_codec c)" by (auto simp: fx_told_def)
  from thumbnail_told_to_guests [OF g r(1) c] show ?thesis using g r m by blast
qed

section \<open>From an announcement to a screen\<close>

lemma room_left: "reaches m x \<Longrightarrow> length (sb_ch x) < hb_buffer h \<Longrightarrow> send_to m h x = x\<lparr>sb_ch := sb_ch x @ [m]\<rparr>"
  by (simp add: send_to_def)

text \<open>A message the notifier builds passes the bus unchanged, where the decoder undoes the
encoder, and the running loop of the event's topic then hands it to exactly the members of its
audience: a member with room in its channel holds it as its newest message, a member of another
audience keeps what it had, and one without room loses its place and is released and marked.\<close>

theorem announcement_reaches_its_audience:
  assumes "m \<in> set (MediaChanged C mc) \<union> set (EventChanged C ec) \<union> set (LiveWallChanged C wc) \<union> set (PlanChanged C pc)"
    and "cd_encode C m = Inr raw" "cd_decode C raw = Inr m"
    and "s \<in> set (subs_of h t)" "s < length (hb_sub h)" "t < length (hb_topic h)"
    and "perform C (Arrives raw) (ALoop t) h = (new, spawned, h1)"
  shows "Encode C m = Inr raw \<and>
    (let x = hb_sub h ! s; x1 = hb_sub h1 ! s in
      if \<not> reaches m x then x1 = x \<and> s \<in> set (subs_of h1 t)
      else if length (sb_ch x) < hb_buffer h then seen h1 s = seen h s @ [m] \<and> s \<in> set (subs_of h1 t)
      else seen h1 s = seen h s \<and> sb_dropped x1 \<and> s \<notin> set (subs_of h1 t) \<and> ARelease s \<in> set new)"
proof -
  have v: "Validate m = None"
  proof -
    consider "m \<in> set (MediaChanged C mc)"
      | k i a p where "NewMessage C i k a p = Inr m"
      using assms(1) by (auto simp: EventChanged_def LiveWallChanged_def PlanChanged_def planMessage_def dropped_on_error_def
          map_sum_def split: sum.splits)
    then show ?thesis
    proof cases
      case 1
      then obtain ms where "mediaMessages C mc = Inr ms" "m \<in> set ms" by (rule media_messages)
      then show ?thesis
        by (auto simp: mediaMessages_def buildOne_def dest: NewMessage_fields split: sum.splits change_kind.splits)
    next
      case 2
      then show ?thesis by (rule NewMessage_fields(5))
    qed
  qed
  have dec: "Decode C raw = Inr m" using assms(3) v by (simp add: Decode_def)
  obtain as h2 where d: "deliver t m h = (as, h2)" by (rule prod.exhaust)
  have out: "new = as @ [ALoop t]" "h1 = h2" using assms(7) dec d by auto
  note f = deliver_fields [OF d] and x = deliver_sub [OF d assms(5)]
  have "Encode C m = Inr raw" using assms(2) v by (simp add: Encode_def)
  then show ?thesis
    unfolding out Let_def
    using assms(4-6) by (auto simp: seen_def f(6,8,9) x send_to_def overflows_def)
qed

definition fx_created :: media_change where
  "fx_created = \<lparr>mc_Kind = ChangeCreated, mc_EventID = 7, mc_IDs = [11], mc_Status = Some MediaReady, mc_Item = None\<rparr>"

definition fx_open_hub :: hub where "fx_open_hub = play fx_codec (NewHub 2) fx_opened"

lemma fx_open_hub:
  "MediaChanged fx_codec fx_created = [fx_message]" "cd_encode fx_codec fx_message = Inr ''m1''"
  "cd_decode fx_codec ''m1'' = Inr fx_message" "subs_of fx_open_hub 0 = [0]" "length (hb_sub fx_open_hub) = 1"
  "length (hb_topic fx_open_hub) = 1" "seen fx_open_hub 0 = []" "reaches fx_message (hb_sub fx_open_hub ! 0)"
  "length (sb_ch (hb_sub fx_open_hub ! 0)) = 0" "hb_buffer fx_open_hub = 2"
  by code_simp+

theorem announcement_reaches_its_audience_witness:
  "seen (snd (snd (perform fx_codec (Arrives ''m1'') (ALoop 0) fx_open_hub))) 0 = [fx_message] \<and>
   MediaChanged fx_codec fx_created = [fx_message]"
proof -
  obtain new spawned h1 where p: "perform fx_codec (Arrives ''m1'') (ALoop 0) fx_open_hub = (new, spawned, h1)"
    by (metis prod.exhaust)
  have "fx_message \<in> set (MediaChanged fx_codec fx_created) \<union> set (EventChanged fx_codec ec) \<union>
      set (LiveWallChanged fx_codec wc) \<union> set (PlanChanged fx_codec pc)" for ec wc pc
    by (simp add: fx_open_hub(1))
  from announcement_reaches_its_audience [OF this fx_open_hub(2,3) _ _ _ p, of 0]
  have "seen h1 0 = [fx_message]" by (simp add: fx_open_hub Let_def)
  then show ?thesis using p fx_open_hub(1) by simp
qed

end
