(* ===== verification/Accounts.thy ===== *)
theory Accounts
  imports Schema
begin

text \<open>
  Host accounts (internal/user, internal/profile, and the identity internal/platform/auth reads
  from a verified token): the user row an identity is materialised as, and the consents that
  creating an event asks for. Verifying the token itself is the identity provider's library.
\<close>

record identity =
  idn_BetterAuthUserID :: string
  idn_Email :: string
  idn_Name :: string
  idn_TermsVersion :: string
  idn_PrivacyVersion :: string
  idn_EmailVerified :: bool

section \<open>Tables\<close>

definition user_row_ok :: "user \<Rightarrow> bool" where
  "user_row_ok u \<longleftrightarrow> text_ok (ur_BetterAuthUserID u) \<and> text_ok (ur_Email u) \<and> text_ok (ur_DisplayName u)"

definition users_keys_ok :: "user list \<Rightarrow> bool" where
  "users_keys_ok t \<longleftrightarrow> distinct (map ur_ID t) \<and> distinct (map ur_BetterAuthUserID t)"

definition write_users :: "user list \<Rightarrow> db \<Rightarrow> error + db" where
  "write_users t s =
     (if \<not> list_all user_row_ok t then Inl (DB ErrInvalidText)
      else if \<not> users_keys_ok t then Inl (DB ErrDuplicatedKey)
      else Inr (s\<lparr>t_users := t\<rparr>))"

definition consent_key :: "consent \<Rightarrow> uuid \<times> document_type \<times> string" where
  "consent_key c = (cn_UserID c, cn_DocumentType c, cn_DocumentVersion c)"

section \<open>The repository (profile/repository.go)\<close>

definition same_login :: "string \<Rightarrow> user \<Rightarrow> bool" where
  "same_login b u \<longleftrightarrow> ur_BetterAuthUserID u = b"

definition db_FindUserID :: "string \<Rightarrow> db \<Rightarrow> error + uuid" where
  "db_FindUserID b s =
     (case find (same_login b) (t_users s) of None \<Rightarrow> Inl (DB ErrRecordNotFound) | Some u \<Rightarrow> Inr (ur_ID u))"

definition new_user :: "time \<Rightarrow> uuid \<Rightarrow> identity \<Rightarrow> user" where
  "new_user now freshID idn = \<lparr>ur_ID = freshID, ur_BetterAuthUserID = idn_BetterAuthUserID idn,
     ur_Email = idn_Email idn, ur_DisplayName = idn_Name idn,
     ur_EmailVerifiedAt = (if idn_EmailVerified idn then Some now else None),
     ur_LastAuthenticatedAt = Some now, ur_CreatedAt = now, ur_UpdatedAt = now\<rparr>"

definition refreshed :: "time \<Rightarrow> identity \<Rightarrow> user \<Rightarrow> user" where
  "refreshed now idn u = u\<lparr>ur_Email := idn_Email idn, ur_DisplayName := idn_Name idn,
     ur_LastAuthenticatedAt := Some now, ur_UpdatedAt := now,
     ur_EmailVerifiedAt := (if idn_EmailVerified idn then Some now else ur_EmailVerifiedAt u)\<rparr>"

definition ensure_user_tx :: "time \<Rightarrow> uuid \<Rightarrow> identity \<Rightarrow> db \<Rightarrow> error + user \<times> db" where
  "ensure_user_tx now freshID idn s =
     (case find (same_login (idn_BetterAuthUserID idn)) (t_users s) of
        None \<Rightarrow>
          (let u = new_user now freshID idn
           in map_sum id (Pair u) (write_users (t_users s @ [u]) s))
      | Some u \<Rightarrow>
          map_sum id (Pair (refreshed now idn u))
            (write_users (update_where (\<lambda>x. ur_ID x = ur_ID u) (refreshed now idn) (t_users s)) s))"

definition db_EnsureUser :: "time \<Rightarrow> uuid \<Rightarrow> identity \<Rightarrow> db \<Rightarrow> (error + user) \<times> db" where
  "db_EnsureUser now freshID idn = transaction (ensure_user_tx now freshID idn)"

text \<open>INSERT .. ON CONFLICT DO NOTHING, one statement.\<close>

fun insert_new_consents :: "consent list \<Rightarrow> consent list \<Rightarrow> consent list" where
  "insert_new_consents t [] = t"
| "insert_new_consents t (c # cs) =
     insert_new_consents (if consent_key c \<in> consent_key ` set t then t else t @ [c]) cs"

definition db_SaveConsents :: "consent list \<Rightarrow> db \<Rightarrow> error option \<times> db" where
  "db_SaveConsents cs s =
     (if \<not> list_all (\<lambda>c. text_ok (cn_DocumentVersion c)) cs then (Some (DB ErrInvalidText), s)
      else if \<not> list_all (\<lambda>c. cn_UserID c \<in> ur_ID ` set (t_users s)) cs then (Some (DB ErrForeignKeyViolated), s)
      else (None, s\<lparr>t_consents := insert_new_consents (t_consents s) cs\<rparr>))"

definition required_consent :: "uuid \<Rightarrow> string \<Rightarrow> string \<Rightarrow> consent \<Rightarrow> bool" where
  "required_consent i terms privacy c \<longleftrightarrow> cn_UserID c = i \<and>
     (cn_DocumentType c = DocumentTerms \<and> cn_DocumentVersion c = terms \<or>
      cn_DocumentType c = DocumentPrivacy \<and> cn_DocumentVersion c = privacy)"

definition db_HasRequiredConsents :: "uuid \<Rightarrow> string \<Rightarrow> string \<Rightarrow> db \<Rightarrow> bool" where
  "db_HasRequiredConsents i terms privacy s \<longleftrightarrow> count_where (required_consent i terms privacy) (t_consents s) = 2"

section \<open>The service (profile/service.go)\<close>

record profile_service =
  pf_termsVersion :: string
  pf_privacyVersion :: string
  pf_now :: time
  pf_fresh :: uuid

record profile_view =
  hv_ID :: uuid
  hv_Email :: string
  hv_Name :: string
  hv_EmailVerified :: bool
  hv_HasRequiredConsents :: bool

definition UserID :: "profile_service \<Rightarrow> identity \<Rightarrow> db \<Rightarrow> (error + uuid) \<times> db" where
  "UserID P idn s =
     (case db_FindUserID (idn_BetterAuthUserID idn) s of
        Inr i \<Rightarrow> (Inr i, s)
      | Inl e \<Rightarrow>
          if e \<noteq> DB ErrRecordNotFound then (Inl e, s)
          else (case db_EnsureUser (pf_now P) (pf_fresh P) idn s of
                  (Inl e, s1) \<Rightarrow> (Inl e, s1) | (Inr u, s1) \<Rightarrow> (Inr (ur_ID u), s1)))"

definition current_consents :: "profile_service \<Rightarrow> uuid \<Rightarrow> consent list" where
  "current_consents P i =
     [\<lparr>cn_UserID = i, cn_DocumentType = DocumentTerms, cn_DocumentVersion = pf_termsVersion P, cn_AcceptedAt = pf_now P\<rparr>,
      \<lparr>cn_UserID = i, cn_DocumentType = DocumentPrivacy, cn_DocumentVersion = pf_privacyVersion P, cn_AcceptedAt = pf_now P\<rparr>]"

definition view_of :: "profile_service \<Rightarrow> user \<Rightarrow> db \<Rightarrow> profile_view" where
  "view_of P u s = \<lparr>hv_ID = ur_ID u, hv_Email = ur_Email u, hv_Name = ur_DisplayName u,
     hv_EmailVerified = (ur_EmailVerifiedAt u \<noteq> None),
     hv_HasRequiredConsents = db_HasRequiredConsents (ur_ID u) (pf_termsVersion P) (pf_privacyVersion P) s\<rparr>"

definition Me :: "profile_service \<Rightarrow> identity \<Rightarrow> db \<Rightarrow> (error + profile_view) \<times> db" where
  "Me P idn s =
     (case db_EnsureUser (pf_now P) (pf_fresh P) idn s of
        (Inl e, s1) \<Rightarrow> (Inl e, s1)
      | (Inr u, s1) \<Rightarrow>
          (let s2 = (if idn_TermsVersion idn = pf_termsVersion P \<and> idn_PrivacyVersion idn = pf_privacyVersion P
                     then snd (db_SaveConsents (current_consents P (ur_ID u)) s1) else s1)
           in (Inr (view_of P u s2), s2)))"

definition Accept :: "profile_service \<Rightarrow> identity \<Rightarrow> string \<Rightarrow> string \<Rightarrow> db \<Rightarrow> (error + profile_view) \<times> db" where
  "Accept P idn terms privacy s =
     (if terms \<noteq> pf_termsVersion P \<or> privacy \<noteq> pf_privacyVersion P then (Inl (Profile ErrInvalidConsent), s)
      else
        (case db_EnsureUser (pf_now P) (pf_fresh P) idn s of
           (Inl e, s1) \<Rightarrow> (Inl e, s1)
         | (Inr u, s1) \<Rightarrow>
             (case db_SaveConsents (current_consents P (ur_ID u)) s1 of
                (Some e, s2) \<Rightarrow> (Inl e, s2)
              | (None, s2) \<Rightarrow> Me P idn s2)))"

definition RequireEventCreation :: "profile_service \<Rightarrow> identity \<Rightarrow> db \<Rightarrow> (error + profile_view) \<times> db" where
  "RequireEventCreation P idn s =
     (case Me P idn s of
        (Inl e, s1) \<Rightarrow> (Inl e, s1)
      | (Inr v, s1) \<Rightarrow>
          ((if \<not> hv_EmailVerified v then Inl (Profile ErrEmailUnverified)
            else if \<not> hv_HasRequiredConsents v then Inl (Profile ErrConsentRequired)
            else Inr v), s1))"

end
