(* ===== verification/AccountProps.thy ===== *)
theory AccountProps
  imports Accounts Fixtures
begin

text \<open>
  Host accounts: one account per login, kept for ever, and what creating an event asks for.
\<close>

section \<open>The user table\<close>

definition accounts_inv :: "db \<Rightarrow> bool" where
  "accounts_inv s \<longleftrightarrow> users_keys_ok (t_users s) \<and> list_all user_row_ok (t_users s) \<and>
     distinct (map consent_key (t_consents s)) \<and> (\<forall>c \<in> set (t_consents s). cn_UserID c \<in> ur_ID ` set (t_users s))"

definition verified_before :: "db \<Rightarrow> string \<Rightarrow> bool" where
  "verified_before s b \<longleftrightarrow> (\<exists>t. map_option ur_EmailVerifiedAt (find (same_login b) (t_users s)) = Some (Some t))"

text \<open>The account of a login.\<close>

definition account :: "db \<Rightarrow> string \<Rightarrow> uuid option" where
  "account s b = map_option ur_ID (find (same_login b) (t_users s))"

lemma find_login: "find (same_login b) t = Some u \<Longrightarrow> u \<in> set t \<and> ur_BetterAuthUserID u = b"
  by (induction t) (auto simp: same_login_def split: if_splits)

lemma login_found:
  assumes "distinct (map ur_BetterAuthUserID t)" "u \<in> set t"
  shows "find (same_login (ur_BetterAuthUserID u)) t = Some u"
  using assms by (induction t) (auto simp: same_login_def)

lemma refreshed_keys [simp]: "ur_ID (refreshed now idn u) = ur_ID u" "ur_BetterAuthUserID (refreshed now idn u) = ur_BetterAuthUserID u"
  by (simp_all add: refreshed_def)

lemma find_update:
  assumes "\<And>x. same_login b (f x) = same_login b x"
  shows "find (same_login b) (update_where p f t) = map_option (\<lambda>x. if p x then f x else x) (find (same_login b) t)"
  using assms by (induction t) (auto simp: update_where_def)

lemma find_append: "find P (xs @ ys) = (case find P xs of None \<Rightarrow> find P ys | Some x \<Rightarrow> Some x)"
  by (induction xs) auto

text \<open>What ensuring a user does: the login has its account, which is the row returned; every
login that had one keeps it.\<close>

lemma EnsureUser_ok:
  assumes inv: "accounts_inv s" and e: "db_EnsureUser now freshID idn s = (Inr u, s')"
  shows "find (same_login (idn_BetterAuthUserID idn)) (t_users s') = Some u"
    "\<And>b i. account s b = Some i \<Longrightarrow> account s' b = Some i"
    "accounts_inv s'" "t_consents s' = t_consents s" "ur_Email u = idn_Email idn"
    "ur_EmailVerifiedAt u \<noteq> None \<longleftrightarrow> idn_EmailVerified idn \<or> verified_before s (idn_BetterAuthUserID idn)"
    "\<exists>t. s' = s\<lparr>t_users := t\<rparr>"
proof -
  let ?b = "idn_BetterAuthUserID idn"
  have "find (same_login ?b) (t_users s') = Some u \<and> (\<forall>b i. account s b = Some i \<longrightarrow> account s' b = Some i) \<and>
     accounts_inv s' \<and> t_consents s' = t_consents s \<and> ur_Email u = idn_Email idn \<and>
     (ur_EmailVerifiedAt u \<noteq> None \<longleftrightarrow> idn_EmailVerified idn \<or> verified_before s ?b) \<and>
     (\<exists>t. s' = s\<lparr>t_users := t\<rparr>)"
  proof (cases "find (same_login ?b) (t_users s)")
    case None
    let ?t = "t_users s @ [new_user now freshID idn]"
    have u: "u = new_user now freshID idn" "s' = s\<lparr>t_users := ?t\<rparr>" "list_all user_row_ok ?t" "users_keys_ok ?t"
      using e None by (auto simp: db_EnsureUser_def transaction_def ensure_user_tx_def Let_def write_users_def split: if_splits)
    then show ?thesis using inv None
      by (auto simp: accounts_inv_def find_append account_def same_login_def new_user_def verified_before_def split: option.splits)
  next
    case (Some v)
    let ?t = "update_where (\<lambda>x. ur_ID x = ur_ID v) (refreshed now idn) (t_users s)"
    have u: "u = refreshed now idn v" "s' = s\<lparr>t_users := ?t\<rparr>" "list_all user_row_ok ?t" "users_keys_ok ?t"
      using e Some by (auto simp: db_EnsureUser_def transaction_def ensure_user_tx_def Let_def write_users_def split: if_splits)
    have f: "find (same_login b) ?t = map_option (\<lambda>x. if ur_ID x = ur_ID v then refreshed now idn x else x) (find (same_login b) (t_users s))" for b
      by (rule find_update) (simp add: same_login_def)
    have ids: "ur_ID ` set ?t = ur_ID ` set (t_users s)"
      using map_update_where_same [of "\<lambda>x. ur_ID x = ur_ID v" ur_ID "refreshed now idn" "t_users s"]
      by (metis list.set_map refreshed_keys(1))
    have keep: "ur_ID (if P then refreshed now idn x else x) = ur_ID x" for P x by simp
    have acc: "account s' b = account s b" for b
      by (simp add: account_def u(2) f option.map_comp comp_def keep)
    have "accounts_inv s'" using inv u(3,4) ids by (simp add: accounts_inv_def u(2))
    moreover have "find (same_login ?b) (t_users s') = Some u" using Some by (simp add: f u(1,2))
    moreover have "\<exists>t. s' = s\<lparr>t_users := t\<rparr>" "t_consents s' = t_consents s" using u(2) by auto
    ultimately show ?thesis using Some acc u(1) by (simp add: refreshed_def verified_before_def)
  qed
  then show "find (same_login ?b) (t_users s') = Some u"
    "\<And>b i. account s b = Some i \<Longrightarrow> account s' b = Some i"
    "accounts_inv s'" "t_consents s' = t_consents s" "ur_Email u = idn_Email idn"
    "ur_EmailVerifiedAt u \<noteq> None \<longleftrightarrow> idn_EmailVerified idn \<or> verified_before s ?b"
    "\<exists>t. s' = s\<lparr>t_users := t\<rparr>"
    by blast+
qed

lemma EnsureUser_error: "db_EnsureUser now freshID idn s = (Inl e, s') \<Longrightarrow> s' = s"
  using transaction_atomic [of "ensure_user_tx now freshID idn" s e] by (simp add: db_EnsureUser_def)

section \<open>Consents\<close>

lemma insert_new_keys:
  "distinct (map consent_key t) \<Longrightarrow> distinct (map consent_key (insert_new_consents t cs)) \<and>
   consent_key ` set (insert_new_consents t cs) = consent_key ` set t \<union> consent_key ` set cs"
  by (induction cs arbitrary: t) auto

lemma insert_new_subset: "set (insert_new_consents t cs) \<subseteq> set t \<union> set cs"
proof (induction cs arbitrary: t)
  case (Cons c cs)
  from Cons [of "t @ [c]"] Cons [of t] show ?case by auto
qed simp

lemma SaveConsents_ok:
  assumes inv: "accounts_inv s" and e: "db_SaveConsents cs s = (r, s')"
  shows "accounts_inv s' \<and> t_users s' = t_users s \<and>
    (r = None \<longrightarrow> consent_key ` set (t_consents s') = consent_key ` set (t_consents s) \<union> consent_key ` set cs)"
proof (cases r)
  case None
  then have c: "s' = s\<lparr>t_consents := insert_new_consents (t_consents s) cs\<rparr>" "\<forall>c \<in> set cs. cn_UserID c \<in> ur_ID ` set (t_users s)"
    using e by (auto simp: db_SaveConsents_def list_all_iff split: if_splits)
  show ?thesis using inv c insert_new_keys [of "t_consents s" cs] insert_new_subset [of "t_consents s" cs]
    unfolding accounts_inv_def by auto
next
  case (Some e)
  then show ?thesis using inv assms(2) by (auto simp: db_SaveConsents_def split: if_splits)
qed

section \<open>What an account goes through\<close>

inductive account_step :: "db \<Rightarrow> db \<Rightarrow> bool" where
  user: "account_step s (snd (UserID P idn s))"
| me: "account_step s (snd (Me P idn s))"
| accept: "account_step s (snd (Accept P idn terms privacy s))"
| create: "account_step s (snd (RequireEventCreation P idn s))"

definition keeps_accounts :: "db \<Rightarrow> db \<Rightarrow> bool" where
  "keeps_accounts s s' \<longleftrightarrow> accounts_inv s' \<and> (\<forall>b i. account s b = Some i \<longrightarrow> account s' b = Some i)"

lemma keeps_accounts_refl: "accounts_inv s \<Longrightarrow> keeps_accounts s s" by (simp add: keeps_accounts_def)

lemma keeps_trans: "keeps_accounts s s1 \<Longrightarrow> keeps_accounts s1 s2 \<Longrightarrow> keeps_accounts s s2"
  by (simp add: keeps_accounts_def)

lemma keeps_ensure: "accounts_inv s \<Longrightarrow> db_EnsureUser now f idn s = (r, s') \<Longrightarrow> keeps_accounts s s'"
  by (cases r) (auto simp: keeps_accounts_def dest: EnsureUser_ok EnsureUser_error)

lemma keeps_save: "accounts_inv s \<Longrightarrow> db_SaveConsents cs s = (r, s') \<Longrightarrow> keeps_accounts s s'"
  using SaveConsents_ok [of s cs r s'] by (auto simp: keeps_accounts_def account_def)

lemma UserID_keeps: "accounts_inv s \<Longrightarrow> UserID P idn s = (r, s') \<Longrightarrow> keeps_accounts s s'"
  by (auto simp: UserID_def keeps_accounts_refl dest: keeps_ensure split: sum.splits prod.splits if_splits)

lemma Me_keeps:
  assumes "accounts_inv s" "Me P idn s = (r, s')"
  shows "keeps_accounts s s'"
proof -
  obtain q s1 where e: "db_EnsureUser (pf_now P) (pf_fresh P) idn s = (q, s1)" by (rule prod.exhaust)
  have k: "keeps_accounts s s1" by (rule keeps_ensure [OF assms(1) e])
  then have i: "accounts_inv s1" by (simp add: keeps_accounts_def)
  obtain r2 s2 where c: "db_SaveConsents (current_consents P (ur_ID (projr q))) s1 = (r2, s2)" by (rule prod.exhaust)
  have "s' = s1 \<or> s' = s2" using assms(2) e c by (auto simp: Me_def Let_def split: sum.splits if_splits)
  then show ?thesis using k keeps_trans [OF k keeps_save [OF i c]] by auto
qed

lemma Accept_keeps:
  assumes "accounts_inv s" "Accept P idn terms privacy s = (r, s')"
  shows "keeps_accounts s s'"
proof (cases "terms \<noteq> pf_termsVersion P \<or> privacy \<noteq> pf_privacyVersion P")
  case True
  then show ?thesis using assms by (auto simp: Accept_def keeps_accounts_refl)
next
  case False
  obtain q s1 where e: "db_EnsureUser (pf_now P) (pf_fresh P) idn s = (q, s1)" by (rule prod.exhaust)
  have k: "keeps_accounts s s1" by (rule keeps_ensure [OF assms(1) e])
  then have i: "accounts_inv s1" by (simp add: keeps_accounts_def)
  obtain r2 s2 where c: "db_SaveConsents (current_consents P (ur_ID (projr q))) s1 = (r2, s2)" by (rule prod.exhaust)
  have k2: "keeps_accounts s s2" by (rule keeps_trans [OF k keeps_save [OF i c]])
  then have "keeps_accounts s2 (snd (Me P idn s2))" by (intro Me_keeps) (auto simp: keeps_accounts_def prod_eq_iff)
  then have "keeps_accounts s (snd (Me P idn s2))" by (rule keeps_trans [OF k2])
  moreover have "s' = s1 \<or> s' = s2 \<or> s' = snd (Me P idn s2)"
    using assms(2) e c False by (auto simp: Accept_def split: sum.splits option.splits)
  ultimately show ?thesis using k k2 by auto
qed

lemma RequireEventCreation_keeps:
  "accounts_inv s \<Longrightarrow> RequireEventCreation P idn s = (r, s') \<Longrightarrow> keeps_accounts s s'"
  by (auto simp: RequireEventCreation_def dest: Me_keeps split: sum.splits prod.splits)

lemma step_keeps: "account_step s s' \<Longrightarrow> accounts_inv s \<Longrightarrow> keeps_accounts s s'"
  by (erule account_step.cases)
    (metis UserID_keeps Me_keeps Accept_keeps RequireEventCreation_keeps prod.collapse)+

lemma run_keeps: "account_step\<^sup>*\<^sup>* s s' \<Longrightarrow> accounts_inv s \<Longrightarrow> keeps_accounts s s'"
proof (induction rule: rtranclp_induct)
  case (step y z)
  then show ?case using step_keeps keeps_trans by (auto simp: keeps_accounts_def)
qed (rule keeps_accounts_refl)

lemma UserID_account:
  assumes "accounts_inv s" "UserID P idn s = (Inr i, s')"
  shows "account s' (idn_BetterAuthUserID idn) = Some i"
proof (cases "find (same_login (idn_BetterAuthUserID idn)) (t_users s)")
  case None
  then obtain u where u: "db_EnsureUser (pf_now P) (pf_fresh P) idn s = (Inr u, s')" "i = ur_ID u"
    using assms(2) by (auto simp: UserID_def db_FindUserID_def split: sum.splits prod.splits)
  then show ?thesis using EnsureUser_ok(1) [OF assms(1) u(1)] by (simp add: account_def)
next
  case (Some u)
  then show ?thesis using assms(2) by (auto simp: UserID_def db_FindUserID_def account_def)
qed

lemma account_inj:
  assumes "accounts_inv s" "account s b = Some i" "account s b' = Some i"
  shows "b = b'"
proof -
  obtain u v where "find (same_login b) (t_users s) = Some u" "ur_ID u = i" "find (same_login b') (t_users s) = Some v" "ur_ID v = i"
    using assms(2,3) by (auto simp: account_def)
  moreover from this have "u = v" using assms(1) find_login [of b "t_users s" u] find_login [of b' "t_users s" v]
    by (auto simp: accounts_inv_def users_keys_ok_def distinct_map inj_on_def)
  ultimately show ?thesis using find_login by metis
qed

text \<open>An authenticated login resolves to one account for ever: whatever hosts do in between, two
requests get the same account exactly when they carry the same login, also when the first one had
to create it and when names, addresses or consents changed.\<close>

theorem one_account_per_login:
  assumes "accounts_inv s" "UserID P idn s = (Inr i, s1)" "account_step\<^sup>*\<^sup>* s1 s2" "UserID P' idn' s2 = (Inr j, s3)"
  shows "i = j \<longleftrightarrow> idn_BetterAuthUserID idn = idn_BetterAuthUserID idn'"
proof -
  have k1: "accounts_inv s1" using UserID_keeps [OF assms(1,2)] by (simp add: keeps_accounts_def)
  have k: "keeps_accounts s1 s2" by (rule run_keeps [OF assms(3) k1])
  then have k2: "accounts_inv s2" by (simp add: keeps_accounts_def)
  have k3: "keeps_accounts s2 s3" by (rule UserID_keeps [OF k2 assms(4)])
  have i: "account s3 (idn_BetterAuthUserID idn) = Some i"
    using UserID_account [OF assms(1,2)] k k3 by (auto simp: keeps_accounts_def)
  have j: "account s3 (idn_BetterAuthUserID idn') = Some j" by (rule UserID_account [OF k2 assms(4)])
  show ?thesis using i j account_inj [of s3] k3 by (auto simp: keeps_accounts_def)
qed

section \<open>Creating an event\<close>

definition consent_keys :: "profile_service \<Rightarrow> uuid \<Rightarrow> (uuid \<times> document_type \<times> string) set" where
  "consent_keys P i = {(i, DocumentTerms, pf_termsVersion P), (i, DocumentPrivacy, pf_privacyVersion P)}"

lemma required_both:
  assumes "distinct (map consent_key (t_consents s))"
  shows "db_HasRequiredConsents i (pf_termsVersion P) (pf_privacyVersion P) s \<longleftrightarrow> consent_keys P i \<subseteq> consent_key ` set (t_consents s)"
proof -
  let ?p = "required_consent i (pf_termsVersion P) (pf_privacyVersion P)" and ?t = "consent_key ` set (t_consents s)"
  let ?f = "filter ?p (t_consents s)"
  have p: "?p c \<longleftrightarrow> consent_key c \<in> consent_keys P i" for c
    by (auto simp: required_consent_def consent_keys_def consent_key_def)
  have "distinct (map consent_key ?f)" using assms by (simp add: distinct_map_filter)
  then have "length ?f = card (set (map consent_key ?f))" by (metis distinct_card length_map)
  also have "set (map consent_key ?f) = consent_keys P i \<inter> ?t" using p by auto
  finally have n: "count_where ?p (t_consents s) = card (consent_keys P i \<inter> ?t)" by (simp add: count_where_def)
  have two: "card (consent_keys P i) = 2" "finite (consent_keys P i)" by (simp_all add: consent_keys_def)
  show ?thesis
  proof
    assume "db_HasRequiredConsents i (pf_termsVersion P) (pf_privacyVersion P) s"
    then have "card (consent_keys P i \<inter> ?t) = card (consent_keys P i)" using n two by (simp add: db_HasRequiredConsents_def)
    then have "consent_keys P i \<inter> ?t = consent_keys P i" using two(2) by (intro card_subset_eq) auto
    then show "consent_keys P i \<subseteq> ?t" by blast
  next
    assume "consent_keys P i \<subseteq> ?t"
    then show "db_HasRequiredConsents i (pf_termsVersion P) (pf_privacyVersion P) s"
      using n two by (simp add: db_HasRequiredConsents_def Int_absorb2)
  qed
qed

lemma current_keys [simp]: "consent_key ` set (current_consents P i) = consent_keys P i"
  by (simp add: current_consents_def consent_keys_def consent_key_def)

text \<open>C26: Creating an event is allowed to exactly the logins whose address was verified, now or when they
were seen before, and who accepted the current terms and privacy policy, with this token or
before. The account handed on is the login's own, and its consents are on record.\<close>

theorem event_creation_gate:
  assumes inv: "accounts_inv s" and texts: "text_ok (pf_termsVersion P)" "text_ok (pf_privacyVersion P)"
    and row: "db_EnsureUser (pf_now P) (pf_fresh P) idn s = (Inr u, s1)" and r: "RequireEventCreation P idn s = (r, s')"
  shows "(case r of
      Inr v \<Rightarrow> hv_ID v = ur_ID u \<and> (idn_EmailVerified idn \<or> verified_before s (idn_BetterAuthUserID idn)) \<and>
        consent_keys P (ur_ID u) \<subseteq> consent_key ` set (t_consents s')
    | Inl e \<Rightarrow> e = Profile ErrEmailUnverified \<and> \<not> (idn_EmailVerified idn \<or> verified_before s (idn_BetterAuthUserID idn)) \<or>
        e = Profile ErrConsentRequired \<and> \<not> consent_keys P (ur_ID u) \<subseteq> consent_key ` set (t_consents s')) \<and>
    account s' (idn_BetterAuthUserID idn) = Some (ur_ID u) \<and>
    consent_key ` set (t_consents s') = consent_key ` set (t_consents s) \<union>
      (if idn_TermsVersion idn = pf_termsVersion P \<and> idn_PrivacyVersion idn = pf_privacyVersion P then consent_keys P (ur_ID u) else {})"
proof -
  let ?now = "idn_TermsVersion idn = pf_termsVersion P \<and> idn_PrivacyVersion idn = pf_privacyVersion P"
  note e = EnsureUser_ok [OF inv row]
  obtain r2 s2 where c: "db_SaveConsents (current_consents P (ur_ID u)) s1 = (r2, s2)" by (rule prod.exhaust)
  have "ur_ID u \<in> ur_ID ` set (t_users s1)" using find_login [OF e(1)] by blast
  then have "r2 = None" using c texts by (auto simp: db_SaveConsents_def current_consents_def split: if_splits)
  then have s2: "accounts_inv s2" "t_users s2 = t_users s1"
      "consent_key ` set (t_consents s2) = consent_key ` set (t_consents s) \<union> consent_keys P (ur_ID u)"
    using SaveConsents_ok [OF e(3) c] e(4) by auto
  define s3 where "s3 = (if ?now then s2 else s1)"
  have me: "Me P idn s = (Inr (view_of P u s3), s3)" using row c by (simp add: Me_def s3_def)
  have s3: "accounts_inv s3" "t_users s3 = t_users s1" "consent_key ` set (t_consents s3) = consent_key ` set (t_consents s) \<union>
      (if ?now then consent_keys P (ur_ID u) else {})"
    using s2 e(3,4) by (auto simp: s3_def)
  have "s' = s3" using r me by (auto simp: RequireEventCreation_def)
  moreover have "account s3 (idn_BetterAuthUserID idn) = Some (ur_ID u)" using e(1) by (simp add: account_def s3(2))
  moreover have "db_HasRequiredConsents (ur_ID u) (pf_termsVersion P) (pf_privacyVersion P) s3 \<longleftrightarrow>
      consent_keys P (ur_ID u) \<subseteq> consent_key ` set (t_consents s3)"
    by (rule required_both) (use s3(1) in \<open>simp add: accounts_inv_def\<close>)
  ultimately show ?thesis using r me e(6) s3(3)
    by (auto simp: RequireEventCreation_def view_of_def split: if_splits)
qed

text \<open>The mark that an address was verified survives a change of the address: a login whose old
address was verified passes with a new one that nobody verified.\<close>

theorem verified_mark_survives_new_address:
  assumes "accounts_inv s" "find (same_login (idn_BetterAuthUserID idn)) (t_users s) = Some w" "ur_EmailVerifiedAt w \<noteq> None"
    and "\<not> idn_EmailVerified idn" "Me P idn s = (Inr v, s')"
  shows "hv_Email v = idn_Email idn \<and> hv_EmailVerified v"
proof -
  obtain q s1 where e: "db_EnsureUser (pf_now P) (pf_fresh P) idn s = (q, s1)" by (rule prod.exhaust)
  then obtain u where u: "q = Inr u" using assms(5) by (cases q) (auto simp: Me_def)
  have "verified_before s (idn_BetterAuthUserID idn)" using assms(2,3) by (auto simp: verified_before_def)
  then show ?thesis using EnsureUser_ok(5,6) [OF assms(1) e [unfolded u]] assms(5) e u
    by (auto simp: Me_def Let_def view_of_def)
qed

section \<open>Two hosts\<close>

definition fx_profile :: "uuid \<Rightarrow> profile_service" where
  "fx_profile i = \<lparr>pf_termsVersion = ''t2'', pf_privacyVersion = ''p1'', pf_now = 9, pf_fresh = i\<rparr>"

definition fx_identity :: "string \<Rightarrow> string \<Rightarrow> bool \<Rightarrow> string \<Rightarrow> identity" where
  "fx_identity b email verified terms = \<lparr>idn_BetterAuthUserID = b, idn_Email = email, idn_Name = ''n'', idn_TermsVersion = terms,
     idn_PrivacyVersion = ''p1'', idn_EmailVerified = verified\<rparr>"

definition fx_ana :: identity where "fx_ana = fx_identity ''ana'' ''a@x'' True ''t1''"
definition fx_bob :: identity where "fx_bob = fx_identity ''bob'' ''b@x'' False ''t2''"

lemma fx_accounts_inv: "accounts_inv empty_db" by code_simp

definition fx_host :: "(error + uuid) \<times> db" where "fx_host = UserID (fx_profile 5) fx_ana empty_db"

theorem one_account_per_login_witness:
  "fst fx_host = Inr 5 \<and> fst (UserID (fx_profile 6) fx_bob (snd (Accept (fx_profile 8) fx_ana ''t2'' ''p1'' (snd fx_host)))) = Inr 6 \<and>
   fst (UserID (fx_profile 6) fx_ana (snd (Accept (fx_profile 8) fx_ana ''t2'' ''p1'' (snd fx_host)))) = Inr 5"
proof -
  let ?s2 = "snd (Accept (fx_profile 8) fx_ana ''t2'' ''p1'' (snd fx_host))"
  have u: "fst fx_host = Inr 5" "fst (UserID (fx_profile 6) fx_bob ?s2) = Inr 6" "\<not> isl (fst (UserID (fx_profile 6) fx_ana ?s2))"
    by code_simp+
  then obtain j where j: "fst (UserID (fx_profile 6) fx_ana ?s2) = Inr j" by (cases "fst (UserID (fx_profile 6) fx_ana ?s2)") auto
  have 1: "UserID (fx_profile 5) fx_ana empty_db = (Inr 5, snd fx_host)" using u(1) by (simp add: fx_host_def prod_eq_iff)
  have "account_step\<^sup>*\<^sup>* (snd fx_host) ?s2" by (intro r_into_rtranclp account_step.accept)
  from one_account_per_login [OF fx_accounts_inv 1 this, of "fx_profile 6" fx_ana j "snd (UserID (fx_profile 6) fx_ana ?s2)"]
  have "j = 5" using j by (simp add: prod_eq_iff)
  then show ?thesis using u j by simp
qed

theorem event_creation_gate_witness:
  "fst (RequireEventCreation (fx_profile 5) fx_ana empty_db) = Inl (Profile ErrConsentRequired) \<and>
   consent_keys (fx_profile 5) 6 \<subseteq> consent_key ` set (t_consents (snd (RequireEventCreation (fx_profile 6) fx_bob empty_db)))"
proof -
  have r: "fst (RequireEventCreation (fx_profile 5) fx_ana empty_db) = Inl (Profile ErrConsentRequired)" by code_simp
  have t: "text_ok (pf_termsVersion (fx_profile i))" "text_ok (pf_privacyVersion (fx_profile i))" for i by (simp_all add: fx_profile_def text_ok_def)
  have "case fst (db_EnsureUser (pf_now (fx_profile 6)) (pf_fresh (fx_profile 6)) fx_bob empty_db) of Inl _ \<Rightarrow> False | Inr u \<Rightarrow> ur_ID u = 6"
    by code_simp
  then obtain u s1 where u: "db_EnsureUser (pf_now (fx_profile 6)) (pf_fresh (fx_profile 6)) fx_bob empty_db = (Inr u, s1)" "ur_ID u = 6"
    by (cases "db_EnsureUser (pf_now (fx_profile 6)) (pf_fresh (fx_profile 6)) fx_bob empty_db") (auto split: sum.splits)
  obtain q s' where q: "RequireEventCreation (fx_profile 6) fx_bob empty_db = (q, s')" by (rule prod.exhaust)
  have "idn_TermsVersion fx_bob = pf_termsVersion (fx_profile 6) \<and> idn_PrivacyVersion fx_bob = pf_privacyVersion (fx_profile 6)"
    by (simp add: fx_bob_def fx_identity_def fx_profile_def)
  then have "consent_keys (fx_profile 6) 6 \<subseteq> consent_key ` set (t_consents s')"
    using event_creation_gate [OF fx_accounts_inv t u(1) q] u(2) by simp
  then have "consent_keys (fx_profile 6) 6 \<subseteq> consent_key ` set (t_consents (snd (RequireEventCreation (fx_profile 6) fx_bob empty_db)))"
    by (simp add: q)
  then show ?thesis using r by (simp add: consent_keys_def fx_profile_def)
qed

theorem verified_mark_survives_new_address_witness:
  "\<exists>v. fst (Me (fx_profile 8) (fx_identity ''ana'' ''new@x'' False ''t2'') (snd fx_host)) = Inr v \<and>
     hv_Email v = ''new@x'' \<and> hv_EmailVerified v"
proof -
  let ?i = "fx_identity ''ana'' ''new@x'' False ''t2''"
  have "case find (same_login (idn_BetterAuthUserID ?i)) (t_users (snd fx_host)) of None \<Rightarrow> False | Some w \<Rightarrow> ur_EmailVerifiedAt w = Some 9"
    by code_simp
  then obtain w where w: "find (same_login (idn_BetterAuthUserID ?i)) (t_users (snd fx_host)) = Some w" "ur_EmailVerifiedAt w \<noteq> None"
    by (auto split: option.splits)
  have "\<not> isl (fst (Me (fx_profile 8) ?i (snd fx_host)))" "accounts_inv (snd fx_host)" by code_simp+
  then obtain v where v: "Me (fx_profile 8) ?i (snd fx_host) = (Inr v, snd (Me (fx_profile 8) ?i (snd fx_host)))" "accounts_inv (snd fx_host)"
    by (cases "fst (Me (fx_profile 8) ?i (snd fx_host))") (auto simp: prod_eq_iff)
  have "\<not> idn_EmailVerified ?i" "idn_Email ?i = ''new@x''" by (simp_all add: fx_identity_def)
  then show ?thesis using verified_mark_survives_new_address [OF v(2) w _ v(1)] v(1) by (metis fst_conv)
qed

end
