(* ===== verification/Insights.thy ===== *)
theory Insights
  imports Schema
begin

text \<open>
  QR sources and the participation numbers of an event (internal/insights). The cache is
  optional and only repeats an earlier answer: \<open>ins_cached\<close> is what it holds, None a miss or a
  failure. \<open>collate\<close> is the order of text in the database, used only to order sources with
  equally many scans.
\<close>

section \<open>Codes\<close>

text \<open>
  \<open>strings.ToLower\<close> as far as the pattern of codes can tell: of the letters outside ASCII only
  the Kelvin sign and the dotted capital I have a lower case in ASCII.
\<close>

fun to_lower :: "string \<Rightarrow> string" where
  "to_lower [] = []"
| "to_lower (c # r) =
     (if has_prefix (c # r) [CHR 0xE2, CHR 0x84, CHR 0xAA] then CHR ''k'' # to_lower (drop 2 r)
      else if has_prefix (c # r) [CHR 0xC4, CHR 0xB0] then CHR ''i'' # to_lower (drop 1 r)
      else ascii_lower c # to_lower r)"

definition code_head :: "char \<Rightarrow> bool" where
  "code_head c \<longleftrightarrow> (let n = of_char c :: nat in (97 \<le> n \<and> n \<le> 122) \<or> (48 \<le> n \<and> n \<le> 57))"

definition code_char :: "char \<Rightarrow> bool" where
  "code_char c \<longleftrightarrow> code_head c \<or> c = CHR ''_'' \<or> c = CHR ''-''"

definition sourceCodePattern :: "string \<Rightarrow> bool" where
  "sourceCodePattern s \<longleftrightarrow> (case s of [] \<Rightarrow> False | c # r \<Rightarrow> code_head c \<and> length r \<le> 47 \<and> list_all code_char r)"

definition normalizeCode :: "string \<Rightarrow> error + string" where
  "normalizeCode code0 = (let code = to_lower (trim_space code0)
     in if sourceCodePattern code then Inr code else Inl (Fmt ''source code must be 1-48 lowercase letters, numbers, hyphens, or underscores''))"

section \<open>The repository (insights/repository.go)\<close>

definition source_key :: "qr_source \<Rightarrow> uuid \<times> string" where
  "source_key q = (qs_EventID q, qs_Code q)"

definition write_sources :: "qr_source list \<Rightarrow> db \<Rightarrow> error + db" where
  "write_sources t s =
     (if \<not> list_all (\<lambda>q. text_ok (qs_Code q) \<and> text_ok (qs_Name q)) t then Inl (DB ErrInvalidText)
      else if \<not> (distinct (map qs_ID t) \<and> distinct (map source_key t)) then Inl (DB ErrDuplicatedKey)
      else if \<not> list_all (\<lambda>q. qs_EventID q \<in> ev_ID ` set (t_events s)) t then Inl (DB ErrForeignKeyViolated)
      else Inr (s\<lparr>t_qr_sources := t\<rparr>))"

definition db_CreateSource :: "qr_source \<Rightarrow> db \<Rightarrow> (error + qr_source) \<times> db" where
  "db_CreateSource q s =
     (case write_sources (t_qr_sources s @ [q]) s of Inl e \<Rightarrow> (Inl e, s) | Inr s1 \<Rightarrow> (Inr q, s1))"

definition db_ListSources :: "uuid \<Rightarrow> db \<Rightarrow> error + qr_source list" where
  "db_ListSources eventID s = Inr (sort_key qs_CreatedAt (filter (\<lambda>q. qs_EventID q = eventID) (t_qr_sources s)))"

definition source_row :: "uuid \<Rightarrow> uuid \<Rightarrow> qr_source \<Rightarrow> bool" where
  "source_row eventID sourceID q \<longleftrightarrow> qs_ID q = sourceID \<and> qs_EventID q = eventID"

definition db_UpdateSource :: "uuid \<Rightarrow> uuid \<Rightarrow> string \<Rightarrow> db \<Rightarrow> (error + qr_source) \<times> db" where
  "db_UpdateSource eventID sourceID name s =
     (case write_sources (update_where (source_row eventID sourceID) (\<lambda>q. q\<lparr>qs_Name := name\<rparr>) (t_qr_sources s)) s of
        Inl e \<Rightarrow> (Inl e, s)
      | Inr s1 \<Rightarrow>
          (case filter (source_row eventID sourceID) (t_qr_sources s1) of
             [q] \<Rightarrow> (Inr q, s1) | _ \<Rightarrow> (Inl InsightsNotFound, s1)))"

definition db_DeleteSource :: "uuid \<Rightarrow> uuid \<Rightarrow> db \<Rightarrow> error option \<times> db" where
  "db_DeleteSource eventID sourceID s =
     ((if count_where (source_row eventID sourceID) (t_qr_sources s) \<noteq> 1 then Some InsightsNotFound else None),
      s\<lparr>t_qr_sources := delete_where (source_row eventID sourceID) (t_qr_sources s)\<rparr>)"

definition db_SourceExists :: "uuid \<Rightarrow> string \<Rightarrow> db \<Rightarrow> bool" where
  "db_SourceExists eventID code s \<longleftrightarrow>
     0 < count_where (\<lambda>q. qs_EventID q = eventID \<and> qs_Code q = code) (t_qr_sources s)"

section \<open>Participation\<close>

record source_metric =
  sm_Code :: string
  sm_Name :: string
  sm_Scans :: nat
  sm_Contributors :: nat
  sm_Uploads :: nat

record analytics =
  an_ExpectedGuestCount :: int
  an_Scans :: nat
  an_Contributors :: nat
  an_Media :: nat
  an_Photos :: nat
  an_Videos :: nat
  an_Sources :: "source_metric list"

definition counted_media :: "uuid \<Rightarrow> media \<Rightarrow> bool" where
  "counted_media eventID m \<longleftrightarrow> md_EventID m = eventID \<and>
     (md_Status m = MediaReady \<or> md_Status m = MediaFeatured \<or> md_Status m = MediaHidden)"

definition scanned :: "uuid \<Rightarrow> db \<Rightarrow> guest_session list" where
  "scanned eventID s = filter (\<lambda>g. gs_EventID g = eventID) (t_guest_sessions s)"

text \<open>LEFT JOIN qr_sources: the code and name of the source a session came through.\<close>

definition source_of :: "uuid \<Rightarrow> db \<Rightarrow> guest_session \<Rightarrow> (string \<times> string) option" where
  "source_of eventID s g =
     map_option (\<lambda>q. (qs_Code q, qs_Name q))
       (find (\<lambda>q. qs_EventID q = eventID \<and> Some (qs_Code q) = gs_QRSourceCode g) (t_qr_sources s))"

definition uploads_of :: "uuid \<Rightarrow> db \<Rightarrow> guest_session \<Rightarrow> nat" where
  "uploads_of eventID s g = count_where (\<lambda>m. counted_media eventID m \<and> md_GuestSessionID m = gs_ID g) (t_media s)"

definition metric_of :: "uuid \<Rightarrow> db \<Rightarrow> (string \<times> string) option \<Rightarrow> source_metric" where
  "metric_of eventID s k =
     (let sess = filter (\<lambda>g. source_of eventID s g = k) (scanned eventID s)
      in \<lparr>sm_Code = (case k of None \<Rightarrow> ''direct'' | Some (c, _) \<Rightarrow> c),
          sm_Name = (case k of None \<Rightarrow> ''Direct link'' | Some (_, n) \<Rightarrow> n),
          sm_Scans = length sess,
          sm_Contributors = length (filter (\<lambda>g. 0 < uploads_of eventID s g) sess),
          sm_Uploads = sum_list (map (uploads_of eventID s) sess)\<rparr>)"

definition db_Analytics :: "(string \<Rightarrow> nat) \<Rightarrow> uuid \<Rightarrow> int \<Rightarrow> db \<Rightarrow> error + analytics" where
  "db_Analytics collate eventID expected s =
     (let counted = filter (counted_media eventID) (t_media s)
      in Inr \<lparr>an_ExpectedGuestCount = expected,
          an_Scans = length (scanned eventID s),
          an_Contributors = card (set (map md_GuestSessionID counted)),
          an_Media = length counted,
          an_Photos = length (filter (\<lambda>m. has_prefix (md_MIMEType m) ''image/'') counted),
          an_Videos = length (filter (\<lambda>m. has_prefix (md_MIMEType m) ''video/'') counted),
          an_Sources = sort_key (\<lambda>m. (- int (sm_Scans m), collate (sm_Name m)))
            (map (metric_of eventID s) (remdups (map (source_of eventID s) (scanned eventID s))))\<rparr>)"

section \<open>The service (insights/insights.go)\<close>

record insights_service =
  ins_now :: time
  ins_fresh :: uuid
  ins_cached :: "uuid \<Rightarrow> analytics option"
  ins_collate :: "string \<Rightarrow> nat"

definition valid_source_name :: "string \<Rightarrow> bool" where
  "valid_source_name name \<longleftrightarrow> name \<noteq> '''' \<and> length name \<le> 80"

definition CreateSource :: "insights_service \<Rightarrow> uuid \<Rightarrow> string \<Rightarrow> string \<Rightarrow> db \<Rightarrow> (error + qr_source) \<times> db" where
  "CreateSource I eventID code0 name0 s =
     (case normalizeCode code0 of
        Inl e \<Rightarrow> (Inl e, s)
      | Inr code \<Rightarrow>
          (let name = trim_space name0
           in if \<not> valid_source_name name then (Inl (Fmt ''source name must be 1-80 characters''), s)
              else db_CreateSource \<lparr>qs_ID = ins_fresh I, qs_EventID = eventID, qs_Code = code, qs_Name = name,
                     qs_CreatedAt = ins_now I\<rparr> s))"

definition UpdateSource :: "uuid \<Rightarrow> uuid \<Rightarrow> string \<Rightarrow> db \<Rightarrow> (error + qr_source) \<times> db" where
  "UpdateSource eventID sourceID name0 s =
     (let name = trim_space name0
      in if \<not> valid_source_name name then (Inl (Fmt ''source name must be 1-80 characters''), s)
         else db_UpdateSource eventID sourceID name s)"

definition ValidateSource :: "uuid \<Rightarrow> string \<Rightarrow> db \<Rightarrow> error + string option" where
  "ValidateSource eventID code0 s =
     (if trim_space code0 = '''' then Inr None
      else
        (case normalizeCode code0 of
           Inl e \<Rightarrow> Inl e
         | Inr code \<Rightarrow> if db_SourceExists eventID code s then Inr (Some code) else Inl InsightsNotFound))"

definition Analytics :: "insights_service \<Rightarrow> uuid \<Rightarrow> int \<Rightarrow> db \<Rightarrow> error + analytics" where
  "Analytics I eventID expected s =
     (case ins_cached I eventID of
        Some a \<Rightarrow> Inr (a\<lparr>an_ExpectedGuestCount := expected\<rparr>)
      | None \<Rightarrow> db_Analytics (ins_collate I) eventID expected s)"

end
