(* ===== verification/InsightsProps.thy ===== *)
theory InsightsProps
  imports Insights MediaProps "HOL-Library.Multiset"
begin

text \<open>
  Participation numbers: the breakdown by source adds up to the totals, and the code of a source
  is found again however it is spelled.
\<close>

section \<open>Sums over groups\<close>

lemma group_sum:
  assumes "finite K" "key ` set xs \<subseteq> K"
  shows "(\<Sum>k \<in> K. sum_list (map g (filter (\<lambda>x. key x = k) xs))) = (sum_list (map g xs) :: nat)"
  using assms(2)
proof (induction xs)
  case (Cons x xs)
  have "(\<Sum>k \<in> K. sum_list (map g (filter (\<lambda>y. key y = k) (x # xs)))) =
      (\<Sum>k \<in> K. (if k = key x then g x else 0) + sum_list (map g (filter (\<lambda>y. key y = k) xs)))"
    by (rule sum.cong) auto
  also have "\<dots> = g x + sum_list (map g xs)"
    using Cons assms(1) by (simp add: sum.distrib)
  finally show ?case by simp
qed simp

lemma group_length:
  assumes "finite K" "key ` set xs \<subseteq> K"
  shows "(\<Sum>k \<in> K. length (filter (\<lambda>x. key x = k) xs)) = length xs"
  using group_sum [OF assms, of "\<lambda>_. 1"] by (simp add: sum_list_triv)

lemma sum_remdups: "sum_list (map f (remdups ks)) = (\<Sum>k \<in> set ks. (f k :: nat))"
  using sum.distinct_set_conv_list [of "remdups ks" f] by simp

lemma sum_sort: "sum_list (map f (sort_key k xs)) = (sum_list (map f xs) :: nat)"
proof -
  have "mset (map f (sort_key k xs)) = mset (map f xs)" by simp
  then show ?thesis by (metis sum_mset_sum_list)
qed

section \<open>The breakdown adds up\<close>

definition uploads_have_sessions :: "uuid \<Rightarrow> db \<Rightarrow> bool" where
  "uploads_have_sessions eventID s \<longleftrightarrow> (\<forall>m \<in> set (t_media s). md_EventID m = eventID \<longrightarrow>
     (\<exists>g \<in> set (t_guest_sessions s). gs_ID g = md_GuestSessionID m \<and> gs_EventID g = eventID))"

lemma metric_fields:
  "sm_Scans (metric_of i s k) = length (filter (\<lambda>g. source_of i s g = k) (scanned i s))"
  "sm_Contributors (metric_of i s k) =
     length (filter (\<lambda>g. source_of i s g = k) (filter (\<lambda>g. 0 < uploads_of i s g) (scanned i s)))"
  "sm_Uploads (metric_of i s k) = sum_list (map (uploads_of i s) (filter (\<lambda>g. source_of i s g = k) (scanned i s)))"
  by (simp_all add: metric_of_def Let_def conj_commute)

lemma breakdown_sum:
  "sum_list (map f (sort_key q (map (metric_of i s) (remdups (map (source_of i s) (scanned i s)))))) =
   (\<Sum>k \<in> source_of i s ` set (scanned i s). f (metric_of i s k) :: nat)"
  unfolding sum_sort by (simp add: sum_remdups flip: comp_def [of f "metric_of i s"])

lemma scanned_distinct: "distinct (map gs_ID (t_guest_sessions s)) \<Longrightarrow> distinct (map gs_ID (scanned i s))"
  by (simp add: scanned_def distinct_map_filter)

lemma uploads_total:
  assumes "distinct (map gs_ID (t_guest_sessions s))" "uploads_have_sessions i s"
  shows "sum_list (map (uploads_of i s) (scanned i s)) = length (filter (counted_media i) (t_media s))"
proof -
  let ?c = "filter (counted_media i) (t_media s)"
  let ?n = "\<lambda>k. length (filter (\<lambda>m. md_GuestSessionID m = k) ?c)"
  have "uploads_of i s g = ?n (gs_ID g)" for g
    by (simp add: uploads_of_def count_where_def conj_commute)
  then have "sum_list (map (uploads_of i s) (scanned i s)) = sum_list (map ?n (map gs_ID (scanned i s)))"
    by (simp add: comp_def cong: map_cong)
  also have "\<dots> = (\<Sum>k \<in> set (map gs_ID (scanned i s)). ?n k)"
    by (rule sum.distinct_set_conv_list [OF scanned_distinct [OF assms(1)], symmetric])
  also have "\<dots> = length ?c"
  proof (rule group_length)
    show "md_GuestSessionID ` set ?c \<subseteq> set (map gs_ID (scanned i s))"
    proof
      fix x assume "x \<in> md_GuestSessionID ` set ?c"
      then obtain g where "g \<in> set (t_guest_sessions s)" "gs_ID g = x" "gs_EventID g = i"
        using assms(2) by (auto simp: uploads_have_sessions_def counted_media_def)
      then show "x \<in> set (map gs_ID (scanned i s))" by (auto simp: scanned_def)
    qed
  qed simp
  finally show ?thesis .
qed

lemma contributors_total:
  assumes "distinct (map gs_ID (t_guest_sessions s))" "uploads_have_sessions i s"
  shows "length (filter (\<lambda>g. 0 < uploads_of i s g) (scanned i s)) =
    card (set (map md_GuestSessionID (filter (counted_media i) (t_media s))))"
proof -
  let ?g = "filter (\<lambda>g. 0 < uploads_of i s g) (scanned i s)"
  have "distinct (map gs_ID ?g)" using scanned_distinct [OF assms(1)] by (simp add: distinct_map_filter)
  then have "length ?g = card (gs_ID ` set ?g)" by (metis distinct_card length_map set_map)
  also have "gs_ID ` set ?g = set (map md_GuestSessionID (filter (counted_media i) (t_media s)))"
  proof (intro set_eqI iffI)
    fix x assume "x \<in> gs_ID ` set ?g"
    then show "x \<in> set (map md_GuestSessionID (filter (counted_media i) (t_media s)))"
      by (auto simp: uploads_of_def count_where_pos_iff image_iff)
  next
    fix x assume "x \<in> set (map md_GuestSessionID (filter (counted_media i) (t_media s)))"
    then obtain m where m: "m \<in> set (t_media s)" "counted_media i m" "x = md_GuestSessionID m" by auto
    then obtain g where "g \<in> set (t_guest_sessions s)" "gs_ID g = x" "gs_EventID g = i"
      using assms(2) by (auto simp: uploads_have_sessions_def counted_media_def)
    then show "x \<in> gs_ID ` set ?g" using m by (force simp: scanned_def uploads_of_def count_where_pos_iff)
  qed
  finally show ?thesis .
qed

lemma photo_or_video: "length (filter (\<lambda>m. has_prefix (md_MIMEType m) ''image/'') ms) +
    length (filter (\<lambda>m. has_prefix (md_MIMEType m) ''video/'') ms) \<le> length ms"
  by (induction ms) (auto simp: has_prefix_def)

text \<open>The analytics of an event add up: over its sources, counting the visits without one, the
scans, the contributors and the uploads sum to the totals beside them, every upload counted once,
although one guest may have shared many files.\<close>

theorem analytics_add_up:
  assumes "distinct (map gs_ID (t_guest_sessions s))" "uploads_have_sessions i s"
    and "db_Analytics collate i expected s = Inr a"
  shows "sum_list (map sm_Scans (an_Sources a)) = an_Scans a \<and>
    sum_list (map sm_Contributors (an_Sources a)) = an_Contributors a \<and>
    sum_list (map sm_Uploads (an_Sources a)) = an_Media a \<and>
    an_Contributors a \<le> an_Scans a \<and> an_Photos a + an_Videos a \<le> an_Media a"
proof -
  let ?k = "source_of i s" and ?K = "source_of i s ` set (scanned i s)"
  have a: "an_Scans a = length (scanned i s)" "an_Media a = length (filter (counted_media i) (t_media s))"
    "an_Contributors a = card (set (map md_GuestSessionID (filter (counted_media i) (t_media s))))"
    "an_Sources a = sort_key (\<lambda>m. (- int (sm_Scans m), collate (sm_Name m))) (map (metric_of i s) (remdups (map ?k (scanned i s))))"
    "an_Photos a + an_Videos a \<le> an_Media a"
    using assms(3) photo_or_video [of "filter (counted_media i) (t_media s)"] by (auto simp: db_Analytics_def Let_def)
  have "sum_list (map sm_Scans (an_Sources a)) = an_Scans a"
    unfolding a breakdown_sum metric_fields by (rule group_length) auto
  moreover have "sum_list (map sm_Contributors (an_Sources a)) = an_Contributors a"
    unfolding a breakdown_sum metric_fields contributors_total [OF assms(1,2), symmetric] by (rule group_length) auto
  moreover have "sum_list (map sm_Uploads (an_Sources a)) = an_Media a"
    unfolding a breakdown_sum metric_fields uploads_total [OF assms(1,2), symmetric] by (rule group_sum) auto
  moreover have "an_Contributors a \<le> an_Scans a"
    unfolding a contributors_total [OF assms(1,2), symmetric] by (rule length_filter_le)
  ultimately show ?thesis using a(5) by blast
qed

section \<open>Codes\<close>

lemma code_char_plain: "code_char c \<Longrightarrow> ascii_lower c = c \<and> c \<noteq> CHR 0xE2 \<and> c \<noteq> CHR 0xC4"
  by (auto simp: code_char_def code_head_def ascii_lower_def Let_def)

lemma lower_plain: "list_all code_char s \<Longrightarrow> to_lower s = s"
  by (induction s rule: to_lower.induct) (auto simp: has_prefix_def dest: code_char_plain)

lemma pattern_chars: "sourceCodePattern s \<Longrightarrow> s \<noteq> [] \<and> list_all code_char s"
  by (cases s) (auto simp: sourceCodePattern_def code_char_def)

lemma no_space_prefix:
  assumes "list_all code_char s" "list_all (\<lambda>p. p \<noteq> [] \<and> \<not> code_char (hd p)) ps"
  shows "trim_left ps s = s"
proof -
  have "find (\<lambda>p. has_prefix s p) ps = None"
    using assms by (cases s) (auto simp: find_None_iff list_all_iff has_prefix_def take_Cons' neq_Nil_conv)
  then show ?thesis by (cases s) (simp_all add: trim_left_def)
qed

lemma spaces_apart: "list_all (\<lambda>p. p \<noteq> [] \<and> \<not> code_char (hd p)) utf8_spaces"
  "list_all (\<lambda>p. p \<noteq> [] \<and> \<not> code_char (hd p)) (map rev utf8_spaces)"
  by code_simp+

lemma trim_plain: "list_all code_char s \<Longrightarrow> trim_space s = s"
  by (simp add: trim_space_def no_space_prefix spaces_apart)

lemma normalize_twice: "normalizeCode c = Inr code \<Longrightarrow> normalizeCode code = Inr code \<and> trim_space code \<noteq> ''''"
  using pattern_chars [of code] by (auto simp: normalizeCode_def Let_def trim_plain lower_plain split: if_splits)

text \<open>The code of a source that was created is found again for its event, spelled as the host
wrote it or as it is stored, by every guest that comes through it; and only the sources of the
event itself are found.\<close>

theorem source_code_roundtrip:
  assumes "CreateSource I i code name s = (Inr q, s')"
  shows "ValidateSource i code s' = Inr (Some (qs_Code q)) \<and> ValidateSource i (qs_Code q) s' = Inr (Some (qs_Code q)) \<and>
    sourceCodePattern (qs_Code q) \<and> qs_EventID q = i \<and> t_qr_sources s' = t_qr_sources s @ [q] \<and>
    (\<forall>j. j \<noteq> i \<longrightarrow> ValidateSource j code s' = ValidateSource j code s)"
proof -
  obtain c where c: "normalizeCode code = Inr c" "qs_Code q = c" "qs_EventID q = i" "t_qr_sources s' = t_qr_sources s @ [q]"
    using assms by (auto simp: CreateSource_def Let_def db_CreateSource_def write_sources_def split: sum.splits if_splits)
  have p: "sourceCodePattern c" using c(1) by (auto simp: normalizeCode_def Let_def split: if_splits)
  have "trim_space code \<noteq> ''''"
    using c(1) by (auto simp: normalizeCode_def Let_def sourceCodePattern_def split: if_splits)
  then show ?thesis using c p normalize_twice [OF c(1)]
    by (auto simp: ValidateSource_def db_SourceExists_def)
qed

section \<open>An event with two guests\<close>

definition fx_visit :: "uuid \<Rightarrow> string option \<Rightarrow> guest_session" where
  "fx_visit i src = \<lparr>gs_ID = i, gs_EventID = 7, gs_QRSourceCode = src, gs_TokenHash = replicate i CHR ''h'',
     gs_ExpiresAt = 90, gs_CreatedAt = 10\<rparr>"

definition fx_insights :: insights_service where
  "fx_insights = \<lparr>ins_now = 5, ins_fresh = 31, ins_cached = (\<lambda>_. None), ins_collate = length\<rparr>"

text \<open>The bar's code is typed with a capital; a guest who scanned it shares two files, another guest none.\<close>

definition fx_party :: db where
  "fx_party = (snd (CreateSource fx_insights 7 '' Bar-1 '' ''The bar'' fx_db))
     \<lparr>t_guest_sessions := [fx_visit 4 (Some ''bar-1''), fx_visit 5 None],
      t_media := [fx_row MediaReady (Some 400) (Some 20), (fx_row MediaHidden (Some 300) (Some 21))\<lparr>md_ID := 12\<rparr>]\<rparr>"

theorem analytics_add_up_witness:
  "\<exists>a. db_Analytics length 7 10 fx_party = Inr a \<and> sum_list (map sm_Uploads (an_Sources a)) = an_Media a \<and>
     an_Media a = 2 \<and> an_Scans a = 2 \<and> an_Contributors a = 1 \<and>
     map (\<lambda>m. (sm_Code m, sm_Scans m, sm_Uploads m)) (an_Sources a) = [(''bar-1'', 1, 2), (''direct'', 1, 0)]"
proof -
  obtain a where a: "db_Analytics length 7 10 fx_party = Inr a" by (simp add: db_Analytics_def Let_def)
  have "case db_Analytics length 7 10 fx_party of Inl _ \<Rightarrow> False | Inr a \<Rightarrow> an_Media a = 2 \<and> an_Scans a = 2 \<and>
     an_Contributors a = 1 \<and> map (\<lambda>m. (sm_Code m, sm_Scans m, sm_Uploads m)) (an_Sources a) = [(''bar-1'', 1, 2), (''direct'', 1, 0)]"
    by code_simp
  moreover have "distinct (map gs_ID (t_guest_sessions fx_party))" by code_simp
  moreover have "uploads_have_sessions 7 fx_party" unfolding uploads_have_sessions_def by code_simp
  ultimately show ?thesis using analytics_add_up [OF _ _ a] a by auto
qed

theorem source_code_roundtrip_witness:
  "\<exists>q s'. CreateSource fx_insights 7 '' Bar-1 '' ''The bar'' fx_db = (Inr q, s') \<and> qs_Code q = ''bar-1'' \<and>
     ValidateSource 7 '' Bar-1 '' s' = Inr (Some ''bar-1'') \<and> ValidateSource 8 ''bar-1'' s' = Inl InsightsNotFound"
proof -
  obtain r s' where r: "CreateSource fx_insights 7 '' Bar-1 '' ''The bar'' fx_db = (r, s')" by (rule prod.exhaust)
  have "case CreateSource fx_insights 7 '' Bar-1 '' ''The bar'' fx_db of (r, s') \<Rightarrow>
      (case r of Inl _ \<Rightarrow> False | Inr q \<Rightarrow> qs_Code q = ''bar-1'') \<and> ValidateSource 8 ''bar-1'' s' = Inl InsightsNotFound"
    by code_simp
  then obtain q where q: "CreateSource fx_insights 7 '' Bar-1 '' ''The bar'' fx_db = (Inr q, s')" "qs_Code q = ''bar-1''"
      "ValidateSource 8 ''bar-1'' s' = Inl InsightsNotFound"
    using r by (auto split: sum.splits)
  from source_code_roundtrip [OF q(1)] show ?thesis using q by auto
qed

end
