(* ===== verification/Http.thy ===== *)
theory Http
  imports Accounts Insights Event Guest LiveWall ExportJob Gallery
begin

text \<open>
  The handlers a host reaches (internal/httpapi, internal/event/handler.go,
  internal/profile/handler.go) and what they share: how an error is answered
  (internal/apierror), who owns an event (owned.go) and what its plan allows (planGate and
  planView of plans.go).

  A request comes parsed: a path id is None when it is no UUID, a body is None when it is no JSON
  of its shape, a query number is what Atoi returned; the binding tags of the bodies are checked
  here. An answer is its status with the error code or the value its JSON is made of. The notices
  the services hand to the notifier are left out; log lines and cache headers are too.
\<close>

datatype 'b reply = Problem int string | Body int 'b | NoContent | Redirect string | Streamed string

section \<open>Errors (internal/apierror)\<close>

text \<open>The errors that describe their own answer.\<close>

fun api_error :: "error \<Rightarrow> (int \<times> string) option" where
  "api_error (FeatureError f p) = Some (403, ''feature_not_in_plan'')"
| "api_error (Media (QuotaError r l u)) = Some (422, ''event_quota_exceeded'')"
| "api_error (Media ErrUploadClosed) = Some (422, ''event_upload_closed'')"
| "api_error _ = None"

definition Respond :: "error \<Rightarrow> 'b reply" where
  "Respond e = (case api_error e of Some (st, code) \<Rightarrow> Problem st code | None \<Rightarrow> Problem 500 ''internal_error'')"

section \<open>Plans (plans.go)\<close>

record plan_service =
  pl_registry :: plan_registry
  pl_catalog :: "db catalog_repo"
  pl_grants :: "db grant_repo"
  pl_enforce :: bool
  pl_now :: time

text \<open>None stands for the zero gate, which allows everything.\<close>

fun gate_require :: "plan_service option \<Rightarrow> uuid \<Rightarrow> feature list \<Rightarrow> db \<Rightarrow> error option" where
  "gate_require None i fs s = None"
| "gate_require (Some p) i [] s = None"
| "gate_require (Some p) i (f # fs) s =
     (case Require (pl_registry p) (pl_catalog p) (pl_grants p) (pl_enforce p) i f s of
        Some e \<Rightarrow> Some e | None \<Rightarrow> gate_require (Some p) i fs s)"

definition gate_view :: "plan_service option \<Rightarrow> uuid \<Rightarrow> db \<Rightarrow> (plan_service \<times> event_entitlement) option" where
  "gate_view g i s = (case g of
       None \<Rightarrow> None
     | Some p \<Rightarrow> (case Resolve (pl_grants p) i s of Inl e \<Rightarrow> None | Inr ent \<Rightarrow> Some (p, ent)))"

definition allows :: "(plan_service \<times> event_entitlement) option \<Rightarrow> feature \<Rightarrow> db \<Rightarrow> bool" where
  "allows v f s = (case v of
       None \<Rightarrow> True
     | Some (p, ent) \<Rightarrow>
         (case Check (pl_registry p) (pl_catalog p) (pl_enforce p) ent f s of
            Some (FeatureError _ _) \<Rightarrow> False | _ \<Rightarrow> True))"

definition includes_feature :: "(plan_service \<times> event_entitlement) option \<Rightarrow> feature \<Rightarrow> bool" where
  "includes_feature v f = (case v of
       None \<Rightarrow> True | Some (p, ent) \<Rightarrow> \<not> pl_enforce p \<or> Has (ee_Entitlements ent) f)"

text \<open>On the PostgreSQL repositories a gate fails only by refusing, and only when it is enforced.\<close>

lemma gorm_lowest: "\<exists>code. LowestPlanWith reg gorm_catalog f s = Inr code"
  by (simp add: LowestPlanWith_def ActiveVersions_def gorm_catalog_def db_ActiveVersions_def split: option.splits)

lemma gorm_Check:
  "Check reg gorm_catalog enforce ent f s =
     (if Has (ee_Entitlements ent) f \<or> \<not> enforce then None
      else Some (FeatureError f (projr (LowestPlanWith reg gorm_catalog f s))))"
  using gorm_lowest [of reg f s] by (auto simp: Check_def)

lemma gorm_Require:
  "Require reg gorm_catalog gorm_grants enforce i f s =
     Check reg gorm_catalog enforce (case Resolve gorm_grants i s of Inl e \<Rightarrow> no_entitlement i | Inr ent \<Rightarrow> ent) f s"
  by (simp add: Require_def Resolve_def gorm_grants_def db_ActiveGrant_def split: option.splits)

lemma gate_shadow:
  assumes "pl_catalog p = gorm_catalog" "pl_grants p = gorm_grants" "\<not> pl_enforce p"
  shows "gate_require (Some p) i fs s = None"
  using assms by (induction fs) (simp_all add: gorm_Require gorm_Check)

lemma gate_enforced:
  assumes "pl_catalog p = gorm_catalog" "pl_grants p = gorm_grants" "pl_enforce p"
    and "Resolve gorm_grants i s = Inr ent"
  shows "if list_all (Has (ee_Entitlements ent)) fs then gate_require (Some p) i fs s = None
    else \<exists>f code. gate_require (Some p) i fs s = Some (FeatureError f code)"
  using assms by (induction fs) (auto simp: gorm_Require gorm_Check)

section \<open>The handlers' environment\<close>

text \<open>One record for the services the handlers of main.go are built with; \<open>he_legacyEventBytes\<close> is
what UsePlans keeps, \<open>he_order\<close> the order in which a batch happens to be confirmed.\<close>

record 'z http_env =
  he_profiles :: profile_service
  he_events :: event_service
  he_media :: "(db \<times> 'z) media_service"
  he_walls :: wall_service
  he_exports :: "(db \<times> 'z) export_service"
  he_guests :: guest_service
  he_insights :: "insights_service option"
  he_plans :: "plan_service option"
  he_legacyEventBytes :: int
  he_archive :: "(string \<Rightarrow> db \<times> 'z \<Rightarrow> error + string) option"
  he_order :: "uuid list \<Rightarrow> uuid list"
  he_fresh :: uuid
  he_slug :: string

text \<open>What every request of a host carries: the identity the token middleware left, and the event.\<close>

record host_request =
  hr_identity :: "identity option"
  hr_id :: "uuid option"

section \<open>Ownership (owned.go)\<close>

definition resolveOwnedEvent :: "'z http_env \<Rightarrow> host_request \<Rightarrow> db \<Rightarrow> ('b reply + event) \<times> db" where
  "resolveOwnedEvent H r s =
     (case hr_id r of
        None \<Rightarrow> (Inl (Problem 400 ''invalid_id''), s)
      | Some i \<Rightarrow>
     (case hr_identity r of
        None \<Rightarrow> (Inl (Respond (Fmt ''authenticated identity missing'')), s)
      | Some idn \<Rightarrow>
     (case UserID (he_profiles H) idn s of
        (Inl e, s1) \<Rightarrow> (Inl (Respond e), s1)
      | (Inr host, s1) \<Rightarrow>
     (case db_GetOwned i host s1 of
        Inl e \<Rightarrow> (Inl (if e = Event ErrEvtNotFound then Problem 404 ''not_found'' else Respond e), s1)
      | Inr evt \<Rightarrow> (Inr evt, s1)))))"

definition owned_do ::
  "'z http_env \<Rightarrow> host_request \<Rightarrow> (event \<Rightarrow> db \<times> 'z \<Rightarrow> 'b reply \<times> (db \<times> 'z)) \<Rightarrow> db \<times> 'z \<Rightarrow> 'b reply \<times> (db \<times> 'z)" where
  "owned_do H r k w =
     (case resolveOwnedEvent H r (fst w) of
        (Inl p, s1) \<Rightarrow> (p, (s1, snd w)) | (Inr evt, s1) \<Rightarrow> k evt (s1, snd w))"

text \<open>The gate in front of a step, as \<open>if !h.gate.require(..)\<close> has it.\<close>

definition gated :: "'z http_env \<Rightarrow> event \<Rightarrow> feature list \<Rightarrow> (db \<times> 'z \<Rightarrow> 'b reply \<times> (db \<times> 'z)) \<Rightarrow> db \<times> 'z \<Rightarrow> 'b reply \<times> (db \<times> 'z)" where
  "gated H evt fs k w =
     (case gate_require (he_plans H) (ev_ID evt) fs (fst w) of Some e \<Rightarrow> (Respond e, w) | None \<Rightarrow> k w)"

section \<open>Media of a host (host_media.go)\<close>

definition content_url :: "'z http_env \<Rightarrow> string \<Rightarrow> uuid \<Rightarrow> string" where
  "content_url H base i = base @ ''/media/'' @ ms_uuid_string (he_media H) i @ ''/content''"

definition serveArchivedOriginal :: "'z http_env \<Rightarrow> uuid \<Rightarrow> uuid \<Rightarrow> db \<times> 'z \<Rightarrow> string option" where
  "serveArchivedOriginal H eventID mediaID w =
     (case he_archive H of
        None \<Rightarrow> None
      | Some read \<Rightarrow>
          (case ArchivedLocation (he_media H) eventID mediaID w of
             Inl e \<Rightarrow> None
           | Inr loc \<Rightarrow>
               if loc = '''' then None
               else (case read loc w of Inl e \<Rightarrow> None | Inr body \<Rightarrow> Some body)))"

definition serve_content :: "'z http_env \<Rightarrow> uuid \<Rightarrow> uuid \<Rightarrow> db \<times> 'z \<Rightarrow> 'b reply" where
  "serve_content H eventID mediaID w =
     (case ReadURL (he_media H) eventID mediaID w of
        Inr url \<Rightarrow> Redirect url
      | Inl e \<Rightarrow>
          (case serveArchivedOriginal H eventID mediaID w of
             Some body \<Rightarrow> Streamed body
           | None \<Rightarrow> if e = Media ErrMediaNotFound then Problem 404 ''not_found'' else Respond e))"

definition host_List ::
  "'z http_env \<Rightarrow> host_request \<Rightarrow> gallery_filter \<Rightarrow> gallery_sort \<Rightarrow> int \<Rightarrow> string \<Rightarrow> db \<times> 'z \<Rightarrow> gallery_page reply \<times> (db \<times> 'z)" where
  "host_List H r flt srt lim cursor = owned_do H r (\<lambda>evt w.
     (case ListGallery (he_media H) (content_url H (''/api/v1/events/'' @ ms_uuid_string (he_media H) (ev_ID evt)))
             (ev_ID evt) flt srt lim cursor w of
        Inl e \<Rightarrow> (Problem 400 ''invalid_query'', w)
      | Inr page \<Rightarrow>
          (case SignPage (he_media H) (gp_Data page) w of
             Inl e \<Rightarrow> (Respond e, w)
           | Inr page1 \<Rightarrow> (Body 200 (page\<lparr>gp_Data := page1\<rparr>), w))))"

fun keep_first :: "'a list \<Rightarrow> 'a list \<Rightarrow> 'a list" where
  "keep_first seen [] = []"
| "keep_first seen (x # xs) = (if x \<in> set seen then keep_first seen xs else x # keep_first (x # seen) xs)"

definition parseMediaIDs :: "uuid option list \<Rightarrow> error + uuid list" where
  "parseMediaIDs values =
     (if None \<in> set values then Inl (Fmt ''invalid UUID'')
      else (let ids = keep_first [] (map the values)
            in if ids = [] then Inl (Fmt ''at least one media id is required'') else Inr ids))"

definition media_answer :: "(error \<Rightarrow> 'b reply) \<Rightarrow> error \<Rightarrow> 'b reply" where
  "media_answer other e = (if e = Media ErrMediaNotFound then Problem 404 ''not_found'' else other e)"

text \<open>The body of a moderation request; an absent status is the empty one, which binding refuses.\<close>

definition host_UpdateStatus ::
  "'z http_env \<Rightarrow> host_request \<Rightarrow> uuid option \<Rightarrow> media_status option \<Rightarrow> db \<times> 'z \<Rightarrow> (uuid \<times> media_status) reply \<times> (db \<times> 'z)" where
  "host_UpdateStatus H r mediaID body = owned_do H r (\<lambda>evt w.
     (case mediaID of
        None \<Rightarrow> (Problem 400 ''invalid_id'', w)
      | Some i \<Rightarrow>
     (case body of
        None \<Rightarrow> (Problem 400 ''invalid_request'', w)
      | Some st \<Rightarrow>
          if st = MediaStatusOther '''' then (Problem 400 ''invalid_request'', w)
          else gated H evt (if st = MediaFeatured then [FeatureFeatureMedia] else []) (\<lambda>w.
            (case UpdateStatus (he_media H) (ev_ID evt) i st w of
               (Inl e, w1) \<Rightarrow> (media_answer (\<lambda>_. Problem 400 ''invalid_request'') e, w1)
             | (Inr (m, ch), w1) \<Rightarrow> (Body 200 (md_ID m, md_Status m), w1))) w)))"

record media_batch_request =
  br_IDs :: "uuid option list"
  br_Status :: media_status

text \<open>\<open>binding:"required,min=1,max=100"\<close>.\<close>

definition batch_request_ok :: "media_batch_request \<Rightarrow> bool" where
  "batch_request_ok b \<longleftrightarrow> br_IDs b \<noteq> [] \<and> length (br_IDs b) \<le> 100"

definition with_ids ::
  "media_batch_request option \<Rightarrow> (media_batch_request \<Rightarrow> uuid list \<Rightarrow> db \<times> 'z \<Rightarrow> 'b reply \<times> (db \<times> 'z)) \<Rightarrow> db \<times> 'z \<Rightarrow> 'b reply \<times> (db \<times> 'z)" where
  "with_ids body k w =
     (case body of
        None \<Rightarrow> (Problem 400 ''invalid_request'', w)
      | Some b \<Rightarrow>
          if \<not> batch_request_ok b then (Problem 400 ''invalid_request'', w)
          else (case parseMediaIDs (br_IDs b) of
                  Inl e \<Rightarrow> (Problem 400 ''invalid_id'', w) | Inr ids \<Rightarrow> k b ids w))"

definition host_BatchUpdateStatus ::
  "'z http_env \<Rightarrow> host_request \<Rightarrow> media_batch_request option \<Rightarrow> db \<times> 'z \<Rightarrow> uuid list reply \<times> (db \<times> 'z)" where
  "host_BatchUpdateStatus H r body = owned_do H r (\<lambda>evt. with_ids body (\<lambda>b ids.
     gated H evt (FeatureBulkModeration # (if br_Status b = MediaFeatured then [FeatureFeatureMedia] else [])) (\<lambda>w.
       (case UpdateStatuses (he_media H) (ev_ID evt) ids (br_Status b) w of
          ((Some e, ch), w1) \<Rightarrow> (media_answer (\<lambda>_. Problem 400 ''invalid_request'') e, w1)
        | ((None, ch), w1) \<Rightarrow> (Body 200 ids, w1)))))"

definition host_Delete :: "'z http_env \<Rightarrow> host_request \<Rightarrow> uuid option \<Rightarrow> db \<times> 'z \<Rightarrow> unit reply \<times> (db \<times> 'z)" where
  "host_Delete H r mediaID = owned_do H r (\<lambda>evt w.
     (case mediaID of
        None \<Rightarrow> (Problem 400 ''invalid_id'', w)
      | Some i \<Rightarrow>
          (case DeleteForEvent (he_media H) (ev_ID evt) i w of
             ((Some e, ch), w1) \<Rightarrow> (media_answer Respond e, w1)
           | ((None, ch), w1) \<Rightarrow> (NoContent, w1))))"

definition host_BatchDelete ::
  "'z http_env \<Rightarrow> host_request \<Rightarrow> media_batch_request option \<Rightarrow> db \<times> 'z \<Rightarrow> uuid list reply \<times> (db \<times> 'z)" where
  "host_BatchDelete H r body = owned_do H r (\<lambda>evt. with_ids body (\<lambda>b ids w.
     (case DeleteManyForEvent (he_media H) (ev_ID evt) ids w of
        ((Some e, ch), w1) \<Rightarrow> (media_answer Respond e, w1)
      | ((None, ch), w1) \<Rightarrow> (Body 200 ids, w1))))"

definition host_Content :: "'z http_env \<Rightarrow> host_request \<Rightarrow> uuid option \<Rightarrow> db \<times> 'z \<Rightarrow> unit reply \<times> (db \<times> 'z)" where
  "host_Content H r mediaID = owned_do H r (\<lambda>evt w.
     (case mediaID of
        None \<Rightarrow> (Problem 400 ''invalid_id'', w)
      | Some i \<Rightarrow> (serve_content H (ev_ID evt) i w, w)))"

end
