(* ===== verification/EventHttp.thy ===== *)
theory EventHttp
  imports Http
begin

text \<open>
  The handlers of a host's account and events: internal/profile/handler.go,
  internal/event/handler.go (but List, which is in EventList), the plan views of plans.go, the logo in a QR code of
  qr_logo.go and the rate limit in front of event creation (router.go).
\<close>

text \<open>What binding counts in a string: its runes. A decoded body is valid UTF-8.\<close>

definition rune_count :: "string \<Rightarrow> nat" where
  "rune_count s = length (filter (\<lambda>c. \<not> utf8_tail (of_char c)) s)"

definition required_max :: "nat \<Rightarrow> string \<Rightarrow> bool" where
  "required_max n s \<longleftrightarrow> s \<noteq> '''' \<and> rune_count s \<le> n"

definition with_identity :: "identity option \<Rightarrow> (identity \<Rightarrow> db \<Rightarrow> 'b reply \<times> db) \<Rightarrow> db \<Rightarrow> 'b reply \<times> db" where
  "with_identity idn k s = (case idn of
       None \<Rightarrow> (Respond (Fmt ''authenticated identity missing''), s) | Some i \<Rightarrow> k i s)"

definition with_host :: "profile_service \<Rightarrow> identity option \<Rightarrow> (uuid \<Rightarrow> db \<Rightarrow> 'b reply \<times> db) \<Rightarrow> db \<Rightarrow> 'b reply \<times> db" where
  "with_host P idn k = with_identity idn (\<lambda>i s.
     (case UserID P i s of (Inl e, s1) \<Rightarrow> (Respond e, s1) | (Inr host, s1) \<Rightarrow> k host s1))"

section \<open>Accounts (profile/handler.go)\<close>

definition profile_Me :: "profile_service \<Rightarrow> identity option \<Rightarrow> db \<Rightarrow> profile_view reply \<times> db" where
  "profile_Me P idn = with_identity idn (\<lambda>i s.
     (case Me P i s of (Inl e, s1) \<Rightarrow> (Respond e, s1) | (Inr v, s1) \<Rightarrow> (Body 200 v, s1)))"

definition profile_Accept ::
  "profile_service \<Rightarrow> identity option \<Rightarrow> (string \<times> string) option \<Rightarrow> db \<Rightarrow> profile_view reply \<times> db" where
  "profile_Accept P idn body s =
     (case body of
        None \<Rightarrow> (Problem 400 ''invalid_request'', s)
      | Some (terms, privacy) \<Rightarrow>
          if \<not> (required_max 40 terms \<and> required_max 40 privacy) then (Problem 400 ''invalid_request'', s)
          else with_identity idn (\<lambda>i s.
            (case Accept P i terms privacy s of
               (Inl e, s1) \<Rightarrow>
                 (if e = Profile ErrInvalidConsent then Problem 422 ''invalid_consent_version'' else Respond e, s1)
             | (Inr v, s1) \<Rightarrow> (Body 200 v, s1))) s)"

section \<open>Events (event/handler.go)\<close>

text \<open>The id of a creation request is absent, no version 4 UUID, or one.\<close>

record create_request =
  cq_Name :: string
  cq_EventType :: string
  cq_EventDate :: "time option"
  cq_ExpectedGuestCount :: int
  cq_ClientRequestID :: "uuid option option"

definition create_request_ok :: "create_request \<Rightarrow> bool" where
  "create_request_ok q \<longleftrightarrow> required_max 200 (cq_Name q) \<and> rune_count (cq_EventType q) \<le> 80 \<and>
     0 \<le> cq_ExpectedGuestCount q \<and> cq_ClientRequestID q \<noteq> Some None"

definition create_input_of :: "create_request \<Rightarrow> create_input" where
  "create_input_of q = \<lparr>in_Name = cq_Name q, in_EventType = cq_EventType q, in_EventDate = cq_EventDate q,
     in_ExpectedGuestCount = cq_ExpectedGuestCount q,
     in_ClientRequestID = (case cq_ClientRequestID q of Some r \<Rightarrow> r | None \<Rightarrow> None)\<rparr>"

definition create_refused :: "error \<Rightarrow> 'b reply" where
  "create_refused e =
     (if e = Event ErrTrialWindowLimitReached then Problem 429 ''trial_window_limit_reached''
      else if e = Event ErrActiveEventLimitReached then Problem 409 ''active_event_limit_reached''
      else Respond e)"

definition gate_refused :: "error \<Rightarrow> 'b reply" where
  "gate_refused e =
     (if e = Profile ErrEmailUnverified then Problem 403 ''email_unverified''
      else if e = Profile ErrConsentRequired then Problem 403 ''consent_required''
      else Respond e)"

definition event_Create :: "'z http_env \<Rightarrow> identity option \<Rightarrow> create_request option \<Rightarrow> db \<Rightarrow> event reply \<times> db" where
  "event_Create H idn body s =
     (case body of
        None \<Rightarrow> (Problem 400 ''invalid_request'', s)
      | Some q \<Rightarrow>
          if \<not> create_request_ok q then (Problem 400 ''invalid_request'', s)
          else with_identity idn (\<lambda>i s.
            (case RequireEventCreation (he_profiles H) i s of
               (Inl e, s1) \<Rightarrow> (gate_refused e, s1)
             | (Inr v, s1) \<Rightarrow>
                 (case CreateEvent (he_events H) (he_fresh H) (he_slug H) (hv_ID v) (create_input_of q) s1 of
                    (Inl e, s2) \<Rightarrow> (create_refused e, s2)
                  | (Inr evt, s2) \<Rightarrow> (Body 201 evt, s2)))) s)"

definition event_failed :: "error \<Rightarrow> 'b reply" where
  "event_failed e = (if e = Event ErrEvtNotFound then Problem 404 ''not_found'' else Respond e)"

definition with_event_id :: "uuid option \<Rightarrow> (uuid \<Rightarrow> db \<Rightarrow> 'b reply \<times> db) \<Rightarrow> db \<Rightarrow> 'b reply \<times> db" where
  "with_event_id i k s = (case i of None \<Rightarrow> (Problem 400 ''invalid_id'', s) | Some x \<Rightarrow> k x s)"

definition event_Get :: "'z http_env \<Rightarrow> host_request \<Rightarrow> db \<Rightarrow> event reply \<times> db" where
  "event_Get H r = with_event_id (hr_id r) (\<lambda>i. with_host (he_profiles H) (hr_identity r) (\<lambda>host s.
     ((case db_GetOwned i host s of Inl e \<Rightarrow> event_failed e | Inr evt \<Rightarrow> Body 200 evt), s)))"

text \<open>A pointer that is set is checked, also when it points to an empty string.\<close>

definition update_request_ok :: "update_input \<Rightarrow> bool" where
  "update_request_ok q \<longleftrightarrow>
     (case up_Name q of None \<Rightarrow> True | Some n \<Rightarrow> rune_count n \<le> 200) \<and>
     (case up_EventType q of None \<Rightarrow> True | Some t \<Rightarrow> rune_count t \<le> 80) \<and>
     (case up_ExpectedGuestCount q of None \<Rightarrow> True | Some n \<Rightarrow> 0 \<le> n) \<and>
     (case up_LifecyclePhase q of None \<Rightarrow> True | Some l \<Rightarrow> rune_count l \<le> 32)"

definition update_failed :: "error \<Rightarrow> 'b reply" where
  "update_failed e =
     (if e = Event ErrEvtNotFound then Problem 404 ''not_found''
      else if api_error e \<noteq> None then Respond e
      else Problem 400 ''update_failed'')"

definition event_Update :: "'z http_env \<Rightarrow> host_request \<Rightarrow> update_input option \<Rightarrow> db \<Rightarrow> event reply \<times> db" where
  "event_Update H r body = with_event_id (hr_id r) (\<lambda>i s.
     (case body of
        None \<Rightarrow> (Problem 400 ''invalid_request'', s)
      | Some q \<Rightarrow>
          if \<not> update_request_ok q then (Problem 400 ''invalid_request'', s)
          else with_host (he_profiles H) (hr_identity r) (\<lambda>host s.
            (case UpdateEvent (he_events H) i host q s of
               (Inl e, ch, s1) \<Rightarrow> (update_failed e, s1)
             | (Inr evt, ch, s1) \<Rightarrow> (Body 200 evt, s1))) s))"

definition event_Delete :: "'z http_env \<Rightarrow> host_request \<Rightarrow> db \<Rightarrow> unit reply \<times> db" where
  "event_Delete H r = with_event_id (hr_id r) (\<lambda>i. with_host (he_profiles H) (hr_identity r) (\<lambda>host s.
     (case DeleteEvent i host s of
        (Some e, s1) \<Rightarrow> (event_failed e, s1) | (None, s1) \<Rightarrow> (NoContent, s1))))"

definition event_Close :: "'z http_env \<Rightarrow> host_request \<Rightarrow> db \<Rightarrow> string reply \<times> db" where
  "event_Close H r = with_event_id (hr_id r) (\<lambda>i. with_host (he_profiles H) (hr_identity r) (\<lambda>host s.
     (case CloseEvent (he_events H) i host s of
        (Some e, ch, s1) \<Rightarrow> (event_failed e, s1) | (None, ch, s1) \<Rightarrow> (Body 200 ''closed'', s1))))"

section \<open>Rate limit (router.go)\<close>

text \<open>\<open>verdict\<close> is what the limiter answers for the client's address or login.\<close>

definition rateLimitMiddleware ::
  "(string \<Rightarrow> error + bool) option \<Rightarrow> string \<Rightarrow> string \<Rightarrow> int \<Rightarrow> ('s \<Rightarrow> 'b reply \<times> 's) \<Rightarrow> 's \<Rightarrow> 'b reply \<times> 's" where
  "rateLimitMiddleware limiter keyPrefix who lim k s =
     (case limiter of
        None \<Rightarrow> k s
      | Some verdict \<Rightarrow>
          if lim \<le> 0 then k s
          else (case verdict (keyPrefix @ '':'' @ who) of
                  Inl e \<Rightarrow> k s
                | Inr ok \<Rightarrow> if \<not> ok then (Problem 429 ''rate_limit_exceeded'', s) else k s))"

definition event_create_route ::
  "(string \<Rightarrow> error + bool) option \<Rightarrow> int \<Rightarrow> int \<Rightarrow> string \<Rightarrow> 'z http_env \<Rightarrow> identity option \<Rightarrow>
     create_request option \<Rightarrow> db \<Rightarrow> event reply \<times> db" where
  "event_create_route limiter ipLimit hostLimit clientIP H idn body =
     rateLimitMiddleware limiter ''rate:ip:event_create'' clientIP (if ipLimit \<le> 0 then 10 else ipLimit)
       (rateLimitMiddleware limiter ''rate:host:event_create''
          (case idn of
             None \<Rightarrow> clientIP
           | Some i \<Rightarrow> if idn_BetterAuthUserID i \<noteq> '''' then idn_BetterAuthUserID i else clientIP)
          (if hostLimit \<le> 0 then 2 else hostLimit)
          (event_Create H idn body))"

section \<open>Plan views (plans.go)\<close>

record limits_view =
  lv_MediaItems :: int
  lv_PhotoItems :: int
  lv_VideoItems :: int
  lv_MediaBytes :: int
  lv_LiveWallItems :: int
  lv_RetentionDays :: int

definition toLimitsView :: "limits \<Rightarrow> limits_view" where
  "toLimitsView l = \<lparr>lv_MediaItems = MaxMediaItems l, lv_PhotoItems = MaxPhotoItems l,
     lv_VideoItems = MaxVideoItems l, lv_MediaBytes = MaxMediaBytes l,
     lv_LiveWallItems = MaxLiveWallItems l, lv_RetentionDays = RetentionDays l\<rparr>"

record event_plan_view =
  ep_EventID :: uuid
  ep_Code :: plan_code
  ep_Name :: string
  ep_Version :: int
  ep_GrantID :: uuid
  ep_Status :: grant_status
  ep_Source :: grant_source
  ep_ActivatedAt :: time
  ep_UploadExpiresAt :: time
  ep_RetentionExpiresAt :: time
  ep_UploadClosed :: bool
  ep_RetentionExpired :: bool
  ep_Features :: "feature list"
  ep_FairUse :: bool
  ep_Limits :: limits_view
  ep_UpgradeOptions :: "plan_code list"

definition plan_resolve ::
  "plan_service \<Rightarrow> 'z http_env \<Rightarrow> host_request \<Rightarrow> (event \<Rightarrow> event_entitlement \<Rightarrow> db \<Rightarrow> 'b reply) \<Rightarrow>
     db \<times> 'z \<Rightarrow> 'b reply \<times> (db \<times> 'z)" where
  "plan_resolve P H r k = owned_do H r (\<lambda>evt w.
     ((case Resolve (pl_grants P) (ev_ID evt) (fst w) of
         Inl e \<Rightarrow> if e = Entitlement ErrNoActiveGrant then Problem 404 ''plan_not_found'' else Respond e
       | Inr ent \<Rightarrow> k evt ent (fst w)), w))"

definition plan_EventPlan ::
  "plan_service \<Rightarrow> 'z http_env \<Rightarrow> host_request \<Rightarrow> db \<times> 'z \<Rightarrow> event_plan_view reply \<times> (db \<times> 'z)" where
  "plan_EventPlan P H r = plan_resolve P H r (\<lambda>evt ent s. Body 200
     \<lparr>ep_EventID = ev_ID evt, ep_Code = ee_PlanCode ent, ep_Name = ee_PlanName ent, ep_Version = ee_PlanVersion ent,
      ep_GrantID = ee_GrantID ent, ep_Status = GrantActive, ep_Source = ee_Source ent,
      ep_ActivatedAt = ee_ActivatedAt ent, ep_UploadExpiresAt = ee_UploadExpiresAt ent,
      ep_RetentionExpiresAt = ee_RetentionExpiresAt ent, ep_UploadClosed = UploadClosed ent (pl_now P),
      ep_RetentionExpired = RetentionExpired ent (pl_now P), ep_Features = Features (ee_Entitlements ent),
      ep_FairUse = FairUse (ee_Entitlements ent), ep_Limits = toLimitsView (Limits (ee_Entitlements ent)),
      ep_UpgradeOptions = UpgradeOptions (pl_registry P) ent\<rparr>)"

text \<open>The usage of one event; the zero value when the repository knows none.\<close>

definition EventUsageOf :: "plan_service \<Rightarrow> uuid \<Rightarrow> db \<Rightarrow> error + usage" where
  "EventUsageOf P i s = map_sum id (\<lambda>m. case m i of Some u \<Rightarrow> u
      | None \<Rightarrow> \<lparr>us_MediaItems = 0, us_PhotoItems = 0, us_VideoItems = 0, us_MediaBytes = 0\<rparr>)
    (er_Usage (pl_grants P) [i] s)"

definition plan_EventUsage ::
  "plan_service \<Rightarrow> 'z http_env \<Rightarrow> host_request \<Rightarrow> db \<times> 'z \<Rightarrow>
     (usage \<times> int \<times> int \<times> int \<times> int) reply \<times> (db \<times> 'z)" where
  "plan_EventUsage P H r = plan_resolve P H r (\<lambda>evt ent s.
     (case EventUsageOf P (ev_ID evt) s of
        Inl e \<Rightarrow> Respond e
      | Inr u \<Rightarrow>
          (let l = Limits (ee_Entitlements ent)
           in Body 200 (u, MaxMediaItems l, MaxPhotoItems l, MaxVideoItems l, MaxMediaBytes l))))"

section \<open>The logo in a QR code (qr_logo.go)\<close>

definition maxQRLogoBytes :: int where "maxQRLogoBytes = 1048576"

definition qr_formats :: "(string \<times> string) list" where
  "qr_formats = [(''png'', ''image/png''), (''jpg'', ''image/jpeg''), (''webp'', ''image/webp''), (''svg'', ''image/svg+xml'')]"

definition qrLogoMIME :: "string \<Rightarrow> string option" where
  "qrLogoMIME format = map_of qr_formats format"

definition qrLogoFormat :: "string \<Rightarrow> string option" where
  "qrLogoFormat mime = map_of (map prod.swap qr_formats) mime"

definition qrLogoExtension :: "string \<Rightarrow> string option" where
  "qrLogoExtension mime = map_of [(''image/png'', ''.png''), (''image/jpeg'', ''.jpg''),
     (''image/webp'', ''.webp''), (''image/svg+xml'', ''.svg'')] mime"

definition qrLogoURL :: "'z http_env \<Rightarrow> string \<Rightarrow> uuid \<Rightarrow> string \<Rightarrow> string" where
  "qrLogoURL H slug i mime = ''/api/v1/public/events/'' @ slug @ ''/qr-logo/'' @ ms_uuid_string (he_media H) i @
     ''?format='' @ coalesce (qrLogoFormat mime) ''''"

definition qrLogoKey :: "'z http_env \<Rightarrow> uuid \<Rightarrow> uuid \<Rightarrow> string \<Rightarrow> string option" where
  "qrLogoKey H eventID i mime = map_option (\<lambda>ext. ''events/'' @ ms_uuid_string (he_media H) eventID @
     ''/assets/qr-logo/'' @ ms_uuid_string (he_media H) i @ ext) (qrLogoExtension mime)"

definition customizing :: "'z http_env \<Rightarrow> host_request \<Rightarrow> (event \<Rightarrow> db \<times> 'z \<Rightarrow> 'b reply \<times> (db \<times> 'z)) \<Rightarrow>
    db \<times> 'z \<Rightarrow> 'b reply \<times> (db \<times> 'z)" where
  "customizing H r k = owned_do H r (\<lambda>evt. gated H evt [FeatureFullCustomization] (k evt))"

text \<open>The type and the size of a logo, as binding and the size check let them through.\<close>

definition logo_request_ok :: "string \<times> int \<Rightarrow> bool" where
  "logo_request_ok q \<longleftrightarrow> fst q \<noteq> '''' \<and> 0 < snd q \<and> snd q \<le> maxQRLogoBytes"

definition qr_CreateUploadTarget ::
  "'z http_env \<Rightarrow> host_request \<Rightarrow> (string \<times> int) option \<Rightarrow> db \<times> 'z \<Rightarrow> (uuid \<times> string) reply \<times> (db \<times> 'z)" where
  "qr_CreateUploadTarget H r body = customizing H r (\<lambda>evt w.
     ((case body of
         None \<Rightarrow> Problem 400 ''invalid_logo''
       | Some q \<Rightarrow>
           if \<not> logo_request_ok q then Problem 400 ''invalid_logo''
           else (case qrLogoKey H (ev_ID evt) (he_fresh H) (fst q) of
                   None \<Rightarrow> Problem 400 ''invalid_logo''
                 | Some key \<Rightarrow>
                     (case ms_PresignPut (he_media H) key (fst q) w of
                        Inl e \<Rightarrow> Respond e | Inr url \<Rightarrow> Body 200 (he_fresh H, url)))), w))"

text \<open>The uploaded file, None when the form has none or is over the limit of the request.\<close>

definition qr_Upload ::
  "'z http_env \<Rightarrow> host_request \<Rightarrow> (string \<times> string) option \<Rightarrow> db \<times> 'z \<Rightarrow> string reply \<times> (db \<times> 'z)" where
  "qr_Upload H r file = customizing H r (\<lambda>evt w.
     (case file of
        None \<Rightarrow> (Problem 400 ''invalid_logo'', w)
      | Some (mime, content) \<Rightarrow>
          if content = '''' \<or> maxQRLogoBytes < int (length content) then (Problem 400 ''invalid_logo'', w)
          else (case qrLogoKey H (ev_ID evt) (he_fresh H) mime of
                  None \<Rightarrow> (Problem 400 ''invalid_logo'', w)
                | Some key \<Rightarrow>
                    (case ms_Put (he_media H) key mime content w of
                       (Some e, w1) \<Rightarrow> (Respond e, w1)
                     | (None, w1) \<Rightarrow> (Body 200 (qrLogoURL H (ev_Slug evt) (he_fresh H) mime), w1)))))"

definition qr_Complete ::
  "'z http_env \<Rightarrow> host_request \<Rightarrow> uuid option \<Rightarrow> (string \<times> int) option \<Rightarrow> db \<times> 'z \<Rightarrow> string reply \<times> (db \<times> 'z)" where
  "qr_Complete H r assetID body = customizing H r (\<lambda>evt w.
     ((case assetID of
         None \<Rightarrow> Problem 400 ''invalid_id''
       | Some i \<Rightarrow>
      (case body of
         None \<Rightarrow> Problem 400 ''invalid_logo''
       | Some q \<Rightarrow>
           if \<not> logo_request_ok q then Problem 400 ''invalid_logo''
           else (case qrLogoKey H (ev_ID evt) i (fst q) of
                   None \<Rightarrow> Problem 400 ''invalid_logo''
                 | Some key \<Rightarrow>
                     (case ms_Head (he_media H) key w of
                        Inl e \<Rightarrow> Problem 400 ''invalid_logo''
                      | Inr info \<Rightarrow>
                          if oi_Size info \<noteq> snd q \<or> oi_ContentType info \<noteq> fst q then Problem 400 ''invalid_logo''
                          else Body 200 (qrLogoURL H (ev_Slug evt) i (fst q)))))), w))"

text \<open>Without a format the formats are tried in turn; the status alone answers a missing logo.\<close>

fun probe_logo :: "'z http_env \<Rightarrow> uuid \<Rightarrow> uuid \<Rightarrow> string list \<Rightarrow> db \<times> 'z \<Rightarrow> 'b reply" where
  "probe_logo H eventID i [] w = Problem 404 ''''"
| "probe_logo H eventID i (format # fs) w =
     (let mime = coalesce (qrLogoMIME format) ''''; key = coalesce (qrLogoKey H eventID i mime) ''''
      in case ms_OpenRead (he_media H) key w of
           Inl e \<Rightarrow> probe_logo H eventID i fs w | Inr body \<Rightarrow> Streamed body)"

definition qr_Content :: "'z http_env \<Rightarrow> string \<Rightarrow> uuid option \<Rightarrow> string \<Rightarrow> db \<times> 'z \<Rightarrow> unit reply" where
  "qr_Content H slug assetID format w =
     (case db_GetPublic slug (fst w) of
        Inl e \<Rightarrow> event_failed e
      | Inr evt \<Rightarrow>
     (case assetID of
        None \<Rightarrow> Problem 404 ''''
      | Some i \<Rightarrow>
          if format = '''' then probe_logo H (ev_ID evt) i [''png'', ''jpg'', ''webp'', ''svg''] w
          else if qrLogoMIME format = None then Problem 404 ''''
          else probe_logo H (ev_ID evt) i [format] w))"

end
