(* ===== verification/HostHttp.thy ===== *)
theory HostHttp
  imports Http
begin

text \<open>
  The other handlers of a host: exports.go, live_wall.go, insights.go, plans.go, qr_logo.go of
  internal/httpapi and internal/event/handler.go.
\<close>

section \<open>Exports (exports.go)\<close>

definition zip_char :: "char \<Rightarrow> bool" where
  "zip_char c \<longleftrightarrow> (let n = of_char c :: nat in (97 \<le> n \<and> n \<le> 122) \<or> (65 \<le> n \<and> n \<le> 90) \<or> (48 \<le> n \<and> n \<le> 57)) \<or>
     c = CHR ''-'' \<or> c = CHR ''_''"

text \<open>The loop replaces each rune outside the set by one dash: a byte that continues one adds none.
Repeated dashes are then squeezed, so a malformed sequence makes no difference.\<close>

definition continues_rune :: "char \<Rightarrow> bool" where
  "continues_rune c \<longleftrightarrow> utf8_tail (of_char c)"

fun squeeze :: "string \<Rightarrow> string" where
  "squeeze (a # b # r) = (if a = CHR ''-'' \<and> b = CHR ''-'' then squeeze (b # r) else a # squeeze (b # r))"
| "squeeze s = s"

definition trim_dashes :: "string \<Rightarrow> string" where
  "trim_dashes s = rev (dropWhile (\<lambda>c. c = CHR ''-'') (rev (dropWhile (\<lambda>c. c = CHR ''-'') s)))"

definition safeExportZipFilename :: "event \<Rightarrow> string" where
  "safeExportZipFilename e =
     (let base = (if trim_space (ev_Slug e) = '''' then trim_space (ev_Name e) else trim_space (ev_Slug e))
      in if base = '''' then ''candidcrowd-memories.zip''
         else
           (let clean = squeeze (trim_dashes (map ascii_lower
                  (map (\<lambda>c. if zip_char c then c else CHR ''-'') (filter (\<lambda>c. \<not> continues_rune c) base))))
            in if clean = '''' then ''candidcrowd-memories.zip'' else clean @ ''-memories.zip''))"

definition exports_Create :: "'z http_env \<Rightarrow> host_request \<Rightarrow> db \<times> 'z \<Rightarrow> export_job reply \<times> (db \<times> 'z)" where
  "exports_Create H r = owned_do H r (\<lambda>evt. gated H evt [FeatureZIPExport] (\<lambda>w.
     (case CreateExport (he_exports H) (ev_ID evt) w of
        (Inl e, w1) \<Rightarrow> (Respond e, w1) | (Inr job, w1) \<Rightarrow> (Body 202 job, w1))))"

definition exports_Get ::
  "'z http_env \<Rightarrow> host_request \<Rightarrow> uuid option \<Rightarrow> db \<times> 'z \<Rightarrow> (export_job \<times> string) reply \<times> (db \<times> 'z)" where
  "exports_Get H r exportID = owned_do H r (\<lambda>evt w.
     (case exportID of
        None \<Rightarrow> (Problem 400 ''invalid_id'', w)
      | Some i \<Rightarrow>
          ((case GetWithFilename (he_exports H) (ev_ID evt) i (safeExportZipFilename evt) w of
              Inl e \<Rightarrow> if e = Export ErrExportNotFound then Problem 404 ''not_found'' else Respond e
            | Inr (job, url, None) \<Rightarrow> Body 200 (job, url)
            | Inr (job, url, Some e) \<Rightarrow> if e = Export ErrExportNotFound then Problem 404 ''not_found'' else Respond e), w)))"

definition exports_Latest ::
  "'z http_env \<Rightarrow> host_request \<Rightarrow> db \<times> 'z \<Rightarrow> (export_job \<times> string) option reply \<times> (db \<times> 'z)" where
  "exports_Latest H r = owned_do H r (\<lambda>evt w.
     ((case LatestWithFilename (he_exports H) (ev_ID evt) (safeExportZipFilename evt) w of
         Inl e \<Rightarrow> if e = Export ErrExportNotFound then Body 200 None else Respond e
       | Inr (job, url, None) \<Rightarrow> Body 200 (Some (job, url))
       | Inr (job, url, Some e) \<Rightarrow> if e = Export ErrExportNotFound then Body 200 None else Respond e), w))"

section \<open>Live wall (live_wall.go)\<close>

definition walls_Create :: "'z http_env \<Rightarrow> host_request \<Rightarrow> db \<times> 'z \<Rightarrow> (wall_session \<times> string) reply \<times> (db \<times> 'z)" where
  "walls_Create H r = owned_do H r (\<lambda>evt (s, z).
     (let transition = (if allows (gate_view (he_plans H) (ev_ID evt) s) FeatureFullLiveWall s
                        then None else Some TransitionModeClassic)
      in case CreateWall (he_walls H) (ev_ID evt) (ev_Name evt) (ev_Slug evt) transition s of
           (Inl e, s1) \<Rightarrow> (Respond e, (s1, z))
         | (Inr (wall, token, Some e), s1) \<Rightarrow> (Respond e, (s1, z))
         | (Inr (wall, token, None), s1) \<Rightarrow> (Body 201 (wall, token), (s1, z))))"

definition walls_Get ::
  "'z http_env \<Rightarrow> host_request \<Rightarrow> uuid option \<Rightarrow> db \<times> 'z \<Rightarrow> wall_session reply \<times> (db \<times> 'z)" where
  "walls_Get H r sessionID = owned_do H r (\<lambda>evt w.
     (case sessionID of
        None \<Rightarrow> (Problem 400 ''invalid_id'', w)
      | Some i \<Rightarrow> ((case db_FindOwnedWall (ev_ID evt) i (fst w) of
                     Inl e \<Rightarrow> Problem 404 ''not_found'' | Inr wall \<Rightarrow> Body 200 wall), w)))"

definition walls_End :: "'z http_env \<Rightarrow> host_request \<Rightarrow> uuid option \<Rightarrow> db \<times> 'z \<Rightarrow> unit reply \<times> (db \<times> 'z)" where
  "walls_End H r sessionID = owned_do H r (\<lambda>evt (s, z).
     (case sessionID of
        None \<Rightarrow> (Problem 400 ''invalid_id'', (s, z))
      | Some i \<Rightarrow>
          (case EndWall (he_walls H) (ev_ID evt) i s of
             ((Inl e, ch), s1) \<Rightarrow> (Problem 404 ''not_found'', (s1, z))
           | ((Inr wall, ch), s1) \<Rightarrow> (NoContent, (s1, z)))))"

text \<open>The plan features a presentation change needs.\<close>

definition liveWallFeatures :: "presentation_settings \<Rightarrow> feature list" where
  "liveWallFeatures p =
     (case ps_TransitionMode p of
        None \<Rightarrow> []
      | Some t \<Rightarrow> if t = TransitionModeClassic then []
                  else if t = TransitionModeLivingMosaic then [FeatureThroughTheMoment] else [FeatureFullLiveWall]) @
     (if ps_ContentPolicy p = Some ContentPolicyFeaturedOnly \<or> ps_LayoutMode p = Some LayoutModeFeatured
      then [FeatureFeatureMedia] else [])"

definition wall_answer :: "(wall_error \<Rightarrow> (int \<times> string) option) \<Rightarrow> error \<Rightarrow> 'b reply" where
  "wall_answer f e = (case e of Wall x \<Rightarrow> (case f x of Some (st, code) \<Rightarrow> Problem st code | None \<Rightarrow> Respond e) | _ \<Rightarrow> Respond e)"

definition walls_Update ::
  "'z http_env \<Rightarrow> host_request \<Rightarrow> uuid option \<Rightarrow> presentation_settings option \<Rightarrow> db \<times> 'z \<Rightarrow> wall_session reply \<times> (db \<times> 'z)" where
  "walls_Update H r sessionID body = owned_do H r (\<lambda>evt w.
     (case sessionID of
        None \<Rightarrow> (Problem 400 ''invalid_id'', w)
      | Some i \<Rightarrow>
     (case body of
        None \<Rightarrow> (Problem 400 ''invalid_live_wall_settings'', w)
      | Some p \<Rightarrow> gated H evt (liveWallFeatures p) (\<lambda>(s, z).
          (case UpdatePresentation (he_walls H) (ev_ID evt) i p s of
             ((Inl e, ch), s1) \<Rightarrow>
               (wall_answer (\<lambda>x. case x of
                    ErrInvalidPresentation \<Rightarrow> Some (400, ''invalid_live_wall_settings'')
                  | ErrRevisionConflict \<Rightarrow> Some (409, ''live_wall_revision_conflict'')
                  | ErrWallNotFound \<Rightarrow> Some (404, ''not_found'')
                  | _ \<Rightarrow> None) e, (s1, z))
           | ((Inr wall, ch), s1) \<Rightarrow> (Body 200 wall, (s1, z)))) w)))"

text \<open>\<open>binding:"required"\<close> refuses the empty command.\<close>

definition walls_Command ::
  "'z http_env \<Rightarrow> host_request \<Rightarrow> uuid option \<Rightarrow> wall_command option \<Rightarrow> db \<times> 'z \<Rightarrow> wall_session reply \<times> (db \<times> 'z)" where
  "walls_Command H r sessionID body = owned_do H r (\<lambda>evt (s, z).
     (case sessionID of
        None \<Rightarrow> (Problem 400 ''invalid_id'', (s, z))
      | Some i \<Rightarrow>
     (case body of
        None \<Rightarrow> (Problem 400 ''invalid_command'', (s, z))
      | Some c \<Rightarrow>
          if c = CommandOther '''' then (Problem 400 ''invalid_command'', (s, z))
          else
          (case WallCommand (he_walls H) (ev_ID evt) i c s of
             ((Inl e, ch), s1) \<Rightarrow>
               (wall_answer (\<lambda>x. case x of
                    ErrInvalidCommand \<Rightarrow> Some (400, ''invalid_command'')
                  | ErrWallNotFound \<Rightarrow> Some (404, ''not_found'')
                  | _ \<Rightarrow> None) e, (s1, z))
           | ((Inr wall, ch), s1) \<Rightarrow> (Body 200 wall, (s1, z))))))"

section \<open>Insights (insights.go)\<close>

definition insights_Analytics ::
  "'z http_env \<Rightarrow> insights_service \<Rightarrow> host_request \<Rightarrow> db \<times> 'z \<Rightarrow> (analytics \<times> bool) reply \<times> (db \<times> 'z)" where
  "insights_Analytics H I r = owned_do H r (\<lambda>evt w.
     ((case Analytics I (ev_ID evt) (ev_ExpectedGuestCount evt) (fst w) of
         Inl e \<Rightarrow> Respond e
       | Inr a \<Rightarrow>
           if allows (gate_view (he_plans H) (ev_ID evt) (fst w)) FeatureQRSourceAnalytics (fst w) then Body 200 (a, False)
           else Body 200 (a\<lparr>an_Sources := []\<rparr>, True)), w))"

definition insights_ListSources :: "'z http_env \<Rightarrow> host_request \<Rightarrow> db \<times> 'z \<Rightarrow> qr_source list reply \<times> (db \<times> 'z)" where
  "insights_ListSources H r = owned_do H r (\<lambda>evt w.
     ((case db_ListSources (ev_ID evt) (fst w) of Inl e \<Rightarrow> Respond e | Inr qs \<Rightarrow> Body 200 qs), w))"

definition insights_CreateSource ::
  "'z http_env \<Rightarrow> insights_service \<Rightarrow> host_request \<Rightarrow> (string \<times> string) option \<Rightarrow> db \<times> 'z \<Rightarrow> qr_source reply \<times> (db \<times> 'z)" where
  "insights_CreateSource H I r body = owned_do H r (\<lambda>evt (s, z).
     (case body of
        None \<Rightarrow> (Problem 400 ''invalid_request'', (s, z))
      | Some (code, name) \<Rightarrow>
          if code = '''' \<or> name = '''' then (Problem 400 ''invalid_request'', (s, z))
          else (case CreateSource I (ev_ID evt) code name s of
                  (Inl e, s1) \<Rightarrow> (Problem 400 ''invalid_request'', (s1, z)) | (Inr q, s1) \<Rightarrow> (Body 201 q, (s1, z)))))"

definition insights_UpdateSource ::
  "'z http_env \<Rightarrow> host_request \<Rightarrow> uuid option \<Rightarrow> string option \<Rightarrow> db \<times> 'z \<Rightarrow> qr_source reply \<times> (db \<times> 'z)" where
  "insights_UpdateSource H r sourceID body = owned_do H r (\<lambda>evt (s, z).
     (case sourceID of
        None \<Rightarrow> (Problem 400 ''invalid_id'', (s, z))
      | Some i \<Rightarrow>
     (case body of
        None \<Rightarrow> (Problem 400 ''invalid_request'', (s, z))
      | Some name \<Rightarrow>
          if name = '''' then (Problem 400 ''invalid_request'', (s, z))
          else (case UpdateSource (ev_ID evt) i name s of
                  (Inl e, s1) \<Rightarrow> (if e = InsightsNotFound then Problem 404 ''not_found'' else Problem 400 ''invalid_request'', (s1, z))
                | (Inr q, s1) \<Rightarrow> (Body 200 q, (s1, z))))))"

definition insights_DeleteSource :: "'z http_env \<Rightarrow> host_request \<Rightarrow> uuid option \<Rightarrow> db \<times> 'z \<Rightarrow> unit reply \<times> (db \<times> 'z)" where
  "insights_DeleteSource H r sourceID = owned_do H r (\<lambda>evt (s, z).
     (case sourceID of
        None \<Rightarrow> (Problem 400 ''invalid_id'', (s, z))
      | Some i \<Rightarrow>
          (case db_DeleteSource (ev_ID evt) i s of
             (Some e, s1) \<Rightarrow> (if e = InsightsNotFound then Problem 404 ''not_found'' else Respond e, (s1, z))
           | (None, s1) \<Rightarrow> (NoContent, (s1, z)))))"

end
