(* ===== verification/PublicHttp.thy ===== *)
theory PublicHttp
  imports EventHttp HostHttp Hub
begin

text \<open>
  What guests and projectors reach without an account (internal/httpapi): the guest page, the
  gallery, sessions and uploads of public.go, the player of live_wall.go, and how a realtime
  stream is opened (stream.go). The stream itself is the connection of Hub.
\<close>

section \<open>The guest page and gallery (public.go)\<close>

definition public_do ::
  "string \<Rightarrow> (event \<Rightarrow> db \<times> 'z \<Rightarrow> 'b reply \<times> (db \<times> 'z)) \<Rightarrow> db \<times> 'z \<Rightarrow> 'b reply \<times> (db \<times> 'z)" where
  "public_do slug k w =
     (case db_GetPublic slug (fst w) of Inl e \<Rightarrow> (event_failed e, w) | Inr evt \<Rightarrow> k evt w)"

record guest_page =
  gu_ID :: uuid
  gu_Name :: string
  gu_Slug :: string
  gu_EventDate :: "time option"
  gu_EventType :: string
  gu_GalleryEnabled :: bool
  gu_GuestTheme :: "string option"
  gu_ShowBranding :: bool

definition public_Event :: "'z http_env \<Rightarrow> string \<Rightarrow> db \<times> 'z \<Rightarrow> guest_page reply \<times> (db \<times> 'z)" where
  "public_Event H slug = public_do slug (\<lambda>evt w. (Body 200
     \<lparr>gu_ID = ev_ID evt, gu_Name = ev_Name evt, gu_Slug = ev_Slug evt, gu_EventDate = ev_EventDate evt,
      gu_EventType = ev_EventType evt, gu_GalleryEnabled = ev_GalleryEnabled evt,
      gu_GuestTheme = ev_GuestTheme evt,
      gu_ShowBranding = (\<not> includes_feature (gate_view (he_plans H) (ev_ID evt) (fst w)) FeatureRemoveBranding)\<rparr>, w))"

definition gallery_do ::
  "string \<Rightarrow> (event \<Rightarrow> db \<times> 'z \<Rightarrow> 'b reply \<times> (db \<times> 'z)) \<Rightarrow> db \<times> 'z \<Rightarrow> 'b reply \<times> (db \<times> 'z)" where
  "gallery_do slug k = public_do slug (\<lambda>evt w.
     (if \<not> ev_GalleryEnabled evt then (Problem 403 ''gallery_disabled'', w) else k evt w))"

definition public_Media ::
  "'z http_env \<Rightarrow> string \<Rightarrow> int \<Rightarrow> string \<Rightarrow> db \<times> 'z \<Rightarrow> cursor_page reply \<times> (db \<times> 'z)" where
  "public_Media H slug lim cursor = gallery_do slug (\<lambda>evt w.
     ((case ListReady (he_media H) (content_url H (''/api/v1/public/events/'' @ ev_Slug evt))
              (ev_ID evt) lim cursor w of
         Inl e \<Rightarrow> Respond e
       | Inr page \<Rightarrow>
           (case SignPage (he_media H) (cp_Data page) w of
              Inl e \<Rightarrow> Respond e | Inr page1 \<Rightarrow> Body 200 (page\<lparr>cp_Data := page1\<rparr>))), w))"

definition public_MediaContent ::
  "'z http_env \<Rightarrow> string \<Rightarrow> uuid option \<Rightarrow> db \<times> 'z \<Rightarrow> unit reply \<times> (db \<times> 'z)" where
  "public_MediaContent H slug mediaID = gallery_do slug (\<lambda>evt w.
     (case mediaID of
        None \<Rightarrow> (Problem 400 ''invalid_id'', w)
      | Some i \<Rightarrow> (serve_content H (ev_ID evt) i w, w)))"

section \<open>Guest sessions and uploads (public.go)\<close>

definition public_CreateSession ::
  "'z http_env \<Rightarrow> string \<Rightarrow> string \<Rightarrow> db \<times> 'z \<Rightarrow> string reply \<times> (db \<times> 'z)" where
  "public_CreateSession H slug source_code = public_do slug (\<lambda>evt (s, z).
     (let source = (case he_insights H of
            None \<Rightarrow> None
          | Some I \<Rightarrow> (case ValidateSource (ev_ID evt) source_code s of Inl e \<Rightarrow> None | Inr c \<Rightarrow> c))
      in case CreateSession (he_guests H) (ev_ID evt) source s of
           (Inl e, s1) \<Rightarrow> (Respond e, (s1, z))
         | (Inr (x, token, Some e), s1) \<Rightarrow>
             (if e = Guest ErrGuestLimitReached then Problem 429 ''guest_limit_reached'' else Respond e, (s1, z))
         | (Inr (x, token, None), s1) \<Rightarrow> (Body 201 token, (s1, z))))"

record upload_request =
  uq_Filename :: string
  uq_MIMEType :: string
  uq_Size :: int
  uq_ChecksumSHA256 :: string
  uq_ClientUploadID :: "uuid option"
  uq_GuestSessionToken :: string
  uq_GuestName :: string
  uq_Caption :: string

text \<open>The hexadecimal tag allows a prefix 0x, which the service then refuses.\<close>

definition hexadecimal :: "string \<Rightarrow> bool" where
  "hexadecimal s \<longleftrightarrow>
     (let digits = (if has_prefix s ''0x'' \<or> has_prefix s ''0X'' then drop 2 s else s)
      in digits \<noteq> '''' \<and> list_all hex_char digits)"

definition upload_request_ok :: "upload_request \<Rightarrow> bool" where
  "upload_request_ok q \<longleftrightarrow> required_max 255 (uq_Filename q) \<and> required_max 100 (uq_MIMEType q) \<and>
     0 < uq_Size q \<and> rune_count (uq_ChecksumSHA256 q) = 64 \<and> hexadecimal (uq_ChecksumSHA256 q) \<and>
     uq_ClientUploadID q \<noteq> None \<and> uq_GuestSessionToken q \<noteq> '''' \<and>
     rune_count (uq_GuestName q) \<le> 80 \<and> rune_count (uq_Caption q) \<le> 1000"

definition UsePlans :: "plan_service option \<Rightarrow> int \<Rightarrow> 'z http_env \<Rightarrow> 'z http_env" where
  "UsePlans plans legacyEventBytes H =
     (let H1 = H\<lparr>he_plans := plans\<rparr>
      in if (case plans of None \<Rightarrow> True | Some p \<Rightarrow> \<not> pl_enforce p)
         then H1\<lparr>he_legacyEventBytes := legacyEventBytes\<rparr> else H1)"

definition maxEventBytes :: "'z http_env \<Rightarrow> event \<Rightarrow> int" where
  "maxEventBytes H evt = (if 0 < he_legacyEventBytes H then he_legacyEventBytes H else ev_MaxMediaBytes evt)"

definition enforceItems :: "'z http_env \<Rightarrow> bool" where
  "enforceItems H \<longleftrightarrow> (case he_plans H of None \<Rightarrow> False | Some p \<Rightarrow> pl_enforce p)"

definition plan_closed :: "'z http_env \<Rightarrow> uuid \<Rightarrow> db \<Rightarrow> bool" where
  "plan_closed H i s = (case he_plans H of
       None \<Rightarrow> False | Some p \<Rightarrow> UploadsClosed (pl_grants p) (pl_enforce p) (pl_now p) i s)"

definition upload_scope_of :: "'z http_env \<Rightarrow> event \<Rightarrow> guest_session \<Rightarrow> upload_scope" where
  "upload_scope_of H evt x = \<lparr>us_EventID = ev_ID evt, us_GuestSessionID = gs_ID x,
     us_Accepting = (ev_Status evt = EventActive), us_MaxEventBytes = maxEventBytes H evt,
     us_EnforceItems = False, us_UploadClosed = False\<rparr>"

definition guest_do ::
  "'z http_env \<Rightarrow> string \<Rightarrow> string \<Rightarrow> (event \<Rightarrow> guest_session \<Rightarrow> db \<times> 'z \<Rightarrow> 'b reply \<times> (db \<times> 'z)) \<Rightarrow>
     db \<times> 'z \<Rightarrow> 'b reply \<times> (db \<times> 'z)" where
  "guest_do H slug token k = public_do slug (\<lambda>evt w.
     (case ValidateSession (he_guests H) (ev_ID evt) token (fst w) of
        Inl e \<Rightarrow> (Problem 401 ''invalid_guest_session'', w) | Inr x \<Rightarrow> k evt x w))"

definition upload_refused :: "error \<Rightarrow> 'b reply" where
  "upload_refused e =
     (if e = Media ErrDuplicate then Problem 409 ''duplicate_media''
      else if (case e of Media (QuotaError _ _ _) \<Rightarrow> True | Media ErrUploadClosed \<Rightarrow> True | _ \<Rightarrow> False) then Respond e
      else Problem 422 ''upload_not_allowed'')"

definition public_CreateUpload ::
  "'z http_env \<Rightarrow> string \<Rightarrow> upload_request option \<Rightarrow> db \<times> 'z \<Rightarrow> upload_target reply \<times> (db \<times> 'z)" where
  "public_CreateUpload H slug body w =
     (case body of
        None \<Rightarrow> (Problem 400 ''invalid_request'', w)
      | Some q \<Rightarrow>
          if \<not> upload_request_ok q then (Problem 400 ''invalid_request'', w)
          else guest_do H slug (uq_GuestSessionToken q) (\<lambda>evt x w.
            (case CreateUpload (he_media H)
                    ((upload_scope_of H evt x)\<lparr>us_EnforceItems := enforceItems H,
                       us_UploadClosed := plan_closed H (ev_ID evt) (fst w)\<rparr>)
                    \<lparr>ui_Filename = uq_Filename q, ui_MIMEType = uq_MIMEType q, ui_Size = uq_Size q,
                     ui_ChecksumSHA256 = uq_ChecksumSHA256 q, ui_ClientUploadID = the (uq_ClientUploadID q),
                     ui_GuestName = uq_GuestName q, ui_Caption = uq_Caption q\<rparr> w of
               (Inl e, w1) \<Rightarrow> (upload_refused e, w1)
             | (Inr target, w1) \<Rightarrow> (Body 201 target, w1))) w)"

text \<open>A confirmation of several uploads: the token and the media ids as they parse.\<close>

definition ready_count :: "complete_result list \<Rightarrow> nat" where
  "ready_count rs = count_where (\<lambda>r. cr_Status r = ''ready'') rs"

definition public_CompleteBatch ::
  "'z http_env \<Rightarrow> string \<Rightarrow> (string \<times> uuid option list) option \<Rightarrow> db \<times> 'z \<Rightarrow>
     (complete_result list \<times> nat \<times> nat) reply \<times> (db \<times> 'z)" where
  "public_CompleteBatch H slug body w =
     (case body of
        None \<Rightarrow> (Problem 400 ''invalid_request'', w)
      | Some (token, raw) \<Rightarrow>
          if token = '''' \<or> raw = [] \<or> 50 < length raw then (Problem 400 ''invalid_request'', w)
          else if None \<in> set raw then (Problem 400 ''invalid_id'', w)
          else guest_do H slug token (\<lambda>evt x w.
            (case CompleteMany (he_media H) (he_order H) (upload_scope_of H evt x) (map the raw) w of
               (Inl e, w1) \<Rightarrow> (Problem 422 ''upload_not_allowed'', w1)
             | (Inr (rs, ch), w1) \<Rightarrow> (Body 200 (rs, ready_count rs, length rs - ready_count rs), w1))) w)"

definition public_Complete ::
  "'z http_env \<Rightarrow> string \<Rightarrow> uuid option \<Rightarrow> string option \<Rightarrow> db \<times> 'z \<Rightarrow> unit reply \<times> (db \<times> 'z)" where
  "public_Complete H slug uploadID body w =
     (case body of
        None \<Rightarrow> (Problem 400 ''invalid_request'', w)
      | Some token \<Rightarrow>
          if token = '''' then (Problem 400 ''invalid_request'', w)
          else
     (case uploadID of
        None \<Rightarrow> (Problem 400 ''invalid_id'', w)
      | Some i \<Rightarrow> guest_do H slug token (\<lambda>evt x w.
          (case Complete (he_media H) (upload_scope_of H evt x) i w of
             ((Some e, ch), w1) \<Rightarrow>
               (if e = Media ErrMediaNotFound then Problem 404 ''not_found''
                else if e = Media ErrDuplicate then Problem 409 ''duplicate_media''
                else Problem 422 ''upload_verification_failed'', w1)
           | ((None, ch), w1) \<Rightarrow> (NoContent, w1))) w))"

section \<open>The player (live_wall.go)\<close>

record player_view =
  py_EventID :: uuid
  py_EventName :: string
  py_EventSlug :: string
  py_GuestTheme :: "string option option"
  py_Session :: wall_session
  py_TransitionMode :: transition_mode
  py_MaxItems :: int
  py_Data :: "public_view list"
  py_NextCursor :: string
  py_HasMore :: bool

definition liveWallTransitionAllowed ::
  "(plan_service \<times> event_entitlement) option \<Rightarrow> transition_mode \<Rightarrow> db \<Rightarrow> bool" where
  "liveWallTransitionAllowed v m s =
     (if m = TransitionModeClassic then True
      else if m = TransitionModeLivingMosaic then allows v FeatureThroughTheMoment s
      else allows v FeatureFullLiveWall s)"

text \<open>The cap of a plan without the full wall, 0 for none, and the page size under it.\<close>

definition wall_cap :: "(plan_service \<times> event_entitlement) option \<Rightarrow> db \<Rightarrow> int" where
  "wall_cap v s = (case v of
       None \<Rightarrow> 0
     | Some (p, ent) \<Rightarrow>
         (let most = MaxLiveWallItems (Limits (ee_Entitlements ent))
          in if \<not> allows v FeatureFullLiveWall s \<and> 0 < most then most else 0))"

definition capped_limit :: "int \<Rightarrow> int \<Rightarrow> int" where
  "capped_limit cap lim = (if 0 < cap \<and> (lim \<le> 0 \<or> cap < lim) then cap else lim)"

definition wall_filter :: "wall_session \<Rightarrow> gallery_filter" where
  "wall_filter x = (if lw_ContentPolicy x = ContentPolicyFeaturedOnly \<or> lw_LayoutMode x = LayoutModeFeatured
     then FilterFavorites else FilterAll)"

definition wall_Player ::
  "'z http_env \<Rightarrow> string \<Rightarrow> int \<Rightarrow> string \<Rightarrow> db \<times> 'z \<Rightarrow> player_view reply" where
  "wall_Player H token lim cursor w =
     (case GetPublicWall (he_walls H) token (fst w) of
        Inl e \<Rightarrow> Problem 404 ''not_found''
      | Inr x \<Rightarrow>
     (let v = gate_view (he_plans H) (lw_EventID x) (fst w);
          cap = wall_cap v (fst w);
          mode = (if liveWallTransitionAllowed v (lw_TransitionMode x) (fst w) then lw_TransitionMode x
                  else TransitionModeClassic)
      in case ListGallery (he_media H) (content_url H (''/api/v1/public/live-wall-sessions/'' @ token))
                (lw_EventID x) (wall_filter x) SortNewest (capped_limit cap lim) (if 0 < cap then '''' else cursor) w of
           Inl e \<Rightarrow> Problem 400 ''invalid_query''
         | Inr page \<Rightarrow>
             (case SignPage (he_media H) (gp_Data page) w of
                Inl e \<Rightarrow> Respond e
              | Inr page1 \<Rightarrow> Body 200
                  \<lparr>py_EventID = lw_EventID x, py_EventName = lw_EventName x, py_EventSlug = lw_EventSlug x,
                   py_GuestTheme = (case db_GetPublic (lw_EventSlug x) (fst w) of
                      Inl e \<Rightarrow> None | Inr evt \<Rightarrow> Some (ev_GuestTheme evt)),
                   py_Session = x, py_TransitionMode = mode, py_MaxItems = cap, py_Data = page1,
                   py_NextCursor = (if 0 < cap then '''' else gp_NextCursor page),
                   py_HasMore = (0 \<ge> cap \<and> gp_HasMore page)\<rparr>)))"

definition wall_Content :: "'z http_env \<Rightarrow> string \<Rightarrow> uuid option \<Rightarrow> db \<times> 'z \<Rightarrow> unit reply" where
  "wall_Content H token mediaID w =
     (case GetPublicWall (he_walls H) token (fst w) of
        Inl e \<Rightarrow> Problem 404 ''not_found''
      | Inr x \<Rightarrow>
     (case mediaID of
        None \<Rightarrow> Problem 400 ''invalid_id''
      | Some i \<Rightarrow>
          (case ReadURL (he_media H) (lw_EventID x) i w of
             Inl e \<Rightarrow> Problem 404 ''not_found'' | Inr url \<Rightarrow> Redirect url)))"

section \<open>Opening a stream (stream.go, live_wall.go)\<close>

record stream_config =
  sc_Heartbeat :: time
  sc_MaxAge :: time
  sc_Retry :: time
  sc_MaxPerEvent :: int
  sc_ConnectRate :: int
  sc_ConnectWindow :: time

definition withDefaults :: "stream_config \<Rightarrow> stream_config" where
  "withDefaults c = \<lparr>sc_Heartbeat = (if sc_Heartbeat c \<le> 0 then 20 * second else sc_Heartbeat c),
     sc_MaxAge = (if sc_MaxAge c \<le> 0 then 1800 * second else sc_MaxAge c),
     sc_Retry = (if sc_Retry c \<le> 0 then 3 * second else sc_Retry c),
     sc_MaxPerEvent = (if sc_MaxPerEvent c \<le> 0 then 500 else sc_MaxPerEvent c),
     sc_ConnectRate = (if sc_ConnectRate c \<le> 0 then 30 else sc_ConnectRate c),
     sc_ConnectWindow = (if sc_ConnectWindow c \<le> 0 then 60 * second else sc_ConnectWindow c)\<rparr>"

text \<open>\<open>verdict\<close> is the limiter's answer for the client, None without a limiter; the count is read
at the time of the request, not under the lock of the subscription that follows.\<close>

definition allowConnection :: "stream_config \<Rightarrow> (error + bool) option \<Rightarrow> uuid \<Rightarrow> hub \<Rightarrow> 'b reply option" where
  "allowConnection c verdict eventID h =
     (if verdict = Some (Inr False) then Some (Problem 429 ''rate_limited'')
      else if sc_MaxPerEvent (withDefaults c) \<le> int (Subscribers eventID h) then Some (Problem 503 ''stream_capacity'')
      else None)"

text \<open>An opened stream is a connection of the hub; None is an answer that streams.\<close>

definition serve_stream ::
  "stream_config \<Rightarrow> (error + bool) option \<Rightarrow> uuid \<Rightarrow> audience \<Rightarrow> hub \<Rightarrow> 'b reply option \<times> hub" where
  "serve_stream c verdict eventID a h =
     (case allowConnection c verdict eventID h of
        Some p \<Rightarrow> (Some p, h) | None \<Rightarrow> (None, arrive (ASubscribe eventID a) h))"

definition stream_Host ::
  "'z http_env \<Rightarrow> stream_config \<Rightarrow> (error + bool) option \<Rightarrow> host_request \<Rightarrow> db \<times> hub \<Rightarrow> unit reply option \<times> (db \<times> hub)" where
  "stream_Host H c verdict r sh =
     (case resolveOwnedEvent H r (fst sh) of
        (Inl p, s1) \<Rightarrow> (Some p, (s1, snd sh))
      | (Inr evt, s1) \<Rightarrow>
          (let (p, h1) = serve_stream c verdict (ev_ID evt) AudienceHost (snd sh) in (p, (s1, h1))))"

definition stream_Public ::
  "stream_config \<Rightarrow> (error + bool) option \<Rightarrow> string \<Rightarrow> db \<times> hub \<Rightarrow> unit reply option \<times> (db \<times> hub)" where
  "stream_Public c verdict slug sh =
     (case db_GetPublic slug (fst sh) of
        Inl e \<Rightarrow> (Some (event_failed e), sh)
      | Inr evt \<Rightarrow>
          if \<not> ev_GalleryEnabled evt then (Some (Problem 403 ''gallery_disabled''), sh)
          else (let (p, h1) = serve_stream c verdict (ev_ID evt) AudiencePublic (snd sh) in (p, (fst sh, h1))))"

text \<open>The stream of a projector; it has no limit of its own.\<close>

definition wall_Stream :: "'z http_env \<Rightarrow> string \<Rightarrow> db \<times> hub \<Rightarrow> unit reply option \<times> (db \<times> hub)" where
  "wall_Stream H token sh =
     (case GetPublicWall (he_walls H) token (fst sh) of
        Inl e \<Rightarrow> (Some (Problem 404 ''not_found''), sh)
      | Inr x \<Rightarrow> (None, (fst sh, arrive (ASubscribe (lw_EventID x) AudiencePublic) (snd sh))))"

end
