(* ===== verification/Router.thy ===== *)
theory Router
  imports PublicHttp MediaApp
begin

text \<open>
  The routes of one event of a host (internal/httpapi/router.go) as a datatype, and the
  dispatcher. A route carries the rest of its request: path ids, bodies and query values as
  they parse.
\<close>

datatype route =
    EventGet
  | EventPatch "update_input option"
  | EventDelete
  | EventClose
  | LogoUpload "(string \<times> string) option"
  | LogoTarget "(string \<times> int) option"
  | LogoComplete "uuid option" "(string \<times> int) option"
  | PlanGet
  | UsageGet
  | ExportPost
  | ExportLatest
  | ExportGet "uuid option"
  | AnalyticsGet
  | SourcesGet
  | SourcePost "(string \<times> string) option"
  | SourcePatch "uuid option" "string option"
  | SourceDelete "uuid option"
  | MediaList gallery_filter gallery_sort int string
  | MediaContentGet "uuid option"
  | MediaPatch "uuid option" "media_status option"
  | MediaBatchStatus "media_batch_request option"
  | MediaDelete "uuid option"
  | MediaBatchDelete "media_batch_request option"
  | WallPost
  | WallGet "uuid option"
  | WallPatch "uuid option" "presentation_settings option"
  | WallEnd "uuid option"
  | WallCommandPost "uuid option" "wall_command option"

text \<open>An answer without its body.\<close>

datatype outcome = Refused int string | Served

fun outcome_of :: "'b reply \<Rightarrow> outcome" where
  "outcome_of (Problem st code) = Refused st code"
| "outcome_of _ = Served"

definition served :: "('s \<Rightarrow> 'b reply \<times> 's) \<Rightarrow> 's \<Rightarrow> outcome \<times> 's" where
  "served k w = map_prod outcome_of id (k w)"

text \<open>The handlers of events see the database only.\<close>

fun serve_route ::
  "'z http_env \<Rightarrow> plan_service \<Rightarrow> insights_service \<Rightarrow> host_request \<Rightarrow> route \<Rightarrow> db \<times> 'z \<Rightarrow> outcome \<times> (db \<times> 'z)" where
  "serve_route H P I r EventGet = served (on_db (event_Get H r))"
| "serve_route H P I r (EventPatch b) = served (on_db (event_Update H r b))"
| "serve_route H P I r EventDelete = served (on_db (event_Delete H r))"
| "serve_route H P I r EventClose = served (on_db (event_Close H r))"
| "serve_route H P I r (LogoUpload f) = served (qr_Upload H r f)"
| "serve_route H P I r (LogoTarget b) = served (qr_CreateUploadTarget H r b)"
| "serve_route H P I r (LogoComplete i b) = served (qr_Complete H r i b)"
| "serve_route H P I r PlanGet = served (plan_EventPlan P H r)"
| "serve_route H P I r UsageGet = served (plan_EventUsage P H r)"
| "serve_route H P I r ExportPost = served (exports_Create H r)"
| "serve_route H P I r ExportLatest = served (exports_Latest H r)"
| "serve_route H P I r (ExportGet i) = served (exports_Get H r i)"
| "serve_route H P I r AnalyticsGet = served (insights_Analytics H I r)"
| "serve_route H P I r SourcesGet = served (insights_ListSources H r)"
| "serve_route H P I r (SourcePost b) = served (insights_CreateSource H I r b)"
| "serve_route H P I r (SourcePatch i b) = served (insights_UpdateSource H r i b)"
| "serve_route H P I r (SourceDelete i) = served (insights_DeleteSource H r i)"
| "serve_route H P I r (MediaList f o' n c) = served (host_List H r f o' n c)"
| "serve_route H P I r (MediaContentGet i) = served (host_Content H r i)"
| "serve_route H P I r (MediaPatch i b) = served (host_UpdateStatus H r i b)"
| "serve_route H P I r (MediaBatchStatus b) = served (host_BatchUpdateStatus H r b)"
| "serve_route H P I r (MediaDelete i) = served (host_Delete H r i)"
| "serve_route H P I r (MediaBatchDelete b) = served (host_BatchDelete H r b)"
| "serve_route H P I r WallPost = served (walls_Create H r)"
| "serve_route H P I r (WallGet i) = served (walls_Get H r i)"
| "serve_route H P I r (WallPatch i b) = served (walls_Update H r i b)"
| "serve_route H P I r (WallEnd i) = served (walls_End H r i)"
| "serve_route H P I r (WallCommandPost i b) = served (walls_Command H r i b)"

text \<open>A sequence of requests, each with the environment of its moment.\<close>

fun serve_all ::
  "plan_service \<Rightarrow> insights_service \<Rightarrow> ('z http_env \<times> host_request \<times> route) list \<Rightarrow> db \<times> 'z \<Rightarrow>
     outcome list \<times> (db \<times> 'z)" where
  "serve_all P I [] w = ([], w)"
| "serve_all P I ((H, r, q) # qs) w =
     (let (o1, w1) = serve_route H P I r q w; (os, w2) = serve_all P I qs w1 in (o1 # os, w2))"

end
