(* ===== verification/HttpFixtures.thy ===== *)
theory HttpFixtures
  imports Router AccountProps ExportProps WallProps GuestProps
begin

text \<open>
  A deployment the witnesses of the HTTP layer run on: the event and the media of the shared
  fixture, its host's account, and services over the object store that is a list of keys.
\<close>

definition fx_http_exporter :: "store export_env" where
  "fx_http_exporter = \<lparr>xe_OpenRead = (\<lambda>k z. Inr ''body''), xe_Put = (\<lambda>k es z. (None, (k, \<lparr>oi_Size = 1, oi_ContentType = ''zip''\<rparr>) # z)),
     xe_PresignGet = (\<lambda>k t z. Inr k), xe_PresignDownload = None, xe_archive_OpenRead = None,
     xe_ctx_Err = (\<lambda>n z. None), xe_uuid_string = (\<lambda>i. replicate i CHR ''u''), xe_error_text = (\<lambda>e. ''failed''),
     xe_locked = [], xe_now = 50, xe_fresh = 9\<rparr>"

definition fx_event_service :: event_service where
  "fx_event_service = \<lparr>vs_provisioners = [], vs_eventMaxBytes = 1000, vs_notifier = True, vs_plans = None,
     vs_maxActiveEvents = 1, vs_maxTrialEvents = 3, vs_trialWindow = 30 * day, vs_limitsEnabled = True, vs_now = 50,
     vs_decode = (\<lambda>_. None)\<rparr>"

definition fx_plans :: "bool \<Rightarrow> plan_service" where
  "fx_plans enforce = \<lparr>pl_registry = default_registry, pl_catalog = gorm_catalog, pl_grants = gorm_grants,
     pl_enforce = enforce, pl_now = 50\<rparr>"

definition fx_http :: "plan_service option \<Rightarrow> store http_env" where
  "fx_http plans = \<lparr>he_profiles = fx_profile 6, he_events = fx_event_service, he_media = app_media (fx_store_env 12),
     he_walls = fx_wall_service 50, he_exports = app_export fx_http_exporter, he_guests = fx_guests 3,
     he_insights = None, he_plans = plans, he_legacyEventBytes = 0,
     he_archive = Some (\<lambda>loc w. Inr (''drive:'' @ loc)), he_order = rev, he_fresh = 13, he_slug = ''evt_2''\<rparr>"

definition fx_http_db :: db where
  "fx_http_db = fx_media_db\<lparr>t_users := [new_user 9 5 fx_ana], t_media := [fx_row MediaReady (Some 400) (Some 20)]\<rparr>"

definition fx_ask :: "identity option \<Rightarrow> host_request" where
  "fx_ask idn = \<lparr>hr_identity = idn, hr_id = Some 7\<rparr>"

definition fx_ins :: insights_service where
  "fx_ins = \<lparr>ins_now = 5, ins_fresh = 31, ins_cached = (\<lambda>_. None), ins_collate = length\<rparr>"

end
