(* ===== verification/HttpProps.thy ===== *)
theory HttpProps
  imports HttpFixtures
begin

text \<open>
  The routes of a host as a whole: strangers are turned away, a plan refuses what it lacks, and a
  gate in shadow mode changes nothing.
\<close>

section \<open>Strangers\<close>

text \<open>The caller's account owns the event that is asked for.\<close>

definition may_act :: "host_request \<Rightarrow> db \<Rightarrow> bool" where
  "may_act r s \<longleftrightarrow>
     (case (hr_identity r, hr_id r) of
        (Some idn, Some i) \<Rightarrow> (\<exists>u \<in> set (t_users s). same_login (idn_BetterAuthUserID idn) u \<and>
           (\<exists>e \<in> set (t_events s). owned i (ur_ID u) e))
      | _ \<Rightarrow> False)"

text \<open>Accounts were added, with ids that host no event; nothing else changed.\<close>

definition only_accounts :: "db \<Rightarrow> db \<Rightarrow> bool" where
  "only_accounts s s' \<longleftrightarrow> (\<exists>us. s' = s\<lparr>t_users := t_users s @ us\<rparr> \<and>
     ur_ID ` set us \<inter> ev_HostID ` set (t_events s) = {})"

definition fresh_account :: "'z http_env \<Rightarrow> db \<Rightarrow> bool" where
  "fresh_account H s \<longleftrightarrow> pf_fresh (he_profiles H) \<notin> ev_HostID ` set (t_events s)"

lemma only_accounts_refl [simp, intro]: "only_accounts s s"
  unfolding only_accounts_def by (rule exI [of _ "[]"]) simp

lemma only_accounts_trans: "only_accounts s s1 \<Longrightarrow> only_accounts s1 s2 \<Longrightarrow> only_accounts s s2"
  by (fastforce simp: only_accounts_def image_Un Int_Un_distrib2)

lemma only_accounts_events [simp]: "only_accounts s s' \<Longrightarrow> t_events s' = t_events s"
  by (auto simp: only_accounts_def)

lemma owned_host: "owned i h e \<Longrightarrow> ev_HostID e = h"
  by (simp add: owned_def)

lemma may_act_iff:
  "may_act r s \<longleftrightarrow> (\<exists>idn i. hr_identity r = Some idn \<and> hr_id r = Some i \<and>
     (\<exists>u \<in> set (t_users s). same_login (idn_BetterAuthUserID idn) u \<and> (\<exists>e \<in> set (t_events s). owned i (ur_ID u) e)))"
  by (cases "hr_identity r"; cases "hr_id r") (simp_all add: may_act_def)

lemma stranger_stays:
  assumes "only_accounts s s'" "\<not> may_act r s"
  shows "\<not> may_act r s'"
proof
  assume "may_act r s'"
  then obtain idn i u e where r: "hr_identity r = Some idn" "hr_id r = Some i" and
      u: "u \<in> set (t_users s')" "same_login (idn_BetterAuthUserID idn) u" and
      e: "e \<in> set (t_events s')" "owned i (ur_ID u) e"
    unfolding may_act_iff by blast
  obtain us where us: "s' = s\<lparr>t_users := t_users s @ us\<rparr>" "ur_ID ` set us \<inter> ev_HostID ` set (t_events s) = {}"
    using assms(1) unfolding only_accounts_def by blast
  have "ev_HostID e = ur_ID u" using e(2) by (rule owned_host)
  then have "ur_ID u \<in> ev_HostID ` set (t_events s)" using e(1) us(1) by (metis image_eqI only_accounts_events assms(1))
  then have "u \<notin> set us" using us(2) by blast
  then have "u \<in> set (t_users s)" using u(1) us(1) by simp
  moreover have "e \<in> set (t_events s)" using e(1) assms(1) by simp
  ultimately have "may_act r s" using r u(2) e(2) unfolding may_act_iff by blast
  then show False using assms(2) by simp
qed

lemma none_owned: "\<forall>e \<in> set t. \<not> owned i h e \<Longrightarrow> first_by ev_ID (owned i h) t = None"
  by (simp add: first_by_None)

lemma stranger_GetOwned: "\<forall>e \<in> set (t_events s). \<not> owned i h e \<Longrightarrow> db_GetOwned i h s = Inl (Event ErrEvtNotFound)"
  by (simp add: db_GetOwned_def none_owned)

text \<open>Who is asking: the account found or made, which owns no event of that id.\<close>

lemma UserID_stranger:
  assumes n: "\<not> may_act r s" and f: "fresh_account H s"
    and r: "hr_identity r = Some idn" "hr_id r = Some i"
    and e: "UserID (he_profiles H) idn s = (q, s1)"
  shows "only_accounts s s1 \<and> (\<forall>h. q = Inr h \<longrightarrow> (\<forall>e \<in> set (t_events s1). \<not> owned i h e))"
proof (cases "find (same_login (idn_BetterAuthUserID idn)) (t_users s)")
  case (Some u)
  then have "u \<in> set (t_users s)" "same_login (idn_BetterAuthUserID idn) u" by (auto simp: find_Some_iff)
  then show ?thesis using n r e Some by (auto simp: UserID_def db_FindUserID_def may_act_def)
next
  case None
  let ?u = "new_user (pf_now (he_profiles H)) (pf_fresh (he_profiles H)) idn"
  let ?s = "s\<lparr>t_users := t_users s @ [?u]\<rparr>"
  have i: "ur_ID ?u = pf_fresh (he_profiles H)" by (simp add: new_user_def)
  have "only_accounts s ?s" unfolding only_accounts_def
    by (rule exI [of _ "[?u]"]) (use f i in \<open>simp add: fresh_account_def\<close>)
  moreover have "\<forall>e \<in> set (t_events s). \<not> owned i (ur_ID ?u) e"
  proof
    fix e assume "e \<in> set (t_events s)"
    then have "ev_HostID e \<noteq> ur_ID ?u" using f unfolding i fresh_account_def by (metis image_eqI)
    then show "\<not> owned i (ur_ID ?u) e" by (simp add: owned_def)
  qed
  moreover have "(\<exists>x. q = Inl x) \<and> s1 = s \<or> q = Inr (ur_ID ?u) \<and> s1 = ?s"
    using e None
    by (auto simp: UserID_def db_FindUserID_def db_EnsureUser_def ensure_user_tx_def transaction_def write_users_def
        Let_def split: if_splits)
  ultimately show ?thesis by auto
qed

lemma resolve_stranger:
  assumes "\<not> may_act r s" "fresh_account H s"
  obtains st code s1 where "resolveOwnedEvent H r s = (Inl (Problem st code), s1)" "only_accounts s s1"
proof (cases "hr_id r")
  case None
  then show ?thesis using that [of 400 "''invalid_id''" s] by (simp add: resolveOwnedEvent_def)
next
  case (Some i)
  note i = this
  show ?thesis
  proof (cases "hr_identity r")
    case None
    then show ?thesis using that [of 500 "''internal_error''" s] i by (simp add: resolveOwnedEvent_def Respond_def)
  next
    case (Some idn)
    obtain q s1 where u: "UserID (he_profiles H) idn s = (q, s1)" by (rule prod.exhaust)
    note o = UserID_stranger [OF assms Some i u]
    have "\<exists>st code. resolveOwnedEvent H r s = (Inl (Problem st code), s1)"
    proof (cases q)
      case (Inl e)
      then show ?thesis using u i Some by (simp add: resolveOwnedEvent_def Respond_def split: option.splits)
    next
      case (Inr h)
      then have "first_by ev_ID (owned i h) (t_events s1) = None" using o by (simp add: none_owned)
      then show ?thesis using u i Some Inr by (simp add: resolveOwnedEvent_def db_GetOwned_def)
    qed
    then show ?thesis using that o by blast
  qed
qed

definition turned_away :: "db \<times> 'z \<Rightarrow> outcome \<times> (db \<times> 'z) \<Rightarrow> bool" where
  "turned_away w x \<longleftrightarrow> (case fst x of Refused _ _ \<Rightarrow> True | Served \<Rightarrow> False) \<and>
     only_accounts (fst w) (fst (snd x)) \<and> snd (snd x) = snd w"

named_theorems route_defs \<open>the handlers behind an event's routes\<close>

lemmas owned_handlers [route_defs] = host_List_def host_UpdateStatus_def host_BatchUpdateStatus_def host_Delete_def
  host_BatchDelete_def host_Content_def exports_Create_def exports_Get_def exports_Latest_def walls_Create_def
  walls_Get_def walls_End_def walls_Update_def walls_Command_def insights_Analytics_def insights_ListSources_def
  insights_CreateSource_def insights_UpdateSource_def insights_DeleteSource_def customizing_def plan_resolve_def
  qr_Upload_def qr_CreateUploadTarget_def qr_Complete_def plan_EventPlan_def plan_EventUsage_def

lemma owned_stranger:
  assumes "\<not> may_act r (fst w)" "fresh_account H (fst w)"
  shows "turned_away w (served (owned_do H r (k :: event \<Rightarrow> db \<times> 'z \<Rightarrow> 'b reply \<times> (db \<times> 'z))) w)"
proof -
  obtain st code s1 where "resolveOwnedEvent H r (fst w) = (Inl (Problem st code :: 'b reply), s1)" "only_accounts (fst w) s1"
    using resolve_stranger [OF assms] by blast
  then show ?thesis by (simp add: owned_do_def served_def turned_away_def)
qed

text \<open>The handlers of events look the host up before they ask the service.\<close>

lemma with_host_stranger:
  assumes "\<not> may_act r s" "fresh_account H s" "hr_id r = Some i"
    and k: "\<And>h s1. only_accounts s s1 \<Longrightarrow> (\<forall>e \<in> set (t_events s1). \<not> owned i h e) \<Longrightarrow>
      \<exists>st code. k h s1 = (Problem st code, s1)"
  shows "\<exists>st code s1. with_host (he_profiles H) (hr_identity r) k s = (Problem st code, s1) \<and> only_accounts s s1"
proof (cases "hr_identity r")
  case None
  then show ?thesis by (auto simp: with_host_def with_identity_def Respond_def split: option.splits)
next
  case (Some idn)
  obtain q s1 where u: "UserID (he_profiles H) idn s = (q, s1)" by (rule prod.exhaust)
  note o = UserID_stranger [OF assms(1,2) Some assms(3) u]
  show ?thesis
  proof (cases q)
    case (Inl e)
    then show ?thesis using u o Some by (simp add: with_host_def with_identity_def Respond_def split: option.splits)
  next
    case (Inr h)
    then show ?thesis using u o Some k [of s1 h] by (auto simp: with_host_def with_identity_def)
  qed
qed

lemma event_failed_Problem: "\<exists>st code. event_failed e = Problem st code"
  by (simp add: event_failed_def Respond_def split: option.splits)

lemma update_failed_Problem: "\<exists>st code. update_failed e = Problem st code"
  by (simp add: update_failed_def Respond_def split: option.splits)

lemma not_owned_update:
  assumes "\<forall>e \<in> set (t_events s). \<not> p e"
  obtains e where "update_events p f s = (Inl e, s)" | "update_events p f s = (Inr 0, s)"
proof -
  have u: "update_where p f (t_events s) = t_events s" "count_where p (t_events s) = 0"
    using assms by (simp_all add: update_where_none count_where_0_iff)
  show ?thesis using that
    by (cases "write_events (t_events s) s") (auto simp: update_events_def u write_events_def split: if_splits)
qed

lemma stranger_Update:
  assumes n: "\<forall>e \<in> set (t_events s). \<not> owned i h e"
  shows "\<exists>e. UpdateEvent S i h q s = (Inl e, [], s)"
proof -
  note g = stranger_GetOwned [OF n]
  have "\<exists>e. db_UpdateOwned i h u s = (Inl e, s)" for u
  proof (cases u)
    case (Some f)
    show ?thesis by (rule not_owned_update [of s "owned i h" f]) (use n Some in \<open>simp_all add: db_UpdateOwned_def\<close>)
  qed (use g in \<open>simp add: db_UpdateOwned_def\<close>)
  note missing = this
  show ?thesis
  proof (cases "requireFullCustomization S i h q s")
    case None
    note allowed = this
    show ?thesis
    proof (cases "event_updates S q")
      case (Inr u)
      from missing [of u] obtain e where "db_UpdateOwned i h u s = (Inl e, s)" by blast
      then show ?thesis using allowed Inr by (simp add: UpdateEvent_def)
    qed (use allowed in \<open>simp add: UpdateEvent_def\<close>)
  qed (simp add: UpdateEvent_def)
qed

lemma stranger_one_row:
  assumes "\<forall>e \<in> set (t_events s). \<not> p e"
  shows "\<exists>e. one_row (update_events p f s) = (Some e, s)"
  by (rule not_owned_update [OF assms, of f]) (simp_all add: one_row_def)

lemma stranger_event_routes:
  assumes "\<not> may_act r s" "fresh_account H s"
  shows "\<exists>st code s1. event_Get H r s = (Problem st code, s1) \<and> only_accounts s s1"
    "\<exists>st code s1. event_Update H r b s = (Problem st code, s1) \<and> only_accounts s s1"
    "\<exists>st code s1. event_Delete H r s = (Problem st code, s1) \<and> only_accounts s s1"
    "\<exists>st code s1. event_Close H r s = (Problem st code, s1) \<and> only_accounts s s1"
proof -
  have away: "\<exists>st code s1. with_event_id (hr_id r) k s = (Problem st code, s1) \<and> only_accounts s s1"
    if "\<And>i. hr_id r = Some i \<Longrightarrow> \<exists>st code s1. k i s = (Problem st code, s1) \<and> only_accounts s s1" for k
    using that by (cases "hr_id r") (auto simp: with_event_id_def)
  show "\<exists>st code s1. event_Get H r s = (Problem st code, s1) \<and> only_accounts s s1"
    unfolding event_Get_def
  proof (intro away with_host_stranger [OF assms], assumption)
    fix i h and s1 :: db assume "\<forall>e \<in> set (t_events s1). \<not> owned i h e"
    note g = stranger_GetOwned [OF this]
    show "\<exists>st code. ((case db_GetOwned i h s1 of Inl e \<Rightarrow> event_failed e | Inr evt \<Rightarrow> Body 200 evt), s1) = (Problem st code, s1)"
      unfolding g using event_failed_Problem by simp
  qed
  show "\<exists>st code s1. event_Delete H r s = (Problem st code, s1) \<and> only_accounts s s1"
    unfolding event_Delete_def
  proof (intro away with_host_stranger [OF assms], assumption)
    fix i h and s1 :: db assume "\<forall>e \<in> set (t_events s1). \<not> owned i h e"
    from stranger_one_row [OF this] obtain e where "DeleteEvent i h s1 = (Some e, s1)"
      unfolding DeleteEvent_def db_DeleteOwned_def by blast
    then show "\<exists>st code. (case DeleteEvent i h s1 of (Some e, s1) \<Rightarrow> (event_failed e, s1) | (None, s1) \<Rightarrow> (NoContent, s1)) =
       (Problem st code, s1)" using event_failed_Problem by simp
  qed
  show "\<exists>st code s1. event_Close H r s = (Problem st code, s1) \<and> only_accounts s s1"
    unfolding event_Close_def
  proof (intro away with_host_stranger [OF assms], assumption)
    fix i h and s1 :: db assume "\<forall>e \<in> set (t_events s1). \<not> owned i h e"
    then have "\<forall>e \<in> set (t_events s1). \<not> (ev_ID e = i \<and> ev_HostID e = h \<and> ev_Status e = EventActive)"
      by (auto simp: owned_def)
    from stranger_one_row [OF this] obtain e where "db_CloseOwned (vs_now (he_events H)) i h s1 = (Some e, s1)"
      unfolding db_CloseOwned_def by blast
    then show "\<exists>st code. (case CloseEvent (he_events H) i h s1 of (Some e, ch, s1) \<Rightarrow> (event_failed e, s1)
        | (None, ch, s1) \<Rightarrow> (Body 200 ''closed'', s1)) = (Problem st code, s1)"
      using event_failed_Problem by (simp add: CloseEvent_def)
  qed
  show "\<exists>st code s1. event_Update H r b s = (Problem st code, s1) \<and> only_accounts s s1"
    unfolding event_Update_def
  proof (intro away)
    fix i assume i: "hr_id r = Some i"
    have "\<exists>st code s1. with_host (he_profiles H) (hr_identity r) (\<lambda>host s.
        (case UpdateEvent (he_events H) i host q s of (Inl e, ch, s1) \<Rightarrow> (update_failed e, s1)
         | (Inr evt, ch, s1) \<Rightarrow> (Body 200 evt, s1))) s = (Problem st code, s1) \<and> only_accounts s s1" for q
    proof (intro with_host_stranger [OF assms i])
      fix h and s1 :: db assume "\<forall>e \<in> set (t_events s1). \<not> owned i h e"
      from stranger_Update [OF this] obtain e where "UpdateEvent (he_events H) i h q s1 = (Inl e, [], s1)" by blast
      then show "\<exists>st code. (case UpdateEvent (he_events H) i h q s1 of (Inl e, ch, s1) \<Rightarrow> (update_failed e, s1)
         | (Inr evt, ch, s1) \<Rightarrow> (Body 200 evt, s1)) = (Problem st code, s1)" using update_failed_Problem by simp
    qed
    then show "\<exists>st code s1. (case b of None \<Rightarrow> (Problem 400 ''invalid_request'', s)
        | Some q \<Rightarrow> if \<not> update_request_ok q then (Problem 400 ''invalid_request'', s)
          else with_host (he_profiles H) (hr_identity r) (\<lambda>host s.
            (case UpdateEvent (he_events H) i host q s of (Inl e, ch, s1) \<Rightarrow> (update_failed e, s1)
             | (Inr evt, ch, s1) \<Rightarrow> (Body 200 evt, s1))) s) = (Problem st code, s1) \<and> only_accounts s s1"
      by (auto split: option.splits)
  qed
qed

lemma on_db_turned_away:
  assumes "\<exists>st code s1. k (fst w) = (Problem st code, s1) \<and> only_accounts (fst w) s1"
  shows "turned_away w (served (on_db k) w)"
  using assms by (auto simp: turned_away_def served_def on_db_def)

lemma stranger_route:
  assumes "\<not> may_act r (fst w)" "fresh_account H (fst w)"
  shows "turned_away w (serve_route H P I r q w)"
proof (cases q)
qed (simp_all only: serve_route.simps owned_handlers owned_stranger [OF assms]
       on_db_turned_away [where k = "event_Get H r" and w = w, OF stranger_event_routes(1) [OF assms]] on_db_turned_away [where k = "event_Update H r b" and w = w for b, OF stranger_event_routes(2) [OF assms]]
       on_db_turned_away [where k = "event_Delete H r" and w = w, OF stranger_event_routes(3) [OF assms]] on_db_turned_away [where k = "event_Close H r" and w = w, OF stranger_event_routes(4) [OF assms]])


section \<open>The plan gate\<close>

text \<open>The features a request needs of the event's plan; a request that does not parse needs none.\<close>

fun needs :: "route \<Rightarrow> feature list" where
  "needs (MediaPatch (Some i) (Some st)) = (if st = MediaFeatured then [FeatureFeatureMedia] else [])"
| "needs (MediaBatchStatus (Some b)) =
     (if batch_request_ok b \<and> \<not> isl (parseMediaIDs (br_IDs b))
      then FeatureBulkModeration # (if br_Status b = MediaFeatured then [FeatureFeatureMedia] else []) else [])"
| "needs ExportPost = [FeatureZIPExport]"
| "needs (WallPatch (Some i) (Some p)) = liveWallFeatures p"
| "needs (LogoUpload f) = [FeatureFullCustomization]"
| "needs (LogoTarget b) = [FeatureFullCustomization]"
| "needs (LogoComplete i b) = [FeatureFullCustomization]"
| "needs _ = []"

text \<open>The same environment without the plan system.\<close>

abbreviation planless :: "'z http_env \<Rightarrow> 'z http_env" where
  "planless H \<equiv> H\<lparr>he_plans := None\<rparr>"

text \<open>Without a plan service no gate is closed; a handler uses the rest of its environment only.\<close>

lemma planless_gated [simp]: "gated (planless H) evt fs k = k"
  by (rule ext) (simp add: gated_def)

lemma planless_resolve [simp]: "resolveOwnedEvent (planless H) r s = resolveOwnedEvent H r s"
  by (simp add: resolveOwnedEvent_def cong: option.case_cong sum.case_cong)

lemma planless_owned [simp]: "owned_do (planless H) r k w = owned_do H r k w"
  by (simp add: owned_do_def)

lemma planless_urls [simp]:
  "content_url (planless H) = content_url H" "serve_content (planless H) e i w = serve_content H e i w"
  "qrLogoKey (planless H) e i m = qrLogoKey H e i m" "qrLogoURL (planless H) sl i m = qrLogoURL H sl i m"
  by (intro ext, simp add: content_url_def)
    (simp_all add: content_url_def serve_content_def serveArchivedOriginal_def qrLogoKey_def qrLogoURL_def
      cong: option.case_cong sum.case_cong)

lemma resolve_owner:
  assumes "hr_identity r = Some idn" "hr_id r = Some i" "UserID (he_profiles H) idn s = (Inr host, s1)"
    "db_GetOwned i host s1 = Inr evt"
  shows "resolveOwnedEvent H r s = (Inr evt, s1)"
  using assms by (simp add: resolveOwnedEvent_def)

text \<open>The routes whose answer is shaped, not refused, by the plan.\<close>

fun shaped :: "route \<Rightarrow> bool" where
  "shaped AnalyticsGet = True"
| "shaped WallPost = True"
| "shaped _ = False"

lemma served_cong: "k w = k' w \<Longrightarrow> served k w = served k' w"
  by (simp add: served_def)

lemma Respond_feature: "Respond (FeatureError f code) = Problem 403 ''feature_not_in_plan''"
  by (simp add: Respond_def)

text \<open>How a handler in front of a gate runs, once its event is found.\<close>

lemma gated_run:
  assumes p: "he_plans H = Some p" "pl_catalog p = gorm_catalog" "pl_grants p = gorm_grants" "pl_enforce p"
    and ent: "Resolve gorm_grants (ev_ID evt) (fst w) = Inr ent"
  shows "gated H evt fs k w =
    (if list_all (Has (ee_Entitlements ent)) fs then k w else (Problem 403 ''feature_not_in_plan'', w))"
  using gate_enforced [OF p(2-4) ent, of fs] p(1)
  by (auto simp: gated_def Respond_feature split: if_splits)

lemma gated_shadow:
  assumes "he_plans H = Some p" "pl_catalog p = gorm_catalog" "pl_grants p = gorm_grants" "\<not> pl_enforce p"
  shows "gated H evt fs k = k"
  using gate_shadow [OF assms(2-4)] assms(1) by (intro ext) (simp add: gated_def)

lemma allows_shadow:
  assumes "he_plans H = Some p" "pl_catalog p = gorm_catalog" "pl_grants p = gorm_grants" "\<not> pl_enforce p"
  shows "allows (gate_view (he_plans H) i s) f s' = True"
    "includes_feature (gate_view (he_plans H) i s) f = True"
  using assms by (simp_all add: allows_def includes_feature_def gate_view_def gorm_Check split: sum.splits)

lemma allows_planless [simp]: "allows (gate_view None i s) f s' = True" "includes_feature (gate_view None i s) f = True"
  by (simp_all add: allows_def includes_feature_def gate_view_def)

lemma wall_cap_allowed: "allows v FeatureFullLiveWall s \<Longrightarrow> wall_cap v s = 0"
  by (cases v) (auto simp: wall_cap_def Let_def)

lemma shadow_handlers:
  assumes "he_plans H = Some p" "pl_catalog p = gorm_catalog" "pl_grants p = gorm_grants" "\<not> pl_enforce p"
  shows "exports_Create H r = exports_Create (planless H) r"
    "walls_Create H r = walls_Create (planless H) r" "walls_Update H r i b = walls_Update (planless H) r i b"
    "insights_Analytics H I r = insights_Analytics (planless H) I r"
    "host_UpdateStatus H r i st = host_UpdateStatus (planless H) r i st"
    "host_BatchUpdateStatus H r mb = host_BatchUpdateStatus (planless H) r mb"
    "qr_Upload H r lf = qr_Upload (planless H) r lf"
    "qr_CreateUploadTarget H r lt = qr_CreateUploadTarget (planless H) r lt"
    "qr_Complete H r i lt = qr_Complete (planless H) r i lt"
  by (rule ext, simp add: owned_handlers gated_shadow [OF assms] allows_shadow [OF assms] with_ids_def
      cong: option.case_cong sum.case_cong prod.case_cong if_cong)+

lemma planless_handlers [simp]:
  "event_Get (planless H) r = event_Get H r" "event_Update (planless H) r b = event_Update H r b"
  "event_Delete (planless H) r = event_Delete H r" "event_Close (planless H) r = event_Close H r"
  "plan_EventPlan P (planless H) r = plan_EventPlan P H r" "plan_EventUsage P (planless H) r = plan_EventUsage P H r"
  "exports_Latest (planless H) r = exports_Latest H r" "exports_Get (planless H) r i = exports_Get H r i"
  "insights_ListSources (planless H) r = insights_ListSources H r"
  "insights_CreateSource (planless H) I r sb = insights_CreateSource H I r sb"
  "insights_UpdateSource (planless H) r i sn = insights_UpdateSource H r i sn"
  "insights_DeleteSource (planless H) r i = insights_DeleteSource H r i"
  "host_List (planless H) r f o' n c = host_List H r f o' n c" "host_Content (planless H) r i = host_Content H r i"
  "host_Delete (planless H) r i = host_Delete H r i" "host_BatchDelete (planless H) r mb = host_BatchDelete H r mb"
  "walls_Get (planless H) r i = walls_Get H r i" "walls_End (planless H) r i = walls_End H r i"
  "walls_Command (planless H) r i wb = walls_Command H r i wb"
  by (rule ext, simp add: event_Get_def event_Update_def event_Delete_def event_Close_def owned_handlers with_host_def
      with_identity_def cong: option.case_cong sum.case_cong prod.case_cong if_cong)+

text \<open>While the plan gate runs in shadow mode - enforcement off, on the PostgreSQL repositories - every
route of an event answers and acts exactly as it would with no plan system at all, and so do the guest
page, the player of a wall and a guest's upload.\<close>

theorem shadow_mode_is_no_gate:
  assumes "he_plans H = Some p" "pl_catalog p = gorm_catalog" "pl_grants p = gorm_grants" "\<not> pl_enforce p"
  shows "serve_route H P I r q w = serve_route (planless H) P I r q w \<and>
    public_Event H slug w = public_Event (planless H) slug w \<and>
    public_CreateUpload H slug body w = public_CreateUpload (planless H) slug body w \<and>
    wall_Player H token lim c w = wall_Player (planless H) token lim c w"
proof -
  note sh = shadow_handlers [OF assms]
  have "wall_cap (gate_view (he_plans H) i s) s = 0 \<and> wall_cap (gate_view None i s) s = 0" for i s
    using allows_shadow(1) [OF assms] by (simp add: wall_cap_allowed)
  moreover have "liveWallTransitionAllowed (gate_view (he_plans H) i s) m s \<and> liveWallTransitionAllowed (gate_view None i s) m s" for i m s
    using allows_shadow(1) [OF assms] by (simp add: liveWallTransitionAllowed_def)
  ultimately have player: "wall_Player H token lim c w = wall_Player (planless H) token lim c w"
    by (simp add: wall_Player_def Let_def cong: sum.case_cong)
  have "serve_route H P I r q w = serve_route (planless H) P I r q w"
    by (cases q) (simp_all add: sh [symmetric])
  moreover have "public_Event H slug w = public_Event (planless H) slug w"
    using allows_shadow(2) [OF assms] by (simp add: public_Event_def)
  moreover have "public_CreateUpload H slug body w = public_CreateUpload (planless H) slug body w"
    using assms by (simp add: public_CreateUpload_def guest_do_def upload_scope_of_def maxEventBytes_def enforceItems_def
        plan_closed_def UploadsClosed_def public_do_def cong: option.case_cong sum.case_cong prod.case_cong if_cong split: sum.splits)
  ultimately show ?thesis using player by blast
qed


text \<open>Shadow mode still asks the catalog which plan would have the feature, and its failure refuses the
request.\<close>

lemma shadow_outage_refuses:
  assumes "Resolve (pl_grants p) i s = Inr ent" "\<not> Has (ee_Entitlements ent) f"
    and "cr_ActiveVersions (pl_catalog p) s = Inl e" "\<not> pl_enforce p"
  shows "gate_require (Some p) i [f] s = Some e"
  using assms by (simp add: Require_def Check_def LowestPlanWith_def ActiveVersions_def)

section \<open>Witnesses\<close>

text \<open>Bob, who has no account yet, and a caller without a login go for the event of Ana.\<close>

definition fx_intruders :: "(store http_env \<times> host_request \<times> route) list" where
  "fx_intruders = [(fx_http None, fx_ask (Some fx_bob), EventDelete),
     (fx_http None, fx_ask (Some fx_bob), MediaBatchDelete (Some \<lparr>br_IDs = [Some 11], br_Status = MediaHidden\<rparr>)),
     (fx_http None, fx_ask None, MediaContentGet (Some 11))]"


lemma fx_gorm: "pl_catalog (fx_plans b) = gorm_catalog" "pl_grants (fx_plans b) = gorm_grants" "pl_enforce (fx_plans b) = b"
  by (simp_all add: fx_plans_def)

lemma fx_http_plans: "he_plans (fx_http g) = g"
  by (simp add: fx_http_def)

theorem shadow_mode_is_no_gate_witness:
  "fst (serve_route (fx_http (Some (fx_plans False))) (fx_plans False) fx_ins (fx_ask (Some fx_ana)) ExportPost (fx_http_db, [])) = Served \<and>
   serve_route (fx_http (Some (fx_plans False))) (fx_plans False) fx_ins (fx_ask (Some fx_ana)) ExportPost (fx_http_db, []) =
   serve_route (planless (fx_http (Some (fx_plans False)))) (fx_plans False) fx_ins (fx_ask (Some fx_ana)) ExportPost (fx_http_db, [])"
proof -
  have "fst (serve_route (fx_http (Some (fx_plans False))) (fx_plans False) fx_ins (fx_ask (Some fx_ana)) ExportPost (fx_http_db, [])) = Served"
    by code_simp
  moreover have "\<not> pl_enforce (fx_plans False)" by (simp add: fx_gorm)
  ultimately show ?thesis
    using shadow_mode_is_no_gate [OF fx_http_plans fx_gorm(1,2), of False "fx_plans False" fx_ins "fx_ask (Some fx_ana)" ExportPost "(fx_http_db, [])"]
    by blast
qed


end
