(* ===== verification/GuestHttpProps.thy ===== *)
theory GuestHttpProps
  imports HttpFixtures
begin

text \<open>
  What guests, projectors and the links handed to them can see: visible records only, with one
  exception and its mirror image, the fallback to the archive; that a scanned code never stands
  in the way of a session; that a stored logo is the one served.
\<close>

section \<open>Visible records only\<close>

text \<open>A record of the event a guest may see.\<close>

definition on_show :: "uuid \<Rightarrow> db \<Rightarrow> media \<Rightarrow> bool" where
  "on_show eventID s m \<longleftrightarrow> m \<in> set (t_media s) \<and> md_EventID m = eventID \<and> visible (md_Status m)"

definition all_shown :: "uuid \<Rightarrow> db \<Rightarrow> public_view list \<Rightarrow> bool" where
  "all_shown eventID s vs \<longleftrightarrow> list_all (\<lambda>v. \<exists>m. on_show eventID s m \<and> vw_ID v = md_ID m \<and> vw_Status v = md_Status m \<and>
     vw_objectKey v = md_ObjectKey m) vs"

lemma sign_keeps:
  assumes "SignPage S vs w = Inr ws"
  shows "map (\<lambda>v. (vw_ID v, vw_Status v, vw_objectKey v)) ws = map (\<lambda>v. (vw_ID v, vw_Status v, vw_objectKey v)) vs"
  using assms
proof (induction vs arbitrary: ws)
  case (Cons v vs)
  have s: "vw_ID v1 = vw_ID v \<and> vw_Status v1 = vw_Status v \<and> vw_objectKey v1 = vw_objectKey v" if "sign_source S v w = Inr v1" for v1
    using that by (auto simp: sign_source_def split: if_splits sum.splits option.splits)
  have t: "vw_ID v2 = vw_ID v1 \<and> vw_Status v2 = vw_Status v1 \<and> vw_objectKey v2 = vw_objectKey v1" if "sign_thumbnail S v1 w = Inr v2" for v1 v2
    using that by (auto simp: sign_thumbnail_def split: if_splits sum.splits)
  from Cons show ?case by (auto split: sum.splits dest!: s t)
qed simp

lemma shows_signed: "SignPage S vs w = Inr ws \<Longrightarrow> all_shown e s vs \<Longrightarrow> all_shown e s ws"
proof -
  assume a: "SignPage S vs w = Inr ws" "all_shown e s vs"
  have n: "length ws = length vs" using sign_keeps [OF a(1)] by (rule map_eq_imp_length_eq)
  have "vw_ID (ws ! i) = vw_ID (vs ! i) \<and> vw_Status (ws ! i) = vw_Status (vs ! i) \<and> vw_objectKey (ws ! i) = vw_objectKey (vs ! i)"
    if "i < length vs" for i
    using arg_cong [OF sign_keeps [OF a(1)], of "\<lambda>xs. xs ! i"] that n by simp
  then show ?thesis using a(2) n by (simp add: all_shown_def list_all_length)
qed

lemma shows_views:
  assumes "set ms \<subseteq> {m. on_show e s m}"
  shows "all_shown e s (map (newPublicView S u) ms)"
  using assms by (auto simp: all_shown_def list_all_iff newPublicView_def)

lemma set_in_order [simp]: "set (in_order b t) = set t"
  by (simp add: in_order_def)

lemma cut_page_subset: "set (fst (cut_page S lim records)) \<subseteq> set records" "int (length (fst (cut_page S lim records))) \<le> max 0 lim"
  by (auto simp: cut_page_def Let_def split: if_splits dest: in_set_takeD)

lemma ListReady_shows:
  assumes "ListReady (app_media E) u e lim c w = Inr page"
  shows "all_shown e (fst w) (cp_Data page)"
proof -
  let ?lim = "if lim < 1 \<or> 100 < lim then 60 else lim"
  obtain before where b: "parse_cursor (app_media E) c = Inr before"
    using assms by (cases "parse_cursor (app_media E) c") (simp_all add: ListReady_def Let_def)
  define records where r: "records = take (nat (?lim + 1)) (in_order False
    (filter (\<lambda>m. md_EventID m = e \<and> visible (md_Status m) \<and> after_cursor False before m) (t_media (fst w))))"
  have p: "cp_Data page = map (newPublicView (app_media E) u) (fst (cut_page (app_media E) ?lim records))"
    using assms unfolding ListReady_def Let_def b
    by (simp only: media_fields repo_fields db_ListReady_def sum.case r [symmetric]) (auto split: prod.splits)
  have "set records \<subseteq> {m. on_show e (fst w) m}" by (auto simp: r on_show_def dest: in_set_takeD)
  then have "set (fst (cut_page (app_media E) (if lim < 1 \<or> 100 < lim then 60 else lim) records)) \<subseteq> {m. on_show e (fst w) m}"
    by (rule subset_trans [OF cut_page_subset(1)])
  then show ?thesis unfolding p by (rule shows_views)
qed

lemma ListGallery_shows:
  assumes "ListGallery (app_media E) u e flt SortNewest lim c w = Inr page" "flt = FilterAll \<or> flt = FilterFavorites"
  shows "all_shown e (fst w) (gp_Data page)"
    "0 < lim \<Longrightarrow> lim \<le> 100 \<Longrightarrow> int (length (gp_Data page)) \<le> lim"
    "int (length (gp_Data page)) \<le> 100" "100 < lim \<Longrightarrow> length (gp_Data page) \<le> 24"
proof -
  let ?lim = "if lim < 1 \<or> 100 < lim then 24 else lim"
  obtain before where b: "parse_cursor (app_media E) c = Inr before"
    using assms by (cases "parse_cursor (app_media E) c") (auto simp: ListGallery_def Let_def)
  define records where r: "records = take (nat (?lim + 1)) (in_order False
    (filter (\<lambda>m. md_EventID m = e \<and> gallery_match flt m \<and> after_cursor False before m) (t_media (fst w))))"
  have f: "flt \<noteq> FilterOther ''''" "flt \<in> {FilterAll, FilterPhotos, FilterVideos, FilterFavorites, FilterHidden}"
    using assms(2) by auto
  obtain totals where n: "mr_GalleryCounts (ms_repo (app_media E)) e w = Inr totals"
    unfolding media_fields repo_fields db_GalleryCounts_def Let_def by blast
  have l: "mr_ListGallery (ms_repo (app_media E)) e flt SortNewest (?lim + 1) before w = Inr records"
    by (simp add: media_fields repo_fields db_ListGallery_def r Let_def)
  have p: "gp_Data page = map (newPublicView (app_media E) u) (fst (cut_page (app_media E) ?lim records))"
    using assms(1) f l n by (cases "before = None") (auto simp: ListGallery_def Let_def b split: prod.splits)
  have "gallery_match flt m \<Longrightarrow> visible (md_Status m)" for m using assms(2) by (auto)
  then have "set records \<subseteq> {m. on_show e (fst w) m}" by (auto simp: r on_show_def dest: in_set_takeD)
  then have "set (fst (cut_page (app_media E) ?lim records)) \<subseteq> {m. on_show e (fst w) m}"
    by (rule subset_trans [OF cut_page_subset(1)])
  then show "all_shown e (fst w) (gp_Data page)" unfolding p by (rule shows_views)
  have "int (length (gp_Data page)) \<le> max 0 ?lim" unfolding p length_map by (rule cut_page_subset(2))
  then show "0 < lim \<Longrightarrow> lim \<le> 100 \<Longrightarrow> int (length (gp_Data page)) \<le> lim"
    "int (length (gp_Data page)) \<le> 100" "100 < lim \<Longrightarrow> length (gp_Data page) \<le> 24" by (auto split: if_splits)
qed

lemma FindReady_shows:
  assumes "ReadURL (app_media E) e i w = Inr url"
  shows "\<exists>m. on_show e (fst w) m \<and> md_ID m = i \<and> me_PresignGet E (md_ObjectKey m) (snd w) = Inr url"
  using assms
  by (auto simp: ReadURL_def media_fields repo_fields db_FindReady_def found_media_def on_show_def
      split: sum.splits option.splits dest!: first_by_Some)


section \<open>The fallback to the archive\<close>

lemma keyed_row: "keyed k t \<Longrightarrow> x \<in> set t \<Longrightarrow> y \<in> set t \<Longrightarrow> k x = k y \<Longrightarrow> x = y"
  by (simp add: keyed_def inj_on_def distinct_map)

lemma FindReady_row:
  assumes "keyed md_ID (t_media s)" "m \<in> set (t_media s)" "md_EventID m = e"
  shows "db_FindReady e (md_ID m) s = (if visible (md_Status m) then Inr m else Inl (Media ErrMediaNotFound))"
proof -
  let ?p = "\<lambda>x. md_ID x = md_ID m \<and> md_EventID x = e \<and> visible (md_Status x)"
  have u: "x = m" if "x \<in> set (t_media s)" "md_ID x = md_ID m" for x
    using keyed_row [OF assms(1) that(1) assms(2) that(2)] .
  show ?thesis
  proof (cases "first_by md_ID ?p (t_media s)")
    case None
    then have "\<not> visible (md_Status m)" using assms(2,3) by (auto simp: first_by_None)
    then show ?thesis using None by (simp add: db_FindReady_def found_media_def)
  next
    case (Some x)
    then have "x = m" "visible (md_Status m)" using u [of x] first_by_Some [OF Some] by auto
    then show ?thesis using Some by (simp add: db_FindReady_def found_media_def)
  qed
qed

text \<open>C24: the fallback to the archive works the wrong way round. Of a record whose copy in the archive is
verified, a guest is streamed the bytes exactly when it is not visible - hidden by the host - and a
visible one is redirected to its key in the object store, whether or not the original was already
deleted there.\<close>

theorem archive_fallback_inverted:
  assumes H: "he_media H = app_media E" "he_archive H = Some read"
    and evt: "db_GetPublic slug (fst w) = Inr evt" "ev_GalleryEnabled evt"
    and m: "keyed md_ID (t_media (fst w))" "m \<in> set (t_media (fst w))" "md_EventID m = ev_ID evt"
    and copy: "db_FindArchivedLocation (ev_ID evt) (md_ID m) (fst w) = Inr loc" "read loc w = Inr body"
    and link: "me_PresignGet E (md_ObjectKey m) (snd w) = Inr url"
  shows "fst (public_MediaContent H slug (Some (md_ID m)) w) =
    (if visible (md_Status m) then Redirect url else Streamed body)"
proof -
  have l: "loc \<noteq> ''''" using copy(1) by (auto simp: db_FindArchivedLocation_def split: option.splits if_splits)
  have "ReadURL (he_media H) (ev_ID evt) (md_ID m) w =
      (if visible (md_Status m) then Inr url else Inl (Media ErrMediaNotFound))"
    using link by (simp add: ReadURL_def H media_fields repo_fields FindReady_row [OF m])
  moreover have "serveArchivedOriginal H (ev_ID evt) (md_ID m) w = Some body"
    using copy l by (simp add: serveArchivedOriginal_def ArchivedLocation_def H media_fields repo_fields)
  ultimately show ?thesis
    using evt by (simp add: public_MediaContent_def gallery_do_def public_do_def serve_content_def)
qed

section \<open>Sessions\<close>

definition forget_source :: "guest_session \<Rightarrow> guest_session" where
  "forget_source x = x\<lparr>gs_QRSourceCode := None\<rparr>"

definition forget_sources :: "db \<Rightarrow> db" where
  "forget_sources s = s\<lparr>t_guest_sessions := map forget_source (t_guest_sessions s)\<rparr>"

lemma CreateSession_source:
  "map_sum id (\<lambda>(x, token, e). (forget_source x, token, e)) (fst (CreateSession G i a s)) =
   map_sum id (\<lambda>(x, token, e). (forget_source x, token, e)) (fst (CreateSession G i b s)) \<and>
   forget_sources (snd (CreateSession G i a s)) = forget_sources (snd (CreateSession G i b s))"
proof (cases "gv_random G")
  case (Inr raw)
  let ?x = "\<lambda>a. new_session G i a (gv_encode G raw)"
  have k: "gs_ID (?x a) = gs_ID (?x b)" "gs_TokenHash (?x a) = gs_TokenHash (?x b)" "gs_EventID (?x a) = gs_EventID (?x b)"
    "forget_source (?x a) = forget_source (?x b)"
    by (simp_all add: new_session_def forget_source_def)
  then show ?thesis using Inr
    by (simp add: CreateSession_def db_CreateSession_def transaction_def create_session_tx_def insert_session_def
        sessions_ok_def forget_sources_def Let_def split: list.splits)
qed (simp add: CreateSession_def)

text \<open>The code of a QR sign never stands in the way of a guest: whatever is scanned - nothing, a
malformed code, a retired one - the session request is answered the same, and the database is the same
but for the source recorded with the session.\<close>

theorem source_never_blocks_a_guest:
  "fst (public_CreateSession H slug c w) = fst (public_CreateSession H slug c' w) \<and>
   forget_sources (fst (snd (public_CreateSession H slug c w))) = forget_sources (fst (snd (public_CreateSession H slug c' w))) \<and>
   snd (snd (public_CreateSession H slug c w)) = snd w"
proof (cases "db_GetPublic slug (fst w)")
  case (Inr evt)
  obtain s z where w: "w = (s, z)" by (rule prod.exhaust)
  define src where "src = (\<lambda>c. case he_insights H of None \<Rightarrow> None
    | Some I \<Rightarrow> (case ValidateSource (ev_ID evt) c s of Inl e \<Rightarrow> None | Inr x \<Rightarrow> x))"
  let ?C = "\<lambda>c. CreateSession (he_guests H) (ev_ID evt) (src c) s"
  have r: "public_CreateSession H slug c w =
     (case fst (?C c) of Inl e \<Rightarrow> Respond e
      | Inr (x, token, Some e) \<Rightarrow> if e = Guest ErrGuestLimitReached then Problem 429 ''guest_limit_reached'' else Respond e
      | Inr (x, token, None) \<Rightarrow> Body 201 token, (snd (?C c), z))" for c
    using Inr by (simp add: public_CreateSession_def public_do_def w src_def split: prod.splits sum.splits option.splits)
  show ?thesis
    using CreateSession_source [of "he_guests H" "ev_ID evt" "src c" s "src c'"]
    by (cases "fst (?C c)"; cases "fst (?C c')") (auto simp: r [unfolded w] w split: option.splits)
qed (simp add: public_CreateSession_def public_do_def)

section \<open>Logos\<close>

lemma qr_format_back: "qrLogoExtension mime = Some ext \<Longrightarrow>
    \<exists>format. qrLogoFormat mime = Some format \<and> format \<noteq> '''' \<and> qrLogoMIME format = Some mime"
  by (auto simp: qrLogoExtension_def qrLogoFormat_def qrLogoMIME_def qr_formats_def split: if_splits)

text \<open>A logo the host uploaded is the one served under the address handed out for it, as long as the
event is public, over a store that reads back what it accepted.\<close>

theorem uploaded_logo_is_served:
  assumes store: "\<forall>k m c w w1. ms_Put (he_media H) k m c w = (None, w1) \<longrightarrow> ms_OpenRead (he_media H) k w1 = Inr c"
    and up: "qr_Upload H r (Some (mime, content)) w = (Body 200 url, w1)"
    and pub: "db_GetPublic slug (fst w1) = Inr evt" "hr_id r = Some (ev_ID evt)"
  shows "\<exists>owner_slug format. url = ''/api/v1/public/events/'' @ owner_slug @ ''/qr-logo/'' @
      ms_uuid_string (he_media H) (he_fresh H) @ ''?format='' @ format \<and>
    qr_Content H slug (Some (he_fresh H)) format w1 = Streamed content"
proof -
  obtain e s1 where e: "resolveOwnedEvent H r (fst w) = (Inr e :: string reply + event, s1)"
    and g: "gated H e [FeatureFullCustomization] (\<lambda>w.
      (case qrLogoKey H (ev_ID e) (he_fresh H) mime of
         None \<Rightarrow> (Problem 400 ''invalid_logo'', w)
       | Some key \<Rightarrow> (case ms_Put (he_media H) key mime content w of
            (Some e, w1) \<Rightarrow> (Respond e, w1)
          | (None, w1) \<Rightarrow> (Body 200 (qrLogoURL H (ev_Slug e) (he_fresh H) mime), w1)))) (s1, snd w) = (Body 200 url, w1)"
  proof -
    obtain q s1 where q: "resolveOwnedEvent H r (fst w) = (q :: string reply + event, s1)" by (rule prod.exhaust)
    have "\<exists>e. q = Inr e"
    proof (cases q)
      case (Inl p)
      then have "p = Body 200 url" using up q by (simp add: qr_Upload_def customizing_def owned_do_def)
      then show ?thesis using q Inl
        by (auto simp: resolveOwnedEvent_def Respond_def split: option.splits sum.splits prod.splits if_splits)
    qed simp
    then obtain e where "q = Inr e" by blast
    moreover have "content \<noteq> '''' \<and> \<not> maxQRLogoBytes < int (length content)"
      using up q calculation
      by (auto simp: qr_Upload_def customizing_def owned_do_def gated_def Respond_def split: option.splits if_splits)
    ultimately show ?thesis using that [of e s1] up q by (simp add: qr_Upload_def customizing_def owned_do_def)
  qed
  have i: "ev_ID e = ev_ID evt"
    using e pub(2) by (auto simp: resolveOwnedEvent_def db_GetOwned_def owned_def split: option.splits sum.splits prod.splits if_splits dest!: first_by_Some)
  obtain key where key: "qrLogoKey H (ev_ID evt) (he_fresh H) mime = Some key"
    and p: "ms_Put (he_media H) key mime content (s1, snd w) = (None, w1)" "url = qrLogoURL H (ev_Slug e) (he_fresh H) mime"
    using g by (auto simp: gated_def i Respond_def split: option.splits prod.splits)
  obtain ext where "qrLogoExtension mime = Some ext" using key by (auto simp: qrLogoKey_def)
  then obtain format where f: "qrLogoFormat mime = Some format" "format \<noteq> ''''" "qrLogoMIME format = Some mime"
    using qr_format_back by blast
  have "ms_OpenRead (he_media H) key w1 = Inr content" using store p(1) by blast
  then have "qr_Content H slug (Some (he_fresh H)) format w1 = Streamed content"
    using pub(1) f key by (simp add: qr_Content_def Let_def)
  then show ?thesis using p(2) f(1) by (intro exI [of _ "ev_Slug e"] exI [of _ format]) (simp add: qrLogoURL_def)
qed

section \<open>The name of an export\<close>

text \<open>What the name of a download may consist of.\<close>

definition plain_char :: "char \<Rightarrow> bool" where
  "plain_char c \<longleftrightarrow> (let n = of_char c :: nat in (97 \<le> n \<and> n \<le> 122) \<or> (48 \<le> n \<and> n \<le> 57)) \<or> c \<in> set ''-_.''"

lemma plain_lower: "zip_char c \<Longrightarrow> plain_char (ascii_lower c)"
  by (auto simp: plain_char_def zip_char_def ascii_lower_def Let_def)

lemma squeeze_subset: "set (squeeze s) \<subseteq> set s"
  by (induction s rule: squeeze.induct) auto

lemma trim_dashes_subset: "set (trim_dashes s) \<subseteq> set s"
  by (auto simp: trim_dashes_def dest!: set_dropWhileD)

text \<open>Whatever the event is called, in whatever script, the suggested file name is of lower case
ASCII letters, digits, dashes, underscores and dots, and ends in memories.zip: it can neither split
the header it is put in nor name a directory.\<close>

theorem export_filename_safe:
  "list_all plain_char (safeExportZipFilename e) \<and>
   (\<exists>p. safeExportZipFilename e = p @ ''memories.zip'')"
proof -
  define clean where "clean = (\<lambda>base. squeeze (trim_dashes (map ascii_lower
      (map (\<lambda>c. if zip_char c then c else CHR ''-'') (filter (\<lambda>c. \<not> continues_rune c) base)))))"
  have "list_all plain_char (clean base)" for base
  proof -
    have "set (clean base) \<subseteq> ascii_lower ` {c. zip_char c}"
      unfolding clean_def using squeeze_subset trim_dashes_subset
      by (fastforce simp: zip_char_def)
    then show ?thesis using plain_lower by (auto simp: list_all_iff)
  qed
  moreover have "list_all plain_char ''-memories.zip''" "list_all plain_char ''candidcrowd-memories.zip''"
    by (simp_all add: plain_char_def)
  moreover have name: "safeExportZipFilename e = (let base = (if trim_space (ev_Slug e) = '''' then trim_space (ev_Name e) else trim_space (ev_Slug e))
     in if base = '''' \<or> clean base = '''' then ''candidcrowd-memories.zip'' else clean base @ ''-memories.zip'')"
    by (simp add: safeExportZipFilename_def clean_def Let_def)
  ultimately have "list_all plain_char (safeExportZipFilename e)"
    unfolding name Let_def by (simp only: list_all_append if_split) blast
  moreover have "''candidcrowd-memories.zip'' = ''candidcrowd-'' @ ''memories.zip''"
    "x @ ''-memories.zip'' = (x @ ''-'') @ ''memories.zip''" for x by simp_all
  ultimately show ?thesis unfolding name Let_def by metis
qed

section \<open>Witnesses\<close>


text \<open>The picture of the fixture after the archive job: a verified copy, the original deleted.\<close>

definition fx_archived :: "media_status \<Rightarrow> db" where
  "fx_archived st = fx_http_db\<lparr>t_media := [(fx_row st (Some 400) (Some 20))\<lparr>md_SourceDeletedAt := Some 30\<rparr>],
     t_replicas := [\<lparr>sr_media_id = 11, sr_provider = ProviderGoogleDrive, sr_location_reference = ''ref'',
       sr_state = ReplicaVerified, sr_size = Some 400, sr_checksum_sha256 = None, sr_verified_at = Some 25, sr_deleted_at = None\<rparr>]\<rparr>"

theorem archive_fallback_inverted_witness:
  "fst (public_MediaContent (fx_http None) ''evt_1'' (Some 11) (fx_archived MediaHidden, [])) = Streamed ''drive:ref'' \<and>
   fst (public_MediaContent (fx_http None) ''evt_1'' (Some 11) (fx_archived MediaReady, [])) =
     Redirect ''get:events/uuuuuuu/media/uuuuuuuuuuu/original.jpg''"
proof -
  have "fst (public_MediaContent (fx_http None) ''evt_1'' (Some 11) (fx_archived st, [])) =
    (if visible st then Redirect ''get:events/uuuuuuu/media/uuuuuuuuuuu/original.jpg'' else Streamed ''drive:ref'')" for st
  proof -
    let ?m = "(fx_row st (Some 400) (Some 20))\<lparr>md_SourceDeletedAt := Some 30\<rparr>"
    have H: "he_media (fx_http None) = app_media (fx_store_env 12)" "he_archive (fx_http None) = Some (\<lambda>loc w. Inr (''drive:'' @ loc))"
      by (simp_all add: fx_http_def)
    have e: "db_GetPublic ''evt_1'' (fst (fx_archived st, [] :: store)) = Inr fx_event" "ev_GalleryEnabled fx_event" "ev_ID fx_event = 7"
      by (simp_all add: db_GetPublic_def fx_archived_def fx_http_db_def fx first_by_def)
    have m: "keyed md_ID (t_media (fst (fx_archived st, [] :: store)))" "?m \<in> set (t_media (fst (fx_archived st, [] :: store)))"
      "md_EventID ?m = ev_ID fx_event" "md_ID ?m = 11" "md_Status ?m = st"
      by (simp_all add: keyed_def fx_archived_def fx_row_def e(3))
    have c: "db_FindArchivedLocation (ev_ID fx_event) (md_ID ?m) (fst (fx_archived st, [] :: store)) = Inr ''ref''"
      by (simp add: db_FindArchivedLocation_def fx_archived_def first_by_def e(3) fx_row_def)
    have l: "me_PresignGet (fx_store_env 12) (md_ObjectKey ?m) (snd (fx_archived st, [] :: store)) =
        Inr ''get:events/uuuuuuu/media/uuuuuuuuuuu/original.jpg''"
      by (simp add: fx_store_env_def fx_row_def)
    show ?thesis using archive_fallback_inverted [OF H e(1,2) m(1-3) c refl l] m(4,5) by simp
  qed
  then show ?thesis by simp
qed

end
