(* ===== verification/Paddle.thy ===== *)
theory Paddle
  imports Wiring
begin

text \<open>
  The payment provider adapters (internal/platform/paddle: webhook.go, mapper.go, client.go,
  checkout.go; internal/platform/fakepay) and their wiring (cmd/api/main.go).

  Go's strconv and strings functions are modelled on byte strings. What is not under src/ is an
  argument: \<open>wc_mac\<close> is HMAC-SHA256 under a key, \<open>wc_envelope\<close>, \<open>wc_transaction\<close> and
  \<open>wc_adjustment\<close> decode a JSON text into the Go struct of that name, \<open>wc_uuid\<close> is
  \<open>uuid.Parse\<close>, and \<open>pc_send\<close> is the provider's API: the transport error, or the status and
  the body as far as it could be read.
\<close>

section \<open>Go's strings and numbers\<close>

text \<open>\<open>strings.Split\<close> at one byte, and \<open>strings.SplitN(s, sep, 2)\<close> as a pair.\<close>

fun split_on :: "char \<Rightarrow> string \<Rightarrow> string list" where
  "split_on c [] = [[]]"
| "split_on c (x # xs) =
     (if x = c then [] # split_on c xs
      else (case split_on c xs of [] \<Rightarrow> [[x]] | h # t \<Rightarrow> (x # h) # t))"

fun cut :: "char \<Rightarrow> string \<Rightarrow> (string \<times> string) option" where
  "cut c [] = None"
| "cut c (x # xs) =
     (if x = c then Some ([], xs)
      else (case cut c xs of None \<Rightarrow> None | Some (a, b) \<Rightarrow> Some (x # a, b)))"

definition digit :: "char \<Rightarrow> bool" where
  "digit c \<longleftrightarrow> 48 \<le> (of_char c :: nat) \<and> (of_char c :: nat) \<le> 57"

definition digit_value :: "char \<Rightarrow> int" where
  "digit_value c = of_char c - 48"

definition digits_value :: "string \<Rightarrow> int" where
  "digits_value s = fold (\<lambda>c n. n * 10 + digit_value c) s 0"

text \<open>\<open>strconv.ParseInt(s, 10, 64)\<close>: None is the syntax or range error.\<close>

definition ParseInt :: "string \<Rightarrow> int option" where
  "ParseInt s =
     (let neg = has_prefix s ''-'';
          ds = (if neg \<or> has_prefix s ''+'' then drop 1 s else s);
          v = (if neg then - digits_value ds else digits_value ds)
      in if ds = [] \<or> \<not> list_all digit ds \<or> \<not> in_i64 v then None else Some v)"

text \<open>\<open>strconv.FormatInt(n, 10)\<close> and \<open>%d\<close>.\<close>

fun FormatNat :: "nat \<Rightarrow> string" where
  "FormatNat n = (if n < 10 then [char_of (48 + n)] else FormatNat (n div 10) @ [char_of (48 + n mod 10)])"

declare FormatNat.simps [simp del]

definition FormatInt :: "int \<Rightarrow> string" where
  "FormatInt n = (if n < 0 then CHR ''-'' # FormatNat (nat (- n)) else FormatNat (nat n))"

text \<open>\<open>hex.EncodeToString\<close>.\<close>

definition hex_digit :: "nat \<Rightarrow> char" where
  "hex_digit n = (if n < 10 then char_of (48 + n) else char_of (87 + n))"

definition EncodeToString :: "string \<Rightarrow> string" where
  "EncodeToString b = concat (map (\<lambda>c. [hex_digit (of_char c div 16), hex_digit (of_char c mod 16)]) b)"

text \<open>\<open>fmt.Errorf\<close> with \<open>%w\<close>: the text grows, and \<open>errors.Is\<close> still sees a sentinel.\<close>

fun wrap :: "string \<Rightarrow> error \<Rightarrow> error" where
  "wrap p (Fmt m) = Fmt (p @ m)"
| "wrap p e = e"

section \<open>Notifications (mapper.go)\<close>

record envelope =
  nv_EventID :: string
  nv_EventType :: string
  nv_OccurredAt :: time
  nv_Data :: string

record totals =
  tt_Subtotal :: string
  tt_Tax :: string
  tt_Total :: string
  tt_CurrencyCode :: string

text \<open>\<open>td_Items\<close> holds the price id of each item; the items carry nothing else.\<close>

record transaction_data =
  td_ID :: string
  td_CustomData :: "string \<Rightarrow> string option"
  td_Totals :: totals
  td_Items :: "string list"

record adjustment_data =
  ad_ID :: string
  ad_Action :: string
  ad_TransactionID :: string
  ad_Status :: string
  ad_Totals :: totals

record webhook_codec =
  wc_mac :: "string \<Rightarrow> string \<Rightarrow> string"
  wc_envelope :: "string \<Rightarrow> error + envelope"
  wc_transaction :: "string \<Rightarrow> error + transaction_data"
  wc_adjustment :: "string \<Rightarrow> error + adjustment_data"
  wc_uuid :: "string \<Rightarrow> uuid option"

definition parseMinorUnits :: "string \<Rightarrow> int" where
  "parseMinorUnits s0 =
     (let s = trim_space s0;
          n = fold (\<lambda>c n. if digit c then i64 (i64 (n * 10) + digit_value c) else n) s 0
      in if has_prefix s ''-'' then i64 (- n) else n)"

definition no_money :: money where
  "no_money = \<lparr>mn_AmountMinor = 0, mn_Currency = ''''\<rparr>"

text \<open>\<open>base\<close> of mapToCanonical: the other fields are Go's zero values.\<close>

definition base_event :: "envelope \<Rightarrow> provider_event" where
  "base_event env = \<lparr>xe_ExternalEventID = nv_EventID env, xe_DedupeKey = '''',
     xe_Type = EventTypeOther '''', xe_ExternalTransactionID = '''', xe_PurchaseID = uuid_nil,
     xe_PriceID = '''', xe_Subtotal = no_money, xe_Tax = no_money, xe_Total = no_money,
     xe_Adjustment = no_money, xe_OccurredAt = nv_OccurredAt env\<rparr>"

definition transaction_type :: "string \<Rightarrow> provider_event_type" where
  "transaction_type t =
     (if t = ''transaction.completed'' then EventPaymentSettled
      else if t = ''transaction.payment_failed'' then EventPaymentFailed
      else if t = ''transaction.canceled'' then EventPaymentCanceled
      else EventIgnored)"

text \<open>The purchase the checkout attached; the nil id where it attached none.\<close>

definition custom_purchase :: "webhook_codec \<Rightarrow> transaction_data \<Rightarrow> error + uuid" where
  "custom_purchase W d =
     (case td_CustomData d ''purchase_id'' of
        None \<Rightarrow> Inr uuid_nil
      | Some raw \<Rightarrow>
          (case wc_uuid W raw of
             None \<Rightarrow> Inl (Fmt ''paddle mapper: invalid purchase_id'') | Some i \<Rightarrow> Inr i))"

definition mapTransaction :: "webhook_codec \<Rightarrow> envelope \<Rightarrow> provider_event \<Rightarrow> error + provider_event" where
  "mapTransaction W env ev =
     (case wc_transaction W (nv_Data env) of
        Inl e \<Rightarrow> Inl (wrap ''paddle mapper: parse transaction: '' e)
      | Inr d \<Rightarrow>
     (case custom_purchase W d of
        Inl e \<Rightarrow> Inl e
      | Inr purchaseID \<Rightarrow>
          (let amount = (\<lambda>f. \<lparr>mn_AmountMinor = parseMinorUnits (f (td_Totals d)),
                              mn_Currency = tt_CurrencyCode (td_Totals d)\<rparr>)
           in Inr (ev\<lparr>xe_Type := transaction_type (nv_EventType env),
                     xe_ExternalTransactionID := td_ID d, xe_PurchaseID := purchaseID,
                     xe_PriceID := (case td_Items d of [] \<Rightarrow> xe_PriceID ev | p # _ \<Rightarrow> p),
                     xe_Subtotal := amount tt_Subtotal, xe_Tax := amount tt_Tax,
                     xe_Total := amount tt_Total\<rparr>))))"

definition mapAdjustment :: "webhook_codec \<Rightarrow> envelope \<Rightarrow> provider_event \<Rightarrow> error + provider_event" where
  "mapAdjustment W env ev0 =
     (case wc_adjustment W (nv_Data env) of
        Inl e \<Rightarrow> Inl (wrap ''paddle mapper: parse adjustment: '' e)
      | Inr d \<Rightarrow>
          (let ev = ev0\<lparr>xe_ExternalTransactionID := ad_TransactionID d\<rparr>;
               ty = (if ad_Action d = ''refund'' then Some EventPaymentRefunded
                     else if ad_Action d = ''chargeback'' \<or> ad_Action d = ''chargeback_warning''
                     then Some EventPaymentDisputed
                     else if ad_Action d = ''chargeback_reverse'' then Some EventPaymentDisputeReversed
                     else None);
               money = \<lparr>mn_AmountMinor = parseMinorUnits (tt_Total (ad_Totals d)),
                        mn_Currency = tt_CurrencyCode (ad_Totals d)\<rparr>
           in case ty of
                None \<Rightarrow> Inr (ev\<lparr>xe_Type := EventIgnored\<rparr>)
              | Some t \<Rightarrow>
                  if ad_Action d = ''refund'' \<and> ad_Status d = ''pending_approval''
                  then Inr (ev\<lparr>xe_Type := EventIgnored\<rparr>)
                  else Inr (ev\<lparr>xe_Type := t, xe_DedupeKey := ''adjustment:'' @ ad_ID d,
                              xe_Adjustment := money, xe_Total := money\<rparr>)))"

definition mapToCanonical :: "webhook_codec \<Rightarrow> string \<Rightarrow> error + provider_event" where
  "mapToCanonical W raw =
     (case wc_envelope W raw of
        Inl e \<Rightarrow> Inl (wrap ''paddle mapper: parse envelope: '' e)
      | Inr env \<Rightarrow>
          if nv_EventID env = '''' then Inl (Fmt ''paddle mapper: missing event_id'')
          else if has_prefix (nv_EventType env) ''adjustment.'' then mapAdjustment W env (base_event env)
          else if has_prefix (nv_EventType env) ''transaction.'' then mapTransaction W env (base_event env)
          else Inr ((base_event env)\<lparr>xe_Type := EventIgnored\<rparr>))"

section \<open>Signatures (webhook.go)\<close>

definition maxTimestampAge :: time where
  "maxTimestampAge = 300 * second"

text \<open>Seconds from the zero time to 1970; \<open>time.Unix\<close> adds them to an int64.\<close>

definition unixToInternal :: int where
  "unixToInternal = 62135596800"

definition Unix :: "int \<Rightarrow> time" where
  "Unix sec = i64 (sec + unixToInternal) * second"

record webhook_verifier =
  wv_secret :: string
  wv_maxAge :: time

definition NewWebhookVerifier :: "string \<Rightarrow> webhook_verifier" where
  "NewWebhookVerifier key = \<lparr>wv_secret = key, wv_maxAge = maxTimestampAge\<rparr>"

text \<open>The loop of parseSignature over the parts of the header.\<close>

fun signature_parts :: "string list \<Rightarrow> int \<Rightarrow> string list \<Rightarrow> error + int \<times> string list" where
  "signature_parts [] ts hs = Inr (ts, hs)"
| "signature_parts (part # parts) ts hs =
     (case cut (CHR ''='') part of
        None \<Rightarrow> signature_parts parts ts hs
      | Some (k, v) \<Rightarrow>
          (let key = trim_space k; val = trim_space v
           in if key = ''ts''
              then (case ParseInt val of
                      None \<Rightarrow> Inl (Fmt ''invalid timestamp'')
                    | Some n \<Rightarrow> signature_parts parts n hs)
              else if key = ''h1'' then signature_parts parts ts (hs @ [val])
              else signature_parts parts ts hs))"

definition parseSignature :: "string \<Rightarrow> error + int \<times> string list" where
  "parseSignature sig =
     (case signature_parts (split_on (CHR '';'') sig) 0 [] of
        Inl e \<Rightarrow> Inl e
      | Inr (ts, hs) \<Rightarrow>
          if ts = 0 \<or> hs = [] then Inl (Fmt ''missing ts or h1 in signature'') else Inr (ts, hs))"

definition expected_signature :: "webhook_codec \<Rightarrow> webhook_verifier \<Rightarrow> int \<Rightarrow> string \<Rightarrow> string" where
  "expected_signature W V ts rawBody =
     EncodeToString (wc_mac W (wv_secret V) (FormatInt ts @ '':'' @ rawBody))"

definition DecodeWebhook ::
  "webhook_codec \<Rightarrow> webhook_verifier \<Rightarrow> time \<Rightarrow> string \<Rightarrow> string \<Rightarrow> error + provider_event" where
  "DecodeWebhook W V now rawBody sig =
     (case parseSignature sig of
        Inl e \<Rightarrow> Inl (wrap ''paddle webhook: '' e)
      | Inr (ts, sigs) \<Rightarrow>
          (let age = now - Unix ts
           in if wv_maxAge V < age \<or> age < - wv_maxAge V
              then Inl (Fmt ''paddle webhook: timestamp too old or too far in future'')
              else if \<not> list_ex (\<lambda>s. expected_signature W V ts rawBody = s) sigs
              then Inl (Fmt ''paddle webhook: signature mismatch'')
              else mapToCanonical W rawBody))"

section \<open>Checkout (client.go, checkout.go)\<close>

record non_catalog_price =
  nc_Description :: string
  nc_ProductID :: string
  nc_Amount :: string
  nc_CurrencyCode :: string
  nc_Minimum :: int
  nc_Maximum :: int
  nc_TaxMode :: string

record transaction_item =
  it_PriceID :: string
  it_Price :: "non_catalog_price option"
  it_Quantity :: int

text \<open>The request body; an empty price id, no custom data and no checkout are left out of it.\<close>

record transaction_request =
  tr_Items :: "transaction_item list"
  tr_CustomData :: "string \<Rightarrow> string option"
  tr_Checkout :: "string option"

record transaction_input =
  ti_IdempotencyKey :: string
  ti_PriceID :: string
  ti_ProductID :: string
  ti_Description :: string
  ti_AmountMinor :: int
  ti_Currency :: string
  ti_CustomData :: "string \<Rightarrow> string option"
  ti_CheckoutURL :: string

text \<open>\<open>pc_decode\<close> reads the transaction's id and the price id of each item from an answer.\<close>

record 's paddle_client =
  pc_baseURL :: string
  pc_apiKey :: string
  pc_send :: "string \<Rightarrow> string \<Rightarrow> string \<Rightarrow> transaction_request \<Rightarrow> 's \<Rightarrow> (error + int \<times> (error + string)) \<times> 's"
  pc_decode :: "string \<Rightarrow> error + string \<times> string list"

definition paddle_base :: "string \<Rightarrow> string" where
  "paddle_base environment =
     (if environment = ''production'' then ''https://api.paddle.com'' else ''https://sandbox-api.paddle.com'')"

definition item_of_input :: "transaction_input \<Rightarrow> error + transaction_item" where
  "item_of_input i =
     (if ti_PriceID i \<noteq> ''''
      then Inr \<lparr>it_PriceID = ti_PriceID i, it_Price = None, it_Quantity = 1\<rparr>
      else if ti_ProductID i \<noteq> ''''
      then Inr \<lparr>it_PriceID = '''', it_Price = Some \<lparr>nc_Description = ti_Description i,
             nc_ProductID = ti_ProductID i, nc_Amount = FormatInt (ti_AmountMinor i),
             nc_CurrencyCode = ti_Currency i, nc_Minimum = 1, nc_Maximum = 1,
             nc_TaxMode = ''account_setting''\<rparr>, it_Quantity = 1\<rparr>
      else Inl (Fmt ''paddle: neither a price ID nor a product ID was provided''))"

text \<open>The answer to a request that was sent: the transaction, and the price it charges.\<close>

definition transaction_answer ::
  "'s paddle_client \<Rightarrow> transaction_input \<Rightarrow> error + int \<times> (error + string) \<Rightarrow> error + string \<times> string" where
  "transaction_answer C i answer =
     (case answer of
        Inl e \<Rightarrow> Inl (wrap ''paddle: send request: '' e)
      | Inr (st, Inl e) \<Rightarrow> Inl (wrap ''paddle: read response: '' e)
      | Inr (st, Inr body) \<Rightarrow>
          if 400 \<le> st then Inl (Fmt (''paddle: API error status '' @ FormatInt st @ '': '' @ body))
          else (case pc_decode C body of
                  Inl e \<Rightarrow> Inl (wrap ''paddle: parse response: '' e)
                | Inr (i1, prices) \<Rightarrow>
                    Inr (i1, if ti_PriceID i = ''''
                             then (case prices of [] \<Rightarrow> '''' | p # _ \<Rightarrow> p) else ti_PriceID i)))"

definition CreateTransaction ::
  "'s paddle_client \<Rightarrow> transaction_input \<Rightarrow> 's \<Rightarrow> (error + string \<times> string) \<times> 's" where
  "CreateTransaction C i s =
     (case item_of_input i of
        Inl e \<Rightarrow> (Inl e, s)
      | Inr item \<Rightarrow>
          (let req = \<lparr>tr_Items = [item], tr_CustomData = ti_CustomData i,
                      tr_Checkout = (if ti_CheckoutURL i = '''' then None else Some (ti_CheckoutURL i))\<rparr>
           in case pc_send C (pc_baseURL C @ ''/transactions'') (''Bearer '' @ pc_apiKey C)
                     (ti_IdempotencyKey i) req s of
                (answer, s1) \<Rightarrow> (transaction_answer C i answer, s1)))"

definition transaction_input_of ::
  "(uuid \<Rightarrow> string) \<Rightarrow> string \<Rightarrow> checkout_input \<Rightarrow> transaction_input" where
  "transaction_input_of str url inp =
     \<lparr>ti_IdempotencyKey = str (ci_PurchaseID inp), ti_PriceID = ci_ProviderPriceID inp,
      ti_ProductID = ci_ProviderProductID inp, ti_Description = ci_Description inp,
      ti_AmountMinor = ci_AmountMinor inp, ti_Currency = ci_Currency inp,
      ti_CustomData = [''purchase_id'' \<mapsto> str (ci_PurchaseID inp), ''event_id'' \<mapsto> str (ci_EventID inp)],
      ti_CheckoutURL = url\<rparr>"

definition paddle_CreateCheckout ::
  "'s paddle_client \<Rightarrow> (uuid \<Rightarrow> string) \<Rightarrow> string \<Rightarrow> checkout_input \<Rightarrow> 's \<Rightarrow> (error + checkout_target) \<times> 's" where
  "paddle_CreateCheckout C str url inp s =
     (case CreateTransaction C (transaction_input_of str url inp) s of
        (Inl e, s1) \<Rightarrow> (Inl (wrap ''paddle checkout: '' e), s1)
      | (Inr (txn, price), s1) \<Rightarrow>
          (Inr \<lparr>ct_ExternalCheckoutID = txn, ct_ProviderPriceID = price, ct_URL = ''''\<rparr>, s1))"

section \<open>The test provider (fakepay.go)\<close>

definition fake_CreateCheckout ::
  "string \<Rightarrow> (uuid \<Rightarrow> string) \<Rightarrow> checkout_input \<Rightarrow> 's \<Rightarrow> (error + checkout_target) \<times> 's" where
  "fake_CreateCheckout base str inp s =
     (let chk = ''fake_chk_'' @ str (ci_PurchaseID inp)
      in if ci_ProviderPriceID inp = '''' \<and> ci_ProviderProductID inp = ''''
         then (Inl (Fmt ''fakepay: neither a price ID nor a product ID was provided''), s)
         else (let price = (if ci_ProviderPriceID inp = ''''
                      then ''fake_pri_'' @ ci_ProviderProductID inp @ ''_'' @ FormatInt (ci_AmountMinor inp)
                      else ci_ProviderPriceID inp)
               in (Inr \<lparr>ct_ExternalCheckoutID = chk, ct_ProviderPriceID = price,
                        ct_URL = base @ ''/pay?id='' @ chk @ ''&price='' @ price @ ''&amount='' @
                          FormatInt (ci_AmountMinor inp) @ ''&currency='' @ ci_Currency inp\<rparr>, s)))"

record fake_payload =
  fp_EventID :: string
  fp_Type :: string
  fp_TransactionID :: string
  fp_PurchaseID :: string
  fp_PriceID :: string
  fp_AmountMinor :: int
  fp_Currency :: string

definition fake_DecodeWebhook ::
  "(string \<Rightarrow> error + fake_payload) \<Rightarrow> (string \<Rightarrow> uuid option) \<Rightarrow> time \<Rightarrow> string \<Rightarrow> string \<Rightarrow> error + provider_event" where
  "fake_DecodeWebhook json uuid now rawBody sig =
     (if sig \<noteq> ''valid_fake_sig'' then Inl (Fmt ''fakepay: invalid signature'')
      else case json rawBody of
        Inl e \<Rightarrow> Inl (wrap ''fakepay: parse: '' e)
      | Inr p \<Rightarrow>
     (case uuid (fp_PurchaseID p) of
        None \<Rightarrow> Inl (Fmt ''fakepay: invalid purchase id'')
      | Some i \<Rightarrow>
          (let ev = \<lparr>xe_ExternalEventID = fp_EventID p, xe_DedupeKey = '''',
                 xe_Type = (if fp_Type p = ''payment.completed'' then EventPaymentSettled else EventPaymentFailed),
                 xe_ExternalTransactionID = fp_TransactionID p, xe_PurchaseID = i,
                 xe_PriceID = fp_PriceID p,
                 xe_Subtotal = \<lparr>mn_AmountMinor = fp_AmountMinor p, mn_Currency = fp_Currency p\<rparr>,
                 xe_Tax = \<lparr>mn_AmountMinor = 0, mn_Currency = fp_Currency p\<rparr>,
                 xe_Total = \<lparr>mn_AmountMinor = fp_AmountMinor p, mn_Currency = fp_Currency p\<rparr>,
                 xe_Adjustment = no_money, xe_OccurredAt = now\<rparr>
           in if fp_Type p = ''payment.completed'' \<or> fp_Type p = ''payment.failed'' then Inr ev
              else Inl (Fmt (''fakepay: unknown type: '' @ fp_Type p)))))"

section \<open>Wiring (main.go)\<close>

text \<open>What \<open>run\<close> reads from the configuration for the paddle provider.\<close>

record paddle_settings =
  ps_environment :: string
  ps_apiKey :: string
  ps_webhookSecret :: string
  ps_checkoutURL :: string

definition NewClient ::
  "(string \<Rightarrow> string \<Rightarrow> string \<Rightarrow> transaction_request \<Rightarrow> 's \<Rightarrow> (error + int \<times> (error + string)) \<times> 's) \<Rightarrow>
   (string \<Rightarrow> error + string \<times> string list) \<Rightarrow> string \<Rightarrow> string \<Rightarrow> 's paddle_client" where
  "NewClient send dec environment key =
     \<lparr>pc_baseURL = paddle_base environment, pc_apiKey = key, pc_send = send, pc_decode = dec\<rparr>"

definition wire_paddle ::
  "db paddle_client \<Rightarrow> webhook_codec \<Rightarrow> paddle_settings \<Rightarrow> app_env \<Rightarrow> app_env" where
  "wire_paddle C W P E = E\<lparr>en_checkout := paddle_CreateCheckout C (en_uuid_string E) (ps_checkoutURL P),
     en_decoder := DecodeWebhook W (NewWebhookVerifier (ps_webhookSecret P)) (en_now E)\<rparr>"

end
