(* ===== verification/PaddleFacts.thy ===== *)
theory PaddleFacts
  imports Paddle
begin

text \<open>
  Facts about Go's strings and numbers as the provider adapters use them: printing and parsing
  of integers, trimming of text without spaces, splitting at a separator, and the signature
  header.
\<close>

section \<open>Bytes\<close>

text \<open>Bytes from ! to ~: none of them begins or ends a space.\<close>

definition graphic :: "char \<Rightarrow> bool" where
  "graphic c \<longleftrightarrow> 33 \<le> (of_char c :: nat) \<and> (of_char c :: nat) \<le> 126"

lemma of_char_of [simp]: "n < 256 \<Longrightarrow> of_char (char_of n :: char) = (n :: nat)"
  by (simp add: take_bit_eq_mod)

definition plain_byte :: "char \<Rightarrow> bool" where
  "plain_byte c \<longleftrightarrow> graphic c \<and> c \<noteq> CHR '';'' \<and> c \<noteq> CHR ''=''"

lemma plain_byte_iff:
  "plain_byte c \<longleftrightarrow> graphic c \<and> (of_char c :: nat) \<noteq> 59 \<and> (of_char c :: nat) \<noteq> 61"
proof -
  have "c = CHR '';'' \<longleftrightarrow> (of_char c :: nat) = of_char (CHR '';'')"
    "c = CHR ''='' \<longleftrightarrow> (of_char c :: nat) = of_char (CHR ''='')"
    by (simp_all only: of_char_eq_iff)
  then show ?thesis by (simp add: plain_byte_def)
qed

lemma hex_digit_plain: "n < 16 \<Longrightarrow> plain_byte (hex_digit n)"
  by (simp add: plain_byte_iff graphic_def hex_digit_def)

lemma EncodeToString_plain: "list_all plain_byte (EncodeToString b)"
proof -
  have "(of_char c :: nat) div 16 < 16" for c
    by (cases c) (simp add: of_char_def horner_sum_simps, linarith?)
  then show ?thesis
    by (auto simp: EncodeToString_def list_all_iff intro!: hex_digit_plain)
qed

lemma plain_graphic: "list_all plain_byte s \<Longrightarrow> list_all graphic s"
  by (simp add: list_all_iff plain_byte_def)

section \<open>Trimming\<close>

lemma trim_left_fuel_none: "\<forall>p \<in> set ps. \<not> has_prefix s p \<Longrightarrow> trim_left_fuel n ps s = s"
  by (cases n) (auto simp: find_None_iff split: option.splits dest!: find_Some_iff [THEN iffD1])

lemma trim_left_graphic:
  assumes "\<forall>p \<in> set ps. p \<noteq> [] \<and> \<not> graphic (hd p)" "list_all graphic s"
  shows "trim_left ps s = s"
proof -
  have "\<not> has_prefix s p" if "p \<in> set ps" for p
    using assms that by (cases s; cases p) (auto simp: has_prefix_def)
  then show ?thesis unfolding trim_left_def by (intro trim_left_fuel_none) blast
qed

lemma trim_space_graphic: "list_all graphic s \<Longrightarrow> trim_space s = s"
proof -
  assume g: "list_all graphic s"
  have "\<forall>p \<in> set utf8_spaces. p \<noteq> [] \<and> \<not> graphic (hd p)"
    "\<forall>p \<in> set (map rev utf8_spaces). p \<noteq> [] \<and> \<not> graphic (hd p)"
    by code_simp+
  with g show ?thesis
    unfolding trim_space_def by (simp add: trim_left_graphic list_all_rev)
qed

section \<open>Integers\<close>

lemma digits_value_snoc [simp]: "digits_value (s @ [c]) = digits_value s * 10 + digit_value c"
  by (simp add: digits_value_def)

lemma digit_of [simp]: "n < 10 \<Longrightarrow> digit (char_of (48 + n :: nat))"
  by (simp add: digit_def)

lemma digit_value_of [simp]: "n < 10 \<Longrightarrow> digit_value (char_of (48 + n)) = int n"
proof -
  assume "n < 10"
  then have "int (of_char (char_of (48 + n) :: char)) = 48 + int n" by simp
  then show ?thesis unfolding digit_value_def of_nat_of_char by simp
qed

lemma FormatNat_digits:
  "list_all digit (FormatNat n) \<and> FormatNat n \<noteq> [] \<and> digits_value (FormatNat n) = int n"
proof (induction n rule: FormatNat.induct)
  case (1 n)
  show ?case
  proof (cases "n < 10")
    case True
    then show ?thesis by (subst (1 2 3) FormatNat.simps) (simp add: digits_value_def)
  next
    case False
    have "n mod 10 < 10" by simp
    with False 1 show ?thesis by (subst (1 2 3) FormatNat.simps) (simp add: of_nat_mod of_nat_div)
  qed
qed

lemma digit_graphic: "digit c \<Longrightarrow> graphic c \<and> c \<noteq> CHR ''-'' \<and> c \<noteq> CHR ''+'' \<and> c \<noteq> CHR '';'' \<and> c \<noteq> CHR ''=''"
  by (auto simp: digit_def graphic_def)

lemma FormatNat_head: "\<not> has_prefix (FormatNat n) ''-''" "\<not> has_prefix (FormatNat n) ''+''"
  using FormatNat_digits [of n] digit_graphic by (cases "FormatNat n"; auto simp: has_prefix_def)+

lemma ParseInt_FormatInt: "in_i64 n \<Longrightarrow> ParseInt (FormatInt n) = Some n"
  using FormatNat_digits [of "nat n"] FormatNat_digits [of "nat (- n)"] FormatNat_head [of "nat n"]
  by (auto simp: ParseInt_def FormatInt_def Let_def) (simp_all add: has_prefix_def)

lemma FormatInt_plain: "list_all plain_byte (FormatInt n)"
proof -
  have "list_all plain_byte (FormatNat k)" for k
    using FormatNat_digits [of k] digit_graphic by (auto simp: list_all_iff plain_byte_def)
  then show ?thesis by (simp add: FormatInt_def) (simp add: plain_byte_def graphic_def)
qed

section \<open>Amounts\<close>

lemma i64_mod: "i64 x mod 2 ^ 64 = x mod 2 ^ 64"
  unfolding i64_def by (metis add_diff_cancel_right' mod_diff_left_eq)

lemma i64_cong: "x mod 2 ^ 64 = y mod 2 ^ 64 \<Longrightarrow> i64 x = i64 y"
  unfolding i64_def by (metis mod_add_left_eq)

lemma i64_inner [go_arith]:
  "i64 (i64 x + y) = i64 (x + y)" "i64 (i64 x * y) = i64 (x * y)" "i64 (- i64 x) = i64 (- x)"
  "i64 (i64 x * y + z) = i64 (x * y + z)"
  by (rule i64_cong, metis i64_mod mod_add_left_eq mod_mult_left_eq mod_minus_eq)+

lemma minor_fold:
  assumes "list_all digit ds"
  shows "fold (\<lambda>c n. if digit c then i64 (i64 (n * 10) + digit_value c) else n) ds 0 = i64 (digits_value ds)"
  using assms
proof (induction ds rule: rev_induct)
  case Nil
  show ?case by (simp add: digits_value_def i64_def)
next
  case (snoc c ds)
  then show ?case by (simp add: i64_inner)
qed

lemma parseMinorUnits_FormatNat: "parseMinorUnits (FormatNat n) = i64 (int n)"
proof -
  have g: "list_all graphic (FormatNat n)" using FormatNat_digits [of n] digit_graphic by (auto simp: list_all_iff)
  show ?thesis
    using FormatNat_digits [of n] FormatNat_head [of n]
    by (simp add: parseMinorUnits_def trim_space_graphic [OF g] minor_fold)
qed

lemma parseMinorUnits_neg: "parseMinorUnits (CHR ''-'' # FormatNat n) = i64 (- i64 (int n))"
proof -
  have g: "list_all graphic (CHR ''-'' # FormatNat n)"
    using FormatNat_digits [of n] digit_graphic by (auto simp: list_all_iff graphic_def)
  have "\<not> digit (CHR ''-'')" by (simp add: digit_def)
  then show ?thesis
    using FormatNat_digits [of n]
    by (simp add: parseMinorUnits_def trim_space_graphic [OF g] minor_fold has_prefix_def)
qed

lemma parseMinorUnits_FormatInt: "in_i64 n \<Longrightarrow> parseMinorUnits (FormatInt n) = n"
  by (cases "n < 0")
    (simp_all add: FormatInt_def parseMinorUnits_FormatNat parseMinorUnits_neg i64_inner i64_id)

section \<open>Separators\<close>

lemma split_on_none: "c \<notin> set a \<Longrightarrow> split_on c a = [a]"
  by (induction a) auto

lemma split_on_first: "c \<notin> set a \<Longrightarrow> split_on c (a @ c # b) = a # split_on c b"
  by (induction a) auto

lemma cut_first: "c \<notin> set a \<Longrightarrow> cut c (a @ c # b) = Some (a, b)"
  by (induction a) auto

section \<open>The signature header\<close>

text \<open>The header as its provider documents it: \<open>ts=1234567890;h1=abc123;h1=def456\<close>.\<close>

definition signature_header :: "int \<Rightarrow> string list \<Rightarrow> string" where
  "signature_header ts hs = ''ts='' @ FormatInt ts @ concat (map (\<lambda>h. '';h1='' @ h) hs)"

text \<open>What may stand as a signature in it: printable, without a semicolon.\<close>

definition header_value :: "string \<Rightarrow> bool" where
  "header_value h \<longleftrightarrow> list_all graphic h \<and> CHR '';'' \<notin> set h"

lemma plain_header_value: "list_all plain_byte h \<Longrightarrow> header_value h"
  by (auto simp: header_value_def list_all_iff plain_byte_def)

lemma split_header:
  assumes "CHR '';'' \<notin> set a" "\<forall>h \<in> set hs. header_value h"
  shows "split_on (CHR '';'') (a @ concat (map (\<lambda>h. '';h1='' @ h) hs)) = a # map (\<lambda>h. ''h1='' @ h) hs"
  using assms
proof (induction hs arbitrary: a)
  case Nil
  then show ?case by (simp add: split_on_none)
next
  case (Cons h hs)
  then have "CHR '';'' \<notin> set (''h1='' @ h)" by (simp add: header_value_def)
  with Cons show ?case by (simp add: split_on_first)
qed

lemma signature_parts_h1:
  "\<forall>h \<in> set hs. header_value h \<Longrightarrow> signature_parts (map (\<lambda>h. ''h1='' @ h) hs) ts acc = Inr (ts, acc @ hs)"
proof (induction hs arbitrary: acc)
  case (Cons h hs)
  have "trim_space ''h1'' = ''h1''" by (rule trim_space_graphic) (simp add: graphic_def)
  with Cons show ?case by (simp add: trim_space_graphic header_value_def)
qed simp

lemma parseSignature_header:
  assumes "in_i64 ts" "ts \<noteq> 0" "hs \<noteq> []" "\<forall>h \<in> set hs. header_value h"
  shows "parseSignature (signature_header ts hs) = Inr (ts, hs)"
proof -
  have plain: "list_all graphic (FormatInt ts)" "CHR '';'' \<notin> set (FormatInt ts)"
    using FormatInt_plain [of ts] by (auto simp: list_all_iff plain_byte_def)
  then have sep: "CHR '';'' \<notin> set (''ts='' @ FormatInt ts)" by simp
  have "trim_space ''ts'' = ''ts''" by (rule trim_space_graphic) (simp add: graphic_def)
  then show ?thesis
    using assms plain split_header [OF sep assms(4)] signature_parts_h1 [OF assms(4), of ts "[]"]
    by (simp add: parseSignature_def signature_header_def trim_space_graphic ParseInt_FormatInt)
qed

end
