(* ===== verification/BillingHttp.thy ===== *)
theory BillingHttp
  imports Http Wiring
begin

text \<open>
  The billing endpoints (internal/billing/handler.go) as cmd/api/main.go mounts them: the host
  is the user of the token's identity. Requests come parsed as in the other handlers; a body
  that could not be read is None, an absent header is the empty text.
\<close>

text \<open>
  \<open>strings.ToUpper\<close> as far as a currency in ASCII can tell: of the letters outside ASCII only
  the long s and the dotless i have an upper case in ASCII.
\<close>

definition ascii_upper :: "char \<Rightarrow> char" where
  "ascii_upper c = (if 97 \<le> (of_char c :: nat) \<and> (of_char c :: nat) \<le> 122
     then char_of (of_char c - 32 :: nat) else c)"

fun to_upper :: "string \<Rightarrow> string" where
  "to_upper [] = []"
| "to_upper (c # r) =
     (if has_prefix (c # r) [CHR 0xC5, CHR 0xBF] then CHR ''S'' # to_upper (drop 1 r)
      else if has_prefix (c # r) [CHR 0xC4, CHR 0xB1] then CHR ''I'' # to_upper (drop 1 r)
      else ascii_upper c # to_upper r)"

definition maxWebhookBody :: nat where
  "maxWebhookBody = 65536"

definition getHostID :: "profile_service \<Rightarrow> identity option \<Rightarrow> db \<Rightarrow> (error + uuid) \<times> db" where
  "getHostID P idn s =
     (case idn of
        None \<Rightarrow> (Inl (Fmt ''authenticated identity missing''), s)
      | Some i \<Rightarrow> UserID P i s)"

definition mapError :: "error \<Rightarrow> 'b reply" where
  "mapError e =
     (if e = Billing ErrBillingDisabled then Problem 404 ''billing_disabled''
      else if e = Billing ErrPurchaseNotFound then Problem 404 ''purchase_not_found''
      else if e = Billing ErrInvalidPlanTransition then Problem 409 ''invalid_plan_transition''
      else if e = Billing ErrPurchaseConflict then Problem 409 ''purchase_conflict''
      else if e = Billing ErrIdempotencyConflict then Problem 409 ''idempotency_conflict''
      else if e = Billing ErrPriceNotAvailable then Problem 422 ''price_not_available''
      else if e = Billing ErrProviderPriceNotFound then Problem 503 ''provider_price_not_configured''
      else if e = Billing ErrUnsupportedCurrency then Problem 422 ''unsupported_currency''
      else Respond e)"

text \<open>The loop of Offers: a plan the event cannot move to is left out, any other error ends it.\<close>

fun offers_loop ::
  "'s billing_service \<Rightarrow> uuid \<Rightarrow> uuid \<Rightarrow> string \<Rightarrow> plan_code list \<Rightarrow> 's \<Rightarrow> error + quote list" where
  "offers_loop S eventID hostID currency [] s = Inr []"
| "offers_loop S eventID hostID currency (p # ps) s =
     (case QuoteEventPurchase S eventID hostID p currency s of
        Inl e \<Rightarrow> if e = Billing ErrInvalidPlanTransition then offers_loop S eventID hostID currency ps s
                 else Inl e
      | Inr q \<Rightarrow> map_sum id ((#) q) (offers_loop S eventID hostID currency ps s))"

definition Offers ::
  "db billing_service \<Rightarrow> profile_service \<Rightarrow> host_request \<Rightarrow> string option \<Rightarrow> db \<Rightarrow> quote list reply \<times> db" where
  "Offers S P r currency s =
     (case hr_id r of
        None \<Rightarrow> (Problem 400 ''invalid_event_id'', s)
      | Some eventID \<Rightarrow>
     (case getHostID P (hr_identity r) s of
        (Inl e, s1) \<Rightarrow> (Problem 401 ''unauthorized'', s1)
      | (Inr hostID, s1) \<Rightarrow>
     (case offers_loop S eventID hostID (to_upper (trim_space (coalesce currency ''USD'')))
             (SellablePlans (bs_registry S)) s1 of
        Inl e \<Rightarrow> (mapError e, s1)
      | Inr qs \<Rightarrow> (Body 200 qs, s1))))"

record checkout_request =
  cq_PlanCode :: string
  cq_Currency :: string

record checkout_response =
  cr_PurchaseID :: uuid
  cr_Status :: purchase_status
  cr_SessionID :: "string option"

definition handle_CreateCheckout ::
  "db billing_service \<Rightarrow> profile_service \<Rightarrow> host_request \<Rightarrow> checkout_request option \<Rightarrow> string \<Rightarrow> db \<Rightarrow>
     checkout_response reply \<times> db" where
  "handle_CreateCheckout S P r body keyHeader s =
     (case hr_id r of
        None \<Rightarrow> (Problem 400 ''invalid_event_id'', s)
      | Some eventID \<Rightarrow>
     (case body of
        None \<Rightarrow> (Problem 400 ''invalid_request'', s)
      | Some req \<Rightarrow>
          if cq_PlanCode req = '''' \<or> cq_Currency req = '''' then (Problem 400 ''invalid_request'', s)
          else if trim_space keyHeader = '''' then (Problem 400 ''idempotency_key_required'', s)
          else
     (case getHostID P (hr_identity r) s of
        (Inl e, s1) \<Rightarrow> (Problem 401 ''unauthorized'', s1)
      | (Inr hostID, s1) \<Rightarrow>
     (case CreateCheckout S \<lparr>cc_EventID = eventID, cc_HostID = hostID, cc_PlanCode = cq_PlanCode req,
             cc_Currency = to_upper (cq_Currency req), cc_IdempotencyKey = trim_space keyHeader\<rparr> s1 of
        (Inl e, s2) \<Rightarrow> (mapError e, s2)
      | (Inr out, s2) \<Rightarrow>
          (Body 200 \<lparr>cr_PurchaseID = co_PurchaseID out, cr_Status = co_Status out,
             cr_SessionID = (if co_CheckoutSessionID out = '''' then None
                             else Some (co_CheckoutSessionID out))\<rparr>, s2)))))"

record purchase_response =
  pq_ID :: uuid
  pq_EventID :: uuid
  pq_PlanCode :: plan_code
  pq_Status :: purchase_status
  pq_EntitlementApplied :: bool

definition handle_GetPurchase ::
  "db billing_service \<Rightarrow> profile_service \<Rightarrow> identity option \<Rightarrow> uuid option \<Rightarrow> db \<Rightarrow> purchase_response reply \<times> db" where
  "handle_GetPurchase S P idn purchaseID s =
     (case purchaseID of
        None \<Rightarrow> (Problem 400 ''invalid_purchase_id'', s)
      | Some i \<Rightarrow>
     (case getHostID P idn s of
        (Inl e, s1) \<Rightarrow> (Problem 401 ''unauthorized'', s1)
      | (Inr hostID, s1) \<Rightarrow>
     (case GetPurchase S i hostID s1 of
        Inl e \<Rightarrow> (mapError e, s1)
      | Inr p \<Rightarrow>
          (Body 200 \<lparr>pq_ID = pu_ID p, pq_EventID = pu_EventID p, pq_PlanCode = pu_PlanCode p,
             pq_Status = pu_Status p, pq_EntitlementApplied = (pu_EntitlementAppliedAt p \<noteq> None)\<rparr>, s1))))"

text \<open>The provider's webhook; only the first \<open>maxWebhookBody\<close> bytes of a body are read.\<close>

definition Webhook ::
  "db billing_service \<Rightarrow> string option \<Rightarrow> string \<Rightarrow> db \<Rightarrow> string reply \<times> db" where
  "Webhook S body sig s =
     (case body of
        None \<Rightarrow> (Problem 400 ''invalid_request'', s)
      | Some b \<Rightarrow>
          if sig = '''' then (Problem 400 ''invalid_webhook_signature'', s)
          else (case HandleProviderEvent S (take maxWebhookBody b) sig s of
                  (None, s1) \<Rightarrow> (Body 200 ''ok'', s1)
                | (Some e, s1) \<Rightarrow>
                    (if e = Billing ErrPaymentIntegrityMismatch then Body 200 ''acknowledged''
                     else Problem 500 ''webhook_processing_error'', s1)))"

end
