(* ===== verification/PaddleFixtures.thy ===== *)
theory PaddleFixtures
  imports PaddleFacts BillingHttp BillingProps
begin

text \<open>
  A provider for the witnesses: notifications are named by a letter, the keyed digest is the
  last byte of the message, and the text of a uuid is as long as the uuid.
\<close>

definition fx_totals :: "string \<Rightarrow> totals" where
  "fx_totals a = \<lparr>tt_Subtotal = a, tt_Tax = ''0'', tt_Total = a, tt_CurrencyCode = ''USD''\<rparr>"

definition fx_adjustment :: "string \<Rightarrow> string \<Rightarrow> string \<Rightarrow> adjustment_data" where
  "fx_adjustment i st a = \<lparr>ad_ID = i, ad_Action = ''refund'', ad_TransactionID = ''txn_1'',
     ad_Status = st, ad_Totals = fx_totals a\<rparr>"

definition fx_note :: "string \<Rightarrow> string \<Rightarrow> string \<Rightarrow> envelope" where
  "fx_note i ty b = \<lparr>nv_EventID = i, nv_EventType = ty, nv_OccurredAt = 50, nv_Data = b\<rparr>"

definition fx_codec :: webhook_codec where
  "fx_codec = \<lparr>wc_mac = (\<lambda>k m. [last m]),
     wc_envelope = (\<lambda>b.
       if b = ''p'' then Inr (fx_note ''evt_p'' ''transaction.completed'' b)
       else if b = ''a'' \<or> b = ''r'' then Inr (fx_note (''evt_'' @ b) ''adjustment.created'' b)
       else if b = ''u'' then Inr (fx_note ''evt_u'' ''adjustment.updated'' b)
       else Inl (Fmt ''syntax'')),
     wc_transaction = (\<lambda>b. Inr \<lparr>td_ID = ''txn_1'', td_CustomData = [''purchase_id'' \<mapsto> replicate 60 CHR ''a'', ''event_id'' \<mapsto> replicate 7 CHR ''a''],
       td_Totals = fx_totals ''4900'', td_Items = [''pri_1'']\<rparr>),
     wc_adjustment = (\<lambda>b. Inr (if b = ''r'' then fx_adjustment ''adj_8'' ''rejected'' ''4900''
                              else fx_adjustment ''adj_7'' ''approved'' ''1000'')),
     wc_uuid = (\<lambda>t. Some (length t))\<rparr>"

definition fx_client :: "db paddle_client" where
  "fx_client = \<lparr>pc_baseURL = paddle_base ''sandbox'', pc_apiKey = ''k'',
     pc_send = (\<lambda>url auth key req s. (Inr (201, Inr ''txn_1''), s)), pc_decode = (\<lambda>b. Inr (b, [''pri_1'']))\<rparr>"

definition fx_settings :: paddle_settings where
  "fx_settings = \<lparr>ps_environment = ''sandbox'', ps_apiKey = ''k'', ps_webhookSecret = ''s'', ps_checkoutURL = ''''\<rparr>"

abbreviation fx_paid :: "nat \<Rightarrow> app_env" where
  "fx_paid n \<equiv> wire_paddle fx_client fx_codec fx_settings
     ((fx_env n)\<lparr>en_successURL := ''/paid'', en_cancelURL := ''/plans''\<rparr>)"

text \<open>Its clock stands at the zero time.\<close>

definition fx_ts :: int where "fx_ts = - 62135596800"

definition fx_signature :: "string \<Rightarrow> string" where
  "fx_signature raw = signature_header fx_ts
     [''0a'', expected_signature fx_codec (NewWebhookVerifier ''s'') fx_ts raw]"

lemma fx_ts_window: "in_i64 fx_ts" "fx_ts \<noteq> 0" "\<bar>60 + int n - Unix fx_ts\<bar> \<le> maxTimestampAge \<longleftrightarrow> n \<le> 299999999940"
  by (simp_all add: fx_ts_def in_i64_def Unix_def unixToInternal_def i64_def maxTimestampAge_def second_def)

lemma fx_signed:
  assumes "n \<le> 9"
  shows "DecodeWebhook fx_codec (NewWebhookVerifier ''s'') (60 + int n) raw (fx_signature raw) = mapToCanonical fx_codec raw"
proof -
  let ?V = "NewWebhookVerifier ''s''"
  let ?h = "expected_signature fx_codec ?V fx_ts raw"
  have "header_value ?h" unfolding expected_signature_def by (intro plain_header_value EncodeToString_plain)
  moreover have "header_value ''0a''" by (simp add: header_value_def graphic_def)
  ultimately have "parseSignature (fx_signature raw) = Inr (fx_ts, [''0a'', ?h])"
    unfolding fx_signature_def using fx_ts_window by (intro parseSignature_header) auto
  with fx_ts_window(3) [of n] assms show ?thesis
    by (auto simp: DecodeWebhook_def Let_def NewWebhookVerifier_def)
qed

lemma fx_bodies:
  "\<exists>ev. mapToCanonical fx_codec ''a'' = Inr ev \<and> dedupe_key ev = ''adjustment:adj_7''"
  "\<exists>ev. mapToCanonical fx_codec ''u'' = Inr ev \<and> dedupe_key ev = ''adjustment:adj_7''"
  by (simp_all add: fx_codec_def mapToCanonical_def mapAdjustment_def fx_note_def fx_adjustment_def
      has_prefix_def dedupe_key_def Let_def)

text \<open>After decoding, a delivery does not consult the decoder again.\<close>

lemma decoder_free [simp]:
  "applyEntitlement (S\<lparr>bs_decoder := d\<rparr>) = applyEntitlement S"
  "unwind_license (S\<lparr>bs_decoder := d\<rparr>) = unwind_license S"
  "event_purchase (S\<lparr>bs_decoder := d\<rparr>) = event_purchase S"
  "event_record (S\<lparr>bs_decoder := d\<rparr>) = event_record S"
  by (simp_all add: fun_eq_iff applyEntitlement_def unwind_license_def event_purchase_def event_record_def cong: option.case_cong sum.case_cong prod.case_cong if_cong)

lemma decoder_free2 [simp]:
  "handleSettlement (S\<lparr>bs_decoder := d\<rparr>) = handleSettlement S"
  "handleFailure (S\<lparr>bs_decoder := d\<rparr>) = handleFailure S"
  "handleReversal (S\<lparr>bs_decoder := d\<rparr>) = handleReversal S"
  "handleDisputeReversed (S\<lparr>bs_decoder := d\<rparr>) = handleDisputeReversed S"
  by (simp_all add: fun_eq_iff handleSettlement_def handleFailure_def handleReversal_def handleDisputeReversed_def cong: option.case_cong sum.case_cong prod.case_cong if_cong)

lemma decoder_free_route [simp]: "route_event (S\<lparr>bs_decoder := d\<rparr>) = route_event S"
  by (simp add: fun_eq_iff route_event_def split: provider_event_type.split)

lemma decoder_free3 [simp]: "process_event (S\<lparr>bs_decoder := d\<rparr>) = process_event S"
  by (simp add: fun_eq_iff process_event_def cong: option.case_cong sum.case_cong prod.case_cong if_cong)

lemma delivery_decodes_once:
  "bs_decoder S raw sig = x \<Longrightarrow>
   HandleProviderEvent S raw sig s = HandleProviderEvent (S\<lparr>bs_decoder := \<lambda>_ _. x\<rparr>) raw sig s"
  by (simp add: HandleProviderEvent_def cong: bool.case_cong option.case_cong sum.case_cong prod.case_cong if_cong)

definition fx_receiver :: "nat \<Rightarrow> string \<Rightarrow> db billing_service" where
  "fx_receiver n raw = (app_billing (fx_paid n))\<lparr>bs_decoder := \<lambda>_ _. mapToCanonical fx_codec raw\<rparr>"

lemma en_now_fx: "en_now (fx_env n) = 60 + int n"
  by (simp add: fx_env_def)

lemma fx_delivery:
  assumes "n \<le> 9"
  shows "HandleProviderEvent (app_billing (fx_paid n)) raw (fx_signature raw) s =
    HandleProviderEvent (fx_receiver n raw) raw (fx_signature raw) s"
proof -
  have "bs_decoder (app_billing (fx_paid n)) raw (fx_signature raw) = mapToCanonical fx_codec raw"
    using fx_signed [OF assms, of raw] by (simp add: app_billing_def fx_settings_def wire_paddle_def en_now_fx)
  from delivery_decodes_once [OF this, of s] show ?thesis by (simp only: fx_receiver_def)
qed

lemma fx_refund_runs: "fst (HandleProviderEvent (fx_receiver 0 ''a'') ''a'' sig fx_settled) = None"
  by code_simp

definition fx_refunded_once :: db where
  "fx_refunded_once = snd (HandleProviderEvent (fx_receiver 0 ''a'') ''a'' (fx_signature ''a'') fx_settled)"

lemma fx_rejected_books:
  "map_option pu_Status (purchase_row 60 (snd (HandleProviderEvent (fx_receiver 0 ''r'') ''r'' sig fx_settled))) =
     Some StatusRefunded"
  by code_simp

lemma fx_events_keyed: "keyed pe_ID (t_provider_events fx_settled)"
proof -
  have "length (t_provider_events fx_settled) = 1" by code_simp
  then obtain x where "t_provider_events fx_settled = [x]" by (auto simp: length_Suc_conv)
  then show ?thesis by (simp add: keyed_def)
qed

lemma fx_ordered2_row:
  "map_option (\<lambda>p. (pu_QuotedAmountMinor p, pu_QuotedCurrency p, pu_ProviderPriceID p)) (purchase_row 60 fx_ordered) =
     Some (4900, ''USD'', ''pri_1'')"
  by code_simp

definition fx_inline :: checkout_input where
  "fx_inline = \<lparr>ci_PurchaseID = 60, ci_EventID = 7, ci_PlanCode = PlanExperience, ci_Description = ''experience'',
     ci_AmountMinor = 4900, ci_Currency = ''USD'', ci_ProviderPriceID = '''', ci_ProviderProductID = ''pro_e'',
     ci_CustomerEmail = '''', ci_SuccessURL = '''', ci_CancelURL = ''''\<rparr>"

lemma fx_4900: "FormatInt 4900 = ''4900''"
proof -
  have c: "char_of (52 :: nat) = CHR ''4''" "char_of (57 :: nat) = CHR ''9''" "char_of (48 :: nat) = CHR ''0''"
    using char_of_char [of "CHR ''4''", where 'a = nat] char_of_char [of "CHR ''9''", where 'a = nat]
      char_of_char [of "CHR ''0''", where 'a = nat] by simp_all
  have "FormatNat 4 = ''4''" by (subst FormatNat.simps) (simp add: c)
  moreover have "FormatNat 49 = FormatNat 4 @ ''9''" by (subst FormatNat.simps) (simp add: c)
  moreover have "FormatNat 490 = FormatNat 49 @ ''0''" by (subst FormatNat.simps) (simp add: c)
  moreover have "FormatNat 4900 = FormatNat 490 @ ''0''" by (subst FormatNat.simps) (simp add: c)
  ultimately show ?thesis by (simp add: FormatInt_def)
qed

end
