(* ===== verification/PaddleProps.thy ===== *)
theory PaddleProps
  imports PaddleFixtures
begin

text \<open>
  The payment provider and billing together: which webhook deliveries are believed, what they
  are taken to say, and that an amount survives the way to the provider and back.
\<close>

section \<open>The wired service\<close>

lemma wire_paddle_simps [simp]:
  "en_decoder (wire_paddle C W P E) = DecodeWebhook W (NewWebhookVerifier (ps_webhookSecret P)) (en_now E)"
  "en_provider (wire_paddle C W P E) = en_provider E"
  "en_event_id (wire_paddle C W P E) = en_event_id E"
  "en_now (wire_paddle C W P E) = en_now E"
  by (simp_all add: wire_paddle_def)

lemma NewWebhookVerifier_simps [simp]:
  "wv_secret (NewWebhookVerifier k) = k" "wv_maxAge (NewWebhookVerifier k) = maxTimestampAge"
  by (simp_all add: NewWebhookVerifier_def)

section \<open>Which deliveries are believed\<close>

lemma DecodeWebhook_Inr:
  assumes "DecodeWebhook W V now raw sig = Inr ev"
  obtains ts hs where "parseSignature sig = Inr (ts, hs)" "\<bar>now - Unix ts\<bar> \<le> wv_maxAge V"
    "expected_signature W V ts raw \<in> set hs" "mapToCanonical W raw = Inr ev"
proof -
  from assms obtain ts hs where p: "parseSignature sig = Inr (ts, hs)"
    by (auto simp: DecodeWebhook_def split: sum.splits)
  with assms have "\<not> (wv_maxAge V < now - Unix ts \<or> now - Unix ts < - wv_maxAge V)"
    and "list_ex (\<lambda>h. expected_signature W V ts raw = h) hs" and "mapToCanonical W raw = Inr ev"
    by (auto simp: DecodeWebhook_def Let_def split: if_splits)
  with that [OF p] show ?thesis by (auto simp: list_ex_iff)
qed

text \<open>What a delivery that is not believed does.\<close>

lemma undecoded_delivery:
  "bs_decoder S raw sig = Inl e \<Longrightarrow> HandleProviderEvent S raw sig s = (Some e, s)"
  by (simp add: HandleProviderEvent_def)

lemma Webhook_decoded:
  assumes "Webhook S body sig s = (r, s')" "s' \<noteq> s \<or> r = Body 200 ''ok''"
  obtains b ev where "body = Some b" "bs_decoder S (take maxWebhookBody b) sig = Inr ev"
proof -
  from assms obtain b where b: "body = Some b" by (auto simp: Webhook_def split: option.splits)
  with assms have "bs_decoder S (take maxWebhookBody b) sig = Inl e \<Longrightarrow> False" for e
    by (auto simp: Webhook_def undecoded_delivery split: if_splits)
  with b that show thesis by (cases "bs_decoder S (take maxWebhookBody b) sig") auto
qed

text \<open>
  A webhook that changes anything, or is acknowledged as processed, carries a signature made with
  the secret over the timestamp in its header and the bytes that were read.
\<close>

lemma wired_changes_are_signed:
  assumes "Webhook (app_billing (wire_paddle C W P E)) body sig s = (r, s')"
    and "s' \<noteq> s \<or> r = Body 200 ''ok''"
  shows "\<exists>b ts hs. body = Some b \<and> parseSignature sig = Inr (ts, hs) \<and>
    \<bar>en_now E - Unix ts\<bar> \<le> 300 * second \<and>
    EncodeToString (wc_mac W (ps_webhookSecret P) (FormatInt ts @ '':'' @ take 65536 b)) \<in> set hs"
proof -
  obtain b ev where b: "body = Some b"
    and "bs_decoder (app_billing (wire_paddle C W P E)) (take maxWebhookBody b) sig = Inr ev"
    using Webhook_decoded [OF assms] .
  then have "DecodeWebhook W (NewWebhookVerifier (ps_webhookSecret P)) (en_now E) (take 65536 b) sig = Inr ev"
    by (simp add: app_billing_def maxWebhookBody_def)
  then show ?thesis
    by (rule DecodeWebhook_Inr) (use b in \<open>auto simp: expected_signature_def maxTimestampAge_def\<close>)
qed

section \<open>Headers of the provider\<close>

lemma signed_decodes:
  assumes "in_i64 ts" "ts \<noteq> 0" "\<bar>now - Unix ts\<bar> \<le> wv_maxAge V" "\<forall>h \<in> set (hs1 @ hs2). header_value h"
  shows "DecodeWebhook W V now raw (signature_header ts (hs1 @ expected_signature W V ts raw # hs2)) =
    mapToCanonical W raw"
proof -
  let ?h = "expected_signature W V ts raw"
  have "header_value ?h" unfolding expected_signature_def by (intro plain_header_value EncodeToString_plain)
  with assms(4) have "\<forall>h \<in> set (hs1 @ ?h # hs2). header_value h" by auto
  from parseSignature_header [OF assms(1,2) _ this] assms(3) show ?thesis
    by (auto simp: DecodeWebhook_def Let_def)
qed

text \<open>C12: the header the provider documents is understood. A timestamp within five minutes and
a list of signatures, of which one is the right one, as during a rotation of the secret, make the
delivery accepted: its decoding is that of its body alone.\<close>

theorem signed_delivery_accepted:
  assumes "in_i64 ts" "ts \<noteq> 0" "\<bar>now - Unix ts\<bar> \<le> 300 * second"
    and "\<forall>h \<in> set (hs1 @ hs2). header_value h"
  shows "DecodeWebhook W (NewWebhookVerifier key) now raw
      (signature_header ts (hs1 @ EncodeToString (wc_mac W key (FormatInt ts @ '':'' @ raw)) # hs2)) =
    mapToCanonical W raw"
  using signed_decodes [OF assms(1,2) _ assms(4), of now "NewWebhookVerifier key" W raw] assms(3)
  by (simp add: maxTimestampAge_def expected_signature_def)

theorem signed_delivery_accepted_witness:
  "DecodeWebhook fx_codec (NewWebhookVerifier ''s'') 60 ''a'' (signature_header fx_ts (['''' @ ''0a''] @
     EncodeToString (wc_mac fx_codec ''s'' (FormatInt fx_ts @ '':'' @ ''a'')) # [])) = mapToCanonical fx_codec ''a''"
proof (rule signed_delivery_accepted)
  show "\<bar>60 - Unix fx_ts\<bar> \<le> 300 * second" using fx_ts_window(3) [of 0] by (simp add: maxTimestampAge_def)
qed (use fx_ts_window in \<open>simp_all add: header_value_def graphic_def\<close>)

section \<open>Amounts there and back\<close>

text \<open>A notification about a completed transaction that charged the item of a request.\<close>

definition reports_item ::
  "webhook_codec \<Rightarrow> string \<Rightarrow> transaction_request \<Rightarrow> non_catalog_price \<Rightarrow> string \<Rightarrow> bool" where
  "reports_item W raw req nc price \<longleftrightarrow> (\<exists>env d. wc_envelope W raw = Inr env \<and>
     nv_EventID env \<noteq> '''' \<and> nv_EventType env = ''transaction.completed'' \<and>
     wc_transaction W (nv_Data env) = Inr d \<and> td_CustomData d = tr_CustomData req \<and>
     tt_Subtotal (td_Totals d) = nc_Amount nc \<and> tt_CurrencyCode (td_Totals d) = nc_CurrencyCode nc \<and>
     td_Items d = [price])"



section \<open>Refunds\<close>

text \<open>A notification that books money back, under the adjustment's id.\<close>

definition booked_adjustment :: "webhook_codec \<Rightarrow> string \<Rightarrow> string \<Rightarrow> bool" where
  "booked_adjustment W raw i \<longleftrightarrow> (\<exists>env d. wc_envelope W raw = Inr env \<and> nv_EventID env \<noteq> '''' \<and>
     has_prefix (nv_EventType env) ''adjustment.'' \<and> wc_adjustment W (nv_Data env) = Inr d \<and> ad_ID d = i \<and>
     (ad_Action d = ''refund'' \<and> ad_Status d \<noteq> ''pending_approval'' \<or>
      ad_Action d \<in> {''chargeback'', ''chargeback_warning'', ''chargeback_reverse''}))"

lemma booked_key:
  assumes "booked_adjustment W raw i" "DecodeWebhook W V now raw sig = Inr ev"
  shows "dedupe_key ev = ''adjustment:'' @ i"
proof -
  have "mapToCanonical W raw = Inr ev" using assms(2) by (rule DecodeWebhook_Inr)
  with assms(1) show ?thesis
    by (auto simp: booked_adjustment_def mapToCanonical_def mapAdjustment_def Let_def dedupe_key_def)
qed



text \<open>A refund counts whatever became of it. Any refund adjustment that is not pending
approval, a rejected one like an approved one, is taken for money returned, in the amount of its
total.\<close>

theorem refund_status_ignored:
  assumes "wc_envelope W raw = Inr env" "nv_EventID env \<noteq> ''''"
    and "has_prefix (nv_EventType env) ''adjustment.''" "wc_adjustment W (nv_Data env) = Inr d"
    and "ad_Action d = ''refund''" "ad_Status d \<noteq> ''pending_approval''"
  shows "\<exists>ev. mapToCanonical W raw = Inr ev \<and> xe_Type ev = EventPaymentRefunded \<and>
    xe_ExternalTransactionID ev = ad_TransactionID d \<and>
    mn_AmountMinor (xe_Adjustment ev) = parseMinorUnits (tt_Total (ad_Totals d))"
  using assms by (simp add: mapToCanonical_def mapAdjustment_def Let_def)

text \<open>A purchase whose refund the provider rejected is refunded in full.\<close>

theorem refund_status_ignored_witness:
  "(\<exists>ev. mapToCanonical fx_codec ''r'' = Inr ev \<and> xe_Type ev = EventPaymentRefunded) \<and>
   ad_Status (fx_adjustment ''adj_8'' ''rejected'' ''4900'') = ''rejected'' \<and>
   map_option pu_Status (purchase_row 60
     (snd (HandleProviderEvent (app_billing (fx_paid 0)) ''r'' (fx_signature ''r'') fx_settled))) = Some StatusRefunded"
proof -
  have "\<exists>ev. mapToCanonical fx_codec ''r'' = Inr ev \<and> xe_Type ev = EventPaymentRefunded \<and>
      xe_ExternalTransactionID ev = ad_TransactionID (fx_adjustment ''adj_8'' ''rejected'' ''4900'') \<and>
      mn_AmountMinor (xe_Adjustment ev) = parseMinorUnits (tt_Total (ad_Totals (fx_adjustment ''adj_8'' ''rejected'' ''4900'')))"
    by (rule refund_status_ignored [where env = "fx_note ''evt_r'' ''adjustment.created'' ''r''"])
      (simp_all add: fx_codec_def fx_note_def fx_adjustment_def has_prefix_def)
  then show ?thesis
    using fx_rejected_books [of "fx_signature ''r''"] fx_delivery [of 0 "''r''" fx_settled]
    by (auto simp: fx_adjustment_def)
qed

section \<open>What is not booked\<close>

text \<open>A notification of another kind is acknowledged, and only the log of deliveries knows it.\<close>

lemma other_notification_ignored:
  assumes "wc_envelope W raw = Inr env" "nv_EventID env \<noteq> ''''"
    and "\<not> has_prefix (nv_EventType env) ''adjustment.''" "\<not> has_prefix (nv_EventType env) ''transaction.''"
  shows "\<exists>ev. mapToCanonical W raw = Inr ev \<and> xe_Type ev = EventIgnored"
  using assms by (simp add: mapToCanonical_def)

text \<open>
  But one about a transaction of another system is refused, although nothing would be done about
  it, when that system put something else than a uuid under \<open>purchase_id\<close>.
\<close>

lemma foreign_transaction_refused:
  assumes "wc_envelope W raw = Inr env" "nv_EventID env \<noteq> ''''" "nv_EventType env = ''transaction.updated''"
    and "wc_transaction W (nv_Data env) = Inr d" "td_CustomData d ''purchase_id'' = Some x" "wc_uuid W x = None"
  shows "mapToCanonical W raw = Inl (Fmt ''paddle mapper: invalid purchase_id'')"
  using assms by (simp add: mapToCanonical_def mapTransaction_def custom_purchase_def has_prefix_def)

end
