(* ===== verification/Config.thy ===== *)
theory Config
  imports BillingHttp Paddle Retention
begin

text \<open>
  The configuration of the API process (internal/config/config.go) and what cmd/api/main.go
  makes of it: which services are wired, which routes are mounted, which jobs run.

  The environment is a function from names to values, the empty text for a variable that is not
  set, after the optional .env file has been merged into it. \<open>time.ParseDuration\<close> is the argument
  \<open>dur\<close>. A problem keeps what its message is made of.
\<close>

section \<open>Reading values\<close>

datatype config_problem =
    BadDuration string string
  | BadInteger string string
  | BadBoolean string string
  | ProviderNotConfigured string
  | MissingVariables "string list"

definition str :: "(string \<Rightarrow> string) \<Rightarrow> string \<Rightarrow> string \<Rightarrow> string" where
  "str env k d = (if env k = '''' then d else env k)"

text \<open>\<open>strconv.ParseBool\<close>.\<close>

definition ParseBool :: "string \<Rightarrow> bool option" where
  "ParseBool s =
     (if s \<in> {''1'', ''t'', ''T'', ''TRUE'', ''true'', ''True''} then Some True
      else if s \<in> {''0'', ''f'', ''F'', ''FALSE'', ''false'', ''False''} then Some False
      else None)"

text \<open>
  A value and the problem of reading it. \<open>parseInt\<close> is also parseInt64: \<open>int\<close> has 64 bits, and
  Atoi and ParseInt read the same texts.
\<close>

definition parseInt :: "(string \<Rightarrow> string) \<Rightarrow> string \<Rightarrow> int \<Rightarrow> int" where
  "parseInt env k d = (if env k = '''' then d else coalesce (ParseInt (env k)) d)"

definition int_error :: "(string \<Rightarrow> string) \<Rightarrow> string \<Rightarrow> config_problem list" where
  "int_error env k = (if env k \<noteq> '''' \<and> ParseInt (env k) = None then [BadInteger k (env k)] else [])"

definition parseBool :: "(string \<Rightarrow> string) \<Rightarrow> string \<Rightarrow> bool \<Rightarrow> bool" where
  "parseBool env k d = (if env k = '''' then d else coalesce (ParseBool (env k)) d)"

definition bool_error :: "(string \<Rightarrow> string) \<Rightarrow> string \<Rightarrow> config_problem list" where
  "bool_error env k = (if env k \<noteq> '''' \<and> ParseBool (env k) = None then [BadBoolean k (env k)] else [])"

text \<open>A duration that does not parse is zero.\<close>

definition parseDuration ::
  "(string \<Rightarrow> time option) \<Rightarrow> (string \<Rightarrow> string) \<Rightarrow> string \<Rightarrow> string \<Rightarrow> time" where
  "parseDuration dur env k d = coalesce (dur (str env k d)) 0"

definition duration_error ::
  "(string \<Rightarrow> time option) \<Rightarrow> (string \<Rightarrow> string) \<Rightarrow> string \<Rightarrow> string \<Rightarrow> config_problem list" where
  "duration_error dur env k d =
     (if dur (str env k d) = None then [BadDuration k (str env k d)] else [])"

section \<open>Load\<close>

record config =
  cf_Env :: string
  cf_HTTPAddr :: string
  cf_LogLevel :: string
  cf_DatabaseURL :: string
  cf_DBMaxOpen :: int
  cf_DBMaxIdle :: int
  cf_DBConnLifetime :: time
  cf_RedisURL :: string
  cf_BetterAuthJWKS :: string
  cf_BetterAuthIssuer :: string
  cf_BetterAuthAudience :: string
  cf_CORSAllowedOrigins :: string
  cf_TermsVersion :: string
  cf_PrivacyVersion :: string
  cf_R2Endpoint :: string
  cf_R2Region :: string
  cf_R2Bucket :: string
  cf_R2AccessKey :: string
  cf_R2Secret :: string
  cf_PresignExpiry :: time
  cf_MaxImageBytes :: int
  cf_MaxVideoBytes :: int
  cf_EventMaxBytes :: int
  cf_UploadRateLimit :: int
  cf_RateWindow :: time
  cf_StaleUploadAge :: time
  cf_StaleUploadSchedule :: string
  cf_PlansCatalogEnabled :: bool
  cf_PlansPricingUIEnabled :: bool
  cf_ManualPlanActivationEnabled :: bool
  cf_EntitlementEnforcementEnabled :: bool
  cf_RetentionEnforcementEnabled :: bool
  cf_RetentionGrace :: time
  cf_RetentionSchedule :: string
  cf_RetentionBatch :: int
  cf_RateLimitEventCreateIP :: int
  cf_RateLimitEventCreateHost :: int
  cf_MaxActiveEventsPerHost :: int
  cf_MaxTrialEventsPer30Days :: int
  cf_EventCreationLimitsEnabled :: bool
  cf_BillingEnabled :: bool
  cf_BillingProvider :: string
  cf_BillingCurrency :: string
  cf_BillingSuccessURL :: string
  cf_BillingCancelURL :: string
  cf_BillingReconcileSchedule :: string
  cf_BillingReconcileBatch :: int
  cf_PaddleEnvironment :: string
  cf_PaddleAPIKey :: string
  cf_PaddleWebhookSecret :: string
  cf_PaddleCheckoutURL :: string
  cf_RunWorker :: bool
  cf_MediaWorkerConcurrency :: int
  cf_MediaWorkerIdle :: time
  cf_ExportIdle :: time
  cf_AnalyticsCacheTTL :: time
  cf_RealtimeEnabled :: bool
  cf_RealtimeBuffer :: int
  cf_RealtimeHeartbeat :: time
  cf_RealtimeStreamMaxAge :: time
  cf_RealtimeRetry :: time
  cf_RealtimeMaxPerEvent :: int
  cf_RealtimeConnectRate :: int
  cf_RealtimeConnectWindow :: time
  cf_DailyArchiveEnabled :: bool
  cf_DailyArchiveSchedule :: string
  cf_DailyArchiveMinAge :: time
  cf_GoogleDriveClientID :: string
  cf_GoogleDriveSecret :: string
  cf_GoogleDriveRefresh :: string
  cf_GoogleDriveRootFolder :: string

definition read_config :: "(string \<Rightarrow> time option) \<Rightarrow> (string \<Rightarrow> string) \<Rightarrow> config" where
  "read_config dur env = \<lparr>
     cf_Env = str env ''APP_ENV'' ''development'', cf_HTTPAddr = str env ''HTTP_ADDR'' '':8080'',
     cf_LogLevel = str env ''LOG_LEVEL'' ''info'', cf_DatabaseURL = env ''DATABASE_URL'',
     cf_DBMaxOpen = parseInt env ''DB_MAX_OPEN_CONNS'' 25,
     cf_DBMaxIdle = parseInt env ''DB_MAX_IDLE_CONNS'' 10,
     cf_DBConnLifetime = parseDuration dur env ''DB_CONN_MAX_LIFETIME'' ''30m'',
     cf_RedisURL = env ''REDIS_URL'', cf_BetterAuthJWKS = env ''BETTER_AUTH_JWKS_URL'',
     cf_BetterAuthIssuer = env ''BETTER_AUTH_ISSUER'',
     cf_BetterAuthAudience = env ''BETTER_AUTH_AUDIENCE'',
     cf_CORSAllowedOrigins = env ''CORS_ALLOWED_ORIGINS'',
     cf_TermsVersion = str env ''TERMS_VERSION'' ''2026-01'',
     cf_PrivacyVersion = str env ''PRIVACY_VERSION'' ''2026-01'',
     cf_R2Endpoint = env ''R2_ENDPOINT'', cf_R2Region = str env ''R2_REGION'' ''auto'',
     cf_R2Bucket = env ''R2_BUCKET'', cf_R2AccessKey = env ''R2_ACCESS_KEY_ID'',
     cf_R2Secret = env ''R2_SECRET_ACCESS_KEY'',
     cf_PresignExpiry = parseDuration dur env ''R2_PRESIGN_EXPIRY'' ''15m'',
     cf_MaxImageBytes = parseInt env ''UPLOAD_MAX_IMAGE_BYTES'' (25 * 2 ^ 20),
     cf_MaxVideoBytes = parseInt env ''UPLOAD_MAX_VIDEO_BYTES'' (500 * 2 ^ 20),
     cf_EventMaxBytes = parseInt env ''EVENT_MAX_MEDIA_BYTES'' (5 * 2 ^ 30),
     cf_UploadRateLimit = parseInt env ''UPLOAD_RATE_LIMIT'' 20,
     cf_RateWindow = parseDuration dur env ''UPLOAD_RATE_WINDOW'' ''1m'',
     cf_StaleUploadAge = parseDuration dur env ''UPLOAD_STALE_AGE'' ''24h'',
     cf_StaleUploadSchedule = str env ''UPLOAD_STALE_CLEANUP_SCHEDULE'' ''*/15 * * * *'',
     cf_PlansCatalogEnabled = parseBool env ''PLANS_CATALOG_ENABLED'' True,
     cf_PlansPricingUIEnabled = parseBool env ''PLANS_PRICING_UI_ENABLED'' False,
     cf_ManualPlanActivationEnabled = parseBool env ''MANUAL_PLAN_ACTIVATION_ENABLED'' False,
     cf_EntitlementEnforcementEnabled = parseBool env ''ENTITLEMENT_ENFORCEMENT_ENABLED'' False,
     cf_RetentionEnforcementEnabled = parseBool env ''RETENTION_ENFORCEMENT_ENABLED'' False,
     cf_RetentionGrace = parseDuration dur env ''RETENTION_GRACE'' ''720h'',
     cf_RetentionSchedule = str env ''RETENTION_SCHEDULE'' ''30 3 * * *'',
     cf_RetentionBatch = parseInt env ''RETENTION_BATCH'' 25,
     cf_RateLimitEventCreateIP = parseInt env ''RATE_LIMIT_EVENT_CREATE_IP'' 10,
     cf_RateLimitEventCreateHost = parseInt env ''RATE_LIMIT_EVENT_CREATE_HOST'' 2,
     cf_MaxActiveEventsPerHost = parseInt env ''MAX_ACTIVE_EVENTS_PER_HOST'' 1,
     cf_MaxTrialEventsPer30Days = parseInt env ''MAX_TRIAL_EVENTS_PER_30_DAYS'' 2,
     cf_EventCreationLimitsEnabled = parseBool env ''EVENT_CREATION_LIMITS_ENABLED'' True,
     cf_BillingEnabled = parseBool env ''BILLING_ENABLED'' False,
     cf_BillingProvider = str env ''BILLING_PROVIDER'' ''paddle'',
     cf_BillingCurrency = to_upper (str env ''BILLING_CURRENCY'' ''USD''),
     cf_BillingSuccessURL = env ''BILLING_SUCCESS_URL'',
     cf_BillingCancelURL = env ''BILLING_CANCEL_URL'',
     cf_BillingReconcileSchedule = str env ''BILLING_RECONCILE_SCHEDULE'' ''*/5 * * * *'',
     cf_BillingReconcileBatch = parseInt env ''BILLING_RECONCILE_BATCH'' 50,
     cf_PaddleEnvironment = str env ''PADDLE_ENVIRONMENT'' ''sandbox'',
     cf_PaddleAPIKey = env ''PADDLE_API_KEY'',
     cf_PaddleWebhookSecret = env ''PADDLE_WEBHOOK_SECRET'',
     cf_PaddleCheckoutURL = env ''PADDLE_CHECKOUT_URL'',
     cf_RunWorker = parseBool env ''RUN_WORKER'' True,
     cf_MediaWorkerConcurrency = parseInt env ''MEDIA_WORKER_CONCURRENCY'' 2,
     cf_MediaWorkerIdle = parseDuration dur env ''MEDIA_WORKER_IDLE'' ''5s'',
     cf_ExportIdle = parseDuration dur env ''EXPORT_WORKER_IDLE'' ''5s'',
     cf_AnalyticsCacheTTL = parseDuration dur env ''ANALYTICS_CACHE_TTL'' ''30s'',
     cf_RealtimeEnabled = parseBool env ''REALTIME_ENABLED'' True,
     cf_RealtimeBuffer = parseInt env ''REALTIME_CLIENT_BUFFER'' 32,
     cf_RealtimeHeartbeat = parseDuration dur env ''REALTIME_HEARTBEAT'' ''20s'',
     cf_RealtimeStreamMaxAge = parseDuration dur env ''REALTIME_STREAM_MAX_AGE'' ''30m'',
     cf_RealtimeRetry = parseDuration dur env ''REALTIME_RETRY'' ''3s'',
     cf_RealtimeMaxPerEvent = parseInt env ''REALTIME_MAX_CONNECTIONS_PER_EVENT'' 500,
     cf_RealtimeConnectRate = parseInt env ''REALTIME_CONNECT_RATE'' 30,
     cf_RealtimeConnectWindow = parseDuration dur env ''REALTIME_CONNECT_WINDOW'' ''1m'',
     cf_DailyArchiveEnabled = parseBool env ''MEDIA_DAILY_ARCHIVE_ENABLED'' False,
     cf_DailyArchiveSchedule = str env ''MEDIA_DAILY_ARCHIVE_SCHEDULE'' ''0 2 * * *'',
     cf_DailyArchiveMinAge = parseDuration dur env ''MEDIA_DAILY_ARCHIVE_MIN_AGE'' ''24h'',
     cf_GoogleDriveClientID = env ''GOOGLE_DRIVE_CLIENT_ID'',
     cf_GoogleDriveSecret = env ''GOOGLE_DRIVE_CLIENT_SECRET'',
     cf_GoogleDriveRefresh = env ''GOOGLE_DRIVE_REFRESH_TOKEN'',
     cf_GoogleDriveRootFolder = env ''GOOGLE_DRIVE_ROOT_FOLDER_ID''\<rparr>"

text \<open>The problems of reading, in the order of the fields.\<close>

definition read_problems :: "(string \<Rightarrow> time option) \<Rightarrow> (string \<Rightarrow> string) \<Rightarrow> config_problem list" where
  "read_problems dur env = concat [
     int_error env ''DB_MAX_OPEN_CONNS'', int_error env ''DB_MAX_IDLE_CONNS'',
     duration_error dur env ''DB_CONN_MAX_LIFETIME'' ''30m'',
     duration_error dur env ''R2_PRESIGN_EXPIRY'' ''15m'',
     int_error env ''UPLOAD_MAX_IMAGE_BYTES'', int_error env ''UPLOAD_MAX_VIDEO_BYTES'',
     int_error env ''EVENT_MAX_MEDIA_BYTES'', int_error env ''UPLOAD_RATE_LIMIT'',
     duration_error dur env ''UPLOAD_RATE_WINDOW'' ''1m'',
     duration_error dur env ''UPLOAD_STALE_AGE'' ''24h'',
     bool_error env ''PLANS_CATALOG_ENABLED'', bool_error env ''PLANS_PRICING_UI_ENABLED'',
     bool_error env ''MANUAL_PLAN_ACTIVATION_ENABLED'',
     bool_error env ''ENTITLEMENT_ENFORCEMENT_ENABLED'',
     bool_error env ''RETENTION_ENFORCEMENT_ENABLED'',
     duration_error dur env ''RETENTION_GRACE'' ''720h'', int_error env ''RETENTION_BATCH'',
     int_error env ''RATE_LIMIT_EVENT_CREATE_IP'',
     int_error env ''RATE_LIMIT_EVENT_CREATE_HOST'',
     int_error env ''MAX_ACTIVE_EVENTS_PER_HOST'',
     int_error env ''MAX_TRIAL_EVENTS_PER_30_DAYS'',
     bool_error env ''EVENT_CREATION_LIMITS_ENABLED'', bool_error env ''BILLING_ENABLED'',
     int_error env ''BILLING_RECONCILE_BATCH'', bool_error env ''RUN_WORKER'',
     int_error env ''MEDIA_WORKER_CONCURRENCY'',
     duration_error dur env ''MEDIA_WORKER_IDLE'' ''5s'',
     duration_error dur env ''EXPORT_WORKER_IDLE'' ''5s'',
     duration_error dur env ''ANALYTICS_CACHE_TTL'' ''30s'', bool_error env ''REALTIME_ENABLED'',
     int_error env ''REALTIME_CLIENT_BUFFER'',
     duration_error dur env ''REALTIME_HEARTBEAT'' ''20s'',
     duration_error dur env ''REALTIME_STREAM_MAX_AGE'' ''30m'',
     duration_error dur env ''REALTIME_RETRY'' ''3s'',
     int_error env ''REALTIME_MAX_CONNECTIONS_PER_EVENT'',
     int_error env ''REALTIME_CONNECT_RATE'',
     duration_error dur env ''REALTIME_CONNECT_WINDOW'' ''1m'',
     bool_error env ''MEDIA_DAILY_ARCHIVE_ENABLED'',
     duration_error dur env ''MEDIA_DAILY_ARCHIVE_MIN_AGE'' ''24h'']"

text \<open>The names of a list of settings that are empty.\<close>

definition absent :: "(string \<times> string) list \<Rightarrow> string list" where
  "absent xs = map fst (filter (\<lambda>x. snd x = '''') xs)"

definition missing_variables :: "config \<Rightarrow> string list" where
  "missing_variables c =
     absent [(''DATABASE_URL'', cf_DatabaseURL c), (''REDIS_URL'', cf_RedisURL c),
       (''BETTER_AUTH_JWKS_URL'', cf_BetterAuthJWKS c), (''R2_ENDPOINT'', cf_R2Endpoint c),
       (''R2_BUCKET'', cf_R2Bucket c)] @
     (if cf_Env c = ''development'' then []
      else absent [(''R2_ACCESS_KEY_ID'', cf_R2AccessKey c), (''R2_SECRET_ACCESS_KEY'', cf_R2Secret c)]) @
     (if cf_DailyArchiveEnabled c
      then absent [(''GOOGLE_DRIVE_CLIENT_ID'', cf_GoogleDriveClientID c),
        (''GOOGLE_DRIVE_CLIENT_SECRET'', cf_GoogleDriveSecret c),
        (''GOOGLE_DRIVE_REFRESH_TOKEN'', cf_GoogleDriveRefresh c),
        (''GOOGLE_DRIVE_ROOT_FOLDER_ID'', cf_GoogleDriveRootFolder c)]
      else []) @
     (if cf_BillingEnabled c \<and> cf_BillingProvider c = ''paddle''
      then absent [(''PADDLE_API_KEY'', cf_PaddleAPIKey c),
        (''PADDLE_WEBHOOK_SECRET'', cf_PaddleWebhookSecret c),
        (''BILLING_SUCCESS_URL'', cf_BillingSuccessURL c), (''BILLING_CANCEL_URL'', cf_BillingCancelURL c)]
      else [])"

definition config_problems :: "(string \<Rightarrow> time option) \<Rightarrow> (string \<Rightarrow> string) \<Rightarrow> config_problem list" where
  "config_problems dur env =
     (let c = read_config dur env; missing = missing_variables c
      in read_problems dur env @
         (if cf_BillingEnabled c \<and> cf_BillingProvider c \<noteq> ''paddle''
          then [ProviderNotConfigured (cf_BillingProvider c)] else []) @
         (if missing = [] then [] else [MissingVariables missing]))"

definition Load :: "(string \<Rightarrow> time option) \<Rightarrow> (string \<Rightarrow> string) \<Rightarrow> config_problem list + config" where
  "Load dur env =
     (let ps = config_problems dur env in if ps = [] then Inr (read_config dur env) else Inl ps)"

section \<open>Startup (cmd/api/main.go)\<close>

text \<open>The background jobs of \<open>run\<close>, in the order they are started.\<close>

datatype job =
    MediaWorkers int
  | ExportWorker
  | StaleUploadCleanup
  | BillingReconciliation int
  | RetentionJob int bool
  | DailyArchive

definition jobs :: "config \<Rightarrow> job list" where
  "jobs c =
     (if \<not> cf_RunWorker c then []
      else [MediaWorkers (cf_MediaWorkerConcurrency c), ExportWorker, StaleUploadCleanup] @
        (if cf_BillingEnabled c then [BillingReconciliation (cf_BillingReconcileBatch c)] else []) @
        [RetentionJob (cf_RetentionBatch c) (cf_RetentionEnforcementEnabled c)] @
        (if cf_DailyArchiveEnabled c then [DailyArchive] else []))"

text \<open>The route groups that are mounted only when their feature is on.\<close>

record mounts =
  mt_Billing :: bool
  mt_Catalog :: bool
  mt_Stream :: bool
  mt_ArchiveReader :: bool

definition mounts_of :: "config \<Rightarrow> mounts" where
  "mounts_of c = \<lparr>mt_Billing = cf_BillingEnabled c, mt_Catalog = cf_PlansCatalogEnabled c,
     mt_Stream = cf_RealtimeEnabled c, mt_ArchiveReader = cf_DailyArchiveEnabled c\<rparr>"

text \<open>
  The billing service: its settings come from the configuration, and its provider is wired for
  paddle only. \<open>E\<close> has what does not, and a gateway and decoder that are nil.
\<close>

definition paddle_settings_of :: "config \<Rightarrow> paddle_settings" where
  "paddle_settings_of c = \<lparr>ps_environment = cf_PaddleEnvironment c, ps_apiKey = cf_PaddleAPIKey c,
     ps_webhookSecret = cf_PaddleWebhookSecret c, ps_checkoutURL = cf_PaddleCheckoutURL c\<rparr>"

definition billing_env :: "config \<Rightarrow> app_env \<Rightarrow> app_env" where
  "billing_env c E = E\<lparr>en_provider := cf_BillingProvider c, en_currency := cf_BillingCurrency c,
     en_enabled := cf_BillingEnabled c, en_successURL := cf_BillingSuccessURL c,
     en_cancelURL := cf_BillingCancelURL c\<rparr>"

definition start_billing ::
  "(string \<Rightarrow> string \<Rightarrow> db paddle_client) \<Rightarrow> webhook_codec \<Rightarrow> config \<Rightarrow> app_env \<Rightarrow> db billing_service option" where
  "start_billing client W c E =
     (if \<not> cf_BillingEnabled c then None
      else Some (app_billing
        (if cf_BillingProvider c = ''paddle''
         then wire_paddle (client (cf_PaddleEnvironment c) (cf_PaddleAPIKey c)) W (paddle_settings_of c) (billing_env c E)
         else billing_env c E)))"

text \<open>The retention service; a grace that is not positive leaves the default.\<close>

definition start_retention :: "config \<Rightarrow> 's retention_service \<Rightarrow> 's retention_service" where
  "start_retention c R = R\<lparr>rs_enforce := cf_RetentionEnforcementEnabled c,
     rs_grace := (if 0 < cf_RetentionGrace c then cf_RetentionGrace c else DefaultGrace),
     rs_archive_Delete := (if cf_DailyArchiveEnabled c then rs_archive_Delete R else None)\<rparr>"

definition start_plans :: "config \<Rightarrow> plan_service \<Rightarrow> plan_service" where
  "start_plans c P = P\<lparr>pl_catalog := gorm_catalog, pl_grants := gorm_grants,
     pl_enforce := cf_EntitlementEnforcementEnabled c\<rparr>"

definition start_events :: "config \<Rightarrow> event_service \<Rightarrow> event_service" where
  "start_events c S = WithLimits (cf_MaxActiveEventsPerHost c) (cf_MaxTrialEventsPer30Days c)
     (cf_EventCreationLimitsEnabled c) (S\<lparr>vs_eventMaxBytes := cf_EventMaxBytes c\<rparr>)"

definition start_profiles :: "config \<Rightarrow> profile_service \<Rightarrow> profile_service" where
  "start_profiles c P = P\<lparr>pf_termsVersion := cf_TermsVersion c, pf_privacyVersion := cf_PrivacyVersion c\<rparr>"

text \<open>A run of the retention job, as its schedule calls it.\<close>

definition retention_tick :: "config \<Rightarrow> 's retention_service \<Rightarrow> 's \<Rightarrow> (error + retention_report) \<times> 's" where
  "retention_tick c R s = RetentionRun (start_retention c R) (cf_RetentionBatch c) False s"

end
