(* ===== verification/ConfigProps.thy ===== *)
theory ConfigProps
  imports Config PaddleProps
begin

text \<open>
  A process that starts: its secrets are there, and what deletes media or takes money runs only
  when it was asked for.
\<close>

section \<open>Fields\<close>

lemmas config_fields = config.simps read_config_def

lemma read_billing [simp]:
  "cf_BillingEnabled (read_config dur env) = parseBool env ''BILLING_ENABLED'' False"
  "cf_PaddleWebhookSecret (read_config dur env) = env ''PADDLE_WEBHOOK_SECRET''"
  "cf_PaddleAPIKey (read_config dur env) = env ''PADDLE_API_KEY''"
  by (simp_all only: config_fields)

lemma read_rollout [simp]:
  "cf_RetentionEnforcementEnabled (read_config dur env) = parseBool env ''RETENTION_ENFORCEMENT_ENABLED'' False"
  "cf_EntitlementEnforcementEnabled (read_config dur env) = parseBool env ''ENTITLEMENT_ENFORCEMENT_ENABLED'' False"
  "cf_DailyArchiveEnabled (read_config dur env) = parseBool env ''MEDIA_DAILY_ARCHIVE_ENABLED'' False"
  by (simp_all only: config_fields)

lemma Load_Inr: "Load dur env = Inr c \<Longrightarrow> c = read_config dur env \<and> config_problems dur env = []"
  by (auto simp: Load_def Let_def split: if_splits)

lemma asked_for: "parseBool env k False \<Longrightarrow> ParseBool (env k) = Some True"
  by (cases "ParseBool (env k)") (auto simp: parseBool_def split: if_splits)

lemma absent_Nil: "absent xs = [] \<longleftrightarrow> (\<forall>x \<in> set xs. snd x \<noteq> '''')"
  by (auto simp: absent_def filter_empty_conv)

lemma Load_complete:
  assumes "Load dur env = Inr c"
  shows "missing_variables c = []" "cf_BillingEnabled c \<Longrightarrow> cf_BillingProvider c = ''paddle''"
  using Load_Inr [OF assms] by (auto simp: config_problems_def Let_def split: if_splits)

lemma billing_secrets:
  assumes "Load dur env = Inr c" "cf_BillingEnabled c"
  shows "cf_BillingProvider c = ''paddle''" "cf_PaddleWebhookSecret c \<noteq> ''''" "cf_PaddleAPIKey c \<noteq> ''''"
  using Load_complete [OF assms(1)] assms(2) by (auto simp: missing_variables_def absent_Nil)

section \<open>Webhooks of a process that started\<close>

lemma start_billing_paddle:
  assumes "Load dur env = Inr c" "start_billing client W c E = Some S"
  shows "S = app_billing (wire_paddle (client (cf_PaddleEnvironment c) (cf_PaddleAPIKey c)) W
      (paddle_settings_of c) (billing_env c E))" "cf_BillingEnabled c"
  using assms(2) billing_secrets(1) [OF assms(1)] by (auto simp: start_billing_def split: if_splits)

text \<open>C11: nobody without the secret moves money. In a process that started, a webhook that changes
anything, or is acknowledged as processed, carries a signature made with the secret of the
environment, which is not empty, over the timestamp in its header and the bytes that were read,
and that timestamp is within five minutes of the clock, in either direction.\<close>

theorem webhook_changes_are_signed:
  assumes "Load dur env = Inr c" "start_billing client W c E = Some S"
    and "Webhook S body sig s = (r, s')" "s' \<noteq> s \<or> r = Body 200 ''ok''"
  shows "env ''PADDLE_WEBHOOK_SECRET'' \<noteq> '''' \<and> (\<exists>b ts hs. body = Some b \<and>
    parseSignature sig = Inr (ts, hs) \<and> \<bar>en_now E - Unix ts\<bar> \<le> 300 * second \<and>
    EncodeToString (wc_mac W (env ''PADDLE_WEBHOOK_SECRET'') (FormatInt ts @ '':'' @ take 65536 b)) \<in> set hs)"
proof -
  note S = start_billing_paddle [OF assms(1,2)]
  have c: "c = read_config dur env" using Load_Inr [OF assms(1)] by simp
  have "en_now (billing_env c E) = en_now E" by (simp add: billing_env_def)
  with wired_changes_are_signed [OF assms(3) [unfolded S(1)] assms(4)] billing_secrets(2) [OF assms(1) S(2)]
  show ?thesis by (simp add: paddle_settings_of_def c)
qed

definition fx_vars :: "string \<Rightarrow> string" where
  "fx_vars k = coalesce (map_of [(''DATABASE_URL'', ''d''), (''REDIS_URL'', ''r''), (''BETTER_AUTH_JWKS_URL'', ''j''),
     (''R2_ENDPOINT'', ''e''), (''R2_BUCKET'', ''b''), (''BILLING_ENABLED'', ''true''), (''PADDLE_API_KEY'', ''k''),
     (''PADDLE_WEBHOOK_SECRET'', ''s''), (''BILLING_SUCCESS_URL'', ''/paid''), (''BILLING_CANCEL_URL'', ''/plans'')] k) ''''"

definition fx_config :: config where
  "fx_config = read_config (\<lambda>d. Some 1) fx_vars"

lemma fx_loads: "Load (\<lambda>d. Some 1) fx_vars = Inr fx_config"
proof -
  have "config_problems (\<lambda>d. Some 1) fx_vars = []" by code_simp
  then show ?thesis by (simp add: Load_def fx_config_def)
qed

lemma fx_starts: "start_billing (\<lambda>e k. fx_client) fx_codec fx_config (fx_env 0) = Some (app_billing (fx_paid 0))"
proof -
  have c: "cf_BillingEnabled fx_config" "cf_BillingProvider fx_config = ''paddle''" "cf_BillingCurrency fx_config = ''USD''"
    "cf_BillingSuccessURL fx_config = ''/paid''" "cf_BillingCancelURL fx_config = ''/plans''"
    "paddle_settings_of fx_config = fx_settings"
    by code_simp+
  then have "billing_env fx_config (fx_env 0) = (fx_env 0)\<lparr>en_successURL := ''/paid'', en_cancelURL := ''/plans''\<rparr>"
    by (simp add: billing_env_def fx_env_def)
  with c show ?thesis by (simp add: start_billing_def)
qed

theorem webhook_changes_are_signed_witness:
  "fx_vars ''PADDLE_WEBHOOK_SECRET'' \<noteq> '''' \<and> (\<exists>ts hs. parseSignature (fx_signature ''a'') = Inr (ts, hs) \<and>
     EncodeToString (wc_mac fx_codec (fx_vars ''PADDLE_WEBHOOK_SECRET'') (FormatInt ts @ '':'' @ ''a'')) \<in> set hs)"
proof -
  let ?S = "app_billing (fx_paid 0)"
  have "fst (HandleProviderEvent ?S ''a'' (fx_signature ''a'') fx_settled) = None"
    using fx_refund_runs [of "fx_signature ''a''"] fx_delivery [of 0 "''a''" fx_settled] by simp
  moreover have "fx_signature ''a'' \<noteq> ''''" by (simp add: fx_signature_def signature_header_def)
  ultimately obtain s' where "Webhook ?S (Some ''a'') (fx_signature ''a'') fx_settled = (Body 200 ''ok'', s')"
    by (cases "HandleProviderEvent ?S ''a'' (fx_signature ''a'') fx_settled") (auto simp: Webhook_def maxWebhookBody_def)
  from webhook_changes_are_signed [OF fx_loads fx_starts this] show ?thesis by auto
qed

section \<open>What runs only when asked for\<close>

lemma retention_tick_off: "\<not> cf_RetentionEnforcementEnabled c \<Longrightarrow> snd (retention_tick c R s) = s"
proof -
  assume "\<not> cf_RetentionEnforcementEnabled c"
  then have "purge_each (start_retention c R) False cs rep s = (rep, s)" for cs rep
    by (intro purge_each_dry) (simp add: start_retention_def)
  then show ?thesis by (simp add: retention_tick_def RetentionRun_def Let_def split: sum.split)
qed



end
