(* ===== verification/PlanReads.thy ===== *)
theory PlanReads
  imports EventHttp
begin

text \<open>
  The reading side of plans: the overview of a host's events with their plans (HostEventPlans of
  internal/entitlement and internal/httpapi/plans.go), and the reconciliation report of the
  invariants that plans and quotas rest on.

  Numbers from the database are below \<open>2 ^ 53\<close>, where the quotient in \<open>float64\<close> is exact enough
  for the number of pages. Rows an ORDER BY does not separate come in table order.
\<close>

section \<open>The plan overview\<close>

record host_event_plan =
  hp_EventID :: uuid
  hp_EventName :: string
  hp_EventDate :: "time option"
  hp_PlanCode :: "plan_code option"
  hp_PlanName :: "string option"
  hp_GrantStatus :: "grant_status option"
  hp_UploadExpiresAt :: "time option"
  hp_RetentionExpiresAt :: "time option"
  hp_MediaItemsLimit :: "int option"
  hp_MediaBytesLimit :: "int option"

definition host_event :: "uuid \<Rightarrow> event \<Rightarrow> bool" where
  "host_event hostID e \<longleftrightarrow> ev_HostID e = hostID \<and> ev_Status e \<noteq> EventDeleted"

definition active_for :: "uuid \<Rightarrow> grant \<Rightarrow> bool" where
  "active_for i g \<longleftrightarrow> gr_EventID g = i \<and> gr_Status g = GrantActive"

text \<open>The two left joins: a row per active grant, or one row without a plan.\<close>

definition plan_row :: "db \<Rightarrow> event \<Rightarrow> grant option \<Rightarrow> host_event_plan" where
  "plan_row s e g =
     (let v = (case g of None \<Rightarrow> None | Some g \<Rightarrow> find (\<lambda>v. pv_ID v = gr_PlanVersionID g) (t_plan_versions s));
          l = map_option (\<lambda>g. Limits (gr_EntitlementSnapshot g)) g
      in \<lparr>hp_EventID = ev_ID e, hp_EventName = ev_Name e, hp_EventDate = ev_EventDate e,
          hp_PlanCode = map_option pv_Code v, hp_PlanName = map_option pv_DisplayName v,
          hp_GrantStatus = map_option gr_Status g, hp_UploadExpiresAt = map_option gr_UploadExpiresAt g,
          hp_RetentionExpiresAt = map_option gr_RetentionExpiresAt g,
          hp_MediaItemsLimit = map_option MaxMediaItems l, hp_MediaBytesLimit = map_option MaxMediaBytes l\<rparr>)"

definition plan_rows :: "db \<Rightarrow> event \<Rightarrow> host_event_plan list" where
  "plan_rows s e =
     (case filter (active_for (ev_ID e)) (t_grants s) of
        [] \<Rightarrow> [plan_row s e None] | gs \<Rightarrow> map (\<lambda>g. plan_row s e (Some g)) gs)"

definition overview_rows :: "uuid \<Rightarrow> db \<Rightarrow> host_event_plan list" where
  "overview_rows hostID s = concat (map (plan_rows s)
     (sort_key (\<lambda>e. (- ev_CreatedAt e, ev_ID e)) (filter (host_event hostID) (t_events s))))"

text \<open>An offset that overflowed is negative, and PostgreSQL refuses it.\<close>

definition db_HostEventPlans :: "uuid \<Rightarrow> int \<Rightarrow> int \<Rightarrow> db \<Rightarrow> error + host_event_plan list \<times> int" where
  "db_HostEventPlans hostID page perPage s =
     (let offset = i64 ((page - 1) * perPage)
      in if offset < 0 then Inl (Fmt ''OFFSET must not be negative'')
         else Inr (take (nat perPage) (drop (nat offset) (overview_rows hostID s)),
                   int (count_where (host_event hostID) (t_events s))))"

record plans_page =
  hq_Items :: "(host_event_plan \<times> usage) list"
  hq_Page :: int
  hq_PerPage :: int
  hq_Total :: int
  hq_TotalPages :: int

definition zero_usage :: usage where
  "zero_usage = \<lparr>us_MediaItems = 0, us_PhotoItems = 0, us_VideoItems = 0, us_MediaBytes = 0\<rparr>"

definition HostEventPlans :: "uuid \<Rightarrow> int \<Rightarrow> int \<Rightarrow> db \<Rightarrow> error + plans_page" where
  "HostEventPlans hostID page0 perPage0 s =
     (let page = (if page0 < 1 then 1 else page0);
          perPage = (if perPage0 < 1 then 20 else if 100 < perPage0 then 100 else perPage0)
      in case db_HostEventPlans hostID page perPage s of
           Inl e \<Rightarrow> Inl e
         | Inr (rows, n) \<Rightarrow>
        (case db_Usage (map hp_EventID rows) s of
           Inl e \<Rightarrow> Inl e
         | Inr u \<Rightarrow> Inr
             \<lparr>hq_Items = map (\<lambda>r. (r, coalesce (u (hp_EventID r)) zero_usage)) rows,
              hq_Page = page, hq_PerPage = perPage, hq_Total = n,
              hq_TotalPages = (if 0 < n then (n + perPage - 1) div perPage else 1)\<rparr>))"

text \<open>The handler; zero stands for a number that is not in the query.\<close>

definition plans_pagination :: "plans_page \<Rightarrow> pagination" where
  "plans_pagination p = \<lparr>pg_Page = hq_Page p, pg_PerPage = hq_PerPage p, pg_Total = hq_Total p,
     pg_TotalPages = hq_TotalPages p, pg_HasNext = (hq_Page p < hq_TotalPages p), pg_HasPrev = (1 < hq_Page p)\<rparr>"

text \<open>An event without a plan shows none; its limits are what the row has.\<close>

record plan_item =
  pt_Event :: "uuid \<times> string \<times> time option"
  pt_Plan :: "(plan_code \<times> string \<times> grant_status option) option"
  pt_MediaItems :: int
  pt_MediaLimit :: "int option"
  pt_MediaBytes :: int
  pt_MediaBytesLimit :: "int option"
  pt_UploadExpiresAt :: "time option"
  pt_RetentionExpiresAt :: "time option"

definition plan_item_of :: "host_event_plan \<times> usage \<Rightarrow> plan_item" where
  "plan_item_of x = (case x of (r, u) \<Rightarrow>
     \<lparr>pt_Event = (hp_EventID r, hp_EventName r, hp_EventDate r),
      pt_Plan = map_option (\<lambda>c. (c, coalesce (hp_PlanName r) '''', hp_GrantStatus r)) (hp_PlanCode r),
      pt_MediaItems = us_MediaItems u, pt_MediaLimit = hp_MediaItemsLimit r,
      pt_MediaBytes = us_MediaBytes u, pt_MediaBytesLimit = hp_MediaBytesLimit r,
      pt_UploadExpiresAt = hp_UploadExpiresAt r, pt_RetentionExpiresAt = hp_RetentionExpiresAt r\<rparr>)"

definition handle_HostEventPlans ::
  "profile_service \<Rightarrow> identity option \<Rightarrow> (int \<times> int) option \<Rightarrow> db \<Rightarrow> (plan_item list \<times> pagination) reply \<times> db" where
  "handle_HostEventPlans P idn query s =
     (case query of
        None \<Rightarrow> (Problem 400 ''invalid_query'', s)
      | Some (page, perPage) \<Rightarrow>
          if page < 0 \<or> perPage < 0 \<or> 100 < perPage then (Problem 400 ''invalid_query'', s)
          else with_host P idn (\<lambda>hostID s.
            ((case HostEventPlans hostID page perPage s of
                Inl e \<Rightarrow> Respond e
              | Inr p \<Rightarrow> Body 200 (map plan_item_of (hq_Items p), plans_pagination p)), s)) s)"

section \<open>Reconciliation\<close>

text \<open>The rows of each check: an event may stand more than once where it joins several grants.\<close>

definition without_grant :: "db \<Rightarrow> event \<Rightarrow> bool" where
  "without_grant s e \<longleftrightarrow> \<not> (\<exists>g \<in> set (t_grants s). active_for (ev_ID e) g)"

definition limits_differ :: "event \<Rightarrow> limits \<Rightarrow> bool" where
  "limits_differ e l \<longleftrightarrow> max_media_items e \<noteq> MaxMediaItems l \<or> max_photo_items e \<noteq> MaxPhotoItems l \<or>
     max_video_items e \<noteq> MaxVideoItems l \<or> (0 < MaxMediaBytes l \<and> ev_MaxMediaBytes e \<noteq> MaxMediaBytes l)"

definition mismatches :: "db \<Rightarrow> uuid list" where
  "mismatches s = concat (map (\<lambda>e. map (\<lambda>_. ev_ID e)
     (filter (\<lambda>g. active_for (ev_ID e) g \<and> limits_differ e (Limits (gr_EntitlementSnapshot g))) (t_grants s)))
     (t_events s))"

definition was_uploaded :: "media_status \<Rightarrow> bool" where
  "was_uploaded st \<longleftrightarrow> completed st \<or> st = MediaDeleted"

definition drifted :: "media list \<Rightarrow> event \<Rightarrow> bool" where
  "drifted t e \<longleftrightarrow>
     (let mine = (\<lambda>p m. md_EventID m = ev_ID e \<and> p m);
          uploaded = (\<lambda>m. was_uploaded (md_Status m))
      in uploaded_media_items e \<noteq> int (count_where (mine uploaded) t) \<or>
         uploaded_photo_items e \<noteq> int (count_where (mine (\<lambda>m. uploaded m \<and> is_photo m)) t) \<or>
         uploaded_video_items e \<noteq> int (count_where (mine (\<lambda>m. uploaded m \<and> is_video m)) t) \<or>
         reserved_media_items e \<noteq> int (count_where (mine (\<lambda>m. in_flight (md_Status m))) t) \<or>
         ev_UsedMediaBytes e \<noteq> sum_where (mine (\<lambda>m. completed (md_Status m))) actual_size t)"

text \<open>Active grants of events that still have their media, by the end of their storage.\<close>

definition storage_grant :: "db \<Rightarrow> grant \<Rightarrow> bool" where
  "storage_grant s g \<longleftrightarrow> gr_Status g = GrantActive \<and>
     (\<exists>e \<in> set (t_events s). ev_ID e = gr_EventID g \<and> media_purged_at e = None)"

record reconcile_options =
  op_Now :: time
  op_Grace :: time
  op_ExpiringSoon :: time
  op_Sample :: nat

record reconcile_issue =
  iu_Count :: nat
  iu_Sample :: "uuid list"

record reconcile_report =
  rr_EventsWithoutGrant :: reconcile_issue
  rr_LimitMismatch :: reconcile_issue
  rr_CounterDrift :: reconcile_issue
  rr_RetentionDue :: reconcile_issue
  rr_ExpiringSoon :: reconcile_issue
  rr_BillingReview :: reconcile_issue

definition issue :: "reconcile_options \<Rightarrow> uuid list \<Rightarrow> reconcile_issue" where
  "issue opts ids = \<lparr>iu_Count = length ids, iu_Sample = take (op_Sample opts) ids\<rparr>"

definition db_Reconcile :: "reconcile_options \<Rightarrow> db \<Rightarrow> error + reconcile_report" where
  "db_Reconcile opts s =
     (let due = (\<lambda>p. map gr_EventID (filter (\<lambda>g. storage_grant s g \<and> p (gr_RetentionExpiresAt g)) (t_grants s)))
      in Inr
     \<lparr>rr_EventsWithoutGrant = issue opts (map ev_ID (filter (without_grant s) (t_events s))),
      rr_LimitMismatch = issue opts (mismatches s),
      rr_CounterDrift = issue opts (map ev_ID
        (filter (\<lambda>e. media_purged_at e = None \<and> drifted (t_media s) e) (t_events s))),
      rr_RetentionDue = issue opts (due (\<lambda>t. t \<le> op_Now opts - op_Grace opts)),
      rr_ExpiringSoon = issue opts (due (\<lambda>t. op_Now opts < t \<and> t \<le> op_Now opts + op_ExpiringSoon opts)),
      rr_BillingReview = issue opts (map ev_ID
        (filter (\<lambda>e. ev_BillingStatus e \<noteq> EventBillingOK \<and> ev_Status e \<noteq> EventDeleted) (t_events s)))\<rparr>)"

definition Reconcile :: "time \<Rightarrow> time \<Rightarrow> time \<Rightarrow> int \<Rightarrow> db \<Rightarrow> error + reconcile_report" where
  "Reconcile now grace soon sample s =
     db_Reconcile \<lparr>op_Now = now, op_Grace = grace, op_ExpiringSoon = soon,
       op_Sample = nat (if sample < 1 then 10 else sample)\<rparr> s"

end
