(* ===== verification/ReconcileProps.thy ===== *)
theory ReconcileProps
  imports PlanReads MediaProps
begin

text \<open>
  The reconciliation report and the invariant behind it: the counters of an event agree with
  its media rows through every sequence of media operations that loses no uploaded row.
\<close>

section \<open>The counters of what was uploaded\<close>

definition uploaded_sum :: "(media \<Rightarrow> int) \<Rightarrow> uuid \<Rightarrow> media list \<Rightarrow> int" where
  "uploaded_sum w i t = sum_where (\<lambda>m. md_EventID m = i \<and> was_uploaded (md_Status m)) w t"

definition stored_bytes :: "uuid \<Rightarrow> media list \<Rightarrow> int" where
  "stored_bytes i t = sum_where (\<lambda>m. md_EventID m = i \<and> completed (md_Status m)) actual_size t"

definition counted :: "media list \<Rightarrow> event \<Rightarrow> bool" where
  "counted t e \<longleftrightarrow>
     uploaded_media_items e = uploaded_sum (\<lambda>_. 1) (ev_ID e) t \<and>
     uploaded_photo_items e = uploaded_sum photo_w (ev_ID e) t \<and>
     uploaded_video_items e = uploaded_sum video_w (ev_ID e) t \<and>
     ev_UsedMediaBytes e = stored_bytes (ev_ID e) t"

definition counters_exact :: "db \<Rightarrow> bool" where
  "counters_exact s \<longleftrightarrow> (\<forall>e \<in> set (t_events s). media_purged_at e = None \<longrightarrow> counted (t_media s) e)"

lemma count_weight: "int (count_where (\<lambda>m. P m \<and> Q m) t) = sum_where P (\<lambda>m. if Q m then 1 else 0) t"
  by (induction t) auto

lemma drifted_iff:
  assumes "reserved_exact t e"
  shows "drifted t e \<longleftrightarrow> \<not> counted t e"
proof -
  let ?u = "\<lambda>m. md_EventID m = ev_ID e \<and> was_uploaded (md_Status m)"
  have "int (count_where (\<lambda>m. md_EventID m = ev_ID e \<and> was_uploaded (md_Status m) \<and> is_photo m) t) =
      sum_where ?u photo_w t"
    using count_weight [of ?u is_photo t] by (simp add: photo_w_def [abs_def] conj_assoc)
  moreover have "int (count_where (\<lambda>m. md_EventID m = ev_ID e \<and> was_uploaded (md_Status m) \<and> is_video m) t) =
      sum_where ?u video_w t"
    using count_weight [of ?u is_video t] by (simp add: video_w_def [abs_def] conj_assoc)
  moreover have "reserved_media_items e = int (count_where (\<lambda>m. md_EventID m = ev_ID e \<and> in_flight (md_Status m)) t)"
    using assms by (simp add: reserved_exact_def flight_sum_def int_count_where)
  ultimately show ?thesis
    by (simp add: drifted_def counted_def uploaded_sum_def stored_bytes_def int_count_where)
qed

section \<open>Updates of media rows\<close>

text \<open>An update that leaves what is counted as it was.\<close>

definition keeps_counted :: "(media \<Rightarrow> bool) \<Rightarrow> (media \<Rightarrow> media) \<Rightarrow> bool" where
  "keeps_counted q g \<longleftrightarrow> (\<forall>r. q r \<longrightarrow> md_EventID (g r) = md_EventID r \<and> md_MIMEType (g r) = md_MIMEType r \<and>
     md_ActualSize (g r) = md_ActualSize r \<and> was_uploaded (md_Status (g r)) = was_uploaded (md_Status r))"

lemma w_keeps: "md_MIMEType m' = md_MIMEType m \<Longrightarrow> photo_w m' = photo_w m \<and> video_w m' = video_w m"
  by (simp add: photo_w_def video_w_def is_photo_def is_video_def)

lemma uploaded_sum_keep:
  assumes "keeps_counted q g" "\<And>r. q r \<Longrightarrow> w (g r) = w r"
  shows "uploaded_sum w i (update_where q g t) = uploaded_sum w i t"
  unfolding uploaded_sum_def by (rule sum_where_update_same) (use assms in \<open>auto simp: keeps_counted_def\<close>)

lemma uploaded_sums_keep:
  assumes "keeps_counted q g"
  shows "uploaded_sum (\<lambda>_. 1) i (update_where q g t) = uploaded_sum (\<lambda>_. 1) i t"
    "uploaded_sum photo_w i (update_where q g t) = uploaded_sum photo_w i t"
    "uploaded_sum video_w i (update_where q g t) = uploaded_sum video_w i t"
  using w_keeps assms by (auto intro!: uploaded_sum_keep [OF assms] simp: keeps_counted_def)

lemma stored_bytes_keep:
  assumes "keeps_counted q g" "\<And>r. q r \<Longrightarrow> completed (md_Status (g r)) = completed (md_Status r)"
  shows "stored_bytes i (update_where q g t) = stored_bytes i t"
  unfolding stored_bytes_def
  by (rule sum_where_update_same) (use assms in \<open>auto simp: keeps_counted_def actual_size_def\<close>)

lemma keeps_counted_moderate:
  "completed st \<or> st = MediaDeleted \<Longrightarrow> keeps_counted (moderated_row i ids) (set_status st now)"
  by (auto simp: keeps_counted_def moderated_row_def set_status_def was_uploaded_def)

lemma keeps_counted_metadata: "keeps_counted q (with_metadata b md)"
  by (simp add: keeps_counted_def with_metadata_def)

section \<open>Steps\<close>

lemma exact_rows:
  assumes "counters_exact s" "keeps_counted q g"
    and "\<And>r. q r \<Longrightarrow> completed (md_Status (g r)) = completed (md_Status r)"
    and "s' = s \<or> t_events s' = t_events s \<and> t_media s' = update_where q g (t_media s)"
  shows "counters_exact s'"
proof (cases "s' = s")
  case False
  then have "counted (t_media s') e = counted (t_media s) e" for e
    using assms(2-4) by (simp add: counted_def uploaded_sums_keep stored_bytes_keep)
  with False assms(1,4) show ?thesis by (simp add: counters_exact_def)
qed (use assms(1) in simp)

lemma set_status_completed:
  "completed st \<Longrightarrow> moderated_row i ids r \<Longrightarrow> completed (md_Status (set_status st now r)) = completed (md_Status r)"
  by (simp add: moderated_row_def set_status_def)

lemma exact_moderate:
  assumes "counters_exact s" "db_UpdateMediaStatus now i j st s = (r, s')" "completed st"
  shows "counters_exact s'"
  by (rule exact_rows [where q = "moderated_row i [j]" and g = "set_status st now",
        OF assms(1) keeps_counted_moderate [OF disjI1 [OF assms(3)]] set_status_completed [OF assms(3)]])
    (use assms(2) in \<open>auto simp: db_UpdateMediaStatus_def dest!: write_media_ok split: sum.splits if_splits\<close>)

lemma exact_moderate_many:
  assumes "counters_exact s" "db_UpdateMediaStatuses now i ids st s = (r, s')" "completed st"
  shows "counters_exact s'"
  by (rule exact_rows [where q = "moderated_row i ids" and g = "set_status st now",
        OF assms(1) keeps_counted_moderate [OF disjI1 [OF assms(3)]] set_status_completed [OF assms(3)]])
    (use assms(2) in \<open>auto simp: db_UpdateMediaStatuses_def dest!: write_media_ok split: sum.splits if_splits\<close>)

lemma exact_process:
  assumes "counters_exact s" "db_UpdateProcessingResult i j ready md s = (r, s')"
  shows "counters_exact s'"
proof (rule exact_rows [OF assms(1) keeps_counted_metadata])
  show "s' = s \<or> t_events s' = t_events s \<and>
      t_media s' = update_where (moderated_row i [j]) (with_metadata ready md) (t_media s)"
    using assms(2) by (auto simp: db_UpdateProcessingResult_def dest!: write_media_ok split: sum.splits if_splits)
qed (simp add: with_metadata_def)

lemma exact_events:
  assumes "counters_exact s" "t_events s' = update_where p h (t_events s)"
    and "\<And>y. media_purged_at (h y) = media_purged_at y"
    and "\<And>y. y \<in> set (t_events s) \<Longrightarrow> counted (t_media s) y \<Longrightarrow> counted (t_media s') (if p y then h y else y)"
  shows "counters_exact s'"
  unfolding counters_exact_def
proof (intro ballI impI)
  fix x assume x: "x \<in> set (t_events s')" "media_purged_at x = None"
  from x(1) obtain y where y: "y \<in> set (t_events s)" "x = (if p y then h y else y)"
    unfolding assms(2) by (rule in_update_whereE)
  with x(2) assms(3) have "media_purged_at y = None" by (auto split: if_splits)
  with y assms(1,4) show "counted (t_media s') x" by (simp add: counters_exact_def)
qed

lemma exact_reserve:
  assumes "counters_exact s" "db_ReserveUpload now rec lim s = (r, s')" "md_Status rec = MediaPending"
  shows "counters_exact s'"
proof (cases r)
  case (Inr u)
  from ReserveUpload_ok [OF assms(2) [unfolded Inr]] obtain r where
      r: "r = rec\<lparr>md_CreatedAt := (if is_zero_time (md_CreatedAt rec) then now else md_CreatedAt rec)\<rparr>"
    and s': "s' = s\<lparr>t_events := update_where (reservable rec lim) (reserve_counters rec) (t_events s),
            t_media := t_media s @ [r]\<rparr>" by blast
  have "md_Status r = MediaPending" using assms(3) r by simp
  then have "uploaded_sum w i (t_media s') = uploaded_sum w i (t_media s)"
      "stored_bytes i (t_media s') = stored_bytes i (t_media s)" for w i
    by (simp_all add: s' uploaded_sum_def stored_bytes_def was_uploaded_def)
  moreover have "media_purged_at (reserve_counters rec e) = media_purged_at e"
      "ev_ID (reserve_counters rec e) = ev_ID e" "uploaded_media_items (reserve_counters rec e) = uploaded_media_items e"
      "uploaded_photo_items (reserve_counters rec e) = uploaded_photo_items e"
      "uploaded_video_items (reserve_counters rec e) = uploaded_video_items e"
      "ev_UsedMediaBytes (reserve_counters rec e) = ev_UsedMediaBytes e" for e
    by (simp_all add: reserve_counters_def)
  ultimately show ?thesis
    by (intro exact_events [OF assms(1), of s' "reservable rec lim" "reserve_counters rec"])
      (simp_all add: counted_def s')
qed (use assms ReserveUpload_error in blast)

lemma exact_remove:
  assumes "counters_exact s" "db_DeleteManyUploads ids s = (r, s')"
    and "\<forall>m \<in> set (t_media s). was_uploaded (md_Status m) \<longrightarrow> md_ID m \<in> md_ID ` set (t_media s')"
  shows "counters_exact s'"
proof -
  from DeleteManyUploads_cases [OF assms(2)] consider "s' = s"
    | "t_media s' = delete_where (\<lambda>m. md_ID m \<in> set ids) (t_media s)"
      "t_events s' = update_where (\<lambda>e. released ids e (t_media s) \<noteq> [])
        (\<lambda>e. release_counters (released ids e (t_media s)) e) (t_events s)" by blast
  then show ?thesis
  proof cases
    case 2
    have none: "\<not> was_uploaded (md_Status m)" if "m \<in> set (t_media s)" "md_ID m \<in> set ids" for m
      using assms(3) that by (auto simp: 2(1) delete_where_def)
    then have "uploaded_sum w i (t_media s') = uploaded_sum w i (t_media s)"
        "stored_bytes i (t_media s') = stored_bytes i (t_media s)" for w i
      unfolding 2(1) uploaded_sum_def stored_bytes_def sum_where_delete
      by (auto intro!: sum_where_none simp: was_uploaded_def)
    moreover have "media_purged_at (release_counters rel e) = media_purged_at e" for rel e
      by (simp add: release_counters_def)
    ultimately show ?thesis
      by (intro exact_events [OF assms(1) 2(2)]) (simp_all add: counted_def)
  qed (use assms(1) in simp)
qed

lemma exact_delete:
  assumes "counters_exact s" "db_DeleteForEvent now i ids s = (r, s')" "media_inv s"
  shows "counters_exact s'"
proof (cases r)
  case (Inr u)
  let ?q = "moderated_row i ids" and ?g = "set_status MediaDeleted now"
  let ?b = "sum_where ?q actual_size (t_media s)"
  from DeleteForEvent_ok [OF assms(2) [unfolded Inr]]
  have s': "t_media s' = update_where ?q ?g (t_media s)"
    "t_events s' = update_where (\<lambda>e. ev_ID e = i) (\<lambda>e. e\<lparr>ev_UsedMediaBytes := max (ev_UsedMediaBytes e - ?b) 0\<rparr>) (t_events s)"
    by simp_all
  have k: "keeps_counted ?q ?g" by (rule keeps_counted_moderate) simp
  have b: "stored_bytes j (t_media s') = stored_bytes j (t_media s) - (if j = i then ?b else 0)" for j
  proof -
    have "stored_bytes j (t_media s') = stored_bytes j (t_media s) -
        sum_where (\<lambda>m. (md_EventID m = j \<and> completed (md_Status m)) \<and> ?q m) actual_size (t_media s)"
      unfolding s'(1) stored_bytes_def by (rule sum_where_update_leave) (simp add: set_status_def)
    also have "sum_where (\<lambda>m. (md_EventID m = j \<and> completed (md_Status m)) \<and> ?q m) actual_size (t_media s) =
        (if j = i then ?b else 0)"
      by (auto intro!: sum_where_cong sum_where_none simp: moderated_row_def)
    finally show ?thesis .
  qed
  have "0 \<le> stored_bytes j (t_media s')" for j
    unfolding stored_bytes_def
  proof (rule sum_where_nonneg, intro ballI impI)
    fix m assume "m \<in> set (t_media s')"
    then show "0 \<le> actual_size m"
      using assms(3) unfolding s'(1)
      by (elim in_update_whereE) (auto simp: media_inv_def actual_size_def set_status_def split: if_splits)
  qed
  with b have le: "?b \<le> stored_bytes i (t_media s)" by (metis diff_ge_0_iff_ge)
  show ?thesis
    by (rule exact_events [OF assms(1) s'(2)])
      (use le b in \<open>auto simp: counted_def s'(1) uploaded_sums_keep [OF k]\<close>)
qed (use assms DeleteForEvent_error in blast)

lemma sum_where_update_enter:
  assumes "\<And>r. q r \<Longrightarrow> \<not> p r \<and> p (g r)"
  shows "sum_where p f (update_where q g t) = sum_where p f t + sum_where q (\<lambda>r. f (g r)) t"
  using assms by (induction t) auto

lemma sum_where_update_out:
  assumes "\<And>r. q r \<Longrightarrow> \<not> p r \<and> \<not> p (g r)"
  shows "sum_where p f (update_where q g t) = sum_where p f t"
  using assms by (induction t) auto

lemma exact_confirm:
  assumes "counters_exact s" "db_MarkReady f now i j n at s = (r, s')"
  shows "counters_exact s'"
proof (cases r)
  case (Inr u)
  let ?q = "uploading_row i j" and ?g = "ready_row n at"
  obtain m where drop: "\<forall>p g. (\<forall>r. ?q r \<longrightarrow> p r \<and> \<not> p (?g r)) \<longrightarrow>
       sum_where p g (update_where ?q ?g (t_media s)) = sum_where p g (t_media s) - (g m :: int)"
    and m: "?q m" and s': "t_media s' = update_where ?q ?g (t_media s)"
    "t_events s' = update_where (\<lambda>e. ev_ID e = i) (settle_counters n (?g m)) (t_events s)"
    by (rule MarkReady_ok [OF assms(2) [unfolded Inr]]) blast
  have not: "\<not> ?q (?g r)" for r by (simp add: uploading_row_def ready_row_def)
  have one: "sum_where ?q h (t_media s) = h m" for h :: "media \<Rightarrow> int"
  proof -
    have "sum_where ?q h (update_where ?q ?g (t_media s)) = 0"
      by (rule sum_where_none) (use not in \<open>auto elim!: in_update_whereE split: if_splits\<close>)
    with drop not show ?thesis by simp
  qed
  have flight: "?q r \<Longrightarrow> \<not> was_uploaded (md_Status r) \<and> \<not> completed (md_Status r)" for r
    by (cases "md_Status r") (auto simp: uploading_row_def was_uploaded_def)
  have ready: "was_uploaded (md_Status (?g r))" "completed (md_Status (?g r))" "md_EventID (?g r) = md_EventID r"
      "actual_size (?g r) = n" for r
    by (simp_all add: ready_row_def was_uploaded_def actual_size_def)
  have ev: "?q r \<Longrightarrow> md_EventID r = i" for r by (simp add: uploading_row_def)
  have up: "uploaded_sum w k (t_media s') = uploaded_sum w k (t_media s) + (if k = i then w (?g m) else 0)"
    if w: "\<And>r. w (?g r) = w r" for w :: "media \<Rightarrow> int" and k
  proof (cases "k = i")
    case True
    have "uploaded_sum w i (t_media s') = uploaded_sum w i (t_media s) + sum_where ?q (\<lambda>r. w (?g r)) (t_media s)"
      unfolding uploaded_sum_def s'(1) by (rule sum_where_update_enter) (use flight ready ev in auto)
    with True one show ?thesis by simp
  next
    case False
    then have "uploaded_sum w k (t_media s') = uploaded_sum w k (t_media s)"
      unfolding uploaded_sum_def s'(1) by (intro sum_where_update_same) (use ready ev w in auto)
    with False show ?thesis by simp
  qed
  have bytes: "stored_bytes k (t_media s') = stored_bytes k (t_media s) + (if k = i then n else 0)" for k
  proof (cases "k = i")
    case True
    have "stored_bytes i (t_media s') = stored_bytes i (t_media s) + sum_where ?q (\<lambda>r. actual_size (?g r)) (t_media s)"
      unfolding stored_bytes_def s'(1) by (rule sum_where_update_enter) (use flight ready ev in auto)
    with True one ready(4) show ?thesis by simp
  next
    case False
    then have "stored_bytes k (t_media s') = stored_bytes k (t_media s)"
      unfolding stored_bytes_def s'(1) by (intro sum_where_update_out) (use ready ev in auto)
    with False show ?thesis by simp
  qed
  show ?thesis
    by (rule exact_events [OF assms(1) s'(2)])
      (use up [of "\<lambda>_. 1"] up [of photo_w, OF w_ready_row(1)] up [of video_w, OF w_ready_row(2)] bytes in
        \<open>auto simp: counted_def settle_counters_def photo_w_def video_w_def Let_def\<close>)
qed (use assms MarkReady_error in blast)

text \<open>A step after which every row that had been uploaded is still there.\<close>

definition careful_step :: "reserve_limits \<Rightarrow> db \<Rightarrow> db \<Rightarrow> bool" where
  "careful_step lim s s' \<longleftrightarrow> media_step lim s s' \<and>
     (\<forall>m \<in> set (t_media s). was_uploaded (md_Status m) \<longrightarrow> md_ID m \<in> md_ID ` set (t_media s'))"

lemma careful_step_exact:
  assumes "careful_step lim s s'" "media_inv s" "counters_exact s"
  shows "counters_exact s'"
proof -
  have kept: "\<forall>m \<in> set (t_media s). was_uploaded (md_Status m) \<longrightarrow> md_ID m \<in> md_ID ` set (t_media s')"
    and "media_step lim s s'" using assms(1) by (auto simp: careful_step_def)
  from this(2) show ?thesis
  proof cases
    case (reserve now rec r)
    then show ?thesis using exact_reserve [OF assms(3)] by blast
  next
    case (confirm f now i j n at r)
    then show ?thesis using exact_confirm [OF assms(3)] by blast
  next
    case (remove ids r)
    then show ?thesis using exact_remove [OF assms(3) _ kept] by blast
  next
    case (moderate now i j st r)
    then show ?thesis using exact_moderate [OF assms(3)] by blast
  next
    case (moderate_many now i ids st r)
    then show ?thesis using exact_moderate_many [OF assms(3)] by blast
  next
    case (delete now i ids r)
    then show ?thesis using exact_delete [OF assms(3) _ assms(2)] by blast
  next
    case (process i j ready md r)
    then show ?thesis using exact_process [OF assms(3)] by blast
  qed
qed

text \<open>C18: the counters of an event tell what its media are. From a state whose counters are exact,
every sequence of media operations, in any interleaving of guests, hosts and jobs, after each of
which the rows that had been uploaded are still there, reaches a state in which the
reconciliation report, at any time and with any options, finds no counter that drifted.\<close>

theorem counters_never_drift:
  assumes "(careful_step lim)\<^sup>*\<^sup>* s s'" "media_inv s" "counters_exact s"
  shows "\<exists>rep. Reconcile now grace soon sample s' = Inr rep \<and>
    rr_CounterDrift rep = \<lparr>iu_Count = 0, iu_Sample = []\<rparr>"
proof -
  have "media_inv s' \<and> counters_exact s'"
    using assms
  proof (induction rule: rtranclp_induct)
    case (step y z)
    then have "media_step lim y z" by (simp add: careful_step_def)
    with step media_step_keeps(1) careful_step_exact show ?case by blast
  qed simp
  then have "\<not> (media_purged_at e = None \<and> drifted (t_media s') e)" if "e \<in> set (t_events s')" for e
    using that drifted_iff [of "t_media s'" e] by (auto simp: media_inv_def counters_exact_def)
  then have "filter (\<lambda>e. media_purged_at e = None \<and> drifted (t_media s') e) (t_events s') = []"
    by (simp add: filter_empty_conv)
  then show ?thesis by (simp add: Reconcile_def db_Reconcile_def Let_def issue_def)
qed

text \<open>A reservation and its confirmation, on the event of the examples.\<close>

definition fx_counted :: "db \<times> db" where
  "fx_counted = (let s = snd (db_ReserveUpload 11 (fx_row MediaPending None None) fx_limit fx_media_db)
     in (s, snd (db_MarkReady 41 12 7 11 400 20 s)))"

lemma fx_counted_rows:
  "map md_Status (t_media (fst fx_counted)) = [MediaPending]"
  "map md_ExpectedSize (t_media (fst fx_counted)) = [400]"
  "map md_Status (t_media (snd fx_counted)) = [MediaReady]"
  "map ev_UsedMediaBytes (t_events (snd fx_counted)) = [400]"
  by code_simp+

lemma careful_if_new:
  "media_step lim s s' \<Longrightarrow> list_all (\<lambda>m. \<not> was_uploaded (md_Status m)) (t_media s) \<Longrightarrow> careful_step lim s s'"
  by (auto simp: careful_step_def list_all_iff)

lemma fx_counted_steps: "(careful_step fx_limit)\<^sup>*\<^sup>* fx_media_db (snd fx_counted)"
proof -
  have "db_ReserveUpload 11 (fx_row MediaPending None None) fx_limit fx_media_db =
      (fst (db_ReserveUpload 11 (fx_row MediaPending None None) fx_limit fx_media_db), fst fx_counted)"
    by (simp add: fx_counted_def Let_def)
  then have "media_step fx_limit fx_media_db (fst fx_counted)"
    by (rule media_step.reserve) (simp_all add: fx_row_def)
  then have 1: "careful_step fx_limit fx_media_db (fst fx_counted)" by (rule careful_if_new) (simp add: fx)
  obtain m where m: "t_media (fst fx_counted) = [m]" "md_Status m = MediaPending" "md_ExpectedSize m = 400"
    using fx_counted_rows(1,2) by auto
  have "db_MarkReady 41 12 7 11 400 20 (fst fx_counted) =
      (fst (db_MarkReady 41 12 7 11 400 20 (fst fx_counted)), snd fx_counted)"
    by (simp add: fx_counted_def Let_def)
  then have "media_step fx_limit (fst fx_counted) (snd fx_counted)"
    by (rule media_step.confirm) (simp add: m)
  then have "careful_step fx_limit (fst fx_counted) (snd fx_counted)"
    by (rule careful_if_new) (simp add: m was_uploaded_def)
  with 1 show ?thesis by (blast intro: rtranclp.rtrancl_into_rtrancl)
qed

lemma fx_exact: "counters_exact fx_media_db"
  by (simp add: fx counters_exact_def counted_def uploaded_sum_def stored_bytes_def)

theorem counters_never_drift_witness:
  "(\<exists>rep. Reconcile 50 0 9 3 (snd fx_counted) = Inr rep \<and> rr_CounterDrift rep = \<lparr>iu_Count = 0, iu_Sample = []\<rparr>) \<and>
   map ev_UsedMediaBytes (t_events (snd fx_counted)) = [400]"
  using counters_never_drift [OF fx_counted_steps fx_media_inv(1) fx_exact] fx_counted_rows(4) by simp

end
