(* ===== verification/Planctl.thy ===== *)
theory Planctl
  imports PlanReads Retention Config
begin

text \<open>
  The operations tool of the plans (cmd/planctl/main.go): its flags and its commands over the
  database, the object store and the archive.

  A command returns its error, what it prints as the values it prints, and what it announced to
  open screens. Connecting to the database and to the bus, \<open>uuid.Parse\<close>, \<open>time.ParseDuration\<close>,
  \<open>time.Parse\<close>, the store and the archive are arguments, and so is the order of text in the
  database. \<open>tl_fresh\<close> gives the two new ids of the row a command handles. The arguments are
  valid text. Timeouts are not modelled.
\<close>

section \<open>Flags (the package flag)\<close>

datatype flag_kind = FlagText | FlagBool | FlagInt | FlagDuration

text \<open>\<open>strconv.ParseInt(s, 0, 64)\<close>: the prefix gives the base, and underscores may separate digits.\<close>

definition digit_of :: "char \<Rightarrow> int option" where
  "digit_of c = (let n = of_char (ascii_lower c) :: int in
     if 48 \<le> n \<and> n \<le> 57 then Some (n - 48) else if 97 \<le> n \<and> n \<le> 122 then Some (n - 87) else None)"

fun base_digits :: "int \<Rightarrow> int \<Rightarrow> string \<Rightarrow> int option" where
  "base_digits b acc [] = Some acc"
| "base_digits b acc (c # r) =
     (if c = CHR ''_'' then base_digits b acc r
      else case digit_of c of
        None \<Rightarrow> None
      | Some d \<Rightarrow> if b \<le> d then None else base_digits b (acc * b + d) r)"

text \<open>\<open>underscoreOK\<close>, with the class of the last character: a digit, an underscore or neither.\<close>

datatype last_char = LastDigit | LastUnderscore | LastOther

fun underscores_ok :: "bool \<Rightarrow> last_char \<Rightarrow> string \<Rightarrow> bool" where
  "underscores_ok hex i [] \<longleftrightarrow> i \<noteq> LastUnderscore"
| "underscores_ok hex i (c # r) \<longleftrightarrow>
     (let d = digit_of c in
      if d \<noteq> None \<and> (the d < 10 \<or> hex \<and> the d < 16) then underscores_ok hex LastDigit r
      else if c = CHR ''_'' then i = LastDigit \<and> underscores_ok hex LastUnderscore r
      else i \<noteq> LastUnderscore \<and> underscores_ok hex LastOther r)"

definition base_prefix :: "string \<Rightarrow> int option" where
  "base_prefix s = (case s of
     (z # c # _) \<Rightarrow> if z \<noteq> CHR ''0'' then None
       else if ascii_lower c = CHR ''b'' then Some 2
       else if ascii_lower c = CHR ''o'' then Some 8
       else if ascii_lower c = CHR ''x'' then Some 16 else None
   | _ \<Rightarrow> None)"

definition ParseInt0 :: "string \<Rightarrow> int option" where
  "ParseInt0 s =
     (let neg = has_prefix s ''-'';
          u = (if neg \<or> has_prefix s ''+'' then drop 1 s else s);
          (b, ds) = (if \<not> has_prefix u ''0'' then (10, u)
             else if 3 \<le> length u \<and> base_prefix u \<noteq> None then (the (base_prefix u), drop 2 u)
             else (8, drop 1 u))
      in if u = [] then None
         else case base_digits b 0 ds of
           None \<Rightarrow> None
         | Some v \<Rightarrow>
             if CHR ''_'' \<in> set ds \<and> \<not> (case base_prefix u of
                  None \<Rightarrow> underscores_ok False LastOther u
                | Some p \<Rightarrow> underscores_ok (p = 16) LastDigit (drop 2 u)) then None
             else if \<not> in_i64 (if neg then - v else v) then None
             else Some (if neg then - v else v))"

definition flag_value_ok :: "(string \<Rightarrow> time option) \<Rightarrow> flag_kind \<Rightarrow> string \<Rightarrow> bool" where
  "flag_value_ok dur k v = (case k of
     FlagText \<Rightarrow> True | FlagBool \<Rightarrow> ParseBool v \<noteq> None
   | FlagInt \<Rightarrow> ParseInt0 v \<noteq> None | FlagDuration \<Rightarrow> dur v \<noteq> None)"

datatype flag_error =
    BadSyntax string | Undefined string | HelpRequested | InvalidValue string string | NeedsArgument string

text \<open>
  \<open>FlagSet.Parse\<close>: the values given, the last one first. Parsing stops at the first argument that
  is no flag and after \<open>--\<close>.
\<close>

fun parse_flags ::
  "(string \<Rightarrow> time option) \<Rightarrow> (string \<Rightarrow> flag_kind option) \<Rightarrow> string list \<Rightarrow> (string \<times> string) list \<Rightarrow>
     flag_error + (string \<times> string) list" where
  "parse_flags dur formal [] vs = Inr vs"
| "parse_flags dur formal (s # args) vs =
     (if length s < 2 \<or> hd s \<noteq> CHR ''-'' \<or> s = ''--'' then Inr vs
      else
        (let body = (if has_prefix s ''--'' then drop 2 s else drop 1 s) in
         if hd body = CHR ''-'' \<or> hd body = CHR ''='' then Inl (BadSyntax s)
         else
           (let (name, given) = (case cut CHR ''='' (tl body) of
                  None \<Rightarrow> (body, None) | Some (a, v) \<Rightarrow> (hd body # a, Some v))
            in case formal name of
                 None \<Rightarrow> Inl (if name = ''help'' \<or> name = ''h'' then HelpRequested else Undefined name)
               | Some FlagBool \<Rightarrow>
                   (let v = coalesce given ''true'' in
                    if \<not> flag_value_ok dur FlagBool v then Inl (InvalidValue name v)
                    else parse_flags dur formal args ((name, v) # vs))
               | Some k \<Rightarrow>
                   (case given of
                      Some v \<Rightarrow>
                        if \<not> flag_value_ok dur k v then Inl (InvalidValue name v)
                        else parse_flags dur formal args ((name, v) # vs)
                    | None \<Rightarrow>
                        (case args of
                           [] \<Rightarrow> Inl (NeedsArgument name)
                         | v # rest \<Rightarrow>
                             if \<not> flag_value_ok dur k v then Inl (InvalidValue name v)
                             else parse_flags dur formal rest ((name, v) # vs))))))"

text \<open>The value of a flag, or its default.\<close>

definition given_text :: "(string \<times> string) list \<Rightarrow> string \<Rightarrow> string \<Rightarrow> string" where
  "given_text vs n d = coalesce (map_of vs n) d"

definition given_bool :: "(string \<times> string) list \<Rightarrow> string \<Rightarrow> bool" where
  "given_bool vs n = (case map_of vs n of None \<Rightarrow> False | Some v \<Rightarrow> ParseBool v = Some True)"

definition given_int :: "(string \<times> string) list \<Rightarrow> string \<Rightarrow> int \<Rightarrow> int" where
  "given_int vs n d = (case map_of vs n of None \<Rightarrow> d | Some v \<Rightarrow> coalesce (ParseInt0 v) d)"

definition given_duration ::
  "(string \<Rightarrow> time option) \<Rightarrow> (string \<times> string) list \<Rightarrow> string \<Rightarrow> time \<Rightarrow> time" where
  "given_duration dur vs n d = (case map_of vs n of None \<Rightarrow> d | Some v \<Rightarrow> coalesce (dur v) d)"

section \<open>Commands and what they answer\<close>

datatype op_error =
    Op string
  | Failed error
  | Wrapped string error
  | Annotated error string
  | UsedReference string
  | BadFlag flag_error
  | BadCutoff string
  | BadUUID string string
  | UnknownAction string
  | UnknownCommand string

text \<open>A purchase as billing-show prints it: its row, the status of the event, its deliveries and its plan.\<close>

record shown_purchase =
  sp_Purchase :: purchase
  sp_EventBilling :: "event_billing_status option"
  sp_Deliveries :: "provider_event_record list"
  sp_Plan :: "event_entitlement option"

datatype line =
    Usage
  | NoPlan uuid
  | PlanOf event_entitlement usage
  | History "audit list"
  | Granted plan_code uuid grant
  | RevokedTo active_grant active_grant
  | Backfilled bool backfill_report
  | Issue string reconcile_issue
  | DueEvent retention_candidate
  | DueOnly nat
  | PurgedEvents nat nat "(uuid \<times> error) list"
  | Prices "(provider_price \<times> version) list"
  | PriceSet provider_price version
  | PriceRetired string
  | Products "provider_product list"
  | ProductSet provider_product
  | ProductRetired provider plan_code
  | Unapplied nat
  | NotGranted uuid error
  | NotMarked uuid error
  | Applied purchase
  | Repaired nat nat
  | Shown "shown_purchase list"
  | Note string

record answer =
  oc_Error :: "op_error option"
  oc_Lines :: "line list"
  oc_Changes :: "plan_change list"

definition failing :: "op_error \<Rightarrow> answer" where
  "failing e = \<lparr>oc_Error = Some e, oc_Lines = [], oc_Changes = []\<rparr>"

definition printing :: "line list \<Rightarrow> answer" where
  "printing ls = \<lparr>oc_Error = None, oc_Lines = ls, oc_Changes = []\<rparr>"

record 'o tool =
  tl_env :: "string \<Rightarrow> string"
  tl_connect :: "error option"
  tl_bus :: "error option"
  tl_plans :: "plan_definition list"
  tl_plans_error :: "error option"
  tl_uuid :: "string \<Rightarrow> uuid option"
  tl_uuid_string :: "uuid \<Rightarrow> string"
  tl_duration :: "string \<Rightarrow> time option"
  tl_rfc3339 :: "string \<Rightarrow> time option"
  tl_user :: "string option"
  tl_now :: time
  tl_fresh :: "uuid \<Rightarrow> uuid \<times> uuid"
  tl_collate :: "string \<Rightarrow> nat"
  tl_storage :: "error + (string \<Rightarrow> 'o \<Rightarrow> (error + int) \<times> 'o)"
  tl_drive :: "error + (string \<Rightarrow> 'o \<Rightarrow> error option \<times> 'o)"
  tl_fuel :: nat

text \<open>The registry the commands read: the one of the database, or the one built in.\<close>

definition tool_registry :: "'o tool \<Rightarrow> plan_registry" where
  "tool_registry E = snd (LoadRegistry default_registry
     (case tl_plans_error E of Some e \<Rightarrow> Inl e | None \<Rightarrow> Inr (tl_plans E)))"

definition tool_notifies :: "'o tool \<Rightarrow> bool" where
  "tool_notifies E \<longleftrightarrow> tl_env E ''REDIS_URL'' \<noteq> ''''"

definition open_error :: "'o tool \<Rightarrow> op_error option" where
  "open_error E =
     (if tl_env E ''DATABASE_URL'' = '''' then Some (Op ''DATABASE_URL is not set'')
      else case tl_connect E of
        Some e \<Rightarrow> Some (Failed e)
      | None \<Rightarrow> if tool_notifies E then map_option Failed (tl_bus E) else None)"

definition opened :: "'o tool \<Rightarrow> ('s \<Rightarrow> answer \<times> 's) \<Rightarrow> 's \<Rightarrow> answer \<times> 's" where
  "opened E k s = (case open_error E of Some e \<Rightarrow> (failing e, s) | None \<Rightarrow> k s)"

definition with_flags ::
  "'o tool \<Rightarrow> (string \<times> flag_kind) list \<Rightarrow> string list \<Rightarrow>
     ((string \<times> string) list \<Rightarrow> 's \<Rightarrow> answer \<times> 's) \<Rightarrow> 's \<Rightarrow> answer \<times> 's" where
  "with_flags E formal args k s =
     (case parse_flags (tl_duration E) (map_of formal) args [] of
        Inl e \<Rightarrow> (failing (BadFlag e), s) | Inr vs \<Rightarrow> k vs s)"

definition parseEventID :: "'o tool \<Rightarrow> string \<Rightarrow> op_error + uuid" where
  "parseEventID E raw =
     (if raw = '''' then Inl (Op ''--event is required'')
      else case tl_uuid E raw of None \<Rightarrow> Inl (Op ''--event must be a UUID'') | Some i \<Rightarrow> Inr i)"

definition for_event ::
  "'o tool \<Rightarrow> (string \<times> string) list \<Rightarrow> (uuid \<Rightarrow> 's \<Rightarrow> answer \<times> 's) \<Rightarrow> 's \<Rightarrow> answer \<times> 's" where
  "for_event E vs k s =
     (case parseEventID E (given_text vs ''event'' '''') of Inl e \<Rightarrow> (failing e, s) | Inr i \<Rightarrow> k i s)"

definition operator :: "'o tool \<Rightarrow> string" where
  "operator E = (case tl_user E of None \<Rightarrow> ''unknown-operator''
     | Some u \<Rightarrow> if u = '''' then ''unknown-operator'' else u)"

definition signed_reason :: "'o tool \<Rightarrow> string \<Rightarrow> string" where
  "signed_reason E reason = ''['' @ operator E @ ''] '' @ trim_space reason"

section \<open>Plans of an event\<close>

definition tool_reader :: "'o tool \<Rightarrow> plan_service" where
  "tool_reader E = \<lparr>pl_registry = tool_registry E, pl_catalog = gorm_catalog, pl_grants = gorm_grants,
     pl_enforce = False, pl_now = tl_now E\<rparr>"

definition show_plan :: "'o tool \<Rightarrow> uuid \<Rightarrow> db \<Rightarrow> answer" where
  "show_plan E i s =
     (case Resolve gorm_grants i s of
        Inl (Entitlement ErrNoActiveGrant) \<Rightarrow> printing [NoPlan i]
      | Inl e \<Rightarrow> failing (Failed e)
      | Inr ent \<Rightarrow>
     (case EventUsageOf (tool_reader E) i s of
        Inl e \<Rightarrow> failing (Failed e)
      | Inr u \<Rightarrow>
     (case AuditTrail gorm_grants i 20 s of
        Inl e \<Rightarrow> (printing [PlanOf ent u])\<lparr>oc_Error := Some (Failed e)\<rparr>
      | Inr trail \<Rightarrow> printing [PlanOf ent u, History trail])))"

definition tool_show :: "'o tool \<Rightarrow> string list \<Rightarrow> db \<Rightarrow> answer \<times> db" where
  "tool_show E args = with_flags E [(''event'', FlagText)] args
     (\<lambda>vs. for_event E vs (\<lambda>i. opened E (\<lambda>s. (show_plan E i s, s))))"

definition grant_flags :: "(string \<times> flag_kind) list" where
  "grant_flags = map (\<lambda>n. (n, FlagText)) [''event'', ''plan'', ''source-ref'', ''reason'', ''source'']"

definition asked_source :: "(string \<times> string) list \<Rightarrow> grant_source option" where
  "asked_source vs = (let src = given_text vs ''source'' ''manual'' in
     if src = ''manual'' then Some SourceManual else if src = ''promotion'' then Some SourcePromotion else None)"

definition grant_answer :: "'o tool \<Rightarrow> uuid \<Rightarrow> plan_code \<Rightarrow> string \<Rightarrow> (error + grant) \<Rightarrow> plan_change list \<Rightarrow> answer" where
  "grant_answer E i plan ref r changes = (case r of
     Inl (Entitlement ErrEventNotFound) \<Rightarrow> failing (Op (''event '' @ tl_uuid_string E i @ '' not found''))
   | Inl (Entitlement ErrInvalidTransition) \<Rightarrow>
       failing (Annotated (Entitlement ErrInvalidTransition) '' (plans only move up)'')
   | Inl (Entitlement ErrDuplicateSourceReference) \<Rightarrow> failing (UsedReference ref)
   | Inl e \<Rightarrow> failing (Failed e)
   | Inr g \<Rightarrow> (printing [Granted plan i g])\<lparr>oc_Changes := changes\<rparr>)"

definition do_grant :: "'o tool \<Rightarrow> uuid \<Rightarrow> plan_code \<Rightarrow> grant_source \<Rightarrow> string \<Rightarrow> string \<Rightarrow> db \<Rightarrow> answer \<times> db" where
  "do_grant E i plan src ref reason s =
     (case GrantActivate (tool_registry E) gorm_catalog gorm_grants (tool_notifies E)
             (fst (tl_fresh E i)) (snd (tl_fresh E i)) (tl_now E)
             \<lparr>ai_EventID = i, ai_TargetPlanCode = plan, ai_Source = src, ai_SourceRef = ref,
              ai_ActorID = None, ai_Reason = signed_reason E reason, ai_ActivatedAt = 0\<rparr> s of
        (r, changes, s1) \<Rightarrow> (grant_answer E i plan ref r changes, s1))"

text \<open>The flags of a grant are checked before the database is opened, against the registry built in.\<close>

definition tool_grant :: "'o tool \<Rightarrow> string list \<Rightarrow> db \<Rightarrow> answer \<times> db" where
  "tool_grant E args = with_flags E grant_flags args (\<lambda>vs. for_event E vs (\<lambda>i s.
     (let plan = to_lower (trim_space (given_text vs ''plan'' ''''));
          ref = given_text vs ''source-ref'' '''';
          reason = given_text vs ''reason'' ''''
      in if \<not> Sellable default_registry plan then (failing (Op ''--plan must be a sellable plan''), s)
         else case asked_source vs of
           None \<Rightarrow> (failing (Op ''--source must be manual or promotion''), s)
         | Some src \<Rightarrow>
             if trim_space ref = '''' then (failing (Op ''--source-ref is required''), s)
             else if trim_space reason = '''' then (failing (Op ''--reason is required''), s)
             else opened E (do_grant E i plan src ref reason) s)))"

definition do_revoke :: "'o tool \<Rightarrow> uuid \<Rightarrow> string \<Rightarrow> db \<Rightarrow> answer \<times> db" where
  "do_revoke E i reason s =
     (case GrantRevoke gorm_grants (tool_notifies E) (snd (tl_fresh E i)) (tl_now E) i (signed_reason E reason) s of
        (Inl (Entitlement ErrEventNotFound), _, s1) \<Rightarrow>
          (failing (Op (''event '' @ tl_uuid_string E i @ '' not found'')), s1)
      | (Inl (Entitlement ErrNothingToRestore), _, s1) \<Rightarrow>
          (failing (Op (''event '' @ tl_uuid_string E i @ '' is on its first plan; there is nothing to go back to'')), s1)
      | (Inl e, _, s1) \<Rightarrow> (failing (Failed e), s1)
      | (Inr (revoked, restored), changes, s1) \<Rightarrow>
          ((printing [RevokedTo revoked restored])\<lparr>oc_Changes := changes\<rparr>, s1))"

definition tool_revoke :: "'o tool \<Rightarrow> string list \<Rightarrow> db \<Rightarrow> answer \<times> db" where
  "tool_revoke E args = with_flags E [(''event'', FlagText), (''reason'', FlagText)] args
     (\<lambda>vs. for_event E vs (\<lambda>i s.
       if trim_space (given_text vs ''reason'' '''') = '''' then (failing (Op ''--reason is required''), s)
       else opened E (do_revoke E i (given_text vs ''reason'' '''')) s))"

section \<open>Reports, retention and the backfill\<close>

definition report_lines :: "reconcile_report \<Rightarrow> line list" where
  "report_lines r =
     [Issue ''events without an active plan'' (rr_EventsWithoutGrant r),
      Issue ''limits differ from the plan'' (rr_LimitMismatch r),
      Issue ''counters differ from media'' (rr_CounterDrift r),
      Issue ''due for retention purge'' (rr_RetentionDue r),
      Issue ''storage ending soon'' (rr_ExpiringSoon r),
      Issue ''awaiting billing review'' (rr_BillingReview r)]"

definition problems :: "reconcile_report \<Rightarrow> nat" where
  "problems r = iu_Count (rr_EventsWithoutGrant r) + iu_Count (rr_LimitMismatch r) + iu_Count (rr_CounterDrift r)"

definition reconcile_answer :: "error + reconcile_report \<Rightarrow> answer" where
  "reconcile_answer res = (case res of
     Inl e \<Rightarrow> failing (Failed e)
   | Inr r \<Rightarrow> (printing (report_lines r))\<lparr>oc_Error :=
       (if 0 < problems r then Some (Op (FormatNat (problems r) @ '' invariant violations found'')) else None)\<rparr>)"

definition tool_reconcile :: "'o tool \<Rightarrow> string list \<Rightarrow> db \<Rightarrow> answer \<times> db" where
  "tool_reconcile E args =
     with_flags E [(''grace'', FlagDuration), (''expiring-within'', FlagDuration), (''sample'', FlagInt)] args
     (\<lambda>vs. opened E (\<lambda>s. (reconcile_answer (Reconcile (tl_now E) (given_duration (tl_duration E) vs ''grace'' DefaultGrace)
        (given_duration (tl_duration E) vs ''expiring-within'' (7 * 24 * hour)) (given_int vs ''sample'' 10) s), s)))"

text \<open>A listing run has a store that refuses. The archive is opened when its credentials are set.\<close>

definition noObjects :: "string \<Rightarrow> 'o \<Rightarrow> (error + int) \<times> 'o" where
  "noObjects prefix o1 = (Inl (Fmt ''planctl: storage is not opened for a listing run''), o1)"

definition retention_setup :: "'o tool \<Rightarrow> time \<Rightarrow> bool \<Rightarrow> op_error + 'o retention_env" where
  "retention_setup E grace execute =
     (let R = \<lparr>re_DeletePrefix = noObjects, re_archive_Delete = None, re_uuid_string = tl_uuid_string E,
        re_grace = grace, re_enforce = execute, re_now = tl_now E\<rparr>
      in if \<not> execute then Inr R
         else case tl_storage E of
           Inl e \<Rightarrow> Inl (Wrapped ''open storage: '' e)
         | Inr del \<Rightarrow>
             if tl_env E ''GOOGLE_DRIVE_REFRESH_TOKEN'' = '''' then Inr (R\<lparr>re_DeletePrefix := del\<rparr>)
             else (case tl_drive E of
                 Inl e \<Rightarrow> Inl (Wrapped ''open archive: '' e)
               | Inr arch \<Rightarrow> Inr (R\<lparr>re_DeletePrefix := del, re_archive_Delete := Some arch\<rparr>)))"

definition retention_answer :: "bool \<Rightarrow> retention_report \<Rightarrow> answer" where
  "retention_answer execute r =
     (let due = map DueEvent (rt_Candidates r); failed = length (rt_Failed r)
      in if \<not> execute then printing (due @ [DueOnly (rt_Due r)])
         else (printing (due @ [PurgedEvents (rt_Due r) (rt_Purged r) (rt_Failed r)]))\<lparr>oc_Error :=
           (if 0 < failed then Some (Op (FormatNat failed @
              '' events could not be purged; they are retried on the next run'')) else None)\<rparr>)"

definition retentionRun :: "'o tool \<Rightarrow> string list \<Rightarrow> db \<times> 'o \<Rightarrow> answer \<times> (db \<times> 'o)" where
  "retentionRun E args =
     with_flags E [(''execute'', FlagBool), (''limit'', FlagInt), (''grace'', FlagDuration)] args
     (\<lambda>vs. opened E (\<lambda>so.
       (let execute = given_bool vs ''execute'' in
        case retention_setup E (given_duration (tl_duration E) vs ''grace'' DefaultGrace) execute of
          Inl e \<Rightarrow> (failing e, so)
        | Inr R \<Rightarrow>
            (case RetentionRun (app_retention R) (given_int vs ''limit'' 25) (\<not> execute) so of
               (Inl e, so1) \<Rightarrow> (failing (Failed e), so1)
             | (Inr r, so1) \<Rightarrow> (retention_answer execute r, so1)))))"

definition backfill_setup :: "'o tool \<Rightarrow> bool \<Rightarrow> db backfill_env" where
  "backfill_setup E dryRun = \<lparr>be_registry = tool_registry E, be_catalog = gorm_catalog, be_repo = gorm_grants,
     be_uuid_string = tl_uuid_string E, be_fresh = tl_fresh E, be_now = tl_now E, be_dryRun = dryRun\<rparr>"

definition backfill_answer :: "bool \<Rightarrow> error option \<Rightarrow> backfill_report \<Rightarrow> answer" where
  "backfill_answer dryRun e r = (printing [Backfilled dryRun r])\<lparr>oc_Error :=
     (case e of
        Some e \<Rightarrow> Some (Failed e)
      | None \<Rightarrow> if bf_Failed r = [] then None
          else Some (Op (FormatNat (length (bf_Failed r)) @ '' events failed; re-run after fixing them'')))\<rparr>"

text \<open>None is a backfill the fuel was not enough for; the pages end when the ids do.\<close>

definition backfillLegacy :: "'o tool \<Rightarrow> string list \<Rightarrow> db \<Rightarrow> (answer \<times> db) option" where
  "backfillLegacy E args s =
     (case parse_flags (tl_duration E)
             (map_of [(''created-before'', FlagText), (''dry-run'', FlagBool), (''batch'', FlagInt)]) args [] of
        Inl e \<Rightarrow> Some (failing (BadFlag e), s)
      | Inr vs \<Rightarrow>
          (let before = given_text vs ''created-before'' '''' in
           if before = '''' then Some (failing (Op ''--created-before is required''), s)
           else case tl_rfc3339 E before of
             None \<Rightarrow> Some (failing (BadCutoff before), s)
           | Some cutoff \<Rightarrow>
               (case open_error E of
                  Some e \<Rightarrow> Some (failing e, s)
                | None \<Rightarrow>
                    (let dry = given_bool vs ''dry-run'' in
                     map_option (\<lambda>(e, r, s1). (backfill_answer dry e r, s1))
                       (BackfillLegacy (tl_fuel E) (backfill_setup E dry) cutoff (given_int vs ''batch'' 200) s)))))"

section \<open>Provider mappings\<close>

text \<open>The tables of mappings, with the constraints they have.\<close>

definition price_row_ok :: "provider_price \<Rightarrow> bool" where
  "price_row_ok p \<longleftrightarrow> pc_Currency p = to_upper (pc_Currency p) \<and> 0 \<le> pc_AmountMinor p"

definition price_keys_ok :: "provider_price list \<Rightarrow> bool" where
  "price_keys_ok t \<longleftrightarrow> distinct (map pc_ID t) \<and> distinct (map (\<lambda>p. (pc_Provider p, pc_ProviderPriceID p)) t) \<and>
     distinct (map (\<lambda>p. (pc_Provider p, pc_PlanVersionID p, pc_Currency p, pc_AmountMinor p)) (filter pc_Active t))"

definition write_prices :: "provider_price list \<Rightarrow> db \<Rightarrow> error + db" where
  "write_prices t s =
     (if \<not> list_all (\<lambda>p. text_ok (pc_Provider p) \<and> text_ok (pc_Currency p) \<and> text_ok (pc_ProviderPriceID p)) t
      then Inl (DB ErrInvalidText)
      else if \<not> list_all (\<lambda>p. rune_count (pc_Currency p) \<le> 3) t
      then Inl (Fmt ''value too long for type character(3)'')
      else if \<not> list_all price_row_ok t then Inl (DB ErrCheckViolated)
      else if \<not> price_keys_ok t then Inl (DB ErrDuplicatedKey)
      else if \<not> list_all (\<lambda>p. pc_PlanVersionID p \<in> pv_ID ` set (t_plan_versions s)) t
      then Inl (DB ErrForeignKeyViolated)
      else Inr (s\<lparr>t_provider_prices := t\<rparr>))"

definition product_keys_ok :: "provider_product list \<Rightarrow> bool" where
  "product_keys_ok t \<longleftrightarrow> distinct (map px_ID t) \<and>
     distinct (map (\<lambda>p. (px_Provider p, px_PlanCode p)) (filter px_Active t))"

definition write_products :: "plan_definition list \<Rightarrow> provider_product list \<Rightarrow> db \<Rightarrow> error + db" where
  "write_products plans t s =
     (if \<not> list_all (\<lambda>p. text_ok (px_Provider p) \<and> text_ok (px_ProviderProductID p)) t then Inl (DB ErrInvalidText)
      else if \<not> product_keys_ok t then Inl (DB ErrDuplicatedKey)
      else if \<not> list_all (\<lambda>p. px_PlanCode p \<in> pd_Code ` set plans) t then Inl (DB ErrForeignKeyViolated)
      else Inr (s\<lparr>t_provider_products := t\<rparr>))"

definition retire_price :: "time \<Rightarrow> provider_price \<Rightarrow> provider_price" where
  "retire_price now p = p\<lparr>pc_Active := False, pc_RetiredAt := Some now\<rparr>"

definition retire_product :: "time \<Rightarrow> provider_product \<Rightarrow> provider_product" where
  "retire_product now p = p\<lparr>px_Active := False, px_RetiredAt := Some now\<rparr>"

definition list_prices :: "'o tool \<Rightarrow> db \<Rightarrow> (provider_price \<times> version) list" where
  "list_prices E s = sort_key
     (\<lambda>(p, v). (tl_collate E (pc_Provider p), tl_collate E (pv_Code v), tl_collate E (pc_Currency p),
        (if pc_Active p then 0 else 1 :: nat), - pc_CreatedAt p))
     (concat (map (\<lambda>p. map (Pair p) (filter (\<lambda>v. pv_ID v = pc_PlanVersionID p) (t_plan_versions s)))
        (t_provider_prices s)))"

definition same_price :: "provider_price \<Rightarrow> provider_price \<Rightarrow> bool" where
  "same_price n p \<longleftrightarrow> pc_Provider p = pc_Provider n \<and> pc_PlanVersionID p = pc_PlanVersionID n \<and>
     pc_Currency p = pc_Currency n \<and> pc_AmountMinor p = pc_AmountMinor n \<and> pc_Active p"

text \<open>The transaction: retire the active mapping of the price, then add the new one.\<close>

definition set_price_tx :: "time \<Rightarrow> provider_price \<Rightarrow> db \<Rightarrow> error + unit \<times> db" where
  "set_price_tx now n s =
     (case write_prices (update_where (same_price n) (retire_price now) (t_provider_prices s)) s of
        Inl e \<Rightarrow> Inl e
      | Inr s1 \<Rightarrow> map_sum id (Pair ()) (write_prices (t_provider_prices s1 @ [n]) s1))"

definition new_price ::
  "'o tool \<Rightarrow> (string \<times> string) list \<Rightarrow> version \<Rightarrow> provider_price" where
  "new_price E vs v = \<lparr>pc_ID = fst (tl_fresh E uuid_nil), pc_Provider = trim_space (given_text vs ''provider'' ''paddle''),
     pc_PlanVersionID = pv_ID v, pc_Currency = to_upper (trim_space (given_text vs ''currency'' ''USD'')),
     pc_ProviderPriceID = trim_space (given_text vs ''price-id'' ''''),
     pc_AmountMinor = given_int vs ''amount-minor'' (-1), pc_Active = True, pc_CreatedAt = tl_now E,
     pc_RetiredAt = None\<rparr>"

definition price_set :: "'o tool \<Rightarrow> (string \<times> string) list \<Rightarrow> db \<Rightarrow> answer \<times> db" where
  "price_set E vs s =
     (let plan = given_text vs ''plan'' '''' in
      if plan = '''' \<or> given_text vs ''price-id'' '''' = '''' \<or> given_int vs ''amount-minor'' (-1) < 0
      then (failing (Op ''--plan, --price-id and a non-negative --amount-minor are required''), s)
      else if \<not> Sellable (tool_registry E) plan then (failing (Op ''plan must be a sellable plan''), s)
      else case ActiveVersion (tool_registry E) gorm_catalog plan s of
        Inl e \<Rightarrow> (failing (Wrapped (''find active version for '' @ plan @ '': '') e), s)
      | Inr v \<Rightarrow>
          (case transaction (set_price_tx (tl_now E) (new_price E vs v)) s of
             (Inl e, s1) \<Rightarrow> (failing (Wrapped ''save price mapping: '' e), s1)
           | (Inr _, s1) \<Rightarrow> (printing [PriceSet (new_price E vs v) v], s1)))"

definition price_retire :: "'o tool \<Rightarrow> (string \<times> string) list \<Rightarrow> db \<Rightarrow> answer \<times> db" where
  "price_retire E vs s =
     (let ident = given_text vs ''price-id'' '''';
          q = (\<lambda>p. pc_Provider p = given_text vs ''provider'' ''paddle'' \<and> pc_ProviderPriceID p = ident \<and> pc_Active p)
      in if ident = '''' then (failing (Op ''--price-id is required''), s)
         else case write_prices (update_where q (retire_price (tl_now E)) (t_provider_prices s)) s of
           Inl e \<Rightarrow> (failing (Failed e), s)
         | Inr s1 \<Rightarrow>
             if count_where q (t_provider_prices s) = 0
             then (printing [Note ''no active mapping found with that price ID''], s1)
             else (printing [PriceRetired ident], s1))"

definition priceMap :: "'o tool \<Rightarrow> string list \<Rightarrow> db \<Rightarrow> answer \<times> db" where
  "priceMap E args s = (case args of
     [] \<Rightarrow> (failing (Op ''usage: planctl price-map <list|set|retire> [flags]''), s)
   | act # rest \<Rightarrow> opened E (\<lambda>s.
       if act = ''list'' then
         (printing (if list_prices E s = [] then [Note ''no provider price mappings found'']
            else [Prices (list_prices E s)]), s)
       else if act = ''set'' then
         with_flags E [(''provider'', FlagText), (''plan'', FlagText), (''currency'', FlagText),
            (''price-id'', FlagText), (''amount-minor'', FlagInt)] rest (price_set E) s
       else if act = ''retire'' then
         with_flags E [(''provider'', FlagText), (''price-id'', FlagText)] rest (price_retire E) s
       else (failing (UnknownAction act), s)) s)"

definition list_products :: "'o tool \<Rightarrow> db \<Rightarrow> provider_product list" where
  "list_products E s = sort_key
     (\<lambda>p. (tl_collate E (px_Provider p), tl_collate E (px_PlanCode p),
        (if px_Active p then 0 else 1 :: nat), - px_CreatedAt p)) (t_provider_products s)"

definition anchors :: "provider \<Rightarrow> plan_code \<Rightarrow> provider_product \<Rightarrow> bool" where
  "anchors prov plan p \<longleftrightarrow> px_Provider p = prov \<and> px_PlanCode p = plan \<and> px_Active p"

definition set_product_tx :: "plan_definition list \<Rightarrow> time \<Rightarrow> provider_product \<Rightarrow> db \<Rightarrow> error + unit \<times> db" where
  "set_product_tx plans now n s =
     (case write_products plans (update_where (anchors (px_Provider n) (px_PlanCode n)) (retire_product now)
             (t_provider_products s)) s of
        Inl e \<Rightarrow> Inl e
      | Inr s1 \<Rightarrow> map_sum id (Pair ()) (write_products plans (t_provider_products s1 @ [n]) s1))"

definition new_product :: "'o tool \<Rightarrow> (string \<times> string) list \<Rightarrow> provider_product" where
  "new_product E vs = \<lparr>px_ID = fst (tl_fresh E uuid_nil), px_Provider = trim_space (given_text vs ''provider'' ''paddle''),
     px_PlanCode = trim_space (given_text vs ''plan'' ''''),
     px_ProviderProductID = trim_space (given_text vs ''product-id'' ''''), px_Active = True,
     px_CreatedAt = tl_now E, px_RetiredAt = None\<rparr>"

definition product_set :: "'o tool \<Rightarrow> (string \<times> string) list \<Rightarrow> db \<Rightarrow> answer \<times> db" where
  "product_set E vs s =
     (let n = new_product E vs in
      if px_ProviderProductID n = '''' \<or> \<not> Sellable (tool_registry E) (px_PlanCode n)
      then (failing (Op ''--plan must be a sellable plan and --product-id is required''), s)
      else case transaction (set_product_tx (tl_plans E) (tl_now E) n) s of
        (Inl e, s1) \<Rightarrow> (failing (Wrapped ''save product mapping: '' e), s1)
      | (Inr _, s1) \<Rightarrow> (printing [ProductSet n], s1))"

definition product_retire :: "'o tool \<Rightarrow> (string \<times> string) list \<Rightarrow> db \<Rightarrow> answer \<times> db" where
  "product_retire E vs s =
     (let prov = given_text vs ''provider'' ''paddle''; plan = given_text vs ''plan'' '''' in
      if plan = '''' then (failing (Op ''--plan is required''), s)
      else case write_products (tl_plans E) (update_where (anchors prov plan) (retire_product (tl_now E))
             (t_provider_products s)) s of
        Inl e \<Rightarrow> (failing (Failed e), s)
      | Inr s1 \<Rightarrow>
          if count_where (anchors prov plan) (t_provider_products s) = 0
          then (failing (Op (''no active product mapping for '' @ prov @ ''/'' @ plan)), s1)
          else (printing [ProductRetired prov plan], s1))"

definition product_usage :: string where
  "product_usage = ''usage: planctl product-map <list|set|retire> [flags]''"

definition productMap :: "'o tool \<Rightarrow> string list \<Rightarrow> db \<Rightarrow> answer \<times> db" where
  "productMap E args s = (case args of
     [] \<Rightarrow> (failing (Op product_usage), s)
   | act # rest \<Rightarrow> opened E (\<lambda>s.
       if act = ''list'' then
         (printing (if t_provider_products s = [] then [Note ''no provider product mappings found'']
            else [Products (list_products E s)]), s)
       else if act = ''set'' then
         with_flags E [(''provider'', FlagText), (''plan'', FlagText), (''product-id'', FlagText)] rest (product_set E) s
       else if act = ''retire'' then
         with_flags E [(''provider'', FlagText), (''plan'', FlagText)] rest (product_retire E) s
       else (failing (Op product_usage), s)) s)"

section \<open>Billing\<close>

definition repair_input :: "'o tool \<Rightarrow> purchase \<Rightarrow> activate_input" where
  "repair_input E p = \<lparr>ai_EventID = pu_EventID p, ai_TargetPlanCode = pu_PlanCode p, ai_Source = SourceExternal,
     ai_SourceRef = purchase_ref (tl_uuid_string E) (pu_ID p), ai_ActorID = None,
     ai_Reason = ''paid event plan purchase reconciliation'',
     ai_ActivatedAt = coalesce (pu_SettledAt p) (tl_now E)\<rparr>"

definition repair_grant :: "'o tool \<Rightarrow> purchase \<Rightarrow> db \<Rightarrow> (error + grant) \<times> plan_change list \<times> db" where
  "repair_grant E p = GrantActivate (tool_registry E) gorm_catalog gorm_grants (tool_notifies E)
     (fst (tl_fresh E (pu_ID p))) (snd (tl_fresh E (pu_ID p))) (tl_now E) (repair_input E p)"

text \<open>The body of the loop: the line it prints, what it announced, and the state.\<close>

definition repair_one :: "'o tool \<Rightarrow> purchase \<Rightarrow> db \<Rightarrow> line \<times> plan_change list \<times> db" where
  "repair_one E p s =
     (case repair_grant E p s of (r, changes, s1) \<Rightarrow>
        (case r of
           Inl e \<Rightarrow> if e \<noteq> Entitlement ErrDuplicateSourceReference then (NotGranted (pu_ID p) e, changes, s1)
             else (case db_MarkEntitlementApplied (tl_now E) (pu_ID p) s1 of
                 (Some e, s2) \<Rightarrow> (NotMarked (pu_ID p) e, changes, s2)
               | (None, s2) \<Rightarrow> (Applied p, changes, s2))
         | Inr _ \<Rightarrow>
             (case db_MarkEntitlementApplied (tl_now E) (pu_ID p) s1 of
                (Some e, s2) \<Rightarrow> (NotMarked (pu_ID p) e, changes, s2)
              | (None, s2) \<Rightarrow> (Applied p, changes, s2))))"

fun repair_loop :: "'o tool \<Rightarrow> purchase list \<Rightarrow> db \<Rightarrow> line list \<times> plan_change list \<times> db" where
  "repair_loop E [] s = ([], [], s)"
| "repair_loop E (p # ps) s =
     (let (l, ch, s1) = repair_one E p s; (ls, chs, s2) = repair_loop E ps s1 in (l # ls, ch @ chs, s2))"

definition applied_line :: "line \<Rightarrow> bool" where
  "applied_line l = (case l of Applied _ \<Rightarrow> True | _ \<Rightarrow> False)"

definition repair_run :: "'o tool \<Rightarrow> int \<Rightarrow> db \<Rightarrow> answer \<times> db" where
  "repair_run E batch s =
     (case db_UnappliedSettled batch s of
        Inl e \<Rightarrow> (failing (Wrapped ''query unapplied purchases: '' e), s)
      | Inr [] \<Rightarrow> (printing [Note ''no unapplied settled purchases found; all billing grants in sync''], s)
      | Inr ps \<Rightarrow>
          (let (ls, chs, s1) = repair_loop E ps s in
           ((printing (Unapplied (length ps) # ls @ [Repaired (count_where applied_line ls) (length ps)]))
              \<lparr>oc_Changes := chs\<rparr>, s1)))"

definition billingReconcile :: "'o tool \<Rightarrow> string list \<Rightarrow> db \<Rightarrow> answer \<times> db" where
  "billingReconcile E args = with_flags E [(''batch'', FlagInt)] args
     (\<lambda>vs. opened E (repair_run E (given_int vs ''batch'' 50)))"

definition shown :: "purchase \<Rightarrow> db \<Rightarrow> shown_purchase" where
  "shown p s = \<lparr>sp_Purchase = p,
     sp_EventBilling = map_option ev_BillingStatus (lookup_row ev_ID (pu_EventID p) (t_events s)),
     sp_Deliveries = sort_key pe_ReceivedAt
       (filter (\<lambda>x. pe_PurchaseID x = Some (pu_ID p)) (t_provider_events s)),
     sp_Plan = (case Resolve gorm_grants (pu_EventID p) s of Inl _ \<Rightarrow> None | Inr ent \<Rightarrow> Some ent)\<rparr>"

definition matching :: "uuid option \<Rightarrow> uuid option \<Rightarrow> string \<Rightarrow> purchase \<Rightarrow> bool" where
  "matching ident eventID txn p \<longleftrightarrow>
     (ident = None \<or> ident = Some (pu_ID p)) \<and> (eventID = None \<or> eventID = Some (pu_EventID p)) \<and>
     (txn = '''' \<or> pu_ProviderTransactionID p = Some (trim_space txn))"

definition find_shown :: "uuid option \<Rightarrow> uuid option \<Rightarrow> string \<Rightarrow> db \<Rightarrow> answer" where
  "find_shown ident eventID txn s =
     (let ps = take 20 (sort_key (\<lambda>p. - pu_CreatedAt p) (filter (matching ident eventID txn) (t_purchases s)))
      in printing [if ps = [] then Note ''no matching purchases found'' else Shown (map (\<lambda>p. shown p s) ps)])"

text \<open>A flag that holds a uuid, or nothing.\<close>

definition uuid_flag :: "'o tool \<Rightarrow> (string \<times> string) list \<Rightarrow> string \<Rightarrow> op_error + uuid option" where
  "uuid_flag E vs n =
     (let v = given_text vs n '''' in
      if v = '''' then Inr None
      else case tl_uuid E v of None \<Rightarrow> Inl (BadUUID n v) | Some i \<Rightarrow> Inr (Some i))"

definition billingShow :: "'o tool \<Rightarrow> string list \<Rightarrow> db \<Rightarrow> answer \<times> db" where
  "billingShow E args =
     with_flags E [(''id'', FlagText), (''event'', FlagText), (''transaction'', FlagText)] args (\<lambda>vs s.
       (let txn = given_text vs ''transaction'' '''' in
        if given_text vs ''id'' '''' = '''' \<and> given_text vs ''event'' '''' = '''' \<and> txn = ''''
        then (failing (Op ''at least one of --id, --event, or --transaction is required''), s)
        else opened E (\<lambda>s. (case uuid_flag E vs ''id'' of
               Inl e \<Rightarrow> (failing e, s)
             | Inr ident \<Rightarrow>
                 (case uuid_flag E vs ''event'' of
                    Inl e \<Rightarrow> (failing e, s)
                  | Inr eventID \<Rightarrow> (find_shown ident eventID txn s, s)))) s))"

section \<open>The tool\<close>

definition planctl :: "'o tool \<Rightarrow> string list \<Rightarrow> db \<times> 'o \<Rightarrow> (answer \<times> (db \<times> 'o)) option" where
  "planctl E args so = (case args of
     [] \<Rightarrow> Some ((printing [Usage])\<lparr>oc_Error := Some (Op ''missing command'')\<rparr>, so)
   | c # rest \<Rightarrow>
       if c = ''show'' then Some (on_db (tool_show E rest) so)
       else if c = ''grant'' then Some (on_db (tool_grant E rest) so)
       else if c = ''revoke'' then Some (on_db (tool_revoke E rest) so)
       else if c = ''reconcile'' then Some (on_db (tool_reconcile E rest) so)
       else if c = ''retention'' then Some (retentionRun E rest so)
       else if c = ''backfill-legacy'' then
         map_option (\<lambda>(r, s1). (r, (s1, snd so))) (backfillLegacy E rest (fst so))
       else if c = ''price-map'' then Some (on_db (priceMap E rest) so)
       else if c = ''product-map'' then Some (on_db (productMap E rest) so)
       else if c = ''billing-reconcile'' then Some (on_db (billingReconcile E rest) so)
       else if c = ''billing-show'' then Some (on_db (billingShow E rest) so)
       else Some ((printing [Usage])\<lparr>oc_Error := Some (UnknownCommand c)\<rparr>, so))"

end
