(* ===== verification/PlanctlProps.thy ===== *)
theory PlanctlProps
  imports Planctl PaidProps
begin

text \<open>
  Correctness of the operations tool: which commands only look, what setting a product anchor
  does to checkouts, and what the repair of unapplied purchases leaves undone.
\<close>

section \<open>Commands that only look\<close>

definition asks :: "'o tool \<Rightarrow> (string \<times> flag_kind) list \<Rightarrow> string list \<Rightarrow> string \<Rightarrow> bool" where
  "asks E formal args n \<longleftrightarrow>
     (case parse_flags (tl_duration E) (map_of formal) args [] of Inl _ \<Rightarrow> False | Inr vs \<Rightarrow> given_bool vs n)"

definition only_looks :: "'o tool \<Rightarrow> string list \<Rightarrow> bool" where
  "only_looks E args \<longleftrightarrow> (case args of [] \<Rightarrow> True | c # rest \<Rightarrow>
     c \<in> {''show'', ''reconcile'', ''billing-show''} \<or>
     (c \<in> {''price-map'', ''product-map''} \<and> (rest = [] \<or> hd rest = ''list'')) \<or>
     (c = ''retention'' \<and>
        \<not> asks E [(''execute'', FlagBool), (''limit'', FlagInt), (''grace'', FlagDuration)] rest ''execute'') \<or>
     (c = ''backfill-legacy'' \<and>
        asks E [(''created-before'', FlagText), (''dry-run'', FlagBool), (''batch'', FlagInt)] rest ''dry-run''))"

named_theorems looks \<open>steps that leave the state as it was\<close>

lemma opened_looks [looks]: "(\<And>x. snd (k x) = x) \<Longrightarrow> snd (opened E k s) = s"
  by (simp add: opened_def split: option.splits)

lemma with_flags_looks [looks]: "(\<And>vs x. snd (k vs x) = x) \<Longrightarrow> snd (with_flags E formal args k s) = s"
  by (simp add: with_flags_def split: sum.splits)

lemma for_event_looks [looks]: "(\<And>i x. snd (k i x) = x) \<Longrightarrow> snd (for_event E vs k s) = s"
  by (simp add: for_event_def split: sum.splits)

lemma on_db_looks [looks]: "(\<And>x. snd (f x) = x) \<Longrightarrow> snd (on_db f so) = so"
  by (simp add: on_db_def case_prod_beta)

lemma tool_show_looks [looks]: "snd (tool_show E args s) = s"
  unfolding tool_show_def by (intro looks) simp

lemma tool_reconcile_looks [looks]: "snd (tool_reconcile E args s) = s"
  unfolding tool_reconcile_def by (intro looks) simp

lemma billingShow_looks [looks]: "snd (billingShow E args s) = s"
  unfolding billingShow_def
  by (intro with_flags_looks) (auto simp: Let_def split: sum.splits intro!: opened_looks)

lemma priceMap_looks: "rest = [] \<or> hd rest = ''list'' \<Longrightarrow> snd (priceMap E rest s) = s"
  by (cases rest) (auto simp: priceMap_def intro!: opened_looks)

lemma productMap_looks: "rest = [] \<or> hd rest = ''list'' \<Longrightarrow> snd (productMap E rest s) = s"
  by (cases rest) (auto simp: productMap_def intro!: opened_looks)

lemma retention_listing: "RetentionRun (app_retention R) n True so = (x, so1) \<Longrightarrow> so1 = so"
  by (auto simp: RetentionRun_def purge_each_dry Let_def split: sum.splits)

lemma retentionRun_looks:
  assumes "\<not> asks E [(''execute'', FlagBool), (''limit'', FlagInt), (''grace'', FlagDuration)] args ''execute''"
  shows "snd (retentionRun E args so) = so"
proof (cases "parse_flags (tl_duration E)
    (map_of [(''execute'', FlagBool), (''limit'', FlagInt), (''grace'', FlagDuration)]) args []")
  case (Inr vs)
  with assms have "given_bool vs ''execute'' = False" by (simp add: asks_def)
  then show ?thesis
    unfolding retentionRun_def with_flags_def Inr
    by (auto simp: Let_def intro!: opened_looks dest!: retention_listing split: sum.splits prod.splits)
qed (simp add: retentionRun_def with_flags_def)

lemma backfill_one_dry: "be_dryRun B \<Longrightarrow> snd (backfill_one B i rs) = snd rs"
  by (simp add: backfill_one_def split: prod.split)

lemma backfill_pages_dry: "be_dryRun B \<Longrightarrow> snd (fold (backfill_one B) ids rs) = snd rs"
  by (induction ids arbitrary: rs) (simp_all add: backfill_one_dry)

lemma backfill_loop_dry:
  "be_dryRun B \<Longrightarrow> backfill_loop n B cutoff batch i rs = Some (e, r, s1) \<Longrightarrow> s1 = snd rs"
  by (induction n B cutoff batch i rs rule: backfill_loop.induct)
    (auto simp: backfill_pages_dry split: sum.splits if_splits)

lemma backfillLegacy_looks:
  assumes "asks E [(''created-before'', FlagText), (''dry-run'', FlagBool), (''batch'', FlagInt)] args ''dry-run''"
    and "backfillLegacy E args s = Some (r, s1)"
  shows "s1 = s"
  using assms unfolding backfillLegacy_def asks_def
  by (auto simp: Let_def BackfillLegacy_def backfill_setup_def split: sum.splits if_splits option.splits
      dest!: backfill_loop_dry [rotated])


section \<open>Product anchors\<close>

lemma write_products_ok:
  "write_products plans t s = Inr s1 \<Longrightarrow> s1 = s\<lparr>t_provider_products := t\<rparr> \<and> product_keys_ok t"
  by (auto simp: write_products_def split: if_splits)

lemma retired_anchors_nothing [simp]: "\<not> anchors prov plan (retire_product now p)"
  by (simp add: anchors_def retire_product_def)

lemma anchors_one: "anchors prov' plan' p \<Longrightarrow> anchors prov plan p \<longleftrightarrow> prov' = prov \<and> plan' = plan"
  by (auto simp: anchors_def)

lemma anchors_retired:
  "filter (anchors prov plan) (update_where (anchors prov' plan') (retire_product now) t) =
    (if prov' = prov \<and> plan' = plan then [] else filter (anchors prov plan) t)"
  by (induction t) (auto dest: anchors_one)

text \<open>The anchor a checkout looks up.\<close>

lemma FindProviderProduct_anchor:
  "db_FindProviderProduct prov plan s =
     (case sort_key px_ID (filter (anchors prov plan) (t_provider_products s)) of
        [] \<Rightarrow> Inl (Billing ErrProviderProductNotFound) | p # _ \<Rightarrow> Inr p)"
proof -
  have "(\<lambda>p. px_Provider p = prov \<and> px_PlanCode p = plan \<and> px_Active p) = anchors prov plan"
    by (simp add: anchors_def [abs_def])
  then show ?thesis by (simp add: db_FindProviderProduct_def first_by_def split: list.split)
qed

lemma set_product_ok:
  assumes "transaction (set_product_tx plans now n) s = (Inr u, s1)" "px_Active n"
  shows "s1 = s\<lparr>t_provider_products := t_provider_products s1\<rparr>"
    "db_FindProviderProduct prov plan s1 =
      (if px_Provider n = prov \<and> px_PlanCode n = plan then Inr n else db_FindProviderProduct prov plan s)"
proof -
  let ?t = "update_where (anchors (px_Provider n) (px_PlanCode n)) (retire_product now) (t_provider_products s)"
  have s1: "s1 = s\<lparr>t_provider_products := ?t @ [n]\<rparr>"
    using assms(1)
    by (auto simp: transaction_def set_product_tx_def map_sum_def split: sum.splits dest!: write_products_ok)
  then show "s1 = s\<lparr>t_provider_products := t_provider_products s1\<rparr>" by simp
  have "anchors (px_Provider n) (px_PlanCode n) n" using assms(2) by (simp add: anchors_def)
  moreover have "anchors prov plan n \<longleftrightarrow> px_Provider n = prov \<and> px_PlanCode n = plan"
    using assms(2) by (simp add: anchors_def)
  ultimately show "db_FindProviderProduct prov plan s1 =
      (if px_Provider n = prov \<and> px_PlanCode n = plan then Inr n else db_FindProviderProduct prov plan s)"
    by (auto simp: FindProviderProduct_anchor s1 anchors_retired)
qed

text \<open>What a successful product-map set did.\<close>

lemma product_map_set_ok:
  assumes "planctl E (''product-map'' # ''set'' # rest) so = Some (r, so')" "oc_Error r = None"
  obtains vs where "oc_Lines r = [ProductSet (new_product E vs)]" "px_ProviderProductID (new_product E vs) \<noteq> ''''"
    "Sellable (tool_registry E) (px_PlanCode (new_product E vs))" "snd so' = snd so"
    "transaction (set_product_tx (tl_plans E) (tl_now E) (new_product E vs)) (fst so) = (Inr (), fst so')"
proof -
  obtain r0 s1 where p: "productMap E (''set'' # rest) (fst so) = (r0, s1)" by (rule prod.exhaust)
  with assms(1) have r: "r = r0" "so' = (s1, snd so)" by (auto simp: planctl_def on_db_def)
  from p assms(2) obtain vs where "product_set E vs (fst so) = (r0, s1)"
    by (auto simp: r productMap_def opened_def with_flags_def failing_def split: option.splits sum.splits)
  then show ?thesis
    using that [of vs] assms(2)
    by (auto simp: r product_set_def Let_def failing_def printing_def split: if_splits sum.splits prod.splits)
qed

text \<open>C16: after product-map set succeeded, checkouts of that plan and provider find the product that
was set, so the plan is no gap of the billing service, every other plan or provider finds what it
found before, and nothing but the table of anchors changed.\<close>

theorem anchor_set_closes_gap:
  assumes "planctl E (''product-map'' # ''set'' # rest) so = Some (r, so')" "oc_Error r = None"
  shows "\<exists>n. oc_Lines r = [ProductSet n] \<and> Sellable (tool_registry E) (px_PlanCode n) \<and>
    fst so' = (fst so)\<lparr>t_provider_products := t_provider_products (fst so')\<rparr> \<and> snd so' = snd so \<and>
    (\<forall>prov plan. db_FindProviderProduct prov plan (fst so') =
       (if px_Provider n = prov \<and> px_PlanCode n = plan then Inr n else db_FindProviderProduct prov plan (fst so))) \<and>
    (\<forall>A. px_PlanCode n \<notin> set (ExecutionGaps (app_billing (A\<lparr>en_provider := px_Provider n\<rparr>)) (fst so')))"
proof -
  from assms obtain vs where vs: "oc_Lines r = [ProductSet (new_product E vs)]"
    "Sellable (tool_registry E) (px_PlanCode (new_product E vs))" "snd so' = snd so"
    "transaction (set_product_tx (tl_plans E) (tl_now E) (new_product E vs)) (fst so) = (Inr (), fst so')"
    by (rule product_map_set_ok)
  have "px_Active (new_product E vs)" by (simp add: new_product_def)
  note ok = set_product_ok [OF vs(4) this]
  from ok(2) have "px_PlanCode (new_product E vs) \<notin>
      set (ExecutionGaps (app_billing (A\<lparr>en_provider := px_Provider (new_product E vs)\<rparr>)) (fst so'))" for A
    by (simp add: ExecutionGaps_def app_fields gorm_fields)
  with vs ok show ?thesis by blast
qed

section \<open>The repair of unapplied purchases\<close>

lemma hot_limits_trial: "map ev_TrialEndedAt (t_events (applyHotLimits i l s)) = map ev_TrialEndedAt (t_events s)"
  by (simp add: applyHotLimits_def map_update_where_same)

lemma repair_grant_frame:
  assumes "repair_grant E p s = (r, ch, s1)"
  shows "t_licenses s1 = t_licenses s" "map ev_TrialEndedAt (t_events s1) = map ev_TrialEndedAt (t_events s)"
    "t_purchases s1 = t_purchases s"
proof -
  have "s1 = s \<or> (\<exists>aid g prev target reason. writeGrant aid g prev target reason s = Inr s1)"
  proof (cases r)
    case (Inl e)
    with assms have "s1 = s" unfolding repair_grant_def by (blast dest: activation_error_atomic)
    then show ?thesis ..
  next
    case (Inr g)
    from GrantActivate_Inr [OF assms [unfolded repair_grant_def Inr]] obtain req build aid
      where "db_Activate aid req build s = (Inr g, s1)" by metis
    from db_Activate_Inr [OF this] show ?thesis by metis
  qed
  then show "t_licenses s1 = t_licenses s" "map ev_TrialEndedAt (t_events s1) = map ev_TrialEndedAt (t_events s)"
    "t_purchases s1 = t_purchases s"
    using hot_limits_trial writeGrant_Inr by metis+
qed

lemma MarkEntitlementApplied_frame:
  assumes "db_MarkEntitlementApplied now i s = (e, s1)"
  shows "t_licenses s1 = t_licenses s" "t_events s1 = t_events s"
    "q1 \<in> set (t_purchases s1) \<Longrightarrow> e = None \<and> pu_ID q1 = i \<and> pu_EntitlementAppliedAt q1 \<noteq> None \<or>
       q1 \<in> set (t_purchases s) \<and> (e = None \<longrightarrow> pu_ID q1 \<noteq> i)"
proof -
  have "e \<noteq> None \<and> s1 = s \<or> e = None \<and> s1 = s\<lparr>t_purchases := update_where (\<lambda>p. pu_ID p = i)
      (\<lambda>p. p\<lparr>pu_EntitlementAppliedAt := Some now, pu_UpdatedAt := now\<rparr>) (t_purchases s)\<rparr>"
    using assms by (auto simp: db_MarkEntitlementApplied_def update_purchases_def write_purchases_def
        split: sum.splits if_splits)
  then have "t_licenses s1 = t_licenses s \<and> t_events s1 = t_events s \<and>
    (q1 \<in> set (t_purchases s1) \<longrightarrow> e = None \<and> pu_ID q1 = i \<and> pu_EntitlementAppliedAt q1 \<noteq> None \<or>
       q1 \<in> set (t_purchases s) \<and> (e = None \<longrightarrow> pu_ID q1 \<noteq> i))"
  proof (elim disjE conjE)
    assume "s1 = s\<lparr>t_purchases := update_where (\<lambda>p. pu_ID p = i)
        (\<lambda>p. p\<lparr>pu_EntitlementAppliedAt := Some now, pu_UpdatedAt := now\<rparr>) (t_purchases s)\<rparr>" "e = None"
    then show ?thesis by (simp add: set_update_where) auto
  qed auto
  then show "t_licenses s1 = t_licenses s" "t_events s1 = t_events s"
    "q1 \<in> set (t_purchases s1) \<Longrightarrow> e = None \<and> pu_ID q1 = i \<and> pu_EntitlementAppliedAt q1 \<noteq> None \<or>
       q1 \<in> set (t_purchases s) \<and> (e = None \<longrightarrow> pu_ID q1 \<noteq> i)"
    by (simp_all only:)
qed

definition marked :: "uuid \<Rightarrow> db \<Rightarrow> bool" where
  "marked i s \<longleftrightarrow> (\<forall>q \<in> set (t_purchases s). pu_ID q = i \<longrightarrow> pu_EntitlementAppliedAt q \<noteq> None)"

lemma repair_one_frame:
  assumes "repair_one E p s = (l, ch, s1)"
  shows "t_licenses s1 = t_licenses s" "map ev_TrialEndedAt (t_events s1) = map ev_TrialEndedAt (t_events s)"
    "marked i s \<Longrightarrow> marked i s1" "l = Applied q \<Longrightarrow> q = p \<and> marked (pu_ID p) s1"
proof -
  obtain r c s0 where g: "repair_grant E p s = (r, c, s0)" by (rule prod_cases3)
  obtain e s2 where m: "db_MarkEntitlementApplied (tl_now E) (pu_ID p) s0 = (e, s2)" by (rule prod.exhaust)
  from assms g m consider "s1 = s0" "\<forall>q. l \<noteq> Applied q"
    | "s1 = s2" "\<forall>q. l = Applied q \<longrightarrow> q = p \<and> e = None"
    by (auto simp: repair_one_def split: sum.splits if_splits option.splits)
  note cases = this
  note f = repair_grant_frame [OF g] and k = MarkEntitlementApplied_frame [OF m]
  from cases show "t_licenses s1 = t_licenses s" by cases (simp_all add: f k)
  from cases show "map ev_TrialEndedAt (t_events s1) = map ev_TrialEndedAt (t_events s)" by cases (simp_all add: f k)
  show "marked i s \<Longrightarrow> marked i s1" using cases
  proof cases
    case 2
    then show "marked i s \<Longrightarrow> marked i s1" using k(3) f(3) unfolding marked_def by metis
  qed (simp add: marked_def f)
  show "l = Applied q \<Longrightarrow> q = p \<and> marked (pu_ID p) s1" using cases
  proof cases
    case 2
    then show "l = Applied q \<Longrightarrow> q = p \<and> marked (pu_ID p) s1" using k(3) unfolding marked_def by metis
  qed simp
qed

lemma repair_loop_frame:
  "repair_loop E ps s = (ls, ch, s1) \<Longrightarrow> t_licenses s1 = t_licenses s \<and>
     map ev_TrialEndedAt (t_events s1) = map ev_TrialEndedAt (t_events s) \<and>
     (marked i s \<longrightarrow> marked i s1) \<and> (Applied q \<in> set ls \<longrightarrow> marked (pu_ID q) s1)"
proof (induction ps arbitrary: s ls ch s1 i q)
  case (Cons p ps)
  obtain l c s0 where o: "repair_one E p s = (l, c, s0)" by (rule prod_cases3)
  obtain ls' c' s2 where l: "repair_loop E ps s0 = (ls', c', s2)" by (rule prod_cases3)
  from Cons.prems o l have eq: "ls = l # ls'" "s1 = s2" by auto
  have one: "t_licenses s0 = t_licenses s" "map ev_TrialEndedAt (t_events s0) = map ev_TrialEndedAt (t_events s)"
    "\<And>i. marked i s \<Longrightarrow> marked i s0" "\<And>q. l = Applied q \<Longrightarrow> marked (pu_ID q) s0"
    using repair_one_frame [OF o] by blast+
  from Cons.IH [OF l] have rest: "t_licenses s2 = t_licenses s0"
    "map ev_TrialEndedAt (t_events s2) = map ev_TrialEndedAt (t_events s0)"
    "\<And>i. marked i s0 \<Longrightarrow> marked i s2" "\<And>q. Applied q \<in> set ls' \<Longrightarrow> marked (pu_ID q) s2" by blast+
  show ?case unfolding eq using one rest by (metis set_ConsD)
qed simp

text \<open>C15: the repair by hand goes past the licenses. billing-reconcile grants a paid plan and marks the
purchase applied, so that the reconciliation of the API never looks at it again, but it issues and
consumes no license and ends no trial, which the delivery of the same payment would have done.\<close>

theorem repair_skips_license:
  assumes "planctl E (''billing-reconcile'' # rest) so = Some (r, so')"
  shows "t_licenses (fst so') = t_licenses (fst so) \<and>
    map ev_TrialEndedAt (t_events (fst so')) = map ev_TrialEndedAt (t_events (fst so)) \<and>
    (\<forall>p lim ps. Applied p \<in> set (oc_Lines r) \<longrightarrow> db_UnappliedSettled lim (fst so') = Inr ps \<longrightarrow>
       pu_ID p \<notin> pu_ID ` set ps)"
proof -
  let ?keeps = "\<lambda>s1 ls. t_licenses s1 = t_licenses (fst so) \<and>
    map ev_TrialEndedAt (t_events s1) = map ev_TrialEndedAt (t_events (fst so)) \<and>
    (\<forall>p. Applied p \<in> set ls \<longrightarrow> marked (pu_ID p) s1)"
  have run: "?keeps (snd (repair_run E batch (fst so))) (oc_Lines (fst (repair_run E batch (fst so))))" for batch
  proof (cases "db_UnappliedSettled batch (fst so)")
    case (Inr ps)
    obtain ls c s1 where l: "repair_loop E ps (fst so) = (ls, c, s1)" by (rule prod_cases3)
    show ?thesis
      using Inr l repair_loop_frame [OF l] by (cases ps) (auto simp: repair_run_def printing_def)
  qed (simp add: repair_run_def failing_def)
  have "?keeps (fst so') (oc_Lines r)"
    using assms run
    by (auto simp: planctl_def on_db_def billingReconcile_def with_flags_def opened_def failing_def
        split: prod.splits sum.splits option.splits) (metis fst_conv snd_conv)+
  then show ?thesis
    unfolding db_UnappliedSettled_def marked_def by (fastforce dest: in_set_takeD)
qed

section \<open>An operator at work\<close>

definition fx_tool :: "unit tool" where
  "fx_tool = \<lparr>tl_env = (\<lambda>k. if k = ''DATABASE_URL'' then ''db'' else ''''), tl_connect = None, tl_bus = None,
     tl_plans = ordered default_registry, tl_plans_error = None, tl_uuid = (\<lambda>s. None),
     tl_uuid_string = fx_uuid_string, tl_duration = (\<lambda>s. None), tl_rfc3339 = (\<lambda>s. None),
     tl_user = Some ''ops'', tl_now = 90, tl_fresh = (\<lambda>i. (70 + i, 80 + i)), tl_collate = length,
     tl_storage = Inl (Fmt ''closed''), tl_drive = Inl (Fmt ''closed''), tl_fuel = 9\<rparr>"

abbreviation fx_run_tool :: "string list \<Rightarrow> db \<Rightarrow> (answer \<times> (db \<times> unit)) option" where
  "fx_run_tool args s \<equiv> planctl fx_tool args (s, ())"

lemma fx_look: "map_option (\<lambda>x. oc_Error (fst x)) (fx_run_tool [''reconcile''] fx_db) = Some None"
  by code_simp


abbreviation fx_set_anchor :: "string list" where
  "fx_set_anchor \<equiv> [''product-map'', ''set'', ''--plan=signature'', ''--product-id'', ''pro_x'']"

lemma fx_anchor:
  "map_option (\<lambda>x. (oc_Error (fst x), map px_Active (t_provider_products (fst (snd x))),
      map_sum (\<lambda>_. ()) px_ProviderProductID (db_FindProviderProduct ''paddle'' PlanSignature (fst (snd x)))))
     (fx_run_tool fx_set_anchor fx_shop) = Some (None, [True, False, True], Inr ''pro_x'')"
  by code_simp

theorem anchor_set_closes_gap_witness:
  "\<exists>r so'. fx_run_tool fx_set_anchor fx_shop = Some (r, so') \<and>
     db_FindProviderProduct ''paddle'' PlanExperience (fst so') = db_FindProviderProduct ''paddle'' PlanExperience fx_shop \<and>
     map px_Active (t_provider_products (fst so')) = [True, False, True]"
proof -
  obtain r so' where run: "fx_run_tool fx_set_anchor fx_shop = Some (r, so')" "oc_Error r = None"
    and st: "map px_Active (t_provider_products (fst so')) = [True, False, True]"
    and x: "map_sum (\<lambda>_. ()) px_ProviderProductID (db_FindProviderProduct ''paddle'' PlanSignature (fst so')) = Inr ''pro_x''"
    using fx_anchor by auto
  have old: "map_sum (\<lambda>_. ()) px_ProviderProductID (db_FindProviderProduct ''paddle'' PlanSignature fx_shop) = Inr ''pro_s''"
    by code_simp
  from anchor_set_closes_gap [OF run] obtain n where
    n: "\<forall>prov plan. db_FindProviderProduct prov plan (fst so') =
       (if px_Provider n = prov \<and> px_PlanCode n = plan then Inr n else db_FindProviderProduct prov plan fx_shop)"
    unfolding fst_conv by blast
  from n x old have "px_PlanCode n = PlanSignature" by (auto split: if_splits)
  then have "px_PlanCode n \<noteq> PlanExperience" by (simp add: PlanSignature_def PlanExperience_def)
  with n run st show ?thesis by auto
qed

text \<open>The event of the shop is on trial, and its purchase was settled but not applied.\<close>

definition fx_unapplied :: db where
  "fx_unapplied = fx_ordered\<lparr>
     t_purchases := map (\<lambda>p. p\<lparr>pu_Status := StatusSettled, pu_SettledAt := Some 65\<rparr>) (t_purchases fx_ordered),
     t_events := map (\<lambda>e. e\<lparr>ev_TrialStartedAt := Some 1, ev_TrialEndedAt := None\<rparr>) (t_events fx_ordered)\<rparr>"

lemma fx_repair:
  "map_option (\<lambda>x. (map pu_EntitlementAppliedAt (t_purchases (fst (snd x))), count_where applied_line (oc_Lines (fst x)),
      map_sum (\<lambda>_. ()) ag_PlanCode (db_ActiveGrant 7 (fst (snd x)))))
     (fx_run_tool [''billing-reconcile''] fx_unapplied) = Some ([Some 90], 1, Inr PlanExperience)"
  "t_licenses fx_unapplied = [] \<and> map ev_TrialEndedAt (t_events fx_unapplied) = [None]"
  by code_simp+

theorem repair_skips_license_witness:
  "\<exists>r so'. fx_run_tool [''billing-reconcile''] fx_unapplied = Some (r, so') \<and>
     map pu_EntitlementAppliedAt (t_purchases (fst so')) = [Some 90] \<and>
     map_sum (\<lambda>_. ()) ag_PlanCode (db_ActiveGrant 7 (fst so')) = Inr PlanExperience \<and>
     t_licenses (fst so') = [] \<and> map ev_TrialEndedAt (t_events (fst so')) = [None]"
proof -
  obtain r so' where run: "fx_run_tool [''billing-reconcile''] fx_unapplied = Some (r, so')"
    and st: "map pu_EntitlementAppliedAt (t_purchases (fst so')) = [Some 90]"
      "map_sum (\<lambda>_. ()) ag_PlanCode (db_ActiveGrant 7 (fst so')) = Inr PlanExperience"
    using fx_repair(1) by auto
  from repair_skips_license [OF run] have "t_licenses (fst so') = t_licenses fx_unapplied"
    "map ev_TrialEndedAt (t_events (fst so')) = map ev_TrialEndedAt (t_events fx_unapplied)" by simp_all
  with run st fx_repair(2) show ?thesis by simp
qed

text \<open>The check of a grant's plan reads the registry built in, not the one of the database.\<close>

lemma grant_asks_builtin_registry:
  assumes "parse_flags (tl_duration E) (map_of grant_flags) args [] = Inr vs"
    and "parseEventID E (given_text vs ''event'' '''') = Inr i"
    and "\<not> Sellable default_registry (to_lower (trim_space (given_text vs ''plan'' '''')))"
  shows "tool_grant E args s = (failing (Op ''--plan must be a sellable plan''), s)"
  using assms by (simp add: tool_grant_def with_flags_def for_event_def)

end
