(* ===== verification/EventList.thy ===== *)
theory EventList
  imports EventHttp
begin

text \<open>
  The list of a host's events (ListByHost and attachMetrics of internal/event/repository.go, List
  of service.go and handler.go): search, order, pages, and the metrics shown beside each event.

  The database's lower case, its order of text and its current date are arguments. Rows that an
  ORDER BY does not separate come in table order.
\<close>

section \<open>Binary floating point\<close>

text \<open>
  A \<open>float64\<close> that is not negative is \<open>m * 2 ^ e\<close> with \<open>m\<close> up to \<open>2 ^ 53\<close>; results are rounded to
  the nearest, ties to the even mantissa. The numbers here are far from overflow and underflow.
\<close>

fun bit_length :: "nat \<Rightarrow> nat" where
  "bit_length n = (if n = 0 then 0 else Suc (bit_length (n div 2)))"

declare bit_length.simps [simp del]

definition round_even :: "nat \<Rightarrow> nat \<Rightarrow> nat" where
  "round_even p q = (let d = p div q; r = p mod q
     in if 2 * r < q \<or> (2 * r = q \<and> even d) then d else d + 1)"

definition round_ratio :: "nat \<Rightarrow> nat \<Rightarrow> nat \<times> int" where
  "round_ratio p q =
     (if p = 0 then (0, 0)
      else
        (let above = (\<lambda>e. if 0 \<le> e then p else p * 2 ^ nat (- e));
             below = (\<lambda>e. if 0 \<le> e then q * 2 ^ nat e else q);
             e0 = int (bit_length p) - int (bit_length q) - 53;
             e = (if 2 ^ 53 * below e0 \<le> above e0 then e0 + 1 else e0)
         in (round_even (above e) (below e), e)))"

definition float_of_nat :: "nat \<Rightarrow> nat \<times> int" where
  "float_of_nat n = round_ratio n 1"

definition float_div :: "nat \<times> int \<Rightarrow> nat \<times> int \<Rightarrow> nat \<times> int" where
  "float_div x y = (let (m, e) = round_ratio (fst x) (fst y) in (m, e + snd x - snd y))"

definition float_mul :: "nat \<times> int \<Rightarrow> nat \<times> int \<Rightarrow> nat \<times> int" where
  "float_mul x y = (let (m, e) = round_ratio (fst x * fst y) 1 in (m, e + snd x + snd y))"

definition float_to_nat :: "nat \<times> int \<Rightarrow> nat" where
  "float_to_nat x = (if 0 \<le> snd x then fst x * 2 ^ nat (snd x) else fst x div 2 ^ nat (- snd x))"

section \<open>Metrics\<close>

record event_metrics =
  mt_ScansCount :: nat
  mt_VisitorsCount :: nat
  mt_ContributorsCount :: nat
  mt_PhotosCount :: nat
  mt_VideosCount :: nat
  mt_ParticipationRate :: nat

definition participation_rate :: "nat \<Rightarrow> int \<Rightarrow> nat" where
  "participation_rate contributors expected =
     (if 0 < expected
      then min 100 (float_to_nat (float_mul
        (float_div (float_of_nat contributors) (float_of_nat (nat expected))) (float_of_nat 100)))
      else 0)"

definition attachMetrics :: "db \<Rightarrow> event \<Rightarrow> event_metrics" where
  "attachMetrics s e =
     (let media = filter (counted_media (ev_ID e)) (t_media s);
          contributors = length (remdups (map md_GuestSessionID media));
          scans = length (scanned (ev_ID e) s)
      in \<lparr>mt_ScansCount = scans, mt_VisitorsCount = scans, mt_ContributorsCount = contributors,
          mt_PhotosCount = count_where is_photo media, mt_VideosCount = count_where is_video media,
          mt_ParticipationRate = participation_rate contributors (ev_ExpectedGuestCount e)\<rparr>)"

section \<open>Search\<close>

text \<open>The characters of a text, each as its bytes.\<close>

function runes :: "string \<Rightarrow> string list" where
  "runes [] = []"
| "runes (c # r) =
     (c # takeWhile (\<lambda>b. utf8_tail (of_char b)) r) # runes (dropWhile (\<lambda>b. utf8_tail (of_char b)) r)"
  by pat_completeness auto
termination by (relation "measure length") (auto simp: less_Suc_eq_le length_dropWhile_le)

text \<open>
  \<open>LIKE\<close>: a percent sign stands for any text, an underscore for any character, and a backslash
  takes the next character as it is.
\<close>

fun like :: "string list \<Rightarrow> string list \<Rightarrow> bool" where
  "like [] s \<longleftrightarrow> s = []"
| "like (p # ps) [] \<longleftrightarrow> p = ''%'' \<and> like ps []"
| "like (p # ps) (c # s) \<longleftrightarrow>
     (if p = ''%'' then like ps (c # s) \<or> like (p # ps) s
      else if p = [CHR 0x5C] \<and> ps \<noteq> [] then c = hd ps \<and> like (tl ps) s
      else (p = ''_'' \<or> p = c) \<and> like ps s)"

record list_env =
  le_lower :: "string \<Rightarrow> string"
  le_collate :: "string \<Rightarrow> nat"
  le_today :: time

definition ilike :: "list_env \<Rightarrow> string \<Rightarrow> string \<Rightarrow> bool" where
  "ilike L text pattern = like (runes (le_lower L pattern)) (runes (le_lower L text))"

record list_query =
  lq_Page :: int
  lq_PerPage :: int
  lq_Query :: string
  lq_EventType :: string
  lq_Sort :: string
  lq_Direction :: string

definition searched :: "list_env \<Rightarrow> list_query \<Rightarrow> event \<Rightarrow> bool" where
  "searched L f e \<longleftrightarrow>
     (let q = trim_space (lq_Query f) in q = '''' \<or>
        ilike L (ev_Name e) (''%'' @ q @ ''%'') \<or> ilike L (ev_EventType e) (''%'' @ q @ ''%'')) \<and>
     (let t = trim_space (lq_EventType f) in t = '''' \<or> le_lower L (ev_EventType e) = le_lower L t)"

definition listed :: "list_env \<Rightarrow> uuid \<Rightarrow> list_query \<Rightarrow> event \<Rightarrow> bool" where
  "listed L hostID f e \<longleftrightarrow> ev_HostID e = hostID \<and> ev_Status e \<noteq> EventDeleted \<and> searched L f e"

section \<open>Order\<close>

type_synonym list_key = "int \<times> int \<times> int \<times> int \<times> int"

text \<open>The next events first, then the past ones and those without a date, the latest first.\<close>

definition upcoming_key :: "time \<Rightarrow> event \<Rightarrow> list_key" where
  "upcoming_key today e = (case ev_EventDate e of
     None \<Rightarrow> (1, 0, 0, 0, - ev_CreatedAt e)
   | Some d \<Rightarrow> if today \<le> d then (0, d, 1, - d, - ev_CreatedAt e) else (1, 0, 1, - d, - ev_CreatedAt e))"

definition list_order :: "list_env \<Rightarrow> list_query \<Rightarrow> event \<Rightarrow> list_key" where
  "list_order L f e =
     (let direction = to_lower (trim_space (lq_Direction f)); sort = to_lower (trim_space (lq_Sort f));
          newest = (- ev_CreatedAt e, 0, 0, 0, 0); oldest = (ev_CreatedAt e, 0, 0, 0, 0)
      in if sort = ''name'' then
           ((if direction = ''desc'' then - int (le_collate L (ev_Name e)) else int (le_collate L (ev_Name e))), 0, 0, 0, 0)
         else if sort = ''event_date'' \<or> sort = ''upcoming'' then
           (if direction = ''desc''
            then (case ev_EventDate e of
                None \<Rightarrow> (1, 0, - ev_CreatedAt e, 0, 0) | Some d \<Rightarrow> (0, - d, - ev_CreatedAt e, 0, 0))
            else upcoming_key (le_today L) e)
         else if sort = ''oldest'' then oldest
         else if sort = ''newest'' then newest
         else if direction = ''asc'' then oldest else newest)"

text \<open>An offset that overflowed is negative, and then no OFFSET is written.\<close>

definition db_ListByHost ::
  "list_env \<Rightarrow> uuid \<Rightarrow> list_query \<Rightarrow> db \<Rightarrow> (event \<times> event_metrics) list \<times> int" where
  "db_ListByHost L hostID f s =
     (let page = (if lq_Page f < 1 then 1 else lq_Page f);
          perPage = (if lq_PerPage f < 1 then 12 else lq_PerPage f);
          rows = filter (listed L hostID f) (t_events s)
      in (map (\<lambda>e. (e, attachMetrics s e))
            (take (nat perPage) (drop (nat (i64 ((page - 1) * perPage))) (sort_key (list_order L f) rows))),
          int (length rows)))"

section \<open>The service and the handler\<close>

definition trimmed :: "list_query \<Rightarrow> list_query" where
  "trimmed q = \<lparr>lq_Page = (if lq_Page q < 1 then 1 else lq_Page q),
     lq_PerPage = (if lq_PerPage q < 1 then 12 else if 100 < lq_PerPage q then 100 else lq_PerPage q),
     lq_Query = trim_space (lq_Query q), lq_EventType = trim_space (lq_EventType q),
     lq_Sort = trim_space (lq_Sort q), lq_Direction = trim_space (lq_Direction q)\<rparr>"

definition List_events ::
  "list_env \<Rightarrow> uuid \<Rightarrow> list_query \<Rightarrow> db \<Rightarrow> (event \<times> event_metrics) list \<times> pagination" where
  "List_events L hostID inp s =
     (let (rows, n) = db_ListByHost L hostID (trimmed inp) s
      in (rows, list_pagination (lq_Page inp) (lq_PerPage inp) n))"

text \<open>Zero and the empty text stand for what is not in the query, and are not checked.\<close>

definition list_query_ok :: "list_query \<Rightarrow> bool" where
  "list_query_ok q \<longleftrightarrow> 0 \<le> lq_Page q \<and> 0 \<le> lq_PerPage q \<and> lq_PerPage q \<le> 100 \<and>
     rune_count (lq_Query q) \<le> 100 \<and> rune_count (lq_EventType q) \<le> 80 \<and>
     lq_Sort q \<in> {'''', ''newest'', ''oldest'', ''name'', ''upcoming'', ''created_at'', ''event_date''} \<and>
     lq_Direction q \<in> {'''', ''asc'', ''desc'', ''ASC'', ''DESC''}"

definition event_List ::
  "list_env \<Rightarrow> profile_service \<Rightarrow> identity option \<Rightarrow> list_query option \<Rightarrow> db \<Rightarrow>
     ((event \<times> event_metrics) list \<times> pagination) reply \<times> db" where
  "event_List L P idn query s = (case query of
     None \<Rightarrow> (Problem 400 ''invalid_query'', s)
   | Some q \<Rightarrow>
       if \<not> list_query_ok q then (Problem 400 ''invalid_query'', s)
       else with_host P idn (\<lambda>hostID s. (Body 200 (List_events L hostID q s), s)) s)"

end
