(* ===== verification/EventListProps.thy ===== *)
theory EventListProps
  imports EventList Fixtures
begin

text \<open>
  The pages of the event list show every event of the host that the search finds, and what a
  search text without wildcards finds.
\<close>

section \<open>Pages\<close>

lemma concat_pages: "concat (map (\<lambda>k. take m (drop (k * m) xs)) [0..<j]) = take (j * m) xs"
proof (induction j)
  case (Suc j)
  have "take (Suc j * m) xs = take (j * m) xs @ take m (drop (j * m) xs)"
    using take_add [of "j * m" m xs] by (simp add: add.commute)
  with Suc show ?case by simp
qed simp

lemma upto_nat: "[1..int j] = map (\<lambda>k. int k + 1) [0..<j]"
proof (induction j)
  case (Suc j)
  have "[1..int (Suc j)] = [1..int (Suc j) - 1] @ [int (Suc j)]" by (rule upto_rec2) simp
  with Suc show ?case by simp
qed simp

lemma concat_pages_int:
  "concat (map (\<lambda>p. take m (drop (nat (p - 1) * m) xs)) [1..int j]) = take (j * m) xs"
  using concat_pages [of m xs j] by (simp add: upto_nat comp_def)

lemma pages_cover:
  assumes "0 < m" "int n \<le> int j * int m" "n = length xs"
  shows "concat (map (\<lambda>p. take m (drop (nat (p - 1) * m) xs)) [1..int j]) = xs"
proof -
  have "n \<le> j * m" using assms(2) by (metis of_nat_le_iff of_nat_mult)
  then show ?thesis using assms(3) by (simp add: concat_pages_int)
qed

lemma ceil_pages:
  fixes m n :: int
  assumes "0 < m" "0 \<le> n"
  shows "n \<le> (n + m - 1) div m * m" "((n + m - 1) div m - 1) * m \<le> n"
proof -
  obtain d r where "(n + m - 1) div m = d" "(n + m - 1) mod m = r" by simp
  moreover from this have "n + m - 1 = d * m + r" by (metis div_mult_mod_eq)
  moreover have "0 \<le> (n + m - 1) mod m" "(n + m - 1) mod m < m" using assms(1) by simp_all
  ultimately show "n \<le> (n + m - 1) div m * m" "((n + m - 1) div m - 1) * m \<le> n"
    by (simp_all add: left_diff_distrib)
qed

definition page_size :: "list_query \<Rightarrow> nat" where
  "page_size q = nat (lq_PerPage (trimmed q))"

lemma page_size_pos: "0 < page_size q"
  by (simp add: page_size_def trimmed_def)

lemma page_rows:
  assumes "1 \<le> p" "(p - 1) * int (page_size q) < 2 ^ 63"
  shows "fst (List_events L hostID (q\<lparr>lq_Page := p\<rparr>) s) =
    map (\<lambda>e. (e, attachMetrics s e)) (take (page_size q) (drop (nat (p - 1) * page_size q)
      (sort_key (list_order L (trimmed q)) (filter (listed L hostID (trimmed q)) (t_events s)))))"
proof -
  have t: "trimmed (q\<lparr>lq_Page := p\<rparr>) = (trimmed q)\<lparr>lq_Page := p\<rparr>" using assms(1) by (simp add: trimmed_def)
  have f: "listed L hostID (r\<lparr>lq_Page := p\<rparr>) = listed L hostID r" "list_order L (r\<lparr>lq_Page := p\<rparr>) = list_order L r" for r
    by (simp_all add: listed_def [abs_def] searched_def list_order_def [abs_def])
  have pp: "\<not> lq_PerPage (trimmed q) < 1" "nat (lq_PerPage (trimmed q)) = page_size q"
    "lq_PerPage (trimmed q) = int (page_size q)"
    by (simp_all add: page_size_def trimmed_def)
  have "i64 ((p - 1) * int (page_size q)) = (p - 1) * int (page_size q)"
    using assms by (intro i64_small) simp_all
  moreover have "nat ((p - 1) * int (page_size q)) = nat (p - 1) * page_size q"
    using assms(1) by (simp add: nat_mult_distrib)
  ultimately show ?thesis
    using assms(1) pp by (simp add: List_events_def db_ListByHost_def t f Let_def)
qed

lemma total_pages:
  "pg_TotalPages (snd (List_events L hostID q s)) =
    (let n = length (filter (listed L hostID (trimmed q)) (t_events s))
     in if n = 0 then 1 else (int n + int (page_size q) - 1) div int (page_size q))"
  by (auto simp: List_events_def db_ListByHost_def list_pagination_def page_size_def trimmed_def Let_def)


definition fx_list :: list_env where
  "fx_list = \<lparr>le_lower = map ascii_lower, le_collate = length, le_today = 50\<rparr>"

definition fx_query :: list_query where
  "fx_query = \<lparr>lq_Page = 0, lq_PerPage = 1, lq_Query = '''', lq_EventType = '''', lq_Sort = ''newest'', lq_Direction = ''''\<rparr>"

text \<open>Three events of the host, one of them deleted.\<close>

definition fx_events :: db where
  "fx_events = fx_db\<lparr>t_events := [fx_event, fx_event\<lparr>ev_ID := 8, ev_CreatedAt := ev_CreatedAt fx_event + 5\<rparr>,
     fx_event\<lparr>ev_ID := 9, ev_Status := EventDeleted\<rparr>]\<rparr>"

lemma fx_texts: "trim_space '''' = ''''" "trim_space ''newest'' = ''newest''" "to_lower ''newest'' = ''newest''" "to_lower '''' = ''''"
  by code_simp+

lemma fx_pages: "pg_TotalPages (snd (List_events fx_list (ev_HostID fx_event) fx_query fx_events)) = 2"
  "map ev_ID (sort_key (list_order fx_list (trimmed fx_query))
     (filter (listed fx_list (ev_HostID fx_event) (trimmed fx_query)) (t_events fx_events))) = [8, 7]"
  using fx_texts
  by (simp_all add: fx_events_def fx_query_def trimmed_def listed_def searched_def list_order_def total_pages
      page_size_def fx Let_def)


section \<open>Search\<close>

lemma like_rest: "like [''%''] s"
  by (induction s) simp_all

lemma like_prefix: "set q \<inter> {''%'', ''_'', [CHR 0x5C]} = {} \<Longrightarrow> like (q @ [''%'']) s \<longleftrightarrow> (\<exists>b. s = q @ b)"
proof (induction q arbitrary: s)
  case (Cons p q)
  then show ?case by (cases s) auto
qed (simp add: like_rest)

text \<open>A search text without wildcards is found where it is part of the text.\<close>

lemma like_contains:
  assumes "set q \<inter> {''%'', ''_'', [CHR 0x5C]} = {}"
  shows "like (''%'' # q @ [''%'']) s \<longleftrightarrow> (\<exists>a b. s = a @ q @ b)"
proof (induction s)
  case Nil
  then show ?case using like_prefix [OF assms, of "[]"] by simp
next
  case (Cons c s)
  have "(\<exists>a b. c # s = a @ q @ b) \<longleftrightarrow> (\<exists>b. c # s = q @ b) \<or> (\<exists>a b. s = a @ q @ b)"
    by (metis append_Cons append_Nil list.exhaust list.inject)
  with Cons like_prefix [OF assms, of "c # s"] show ?case by simp
qed

text \<open>A wildcard is not taken as it is: an underscore finds every event that has a name.\<close>

lemma underscore_finds_all:
  assumes "runes (le_lower L ''%_%'') = [''%'', ''_'', ''%'']" "runes (le_lower L t) \<noteq> []"
  shows "ilike L t ''%_%''"
  using assms like_rest by (cases "runes (le_lower L t)") (simp_all add: ilike_def)

section \<open>The participation rate\<close>

lemma rate_bounded: "participation_rate c n \<le> 100"
  by (simp add: participation_rate_def)

text \<open>The product is cut off after two roundings: 29 of 100 guests are shown as 28 percent.\<close>

lemma rate_loses_a_percent:
  "participation_rate 29 100 = 28" "participation_rate 57 100 = 56" "participation_rate 1 2 = 50"
  by (simp_all add: participation_rate_def float_of_nat_def float_div_def float_mul_def float_to_nat_def round_ratio_def
      round_even_def bit_length.simps Let_def)

end
