(* ===== verification/Spec2Isabelle.thy ===== *)
theory Spec2Isabelle
  imports Event PaidProps QuoteProps GalleryProps ThumbProps JobProps ArchiveProps RetentionProps GuestProps
    WallProps ExportProps RealtimeProps AccountProps InsightsProps HttpProps GuestHttpProps PaddleProps
    ConfigProps ReconcileProps PlanctlProps EventListProps
begin

text \<open>
  Verification of the CandidCrowd backend.

  The program is the API of a service for photographs of guests. A host creates an event, guests
  scan its code and upload through links signed for an object store, the host curates, a live wall
  shows what is visible, and the plan of the event, free or bought through a payment provider,
  decides about limits, features and how long the media are kept. Under src/, cmd/api is the
  server, cmd/planctl the tool of the operators, internal/ holds one package per feature, and
  migrations/ the constraints of the tables.

  Conventions. Prelude has identifiers, instants (nanoseconds), 64-bit arithmetic that wraps, Go's
  string functions on bytes, and SQL statements as operations on lists of rows. Schema has a record
  for every struct that is stored, a datatype for every enumeration and sentinel error, and the
  database, one list per table. A result that may fail is \<open>error + 'a\<close>; a transaction that fails
  leaves the database as it was. The constraints of the migrations that the code relies on (keys,
  partial unique indexes, checks, references) are tests in the functions that write a table, so that
  a violation is a branch of the model. A method of a repository is \<open>db_<Method>\<close>, a method of a
  service has its own name and takes the service as a record of what it was built with.

  \<^item> Plans. Catalog models internal/catalog (registry, versions, prices); Entitlement models
    internal/entitlement (grants, transitions, expiry, revocation, backfill, feature checks), License
    its license.go, PlanReads the overview of a host and the reconciliation report. EntitlementFacts,
    GrantProps and LicenseProps show what a grant or a paid activation does to the active grant, the
    limits of the event and the licenses, behind the interface \<open>grant_ledger\<close>.
  \<^item> Billing. BillingRepo and Billing model internal/billing (quotes, checkout, notifications with
    deduplication, settlement, reversals, reconciliation), Paddle the provider adapters of
    internal/platform/paddle and fakepay, BillingHttp the endpoints, Wiring the adapters of
    cmd/api/billing_adapters.go and the service they form. Ledger states the life cycle of a purchase
    (\<open>purchase_step\<close>) as the interface \<open>billing_ledger\<close> and proves that a delivery moves a purchase by at
    most one step; BillingProps bounds refunds and proves that a delivery counts once, PaidProps that
    an accepted payment is applied and reconciliation converges, QuoteProps the arithmetic of quotes,
    PaddleProps that signed deliveries and amounts survive the way to the provider and back.
  \<^item> Events and accounts. Event, Customization and EventList model internal/event, Accounts models
    internal/profile and internal/user, Insights models internal/insights. EventListProps covers the
    pages of the list; AccountProps and InsightsProps cover accounts and participation numbers.
  \<^item> Media. MediaRepo models the port and its PostgreSQL adapter, Media the service, Gallery the
    pages and links, MediaJob the queue of deferred work with its worker. MediaQuota gives an abstract
    system of quota steps (\<open>media_step\<close>), MediaApp shows that every call of the service is a sequence
    of them, MediaProps and ConfirmProps rest on that; ReconcileProps adds the counters of what was
    uploaded, GalleryProps the interface \<open>keyset_pages\<close>, ThumbProps thumbnails and the duplicate
    check, JobProps the life of a job behind the interface \<open>job_runner\<close>.
  \<^item> After the event. Archive models the replication to the long-term archive, Retention the purge
    of media whose storage ended, ExportJob the archives a host downloads; ArchiveProps, RetentionProps
    and ExportProps are about originals that must not be lost, media that must go, and outcomes.
  \<^item> Guests and live pages. Guest models sessions, LiveWall the wall of a projector, Realtime the
    messages and who gets them, Hub the goroutines of internal/realtime/hub.go and the connection of
    stream.go as a step relation over actions that take one lock each. HubInv has its invariant over
    the multiset of pending actions, HubProps what follows for every interleaving; GuestProps,
    WallProps and RealtimeProps cover the rest.
  \<^item> HTTP. Http has error answers, ownership and the plan gate; HostHttp, EventHttp and PublicHttp
    have the handlers of internal/httpapi, internal/event and internal/profile, Router the routes of an
    event and the dispatcher. HttpProps shows that strangers are turned away on every route and that
    the plan gate is exact, GuestHttpProps what guests can see.
  \<^item> The processes. Config models internal/config and what cmd/api/main.go starts from it, Planctl
    models cmd/planctl with its flags. ConfigProps follows a notification from the environment
    variable of the secret to the database; PlanctlProps says which commands only look and what the
    repair of purchases by hand leaves undone.
  \<^item> Fixtures, BillingFixtures, PaddleFixtures and HttpFixtures hold the concrete deployment on
    which the witnesses evaluate the definitions; PaddleFacts the parsing and printing of numbers.

  Interleaving is explicit: concurrent guests, hosts, jobs and deliveries are sequences of repository
  calls, each of which is one transaction, or, in Hub, of actions under one lock. Nothing is assumed
  about their order.

  Loops. The recursions of the code over lists are structural. Fuel stands for: trimming
  (\<open>trim_left_fuel\<close>, one unit per byte, proved enough), the pages of the backfill (None is a run the
  fuel was not enough for; every page but the last names ids above the previous ones) and the passes
  of the media worker (\<open>worker_comes_to_rest\<close> bounds them by the attempts that are left).

  Parameters, because their code is not under src/: JSON encoding, digests and the MAC, random bytes,
  the text of a uuid, cron and duration syntax, the object store, the archive client's remote side,
  ffmpeg and the image codecs, Redis (limiter, cache, bus), the transport to the provider, the
  database's collation and lower case. What a proof needs of them is a hypothesis of the theorem
  (for instance that parsing gives back what was printed), with a witness that instantiates it.

  Not modelled, and why:
  \<^item> internal/platform/r2, redis, auth, cors, database.go and googledrive are clients of remote
    services and carry no decisions of their own; the verification of tokens is a library's.
  \<^item> The parsing of ffprobe output and the encoding of ZIP archives and of the frames of a stream:
    formats of third parties, on which no other part of the program depends.
  \<^item> The handler of the public plan list, constructors and setters, logging, timeouts and
    cancellation, and the loops that only sleep between two runs that are modelled.
  \<^item> Metrics attached to the answer of a single event; those of the list are in EventList.
  \<^item> cmd/r2cors, which sets one rule on a bucket, and the Value and Scan methods of columns stored
    as JSON: a snapshot is a record here.
  \<^item> Durations and float64 quotients are exact where the text of a theory says so; the participation
    rate is computed with the roundings of binary floating point.
\<close>

end
